(* ===== verification/Prelude.thy ===== *)
theory Prelude
  imports Main "HOL-Library.Char_ord" "HOL-Library.List_Lexorder" "HOL-Library.Product_Lexorder"
begin

text \<open>
  The vocabulary every component shares: Python values as the code's dynamic checks see them
  (\<open>pyval\<close>), the string operations the code uses, errors as the left injection of a sum with a
  bind and a loop over it, UUIDs with their textual form, and the query idioms of the
  repositories (\<open>order_by(... desc).limit(1)\<close>).  The lemmas are declared so that
  \<open>simp\<close> and \<open>auto\<close> carry the component proofs.
\<close>

named_theorems py_defs "unfoldings of the small Python idioms"

section \<open>Errors as sums\<close>

text \<open>A raising Python function returns \<open>Inl error\<close>; sequencing stops at the first error.\<close>

definition bindE :: "'e + 'a \<Rightarrow> ('a \<Rightarrow> 'e + 'b) \<Rightarrow> 'e + 'b" where
  "bindE x f = (case x of Inl e \<Rightarrow> Inl e | Inr a \<Rightarrow> f a)"

definition check :: "bool \<Rightarrow> 'e \<Rightarrow> 'e + unit" where
  "check ok e = (if ok then Inr () else Inl e)"

fun for_each :: "('a \<Rightarrow> 'e + unit) \<Rightarrow> 'a list \<Rightarrow> 'e + unit" where
  "for_each f [] = Inr ()"
| "for_each f (x # xs) = bindE (f x) (\<lambda>_. for_each f xs)"

lemma bindE_simps [simp]:
  "bindE (Inl e) f = Inl e"
  "bindE (Inr a) f = f a"
  by (simp_all add: bindE_def)

lemma bindE_Inr_iff [simp]: "bindE x f = Inr y \<longleftrightarrow> (\<exists>a. x = Inr a \<and> f a = Inr y)"
  by (cases x) auto

lemma Inr_bindE_iff [simp]: "Inr y = bindE x f \<longleftrightarrow> (\<exists>a. x = Inr a \<and> f a = Inr y)"
  by (cases x) auto

lemma check_Inr_iff [simp]: "check ok e = Inr u \<longleftrightarrow> ok"
  by (simp add: check_def)

lemma check_simps [simp]: "check True e = Inr ()" "check False e = Inl e"
  by (simp_all add: check_def)

lemma for_each_Inr_iff [simp]: "for_each f xs = Inr u \<longleftrightarrow> (\<forall>x\<in>set xs. f x = Inr ())"
  by (induction xs) auto

lemma for_each_cong [fundef_cong]:
  "xs = ys \<Longrightarrow> (\<And>x. x \<in> set ys \<Longrightarrow> f x = g x) \<Longrightarrow> for_each f xs = for_each g ys"
  by (induction ys arbitrary: xs) auto

text \<open>An error of one component as an error of the caller.\<close>

definition lift_error :: "('e \<Rightarrow> 'f) \<Rightarrow> 'e + 'a \<Rightarrow> 'f + 'a" where
  "lift_error f x = (case x of Inl e \<Rightarrow> Inl (f e) | Inr a \<Rightarrow> Inr a)"

lemma lift_error_Inr [simp]: "lift_error f x = Inr a \<longleftrightarrow> x = Inr a"
  by (cases x) (simp_all add: lift_error_def)

lemma lift_error_simps [simp]: "lift_error f (Inl e) = Inl (f e)" "lift_error f (Inr a) = Inr a"
  by (simp_all add: lift_error_def)

section \<open>Identifiers and time\<close>

text \<open>
  A UUID is its 128-bit integer.  A timestamp is an aware UTC \<open>datetime\<close>, counted in
  microseconds; a \<open>date\<close> is the number of days since the epoch.
\<close>

type_synonym uuid = nat
type_synonym timestamp = int

definition hours :: "int \<Rightarrow> timestamp" where
  "hours h = h * 3600000000"

definition day_start :: "int \<Rightarrow> timestamp" where
  "day_start d = d * 86400000000"

definition date_of :: "timestamp \<Rightarrow> int" where
  "date_of t = t div 86400000000"

lemma date_of_bounds: "day_start (date_of t) \<le> t \<and> t < day_start (date_of t + 1)"
proof -
  have "t = date_of t * 86400000000 + t mod 86400000000"
    and "0 \<le> t mod 86400000000" and "t mod 86400000000 < 86400000000"
    by (simp_all add: date_of_def)
  then show ?thesis
    unfolding day_start_def distrib_right by linarith
qed

lemma day_start_less_iff: "day_start a < day_start b \<longleftrightarrow> a < b"
  by (simp add: day_start_def)

lemma date_of_eq_iff: "date_of t = d \<longleftrightarrow> day_start d \<le> t \<and> t < day_start (d + 1)"
proof
  assume "date_of t = d"
  then show "day_start d \<le> t \<and> t < day_start (d + 1)"
    using date_of_bounds [of t] by simp
next
  assume h: "day_start d \<le> t \<and> t < day_start (d + 1)"
  then have "day_start d < day_start (date_of t + 1)"
    using date_of_bounds [of t] by simp
  moreover have "day_start (date_of t) < day_start (d + 1)"
    using h date_of_bounds [of t] by simp
  ultimately show "date_of t = d"
    by (simp add: day_start_less_iff)
qed

definition hex_digits :: string where
  "hex_digits = ''0123456789abcdef''"

definition hex_char :: "nat \<Rightarrow> char" where
  "hex_char n = hex_digits ! (n mod 16)"

text \<open>\<open>'\%032x'\<close>, most significant digit first.\<close>

primrec hex_rev :: "nat \<Rightarrow> nat \<Rightarrow> string" where
  "hex_rev 0 n = []"
| "hex_rev (Suc k) n = hex_char n # hex_rev k (n div 16)"

definition hex32 :: "uuid \<Rightarrow> string" where
  "hex32 n = rev (hex_rev 32 n)"

definition uuid_str :: "uuid \<Rightarrow> string" where
  "uuid_str n = (let h = hex32 n in
     take 8 h @ ''-'' @ take 4 (drop 8 h) @ ''-'' @ take 4 (drop 12 h) @ ''-'' @
     take 4 (drop 16 h) @ ''-'' @ drop 20 h)"

lemma length_hex_rev [simp]: "length (hex_rev k n) = k"
  by (induction k arbitrary: n) auto

lemma hex_char_inj: "hex_char a = hex_char b \<Longrightarrow> a mod 16 = b mod 16"
proof -
  have "distinct hex_digits" and "length hex_digits = 16"
    by (simp_all add: hex_digits_def)
  then show "hex_char a = hex_char b \<Longrightarrow> a mod 16 = b mod 16"
    by (simp add: hex_char_def nth_eq_iff_index_eq)
qed

lemma hex_rev_inj: "hex_rev k a = hex_rev k b \<Longrightarrow> a mod 16 ^ k = b mod 16 ^ k"
proof (induction k arbitrary: a b)
  case 0
  show ?case by simp
next
  case (Suc k)
  from Suc.prems have hd: "hex_char a = hex_char b" and tl: "hex_rev k (a div 16) = hex_rev k (b div 16)"
    by simp_all
  from hd have "a mod 16 = b mod 16" by (rule hex_char_inj)
  moreover from tl have "(a div 16) mod 16 ^ k = (b div 16) mod 16 ^ k" by (rule Suc.IH)
  moreover have "x mod 16 ^ Suc k = 16 * ((x div 16) mod 16 ^ k) + x mod 16" for x :: nat
    by (simp only: power_Suc mod_mult2_eq)
  ultimately show ?case by simp
qed

lemma uuid_groups:
  "take 8 h @ take 4 (drop 8 h) @ take 4 (drop 12 h) @ take 4 (drop 16 h) @ drop 20 h = h"
proof -
  have "take 4 (drop 16 h) @ drop 20 h = drop 16 h"
    using append_take_drop_id [of 4 "drop 16 h"] by simp
  moreover have "take 4 (drop 12 h) @ drop 16 h = drop 12 h"
    using append_take_drop_id [of 4 "drop 12 h"] by simp
  moreover have "take 4 (drop 8 h) @ drop 12 h = drop 8 h"
    using append_take_drop_id [of 4 "drop 8 h"] by simp
  ultimately show ?thesis
    by (simp only: append_take_drop_id)
qed

lemma hex_char_not_dash: "hex_char n \<noteq> CHR ''-''"
proof -
  have "hex_char n \<in> set hex_digits"
    unfolding hex_char_def by (rule nth_mem) (simp add: hex_digits_def)
  then show ?thesis by (auto simp: hex_digits_def)
qed

lemma set_hex_rev_not_dash: "c \<in> set (hex_rev k n) \<Longrightarrow> c \<noteq> CHR ''-''"
  by (induction k arbitrary: n) (auto simp: hex_char_not_dash hex_char_not_dash [THEN not_sym])

text \<open>Removing the dashes gives the 32 digits back, as \<open>uuid.UUID(text)\<close> does.\<close>

lemma uuid_str_digits: "filter (\<lambda>c. c \<noteq> CHR ''-'') (uuid_str n) = hex32 n"
proof -
  define h where "h = hex32 n"
  have nd: "\<forall>c\<in>set h. c \<noteq> CHR ''-''"
    unfolding h_def hex32_def by (auto dest: set_hex_rev_not_dash)
  have t: "filter (\<lambda>c. c \<noteq> CHR ''-'') (take i (drop j h)) = take i (drop j h)"
    and t0: "filter (\<lambda>c. c \<noteq> CHR ''-'') (take i h) = take i h"
    and d: "filter (\<lambda>c. c \<noteq> CHR ''-'') (drop i h) = drop i h" for i j
    using nd by (auto simp: filter_id_conv dest: in_set_takeD in_set_dropD)
  have "filter (\<lambda>c. c \<noteq> CHR ''-'') (uuid_str n) =
      take 8 h @ take 4 (drop 8 h) @ take 4 (drop 12 h) @ take 4 (drop 16 h) @ drop 20 h"
    by (simp only: uuid_str_def Let_def h_def [symmetric] filter_append t t0 d) simp
  also have "\<dots> = h" by (rule uuid_groups)
  finally show ?thesis by (simp only: h_def)
qed

lemma uuid_str_inj:
  assumes "uuid_str a = uuid_str b" "a < 2 ^ 128" "b < 2 ^ 128"
  shows "a = b"
proof -
  have "hex32 a = hex32 b"
    using assms(1) uuid_str_digits [of a] uuid_str_digits [of b] by metis
  then have "hex_rev 32 a = hex_rev 32 b"
    unfolding hex32_def by (simp only: rev_is_rev_conv)
  then have "a mod 16 ^ 32 = b mod 16 ^ 32"
    by (rule hex_rev_inj)
  moreover have "(16::nat) ^ 32 = 2 ^ 128"
    by simp
  ultimately show ?thesis
    using assms(2,3) by (simp only: mod_less)
qed

section \<open>Python values\<close>

text \<open>
  The values that reach the code's dynamic checks: JSON data, and the few other objects the code
  tests for.  A finite float keeps its \<open>repr\<close>; a \<open>Decimal\<close> is its signed coefficient and its
  exponent; any other object is known by its \<open>str\<close>.  A dict is its items in insertion order.
  A string is a list of characters read as code points below 256.
\<close>

datatype pyfloat = FloatFinite string | FloatNaN | FloatInf bool

datatype pydec = DecFinite int int | DecInfinity bool | DecNaN

datatype pyval =
    PNone
  | is_bool: PBool bool
  | is_int: PInt int
  | is_float: PFloat pyfloat
  | is_decimal: PDecimal pydec
  | is_str: PStr string
  | is_uuid: PUuid uuid
  | POther string
  | is_list: PList "pyval list"
  | is_tuple: PTuple "pyval list"
  | is_dict: PDict "(string \<times> pyval) list"

type_synonym pydict = "(string \<times> pyval) list"

definition dget :: "pydict \<Rightarrow> string \<Rightarrow> pyval" where
  "dget d k = (case map_of d k of None \<Rightarrow> PNone | Some v \<Rightarrow> v)"

definition dhas :: "pydict \<Rightarrow> string \<Rightarrow> bool" where
  "dhas d k = (k \<in> set (map fst d))"

definition opt_str :: "string option \<Rightarrow> pyval" where
  "opt_str s = (case s of None \<Rightarrow> PNone | Some t \<Rightarrow> PStr t)"

definition opt_bool :: "bool option \<Rightarrow> pyval" where
  "opt_bool b = (case b of None \<Rightarrow> PNone | Some t \<Rightarrow> PBool t)"

definition str_list :: "string list \<Rightarrow> pyval" where
  "str_list xs = PList (map PStr xs)"

lemma dhas_iff: "dhas d k \<longleftrightarrow> (\<exists>v. map_of d k = Some v)"
  by (induction d) (auto simp: dhas_def)

lemma dhas_simps [simp]: "dhas [] k \<longleftrightarrow> False" "dhas ((j, v) # d) k \<longleftrightarrow> j = k \<or> dhas d k"
  by (auto simp: dhas_def)

lemma dget_simps [simp]: "dget [] k = PNone" "dget ((j, v) # d) k = (if k = j then v else dget d k)"
  by (auto simp: dget_def)

text \<open>\<open>bool(value)\<close>: the falsy values are empty, zero or \<open>None\<close>.\<close>

definition py_truthy :: "pyval \<Rightarrow> bool" where
  "py_truthy v = (case v of
       PNone \<Rightarrow> False
     | PBool b \<Rightarrow> b
     | PInt n \<Rightarrow> n \<noteq> 0
     | PFloat x \<Rightarrow> x \<noteq> FloatFinite ''0.0'' \<and> x \<noteq> FloatFinite ''-0.0''
     | PDecimal x \<Rightarrow> (case x of DecFinite c e \<Rightarrow> c \<noteq> 0 | _ \<Rightarrow> True)
     | PStr s \<Rightarrow> s \<noteq> []
     | PList xs \<Rightarrow> xs \<noteq> []
     | PTuple xs \<Rightarrow> xs \<noteq> []
     | PDict d \<Rightarrow> d \<noteq> []
     | _ \<Rightarrow> True)"

lemma py_truthy_simps [simp]:
  "py_truthy PNone \<longleftrightarrow> False" "py_truthy (PBool b) \<longleftrightarrow> b" "py_truthy (PInt n) \<longleftrightarrow> n \<noteq> 0"
  "py_truthy (PStr s) \<longleftrightarrow> s \<noteq> []" "py_truthy (PList xs) \<longleftrightarrow> xs \<noteq> []" "py_truthy (PDict d) \<longleftrightarrow> d \<noteq> []"
  by (simp_all add: py_truthy_def)

lemma dhas_dget_cases: "dhas d k \<or> dget d k = PNone"
  by (auto simp: dhas_iff dget_def split: option.splits)

lemma dget_mem: "dhas d k \<Longrightarrow> (k, dget d k) \<in> set d"
  by (auto simp: dhas_iff dget_def dest: map_of_SomeD)

section \<open>Strings\<close>

text \<open>\<open>str.strip\<close> and \<open>str.lower\<close> on code points below 256, and the length in UTF-8 bytes.\<close>

definition py_space :: "char \<Rightarrow> bool" where
  "py_space c = (let n = (of_char c :: nat) in
     (9 \<le> n \<and> n \<le> 13) \<or> (28 \<le> n \<and> n \<le> 32) \<or> n = 133 \<or> n = 160)"

definition py_strip :: "string \<Rightarrow> string" where
  "py_strip s = rev (dropWhile py_space (rev (dropWhile py_space s)))"

definition lower_char :: "char \<Rightarrow> char" where
  "lower_char c = (let n = (of_char c :: nat) in
     if (65 \<le> n \<and> n \<le> 90) \<or> (192 \<le> n \<and> n \<le> 222 \<and> n \<noteq> 215) then char_of (n + 32) else c)"

definition py_lower :: "string \<Rightarrow> string" where
  "py_lower s = map lower_char s"

definition utf8_len :: "string \<Rightarrow> nat" where
  "utf8_len s = sum_list (map (\<lambda>c. if (of_char c :: nat) < 128 then 1 else 2) s)"

fun starts_with :: "string \<Rightarrow> string \<Rightarrow> bool" where
  "starts_with [] s = True"
| "starts_with (c # cs) [] = False"
| "starts_with (c # cs) (d # ds) = (c = d \<and> starts_with cs ds)"

text \<open>\<open>needle in haystack\<close>.\<close>

fun py_in :: "string \<Rightarrow> string \<Rightarrow> bool" where
  "py_in p [] = starts_with p []"
| "py_in p (c # cs) = (starts_with p (c # cs) \<or> py_in p cs)"

lemma py_strip_Nil [simp]: "py_strip [] = []"
  by (simp add: py_strip_def)

lemma py_strip_empty_iff: "py_strip s = [] \<longleftrightarrow> (\<forall>c\<in>set s. py_space c)"
proof
  assume "py_strip s = []"
  then have t: "\<forall>c\<in>set (dropWhile py_space s). py_space c"
    by (simp add: py_strip_def dropWhile_eq_Nil_conv)
  show "\<forall>c\<in>set s. py_space c"
  proof (cases "dropWhile py_space s")
    case Nil
    then show ?thesis by (simp add: dropWhile_eq_Nil_conv)
  next
    case (Cons c cs)
    then have "\<not> py_space c" using hd_dropWhile [of py_space s] by simp
    with t Cons show ?thesis by simp
  qed
next
  assume "\<forall>c\<in>set s. py_space c"
  then show "py_strip s = []"
    by (simp add: py_strip_def dropWhile_eq_Nil_conv [THEN iffD2])
qed

text \<open>\<open>value is None or (isinstance(value, str) and value.strip() == "")\<close>.\<close>

definition py_empty :: "pyval \<Rightarrow> bool" where
  "py_empty v = (case v of PNone \<Rightarrow> True | PStr s \<Rightarrow> py_strip s = [] | _ \<Rightarrow> False)"

definition str_in :: "pyval \<Rightarrow> string list \<Rightarrow> bool" where
  "str_in v xs = (case v of PStr s \<Rightarrow> s \<in> set xs | _ \<Rightarrow> False)"

lemma str_in_iff: "str_in v xs \<longleftrightarrow> (\<exists>s\<in>set xs. v = PStr s)"
  by (cases v) (auto simp: str_in_def)

lemma py_empty_simps [simp]: "py_empty PNone" "py_empty (PStr s) \<longleftrightarrow> py_strip s = []"
  by (simp_all add: py_empty_def)

section \<open>Query idioms of the repositories\<close>

text \<open>
  \<open>select(...).order_by(key.desc()).limit(1)\<close> over a table in insertion order.  Among rows with the
  same key SQL leaves the choice open; the model takes the earliest row.
\<close>

fun latest_by :: "('r \<Rightarrow> 'k::linorder) \<Rightarrow> 'r list \<Rightarrow> 'r option" where
  "latest_by key [] = None"
| "latest_by key (r # rs) =
     (case latest_by key rs of
        None \<Rightarrow> Some r
      | Some s \<Rightarrow> if key r < key s then Some s else Some r)"

definition update_where :: "('r \<Rightarrow> bool) \<Rightarrow> ('r \<Rightarrow> 'r) \<Rightarrow> 'r list \<Rightarrow> 'r list" where
  "update_where P f rs = map (\<lambda>r. if P r then f r else r) rs"

lemma latest_by_None [simp]: "latest_by key rs = None \<longleftrightarrow> rs = []"
  by (cases rs) (auto split: option.splits)

lemma latest_by_mem: "latest_by key rs = Some r \<Longrightarrow> r \<in> set rs"
  by (induction rs arbitrary: r) (auto split: option.splits if_splits)

lemma latest_by_max: "latest_by key rs = Some r \<Longrightarrow> s \<in> set rs \<Longrightarrow> key s \<le> key r"
proof (induction rs arbitrary: r)
  case (Cons x xs)
  show ?case
  proof (cases "latest_by key xs")
    case None
    with Cons.prems show ?thesis by auto
  next
    case (Some y)
    with Cons.prems Cons.IH [OF Some] show ?thesis
      by (fastforce split: if_splits)
  qed
qed simp

lemma latest_by_snoc:
  "latest_by key (rs @ [r]) =
     (case latest_by key rs of None \<Rightarrow> Some r | Some s \<Rightarrow> if key s < key r then Some r else Some s)"
  by (induction rs) (auto split: option.splits)

lemma filter_update_where:
  "(\<And>r. P r \<Longrightarrow> Q (f r) = Q r) \<Longrightarrow>
     filter Q (update_where P f rs) = update_where P f (filter Q rs)"
  by (induction rs) (auto simp: update_where_def)

lemma filter_update_where_disjoint:
  "(\<And>r. P r \<Longrightarrow> \<not> Q r \<and> \<not> Q (f r)) \<Longrightarrow> filter Q (update_where P f rs) = filter Q rs"
  by (induction rs) (auto simp: update_where_def)

lemma map_update_where:
  "(\<And>r. P r \<Longrightarrow> g (f r) = g r) \<Longrightarrow> map g (update_where P f rs) = map g rs"
  by (auto simp: update_where_def)

text \<open>\<open>Result.scalar_one_or_none()\<close>: more than one row is an error.\<close>

definition scalar_one_or_none :: "'e \<Rightarrow> 'r list \<Rightarrow> 'e + 'r option" where
  "scalar_one_or_none multiple rs =
     (case rs of [] \<Rightarrow> Inr None | [r] \<Rightarrow> Inr (Some r) | _ \<Rightarrow> Inl multiple)"

lemma scalar_one_or_none_simps [simp]:
  "scalar_one_or_none e [] = Inr None"
  "scalar_one_or_none e [r] = Inr (Some r)"
  "scalar_one_or_none e (r # s # rs) = Inl e"
  by (simp_all add: scalar_one_or_none_def)

lemma scalar_one_or_none_iff:
  "scalar_one_or_none e rs = Inr None \<longleftrightarrow> rs = []"
  "scalar_one_or_none e rs = Inr (Some r) \<longleftrightarrow> rs = [r]"
  by (auto simp: scalar_one_or_none_def split: list.splits)

lemma find_Some_mem: "List.find P rs = Some r \<Longrightarrow> r \<in> set rs \<and> P r"
  by (induction rs) (auto split: if_splits)

lemma find_None_iff_bex: "List.find P rs = None \<longleftrightarrow> (\<forall>r\<in>set rs. \<not> P r)"
  by (induction rs) auto

lemma find_unique:
  "distinct (map key rs) \<Longrightarrow> r \<in> set rs \<Longrightarrow> P r \<Longrightarrow> (\<And>s. P s \<Longrightarrow> key s = key r) \<Longrightarrow>
     List.find P rs = Some r"
proof (induction rs)
  case (Cons x xs)
  show ?case
  proof (cases "P x")
    case True
    then have "key x = key r" by (rule Cons.prems(4))
    with Cons.prems(1,2) have "x = r" by (metis distinct.simps(2) list.simps(9) image_eqI list.set_map set_ConsD)
    with True show ?thesis by simp
  next
    case False
    with Cons.prems(3) have "x \<noteq> r" by blast
    with Cons.prems(1,2) have "distinct (map key xs)" "r \<in> set xs" by simp_all
    then have "List.find P xs = Some r"
      using Cons.prems(3,4) by (rule Cons.IH)
    with False show ?thesis by simp
  qed
qed simp

lemma find_by_id:
  assumes "distinct (map f xs)" "x \<in> set xs"
  shows "List.find (\<lambda>y. f y = f x) xs = Some x"
  by (rule find_unique [of f]) (use assms in auto)

lemma find_append_None: "List.find P xs = None \<Longrightarrow> List.find P (xs @ ys) = List.find P ys"
  by (induction xs) (auto split: if_splits)

lemma find_append_Some: "List.find P xs = Some r \<Longrightarrow> List.find P (xs @ ys) = Some r"
  by (induction xs) (auto split: if_splits)

end
