(* ===== verification/Interfaces.thy ===== *)
theory Interfaces
  imports Prelude
begin

text \<open>
  The contracts components share, each a locale: status lifecycles with terminal states, one-way
  lifecycles (every transition descends), and grant/revoke ledgers read at their latest event.  The
  theory of each provider interprets them on the code's own tables and operations.
\<close>

section \<open>Status lifecycles\<close>

text \<open>\<open>path R s ts\<close>: the statuses \<open>ts\<close> are reached from \<open>s\<close>, each by one allowed transition.\<close>

fun path :: "('s \<Rightarrow> 's \<Rightarrow> bool) \<Rightarrow> 's \<Rightarrow> 's list \<Rightarrow> bool" where
  "path R s [] = True"
| "path R s (t # ts) = (R s t \<and> path R t ts)"

lemma path_append: "path R s (ts @ us) \<longleftrightarrow> path R s ts \<and> path R (last (s # ts)) us"
  by (induction ts arbitrary: s) auto

locale lifecycle =
  fixes allowed :: "'s \<Rightarrow> 's \<Rightarrow> bool"
    and terminal :: "'s \<Rightarrow> bool"
  assumes terminal_stuck: "terminal s \<Longrightarrow> \<not> allowed s t"
begin

lemma terminal_path: "terminal s \<Longrightarrow> path allowed s ts \<Longrightarrow> ts = []"
  using terminal_stuck by (cases ts) auto

lemma terminal_only_last: "path allowed s ts \<Longrightarrow> terminal t \<Longrightarrow> t \<in> set (butlast (s # ts)) \<Longrightarrow> False"
proof (induction ts arbitrary: s)
  case (Cons u us)
  then show ?case
    using terminal_stuck by (auto split: if_splits)
qed simp

end

locale one_way_lifecycle = lifecycle +
  fixes rank :: "'s \<Rightarrow> nat"
  assumes rank_descends: "allowed s t \<Longrightarrow> rank t < rank s"
begin

lemma path_length: "path allowed s ts \<Longrightarrow> length ts \<le> rank s"
proof (induction ts arbitrary: s)
  case (Cons t ts)
  then have "rank t < rank s" and "length ts \<le> rank t"
    using rank_descends by auto
  then show ?case by simp
qed simp

lemma path_descends: "path allowed s ts \<Longrightarrow> t \<in> set ts \<Longrightarrow> rank t < rank s"
proof (induction ts arbitrary: s)
  case (Cons u us)
  then have "rank u < rank s" and "path allowed u us"
    using rank_descends by auto
  with Cons.prems(2) Cons.IH [of u] show ?case
    by fastforce
qed simp

lemma no_status_revisited: "path allowed s ts \<Longrightarrow> distinct (s # ts)"
proof (induction ts arbitrary: s)
  case (Cons t ts)
  have "s \<notin> set (t # ts)"
    using path_descends [OF Cons.prems] by auto
  with Cons show ?case by auto
qed simp

end

section \<open>Grant/revoke ledgers\<close>

text \<open>
  A ledger that is only appended to and is read at the latest event for a key: deny by default,
  the last grant or revoke decides, and events for other keys do not matter.  Each event carries an
  annotation (who, why) that the reading ignores.
\<close>

locale grant_ledger =
  fixes empty :: "'l"
    and grant :: "'k \<Rightarrow> 'm \<Rightarrow> 'l \<Rightarrow> 'l"
    and revoke :: "'k \<Rightarrow> 'm \<Rightarrow> 'l \<Rightarrow> 'l"
    and allowed :: "'k \<Rightarrow> 'l \<Rightarrow> bool"
  assumes deny_by_default: "\<not> allowed k empty"
    and allowed_grant: "allowed k (grant j m l) \<longleftrightarrow> k = j \<or> allowed k l"
    and allowed_revoke: "allowed k (revoke j m l) \<longleftrightarrow> k \<noteq> j \<and> allowed k l"
begin

text \<open>A history: \<open>True\<close> grants the key, \<open>False\<close> revokes it.\<close>

fun run_ledger :: "('k \<times> bool \<times> 'm) list \<Rightarrow> 'l \<Rightarrow> 'l" where
  "run_ledger [] l = l"
| "run_ledger ((k, g, m) # es) l = run_ledger es (if g then grant k m l else revoke k m l)"

lemma allowed_run_ledger:
  "allowed k (run_ledger es l) \<longleftrightarrow>
     (case filter (\<lambda>e. fst e = k) es of
        [] \<Rightarrow> allowed k l
      | _ \<Rightarrow> fst (snd (last (filter (\<lambda>e. fst e = k) es))))"
proof (induction es arbitrary: l)
  case (Cons e es)
  obtain j g m where e: "e = (j, g, m)" by (cases e)
  show ?case
    by (simp add: e Cons.IH allowed_grant allowed_revoke split: list.splits)
qed simp

lemma never_granted: "(\<forall>m. (k, True, m) \<notin> set es) \<Longrightarrow> \<not> allowed k (run_ledger es empty)"
proof (induction es rule: rev_induct)
  case (snoc e es)
  then show ?case
    by (cases e) (auto simp: allowed_run_ledger deny_by_default split: list.splits)
qed (simp add: deny_by_default)

end

end
