(* ===== verification/Store.thy ===== *)
theory Store
  imports Interfaces
begin

text \<open>
  The database the repositories share (\<open>app/models/*.py\<close>), the tenant context and the verified
  actor (\<open>app/tenancy.py\<close>, \<open>app/identity.py\<close>), and the audit writer (\<open>app/audit.py\<close>).
  A table is the list of its rows in insertion order; \<open>session.add\<close> with \<open>flush\<close> appends, a
  \<open>select\<close> filters.  \<open>db_now\<close> is the transaction's \<open>now()\<close>, \<open>db_next_id\<close> the next
  \<open>gen_random_uuid()\<close>.  The foreign keys, triggers and row-level security of the migrations are
  not part of the store.
\<close>

section \<open>Rows\<close>

record audit_row =
  au_tenant :: uuid
  au_actor :: string
  au_action :: string
  au_target :: "string option"
  au_payload :: pydict

record policy_row =
  pol_id :: uuid
  pol_tenant :: uuid
  pol_project :: uuid
  pol_level :: int
  pol_overrides :: pyval
  pol_updated_at :: timestamp

datatype risk_tier = LOW | MEDIUM | HIGH | PRODUCTION

datatype approval_status = PENDING | APPROVED | REJECTED | CANCELLED | EXPIRED | PROCEEDED_BY_POLICY

record approval_row =
  ap_id :: uuid
  ap_tenant :: uuid
  ap_project :: uuid
  ap_action :: string
  ap_subject_ref :: "string option"
  ap_risk_tier :: risk_tier
  ap_explicit :: bool
  ap_status :: approval_status
  ap_requested_by :: string
  ap_requested_prov :: string
  ap_requested_at :: timestamp
  ap_deadline_at :: "timestamp option"
  ap_resolved_by :: "string option"
  ap_resolved_at :: "timestamp option"
  ap_approver_prov :: string
  ap_payload :: pydict

record approval_event_row =
  ape_tenant :: uuid
  ape_approval :: uuid
  ape_type :: string
  ape_actor :: string
  ape_note :: "string option"

datatype allow_event = Grant | Revoke

record allowlist_row =
  al_tenant :: uuid
  al_agent :: string
  al_tool :: string
  al_event :: allow_event
  al_actor :: string
  al_reason :: "string option"

record tool_call_row =
  tc_id :: uuid
  tc_tenant :: uuid
  tc_project :: uuid
  tc_agent :: string
  tc_agent_prov :: string
  tc_tool :: string
  tc_action :: "string option"
  tc_decision :: string
  tc_reason :: "string option"
  tc_params :: pydict

datatype instance_status = REGISTERED | ACTIVE | SUSPENDED | RETIRED

record instance_row =
  in_id :: uuid
  in_tenant :: uuid
  in_project :: uuid
  in_status :: instance_status

record realization_row =
  re_id :: uuid
  re_tenant :: uuid
  re_instance :: uuid
  re_status :: string

record cost_row =
  ce_id :: uuid
  ce_tenant :: uuid
  ce_project :: uuid
  ce_run :: "uuid option"
  ce_component :: string
  ce_amount :: int
  ce_quantity :: "int option"
  ce_source :: string
  ce_ref :: "string option"
  ce_description :: "string option"
  ce_actor :: string
  ce_occurred_at :: timestamp

record budget_row =
  bu_id :: uuid
  bu_tenant :: uuid
  bu_project :: uuid
  bu_max_total :: int
  bu_max_daily :: "int option"

datatype run_status = Created | Running | Paused | Blocked | Completed | Failed

record run_row =
  ru_id :: uuid
  ru_tenant :: uuid
  ru_project :: uuid
  ru_status :: run_status

record step_row =
  st_id :: uuid
  st_tenant :: uuid
  st_project :: uuid
  st_run :: uuid
  st_node :: "string option"
  st_event :: string
  st_from :: "run_status option"
  st_to :: "run_status option"
  st_payload :: pydict

datatype latch_event = ArmedAnchor | Activated | Cleared

record stop_event_row =
  se_id :: uuid
  se_tenant :: uuid
  se_project :: uuid
  se_binding :: uuid
  se_previous :: "uuid option"
  se_event :: latch_event
  se_member :: uuid
  se_actor_hash :: string
  se_actor_type :: string
  se_actor_prov :: string
  se_reason :: string
  se_key_hash :: string
  se_created_at :: timestamp

record stop_effect_row =
  sf_tenant :: uuid
  sf_project :: uuid
  sf_event :: uuid
  sf_run :: uuid
  sf_step :: "uuid option"
  sf_before :: run_status
  sf_after :: run_status
  sf_code :: string

record project_row =
  pr_id :: uuid
  pr_tenant :: uuid

section \<open>The database\<close>

record db =
  projects :: "project_row list"
  audit_log :: "audit_row list"
  autonomy_policies :: "policy_row list"
  approvals :: "approval_row list"
  approval_events :: "approval_event_row list"
  tool_allowlist :: "allowlist_row list"
  tool_calls :: "tool_call_row list"
  agent_instances :: "instance_row list"
  agent_realizations :: "realization_row list"
  cost_events :: "cost_row list"
  budgets :: "budget_row list"
  project_runs :: "run_row list"
  run_steps :: "step_row list"
  stop_events :: "stop_event_row list"
  stop_effects :: "stop_effect_row list"
  db_now :: timestamp
  db_next_id :: uuid

text \<open>The database before any row, for concrete instances.\<close>

definition empty_db :: db where
  "empty_db = \<lparr>projects = [], audit_log = [], autonomy_policies = [], approvals = [],
     approval_events = [], tool_allowlist = [], tool_calls = [], agent_instances = [],
     agent_realizations = [], cost_events = [], budgets = [], project_runs = [], run_steps = [],
     stop_events = [], stop_effects = [], db_now = 0, db_next_id = 100\<rparr>"

section \<open>Tenant context and verified identity\<close>

record authenticated_actor =
  actor_subject :: string
  actor_type :: string

record tenant_context =
  ctx_tenant :: uuid
  ctx_actor :: "authenticated_actor option"

definition CALLER_SUPPLIED_UNVERIFIED :: string where
  "CALLER_SUPPLIED_UNVERIFIED = ''caller_supplied_unverified''"

definition REQUEST_AUTHENTICATED :: string where
  "REQUEST_AUTHENTICATED = ''request_authenticated''"

definition ACTOR_TYPES :: "string list" where
  "ACTOR_TYPES = [''human'', ''service'']"

text \<open>\<open>actor_fields\<close>: the verified tier comes only from a real authenticated actor.\<close>

definition actor_fields :: "authenticated_actor option \<Rightarrow> string \<Rightarrow> string \<times> string" where
  "actor_fields actor fallback =
     (case actor of
        Some a \<Rightarrow> (actor_subject a, REQUEST_AUTHENTICATED)
      | None \<Rightarrow> (fallback, CALLER_SUPPLIED_UNVERIFIED))"

datatype invalid_actor = EmptySubject | SubjectTooLong | UnknownActorType

definition validate_actor :: "pyval \<Rightarrow> pyval \<Rightarrow> invalid_actor + authenticated_actor" where
  "validate_actor subject atype =
     (case subject of
        PStr s \<Rightarrow>
          if py_strip s = [] then Inl EmptySubject
          else if utf8_len s > 255 then Inl SubjectTooLong
          else (case atype of
                  PStr t \<Rightarrow> if t \<in> set ACTOR_TYPES
                           then Inr \<lparr>actor_subject = s, actor_type = t\<rparr>
                           else Inl UnknownActorType
                | _ \<Rightarrow> Inl UnknownActorType)
      | _ \<Rightarrow> Inl EmptySubject)"

lemma provenance_tiers_differ [simp]:
  "REQUEST_AUTHENTICATED \<noteq> CALLER_SUPPLIED_UNVERIFIED"
  "CALLER_SUPPLIED_UNVERIFIED \<noteq> REQUEST_AUTHENTICATED"
  by (simp_all add: REQUEST_AUTHENTICATED_def CALLER_SUPPLIED_UNVERIFIED_def)

lemma actor_fields_verified_iff:
  "snd (actor_fields a f) = REQUEST_AUTHENTICATED \<longleftrightarrow> a \<noteq> None"
  by (simp add: actor_fields_def split: option.splits)

section \<open>The audit writer\<close>

text \<open>\<open>record\<close>: one row, its tenant taken from the transaction's GUC, never from the caller.\<close>

definition audit_record ::
  "tenant_context \<Rightarrow> string \<Rightarrow> string \<Rightarrow> string option \<Rightarrow> pydict \<Rightarrow> db \<Rightarrow> db" where
  "audit_record ctx action actor target payload d =
     d\<lparr>audit_log := audit_log d @
        [\<lparr>au_tenant = ctx_tenant ctx, au_actor = actor, au_action = action,
          au_target = target, au_payload = payload\<rparr>]\<rparr>"

lemma audit_record_frame [simp]:
  "projects (audit_record c a b t p d) = projects d"
  "autonomy_policies (audit_record c a b t p d) = autonomy_policies d"
  "approvals (audit_record c a b t p d) = approvals d"
  "approval_events (audit_record c a b t p d) = approval_events d"
  "tool_allowlist (audit_record c a b t p d) = tool_allowlist d"
  "tool_calls (audit_record c a b t p d) = tool_calls d"
  "agent_instances (audit_record c a b t p d) = agent_instances d"
  "agent_realizations (audit_record c a b t p d) = agent_realizations d"
  "cost_events (audit_record c a b t p d) = cost_events d"
  "budgets (audit_record c a b t p d) = budgets d"
  "project_runs (audit_record c a b t p d) = project_runs d"
  "run_steps (audit_record c a b t p d) = run_steps d"
  "stop_events (audit_record c a b t p d) = stop_events d"
  "stop_effects (audit_record c a b t p d) = stop_effects d"
  "db_now (audit_record c a b t p d) = db_now d"
  "db_next_id (audit_record c a b t p d) = db_next_id d"
  by (simp_all add: audit_record_def)

lemma audit_record_log [simp]:
  "audit_log (audit_record c a b t p d) = audit_log d @
     [\<lparr>au_tenant = ctx_tenant c, au_actor = b, au_action = a, au_target = t, au_payload = p\<rparr>]"
  by (simp add: audit_record_def)

section \<open>What another tenant sees\<close>

text \<open>
  \<open>foreign t d\<close>: every row of the database that does not belong to tenant \<open>t\<close>.  An operation run
  for \<open>t\<close> is isolated when it leaves this view as it was.
\<close>

definition foreign :: "uuid \<Rightarrow> db \<Rightarrow> db" where
  "foreign t d = d\<lparr>
     projects := filter (\<lambda>r. pr_tenant r \<noteq> t) (projects d),
     audit_log := filter (\<lambda>r. au_tenant r \<noteq> t) (audit_log d),
     autonomy_policies := filter (\<lambda>r. pol_tenant r \<noteq> t) (autonomy_policies d),
     approvals := filter (\<lambda>r. ap_tenant r \<noteq> t) (approvals d),
     approval_events := filter (\<lambda>r. ape_tenant r \<noteq> t) (approval_events d),
     tool_allowlist := filter (\<lambda>r. al_tenant r \<noteq> t) (tool_allowlist d),
     tool_calls := filter (\<lambda>r. tc_tenant r \<noteq> t) (tool_calls d),
     agent_instances := filter (\<lambda>r. in_tenant r \<noteq> t) (agent_instances d),
     agent_realizations := filter (\<lambda>r. re_tenant r \<noteq> t) (agent_realizations d),
     cost_events := filter (\<lambda>r. ce_tenant r \<noteq> t) (cost_events d),
     budgets := filter (\<lambda>r. bu_tenant r \<noteq> t) (budgets d),
     project_runs := filter (\<lambda>r. ru_tenant r \<noteq> t) (project_runs d),
     run_steps := filter (\<lambda>r. st_tenant r \<noteq> t) (run_steps d),
     stop_events := filter (\<lambda>r. se_tenant r \<noteq> t) (stop_events d),
     stop_effects := filter (\<lambda>r. sf_tenant r \<noteq> t) (stop_effects d),
     db_now := 0, db_next_id := 0\<rparr>"

text \<open>An update of one table is invisible when the other tenants' rows of it stay the same.\<close>

lemma foreign_update [simp]:
  "filter (\<lambda>r. pr_tenant r \<noteq> t) xs1 = filter (\<lambda>r. pr_tenant r \<noteq> t) (projects d) \<Longrightarrow>
     foreign t (d\<lparr>projects := xs1\<rparr>) = foreign t d"
  "filter (\<lambda>r. au_tenant r \<noteq> t) xs2 = filter (\<lambda>r. au_tenant r \<noteq> t) (audit_log d) \<Longrightarrow>
     foreign t (d\<lparr>audit_log := xs2\<rparr>) = foreign t d"
  "filter (\<lambda>r. pol_tenant r \<noteq> t) xs3 = filter (\<lambda>r. pol_tenant r \<noteq> t) (autonomy_policies d) \<Longrightarrow>
     foreign t (d\<lparr>autonomy_policies := xs3\<rparr>) = foreign t d"
  "filter (\<lambda>r. ap_tenant r \<noteq> t) xs4 = filter (\<lambda>r. ap_tenant r \<noteq> t) (approvals d) \<Longrightarrow>
     foreign t (d\<lparr>approvals := xs4\<rparr>) = foreign t d"
  "filter (\<lambda>r. ape_tenant r \<noteq> t) xs5 = filter (\<lambda>r. ape_tenant r \<noteq> t) (approval_events d) \<Longrightarrow>
     foreign t (d\<lparr>approval_events := xs5\<rparr>) = foreign t d"
  "filter (\<lambda>r. al_tenant r \<noteq> t) xs6 = filter (\<lambda>r. al_tenant r \<noteq> t) (tool_allowlist d) \<Longrightarrow>
     foreign t (d\<lparr>tool_allowlist := xs6\<rparr>) = foreign t d"
  "filter (\<lambda>r. tc_tenant r \<noteq> t) xs7 = filter (\<lambda>r. tc_tenant r \<noteq> t) (tool_calls d) \<Longrightarrow>
     foreign t (d\<lparr>tool_calls := xs7\<rparr>) = foreign t d"
  "filter (\<lambda>r. in_tenant r \<noteq> t) xs8 = filter (\<lambda>r. in_tenant r \<noteq> t) (agent_instances d) \<Longrightarrow>
     foreign t (d\<lparr>agent_instances := xs8\<rparr>) = foreign t d"
  "filter (\<lambda>r. re_tenant r \<noteq> t) xs9 = filter (\<lambda>r. re_tenant r \<noteq> t) (agent_realizations d) \<Longrightarrow>
     foreign t (d\<lparr>agent_realizations := xs9\<rparr>) = foreign t d"
  "filter (\<lambda>r. ce_tenant r \<noteq> t) xs10 = filter (\<lambda>r. ce_tenant r \<noteq> t) (cost_events d) \<Longrightarrow>
     foreign t (d\<lparr>cost_events := xs10\<rparr>) = foreign t d"
  "filter (\<lambda>r. bu_tenant r \<noteq> t) xs11 = filter (\<lambda>r. bu_tenant r \<noteq> t) (budgets d) \<Longrightarrow>
     foreign t (d\<lparr>budgets := xs11\<rparr>) = foreign t d"
  "filter (\<lambda>r. ru_tenant r \<noteq> t) xs12 = filter (\<lambda>r. ru_tenant r \<noteq> t) (project_runs d) \<Longrightarrow>
     foreign t (d\<lparr>project_runs := xs12\<rparr>) = foreign t d"
  "filter (\<lambda>r. st_tenant r \<noteq> t) xs13 = filter (\<lambda>r. st_tenant r \<noteq> t) (run_steps d) \<Longrightarrow>
     foreign t (d\<lparr>run_steps := xs13\<rparr>) = foreign t d"
  "filter (\<lambda>r. se_tenant r \<noteq> t) xs14 = filter (\<lambda>r. se_tenant r \<noteq> t) (stop_events d) \<Longrightarrow>
     foreign t (d\<lparr>stop_events := xs14\<rparr>) = foreign t d"
  "filter (\<lambda>r. sf_tenant r \<noteq> t) xs15 = filter (\<lambda>r. sf_tenant r \<noteq> t) (stop_effects d) \<Longrightarrow>
     foreign t (d\<lparr>stop_effects := xs15\<rparr>) = foreign t d"
  "foreign t (d\<lparr>db_now := n\<rparr>) = foreign t d"
  "foreign t (d\<lparr>db_next_id := i\<rparr>) = foreign t d"
  by (simp_all add: foreign_def)

lemma foreign_audit_record [simp]:
  "t = ctx_tenant c \<Longrightarrow> foreign t (audit_record c a b tg p d) = foreign t d"
  by (simp add: audit_record_def)

end
