(* ===== verification/Policy.thy ===== *)
theory Policy
  imports Store
begin

text \<open>
  The autonomy policy: the levels (\<open>app/policy/levels.py\<close>), the authority matrix and its
  tighten-only overrides (\<open>app/policy/matrix.py\<close>), the pure decision (\<open>app/policy/engine.py\<close>)
  and the fail-closed repository (\<open>app/repositories/autonomy_policies.py\<close>).  A persisted
  override map is an arbitrary JSON value, so it enters the model as a \<open>pyval\<close>.
\<close>

section \<open>Levels\<close>

datatype autonomy_level = A0 | A1 | A2 | A3 | A4 | A5

primrec level_int :: "autonomy_level \<Rightarrow> int" where
  "level_int A0 = 0"
| "level_int A1 = 1"
| "level_int A2 = 2"
| "level_int A3 = 3"
| "level_int A4 = 4"
| "level_int A5 = 5"

lemma level_int_inject [simp]: "level_int a = level_int b \<longleftrightarrow> a = b"
  by (cases a; cases b) simp_all

lemma level_int_bounds: "0 \<le> level_int a \<and> level_int a \<le> 5"
  by (cases a) simp_all

text \<open>An \<open>IntEnum\<close> compares by its integer.\<close>

instantiation autonomy_level :: linorder
begin

definition less_eq_autonomy_level :: "autonomy_level \<Rightarrow> autonomy_level \<Rightarrow> bool" where
  "less_eq_autonomy_level a b = (level_int a \<le> level_int b)"

definition less_autonomy_level :: "autonomy_level \<Rightarrow> autonomy_level \<Rightarrow> bool" where
  "less_autonomy_level a b = (level_int a < level_int b)"

instance
  by standard (auto simp: less_eq_autonomy_level_def less_autonomy_level_def)

end

section \<open>The matrix\<close>

record authority_rule =
  rule_min_level :: int
  rule_requires_approval :: bool
  rule_mandatory_approval :: bool

record effective_rule =
  eff_min_level :: int
  eff_requires_approval :: bool
  eff_disabled :: bool

definition mk_rule :: "autonomy_level \<Rightarrow> bool \<Rightarrow> bool \<Rightarrow> authority_rule" where
  "mk_rule l approval mandatory =
     \<lparr>rule_min_level = level_int l, rule_requires_approval = approval,
      rule_mandatory_approval = mandatory\<rparr>"

definition MATRIX :: "(string \<times> authority_rule) list" where
  "MATRIX = [
     (''read_docs'', mk_rule A0 False False),
     (''read_source_control_config'', mk_rule A1 False False),
     (''read_pull_requests'', mk_rule A1 False False),
     (''read_deployment_target'', mk_rule A1 False False),
     (''read_monitoring_status'', mk_rule A1 False False),
     (''verify_secret_reference'', mk_rule A1 False False),
     (''read_project_management_issues'', mk_rule A1 False False),
     (''create_draft_prd'', mk_rule A1 False False),
     (''create_project_tasks'', mk_rule A1 False False),
     (''create_repository'', mk_rule A2 False False),
     (''create_branches'', mk_rule A2 False False),
     (''commit_code'', mk_rule A2 False False),
     (''open_pull_requests'', mk_rule A2 False False),
     (''run_tests'', mk_rule A2 False False),
     (''deploy_staging'', mk_rule A3 False False),
     (''merge_to_protected'', mk_rule A4 True True),
     (''deploy_production'', mk_rule A4 True True),
     (''delete_resources'', mk_rule A1 True True),
     (''change_secrets'', mk_rule A1 True True),
     (''modify_billing_or_paid_resources'', mk_rule A1 True True),
     (''send_external_communications'', mk_rule A1 True True),
     (''access_sensitive_data'', mk_rule A1 True True),
     (''accept_risk'', mk_rule A1 True True),
     (''override_failed_gate'', mk_rule A1 True True),
     (''weaken_test_or_review_standards'', mk_rule A1 True True)]"

definition ALLOWED_OVERRIDE_KEYS :: "string list" where
  "ALLOWED_OVERRIDE_KEYS = [''min_level'', ''requires_approval'', ''allow'']"

text \<open>
  \<open>PolicyOverrideError\<close> is the one the repository catches; the others are the built-in exceptions
  the same code can raise.
\<close>

datatype policy_error = PolicyOverrideError | AttributeError | ConversionError | MultipleResultsFound

definition override_min_level :: "authority_rule \<Rightarrow> pydict \<Rightarrow> policy_error + int" where
  "override_min_level base ov =
     (if dhas ov ''min_level''
      then (case dget ov ''min_level'' of
              PInt raw \<Rightarrow>
                if raw < rule_min_level base then Inl PolicyOverrideError
                else if raw > level_int A5 then Inl PolicyOverrideError
                else Inr raw
            | _ \<Rightarrow> Inl PolicyOverrideError)
      else Inr (rule_min_level base))"

definition override_approval :: "authority_rule \<Rightarrow> pydict \<Rightarrow> policy_error + bool" where
  "override_approval base ov =
     (if dhas ov ''requires_approval''
      then (if dget ov ''requires_approval'' \<noteq> PBool True then Inl PolicyOverrideError else Inr True)
      else Inr (rule_requires_approval base))"

definition override_disabled :: "pydict \<Rightarrow> policy_error + bool" where
  "override_disabled ov =
     (if dhas ov ''allow''
      then (if dget ov ''allow'' \<noteq> PBool False then Inl PolicyOverrideError else Inr True)
      else Inr False)"

definition apply_overrides :: "authority_rule \<Rightarrow> pyval \<Rightarrow> policy_error + effective_rule" where
  "apply_overrides base ov =
     (case ov of
        PNone \<Rightarrow> Inr \<lparr>eff_min_level = rule_min_level base,
                      eff_requires_approval = rule_requires_approval base, eff_disabled = False\<rparr>
      | PDict d \<Rightarrow>
          if \<exists>k\<in>set (map fst d). k \<notin> set ALLOWED_OVERRIDE_KEYS then Inl PolicyOverrideError
          else bindE (override_min_level base d) (\<lambda>m.
               bindE (override_approval base d) (\<lambda>a.
               bindE (override_disabled d) (\<lambda>dis.
                 Inr \<lparr>eff_min_level = m, eff_requires_approval = a, eff_disabled = dis\<rparr>)))
      | _ \<Rightarrow> Inl PolicyOverrideError)"

definition is_mandatory_action :: "string \<Rightarrow> bool" where
  "is_mandatory_action action =
     (case map_of MATRIX action of None \<Rightarrow> False | Some r \<Rightarrow> rule_mandatory_approval r)"

definition validate_overrides :: "pyval \<Rightarrow> policy_error + unit" where
  "validate_overrides overrides =
     (case overrides of
        PNone \<Rightarrow> Inr ()
      | PDict d \<Rightarrow>
          for_each (\<lambda>(action, ov).
            case map_of MATRIX action of
              None \<Rightarrow> Inl PolicyOverrideError
            | Some base \<Rightarrow> bindE (apply_overrides base ov) (\<lambda>_. Inr ())) d
      | _ \<Rightarrow> Inl PolicyOverrideError)"

section \<open>The decision\<close>

datatype decision = ALLOW | DENY | NEEDS_APPROVAL

text \<open>\<open>(overrides or {}).get(action)\<close>: a truthy value that is no dict has no \<open>get\<close>.\<close>

definition override_for :: "pyval \<Rightarrow> string \<Rightarrow> policy_error + pyval" where
  "override_for overrides action =
     (if \<not> py_truthy overrides then Inr PNone
      else case overrides of PDict d \<Rightarrow> Inr (dget d action) | _ \<Rightarrow> Inl AttributeError)"

definition rule_decision :: "effective_rule \<Rightarrow> int \<Rightarrow> decision" where
  "rule_decision rule level =
     (if eff_disabled rule then DENY
      else if level < eff_min_level rule then DENY
      else if eff_requires_approval rule then NEEDS_APPROVAL
      else ALLOW)"

definition check_authority :: "string \<Rightarrow> int \<Rightarrow> pyval \<Rightarrow> policy_error + decision" where
  "check_authority action level overrides =
     (case map_of MATRIX action of
        None \<Rightarrow> Inr DENY
      | Some base \<Rightarrow>
          bindE (override_for overrides action) (\<lambda>ov.
          bindE (apply_overrides base ov) (\<lambda>rule. Inr (rule_decision rule level))))"

section \<open>The repository\<close>

definition policy_get_for_project ::
  "tenant_context \<Rightarrow> uuid \<Rightarrow> db \<Rightarrow> policy_error + policy_row option" where
  "policy_get_for_project ctx project d =
     scalar_one_or_none MultipleResultsFound
       (filter (\<lambda>r. pol_project r = project \<and> pol_tenant r = ctx_tenant ctx) (autonomy_policies d))"

text \<open>The body of the \<open>try\<close>, and the handler that turns a bad override into a denial.\<close>

definition validated_decision :: "policy_row \<Rightarrow> string \<Rightarrow> policy_error + decision" where
  "validated_decision p action =
     bindE (validate_overrides (pol_overrides p))
       (\<lambda>_. check_authority action (pol_level p) (pol_overrides p))"

definition decision_for ::
  "tenant_context \<Rightarrow> uuid \<Rightarrow> string \<Rightarrow> db \<Rightarrow> policy_error + decision" where
  "decision_for ctx project action d =
     bindE (policy_get_for_project ctx project d) (\<lambda>row.
       case row of
         None \<Rightarrow> Inr DENY
       | Some p \<Rightarrow> (case validated_decision p action of
                       Inl PolicyOverrideError \<Rightarrow> Inr DENY
                     | r \<Rightarrow> r))"

record policy_snapshot =
  snap_policy_present :: bool
  snap_policy_id :: "uuid option"
  snap_level :: "int option"
  snap_overrides :: "(pyval \<times> pyval) list"
  snap_decisions :: "(string \<times> decision) list"

fun decide_all :: "policy_row \<Rightarrow> string list \<Rightarrow> policy_error + (string \<times> decision) list" where
  "decide_all p [] = Inr []"
| "decide_all p (a # as) =
     bindE (check_authority a (pol_level p) (pol_overrides p)) (\<lambda>r.
     bindE (decide_all p as) (\<lambda>rs. Inr ((a, r) # rs)))"

text \<open>
  \<open>dict(value)\<close> of a JSON value: the items of a mapping, or the pairs of an iterable of
  two-element iterables (a two-letter string, a two-element list with a hashable head, a two-key
  object); anything else raises.  The items are those handed to the constructor.
\<close>

fun dict_pair :: "pyval \<Rightarrow> policy_error + pyval \<times> pyval" where
  "dict_pair (PList [k, v]) = (if is_list k \<or> is_dict k then Inl ConversionError else Inr (k, v))"
| "dict_pair (PStr [a, b]) = Inr (PStr [a], PStr [b])"
| "dict_pair (PDict [(a, u), (b, w)]) = Inr (PStr a, PStr b)"
| "dict_pair v = Inl ConversionError"

fun dict_pairs :: "pyval list \<Rightarrow> policy_error + (pyval \<times> pyval) list" where
  "dict_pairs [] = Inr []"
| "dict_pairs (v # vs) =
     bindE (dict_pair v) (\<lambda>p. bindE (dict_pairs vs) (\<lambda>ps. Inr (p # ps)))"

definition py_dict :: "pyval \<Rightarrow> policy_error + (pyval \<times> pyval) list" where
  "py_dict v = (case v of
       PDict d \<Rightarrow> Inr (map (\<lambda>(k, x). (PStr k, x)) d)
     | PList xs \<Rightarrow> dict_pairs xs
     | _ \<Rightarrow> Inl ConversionError)"

text \<open>
  The decisions of a snapshot are a dict; the model keeps its items (a repeated action repeats its
  item).
\<close>

definition snapshot_decisions ::
  "tenant_context \<Rightarrow> uuid \<Rightarrow> string list \<Rightarrow> db \<Rightarrow> policy_error + policy_snapshot" where
  "snapshot_decisions ctx project actions d =
     bindE (policy_get_for_project ctx project d) (\<lambda>row.
       case row of
         None \<Rightarrow> Inr \<lparr>snap_policy_present = False, snap_policy_id = None, snap_level = None,
                      snap_overrides = [], snap_decisions = map (\<lambda>a. (a, DENY)) actions\<rparr>
       | Some p \<Rightarrow>
           bindE (case bindE (validate_overrides (pol_overrides p)) (\<lambda>_. decide_all p actions) of
                    Inl PolicyOverrideError \<Rightarrow> Inr (map (\<lambda>a. (a, DENY)) actions)
                  | r \<Rightarrow> r) (\<lambda>decisions.
           bindE (if py_truthy (pol_overrides p) then py_dict (pol_overrides p) else Inr []) (\<lambda>ovs.
             Inr \<lparr>snap_policy_present = True, snap_policy_id = Some (pol_id p),
                  snap_level = Some (pol_level p), snap_overrides = ovs,
                  snap_decisions = decisions\<rparr>)))"

section \<open>Lemmas\<close>

lemmas policy_defs = decision_for_def validated_decision_def policy_get_for_project_def

lemma override_min_level_Inr:
  "override_min_level base ov = Inr m \<longleftrightarrow>
     (if dhas ov ''min_level''
      then dget ov ''min_level'' = PInt m \<and> rule_min_level base \<le> m \<and> m \<le> 5
      else m = rule_min_level base)"
  by (auto simp: override_min_level_def split: pyval.splits)

lemma override_approval_Inr:
  "override_approval base ov = Inr a \<longleftrightarrow>
     (if dhas ov ''requires_approval'' then dget ov ''requires_approval'' = PBool True \<and> a
      else a = rule_requires_approval base)"
  by (auto simp: override_approval_def)

lemma override_disabled_Inr:
  "override_disabled ov = Inr b \<longleftrightarrow>
     (if dhas ov ''allow'' then dget ov ''allow'' = PBool False \<and> b else \<not> b)"
  by (auto simp: override_disabled_def)

text \<open>The only exception of an override is the one the repository catches.\<close>

lemma apply_overrides_error: "apply_overrides base ov = Inl e \<Longrightarrow> e = PolicyOverrideError"
  by (auto simp: apply_overrides_def override_min_level_def override_approval_def
      override_disabled_def bindE_def split: pyval.splits if_splits sum.splits)

lemma validate_overrides_error: "validate_overrides ov = Inl e \<Longrightarrow> e = PolicyOverrideError"
proof -
  have "for_each f xs = Inl e \<Longrightarrow> \<exists>x\<in>set xs. f x = Inl e" for f :: "'x \<Rightarrow> policy_error + unit" and xs
    by (induction xs) (auto simp: bindE_def split: sum.splits)
  then show "validate_overrides ov = Inl e \<Longrightarrow> e = PolicyOverrideError"
    by (fastforce simp: validate_overrides_def bindE_def dest: apply_overrides_error
        split: pyval.splits option.splits sum.splits if_splits)
qed

lemma apply_overrides_tightens:
  assumes "apply_overrides base ov = Inr r"
  shows "rule_min_level base \<le> eff_min_level r"
    and "rule_requires_approval base \<Longrightarrow> eff_requires_approval r"
    and "rule_min_level base \<le> 5 \<Longrightarrow> eff_min_level r \<le> 5"
  using assms
  by (auto simp: apply_overrides_def override_min_level_Inr override_approval_Inr
      override_disabled_Inr split: pyval.splits if_splits)

lemma check_authority_unknown: "map_of MATRIX a = None \<Longrightarrow> check_authority a l ov = Inr DENY"
  by (simp add: check_authority_def)

lemma check_authority_allow:
  assumes "check_authority a l ov = Inr ALLOW"
  obtains base where "map_of MATRIX a = Some base" "rule_min_level base \<le> l"
    "\<not> rule_requires_approval base"
  using assms
  by (fastforce simp: check_authority_def rule_decision_def split: option.splits if_splits
      dest: apply_overrides_tightens)

text \<open>Decisions are ordered by what they permit.\<close>

primrec permits :: "decision \<Rightarrow> nat" where
  "permits DENY = 0"
| "permits NEEDS_APPROVAL = 1"
| "permits ALLOW = 2"

lemma permits_inject [simp]: "permits a = permits b \<longleftrightarrow> a = b"
  by (cases a; cases b) simp_all

instantiation decision :: linorder
begin

definition less_eq_decision :: "decision \<Rightarrow> decision \<Rightarrow> bool" where
  "less_eq_decision a b = (permits a \<le> permits b)"

definition less_decision :: "decision \<Rightarrow> decision \<Rightarrow> bool" where
  "less_decision a b = (permits a < permits b)"

instance
  by standard (auto simp: less_eq_decision_def less_decision_def)

end

lemma decision_le_simps [simp]:
  "DENY \<le> r" "r \<le> ALLOW" "NEEDS_APPROVAL \<le> NEEDS_APPROVAL"
  "\<not> NEEDS_APPROVAL \<le> DENY" "\<not> ALLOW \<le> NEEDS_APPROVAL" "\<not> ALLOW \<le> DENY"
  by (cases r; simp add: less_eq_decision_def)+

text \<open>Facts of the matrix itself, by evaluation over its rows.\<close>

lemma MATRIX_levels: "\<forall>(a, r)\<in>set MATRIX. 0 \<le> rule_min_level r \<and> rule_min_level r \<le> 5"
  by (simp add: MATRIX_def mk_rule_def)

lemma MATRIX_mandatory: "\<forall>(a, r)\<in>set MATRIX. rule_mandatory_approval r = rule_requires_approval r"
  by (simp add: MATRIX_def mk_rule_def)

lemma MATRIX_lookup:
  assumes "map_of MATRIX a = Some base"
  shows "0 \<le> rule_min_level base" "rule_min_level base \<le> 5"
    "rule_mandatory_approval base = rule_requires_approval base"
  using assms MATRIX_levels MATRIX_mandatory by (auto dest!: map_of_SomeD)

lemma rule_decision_monotone: "l \<le> l' \<Longrightarrow> rule_decision rule l \<le> rule_decision rule l'"
  by (simp add: rule_decision_def)

lemma rule_decision_ALLOW:
  "rule_decision rule l = ALLOW \<longleftrightarrow>
     \<not> eff_disabled rule \<and> eff_min_level rule \<le> l \<and> \<not> eff_requires_approval rule"
  by (auto simp: rule_decision_def)

lemma check_authority_monotone:
  "check_authority a l ov = Inr r \<Longrightarrow> l \<le> l' \<Longrightarrow> \<exists>r'. check_authority a l' ov = Inr r' \<and> r \<le> r'"
  by (cases "map_of MATRIX a") (auto simp: check_authority_def rule_decision_monotone)

lemma check_authority_tightens:
  assumes "check_authority a l ov = Inr r"
  shows "\<exists>b. check_authority a l PNone = Inr b \<and> r \<le> b"
proof (cases "map_of MATRIX a")
  case None
  with assms show ?thesis by (simp add: check_authority_def)
next
  case (Some base)
  with assms obtain rule ov' where r: "apply_overrides base ov' = Inr rule"
    and d: "r = rule_decision rule l"
    by (auto simp: check_authority_def)
  from Some d apply_overrides_tightens [OF r] show ?thesis
    by (auto simp: check_authority_def override_for_def apply_overrides_def rule_decision_def)
qed

lemma override_for_validated:
  "validate_overrides ov = Inr () \<Longrightarrow> override_for ov a = Inr (case ov of PDict d \<Rightarrow> dget d a | _ \<Rightarrow> PNone)"
  by (auto simp: validate_overrides_def override_for_def split: pyval.splits)

lemma validated_decision_error:
  assumes "validated_decision p a = Inl e"
  shows "e = PolicyOverrideError"
proof (cases "validate_overrides (pol_overrides p)")
  case (Inl x)
  with assms validate_overrides_error show ?thesis
    by (auto simp: validated_decision_def)
next
  case (Inr u)
  then have "override_for (pol_overrides p) a \<noteq> Inl x" for x
    by (simp add: override_for_validated)
  with assms Inr show ?thesis
    by (auto simp: validated_decision_def check_authority_def bindE_def
        dest: apply_overrides_error split: option.splits sum.splits)
qed

text \<open>What the decision is, given the rows of the project.\<close>

lemma decision_for_cases:
  assumes "filter (\<lambda>r. pol_project r = project \<and> pol_tenant r = ctx_tenant ctx) (autonomy_policies d) = rows"
  shows "rows = [] \<Longrightarrow> decision_for ctx project a d = Inr DENY"
    and "rows = [p] \<Longrightarrow> decision_for ctx project a d =
           (case validated_decision p a of Inl _ \<Rightarrow> Inr DENY | Inr r \<Rightarrow> Inr r)"
  using assms
  by (auto simp: decision_for_def policy_get_for_project_def dest: validated_decision_error
      split: sum.splits policy_error.splits)

section \<open>Properties\<close>

text \<open>
  What a valid override map is: absent, or an object whose every entry names an action of the
  matrix and only tightens that action's rule.
\<close>

definition tightening :: "authority_rule \<Rightarrow> pyval \<Rightarrow> bool" where
  "tightening base ov =
     (case ov of
        PNone \<Rightarrow> True
      | PDict d \<Rightarrow>
          (\<forall>(k, v)\<in>set d. k \<in> {''min_level'', ''requires_approval'', ''allow''}) \<and>
          (dhas d ''min_level'' \<longrightarrow>
             (case dget d ''min_level'' of PInt m \<Rightarrow> rule_min_level base \<le> m \<and> m \<le> 5 | _ \<Rightarrow> False)) \<and>
          (dhas d ''requires_approval'' \<longrightarrow> dget d ''requires_approval'' = PBool True) \<and>
          (dhas d ''allow'' \<longrightarrow> dget d ''allow'' = PBool False)
      | _ \<Rightarrow> False)"

definition tightening_map :: "pyval \<Rightarrow> bool" where
  "tightening_map overrides =
     (case overrides of
        PNone \<Rightarrow> True
      | PDict d \<Rightarrow> (\<forall>(a, ov)\<in>set d. case map_of MATRIX a of None \<Rightarrow> False | Some base \<Rightarrow> tightening base ov)
      | _ \<Rightarrow> False)"

definition override_entry :: "pyval \<Rightarrow> string \<Rightarrow> pydict" where
  "override_entry overrides a =
     (case overrides of PDict d \<Rightarrow> (case dget d a of PDict e \<Rightarrow> e | _ \<Rightarrow> []) | _ \<Rightarrow> [])"

lemma override_parts_Inr:
  "(\<exists>m. override_min_level base ov = Inr m) \<longleftrightarrow>
     (dhas ov ''min_level'' \<longrightarrow>
        (case dget ov ''min_level'' of PInt m \<Rightarrow> rule_min_level base \<le> m \<and> m \<le> 5 | _ \<Rightarrow> False))"
  "(\<exists>a. override_approval base ov = Inr a) \<longleftrightarrow>
     (dhas ov ''requires_approval'' \<longrightarrow> dget ov ''requires_approval'' = PBool True)"
  "(\<exists>b. override_disabled ov = Inr b) \<longleftrightarrow> (dhas ov ''allow'' \<longrightarrow> dget ov ''allow'' = PBool False)"
  by (auto simp: override_min_level_def override_approval_def override_disabled_def
      split: pyval.splits)

lemma tightening_iff: "tightening base ov \<longleftrightarrow> (\<exists>r. apply_overrides base ov = Inr r)"
proof (cases ov)
  case (PDict d)
  have keys: "(\<forall>(k, v)\<in>set d. k \<in> {''min_level'', ''requires_approval'', ''allow''}) \<longleftrightarrow>
      \<not> (\<exists>k\<in>set (map fst d). k \<notin> set ALLOWED_OVERRIDE_KEYS)"
    by (auto simp: ALLOWED_OVERRIDE_KEYS_def split_beta)
  have ok: "(\<exists>r. apply_overrides base (PDict d) = Inr r) \<longleftrightarrow>
      \<not> (\<exists>k\<in>set (map fst d). k \<notin> set ALLOWED_OVERRIDE_KEYS) \<and>
      (\<exists>m. override_min_level base d = Inr m) \<and> (\<exists>a. override_approval base d = Inr a) \<and>
      (\<exists>b. override_disabled d = Inr b)"
    unfolding apply_overrides_def by (auto simp del: bex_simps)
  show ?thesis
    unfolding PDict ok override_parts_Inr keys [symmetric] tightening_def by simp
qed (simp_all add: tightening_def apply_overrides_def)

lemma tightening_map_iff: "tightening_map ov \<longleftrightarrow> validate_overrides ov = Inr ()"
  by (auto simp: tightening_map_def validate_overrides_def tightening_iff
      split: pyval.splits option.splits)

text \<open>The rule an override entry leaves.\<close>

lemma apply_overrides_entry:
  assumes "apply_overrides base (PDict e) = Inr r"
  shows "eff_disabled r \<longleftrightarrow> dhas e ''allow''"
    and "eff_requires_approval r \<longleftrightarrow> rule_requires_approval base \<or> dhas e ''requires_approval''"
    and "eff_min_level r \<le> l \<longleftrightarrow>
           rule_min_level base \<le> l \<and> (\<forall>m. dget e ''min_level'' = PInt m \<longrightarrow> m \<le> l)"
proof -
  have m: "override_min_level base e = Inr (eff_min_level r)"
    and a: "override_approval base e = Inr (eff_requires_approval r)"
    and b: "override_disabled e = Inr (eff_disabled r)"
    using assms by (auto simp: apply_overrides_def split: if_splits)
  from b show "eff_disabled r \<longleftrightarrow> dhas e ''allow''"
    by (simp add: override_disabled_Inr split: if_splits)
  from a show "eff_requires_approval r \<longleftrightarrow> rule_requires_approval base \<or> dhas e ''requires_approval''"
    by (auto simp: override_approval_Inr split: if_splits)
  from m show "eff_min_level r \<le> l \<longleftrightarrow>
      rule_min_level base \<le> l \<and> (\<forall>m. dget e ''min_level'' = PInt m \<longrightarrow> m \<le> l)"
    using dhas_dget_cases [of e "''min_level''"]
    by (auto simp: override_min_level_Inr split: if_splits)
qed

lemma allow_of_entry:
  assumes valid: "tightening base ov"
  shows "(\<exists>r. apply_overrides base ov = Inr r \<and> rule_decision r l = ALLOW) \<longleftrightarrow>
    rule_min_level base \<le> l \<and> \<not> rule_requires_approval base \<and>
    (let e = (case ov of PDict e \<Rightarrow> e | _ \<Rightarrow> []) in
       \<not> dhas e ''allow'' \<and> \<not> dhas e ''requires_approval'' \<and>
       (\<forall>m. dget e ''min_level'' = PInt m \<longrightarrow> m \<le> l))"
proof -
  from valid obtain r where r: "apply_overrides base ov = Inr r"
    by (auto simp: tightening_iff)
  then consider "ov = PNone" | e where "ov = PDict e"
    by (auto simp: apply_overrides_def split: pyval.splits)
  then show ?thesis
  proof cases
    case 1
    then show ?thesis by (auto simp: apply_overrides_def rule_decision_ALLOW)
  next
    case 2
    with r apply_overrides_entry [of base e r] show ?thesis
      by (auto simp: rule_decision_ALLOW)
  qed
qed

lemma validated_decision_ALLOW:
  "validated_decision p a = Inr ALLOW \<longleftrightarrow>
     tightening_map (pol_overrides p) \<and>
     (\<exists>base. map_of MATRIX a = Some base \<and> \<not> rule_requires_approval base \<and>
        rule_min_level base \<le> pol_level p \<and>
        \<not> dhas (override_entry (pol_overrides p) a) ''allow'' \<and>
        \<not> dhas (override_entry (pol_overrides p) a) ''requires_approval'' \<and>
        (\<forall>m. dget (override_entry (pol_overrides p) a) ''min_level'' = PInt m \<longrightarrow> m \<le> pol_level p))"
    (is "_ \<longleftrightarrow> _ \<and> ?rest")
proof (cases "tightening_map (pol_overrides p)")
  case False
  then show ?thesis by (auto simp: validated_decision_def tightening_map_iff)
next
  case True
  define ov where "ov = (case pol_overrides p of PDict d \<Rightarrow> dget d a | _ \<Rightarrow> PNone)"
  have entry: "override_entry (pol_overrides p) a = (case ov of PDict e \<Rightarrow> e | _ \<Rightarrow> [])"
    by (simp add: override_entry_def ov_def split: pyval.splits)
  have valid: "tightening base ov" if "map_of MATRIX a = Some base" for base
  proof (cases "\<exists>d. pol_overrides p = PDict d \<and> dhas d a")
    case True
    then obtain d where d: "pol_overrides p = PDict d" "(a, ov) \<in> set d"
      using dget_mem by (fastforce simp: ov_def)
    with \<open>tightening_map (pol_overrides p)\<close> that show ?thesis
      by (auto simp: tightening_map_def)
  next
    case False
    then have "ov = PNone"
      using dhas_dget_cases by (auto simp: ov_def split: pyval.splits)
    then show ?thesis by (simp add: tightening_def)
  qed
  have "validated_decision p a = Inr ALLOW \<longleftrightarrow> check_authority a (pol_level p) (pol_overrides p) = Inr ALLOW"
    using True by (simp add: validated_decision_def tightening_map_iff)
  also have "\<dots> \<longleftrightarrow> (\<exists>base. map_of MATRIX a = Some base \<and>
      (\<exists>r. apply_overrides base ov = Inr r \<and> rule_decision r (pol_level p) = ALLOW))"
    using True by (auto simp: check_authority_def tightening_map_iff override_for_validated ov_def
        split: option.splits)
  also have "\<dots> \<longleftrightarrow> ?rest"
    by (intro ex_cong1 conj_cong refl) (simp add: allow_of_entry [OF valid] entry Let_def conj_ac)
  finally show ?thesis using True by simp
qed

lemma decision_for_ALLOW_D:
  assumes "decision_for ctx project a d = Inr ALLOW"
  obtains p where "policy_get_for_project ctx project d = Inr (Some p)" "validated_decision p a = Inr ALLOW"
proof (cases "policy_get_for_project ctx project d")
  case (Inr row)
  with assms that show thesis
    by (cases row; cases "validated_decision (the row) a")
      (auto simp: decision_for_def split: policy_error.splits)
qed (use assms in \<open>simp add: decision_for_def\<close>)

lemma check_authority_validated:
  assumes "validate_overrides ov = Inr ()"
  shows "\<exists>r. check_authority a l ov = Inr r"
proof (cases "check_authority a l ov")
  case (Inl e)
  define p where "p = \<lparr>pol_id = 0, pol_tenant = 0, pol_project = 0, pol_level = l, pol_overrides = ov,
    pol_updated_at = 0\<rparr>"
  obtain base ov' where b: "map_of MATRIX a = Some base"
    and ov': "ov' = (case ov of PDict d \<Rightarrow> dget d a | _ \<Rightarrow> PNone)"
    and err: "apply_overrides base ov' = Inl e"
    using Inl assms by (auto simp: check_authority_def override_for_validated bindE_def
        split: option.splits sum.splits)
  have "tightening base ov'"
  proof (cases "ov' = PNone")
    case False
    then obtain d where "ov = PDict d" "(a, ov') \<in> set d"
      using ov' dget_mem dhas_dget_cases by (cases ov) fastforce+
    with assms b show ?thesis
      by (auto simp: tightening_map_iff [symmetric] tightening_map_def)
  qed (simp add: tightening_def)
  with err show ?thesis by (auto simp: tightening_iff)
qed simp

lemma decide_all_validated:
  assumes "validate_overrides (pol_overrides p) = Inr ()" "decide_all p as = Inr rs"
  shows "map fst rs = as \<and> (\<forall>(a, r)\<in>set rs. validated_decision p a = Inr r)"
  using assms(2)
proof (induction as arbitrary: rs)
  case (Cons a as)
  then show ?case using assms(1) by (fastforce simp: validated_decision_def)
qed simp

lemma decide_all_total:
  "validate_overrides (pol_overrides p) = Inr () \<Longrightarrow> \<exists>rs. decide_all p as = Inr rs"
proof (induction as)
  case (Cons a as)
  with check_authority_validated [of "pol_overrides p" a "pol_level p"] show ?case by auto
qed simp

definition example_policy :: policy_row where
  "example_policy = \<lparr>pol_id = 1, pol_tenant = 7, pol_project = 3, pol_level = 2,
     pol_overrides = PDict [(''run_tests'', PDict [(''requires_approval'', PBool True)])], pol_updated_at = 0\<rparr>"

definition example_policy_db :: db where
  "example_policy_db = empty_db\<lparr>autonomy_policies := [example_policy]\<rparr>"

lemma example_policy_get:
  "policy_get_for_project \<lparr>ctx_tenant = 7, ctx_actor = None\<rparr> 3 example_policy_db = Inr (Some example_policy)"
  by (simp add: policy_get_for_project_def example_policy_db_def example_policy_def empty_db_def)

text \<open>C1: The stored policy allows an action exactly when the project has one policy row, its
  whole override map only tightens known actions, the action is in the matrix without an approval
  requirement, the level reaches the matrix's and the override's minimum, and no override disables
  the action or asks for approval.  Everything else fails closed.\<close>

theorem decision_for_allow_iff:
  "decision_for ctx project a d = Inr ALLOW \<longleftrightarrow>
     (\<exists>p base.
        filter (\<lambda>r. pol_project r = project \<and> pol_tenant r = ctx_tenant ctx) (autonomy_policies d) = [p] \<and>
        tightening_map (pol_overrides p) \<and>
        map_of MATRIX a = Some base \<and> \<not> rule_requires_approval base \<and>
        rule_min_level base \<le> pol_level p \<and>
        \<not> dhas (override_entry (pol_overrides p) a) ''allow'' \<and>
        \<not> dhas (override_entry (pol_overrides p) a) ''requires_approval'' \<and>
        (\<forall>m. dget (override_entry (pol_overrides p) a) ''min_level'' = PInt m \<longrightarrow> m \<le> pol_level p))"
    (is "_ \<longleftrightarrow> (\<exists>p base. ?rows = [p] \<and> ?valid p base)")
proof (cases "\<exists>p. ?rows = [p]")
  case True
  then obtain p where p: "?rows = [p]" ..
  then have "decision_for ctx project a d = Inr ALLOW \<longleftrightarrow> validated_decision p a = Inr ALLOW"
    by (simp add: decision_for_cases(2) [OF refl p] split: sum.splits)
  then show ?thesis by (simp add: validated_decision_ALLOW p)
next
  case False
  then have "policy_get_for_project ctx project d \<noteq> Inr (Some p)" for p
    by (simp add: policy_get_for_project_def scalar_one_or_none_iff)
  then have "decision_for ctx project a d \<noteq> Inr ALLOW"
    using decision_for_ALLOW_D by blast
  with False show ?thesis by auto
qed

lemma decision_for_allow_iff_witness:
  "decision_for \<lparr>ctx_tenant = 7, ctx_actor = None\<rparr> 3 ''commit_code'' example_policy_db = Inr ALLOW"
  by (subst decision_for_allow_iff)
    (simp add: example_policy_db_def example_policy_def empty_db_def tightening_map_def tightening_def
      override_entry_def MATRIX_def mk_rule_def)

text \<open>C2: Overrides only tighten: whatever the stored override map holds, the decision permits at
  most what the bare matrix permits at the stored level.\<close>

theorem decision_for_tightens:
  assumes "policy_get_for_project ctx project d = Inr (Some p)"
  shows "\<exists>r b. decision_for ctx project a d = Inr r \<and>
           check_authority a (pol_level p) PNone = Inr b \<and> r \<le> b"
proof -
  have base: "\<exists>b. check_authority a (pol_level p) PNone = Inr b"
    by (auto simp: check_authority_def override_for_def apply_overrides_def split: option.splits)
  have "validated_decision p a = Inr r \<Longrightarrow> \<exists>b. check_authority a (pol_level p) PNone = Inr b \<and> r \<le> b" for r
    using check_authority_tightens by (auto simp: validated_decision_def)
  with base assms show ?thesis
    by (cases "validated_decision p a")
      (auto simp: decision_for_def dest: validated_decision_error split: policy_error.splits)
qed

lemma decision_for_tightens_witness:
  "\<exists>r b. decision_for \<lparr>ctx_tenant = 7, ctx_actor = None\<rparr> 3 ''run_tests'' example_policy_db = Inr r \<and>
     check_authority ''run_tests'' (pol_level example_policy) PNone = Inr b \<and> r \<le> b"
  by (rule decision_for_tightens [OF example_policy_get])

text \<open>A section 2.6 action is never allowed outright, at any level and under any stored
  overrides: the most a policy can answer is that an approval is needed.\<close>

theorem mandatory_action_never_allowed:
  assumes "is_mandatory_action a"
  shows "decision_for ctx project a d \<noteq> Inr ALLOW"
proof
  assume "decision_for ctx project a d = Inr ALLOW"
  then obtain p where "validated_decision p a = Inr ALLOW"
    by (rule decision_for_ALLOW_D)
  with assms show False
    by (auto simp: validated_decision_ALLOW is_mandatory_action_def MATRIX_lookup(3))
qed

lemma mandatory_action_never_allowed_witness:
  "decision_for \<lparr>ctx_tenant = 7, ctx_actor = None\<rparr> 3 ''accept_risk'' example_policy_db \<noteq> Inr ALLOW"
  by (rule mandatory_action_never_allowed) (simp add: is_mandatory_action_def MATRIX_def mk_rule_def)

text \<open>The batch snapshot agrees with the single decision: it answers every requested action,
  in order, with exactly what \<open>decision_for\<close> answers for it.\<close>

theorem snapshot_agrees:
  assumes "snapshot_decisions ctx project actions d = Inr s"
  shows "map fst (snap_decisions s) = actions \<and>
         (\<forall>(a, r)\<in>set (snap_decisions s). decision_for ctx project a d = Inr r)"
proof -
  have deny: "map fst (map (\<lambda>a. (a, DENY)) actions) = actions"
    by (induction actions) simp_all
  from assms obtain row where row: "policy_get_for_project ctx project d = Inr row"
    by (auto simp: snapshot_decisions_def)
  show ?thesis
  proof (cases row)
    case None
    with row assms deny show ?thesis
      by (auto simp: snapshot_decisions_def decision_for_def)
  next
    case (Some p)
    have one: "decision_for ctx project a d =
        (case validated_decision p a of Inl _ \<Rightarrow> Inr DENY | Inr r \<Rightarrow> Inr r)" for a
      using row Some
      by (auto simp: decision_for_def dest: validated_decision_error split: sum.splits policy_error.splits)
    show ?thesis
    proof (cases "validate_overrides (pol_overrides p)")
      case (Inl e)
      with validate_overrides_error have "validate_overrides (pol_overrides p) = Inl PolicyOverrideError"
        by blast
      with row Some assms deny show ?thesis
        unfolding one by (auto simp: snapshot_decisions_def validated_decision_def)
    next
      case (Inr u)
      then obtain rs where rs: "decide_all p actions = Inr rs"
        using decide_all_total by auto
      with Inr row Some assms have "snap_decisions s = rs"
        by (auto simp: snapshot_decisions_def)
      with decide_all_validated [OF _ rs] Inr show ?thesis
        unfolding one by fastforce
    qed
  qed
qed

lemma snapshot_agrees_witness:
  "\<exists>s. snapshot_decisions \<lparr>ctx_tenant = 7, ctx_actor = None\<rparr> 3 [''run_tests'', ''nope''] example_policy_db = Inr s \<and>
     map fst (snap_decisions s) = [''run_tests'', ''nope''] \<and>
     (\<forall>(a, r)\<in>set (snap_decisions s).
        decision_for \<lparr>ctx_tenant = 7, ctx_actor = None\<rparr> 3 a example_policy_db = Inr r)"
proof -
  have "validate_overrides (pol_overrides example_policy) = Inr ()"
    by (simp add: tightening_map_iff [symmetric] tightening_map_def tightening_def
        example_policy_def MATRIX_def mk_rule_def)
  then obtain rs where "decide_all example_policy [''run_tests'', ''nope''] = Inr rs"
    using decide_all_total by blast
  then have "\<exists>s. snapshot_decisions \<lparr>ctx_tenant = 7, ctx_actor = None\<rparr> 3 [''run_tests'', ''nope''] example_policy_db = Inr s"
    using \<open>validate_overrides _ = _\<close>
    by (simp add: snapshot_decisions_def example_policy_get example_policy_def py_dict_def del: decide_all.simps)
  then show ?thesis using snapshot_agrees by blast
qed

end
