(* ===== verification/Approvals.thy ===== *)
theory Approvals
  imports Policy
begin

text \<open>
  The approval lifecycle: the pure state machine, the non-response policy and the gate
  (\<open>app/approvals/states.py\<close>), and the repository that requests, resolves and expires approvals
  (\<open>app/repositories/approvals.py\<close>).  \<open>_now()\<close> is an argument; \<open>func.now()\<close> is the
  transaction's \<open>db_now\<close>.  The primary key makes a lookup by id a search for the one row.
\<close>

section \<open>The state machine\<close>

primrec risk_tier_value :: "risk_tier \<Rightarrow> string" where
  "risk_tier_value LOW = ''low''"
| "risk_tier_value MEDIUM = ''medium''"
| "risk_tier_value HIGH = ''high''"
| "risk_tier_value PRODUCTION = ''production''"

text \<open>\<open>RiskTier(text)\<close>.\<close>

definition parse_risk_tier :: "string \<Rightarrow> risk_tier option" where
  "parse_risk_tier s =
     List.find (\<lambda>t. risk_tier_value t = s) [LOW, MEDIUM, HIGH, PRODUCTION]"

primrec status_value :: "approval_status \<Rightarrow> string" where
  "status_value PENDING = ''pending''"
| "status_value APPROVED = ''approved''"
| "status_value REJECTED = ''rejected''"
| "status_value CANCELLED = ''cancelled''"
| "status_value EXPIRED = ''expired''"
| "status_value PROCEEDED_BY_POLICY = ''proceeded_by_policy''"

definition TERMINAL :: "approval_status list" where
  "TERMINAL = [APPROVED, REJECTED, CANCELLED, EXPIRED, PROCEEDED_BY_POLICY]"

definition ALLOWED_TRANSITIONS :: "(approval_status \<times> approval_status list) list" where
  "ALLOWED_TRANSITIONS = [(PENDING, TERMINAL)]"

text \<open>\<open>ApprovalRowVanished\<close> is the \<open>AttributeError\<close> of using a \<open>None\<close> approval.\<close>

datatype approval_error =
    InvalidApprovalTransition
  | InvalidApprovalRequest
  | UnknownRiskTier
  | ApprovalRowVanished

definition transition_allowed :: "approval_status \<Rightarrow> approval_status \<Rightarrow> bool" where
  "transition_allowed current target =
     (case map_of ALLOWED_TRANSITIONS current of None \<Rightarrow> False | Some ts \<Rightarrow> target \<in> set ts)"

definition validate_transition :: "approval_status \<Rightarrow> approval_status \<Rightarrow> approval_error + unit" where
  "validate_transition current target =
     check (transition_allowed current target) InvalidApprovalTransition"

definition NON_RESPONSE_WINDOW :: timestamp where
  "NON_RESPONSE_WINDOW = hours 24"

definition compute_deadline :: "timestamp \<Rightarrow> risk_tier \<Rightarrow> bool \<Rightarrow> timestamp option" where
  "compute_deadline requested_at tier explicit =
     (if explicit then None
      else if tier \<in> {LOW, MEDIUM} then Some (requested_at + NON_RESPONSE_WINDOW)
      else None)"

definition auto_transition ::
  "risk_tier \<Rightarrow> bool \<Rightarrow> timestamp \<Rightarrow> timestamp \<Rightarrow> approval_status option" where
  "auto_transition tier explicit requested_at now =
     (if explicit then None
      else if now < requested_at + NON_RESPONSE_WINDOW then None
      else if tier = LOW then Some PROCEEDED_BY_POLICY
      else if tier = MEDIUM then Some EXPIRED
      else None)"

definition gate_is_blocked :: "approval_status option \<Rightarrow> bool \<Rightarrow> bool" where
  "gate_is_blocked status explicit =
     (if status = Some APPROVED then False
      else if status = Some PROCEEDED_BY_POLICY \<and> \<not> explicit then False
      else True)"

section \<open>The repository\<close>

text \<open>\<open>^sha256:[0-9a-f]{64}$\<close>, matched in full.\<close>

definition is_pseudonym :: "string \<Rightarrow> bool" where
  "is_pseudonym s \<longleftrightarrow>
     take 7 s = ''sha256:'' \<and> length s = 71 \<and> (\<forall>c\<in>set (drop 7 s). c \<in> set hex_digits)"

definition storage_actor :: "string option \<Rightarrow> string \<Rightarrow> string \<Rightarrow> approval_error + string" where
  "storage_actor value provenance fallback =
     (case value of
        None \<Rightarrow> Inr fallback
      | Some v \<Rightarrow> if provenance \<noteq> REQUEST_AUTHENTICATED \<or> \<not> is_pseudonym v
                 then Inl InvalidApprovalRequest else Inr v)"

text \<open>\<open>audit_actor or fallback\<close>.\<close>

definition str_or :: "string option \<Rightarrow> string \<Rightarrow> string" where
  "str_or s fallback = (case s of Some t \<Rightarrow> if t = [] then fallback else t | None \<Rightarrow> fallback)"

definition ap_record ::
  "tenant_context \<Rightarrow> approval_row \<Rightarrow> string \<Rightarrow> string \<Rightarrow> approval_status option \<Rightarrow> string option \<Rightarrow> db \<Rightarrow> db" where
  "ap_record ctx a event actor from_status note d =
     audit_record ctx (''approval.'' @ event) actor (Some (''approval:'' @ uuid_str (ap_id a)))
       [(''approval_id'', PStr (uuid_str (ap_id a))),
        (''project_id'', PStr (uuid_str (ap_project a))),
        (''action'', PStr (ap_action a)),
        (''risk_tier'', PStr (risk_tier_value (ap_risk_tier a))),
        (''requires_explicit_approval'', PBool (ap_explicit a)),
        (''requested_by_provenance'', PStr (ap_requested_prov a)),
        (''approver_provenance'', PStr (ap_approver_prov a)),
        (''from_status'', opt_str (map_option status_value from_status)),
        (''to_status'', PStr (status_value (ap_status a)))]
       (d\<lparr>approval_events := approval_events d @
          [\<lparr>ape_tenant = ctx_tenant ctx, ape_approval = ap_id a, ape_type = event,
            ape_actor = actor, ape_note = note\<rparr>]\<rparr>)"

record approval_request_args =
  rq_project :: uuid
  rq_action :: string
  rq_risk_tier :: string
  rq_requested_by :: string
  rq_explicit :: "bool option"
  rq_subject_ref :: "string option"
  rq_payload :: "pydict option"
  rq_storage_subject :: "string option"
  rq_audit_actor :: "string option"

definition approval_request ::
  "tenant_context \<Rightarrow> approval_request_args \<Rightarrow> timestamp \<Rightarrow> db \<Rightarrow> approval_error + (approval_row \<times> db)" where
  "approval_request ctx q now d =
     (case parse_risk_tier (rq_risk_tier q) of
        None \<Rightarrow> Inl UnknownRiskTier
      | Some tier \<Rightarrow>
          let mandatory = is_mandatory_action (rq_action q) in
          if mandatory \<and> rq_explicit q = Some False then Inl InvalidApprovalRequest
          else
            let explicit = (mandatory \<or> rq_explicit q = Some True);
                (req_by0, req_prov) = actor_fields (ctx_actor ctx) (rq_requested_by q)
            in bindE (storage_actor (rq_storage_subject q) req_prov req_by0) (\<lambda>req_by.
               let a = \<lparr>ap_id = db_next_id d, ap_tenant = ctx_tenant ctx, ap_project = rq_project q,
                        ap_action = rq_action q, ap_subject_ref = rq_subject_ref q,
                        ap_risk_tier = tier, ap_explicit = explicit, ap_status = PENDING,
                        ap_requested_by = req_by, ap_requested_prov = req_prov,
                        ap_requested_at = now,
                        ap_deadline_at = compute_deadline now tier explicit,
                        ap_resolved_by = None, ap_resolved_at = None,
                        ap_approver_prov = CALLER_SUPPLIED_UNVERIFIED,
                        ap_payload = (case rq_payload q of None \<Rightarrow> [] | Some p \<Rightarrow> p)\<rparr>;
                   d1 = d\<lparr>approvals := approvals d @ [a], db_next_id := db_next_id d + 1\<rparr>
               in Inr (a, ap_record ctx a ''requested'' (str_or (rq_audit_actor q) req_by) None None d1)))"

definition approval_get :: "tenant_context \<Rightarrow> uuid \<Rightarrow> db \<Rightarrow> approval_row option" where
  "approval_get ctx i d = List.find (\<lambda>r. ap_id r = i \<and> ap_tenant r = ctx_tenant ctx) (approvals d)"

definition list_pending :: "tenant_context \<Rightarrow> uuid option \<Rightarrow> db \<Rightarrow> approval_row list" where
  "list_pending ctx project d =
     filter (\<lambda>r. ap_tenant r = ctx_tenant ctx \<and> ap_status r = PENDING \<and>
                 (case project of None \<Rightarrow> True | Some p \<Rightarrow> ap_project r = p)) (approvals d)"

definition latest_for ::
  "tenant_context \<Rightarrow> uuid \<Rightarrow> string \<Rightarrow> string option \<Rightarrow> db \<Rightarrow> approval_row option" where
  "latest_for ctx project action subject d =
     latest_by ap_requested_at
       (filter (\<lambda>r. ap_tenant r = ctx_tenant ctx \<and> ap_project r = project \<and> ap_action r = action \<and>
                    (case subject of None \<Rightarrow> True | Some s \<Rightarrow> ap_subject_ref r = Some s))
          (approvals d))"

definition approval_is_blocked ::
  "tenant_context \<Rightarrow> uuid \<Rightarrow> string \<Rightarrow> string option \<Rightarrow> db \<Rightarrow> bool" where
  "approval_is_blocked ctx project action subject d =
     (case latest_for ctx project action subject d of
        None \<Rightarrow> True
      | Some a \<Rightarrow> gate_is_blocked (Some (ap_status a)) (ap_explicit a))"

text \<open>The guarded update: only a pending row of the tenant moves, and no row is an error.\<close>

definition resolved_row ::
  "approval_status \<Rightarrow> string option \<Rightarrow> string option \<Rightarrow> timestamp \<Rightarrow> approval_row \<Rightarrow> approval_row" where
  "resolved_row target resolved_by prov now r =
     (let r1 = r\<lparr>ap_status := target\<rparr>;
          r2 = (if resolved_by \<noteq> None
                then r1\<lparr>ap_resolved_by := resolved_by, ap_resolved_at := Some now\<rparr> else r1)
      in (case prov of None \<Rightarrow> r2 | Some p \<Rightarrow> r2\<lparr>ap_approver_prov := p\<rparr>))"

definition ap_transition ::
  "tenant_context \<Rightarrow> uuid \<Rightarrow> approval_status \<Rightarrow> string option \<Rightarrow> string option \<Rightarrow> db \<Rightarrow> approval_error + db" where
  "ap_transition ctx i target resolved_by prov d =
     (let hit = (\<lambda>r. ap_id r = i \<and> ap_tenant r = ctx_tenant ctx \<and> ap_status r = PENDING) in
      if \<exists>r\<in>set (approvals d). hit r
      then Inr (d\<lparr>approvals := update_where hit (resolved_row target resolved_by prov (db_now d)) (approvals d)\<rparr>)
      else Inl InvalidApprovalTransition)"

record resolve_args =
  rv_approval :: uuid
  rv_actor :: string
  rv_note :: "string option"
  rv_storage_subject :: "string option"
  rv_audit_actor :: "string option"

text \<open>Section 2.2: a verified actor does not approve its own verified request.\<close>

definition check_not_own_request ::
  "tenant_context \<Rightarrow> approval_status \<Rightarrow> uuid \<Rightarrow> string \<Rightarrow> string \<Rightarrow> db \<Rightarrow> approval_error + unit" where
  "check_not_own_request ctx target i prov resolver d =
     (if target = APPROVED
      then (case approval_get ctx i d of
              Some e \<Rightarrow>
                check (\<not> (prov = REQUEST_AUTHENTICATED \<and>
                           ap_requested_prov e = REQUEST_AUTHENTICATED \<and>
                           ap_requested_by e = resolver)) InvalidApprovalRequest
            | None \<Rightarrow> Inr ())
      else Inr ())"

definition resolve_by_human ::
  "tenant_context \<Rightarrow> approval_status \<Rightarrow> resolve_args \<Rightarrow> db \<Rightarrow> approval_error + (approval_row \<times> db)" where
  "resolve_by_human ctx target q d =
     (let (resolver0, prov) = actor_fields (ctx_actor ctx) (rv_actor q) in
      bindE (storage_actor (rv_storage_subject q) prov resolver0) (\<lambda>resolver.
      bindE (check_not_own_request ctx target (rv_approval q) prov resolver d) (\<lambda>_.
      bindE (ap_transition ctx (rv_approval q) target (Some resolver) (Some prov) d) (\<lambda>d1.
        case approval_get ctx (rv_approval q) d1 of
          None \<Rightarrow> Inl ApprovalRowVanished
        | Some a \<Rightarrow>
            Inr (a, ap_record ctx a (status_value target) (str_or (rv_audit_actor q) resolver)
                      (Some PENDING) (rv_note q) d1)))))"

definition approve :: "tenant_context \<Rightarrow> resolve_args \<Rightarrow> db \<Rightarrow> approval_error + (approval_row \<times> db)" where
  "approve ctx = resolve_by_human ctx APPROVED"

definition reject :: "tenant_context \<Rightarrow> resolve_args \<Rightarrow> db \<Rightarrow> approval_error + (approval_row \<times> db)" where
  "reject ctx = resolve_by_human ctx REJECTED"

definition cancel :: "tenant_context \<Rightarrow> resolve_args \<Rightarrow> db \<Rightarrow> approval_error + (approval_row \<times> db)" where
  "cancel ctx = resolve_by_human ctx CANCELLED"

definition expire_if_overdue ::
  "tenant_context \<Rightarrow> uuid \<Rightarrow> timestamp option \<Rightarrow> timestamp \<Rightarrow> db \<Rightarrow> approval_error + (approval_row option \<times> db)" where
  "expire_if_overdue ctx i now clock d =
     (case approval_get ctx i d of
        None \<Rightarrow> Inr (None, d)
      | Some a \<Rightarrow>
          if ap_status a \<noteq> PENDING then Inr (Some a, d)
          else
            (case auto_transition (ap_risk_tier a) (ap_explicit a) (ap_requested_at a)
                    (case now of None \<Rightarrow> clock | Some t \<Rightarrow> t) of
               None \<Rightarrow> Inr (Some a, d)
             | Some target \<Rightarrow>
                 bindE (ap_transition ctx i target None None d) (\<lambda>d1.
                   case approval_get ctx i d1 of
                     None \<Rightarrow> Inl ApprovalRowVanished
                   | Some a1 \<Rightarrow>
                       Inr (Some a1, ap_record ctx a1 (status_value target) ''system'' (Some PENDING) None d1))))"

section \<open>Lemmas\<close>

interpretation approval_status: one_way_lifecycle transition_allowed "\<lambda>s. s \<in> set TERMINAL"
  "\<lambda>s. if s = PENDING then 1 else 0"
  by unfold_locales
    (auto simp: transition_allowed_def ALLOWED_TRANSITIONS_def TERMINAL_def split: if_splits)

lemma terminal_iff: "s \<in> set TERMINAL \<longleftrightarrow> s \<noteq> PENDING"
  by (cases s) (simp_all add: TERMINAL_def)

lemma ap_record_frame [simp]:
  "approvals (ap_record ctx a e actor fs note d) = approvals d"
  "approval_events (ap_record ctx a e actor fs note d) = approval_events d @
     [\<lparr>ape_tenant = ctx_tenant ctx, ape_approval = ap_id a, ape_type = e, ape_actor = actor, ape_note = note\<rparr>]"
  "db_next_id (ap_record ctx a e actor fs note d) = db_next_id d"
  "length (audit_log (ap_record ctx a e actor fs note d)) = Suc (length (audit_log d))"
  by (simp_all add: ap_record_def)

lemma foreign_ap_record [simp]:
  "t = ctx_tenant ctx \<Longrightarrow> foreign t (ap_record ctx a e actor fs note d) = foreign t d"
  by (simp add: ap_record_def)

lemma resolved_row_frame [simp]:
  "ap_id (resolved_row t rb p n r) = ap_id r"
  "ap_tenant (resolved_row t rb p n r) = ap_tenant r"
  "ap_project (resolved_row t rb p n r) = ap_project r"
  "ap_action (resolved_row t rb p n r) = ap_action r"
  "ap_explicit (resolved_row t rb p n r) = ap_explicit r"
  "ap_risk_tier (resolved_row t rb p n r) = ap_risk_tier r"
  "ap_requested_at (resolved_row t rb p n r) = ap_requested_at r"
  "ap_deadline_at (resolved_row t rb p n r) = ap_deadline_at r"
  "ap_requested_by (resolved_row t rb p n r) = ap_requested_by r"
  "ap_requested_prov (resolved_row t rb p n r) = ap_requested_prov r"
  "ap_status (resolved_row t rb p n r) = t"
  "ap_resolved_by (resolved_row t (Some b) p n r) = Some b"
  "ap_resolved_by (resolved_row t None p n r) = ap_resolved_by r"
  "ap_approver_prov (resolved_row t rb (Some q) n r) = q"
  by (cases rb; cases p; simp add: resolved_row_def)+

lemma ap_transition_frame:
  assumes "ap_transition ctx i t rb p d = Inr d1"
  shows "approval_events d1 = approval_events d" "db_next_id d1 = db_next_id d"
    "audit_log d1 = audit_log d" "foreign (ctx_tenant ctx) d1 = foreign (ctx_tenant ctx) d"
    "map ap_id (approvals d1) = map ap_id (approvals d)"
proof -
  let ?hit = "\<lambda>r. ap_id r = i \<and> ap_tenant r = ctx_tenant ctx \<and> ap_status r = PENDING"
  let ?f = "resolved_row t rb p (db_now d)"
  have d1: "d1 = d\<lparr>approvals := update_where ?hit ?f (approvals d)\<rparr>"
    using assms by (simp add: ap_transition_def Let_def split: if_splits)
  have "filter (\<lambda>r. ap_tenant r \<noteq> ctx_tenant ctx) (update_where ?hit ?f (approvals d)) =
      filter (\<lambda>r. ap_tenant r \<noteq> ctx_tenant ctx) (approvals d)"
    by (rule filter_update_where_disjoint) simp
  then show "foreign (ctx_tenant ctx) d1 = foreign (ctx_tenant ctx) d"
    unfolding d1 by simp
  show "approval_events d1 = approval_events d" "db_next_id d1 = db_next_id d"
    "audit_log d1 = audit_log d" "map ap_id (approvals d1) = map ap_id (approvals d)"
    unfolding d1 by (simp_all add: map_update_where)
qed

text \<open>The row an update moved, under unique ids.\<close>

lemma ap_transition_row:
  assumes "ap_transition ctx i t rb p d = Inr d1" "distinct (map ap_id (approvals d))"
  obtains r where "r \<in> set (approvals d)" "ap_id r = i" "ap_tenant r = ctx_tenant ctx"
    "ap_status r = PENDING" "approval_get ctx i d = Some r"
    "approval_get ctx i d1 = Some (resolved_row t rb p (db_now d) r)"
    "set (approvals d1) = insert (resolved_row t rb p (db_now d) r) (set (approvals d) - {r})"
proof -
  let ?hit = "\<lambda>r. ap_id r = i \<and> ap_tenant r = ctx_tenant ctx \<and> ap_status r = PENDING"
  let ?f = "resolved_row t rb p (db_now d)"
  obtain r where r: "r \<in> set (approvals d)" "?hit r" and d1: "approvals d1 = update_where ?hit ?f (approvals d)"
    using assms(1) by (auto simp: ap_transition_def Let_def split: if_splits)
  have one: "s = r" if "s \<in> set (approvals d)" "ap_id s = i" for s
    using that r assms(2) by (auto simp: distinct_map inj_on_def)
  have get: "approval_get ctx i d = Some r"
    unfolding approval_get_def by (rule find_unique [OF assms(2) r(1)]) (use r(2) in simp_all)
  have mem: "?f r \<in> set (approvals d1)"
    unfolding d1 update_where_def using r by (auto intro!: image_eqI [where x = r])
  have "distinct (map ap_id (approvals d1))"
    using assms ap_transition_frame(5) by metis
  then have get1: "approval_get ctx i d1 = Some (?f r)"
    unfolding approval_get_def by (rule find_unique [OF _ mem]) (use r(2) in simp_all)
  have "set (approvals d1) = insert (?f r) (set (approvals d) - {r})"
  proof -
    have hit: "?hit s \<longleftrightarrow> s = r" if "s \<in> set (approvals d)" for s
      using that r(2) one by blast
    have "(if ?hit s then ?f s else s) = (if s = r then ?f r else s)" if "s \<in> set (approvals d)" for s
      by (rule if_cong [OF hit [OF that]]) (erule arg_cong, rule refl)
    then have "set (approvals d1) = (\<lambda>s. if s = r then ?f r else s) ` set (approvals d)"
      unfolding d1 update_where_def set_map by (intro image_cong refl)
    with r(1) show ?thesis by auto
  qed
  with that r get get1 show thesis by blast
qed

section \<open>The invariant of the approval tables\<close>

text \<open>
  What holds of every row: section 2.6 actions are explicit, the deadline is the one computed at the
  request, a lapse is only what the non-response policy allows, a human resolution names its
  resolver, and an approval by a verified actor is not the requester's own.
\<close>

definition approval_row_ok :: "approval_row \<Rightarrow> bool" where
  "approval_row_ok r \<longleftrightarrow>
     (is_mandatory_action (ap_action r) \<longrightarrow> ap_explicit r) \<and>
     ap_deadline_at r = compute_deadline (ap_requested_at r) (ap_risk_tier r) (ap_explicit r) \<and>
     (case ap_status r of
        PENDING \<Rightarrow> ap_resolved_by r = None
      | EXPIRED \<Rightarrow> ap_resolved_by r = None \<and> \<not> ap_explicit r \<and> ap_risk_tier r = MEDIUM
      | PROCEEDED_BY_POLICY \<Rightarrow> ap_resolved_by r = None \<and> \<not> ap_explicit r \<and> ap_risk_tier r = LOW
      | _ \<Rightarrow> ap_resolved_by r \<noteq> None) \<and>
     (ap_status r = APPROVED \<and> ap_requested_prov r = REQUEST_AUTHENTICATED \<and>
      ap_approver_prov r = REQUEST_AUTHENTICATED \<longrightarrow> ap_resolved_by r \<noteq> Some (ap_requested_by r))"

definition approval_history :: "db \<Rightarrow> uuid \<Rightarrow> string list" where
  "approval_history d i = map ape_type (filter (\<lambda>e. ape_approval e = i) (approval_events d))"

text \<open>The history of a row: the request, and then its one transition.\<close>

definition history_of :: "approval_status \<Rightarrow> string list" where
  "history_of s = ''requested'' # (if s = PENDING then [] else [status_value s])"

definition approvals_wf :: "db \<Rightarrow> bool" where
  "approvals_wf d \<longleftrightarrow>
     distinct (map ap_id (approvals d)) \<and>
     (\<forall>r\<in>set (approvals d). ap_id r < db_next_id d \<and> approval_row_ok r \<and>
        approval_history d (ap_id r) = history_of (ap_status r)) \<and>
     (\<forall>e\<in>set (approval_events d). ape_approval e < db_next_id d)"

lemma approval_history_record [simp]:
  "approval_history (ap_record ctx a e actor fs note d) i =
     approval_history d i @ (if ap_id a = i then [e] else [])"
  by (simp add: approval_history_def)

lemma approval_history_update [simp]:
  "approval_history (d\<lparr>approvals := rs\<rparr>) i = approval_history d i"
  "approval_history (d\<lparr>db_next_id := n\<rparr>) i = approval_history d i"
  by (simp_all add: approval_history_def)

lemma approval_request_cases:
  assumes "approval_request ctx q now d = Inr (a, d')"
  obtains tier actor d1 where
    "parse_risk_tier (rq_risk_tier q) = Some tier"
    "d1 = d\<lparr>approvals := approvals d @ [a], db_next_id := db_next_id d + 1\<rparr>"
    "d' = ap_record ctx a ''requested'' actor None None d1"
    "ap_id a = db_next_id d" "ap_tenant a = ctx_tenant ctx" "ap_status a = PENDING"
    "ap_explicit a \<longleftrightarrow> is_mandatory_action (rq_action q) \<or> rq_explicit q = Some True"
    "ap_action a = rq_action q" "ap_resolved_by a = None" "ap_approver_prov a = CALLER_SUPPLIED_UNVERIFIED"
    "ap_requested_at a = now" "ap_deadline_at a = compute_deadline now (ap_risk_tier a) (ap_explicit a)"
    "ap_requested_prov a = (if ctx_actor ctx = None then CALLER_SUPPLIED_UNVERIFIED else REQUEST_AUTHENTICATED)"
  using assms
  by (auto simp: approval_request_def Let_def actor_fields_def split: option.splits if_splits)

lemma approval_request_wf:
  assumes "approvals_wf d" "approval_request ctx q now d = Inr (a, d')"
  shows "approvals_wf d'"
  using assms(2)
proof (rule approval_request_cases)
  fix tier actor d1
  assume d1: "d1 = d\<lparr>approvals := approvals d @ [a], db_next_id := db_next_id d + 1\<rparr>"
    and d': "d' = ap_record ctx a ''requested'' actor None None d1"
    and a: "ap_id a = db_next_id d" "ap_status a = PENDING" "ap_action a = rq_action q"
      "ap_explicit a \<longleftrightarrow> is_mandatory_action (rq_action q) \<or> rq_explicit q = Some True"
      "ap_resolved_by a = None" "ap_requested_at a = now"
      "ap_deadline_at a = compute_deadline now (ap_risk_tier a) (ap_explicit a)"
  have ok: "approval_row_ok a"
    by (auto simp: approval_row_ok_def a)
  have fresh: "ap_id r \<noteq> db_next_id d" if "r \<in> set (approvals d)" for r
    using assms(1) that by (auto simp: approvals_wf_def)
  have none: "approval_history d (db_next_id d) = []"
    using assms(1) by (auto simp: approvals_wf_def approval_history_def filter_empty_conv)
  show "approvals_wf d'"
    using assms(1) ok none fresh
    by (auto simp: approvals_wf_def d' history_of_def a(1,2) d1 image_iff less_Suc_eq)
qed

text \<open>The guarded update with its record keeps the invariant, given the resolved row is right.\<close>

lemma transition_record_wf:
  assumes wf: "approvals_wf d" and tr: "ap_transition ctx i t rb p d = Inr d1"
    and get: "approval_get ctx i d1 = Some a" and t: "t \<noteq> PENDING"
    and ok: "\<And>r. approval_get ctx i d = Some r \<Longrightarrow> ap_status r = PENDING \<Longrightarrow> approval_row_ok r \<Longrightarrow>
      approval_row_ok (resolved_row t rb p (db_now d) r)"
  shows "approvals_wf (ap_record ctx a (status_value t) actor fs note d1)"
proof -
  let ?f = "resolved_row t rb p (db_now d)"
  from wf have dist: "distinct (map ap_id (approvals d))"
    by (simp add: approvals_wf_def)
  obtain r where r: "r \<in> set (approvals d)" "ap_id r = i" "ap_status r = PENDING"
    "approval_get ctx i d = Some r"
    and get1: "approval_get ctx i d1 = Some (?f r)"
    and set1: "set (approvals d1) = insert (?f r) (set (approvals d) - {r})"
    using ap_transition_row [OF tr dist] by blast
  have a: "a = ?f r" using get get1 by simp
  note frame = ap_transition_frame [OF tr]
  have okr: "approval_row_ok (?f r)"
    using ok r wf by (simp add: approvals_wf_def)
  have hist: "approval_history d1 = approval_history d"
    by (simp add: approval_history_def frame fun_eq_iff)
  have histr: "approval_history d i = [''requested'']"
    using wf r by (auto simp: approvals_wf_def history_of_def)
  have others: "ap_id s \<noteq> i" if "s \<in> set (approvals d) - {r}" for s
    using that r dist by (auto simp: distinct_map inj_on_def)
  have new: "ap_id x < db_next_id d \<and> approval_row_ok x \<and>
      approval_history d (ap_id x) @ (if i = ap_id x then [status_value t] else []) = history_of (ap_status x)"
    if "x \<in> set (approvals d1)" for x
  proof (cases "x = ?f r")
    case True
    with okr histr t r wf show ?thesis by (auto simp: history_of_def approvals_wf_def)
  next
    case False
    with that set1 have x: "x \<in> set (approvals d) - {r}" by simp
    with others [OF x] wf show ?thesis by (auto simp: approvals_wf_def)
  qed
  have "ape_approval e < db_next_id d" if "e \<in> set (approval_events d)" for e
    using wf that by (simp add: approvals_wf_def)
  moreover have "i < db_next_id d"
    using wf r by (auto simp: approvals_wf_def)
  ultimately show ?thesis
    using new dist by (auto simp: approvals_wf_def frame hist a r(2))
qed

lemma resolve_by_human_cases:
  assumes "resolve_by_human ctx t q d = Inr (a, d')"
  obtains resolver prov d1 actor where
    "ap_transition ctx (rv_approval q) t (Some resolver) (Some prov) d = Inr d1"
    "approval_get ctx (rv_approval q) d1 = Some a"
    "d' = ap_record ctx a (status_value t) actor (Some PENDING) (rv_note q) d1"
    "prov = REQUEST_AUTHENTICATED \<longleftrightarrow> ctx_actor ctx \<noteq> None"
    "\<And>e. t = APPROVED \<Longrightarrow> approval_get ctx (rv_approval q) d = Some e \<Longrightarrow>
       \<not> (prov = REQUEST_AUTHENTICATED \<and> ap_requested_prov e = REQUEST_AUTHENTICATED \<and>
          ap_requested_by e = resolver)"
proof -
  obtain r0 prov where f: "actor_fields (ctx_actor ctx) (rv_actor q) = (r0, prov)"
    by (cases "actor_fields (ctx_actor ctx) (rv_actor q)")
  have p: "prov = REQUEST_AUTHENTICATED \<longleftrightarrow> ctx_actor ctx \<noteq> None"
    using f actor_fields_verified_iff [of "ctx_actor ctx" "rv_actor q"] by simp
  obtain resolver d1 where
    own: "check_not_own_request ctx t (rv_approval q) prov resolver d = Inr ()"
    and tr: "ap_transition ctx (rv_approval q) t (Some resolver) (Some prov) d = Inr d1"
    and get: "approval_get ctx (rv_approval q) d1 = Some a"
    and d': "d' = ap_record ctx a (status_value t) (str_or (rv_audit_actor q) resolver) (Some PENDING) (rv_note q) d1"
    using assms unfolding resolve_by_human_def f Let_def prod.case
    by (auto split: option.splits)
  have "\<not> (prov = REQUEST_AUTHENTICATED \<and> ap_requested_prov e = REQUEST_AUTHENTICATED \<and> ap_requested_by e = resolver)"
    if "t = APPROVED" "approval_get ctx (rv_approval q) d = Some e" for e
    using own that by (simp add: check_not_own_request_def)
  with that [OF tr get d' p] show thesis by blast
qed

lemma expire_cases:
  assumes "expire_if_overdue ctx i now clock d = Inr (a, d')"
  obtains (unchanged) "d' = d" "a = approval_get ctx i d"
  | (lapsed) r t d1 a1 where
    "approval_get ctx i d = Some r" "ap_status r = PENDING"
    "auto_transition (ap_risk_tier r) (ap_explicit r) (ap_requested_at r)
       (case now of None \<Rightarrow> clock | Some n \<Rightarrow> n) = Some t"
    "ap_transition ctx i t None None d = Inr d1" "approval_get ctx i d1 = Some a1" "a = Some a1"
    "d' = ap_record ctx a1 (status_value t) ''system'' (Some PENDING) None d1"
  using assms by (fastforce simp: expire_if_overdue_def split: option.splits if_splits)

lemma auto_transition_Some:
  "auto_transition tier explicit at now = Some t \<longleftrightarrow>
     \<not> explicit \<and> at + NON_RESPONSE_WINDOW \<le> now \<and>
     (tier = LOW \<and> t = PROCEEDED_BY_POLICY \<or> tier = MEDIUM \<and> t = EXPIRED)"
  by (auto simp: auto_transition_def)

lemma resolve_by_human_wf:
  assumes "approvals_wf d" "resolve_by_human ctx t q d = Inr (a, d')" "t \<in> {APPROVED, REJECTED, CANCELLED}"
  shows "approvals_wf d'"
  using assms(2)
proof (rule resolve_by_human_cases)
  fix resolver prov d1 actor
  assume tr: "ap_transition ctx (rv_approval q) t (Some resolver) (Some prov) d = Inr d1"
    and get: "approval_get ctx (rv_approval q) d1 = Some a"
    and d': "d' = ap_record ctx a (status_value t) actor (Some PENDING) (rv_note q) d1"
    and sod: "\<And>e. t = APPROVED \<Longrightarrow> approval_get ctx (rv_approval q) d = Some e \<Longrightarrow>
       \<not> (prov = REQUEST_AUTHENTICATED \<and> ap_requested_prov e = REQUEST_AUTHENTICATED \<and>
          ap_requested_by e = resolver)"
  show "approvals_wf d'"
    unfolding d'
  proof (rule transition_record_wf [OF assms(1) tr get])
    show "t \<noteq> PENDING" using assms(3) by auto
    fix r
    assume "approval_get ctx (rv_approval q) d = Some r" "ap_status r = PENDING" "approval_row_ok r"
    with sod [of r] assms(3) show "approval_row_ok (resolved_row t (Some resolver) (Some prov) (db_now d) r)"
      by (auto simp: approval_row_ok_def)
  qed
qed

lemma expire_wf:
  assumes "approvals_wf d" "expire_if_overdue ctx i now clock d = Inr (a, d')"
  shows "approvals_wf d'"
  using assms(2)
proof (cases rule: expire_cases)
  case (lapsed r t d1 a1)
  show ?thesis
    unfolding lapsed(7)
  proof (rule transition_record_wf [OF assms(1) lapsed(4,5)])
    show "t \<noteq> PENDING" using lapsed(3) by (auto simp: auto_transition_Some)
    fix r'
    assume "approval_get ctx i d = Some r'" "ap_status r' = PENDING" "approval_row_ok r'"
    with lapsed(1,3) show "approval_row_ok (resolved_row t None None (db_now d) r')"
      by (auto simp: approval_row_ok_def auto_transition_Some)
  qed
qed (use assms in simp)

section \<open>Reachable databases\<close>

text \<open>
  Any tenant's operation, in any order, at any clock.  A raising operation leaves the database as it
  was (the transaction rolls back), so only the successes are steps.
\<close>

inductive approval_step :: "db \<Rightarrow> db \<Rightarrow> bool" where
  step_request: "approval_request ctx q now d = Inr (a, d') \<Longrightarrow> approval_step d d'"
| step_approve: "approve ctx v d = Inr (a, d') \<Longrightarrow> approval_step d d'"
| step_reject: "reject ctx v d = Inr (a, d') \<Longrightarrow> approval_step d d'"
| step_cancel: "cancel ctx v d = Inr (a, d') \<Longrightarrow> approval_step d d'"
| step_expire: "expire_if_overdue ctx i now clock d = Inr (r, d') \<Longrightarrow> approval_step d d'"
| step_clock: "approval_step d (d\<lparr>db_now := t\<rparr>)"

inductive approval_reachable :: "db \<Rightarrow> bool" where
  reach_init: "approvals d = [] \<Longrightarrow> approval_events d = [] \<Longrightarrow> approval_reachable d"
| reach_step: "approval_reachable d \<Longrightarrow> approval_step d d' \<Longrightarrow> approval_reachable d'"

lemma approval_step_wf: "approval_step d d' \<Longrightarrow> approvals_wf d \<Longrightarrow> approvals_wf d'"
proof (induction rule: approval_step.induct)
  case (step_clock d t)
  then show ?case by (simp add: approvals_wf_def approval_history_def)
qed (auto simp: approve_def reject_def cancel_def
      intro: approval_request_wf resolve_by_human_wf expire_wf)

lemma approval_reachable_wf: "approval_reachable d \<Longrightarrow> approvals_wf d"
proof (induction rule: approval_reachable.induct)
  case (reach_init d)
  then show ?case by (simp add: approvals_wf_def)
qed (blast intro: approval_step_wf)

text \<open>One step moves each row by at most one allowed transition.\<close>

lemma transition_row_moves:
  assumes "ap_transition ctx i t rb p d = Inr d1" "distinct (map ap_id (approvals d))" "t \<noteq> PENDING"
    "s \<in> set (approvals d)"
  shows "\<exists>s'\<in>set (approvals d1). ap_id s' = ap_id s \<and> (s' = s \<or> transition_allowed (ap_status s) (ap_status s'))"
proof -
  obtain r where r: "ap_status r = PENDING"
    and set1: "set (approvals d1) = insert (resolved_row t rb p (db_now d) r) (set (approvals d) - {r})"
    using ap_transition_row [OF assms(1,2)] by metis
  show ?thesis
  proof (cases "s = r")
    case True
    have "transition_allowed PENDING t"
      using assms(3) terminal_iff by (simp add: transition_allowed_def ALLOWED_TRANSITIONS_def)
    with True r set1 show ?thesis by auto
  next
    case False
    with assms(4) set1 show ?thesis by auto
  qed
qed

lemma approval_step_moves:
  assumes "approval_step d d'" "approvals_wf d" "s \<in> set (approvals d)"
  shows "\<exists>s'\<in>set (approvals d'). ap_id s' = ap_id s \<and> (s' = s \<or> transition_allowed (ap_status s) (ap_status s'))"
proof -
  have dist: "distinct (map ap_id (approvals d))"
    using assms(2) by (simp add: approvals_wf_def)
  have human: "\<exists>s'\<in>set (approvals d'). ap_id s' = ap_id s \<and> (s' = s \<or> transition_allowed (ap_status s) (ap_status s'))"
    if "resolve_by_human ctx t v d = Inr (a, d')" "t \<noteq> PENDING" for ctx t v a
  proof (rule resolve_by_human_cases [OF that(1)])
    fix resolver prov d1 actor
    assume tr: "ap_transition ctx (rv_approval v) t (Some resolver) (Some prov) d = Inr d1"
      and "d' = ap_record ctx a (status_value t) actor (Some PENDING) (rv_note v) d1"
    with transition_row_moves [OF tr dist that(2) assms(3)] show ?thesis by simp
  qed
  from assms(1) show ?thesis
  proof cases
    case (step_request ctx q now a)
    then show ?thesis using assms(3) by (rule_tac approval_request_cases) auto
  next
    case (step_expire ctx i now clock r)
    then show ?thesis
    proof (cases rule: expire_cases)
      case (lapsed x t d1 a1)
      from lapsed(3) have "t \<noteq> PENDING" by (auto simp: auto_transition_Some)
      from transition_row_moves [OF lapsed(4) dist this assms(3)] lapsed(7) show ?thesis by simp
    qed (use assms(3) in auto)
  qed (use human assms(3) in \<open>auto simp: approve_def reject_def cancel_def\<close>)
qed

lemma approval_steps_moves:
  assumes "approval_step\<^sup>*\<^sup>* d d'" "approvals_wf d" "s \<in> set (approvals d)"
  shows "\<exists>s'\<in>set (approvals d'). ap_id s' = ap_id s \<and> (s' = s \<or> transition_allowed (ap_status s) (ap_status s'))"
  using assms(1)
proof (induction rule: rtranclp_induct)
  case base
  then show ?case using assms(3) by auto
next
  case (step d1 d2)
  then obtain s1 where s1: "s1 \<in> set (approvals d1)" "ap_id s1 = ap_id s"
    "s1 = s \<or> transition_allowed (ap_status s) (ap_status s1)" by blast
  have "approvals_wf d1"
    using step.hyps(1) assms(2) by (induction rule: rtranclp_induct) (blast intro: approval_step_wf)+
  with approval_step_moves [OF step.hyps(2) _ s1(1)] obtain s2 where s2: "s2 \<in> set (approvals d2)"
    "ap_id s2 = ap_id s1" "s2 = s1 \<or> transition_allowed (ap_status s1) (ap_status s2)" by blast
  have "s2 = s1 \<or> s1 = s"
    using s1(3) s2(3) approval_status.terminal_stuck [of "ap_status s1" "ap_status s2"]
    by (auto simp: transition_allowed_def ALLOWED_TRANSITIONS_def split: if_splits)
  with s1 s2 show ?case by auto
qed

section \<open>Properties\<close>

text \<open>The concrete instance the witnesses share: tenant 7's service asks, its owner approves.\<close>

definition example_requester :: tenant_context where
  "example_requester = \<lparr>ctx_tenant = 7, ctx_actor = Some \<lparr>actor_subject = ''svc'', actor_type = ''service''\<rparr>\<rparr>"

definition example_approver :: tenant_context where
  "example_approver = \<lparr>ctx_tenant = 7, ctx_actor = Some \<lparr>actor_subject = ''owner'', actor_type = ''human''\<rparr>\<rparr>"

definition example_request :: approval_request_args where
  "example_request = \<lparr>rq_project = 3, rq_action = ''accept_risk'', rq_risk_tier = ''high'',
     rq_requested_by = ''x'', rq_explicit = None, rq_subject_ref = None, rq_payload = None,
     rq_storage_subject = None, rq_audit_actor = None\<rparr>"

definition example_approval :: approval_row where
  "example_approval = \<lparr>ap_id = 100, ap_tenant = 7, ap_project = 3, ap_action = ''accept_risk'',
     ap_subject_ref = None, ap_risk_tier = HIGH, ap_explicit = True, ap_status = PENDING,
     ap_requested_by = ''svc'', ap_requested_prov = REQUEST_AUTHENTICATED, ap_requested_at = 10,
     ap_deadline_at = None, ap_resolved_by = None, ap_resolved_at = None,
     ap_approver_prov = CALLER_SUPPLIED_UNVERIFIED, ap_payload = []\<rparr>"

definition example_requested_db :: db where
  "example_requested_db = ap_record example_requester example_approval ''requested'' ''svc'' None None
     (empty_db\<lparr>approvals := [example_approval], db_next_id := 101\<rparr>)"

definition example_resolution :: resolve_args where
  "example_resolution = \<lparr>rv_approval = 100, rv_actor = ''x'', rv_note = None, rv_storage_subject = None,
     rv_audit_actor = None\<rparr>"

definition example_approved :: approval_row where
  "example_approved = resolved_row APPROVED (Some ''owner'') (Some REQUEST_AUTHENTICATED) 0 example_approval"

definition example_approved_db :: db where
  "example_approved_db = ap_record example_approver example_approved ''approved'' ''owner'' (Some PENDING) None
     (example_requested_db\<lparr>approvals := [example_approved]\<rparr>)"

lemma example_request_ok:
  "approval_request example_requester example_request 10 empty_db = Inr (example_approval, example_requested_db)"
  by (simp add: approval_request_def example_request_def example_requester_def example_approval_def
      example_requested_db_def parse_risk_tier_def is_mandatory_action_def MATRIX_def mk_rule_def
      storage_actor_def actor_fields_def compute_deadline_def str_or_def empty_db_def Let_def)

lemma example_approve_ok:
  "approve example_approver example_resolution example_requested_db = Inr (example_approved, example_approved_db)"
proof -
  have "approvals example_requested_db = [example_approval]" "db_now example_requested_db = 0"
    by (simp_all add: example_requested_db_def ap_record_def empty_db_def)
  then show ?thesis
    by (simp add: approve_def resolve_by_human_def example_resolution_def example_approver_def
        actor_fields_def storage_actor_def check_not_own_request_def approval_get_def ap_transition_def
        example_approval_def update_where_def example_approved_def example_approved_db_def str_or_def)
qed

lemma example_reachable: "approval_reachable example_approved_db"
proof -
  have "approval_reachable empty_db"
    by (rule reach_init) (simp_all add: empty_db_def)
  with step_request [OF example_request_ok] have "approval_reachable example_requested_db"
    by (blast intro: reach_step)
  with step_approve [OF example_approve_ok] show ?thesis
    by (blast intro: reach_step)
qed

lemma example_approved_rows [simp]: "approvals example_approved_db = [example_approved]"
  by (simp add: example_approved_db_def)

text \<open>C3: In every reachable database, a section 2.6 action that the gate lets through rests on an
  approval of that tenant, project and action that is explicit, was approved, names who resolved
  it, and whose recorded history is the request and its approval.\<close>

theorem mandatory_gate_needs_approval:
  assumes "approval_reachable d" "is_mandatory_action action"
    "\<not> approval_is_blocked ctx project action subject d"
  shows "\<exists>r\<in>set (approvals d). ap_tenant r = ctx_tenant ctx \<and> ap_project r = project \<and>
    ap_action r = action \<and> ap_explicit r \<and> ap_status r = APPROVED \<and> ap_resolved_by r \<noteq> None \<and>
    approval_history d (ap_id r) = [''requested'', ''approved'']"
proof -
  from assms(3) obtain r where latest: "latest_for ctx project action subject d = Some r"
    and gate: "\<not> gate_is_blocked (Some (ap_status r)) (ap_explicit r)"
    by (auto simp: approval_is_blocked_def split: option.splits)
  from latest have r: "r \<in> set (approvals d)" "ap_tenant r = ctx_tenant ctx" "ap_project r = project"
    "ap_action r = action"
    by (auto simp: latest_for_def dest: latest_by_mem)
  from approval_reachable_wf [OF assms(1)] r(1)
  have ok: "approval_row_ok r" and h: "approval_history d (ap_id r) = history_of (ap_status r)"
    by (auto simp: approvals_wf_def)
  from ok assms(2) r(4) have "ap_explicit r"
    by (simp add: approval_row_ok_def)
  with gate ok h r show ?thesis
    by (auto simp: gate_is_blocked_def approval_row_ok_def history_of_def split: if_splits)
qed

lemma mandatory_gate_needs_approval_witness:
  "\<exists>r\<in>set (approvals example_approved_db). ap_tenant r = 7 \<and> ap_project r = 3 \<and>
    ap_action r = ''accept_risk'' \<and> ap_explicit r \<and> ap_status r = APPROVED \<and> ap_resolved_by r \<noteq> None \<and>
    approval_history example_approved_db (ap_id r) = [''requested'', ''approved'']"
proof -
  have "is_mandatory_action ''accept_risk''"
    by (simp add: is_mandatory_action_def MATRIX_def mk_rule_def)
  moreover have "\<not> approval_is_blocked example_approver 3 ''accept_risk'' None example_approved_db"
    by (simp add: approval_is_blocked_def latest_for_def example_approver_def example_approved_def
        example_approval_def gate_is_blocked_def)
  ultimately show ?thesis
    using mandatory_gate_needs_approval [OF example_reachable, of "''accept_risk''" example_approver 3 None]
    by (simp add: example_approver_def)
qed

text \<open>C4: An approval moves at most once: after any further operations of any tenants, a row is
  either exactly as it was or was pending and took one allowed transition; resolved rows never
  change.\<close>

theorem approval_moves_once:
  assumes "approval_reachable d" "approval_step\<^sup>*\<^sup>* d d'" "r \<in> set (approvals d)"
  shows "\<exists>r'\<in>set (approvals d'). ap_id r' = ap_id r \<and>
    (r' = r \<or> (ap_status r = PENDING \<and> validate_transition (ap_status r) (ap_status r') = Inr ()))"
proof -
  obtain r' where r': "r' \<in> set (approvals d')" "ap_id r' = ap_id r"
    "r' = r \<or> transition_allowed (ap_status r) (ap_status r')"
    using approval_steps_moves [OF assms(2) approval_reachable_wf [OF assms(1)] assms(3)] by blast
  have "ap_status r = PENDING" if "transition_allowed (ap_status r) (ap_status r')"
    using that approval_status.terminal_stuck terminal_iff by blast
  with r' show ?thesis by (auto simp: validate_transition_def)
qed

lemma approval_moves_once_witness:
  "\<exists>r'\<in>set (approvals example_approved_db). ap_id r' = ap_id example_approved \<and>
    (r' = example_approved \<or> (ap_status example_approved = PENDING \<and>
       validate_transition (ap_status example_approved) (ap_status r') = Inr ()))"
  by (rule approval_moves_once [OF example_reachable rtranclp.rtrancl_refl]) simp

text \<open>C5: Separation of duties: in every reachable database, an approval granted by a verified
  actor on a verified request was not granted under the requester's own name.\<close>

theorem verified_approval_is_not_own:
  assumes "approval_reachable d" "r \<in> set (approvals d)" "ap_status r = APPROVED"
    "ap_requested_prov r = REQUEST_AUTHENTICATED" "ap_approver_prov r = REQUEST_AUTHENTICATED"
  shows "\<exists>resolver. ap_resolved_by r = Some resolver \<and> resolver \<noteq> ap_requested_by r"
proof -
  have "approval_row_ok r"
    using approval_reachable_wf [OF assms(1)] assms(2) by (simp add: approvals_wf_def)
  with assms(3-) show ?thesis by (auto simp: approval_row_ok_def)
qed

lemma verified_approval_is_not_own_witness:
  "\<exists>resolver. ap_resolved_by example_approved = Some resolver \<and> resolver \<noteq> ap_requested_by example_approved"
  by (rule verified_approval_is_not_own [OF example_reachable])
    (simp_all add: example_approved_def example_approval_def)

text \<open>Non-response follows the stored deadline: expiring a pending approval of a reachable
  database moves it exactly when it has a deadline that has passed; then a low-risk one proceeds
  by policy and a medium-risk one expires, and no explicit approval ever moves.\<close>

theorem expiry_follows_deadline:
  assumes "approval_reachable d" "approval_get ctx i d = Some r" "ap_status r = PENDING"
  shows "\<exists>r' d'. expire_if_overdue ctx i (Some now) clock d = Inr (Some r', d') \<and>
    (if \<exists>dl. ap_deadline_at r = Some dl \<and> dl \<le> now
     then \<not> ap_explicit r \<and> ap_status r' = (if ap_risk_tier r = LOW then PROCEEDED_BY_POLICY else EXPIRED) \<and>
          ap_risk_tier r \<in> {LOW, MEDIUM}
     else r' = r \<and> d' = d)"
proof -
  from assms(2) have r: "r \<in> set (approvals d)" "ap_id r = i" "ap_tenant r = ctx_tenant ctx"
    by (auto simp: approval_get_def dest!: find_Some_mem)
  have wf: "approvals_wf d" using assms(1) by (rule approval_reachable_wf)
  with r have dl: "ap_deadline_at r = compute_deadline (ap_requested_at r) (ap_risk_tier r) (ap_explicit r)"
    by (auto simp: approvals_wf_def approval_row_ok_def)
  show ?thesis
  proof (cases "auto_transition (ap_risk_tier r) (ap_explicit r) (ap_requested_at r) now")
    case None
    then have "\<not> (\<exists>dl. ap_deadline_at r = Some dl \<and> dl \<le> now)"
      by (auto simp: dl auto_transition_def compute_deadline_def split: if_splits)
    with None assms show ?thesis by (simp add: expire_if_overdue_def)
  next
    case (Some t)
    then have t: "\<exists>dl. ap_deadline_at r = Some dl \<and> dl \<le> now" "\<not> ap_explicit r"
      "t = (if ap_risk_tier r = LOW then PROCEEDED_BY_POLICY else EXPIRED)" "ap_risk_tier r \<in> {LOW, MEDIUM}"
      by (auto simp: dl auto_transition_Some compute_deadline_def)
    have "\<exists>x\<in>set (approvals d). ap_id x = i \<and> ap_tenant x = ctx_tenant ctx \<and> ap_status x = PENDING"
      using r assms(3) by blast
    then obtain d1 where tr: "ap_transition ctx i t None None d = Inr d1"
      by (simp add: ap_transition_def Let_def)
    moreover from wf have "distinct (map ap_id (approvals d))" by (simp add: approvals_wf_def)
    ultimately have "approval_get ctx i d1 = Some (resolved_row t None None (db_now d) r)"
      using ap_transition_row [OF tr] assms(2) by (metis option.inject)
    with tr Some t assms show ?thesis
      by (simp add: expire_if_overdue_def)
  qed
qed

lemma expiry_follows_deadline_witness:
  "\<exists>r' d'. expire_if_overdue example_approver 100 (Some 50) 0 example_requested_db = Inr (Some r', d') \<and>
    (if \<exists>dl. ap_deadline_at example_approval = Some dl \<and> dl \<le> 50
     then \<not> ap_explicit example_approval \<and>
          ap_status r' = (if ap_risk_tier example_approval = LOW then PROCEEDED_BY_POLICY else EXPIRED) \<and>
          ap_risk_tier example_approval \<in> {LOW, MEDIUM}
     else r' = example_approval \<and> d' = example_requested_db)"
proof (rule expiry_follows_deadline)
  show "approval_reachable example_requested_db"
    using step_request [OF example_request_ok] by (rule reach_step [OF reach_init, rotated -1]) (simp_all add: empty_db_def)
qed (simp_all add: approval_get_def example_requested_db_def example_approver_def example_approval_def)

text \<open>Every operation stays in its tenant and is accounted for: other tenants' rows are
  untouched, and exactly one event and one audit row are added.\<close>

theorem approval_operation_isolated:
  assumes "approval_request ctx q now d = Inr (a, d') \<or> approve ctx v d = Inr (a, d') \<or>
    reject ctx v d = Inr (a, d') \<or> cancel ctx v d = Inr (a, d')"
  shows "foreign (ctx_tenant ctx) d' = foreign (ctx_tenant ctx) d \<and>
    length (approval_events d') = Suc (length (approval_events d)) \<and>
    length (audit_log d') = Suc (length (audit_log d))"
proof -
  have human: ?thesis if "resolve_by_human ctx t v d = Inr (a, d')" for t
    using that by (rule resolve_by_human_cases) (auto dest: ap_transition_frame)
  have request: ?thesis if "approval_request ctx q now d = Inr (a, d')"
    using that by (rule approval_request_cases) auto
  from assms human request show ?thesis
    by (auto simp: approve_def reject_def cancel_def)
qed

lemma approval_operation_isolated_witness:
  "foreign 7 example_approved_db = foreign 7 example_requested_db \<and>
    length (approval_events example_approved_db) = Suc (length (approval_events example_requested_db)) \<and>
    length (audit_log example_approved_db) = Suc (length (audit_log example_requested_db))"
  using approval_operation_isolated [of example_approver _ _ example_requested_db example_approved
      example_approved_db example_resolution] example_approve_ok
  by (simp add: example_approver_def)

end
