(* ===== verification/Json.thy ===== *)
theory Json
  imports Store
begin

text \<open>
  The standard-library pieces the tool broker rests on: \<open>json.dumps(value, default=str,
  allow_nan=False)\<close> followed by \<open>json.loads\<close>, as the value that comes back and the length of
  the text, and the parser \<open>uuid.UUID(text)\<close>.
\<close>

section \<open>Decimal digits\<close>

fun digits_rev :: "nat \<Rightarrow> string" where
  "digits_rev n = (if n < 10 then [hex_char n] else hex_char (n mod 10) # digits_rev (n div 10))"

declare digits_rev.simps [simp del]

definition nat_str :: "nat \<Rightarrow> string" where
  "nat_str n = rev (digits_rev n)"

definition int_str :: "int \<Rightarrow> string" where
  "int_str i = (if i < 0 then ''-'' else []) @ nat_str (nat \<bar>i\<bar>)"

definition is_digit :: "char \<Rightarrow> bool" where
  "is_digit c = (let n = (of_char c :: nat) in 48 \<le> n \<and> n \<le> 57)"

definition digits_value :: "string \<Rightarrow> nat" where
  "digits_value s = foldl (\<lambda>a c. a * 10 + (of_char c - 48)) 0 s"

lemma digit_char: "n < 10 \<Longrightarrow> is_digit (hex_char n) \<and> of_char (hex_char n) - 48 = n"
proof -
  have "\<forall>i<10. is_digit (hex_digits ! i) \<and> of_char (hex_digits ! i) - 48 = i"
    by (simp add: hex_digits_def is_digit_def Let_def All_less_Suc numeral_eq_Suc)
  then show "n < 10 \<Longrightarrow> is_digit (hex_char n) \<and> of_char (hex_char n) - 48 = n"
    by (simp add: hex_char_def)
qed

lemma digits_value_snoc: "digits_value (s @ [c]) = digits_value s * 10 + (of_char c - 48)"
  by (simp add: digits_value_def)

lemma digits_value_append: "digits_value (s @ t) = digits_value s * 10 ^ length t + digits_value t"
proof (induction t rule: rev_induct)
  case Nil
  show ?case by (simp add: digits_value_def)
next
  case (snoc c t)
  have "digits_value (s @ t @ [c]) = digits_value (s @ t) * 10 + (of_char c - 48)"
    using digits_value_snoc [of "s @ t" c] by simp
  then show ?case by (simp add: snoc.IH digits_value_snoc algebra_simps)
qed

lemma digits_value_zeros [simp]: "digits_value (replicate k (CHR ''0'')) = 0"
  by (induction k) (simp_all add: digits_value_def)

lemma nat_str_facts: "digits_value (nat_str n) = n \<and> list_all is_digit (nat_str n) \<and> nat_str n \<noteq> []"
proof (induction n rule: less_induct)
  case (less n)
  show ?case
  proof (cases "n < 10")
    case True
    then have "nat_str n = [hex_char n]"
      by (simp add: nat_str_def digits_rev.simps [of n])
    with digit_char [OF True] show ?thesis by (simp add: digits_value_def)
  next
    case False
    then have "nat_str n = nat_str (n div 10) @ [hex_char (n mod 10)]"
      by (simp add: nat_str_def digits_rev.simps [of n])
    with less [of "n div 10"] False digit_char [of "n mod 10"] show ?thesis
      by (simp add: digits_value_snoc)
  qed
qed

lemma nat_str_length: "n < 10 ^ Suc k \<Longrightarrow> length (nat_str n) \<le> Suc k"
proof (induction k arbitrary: n)
  case 0
  then show ?case by (simp add: nat_str_def digits_rev.simps [of n])
next
  case (Suc k)
  show ?case
  proof (cases "n < 10")
    case True
    then show ?thesis by (simp add: nat_str_def digits_rev.simps [of n])
  next
    case False
    have "n div 10 < 10 ^ Suc k"
      using Suc.prems by (simp add: less_mult_imp_div_less algebra_simps)
    then have "length (nat_str (n div 10)) \<le> Suc k" by (rule Suc.IH)
    with False show ?thesis by (simp add: nat_str_def digits_rev.simps [of n])
  qed
qed

text \<open>\<open>str(Decimal)\<close>: plain notation down to six leading zeros, scientific otherwise.\<close>

definition dec_str :: "pydec \<Rightarrow> string" where
  "dec_str d = (case d of
       DecNaN \<Rightarrow> ''NaN''
     | DecInfinity neg \<Rightarrow> (if neg then ''-Infinity'' else ''Infinity'')
     | DecFinite c e \<Rightarrow>
         let ds = nat_str (nat \<bar>c\<bar>);
             left = e + int (length ds);
             dot = (if e \<le> 0 \<and> left > -6 then left else 1);
             body = (if dot \<le> 0 then ''0.'' @ replicate (nat (- dot)) (CHR ''0'') @ ds
                     else if dot \<ge> int (length ds)
                          then ds @ replicate (nat (dot - int (length ds))) (CHR ''0'')
                     else take (nat dot) ds @ ''.'' @ drop (nat dot) ds);
             ex = (if left = dot then []
                   else ''E'' @ (if left - dot \<ge> 0 then ''+'' else []) @ int_str (left - dot))
         in (if c < 0 then ''-'' else []) @ body @ ex)"

section \<open>JSON text and the value read back\<close>

text \<open>The length of the escaped character: \<open>ensure_ascii\<close> leaves only \<open>' '..'~'\<close>.\<close>

definition json_char_len :: "char \<Rightarrow> nat" where
  "json_char_len c = (let n = (of_char c :: nat) in
     if n = 34 \<or> n = 92 \<or> n = 8 \<or> n = 9 \<or> n = 10 \<or> n = 12 \<or> n = 13 then 2
     else if 32 \<le> n \<and> n \<le> 126 then 1 else 6)"

definition json_string_len :: "string \<Rightarrow> nat" where
  "json_string_len s = 2 + sum_list (map json_char_len s)"

text \<open>\<open>n\<close> items between brackets, with \<open>", "\<close> between them.\<close>

definition json_items_len :: "nat list \<Rightarrow> nat" where
  "json_items_len ls = 2 + sum_list ls + 2 * (length ls - 1)"

fun float_len :: "pyfloat \<Rightarrow> nat" where
  "float_len (FloatFinite r) = length r"
| "float_len FloatNaN = 3"
| "float_len (FloatInf neg) = (if neg then 9 else 8)"

fun json_len :: "pyval \<Rightarrow> nat" where
  "json_len PNone = 4"
| "json_len (PBool b) = (if b then 4 else 5)"
| "json_len (PInt i) = length (int_str i)"
| "json_len (PFloat x) = float_len x"
| "json_len (PDecimal x) = json_string_len (dec_str x)"
| "json_len (PStr s) = json_string_len s"
| "json_len (PUuid u) = json_string_len (uuid_str u)"
| "json_len (POther s) = json_string_len s"
| "json_len (PList xs) = json_items_len (map json_len xs)"
| "json_len (PTuple xs) = json_items_len (map json_len xs)"
| "json_len (PDict d) = json_items_len (map (\<lambda>(k, v). json_string_len k + 2 + json_len v) d)"

text \<open>
  \<open>json.dumps\<close> raises on a float that is not finite (\<open>allow_nan=False\<close>) and on an integer of
  more than 4300 digits.
\<close>

fun json_dumpable :: "pyval \<Rightarrow> bool" where
  "json_dumpable (PInt i) = (length (nat_str (nat \<bar>i\<bar>)) \<le> 4300)"
| "json_dumpable (PFloat x) = (case x of FloatFinite _ \<Rightarrow> True | _ \<Rightarrow> False)"
| "json_dumpable (PList xs) = (\<forall>x\<in>set xs. json_dumpable x)"
| "json_dumpable (PTuple xs) = (\<forall>x\<in>set xs. json_dumpable x)"
| "json_dumpable (PDict d) = (\<forall>kv\<in>set d. json_dumpable (snd kv))"
| "json_dumpable v = True"

fun json_reload :: "pyval \<Rightarrow> pyval" where
  "json_reload (PDecimal x) = PStr (dec_str x)"
| "json_reload (PUuid u) = PStr (uuid_str u)"
| "json_reload (POther s) = PStr s"
| "json_reload (PList xs) = PList (map json_reload xs)"
| "json_reload (PTuple xs) = PList (map json_reload xs)"
| "json_reload (PDict d) = PDict (map (\<lambda>(k, v). (k, json_reload v)) d)"
| "json_reload v = v"

text \<open>A value that is already JSON data.\<close>

fun json_value :: "pyval \<Rightarrow> bool" where
  "json_value (PDecimal x) = False"
| "json_value (PUuid u) = False"
| "json_value (POther s) = False"
| "json_value (PTuple xs) = False"
| "json_value (PList xs) = (\<forall>x\<in>set xs. json_value x)"
| "json_value (PDict d) = (\<forall>kv\<in>set d. json_value (snd kv))"
| "json_value v = True"

lemma json_reload_value: "json_value (json_reload v)"
  by (induction v) (auto simp: split_beta)

lemma json_reload_id: "json_value v \<Longrightarrow> json_reload v = v"
proof (induction v)
  case (PList xs)
  then show ?case by (simp add: map_idI)
next
  case (PDict d)
  then show ?case by (fastforce intro!: map_idI)
qed auto

lemma json_reload_len [simp]: "json_len (json_reload v) = json_len v"
proof (induction v)
  case (PList xs)
  then have "map (json_len \<circ> json_reload) xs = map json_len xs" by (intro map_cong) auto
  then show ?case by (simp only: json_reload.simps json_len.simps map_map)
next
  case (PTuple xs)
  then have "map (json_len \<circ> json_reload) xs = map json_len xs" by (intro map_cong) auto
  then show ?case by (simp only: json_reload.simps json_len.simps map_map)
next
  case (PDict d)
  then have "map ((\<lambda>(k, v). json_string_len k + 2 + json_len v) \<circ> (\<lambda>(k, v). (k, json_reload v))) d =
      map (\<lambda>(k, v). json_string_len k + 2 + json_len v) d"
    by (intro map_cong) fastforce+
  then show ?case by (simp only: json_reload.simps json_len.simps map_map)
qed auto

lemma json_reload_dumpable [simp]: "json_dumpable (json_reload v) = json_dumpable v"
  by (induction v) fastforce+

section \<open>Parsing a UUID\<close>

text \<open>\<open>text.replace(needle, '')\<close>, for a non-empty needle.\<close>

function remove_all :: "string \<Rightarrow> string \<Rightarrow> string" where
  "remove_all p [] = []"
| "remove_all p (c # cs) =
     (if p \<noteq> [] \<and> starts_with p (c # cs) then remove_all p (drop (length p) (c # cs))
      else c # remove_all p cs)"
  by pat_completeness auto
termination by (relation "measure (\<lambda>(p, s). length s)") (auto simp: Suc_le_eq)

definition strip_chars :: "string \<Rightarrow> string \<Rightarrow> string" where
  "strip_chars cs s = rev (dropWhile (\<lambda>c. c \<in> set cs) (rev (dropWhile (\<lambda>c. c \<in> set cs) s)))"

definition hex_value :: "char \<Rightarrow> nat option" where
  "hex_value c = (let n = (of_char c :: nat) in
     if 48 \<le> n \<and> n \<le> 57 then Some (n - 48)
     else if 97 \<le> n \<and> n \<le> 102 then Some (n - 87)
     else if 65 \<le> n \<and> n \<le> 70 then Some (n - 55)
     else None)"

text \<open>Digits with single underscores between them; \<open>sep\<close>: no underscore may come next.\<close>

fun hex_body :: "bool \<Rightarrow> nat \<Rightarrow> string \<Rightarrow> nat option" where
  "hex_body sep acc [] = (if sep then None else Some acc)"
| "hex_body sep acc (c # cs) =
     (if c = CHR ''_'' then (if sep then None else hex_body True acc cs)
      else case hex_value c of
             None \<Rightarrow> None
           | Some v \<Rightarrow> hex_body False (acc * 16 + v) cs)"

text \<open>
  The white space \<open>int(text, 16)\<close> skips: an ASCII text is scanned as it is, any other first has its
  Unicode spaces replaced.
\<close>

definition int_space :: "string \<Rightarrow> char \<Rightarrow> bool" where
  "int_space s c = (let n = (of_char c :: nat) in
     (9 \<le> n \<and> n \<le> 13) \<or> n = 32 \<or> ((\<exists>x\<in>set s. (of_char x :: nat) \<ge> 128) \<and> py_space c))"

definition int16_prefix :: "string \<Rightarrow> string" where
  "int16_prefix t =
     (if take 2 t \<in> {''0x'', ''0X''}
      then (let u = drop 2 t in if take 1 u = ''_'' then drop 1 u else u)
      else t)"

definition parse_int16 :: "string \<Rightarrow> int option" where
  "parse_int16 s =
     (let t = rev (dropWhile (int_space s) (rev (dropWhile (int_space s) s)));
          neg = (take 1 t = ''-'');
          u = (if take 1 t \<in> {''-'', ''+''} then drop 1 t else t)
      in map_option (\<lambda>n. if neg then - int n else int n) (hex_body True 0 (int16_prefix u)))"

definition parse_uuid :: "string \<Rightarrow> uuid option" where
  "parse_uuid s =
     (let h = filter (\<lambda>c. c \<noteq> CHR ''-'') (strip_chars ''{}'' (remove_all ''uuid:'' (remove_all ''urn:'' s)))
      in if length h \<noteq> 32 then None
         else (case parse_int16 h of
                 None \<Rightarrow> None
               | Some i \<Rightarrow> if 0 \<le> i \<and> i < 2 ^ 128 then Some (nat i) else None))"

section \<open>Printing and parsing a UUID\<close>

lemma remove_all_absent: "p \<noteq> [] \<Longrightarrow> hd p \<notin> set s \<Longrightarrow> remove_all p s = s"
  by (induction p s rule: remove_all.induct) (auto simp: neq_Nil_conv)

lemma dropWhile_id: "\<forall>c\<in>set s. \<not> P c \<Longrightarrow> dropWhile P s = s"
  by (cases s) auto

lemma strip_chars_absent: "\<forall>c\<in>set s. c \<notin> set cs \<Longrightarrow> strip_chars cs s = s"
  by (simp add: strip_chars_def dropWhile_id)

lemma hex_char_mem: "hex_char n \<in> set hex_digits"
  unfolding hex_char_def by (rule nth_mem) (simp add: hex_digits_def)

lemma set_hex32: "c \<in> set (hex32 n) \<Longrightarrow> c \<in> set hex_digits"
proof -
  have "c \<in> set (hex_rev k n) \<Longrightarrow> c \<in> set hex_digits" for k n
    by (induction k arbitrary: n) (auto simp: hex_char_mem)
  then show "c \<in> set (hex32 n) \<Longrightarrow> c \<in> set hex_digits"
    by (simp add: hex32_def)
qed

lemma set_uuid_str: "c \<in> set (uuid_str n) \<Longrightarrow> c = CHR ''-'' \<or> c \<in> set hex_digits"
proof (cases "c = CHR ''-''")
  case False
  assume "c \<in> set (uuid_str n)"
  with False have "c \<in> set (filter (\<lambda>c. c \<noteq> CHR ''-'') (uuid_str n))" by simp
  then show ?thesis using set_hex32 by (simp add: uuid_str_digits)
qed simp

lemma hex_digits_plain:
  "c \<in> set hex_digits \<Longrightarrow> (of_char c :: nat) \<in> {48..57} \<union> {97..102}"
  by (auto simp: hex_digits_def)

lemma hex_value_hex_char: "hex_value (hex_char n) = Some (n mod 16)"
proof -
  have "\<forall>i<16. hex_value (hex_digits ! i) = Some i"
    by (simp add: hex_digits_def hex_value_def Let_def All_less_Suc numeral_eq_Suc)
  then show ?thesis by (simp add: hex_char_def)
qed

lemma hex_body_snoc:
  "hex_body sep acc s = Some a \<Longrightarrow> c \<noteq> CHR ''_'' \<Longrightarrow> hex_value c = Some v \<Longrightarrow>
     hex_body sep acc (s @ [c]) = Some (a * 16 + v)"
  by (induction sep acc s rule: hex_body.induct) (auto split: option.splits if_splits)

lemma hex_body_hex_rev:
  "hex_body sep acc (rev (hex_rev (Suc k) n)) = Some (acc * 16 ^ Suc k + n mod 16 ^ Suc k)"
proof (induction k arbitrary: n)
  case 0
  have "hex_char n \<noteq> CHR ''_''" using hex_char_mem [of n] by (auto simp: hex_digits_def)
  then show ?case by (simp add: hex_value_hex_char)
next
  case (Suc k)
  have nu: "hex_char n \<noteq> CHR ''_''" using hex_char_mem [of n] by (auto simp: hex_digits_def)
  have "hex_body sep acc (rev (hex_rev (Suc k) (n div 16)) @ [hex_char n]) =
      Some ((acc * 16 ^ Suc k + n div 16 mod 16 ^ Suc k) * 16 + n mod 16)"
    by (rule hex_body_snoc [OF Suc.IH nu hex_value_hex_char])
  moreover have "(acc * 16 ^ Suc k + n div 16 mod 16 ^ Suc k) * 16 + n mod 16 =
      acc * 16 ^ Suc (Suc k) + n mod 16 ^ Suc (Suc k)"
    using mod_mult2_eq [of n 16 "16 ^ Suc k"] by (simp add: algebra_simps)
  ultimately show ?case by simp
qed

theorem parse_uuid_str:
  assumes "n < 2 ^ 128"
  shows "parse_uuid (uuid_str n) = Some n"
proof -
  have no: "c \<notin> set (uuid_str n)" if "c \<noteq> CHR ''-''" "c \<notin> set hex_digits" for c
    using that set_uuid_str by blast
  have "remove_all ''urn:'' (uuid_str n) = uuid_str n"
    by (rule remove_all_absent) (simp_all add: no hex_digits_def)
  moreover have "remove_all ''uuid:'' (uuid_str n) = uuid_str n"
    by (rule remove_all_absent) (simp_all add: no hex_digits_def)
  moreover have "strip_chars ''{}'' (uuid_str n) = uuid_str n"
    by (rule strip_chars_absent) (use set_uuid_str in \<open>auto simp: hex_digits_def\<close>)
  ultimately have h: "filter (\<lambda>c. c \<noteq> CHR ''-'')
      (strip_chars ''{}'' (remove_all ''uuid:'' (remove_all ''urn:'' (uuid_str n)))) = hex32 n"
    by (simp only: uuid_str_digits)
  have sp: "\<not> int_space (hex32 n) c" if "c \<in> set (hex32 n)" for c
    using hex_digits_plain [OF set_hex32 [OF that]] hex_digits_plain [OF set_hex32]
    by (fastforce simp: int_space_def Let_def)
  have t: "rev (dropWhile (int_space (hex32 n)) (rev (dropWhile (int_space (hex32 n)) (hex32 n)))) = hex32 n"
    by (simp add: dropWhile_id sp)
  have len: "length (hex32 n) = 32" by (simp add: hex32_def)
  have sgn: "take 1 (hex32 n) \<notin> {''-'', ''+''}" and pre: "take 2 (hex32 n) \<notin> {''0x'', ''0X''}"
    using set_hex32 [of _ n] by (cases "hex32 n"; cases "tl (hex32 n)"; auto simp: hex_digits_def; fail)+
  have "hex_body True 0 (hex32 n) = Some (n mod 16 ^ 32)"
  proof -
    have "Suc 31 = (32::nat)" by simp
    with hex_body_hex_rev [of True 0 31 n] show ?thesis
      unfolding hex32_def by (simp only: mult_zero_left add_0)
  qed
  moreover have "n mod 16 ^ 32 = n"
    using assms by (intro mod_less) simp
  ultimately have "parse_int16 (hex32 n) = Some (int n)"
    using sgn pre by (simp add: parse_int16_def t Let_def int16_prefix_def)
  moreover have "int n < 2 ^ 128" using assms by simp
  ultimately show ?thesis
    by (simp only: parse_uuid_def h Let_def len) simp
qed

end
