(* ===== verification/Tools.thy ===== *)
theory Tools
  imports Approvals Json
begin

text \<open>
  The tool broker: the catalogue and the parameter validation (\<open>app/tools/registry.py\<close>), the
  allowlist ledger and the call log (\<open>app/repositories/tools.py\<close>), and the fail-closed decision
  pipeline (\<open>app/tools/broker.py\<close>).  A mapping's keys are strings.
\<close>

section \<open>Catalogue\<close>

record tool_contract =
  tool_name :: string
  tool_category :: string
  tool_required_action :: string
  tool_requires_approval :: bool
  tool_audit_level :: string

definition mk_tool :: "string \<Rightarrow> string \<Rightarrow> string \<Rightarrow> bool \<Rightarrow> string \<Rightarrow> string \<times> tool_contract" where
  "mk_tool name category action approval level =
     (name, \<lparr>tool_name = name, tool_category = category, tool_required_action = action,
             tool_requires_approval = approval, tool_audit_level = level\<rparr>)"

definition TOOL_REGISTRY :: "(string \<times> tool_contract) list" where
  "TOOL_REGISTRY = [
     mk_tool ''pm.create_issue'' ''project_management'' ''create_project_tasks'' True ''standard'',
     mk_tool ''source_control.create_branch'' ''source_control'' ''create_branches'' False ''standard'',
     mk_tool ''source_control.read_branch_protection'' ''source_control'' ''read_source_control_config'' False ''standard'',
     mk_tool ''source_control.read_pull_request'' ''source_control'' ''read_pull_requests'' False ''standard'',
     mk_tool ''deployment.read_target_status'' ''deployment'' ''read_deployment_target'' False ''standard'',
     mk_tool ''monitoring.read_status'' ''monitoring'' ''read_monitoring_status'' False ''standard'',
     mk_tool ''secrets.verify_reference'' ''secrets'' ''verify_secret_reference'' False ''standard'',
     mk_tool ''pm.read_issues'' ''project_management'' ''read_project_management_issues'' False ''standard'',
     mk_tool ''source_control.open_pull_request'' ''source_control'' ''open_pull_requests'' False ''high'',
     mk_tool ''ci.run_tests'' ''ci_cd'' ''run_tests'' False ''standard'',
     mk_tool ''ci.deploy_staging'' ''ci_cd'' ''deploy_staging'' False ''standard'',
     mk_tool ''ci.deploy_production'' ''ci_cd'' ''deploy_production'' True ''high'',
     mk_tool ''source_control.merge_to_protected'' ''source_control'' ''merge_to_protected'' True ''high'']"

definition get_contract :: "string \<Rightarrow> tool_contract option" where
  "get_contract name = map_of TOOL_REGISTRY name"

section \<open>Parameters\<close>

definition MAX_PARAMS_BYTES :: nat where
  "MAX_PARAMS_BYTES = 16384"

definition SECRET_KEY_MARKERS :: "string list" where
  "SECRET_KEY_MARKERS = [''secret'', ''token'', ''password'', ''api_key'', ''access_key'',
     ''private_key'', ''credential'']"

datatype invalid_params = NonMapping | Oversized | InvalidJson

primrec invalid_kind :: "invalid_params \<Rightarrow> string" where
  "invalid_kind NonMapping = ''non_mapping''"
| "invalid_kind Oversized = ''oversized''"
| "invalid_kind InvalidJson = ''invalid_json''"

definition is_secret_key :: "string \<Rightarrow> bool" where
  "is_secret_key key = (\<exists>m\<in>set SECRET_KEY_MARKERS. py_in m (py_lower key))"

definition REDACTED :: pyval where
  "REDACTED = PStr ''[REDACTED]''"

text \<open>
  \<open>_normalize\<close>: the three mutually recursive cases of the code; \<open>None\<close> is the raised
  \<open>InvalidParams("invalid_json")\<close> of a float that is not finite.
\<close>

fun normalize :: "pyval \<Rightarrow> pyval option"
  and normalize_items :: "pydict \<Rightarrow> pydict option"
  and normalize_list :: "pyval list \<Rightarrow> pyval list option" where
  "normalize (PDict d) = map_option PDict (normalize_items d)"
| "normalize (PList xs) = map_option PList (normalize_list xs)"
| "normalize (PTuple xs) = map_option PList (normalize_list xs)"
| "normalize (PFloat x) = (case x of FloatFinite _ \<Rightarrow> Some (PFloat x) | _ \<Rightarrow> None)"
| "normalize v = Some v"
| "normalize_items [] = Some []"
| "normalize_items ((k, v) # d) =
     (case (if is_secret_key k then Some REDACTED else normalize v) of
        None \<Rightarrow> None
      | Some v' \<Rightarrow> map_option (\<lambda>d'. (k, v') # d') (normalize_items d))"
| "normalize_list [] = Some []"
| "normalize_list (v # vs) =
     (case normalize v of
        None \<Rightarrow> None
      | Some v' \<Rightarrow> map_option (\<lambda>vs'. v' # vs') (normalize_list vs))"

text \<open>The text is ASCII, so its length in bytes is its length.\<close>

definition sanitize_params :: "pyval \<Rightarrow> invalid_params + pydict" where
  "sanitize_params params =
     (case params of
        PDict d \<Rightarrow>
          (case normalize_items d of
             None \<Rightarrow> Inl InvalidJson
           | Some n \<Rightarrow>
               if \<not> json_dumpable (PDict n) then Inl InvalidJson
               else if json_len (PDict n) > MAX_PARAMS_BYTES then Inl Oversized
               else Inr (map (\<lambda>(k, v). (k, json_reload v)) n))
      | _ \<Rightarrow> Inl NonMapping)"

section \<open>The allowlist ledger\<close>

primrec allow_event_str :: "allow_event \<Rightarrow> string" where
  "allow_event_str Grant = ''grant''"
| "allow_event_str Revoke = ''revoke''"

definition allowlist_event ::
  "tenant_context \<Rightarrow> string \<Rightarrow> string \<Rightarrow> allow_event \<Rightarrow> string \<Rightarrow> string option \<Rightarrow> db \<Rightarrow> db" where
  "allowlist_event ctx agent tool ev actor reason d =
     audit_record ctx (''tool_allowlist.'' @ allow_event_str ev) actor
       (Some (''agent:'' @ agent @ ''/tool:'' @ tool))
       [(''agent_id'', PStr agent), (''tool_name'', PStr tool), (''event_type'', PStr (allow_event_str ev))]
       (d\<lparr>tool_allowlist := tool_allowlist d @
          [\<lparr>al_tenant = ctx_tenant ctx, al_agent = agent, al_tool = tool, al_event = ev,
            al_actor = actor, al_reason = reason\<rparr>]\<rparr>)"

definition tool_grant :: "tenant_context \<Rightarrow> string \<Rightarrow> string \<Rightarrow> string \<Rightarrow> string option \<Rightarrow> db \<Rightarrow> db" where
  "tool_grant ctx agent tool actor reason = allowlist_event ctx agent tool Grant actor reason"

definition tool_revoke :: "tenant_context \<Rightarrow> string \<Rightarrow> string \<Rightarrow> string \<Rightarrow> string option \<Rightarrow> db \<Rightarrow> db" where
  "tool_revoke ctx agent tool actor reason = allowlist_event ctx agent tool Revoke actor reason"

text \<open>\<open>seq\<close> is an identity column: the latest event is the last row.\<close>

definition tool_is_allowed :: "tenant_context \<Rightarrow> string \<Rightarrow> string \<Rightarrow> db \<Rightarrow> bool" where
  "tool_is_allowed ctx agent tool d =
     (case filter (\<lambda>r. al_tenant r = ctx_tenant ctx \<and> al_agent r = agent \<and> al_tool r = tool)
             (tool_allowlist d) of
        [] \<Rightarrow> False
      | rs \<Rightarrow> al_event (last rs) = Grant)"

section \<open>The call log\<close>

datatype broker_decision =
    ALLOWED_UNVERIFIED_IDENTITY
  | BROKER_NEEDS_APPROVAL
  | NEEDS_AUTHENTICATED_APPROVAL
  | DENIED_UNKNOWN_TOOL
  | DENIED_INVALID_PARAMS
  | DENIED_NOT_ALLOWLISTED
  | DENIED_POLICY
  | DENIED_UNKNOWN_AGENT
  | DENIED_UNQUALIFIED_AGENT

primrec decision_value :: "broker_decision \<Rightarrow> string" where
  "decision_value ALLOWED_UNVERIFIED_IDENTITY = ''allowed_unverified_identity''"
| "decision_value BROKER_NEEDS_APPROVAL = ''needs_approval''"
| "decision_value NEEDS_AUTHENTICATED_APPROVAL = ''needs_authenticated_approval''"
| "decision_value DENIED_UNKNOWN_TOOL = ''denied_unknown_tool''"
| "decision_value DENIED_INVALID_PARAMS = ''denied_invalid_params''"
| "decision_value DENIED_NOT_ALLOWLISTED = ''denied_not_allowlisted''"
| "decision_value DENIED_POLICY = ''denied_policy''"
| "decision_value DENIED_UNKNOWN_AGENT = ''denied_unknown_agent''"
| "decision_value DENIED_UNQUALIFIED_AGENT = ''denied_unqualified_agent''"

definition tool_call_record ::
  "tenant_context \<Rightarrow> uuid \<Rightarrow> string \<Rightarrow> string \<Rightarrow> string option \<Rightarrow> string \<Rightarrow> string option \<Rightarrow> pydict \<Rightarrow> db \<Rightarrow> db" where
  "tool_call_record ctx project agent tool action decision reason params d =
     audit_record ctx (''tool_call.'' @ decision) agent (Some (''tool:'' @ tool))
       [(''project_id'', PStr (uuid_str project)), (''agent_id'', PStr agent),
        (''agent_provenance'', PStr CALLER_SUPPLIED_UNVERIFIED), (''tool_name'', PStr tool),
        (''action'', opt_str action), (''decision'', PStr decision), (''reason'', opt_str reason)]
       (d\<lparr>tool_calls := tool_calls d @
            [\<lparr>tc_id = db_next_id d, tc_tenant = ctx_tenant ctx, tc_project = project, tc_agent = agent,
              tc_agent_prov = CALLER_SUPPLIED_UNVERIFIED, tc_tool = tool, tc_action = action,
              tc_decision = decision, tc_reason = reason, tc_params = params\<rparr>],
          db_next_id := db_next_id d + 1\<rparr>)"

section \<open>The decision pipeline\<close>

definition AUTHENTICATED_APPROVAL_PROVENANCES :: "string list" where
  "AUTHENTICATED_APPROVAL_PROVENANCES = []"

definition RESOLVABLE_INSTANCE_STATUSES :: "instance_status list" where
  "RESOLVABLE_INSTANCE_STATUSES = [REGISTERED, ACTIVE]"

definition resolve_instance :: "tenant_context \<Rightarrow> string \<Rightarrow> uuid \<Rightarrow> db \<Rightarrow> instance_row option" where
  "resolve_instance ctx agent project d =
     (case parse_uuid agent of
        None \<Rightarrow> None
      | Some i \<Rightarrow>
          List.find (\<lambda>r. in_id r = i \<and> in_tenant r = ctx_tenant ctx \<and> in_project r = project \<and>
            in_status r \<in> set RESOLVABLE_INSTANCE_STATUSES) (agent_instances d))"

definition realization_for_instance :: "tenant_context \<Rightarrow> uuid \<Rightarrow> db \<Rightarrow> realization_row option" where
  "realization_for_instance ctx i d =
     List.find (\<lambda>r. re_tenant r = ctx_tenant ctx \<and> re_instance r = i) (agent_realizations d)"

text \<open>
  The pipeline's outcome: the decision with the action, the reason and the parameters it records.
  The agent path's identity gates give the allowlist key, or the denial.
\<close>

record broker_outcome =
  bo_decision :: broker_decision
  bo_action :: "string option"
  bo_reason :: string
  bo_params :: pydict

definition mk_outcome :: "broker_decision \<Rightarrow> string option \<Rightarrow> string \<Rightarrow> pydict \<Rightarrow> broker_outcome" where
  "mk_outcome dec action reason params =
     \<lparr>bo_decision = dec, bo_action = action, bo_reason = reason, bo_params = params\<rparr>"

definition broker_identity ::
  "tenant_context \<Rightarrow> uuid \<Rightarrow> string \<Rightarrow> bool \<Rightarrow> db \<Rightarrow> (broker_decision \<times> string) + string" where
  "broker_identity ctx project actor resolve_agent d =
     (if resolve_agent
      then (case resolve_instance ctx actor project d of
              None \<Rightarrow> Inl (DENIED_UNKNOWN_AGENT, ''unknown_agent'')
            | Some inst \<Rightarrow>
                (case realization_for_instance ctx (in_id inst) d of
                   None \<Rightarrow> Inl (DENIED_UNQUALIFIED_AGENT, ''unqualified_agent'')
                 | Some r \<Rightarrow>
                     if re_status r \<noteq> ''qualified''
                     then Inl (DENIED_UNQUALIFIED_AGENT, ''unqualified_agent'')
                     else Inr (uuid_str (in_id inst))))
      else Inr actor)"

definition broker_approval ::
  "tenant_context \<Rightarrow> uuid \<Rightarrow> tool_contract \<Rightarrow> decision \<Rightarrow> string \<Rightarrow> db \<Rightarrow> broker_decision \<times> string" where
  "broker_approval ctx project contract policy tool d =
     (if tool_requires_approval contract \<or> policy = NEEDS_APPROVAL
      then (case latest_for ctx project (tool_required_action contract) (Some (''tool:'' @ tool)) d of
              None \<Rightarrow> (BROKER_NEEDS_APPROVAL, ''approval_required'')
            | Some a \<Rightarrow>
                if ap_status a \<noteq> APPROVED then (BROKER_NEEDS_APPROVAL, ''approval_required'')
                else if ap_approver_prov a \<notin> set AUTHENTICATED_APPROVAL_PROVENANCES
                then (NEEDS_AUTHENTICATED_APPROVAL, ''approval_provenance_unverified'')
                else (ALLOWED_UNVERIFIED_IDENTITY, ''ok''))
      else (ALLOWED_UNVERIFIED_IDENTITY, ''ok''))"

definition broker_decide ::
  "tenant_context \<Rightarrow> uuid \<Rightarrow> string \<Rightarrow> string \<Rightarrow> pyval \<Rightarrow> bool \<Rightarrow> db \<Rightarrow> policy_error + broker_outcome" where
  "broker_decide ctx project actor tool params resolve_agent d =
     (case sanitize_params (if params \<noteq> PNone then params else PDict []) of
        Inl kind \<Rightarrow>
          Inr (mk_outcome DENIED_INVALID_PARAMS None (''invalid_params:'' @ invalid_kind kind) [])
      | Inr clean \<Rightarrow>
          (case get_contract tool of
             None \<Rightarrow> Inr (mk_outcome DENIED_UNKNOWN_TOOL None ''unknown_tool'' clean)
           | Some contract \<Rightarrow>
               let action = tool_required_action contract in
               (case broker_identity ctx project actor resolve_agent d of
                  Inl (dec, reason) \<Rightarrow> Inr (mk_outcome dec (Some action) reason clean)
                | Inr key \<Rightarrow>
                    if \<not> tool_is_allowed ctx key tool d
                    then Inr (mk_outcome DENIED_NOT_ALLOWLISTED (Some action) ''not_allowlisted'' clean)
                    else bindE (decision_for ctx project action d) (\<lambda>policy.
                      if policy = DENY
                      then Inr (mk_outcome DENIED_POLICY (Some action) ''policy_deny'' clean)
                      else let (dec, reason) = broker_approval ctx project contract policy tool d
                           in Inr (mk_outcome dec (Some action) reason clean)))))"

definition broker ::
  "tenant_context \<Rightarrow> uuid \<Rightarrow> string \<Rightarrow> string \<Rightarrow> pyval \<Rightarrow> bool \<Rightarrow> db \<Rightarrow> policy_error + (broker_decision \<times> db)" where
  "broker ctx project actor tool params resolve_agent d =
     bindE (broker_decide ctx project actor tool params resolve_agent d) (\<lambda>out.
       Inr (bo_decision out,
            tool_call_record ctx project actor tool (bo_action out) (decision_value (bo_decision out))
              (Some (bo_reason out)) (bo_params out) d))"

definition broker_call ::
  "tenant_context \<Rightarrow> uuid \<Rightarrow> string \<Rightarrow> string \<Rightarrow> pyval \<Rightarrow> db \<Rightarrow> policy_error + (broker_decision \<times> db)" where
  "broker_call ctx project agent tool params = broker ctx project agent tool params True"

definition broker_call_service ::
  "tenant_context \<Rightarrow> uuid \<Rightarrow> string \<Rightarrow> string \<Rightarrow> pyval \<Rightarrow> db \<Rightarrow> policy_error + (broker_decision \<times> db)" where
  "broker_call_service ctx project service tool params = broker ctx project service tool params False"

section \<open>Lemmas: parameters\<close>

text \<open>No value under a secret key survives, at any depth.\<close>

fun redacted :: "pyval \<Rightarrow> bool" where
  "redacted (PDict d) = (\<forall>kv\<in>set d. (is_secret_key (fst kv) \<longrightarrow> snd kv = REDACTED) \<and> redacted (snd kv))"
| "redacted (PList xs) = (\<forall>x\<in>set xs. redacted x)"
| "redacted (PTuple xs) = (\<forall>x\<in>set xs. redacted x)"
| "redacted v = True"

text \<open>What \<open>_normalize\<close> leaves: no tuple, no float that is not finite, nothing secret.\<close>

fun normal :: "pyval \<Rightarrow> bool" where
  "normal (PDict d) = (\<forall>kv\<in>set d. (is_secret_key (fst kv) \<longrightarrow> snd kv = REDACTED) \<and> normal (snd kv))"
| "normal (PList xs) = (\<forall>x\<in>set xs. normal x)"
| "normal (PTuple xs) = False"
| "normal (PFloat x) = (case x of FloatFinite _ \<Rightarrow> True | _ \<Rightarrow> False)"
| "normal v = True"

lemma normalize_normal:
  "normalize v = Some v' \<Longrightarrow> normal v'"
  "normalize_items d = Some d' \<Longrightarrow>
     map fst d' = map fst d \<and> (\<forall>kv\<in>set d'. (is_secret_key (fst kv) \<longrightarrow> snd kv = REDACTED) \<and> normal (snd kv))"
  "normalize_list xs = Some xs' \<Longrightarrow> \<forall>x\<in>set xs'. normal x"
  by (induction v and d and xs arbitrary: v' and d' and xs' rule: normalize_normalize_items_normalize_list.induct)
    (auto simp: REDACTED_def split: option.splits pyfloat.splits if_splits, fastforce+)

lemma normal_normalize:
  "normal v \<Longrightarrow> normalize v = Some v"
  "(\<forall>kv\<in>set d. (is_secret_key (fst kv) \<longrightarrow> snd kv = REDACTED) \<and> normal (snd kv)) \<Longrightarrow> normalize_items d = Some d"
  "(\<forall>x\<in>set xs. normal x) \<Longrightarrow> normalize_list xs = Some xs"
  by (induction v and d and xs rule: normalize_normalize_items_normalize_list.induct)
    (auto split: pyfloat.splits)

lemma normal_redacted: "normal v \<Longrightarrow> redacted v"
  by (induction v) auto

lemma normal_reload: "normal v \<Longrightarrow> normal (json_reload v)"
proof (induction v)
  case (PDict d)
  then show ?case by (fastforce simp: REDACTED_def)
qed auto

lemma sanitize_params_cases:
  assumes "sanitize_params params = Inr d"
  obtains orig n where "params = PDict orig" "normalize_items orig = Some n" "json_dumpable (PDict n)"
    "json_len (PDict n) \<le> MAX_PARAMS_BYTES" "d = map (\<lambda>(k, v). (k, json_reload v)) n"
  using assms by (auto simp: sanitize_params_def split: pyval.splits option.splits if_splits)

lemma sanitized_facts:
  assumes "sanitize_params params = Inr d"
  shows "normal (PDict d)" "json_value (PDict d)" "json_dumpable (PDict d)"
    "json_len (PDict d) \<le> MAX_PARAMS_BYTES" "\<exists>orig. params = PDict orig \<and> map fst d = map fst orig"
proof -
  from assms obtain orig n where p: "params = PDict orig" "normalize_items orig = Some n" "json_dumpable (PDict n)"
    "json_len (PDict n) \<le> MAX_PARAMS_BYTES" and d: "d = map (\<lambda>(k, v). (k, json_reload v)) n"
    by (rule sanitize_params_cases)
  have r: "PDict d = json_reload (PDict n)" by (simp add: d)
  note n = normalize_normal(2) [OF p(2)]
  then have "normal (PDict n)" by simp
  then show "normal (PDict d)" unfolding r by (rule normal_reload)
  show "json_value (PDict d)" unfolding r by (rule json_reload_value)
  show "json_dumpable (PDict d)" unfolding r json_reload_dumpable by (rule p(3))
  show "json_len (PDict d) \<le> MAX_PARAMS_BYTES" unfolding r json_reload_len by (rule p(4))
  have "map fst d = map fst n" by (simp add: d split_beta comp_def)
  with n p(1) show "\<exists>orig. params = PDict orig \<and> map fst d = map fst orig" by simp
qed

lemma sanitize_params_fixed:
  assumes "normal (PDict d)" "json_value (PDict d)" "json_dumpable (PDict d)"
    "json_len (PDict d) \<le> MAX_PARAMS_BYTES"
  shows "sanitize_params (PDict d) = Inr d"
proof -
  have "normalize_items d = Some d"
    using assms(1) by (intro normal_normalize(2)) simp
  moreover have "map (\<lambda>(k, v). (k, json_reload v)) d = d"
    using json_reload_id [OF assms(2)] by simp
  ultimately show ?thesis
    using assms(3,4) by (simp add: sanitize_params_def del: json_dumpable.simps json_len.simps)
qed

section \<open>Lemmas: the allowlist\<close>

lemma tool_is_allowed_iff:
  "tool_is_allowed ctx k t d \<longleftrightarrow>
     (let rs = filter (\<lambda>r. al_tenant r = ctx_tenant ctx \<and> al_agent r = k \<and> al_tool r = t) (tool_allowlist d)
      in rs \<noteq> [] \<and> al_event (last rs) = Grant)"
  by (simp add: tool_is_allowed_def Let_def split: list.splits)

lemma allowed_allowlist_event:
  "tool_is_allowed ctx k t (allowlist_event ctx a b ev actor reason d) \<longleftrightarrow>
     (if k = a \<and> t = b then ev = Grant else tool_is_allowed ctx k t d)"
  by (simp add: tool_is_allowed_iff allowlist_event_def Let_def)

interpretation allowlist: grant_ledger empty_db
  "\<lambda>(agent, tool) (actor, reason) d. tool_grant ctx agent tool actor reason d"
  "\<lambda>(agent, tool) (actor, reason) d. tool_revoke ctx agent tool actor reason d"
  "\<lambda>(agent, tool) d. tool_is_allowed ctx agent tool d"
  for ctx
proof (unfold_locales, goal_cases)
  case (1 k)
  show ?case by (cases k) (simp add: tool_is_allowed_def empty_db_def)
next
  case (2 k j m l)
  show ?case by (cases k; cases j; cases m) (auto simp: tool_grant_def allowed_allowlist_event)
next
  case (3 k j m l)
  show ?case by (cases k; cases j; cases m) (auto simp: tool_revoke_def allowed_allowlist_event)
qed

section \<open>Lemmas: the pipeline\<close>

text \<open>With no authenticated provenance, the approval stage passes only what needs no approval.\<close>

lemma broker_approval_allowed:
  "fst (broker_approval ctx project contract policy tool d) = ALLOWED_UNVERIFIED_IDENTITY \<longleftrightarrow>
     \<not> tool_requires_approval contract \<and> policy \<noteq> NEEDS_APPROVAL"
  by (simp add: broker_approval_def AUTHENTICATED_APPROVAL_PROVENANCES_def split: option.splits)

lemma broker_decide_allowed:
  "(\<exists>out. broker_decide ctx project actor tool params ra d = Inr out \<and>
        bo_decision out = ALLOWED_UNVERIFIED_IDENTITY) \<longleftrightarrow>
     (\<exists>clean contract key.
        sanitize_params (if params \<noteq> PNone then params else PDict []) = Inr clean \<and>
        get_contract tool = Some contract \<and> \<not> tool_requires_approval contract \<and>
        broker_identity ctx project actor ra d = Inr key \<and> tool_is_allowed ctx key tool d \<and>
        decision_for ctx project (tool_required_action contract) d = Inr ALLOW)"
    (is "?lhs \<longleftrightarrow> ?rhs")
proof -
  let ?san = "sanitize_params (if params \<noteq> PNone then params else PDict [])"
  note ident = broker_decide_def mk_outcome_def
  show ?thesis
  proof (cases ?san)
    case (Inl k)
    then show ?thesis by (auto simp: ident)
  next
    case clean: (Inr clean)
    show ?thesis
    proof (cases "get_contract tool")
      case None
      with clean show ?thesis by (auto simp: ident)
    next
      case contract: (Some contract)
      show ?thesis
      proof (cases "broker_identity ctx project actor ra d")
        case (Inl x)
        moreover have "fst x \<noteq> ALLOWED_UNVERIFIED_IDENTITY"
          using Inl by (auto simp: broker_identity_def split: if_splits option.splits)
        ultimately show ?thesis
          using clean contract by (cases x) (auto simp: ident Let_def)
      next
        case (Inr key)
        with clean contract show ?thesis
          using broker_approval_allowed [of ctx project contract _ tool d]
          by (cases "decision_for ctx project (tool_required_action contract) d";
              cases "tool_is_allowed ctx key tool d")
            (auto simp: ident Let_def split_beta intro: decision.exhaust)
      qed
    qed
  qed
qed

lemma broker_allowed_decide:
  "(\<exists>d'. broker ctx project actor tool params ra d = Inr (ALLOWED_UNVERIFIED_IDENTITY, d')) \<longleftrightarrow>
     (\<exists>out. broker_decide ctx project actor tool params ra d = Inr out \<and>
        bo_decision out = ALLOWED_UNVERIFIED_IDENTITY)"
  by (auto simp: broker_def)

lemma broker_identity_Inr:
  "broker_identity ctx project actor ra d = Inr key \<longleftrightarrow>
     (if ra then \<exists>inst r. resolve_instance ctx actor project d = Some inst \<and>
                realization_for_instance ctx (in_id inst) d = Some r \<and> re_status r = ''qualified'' \<and>
                key = uuid_str (in_id inst)
      else key = actor)"
  by (auto simp: broker_identity_def split: option.splits)

lemma broker_params:
  assumes "broker_decide ctx project actor tool params ra d = Inr out"
  shows "bo_params out = [] \<or>
    sanitize_params (if params \<noteq> PNone then params else PDict []) = Inr (bo_params out)"
  using assms
  by (auto simp: broker_decide_def mk_outcome_def Let_def split_beta
      split: sum.splits option.splits if_splits)

lemma TOOL_REGISTRY_actions:
  "\<forall>(t, c)\<in>set TOOL_REGISTRY. tool_name c = t \<and> map_of MATRIX (tool_required_action c) \<noteq> None"
  by (simp add: TOOL_REGISTRY_def mk_tool_def MATRIX_def)

section \<open>Properties\<close>

text \<open>A project at level A2 with a branching tool granted to the service \<open>svc\<close>.\<close>

definition example_tool_ctx :: tenant_context where
  "example_tool_ctx = \<lparr>ctx_tenant = 7, ctx_actor = None\<rparr>"

definition example_tool_db :: db where
  "example_tool_db = tool_grant example_tool_ctx ''svc'' ''source_control.create_branch'' ''op'' None
     example_policy_db"

lemma example_create_branches_allowed:
  "decision_for example_tool_ctx 3 ''create_branches'' example_tool_db = Inr ALLOW"
  by (simp add: decision_for_def policy_get_for_project_def example_tool_db_def tool_grant_def
      allowlist_event_def example_tool_ctx_def example_policy_db_def example_policy_def empty_db_def
      validated_decision_def validate_overrides_def check_authority_def override_for_def
      apply_overrides_def override_min_level_def override_approval_def override_disabled_def
      ALLOWED_OVERRIDE_KEYS_def rule_decision_def MATRIX_def mk_rule_def)

lemma example_tool_key:
  "tool_is_allowed example_tool_ctx ''svc'' ''source_control.create_branch'' example_tool_db"
  by (simp add: example_tool_db_def tool_grant_def allowed_allowlist_event)

lemma example_contract:
  "get_contract ''source_control.create_branch'' =
     Some (snd (mk_tool ''source_control.create_branch'' ''source_control'' ''create_branches'' False ''standard''))"
  by (simp add: get_contract_def TOOL_REGISTRY_def mk_tool_def)

text \<open>C9: The broker's pass is exactly the conjunction of its gates: clean parameters, a known tool
  that needs no approval, on the agent path a live instance of the same tenant and project with a
  qualified realization, a granted allowlist key, and a stored policy that answers ALLOW.\<close>

theorem broker_passes_iff:
  "(\<exists>d'. broker ctx project actor tool params agent_path d = Inr (ALLOWED_UNVERIFIED_IDENTITY, d')) \<longleftrightarrow>
     (\<exists>clean contract key.
        sanitize_params (if params \<noteq> PNone then params else PDict []) = Inr clean \<and>
        get_contract tool = Some contract \<and> \<not> tool_requires_approval contract \<and>
        (if agent_path
         then \<exists>inst r. resolve_instance ctx actor project d = Some inst \<and>
                realization_for_instance ctx (in_id inst) d = Some r \<and> re_status r = ''qualified'' \<and>
                key = uuid_str (in_id inst)
         else key = actor) \<and>
        tool_is_allowed ctx key tool d \<and>
        decision_for ctx project (tool_required_action contract) d = Inr ALLOW)"
  by (simp only: broker_allowed_decide broker_decide_allowed broker_identity_Inr)

text \<open>No call to a tool whose contract asks for approval, or whose action is a section 2.6
  action, is ever allowed, on either path, whatever approvals are on record.\<close>

theorem approval_tool_never_allowed:
  assumes "get_contract tool = Some contract"
    "tool_requires_approval contract \<or> is_mandatory_action (tool_required_action contract)"
  shows "broker_call ctx project actor tool params d \<noteq> Inr (ALLOWED_UNVERIFIED_IDENTITY, d') \<and>
         broker_call_service ctx project actor tool params d \<noteq> Inr (ALLOWED_UNVERIFIED_IDENTITY, d')"
proof -
  have "\<not> (\<exists>d'. broker ctx project actor tool params ra d = Inr (ALLOWED_UNVERIFIED_IDENTITY, d'))" for ra
  proof
    assume "\<exists>d'. broker ctx project actor tool params ra d = Inr (ALLOWED_UNVERIFIED_IDENTITY, d')"
    then have "\<not> tool_requires_approval contract"
      and allow: "decision_for ctx project (tool_required_action contract) d = Inr ALLOW"
      using assms(1) by (auto simp: broker_allowed_decide broker_decide_allowed)
    with assms(2) have "is_mandatory_action (tool_required_action contract)" by simp
    moreover from allow obtain p where "validated_decision p (tool_required_action contract) = Inr ALLOW"
      by (rule decision_for_ALLOW_D)
    ultimately show False
      by (auto simp: validated_decision_ALLOW is_mandatory_action_def MATRIX_lookup(3))
  qed
  then show ?thesis by (auto simp: broker_call_def broker_call_service_def)
qed

lemma approval_tool_never_allowed_witness:
  "broker_call example_tool_ctx 3 ''svc'' ''ci.deploy_production'' PNone example_tool_db \<noteq>
     Inr (ALLOWED_UNVERIFIED_IDENTITY, empty_db) \<and>
   broker_call_service example_tool_ctx 3 ''svc'' ''ci.deploy_production'' PNone example_tool_db \<noteq>
     Inr (ALLOWED_UNVERIFIED_IDENTITY, empty_db)"
  by (rule approval_tool_never_allowed [where contract =
        "snd (mk_tool ''ci.deploy_production'' ''ci_cd'' ''deploy_production'' True ''high'')"])
    (simp_all add: get_contract_def TOOL_REGISTRY_def mk_tool_def)

text \<open>Every decision is recorded, once: one tool-call row of the caller's tenant with the
  decision returned and redacted parameters, one audit row that carries no parameters, and no
  change to anything another tenant sees.\<close>

theorem broker_records_decision:
  assumes "broker ctx project actor tool params agent_path d = Inr (dec, d')"
  shows "\<exists>call audit.
    tool_calls d' = tool_calls d @ [call] \<and> tc_tenant call = ctx_tenant ctx \<and>
    tc_project call = project \<and> tc_agent call = actor \<and> tc_tool call = tool \<and>
    tc_decision call = decision_value dec \<and> redacted (PDict (tc_params call)) \<and>
    audit_log d' = audit_log d @ [audit] \<and> au_tenant audit = ctx_tenant ctx \<and>
    \<not> dhas (au_payload audit) ''params'' \<and>
    foreign (ctx_tenant ctx) d' = foreign (ctx_tenant ctx) d"
proof -
  from assms obtain out where out: "broker_decide ctx project actor tool params agent_path d = Inr out"
    and dec: "dec = bo_decision out"
    and d': "d' = tool_call_record ctx project actor tool (bo_action out) (decision_value (bo_decision out))
      (Some (bo_reason out)) (bo_params out) d"
    by (auto simp: broker_def)
  have "redacted (PDict (bo_params out))"
    using broker_params [OF out] normal_redacted [OF sanitized_facts(1)] by auto
  then show ?thesis
    unfolding d' dec by (simp add: tool_call_record_def)
qed

lemma broker_records_decision_witness:
  "\<exists>d' call audit.
    broker_call_service example_tool_ctx 3 ''svc'' ''source_control.create_branch'' PNone example_tool_db =
      Inr (ALLOWED_UNVERIFIED_IDENTITY, d') \<and>
    tool_calls d' = tool_calls example_tool_db @ [call] \<and>
    tc_decision call = decision_value ALLOWED_UNVERIFIED_IDENTITY \<and>
    audit_log d' = audit_log example_tool_db @ [audit]"
proof -
  have "sanitize_params (PDict []) = Inr []"
    by (simp add: sanitize_params_def MAX_PARAMS_BYTES_def json_items_len_def)
  then have "\<exists>out. broker_decide example_tool_ctx 3 ''svc'' ''source_control.create_branch'' PNone False
      example_tool_db = Inr out \<and> bo_decision out = ALLOWED_UNVERIFIED_IDENTITY"
    using example_contract example_tool_key example_create_branches_allowed
    by (auto simp: broker_decide_allowed broker_identity_def mk_tool_def)
  then obtain d' where b: "broker example_tool_ctx 3 ''svc'' ''source_control.create_branch'' PNone False
      example_tool_db = Inr (ALLOWED_UNVERIFIED_IDENTITY, d')"
    by (auto simp: broker_allowed_decide [symmetric])
  from broker_records_decision [OF this] b show ?thesis
    unfolding broker_call_service_def by blast
qed

lemma broker_passes_iff_witness:
  "\<exists>d'. broker example_tool_ctx 3 ''svc'' ''source_control.create_branch'' PNone False example_tool_db =
     Inr (ALLOWED_UNVERIFIED_IDENTITY, d')"
proof -
  have "sanitize_params (PDict []) = Inr []"
    by (simp add: sanitize_params_def MAX_PARAMS_BYTES_def json_items_len_def)
  then show ?thesis
    unfolding broker_passes_iff
    using example_contract example_tool_key example_create_branches_allowed by (simp add: mk_tool_def)
qed

text \<open>C10: Sanitized parameters are safe to store: nothing under a secret key at any depth, plain
  JSON, at most 16 KiB of text, with the keys of the input, and sanitizing them again changes
  nothing.\<close>

theorem sanitized_is_safe:
  assumes "sanitize_params params = Inr d"
  shows "redacted (PDict d) \<and> json_value (PDict d) \<and> json_len (PDict d) \<le> 16384 \<and>
    (\<exists>orig. params = PDict orig \<and> map fst d = map fst orig) \<and> sanitize_params (PDict d) = Inr d"
proof -
  note f = sanitized_facts [OF assms]
  have "sanitize_params (PDict d) = Inr d"
    using f(1-4) by (rule sanitize_params_fixed)
  with f normal_redacted [OF f(1)] show ?thesis
    by (simp only: MAX_PARAMS_BYTES_def)
qed

lemma char_of_116: "char_of (116::nat) = CHR ''t''" and char_of_97: "char_of (97::nat) = CHR ''a''"
  by (simp_all add: char_of_def bit_0)

lemma example_sanitize:
  "sanitize_params (PDict [(''branch'', PStr ''main''), (''Auth_Token'', PStr ''x'')]) =
     Inr [(''branch'', PStr ''main''), (''Auth_Token'', REDACTED)]"
  by (simp add: sanitize_params_def is_secret_key_def SECRET_KEY_MARKERS_def py_lower_def lower_char_def
      REDACTED_def MAX_PARAMS_BYTES_def json_items_len_def json_string_len_def json_char_len_def Let_def
      char_of_116 char_of_97)

lemma sanitized_is_safe_witness:
  "redacted (PDict [(''branch'', PStr ''main''), (''Auth_Token'', REDACTED)]) \<and>
   json_len (PDict [(''branch'', PStr ''main''), (''Auth_Token'', REDACTED)]) \<le> 16384"
  using sanitized_is_safe [OF example_sanitize] by blast

text \<open>A history of the tenant's allowlist: key, grant or revoke, actor and reason.\<close>

definition run_allowlist ::
  "tenant_context \<Rightarrow> ((string \<times> string) \<times> bool \<times> string \<times> string option) list \<Rightarrow> db \<Rightarrow> db" where
  "run_allowlist ctx es d =
     fold (\<lambda>((agent, tool), g, actor, reason) l.
       if g then tool_grant ctx agent tool actor reason l else tool_revoke ctx agent tool actor reason l) es d"

lemma run_allowlist_ledger: "run_allowlist ctx es d = allowlist.run_ledger ctx es d"
  by (induction es arbitrary: d) (auto simp: run_allowlist_def split_beta)

text \<open>The allowlist is a ledger read at its latest event: after any sequence of grants and
  revokes by any actors of the tenant, a key is allowed exactly when the last event about it was a
  grant, or there was none and it was allowed before.\<close>

theorem allowlist_latest_event:
  "tool_is_allowed ctx agent tool (run_allowlist ctx es d) \<longleftrightarrow>
     (case filter (\<lambda>e. fst e = (agent, tool)) es of
        [] \<Rightarrow> tool_is_allowed ctx agent tool d
      | _ \<Rightarrow> fst (snd (last (filter (\<lambda>e. fst e = (agent, tool)) es))))"
  using allowlist.allowed_run_ledger [of ctx "(agent, tool)" es d]
  by (simp only: run_allowlist_ledger prod.case)

text \<open>The allowlist key of an agent is an address of that agent: under unique instance ids, the
  text of a live instance's id resolves, within its tenant and project, to that instance, and in
  another project to none.\<close>

theorem instance_key_resolves:
  assumes "inst \<in> set (agent_instances d)" "distinct (map in_id (agent_instances d))"
    "in_id inst < 2 ^ 128" "in_tenant inst = ctx_tenant ctx" "in_status inst \<in> {REGISTERED, ACTIVE}"
  shows "resolve_instance ctx (uuid_str (in_id inst)) project d =
    (if project = in_project inst then Some inst else None)"
proof -
  have parse: "parse_uuid (uuid_str (in_id inst)) = Some (in_id inst)"
    using assms(3) by (rule parse_uuid_str)
  have one: "r = inst" if "r \<in> set (agent_instances d)" "in_id r = in_id inst" for r
    using that assms(1,2) by (auto simp: distinct_map inj_on_def)
  show ?thesis
  proof (cases "project = in_project inst")
    case True
    have "List.find (\<lambda>r. in_id r = in_id inst \<and> in_tenant r = ctx_tenant ctx \<and> in_project r = project \<and>
        in_status r \<in> set RESOLVABLE_INSTANCE_STATUSES) (agent_instances d) = Some inst"
      by (rule find_unique [OF assms(2,1)])
        (use assms(4,5) True in \<open>simp_all add: RESOLVABLE_INSTANCE_STATUSES_def\<close>)
    with True parse show ?thesis by (simp add: resolve_instance_def)
  next
    case False
    with one parse show ?thesis
      by (fastforce simp: resolve_instance_def find_None_iff_bex)
  qed
qed

lemma instance_key_resolves_witness:
  "resolve_instance example_tool_ctx (uuid_str 5) 3
     (empty_db\<lparr>agent_instances := [\<lparr>in_id = 5, in_tenant = 7, in_project = 3, in_status = ACTIVE\<rparr>]\<rparr>) =
   Some \<lparr>in_id = 5, in_tenant = 7, in_project = 3, in_status = ACTIVE\<rparr>"
  using instance_key_resolves [of "\<lparr>in_id = 5, in_tenant = 7, in_project = 3, in_status = ACTIVE\<rparr>"
      "empty_db\<lparr>agent_instances := [\<lparr>in_id = 5, in_tenant = 7, in_project = 3, in_status = ACTIVE\<rparr>]\<rparr>"
      example_tool_ctx 3]
  by (simp add: example_tool_ctx_def)

end
