(* ===== verification/Cost.thy ===== *)
theory Cost
  imports Json
begin

text \<open>
  The cost ledger: money validation and the stop decision (\<open>app/cost.py\<close>), the idempotent event
  ledger, the budgets and their evaluation (\<open>app/repositories/cost.py\<close>).  A \<open>Decimal\<close> is its
  coefficient and exponent; a stored NUMERIC(18,6) is its number of millionths of a dollar.
\<close>

section \<open>\<open>Decimal(text)\<close>\<close>

definition split_sign :: "string \<Rightarrow> bool \<times> string" where
  "split_sign s =
     (if take 1 s = ''-'' then (True, drop 1 s)
      else if take 1 s = ''+'' then (False, drop 1 s)
      else (False, s))"

definition parse_exponent :: "string \<Rightarrow> int option" where
  "parse_exponent s =
     (if s = [] then Some 0
      else if hd s \<in> {CHR ''e'', CHR ''E''}
      then (let (neg, ds) = split_sign (tl s) in
            if ds \<noteq> [] \<and> list_all is_digit ds
            then Some (if neg then - int (digits_value ds) else int (digits_value ds))
            else None)
      else None)"

definition MAX_EMAX :: int where
  "MAX_EMAX = 999999999999999999"

text \<open>
  The exact constructor: white space around and underscores anywhere are ignored; an exponent that
  would have to be clamped is an invalid operation (\<open>None\<close>).
\<close>

definition parse_decimal :: "string \<Rightarrow> pydec option" where
  "parse_decimal s =
     (let (neg, u) = split_sign (filter (\<lambda>c. c \<noteq> CHR ''_'') (py_strip s));
          low = py_lower u;
          after_nan = (if starts_with ''nan'' low then Some (drop 3 low)
                       else if starts_with ''snan'' low then Some (drop 4 low) else None)
      in if low \<in> {''inf'', ''infinity''} then Some (DecInfinity neg)
         else (case after_nan of
           Some payload \<Rightarrow> if list_all is_digit payload then Some DecNaN else None
         | None \<Rightarrow>
             let ip = takeWhile is_digit u;
                 r1 = dropWhile is_digit u;
                 fp = (if take 1 r1 = ''.'' then takeWhile is_digit (tl r1) else []);
                 r2 = (if take 1 r1 = ''.'' then dropWhile is_digit (tl r1) else r1)
             in if ip @ fp = [] then None
                else (case parse_exponent r2 of
                        None \<Rightarrow> None
                      | Some e \<Rightarrow>
                          let c = digits_value (ip @ fp); ex = e - int (length fp)
                          in if ex + int (length (nat_str c)) - 1 > MAX_EMAX then None
                             else Some (DecFinite (if neg then - int c else int c) ex))))"

section \<open>Money\<close>

definition COST_COMPONENTS :: "string list" where
  "COST_COMPONENTS = [''model_inference'', ''tool_execution'', ''cloud_runtime'', ''ci_cd'',
     ''storage_retrieval'', ''monitoring'', ''human_review'', ''rework'']"

definition MAX_SCALE :: int where
  "MAX_SCALE = 6"

text \<open>
  \<open>NumericOutOfRange\<close> is the database's overflow of NUMERIC(18,6), \<open>MultipleBudgets\<close> the
  \<open>MultipleResultsFound\<close> of a budget read.
\<close>

datatype cost_error =
    InvalidAmount
  | InvalidComponent
  | IdempotencyConflict
  | NumericOutOfRange
  | MultipleBudgets

definition validate_component :: "string \<Rightarrow> cost_error + unit" where
  "validate_component c = check (c \<in> set COST_COMPONENTS) InvalidComponent"

definition check_decimal :: "pydec \<Rightarrow> cost_error + pydec" where
  "check_decimal d =
     (case d of
        DecFinite c e \<Rightarrow>
          if c < 0 then Inl InvalidAmount
          else if e < - MAX_SCALE then Inl InvalidAmount
          else Inr d
      | _ \<Rightarrow> Inl InvalidAmount)"

definition to_decimal :: "pyval \<Rightarrow> cost_error + pydec" where
  "to_decimal v =
     (case v of
        PBool b \<Rightarrow> Inl InvalidAmount
      | PFloat x \<Rightarrow> Inl InvalidAmount
      | PDecimal d \<Rightarrow> check_decimal d
      | PInt n \<Rightarrow> check_decimal (DecFinite n 0)
      | PStr s \<Rightarrow> (case parse_decimal s of None \<Rightarrow> Inl InvalidAmount | Some d \<Rightarrow> check_decimal d)
      | _ \<Rightarrow> Inl InvalidAmount)"

text \<open>The stored value of an accepted amount, and the text of a stored value.\<close>

definition micros :: "pydec \<Rightarrow> int" where
  "micros d = (case d of DecFinite c e \<Rightarrow> c * 10 ^ nat (e + 6) | _ \<Rightarrow> 0)"

definition money_str :: "int \<Rightarrow> string" where
  "money_str m = dec_str (DecFinite m (-6))"

definition to_numeric :: "pydec \<Rightarrow> cost_error + int" where
  "to_numeric d = (if \<bar>micros d\<bar> < 10 ^ 18 then Inr (micros d) else Inl NumericOutOfRange)"

datatype stop_reason = NO_BUDGET | BUDGET_EXCEEDED | DAILY_BUDGET_EXCEEDED

record cost_stop_decision =
  stop :: bool
  stop_reason :: "stop_reason option"

definition decision_ok :: cost_stop_decision where
  "decision_ok = \<lparr>stop = False, stop_reason = None\<rparr>"

definition decision_stopped :: "stop_reason \<Rightarrow> cost_stop_decision" where
  "decision_stopped r = \<lparr>stop = True, stop_reason = Some r\<rparr>"

record budget_ceilings =
  max_total_cost_usd :: int
  max_daily_cost_usd :: "int option"

definition evaluate_stop :: "int \<Rightarrow> int \<Rightarrow> budget_ceilings option \<Rightarrow> cost_stop_decision" where
  "evaluate_stop spent daily budget =
     (case budget of
        None \<Rightarrow> decision_stopped NO_BUDGET
      | Some b \<Rightarrow>
          if spent \<ge> max_total_cost_usd b then decision_stopped BUDGET_EXCEEDED
          else (case max_daily_cost_usd b of
                  Some m \<Rightarrow> if daily \<ge> m then decision_stopped DAILY_BUDGET_EXCEEDED else decision_ok
                | None \<Rightarrow> decision_ok))"

section \<open>The event ledger\<close>

record cost_args =
  ca_project :: uuid
  ca_component :: string
  ca_amount :: pyval
  ca_run :: "uuid option"
  ca_quantity :: pyval
  ca_source :: string
  ca_ref :: "string option"
  ca_description :: "string option"
  ca_actor :: string
  ca_occurred_at :: "timestamp option"

text \<open>The audit text of the amount: as given when the row was added directly, as stored otherwise.\<close>

definition cost_audit :: "tenant_context \<Rightarrow> cost_row \<Rightarrow> string \<Rightarrow> db \<Rightarrow> db" where
  "cost_audit ctx ev amount d =
     audit_record ctx ''cost_event.recorded'' (ce_actor ev) (Some (''cost_event:'' @ uuid_str (ce_id ev)))
       [(''project_id'', PStr (uuid_str (ce_project ev))),
        (''run_id'', opt_str (map_option uuid_str (ce_run ev))),
        (''component'', PStr (ce_component ev)), (''amount_usd'', PStr amount),
        (''source_system'', PStr (ce_source ev)), (''external_ref'', opt_str (ce_ref ev))] d"

definition by_idempotency :: "tenant_context \<Rightarrow> string \<Rightarrow> string \<Rightarrow> db \<Rightarrow> cost_row option" where
  "by_idempotency ctx source ref d =
     List.find (\<lambda>r. ce_tenant r = ctx_tenant ctx \<and> ce_source r = source \<and> ce_ref r = Some ref) (cost_events d)"

definition assert_material_match :: "cost_row \<Rightarrow> cost_row \<Rightarrow> bool \<Rightarrow> cost_error + unit" where
  "assert_material_match existing new compare_occurred_at =
     check (ce_project existing = ce_project new \<and> ce_run existing = ce_run new \<and>
            ce_component existing = ce_component new \<and> ce_amount existing = ce_amount new \<and>
            ce_quantity existing = ce_quantity new \<and> ce_source existing = ce_source new \<and>
            (compare_occurred_at \<longrightarrow> ce_occurred_at existing = ce_occurred_at new)) IdempotencyConflict"

definition optional_decimal :: "pyval \<Rightarrow> cost_error + pydec option" where
  "optional_decimal v = (if v \<noteq> PNone then bindE (to_decimal v) (\<lambda>q. Inr (Some q)) else Inr None)"

definition optional_numeric :: "pydec option \<Rightarrow> cost_error + int option" where
  "optional_numeric q = (case q of None \<Rightarrow> Inr None | Some x \<Rightarrow> bindE (to_numeric x) (\<lambda>n. Inr (Some n)))"

definition insert_event :: "cost_row \<Rightarrow> db \<Rightarrow> db" where
  "insert_event ev d = d\<lparr>cost_events := cost_events d @ [ev], db_next_id := db_next_id d + 1\<rparr>"

definition cost_record :: "tenant_context \<Rightarrow> cost_args \<Rightarrow> db \<Rightarrow> cost_error + (cost_row \<times> db)" where
  "cost_record ctx q d =
     bindE (validate_component (ca_component q)) (\<lambda>_.
     bindE (to_decimal (ca_amount q)) (\<lambda>amount.
     bindE (optional_decimal (ca_quantity q)) (\<lambda>qty.
     bindE (to_numeric amount) (\<lambda>amount_n.
     bindE (optional_numeric qty) (\<lambda>qty_n.
       let ev = \<lparr>ce_id = db_next_id d, ce_tenant = ctx_tenant ctx, ce_project = ca_project q,
                 ce_run = ca_run q, ce_component = ca_component q, ce_amount = amount_n,
                 ce_quantity = qty_n, ce_source = ca_source q, ce_ref = ca_ref q,
                 ce_description = ca_description q, ce_actor = ca_actor q,
                 ce_occurred_at = (case ca_occurred_at q of None \<Rightarrow> db_now d | Some t \<Rightarrow> t)\<rparr>
       in case ca_ref q of
            None \<Rightarrow> Inr (ev, cost_audit ctx ev (dec_str amount) (insert_event ev d))
          | Some ref \<Rightarrow>
              (case by_idempotency ctx (ca_source q) ref d of
                 None \<Rightarrow> Inr (ev, cost_audit ctx ev (money_str amount_n) (insert_event ev d))
               | Some existing \<Rightarrow>
                   bindE (assert_material_match existing ev (ca_occurred_at q \<noteq> None))
                     (\<lambda>_. Inr (existing, d))))))))"

definition total_spent :: "tenant_context \<Rightarrow> uuid \<Rightarrow> db \<Rightarrow> int" where
  "total_spent ctx project d =
     sum_list (map ce_amount
       (filter (\<lambda>r. ce_tenant r = ctx_tenant ctx \<and> ce_project r = project) (cost_events d)))"

definition daily_spent :: "tenant_context \<Rightarrow> uuid \<Rightarrow> int \<Rightarrow> db \<Rightarrow> int" where
  "daily_spent ctx project day d =
     (let start = day_start day; end_at = start + hours 24 in
      sum_list (map ce_amount
        (filter (\<lambda>r. ce_tenant r = ctx_tenant ctx \<and> ce_project r = project \<and>
                     ce_occurred_at r \<ge> start \<and> ce_occurred_at r < end_at) (cost_events d))))"

section \<open>Budgets\<close>

definition budget_get :: "tenant_context \<Rightarrow> uuid \<Rightarrow> db \<Rightarrow> cost_error + budget_row option" where
  "budget_get ctx project d =
     scalar_one_or_none MultipleBudgets
       (filter (\<lambda>r. bu_tenant r = ctx_tenant ctx \<and> bu_project r = project) (budgets d))"

definition budget_upsert ::
  "tenant_context \<Rightarrow> uuid \<Rightarrow> pyval \<Rightarrow> pyval \<Rightarrow> string \<Rightarrow> db \<Rightarrow> cost_error + (budget_row \<times> db)" where
  "budget_upsert ctx project max_total max_daily actor d =
     bindE (to_decimal max_total) (\<lambda>cap.
     bindE (optional_decimal max_daily) (\<lambda>daily.
     bindE (budget_get ctx project d) (\<lambda>existing.
     bindE (to_numeric cap) (\<lambda>total_n.
     bindE (optional_numeric daily) (\<lambda>daily_n.
       let new = (case existing of
             None \<Rightarrow> \<lparr>bu_id = db_next_id d, bu_tenant = ctx_tenant ctx, bu_project = project,
                      bu_max_total = total_n, bu_max_daily = daily_n\<rparr>
           | Some b \<Rightarrow> b\<lparr>bu_max_total := total_n, bu_max_daily := daily_n\<rparr>);
         d1 = (case existing of
             None \<Rightarrow> d\<lparr>budgets := budgets d @ [new], db_next_id := db_next_id d + 1\<rparr>
           | Some b \<Rightarrow> d\<lparr>budgets := update_where
               (\<lambda>r. bu_tenant r = ctx_tenant ctx \<and> bu_project r = project) (\<lambda>_. new) (budgets d)\<rparr>)
       in Inr (new, audit_record ctx ''budget.set'' actor (Some (''budget:project:'' @ uuid_str project))
            [(''project_id'', PStr (uuid_str project)),
             (''old_total'', opt_str (map_option (\<lambda>b. money_str (bu_max_total b)) existing)),
             (''new_total'', PStr (money_str total_n)),
             (''old_daily'', opt_str (case existing of None \<Rightarrow> None | Some b \<Rightarrow> map_option money_str (bu_max_daily b))),
             (''new_daily'', opt_str (map_option money_str daily_n))] d1))))))"

definition cost_evaluate ::
  "tenant_context \<Rightarrow> uuid \<Rightarrow> int option \<Rightarrow> timestamp \<Rightarrow> db \<Rightarrow> cost_error + cost_stop_decision" where
  "cost_evaluate ctx project as_of_date clock d =
     bindE (budget_get ctx project d) (\<lambda>row.
       let ceilings = map_option (\<lambda>b. \<lparr>max_total_cost_usd = bu_max_total b,
                                       max_daily_cost_usd = bu_max_daily b\<rparr>) row;
           day = (case as_of_date of None \<Rightarrow> date_of clock | Some x \<Rightarrow> x)
       in Inr (evaluate_stop (total_spent ctx project d) (daily_spent ctx project day d) ceilings))"

section \<open>Lemmas: printing and parsing money\<close>

text \<open>A stored amount prints as digits, a point, and six digits.\<close>

lemma money_str_shape:
  assumes "0 \<le> m"
  obtains ip fp where "money_str m = ip @ CHR ''.'' # fp" "ip \<noteq> []" "list_all is_digit (ip @ fp)"
    "length fp = 6" "digits_value (ip @ fp) = nat m"
proof -
  define ds where "ds = nat_str (nat m)"
  have v: "digits_value ds = nat m" and dig: "list_all is_digit ds" and ne: "ds \<noteq> []"
    using nat_str_facts [of "nat m"] by (simp_all add: ds_def)
  have z: "is_digit (CHR ''0'')" by (simp add: is_digit_def)
  have ds': "nat_str (nat \<bar>m\<bar>) = ds" using assms by (simp add: ds_def)
  define left where "left = - 6 + int (length ds)"
  have "left > - 6" using ne unfolding left_def by (cases ds) simp_all
  then have dot: "(if (- 6::int) \<le> 0 \<and> left > - 6 then left else 1) = left" by simp
  have not_ge: "\<not> left \<ge> int (length ds)" and sign: "\<not> m < 0"
    using assms by (simp_all add: left_def)
  have eq: "money_str m =
      (if left \<le> 0 then ''0.'' @ replicate (nat (- left)) (CHR ''0'') @ ds
       else take (nat left) ds @ ''.'' @ drop (nat left) ds)"
    unfolding money_str_def dec_str_def pydec.case ds' Let_def left_def [symmetric] dot
    by (simp only: not_ge sign if_False if_True simp_thms append_Nil append_Nil2)
  show thesis
  proof (cases "length ds \<le> 6")
    case True
    let ?fp = "replicate (6 - length ds) (CHR ''0'') @ ds"
    have "nat (- left) = 6 - length ds" and "left \<le> 0" using True by (simp_all add: left_def)
    then have "money_str m = ''0'' @ CHR ''.'' # ?fp"
      by (simp only: eq if_True append.simps)
    moreover have "digits_value (''0'' @ ?fp) = nat m"
    proof -
      have "digits_value ''0'' = 0" by (simp add: digits_value_def)
      then show ?thesis by (simp only: digits_value_append digits_value_zeros v mult_zero_left add_0)
    qed
    ultimately show thesis
      using True dig z by (intro that [of "''0''" ?fp]) (auto simp: list_all_iff)
  next
    case False
    let ?n = "length ds - 6"
    have "nat left = ?n" and "\<not> left \<le> 0" using False by (simp_all add: left_def)
    then have "money_str m = take ?n ds @ CHR ''.'' # drop ?n ds"
      by (simp only: eq if_False append.simps)
    moreover have "list_all is_digit (take ?n ds @ drop ?n ds)"
      using dig by simp
    ultimately show thesis
      using False v ne by (intro that [of "take ?n ds" "drop ?n ds"]) simp_all
  qed
qed

lemma is_digit_nat: "is_digit c \<longleftrightarrow> (of_char c :: nat) \<in> {48..57}"
  by (simp add: is_digit_def Let_def)

lemma digit_not: "is_digit c \<Longrightarrow> c \<notin> {CHR ''_'', CHR ''-'', CHR ''+'', CHR ''.''} \<and> \<not> py_space c \<and> lower_char c = c"
proof -
  assume d: "is_digit c"
  then have "(of_char c :: nat) \<in> {48..57}" by (simp add: is_digit_nat)
  then have "\<not> py_space c" and "lower_char c = c"
    by (simp_all add: py_space_def lower_char_def Let_def)
  moreover have "c \<notin> {CHR ''_'', CHR ''-'', CHR ''+'', CHR ''.''}"
    using d by (auto simp: is_digit_def)
  ultimately show ?thesis by simp
qed

text \<open>Reading digits, a point and more digits back.\<close>

lemma parse_decimal_point:
  assumes "ip \<noteq> []" "list_all is_digit (ip @ fp)" "length (nat_str (digits_value (ip @ fp))) \<le> 100"
  shows "parse_decimal (ip @ CHR ''.'' # fp) =
    Some (DecFinite (int (digits_value (ip @ fp))) (- int (length fp)))"
proof -
  let ?s = "ip @ CHR ''.'' # fp"
  have chars: "c = CHR ''.'' \<or> is_digit c" if "c \<in> set ?s" for c
    using that assms(2) by (auto simp: list_all_iff)
  have nospace: "\<not> py_space c" if "c \<in> set ?s" for c
    using chars [OF that] digit_not by (auto simp: py_space_def Let_def)
  have strip: "py_strip ?s = ?s"
  proof -
    have "dropWhile py_space ?s = ?s" using nospace by (intro dropWhile_id) blast
    moreover have "dropWhile py_space (rev ?s) = rev ?s" using nospace by (intro dropWhile_id) (metis set_rev)
    ultimately show ?thesis by (simp only: py_strip_def rev_rev_ident)
  qed
  have us: "filter (\<lambda>c. c \<noteq> CHR ''_'') ?s = ?s"
    using chars digit_not by (intro filter_True) fastforce
  obtain c cs where ip: "ip = c # cs" using assms(1) by (cases ip) auto
  have c: "is_digit c" using assms(2) ip by simp
  have sign: "split_sign ?s = (False, ?s)"
    using digit_not [OF c] by (simp add: split_sign_def ip)
  obtain rest where low: "py_lower ?s = c # rest"
    using digit_not [OF c] by (simp add: py_lower_def ip)
  have letters: "c \<notin> {CHR ''n'', CHR ''s'', CHR ''i''}"
    using c by (auto simp: is_digit_def)
  have special: "py_lower ?s \<notin> {''inf'', ''infinity''}" "\<not> starts_with ''nan'' (py_lower ?s)"
    "\<not> starts_with ''snan'' (py_lower ?s)"
    using letters by (auto simp: low)
  have dot: "\<not> is_digit (CHR ''.'')" by (simp add: is_digit_def)
  have ip_all: "\<And>x. x \<in> set ip \<Longrightarrow> is_digit x" and fp_all: "\<And>x. x \<in> set fp \<Longrightarrow> is_digit x"
    using assms(2) by (auto simp: list_all_iff)
  have tw: "takeWhile is_digit ?s = ip" "dropWhile is_digit ?s = CHR ''.'' # fp"
    using ip_all dot by (simp_all add: takeWhile_append2 dropWhile_append2)
  have fw: "takeWhile is_digit fp = fp" "dropWhile is_digit fp = []"
    using fp_all by (simp_all add: takeWhile_eq_all_conv dropWhile_eq_Nil_conv)
  have ne: "ip @ fp \<noteq> []" using assms(1) by simp
  have ex: "\<not> 0 - int (length fp) + int (length (nat_str (digits_value (ip @ fp)))) - 1 > MAX_EMAX"
    using assms(3) by (simp add: MAX_EMAX_def)
  show ?thesis
    unfolding parse_decimal_def strip us sign
    using special ne ex by (simp add: Let_def tw fw parse_exponent_def)
qed

lemma parse_money_str:
  assumes "0 \<le> m" "m < 10 ^ 18"
  shows "parse_decimal (money_str m) = Some (DecFinite m (- 6))"
proof -
  obtain ip fp where sh: "money_str m = ip @ CHR ''.'' # fp" "ip \<noteq> []" "list_all is_digit (ip @ fp)"
    "length fp = 6" "digits_value (ip @ fp) = nat m"
    using money_str_shape [OF assms(1)] by blast
  have "nat m < 10 ^ Suc 17" using assms by (simp add: nat_less_iff)
  then have "length (nat_str (nat m)) \<le> 100"
    using nat_str_length [of "nat m" 17] by simp
  with sh parse_decimal_point [OF sh(2,3)] assms(1) show ?thesis by simp
qed

section \<open>Lemmas: the ledger\<close>

lemma to_decimal_finite:
  assumes "to_decimal v = Inr d"
  obtains c e where "d = DecFinite c e" "0 \<le> c" "- 6 \<le> e"
  using assms
  by (auto simp: to_decimal_def check_decimal_def MAX_SCALE_def split: pyval.splits pydec.splits if_splits option.splits)

lemma to_decimal_micros: "to_decimal v = Inr d \<Longrightarrow> 0 \<le> micros d"
  by (erule to_decimal_finite) (simp add: micros_def)

lemma to_numeric_Inr: "to_numeric d = Inr n \<longleftrightarrow> n = micros d \<and> \<bar>micros d\<bar> < 10 ^ 18"
  by (auto simp: to_numeric_def)

lemma cost_audit_frame [simp]:
  "cost_events (cost_audit ctx ev a d) = cost_events d"
  "budgets (cost_audit ctx ev a d) = budgets d"
  "db_now (cost_audit ctx ev a d) = db_now d"
  "length (audit_log (cost_audit ctx ev a d)) = Suc (length (audit_log d))"
  "t = ctx_tenant ctx \<Longrightarrow> foreign t (cost_audit ctx ev a d) = foreign t d"
  by (simp_all add: cost_audit_def)

lemma insert_event_frame [simp]:
  "cost_events (insert_event ev d) = cost_events d @ [ev]"
  "budgets (insert_event ev d) = budgets d"
  "audit_log (insert_event ev d) = audit_log d"
  "db_now (insert_event ev d) = db_now d"
  "ce_tenant ev = t \<Longrightarrow> foreign t (insert_event ev d) = foreign t d"
  by (simp_all add: insert_event_def)

text \<open>The row a call would insert.\<close>

definition new_event :: "tenant_context \<Rightarrow> cost_args \<Rightarrow> int \<Rightarrow> int option \<Rightarrow> db \<Rightarrow> cost_row" where
  "new_event ctx q amount qty d =
     \<lparr>ce_id = db_next_id d, ce_tenant = ctx_tenant ctx, ce_project = ca_project q,
      ce_run = ca_run q, ce_component = ca_component q, ce_amount = amount,
      ce_quantity = qty, ce_source = ca_source q, ce_ref = ca_ref q,
      ce_description = ca_description q, ce_actor = ca_actor q,
      ce_occurred_at = (case ca_occurred_at q of None \<Rightarrow> db_now d | Some t \<Rightarrow> t)\<rparr>"

lemma cost_record_cases:
  assumes "cost_record ctx q d = Inr (ev, d')"
  obtains (inserted) amount qty amount_n qty_n atext where
    "validate_component (ca_component q) = Inr ()" "to_decimal (ca_amount q) = Inr amount"
    "optional_decimal (ca_quantity q) = Inr qty" "to_numeric amount = Inr amount_n"
    "optional_numeric qty = Inr qty_n" "ev = new_event ctx q amount_n qty_n d"
    "d' = cost_audit ctx ev atext (insert_event ev d)"
    "\<And>ref. ca_ref q = Some ref \<Longrightarrow> by_idempotency ctx (ca_source q) ref d = None"
  | (existing) ref where "ca_ref q = Some ref" "by_idempotency ctx (ca_source q) ref d = Some ev" "d' = d"
proof -
  obtain amount qty amount_n qty_n where ok: "validate_component (ca_component q) = Inr ()"
    "to_decimal (ca_amount q) = Inr amount" "optional_decimal (ca_quantity q) = Inr qty"
    "to_numeric amount = Inr amount_n" "optional_numeric qty = Inr qty_n"
    using assms by (auto simp: cost_record_def)
  let ?ev = "new_event ctx q amount_n qty_n d"
  have run: "cost_record ctx q d =
      (case ca_ref q of
         None \<Rightarrow> Inr (?ev, cost_audit ctx ?ev (dec_str amount) (insert_event ?ev d))
       | Some ref \<Rightarrow>
           (case by_idempotency ctx (ca_source q) ref d of
              None \<Rightarrow> Inr (?ev, cost_audit ctx ?ev (money_str amount_n) (insert_event ?ev d))
            | Some existing \<Rightarrow> bindE (assert_material_match existing ?ev (ca_occurred_at q \<noteq> None))
                (\<lambda>_. Inr (existing, d))))"
    unfolding cost_record_def ok bindE_simps Let_def new_event_def ..
  show thesis
  proof (cases "ca_ref q")
    case None
    with assms run show thesis by (intro inserted [OF ok]) auto
  next
    case (Some ref)
    show thesis
    proof (cases "by_idempotency ctx (ca_source q) ref d")
      case None
      with assms run Some show thesis by (intro inserted [OF ok]) auto
    next
      case (Some existing')
      with assms run \<open>ca_ref q = Some ref\<close> show thesis by (intro existing) auto
    qed
  qed
qed

lemma cost_record_amount: "cost_record ctx q d = Inr (ev, d') \<Longrightarrow> d' \<noteq> d \<Longrightarrow> 0 \<le> ce_amount ev"
  by (erule cost_record_cases) (auto simp: to_numeric_Inr new_event_def dest: to_decimal_micros)

lemma daily_spent_day:
  "daily_spent ctx project day d =
     sum_list (map ce_amount (filter (\<lambda>r. ce_tenant r = ctx_tenant ctx \<and> ce_project r = project \<and>
       date_of (ce_occurred_at r) = day) (cost_events d)))"
proof -
  have "day_start day + hours 24 = day_start (day + 1)"
    by (simp add: hours_def day_start_def)
  then show ?thesis
    by (simp add: daily_spent_def Let_def date_of_eq_iff)
qed

lemma sum_by_key:
  assumes "finite K" "\<And>r. r \<in> set rs \<Longrightarrow> key r \<in> K"
  shows "(\<Sum>k\<in>K. sum_list (map f (filter (\<lambda>r. key r = k) rs))) = (sum_list (map f rs) :: int)"
  using assms(2)
proof (induction rs)
  case (Cons r rs)
  have "(\<Sum>k\<in>K. sum_list (map f (filter (\<lambda>r. key r = k) (r # rs)))) =
      (\<Sum>k\<in>K. (if key r = k then f r else 0) + sum_list (map f (filter (\<lambda>r. key r = k) rs)))"
    by (rule sum.cong) auto
  also have "\<dots> = f r + sum_list (map f rs)"
    using Cons assms(1) by (simp add: sum.distrib)
  finally show ?case by simp
qed simp

lemma cost_record_run:
  assumes "validate_component (ca_component q) = Inr ()" "to_decimal (ca_amount q) = Inr amount"
    "optional_decimal (ca_quantity q) = Inr qty" "to_numeric amount = Inr amount_n"
    "optional_numeric qty = Inr qty_n" "ca_ref q = Some ref"
    "by_idempotency ctx (ca_source q) ref d = Some existing"
  shows "cost_record ctx q d =
    bindE (assert_material_match existing (new_event ctx q amount_n qty_n d) (ca_occurred_at q \<noteq> None))
      (\<lambda>_. Inr (existing, d))"
  unfolding cost_record_def assms bindE_simps Let_def new_event_def option.case ..

lemma cost_record_replay:
  assumes "cost_record ctx q d = Inr (ev, d')" "ca_ref q = Some ref"
  shows "cost_record ctx q d' = Inr (ev, d')"
  using assms(1)
proof (cases rule: cost_record_cases)
  case (inserted amount qty amount_n qty_n atext)
  have "by_idempotency ctx (ca_source q) ref d' = Some ev"
    using inserted(8) [OF assms(2)] assms(2) unfolding by_idempotency_def inserted(6,7)
    by (simp add: find_append_None) (simp add: new_event_def)
  moreover have "assert_material_match ev (new_event ctx q amount_n qty_n d') (ca_occurred_at q \<noteq> None) = Inr ()"
    by (auto simp: assert_material_match_def inserted(6) new_event_def)
  ultimately show ?thesis
    using cost_record_run [OF inserted(1-5) assms(2)] by simp
qed (use assms in simp)

section \<open>Properties\<close>

definition example_cost_ctx :: tenant_context where
  "example_cost_ctx = \<lparr>ctx_tenant = 7, ctx_actor = None\<rparr>"

definition example_cost :: cost_args where
  "example_cost = \<lparr>ca_project = 3, ca_component = ''storage_retrieval'', ca_amount = PStr ''2.50'',
     ca_run = None, ca_quantity = PNone, ca_source = ''internal'', ca_ref = Some ''r1'',
     ca_description = None, ca_actor = ''ops'', ca_occurred_at = None\<rparr>"

definition example_cost_db :: db where
  "example_cost_db = empty_db\<lparr>budgets := [\<lparr>bu_id = 1, bu_tenant = 7, bu_project = 3,
     bu_max_total = 2000000, bu_max_daily = None\<rparr>]\<rparr>"

lemma example_amount: "to_decimal (PStr ''2.50'') = Inr (DecFinite 250 (- 2))"
proof -
  have "parse_decimal (''2'' @ CHR ''.'' # ''50'') =
      Some (DecFinite (int (digits_value (''2'' @ ''50''))) (- int (length ''50'')))"
    by (rule parse_decimal_point)
      (simp_all add: is_digit_def digits_value_def nat_str_def digits_rev.simps)
  then show ?thesis by (simp add: to_decimal_def check_decimal_def MAX_SCALE_def digits_value_def)
qed

lemma example_cost_recorded:
  "\<exists>ev d'. cost_record example_cost_ctx example_cost example_cost_db = Inr (ev, d') \<and>
     ce_amount ev = 2500000 \<and> cost_events d' = [ev]"
proof -
  have "to_numeric (DecFinite 250 (- 2)) = Inr 2500000"
    by (simp add: to_numeric_def micros_def)
  then show ?thesis
    by (simp add: cost_record_def example_cost_def example_amount validate_component_def COST_COMPONENTS_def
        optional_decimal_def optional_numeric_def by_idempotency_def example_cost_db_def empty_db_def Let_def)
qed

text \<open>C11: Money survives its text: the audit text of any stored amount is accepted again and stores
  as the same number of millionths, so no reading rounds it.\<close>

theorem stored_money_round_trips:
  assumes "0 \<le> m" "m < 10 ^ 18"
  shows "\<exists>d. to_decimal (PStr (money_str m)) = Inr d \<and> to_numeric d = Inr m"
  using parse_money_str [OF assms] assms
  by (simp add: to_decimal_def check_decimal_def MAX_SCALE_def to_numeric_Inr micros_def)

lemma stored_money_round_trips_witness:
  "\<exists>d. to_decimal (PStr (money_str 2500000)) = Inr d \<and> to_numeric d = Inr 2500000"
  by (rule stored_money_round_trips) simp_all

text \<open>Recording a cost appends exactly one event of the tenant, adds exactly its amount to the
  project's total and audits it once, or finds the event already recorded and changes nothing; and
  with an idempotency key, repeating the call returns the same event and changes nothing.\<close>

theorem cost_recorded_once:
  assumes "cost_record ctx q d = Inr (ev, d')"
  shows "(cost_events d' = cost_events d @ [ev] \<and> ce_tenant ev = ctx_tenant ctx \<and>
          (\<forall>p. total_spent ctx p d' = total_spent ctx p d + (if p = ca_project q then ce_amount ev else 0)) \<and>
          length (audit_log d') = Suc (length (audit_log d)) \<and>
          foreign (ctx_tenant ctx) d' = foreign (ctx_tenant ctx) d
        \<or> ev \<in> set (cost_events d) \<and> d' = d) \<and>
    (ca_ref q \<noteq> None \<longrightarrow> cost_record ctx q d' = Inr (ev, d'))"
proof -
  have once: "cost_events d' = cost_events d @ [ev] \<and> ce_tenant ev = ctx_tenant ctx \<and>
      (\<forall>p. total_spent ctx p d' = total_spent ctx p d + (if p = ca_project q then ce_amount ev else 0)) \<and>
      length (audit_log d') = Suc (length (audit_log d)) \<and>
      foreign (ctx_tenant ctx) d' = foreign (ctx_tenant ctx) d
    \<or> ev \<in> set (cost_events d) \<and> d' = d"
    using assms
  proof (cases rule: cost_record_cases)
    case (inserted amount qty amount_n qty_n atext)
    have ev: "ce_tenant ev = ctx_tenant ctx" "ce_project ev = ca_project q"
      by (simp_all add: inserted(6) new_event_def)
    then show ?thesis by (auto simp: inserted(7) total_spent_def)
  next
    case (existing ref)
    then show ?thesis by (auto simp: by_idempotency_def dest: find_Some_mem)
  qed
  then show ?thesis using cost_record_replay [OF assms] by blast
qed

lemma cost_recorded_once_witness:
  "\<exists>ev d'. cost_record example_cost_ctx example_cost example_cost_db = Inr (ev, d') \<and>
     cost_record example_cost_ctx example_cost d' = Inr (ev, d')"
proof -
  obtain ev d' where r: "cost_record example_cost_ctx example_cost example_cost_db = Inr (ev, d')"
    using example_cost_recorded by blast
  from cost_recorded_once [OF r] have "cost_record example_cost_ctx example_cost d' = Inr (ev, d')"
    by (simp add: example_cost_def)
  with r show ?thesis by blast
qed

text \<open>C12: The stop decision lets work proceed exactly when the project has a budget whose total cap
  is above everything spent and whose daily cap, if any, is above what the day spent; without a
  budget it stops.\<close>

theorem cost_evaluate_ok_iff:
  "cost_evaluate ctx project as_of clock d = Inr decision_ok \<longleftrightarrow>
     (\<exists>b. budget_get ctx project d = Inr (Some b) \<and> total_spent ctx project d < bu_max_total b \<and>
        (case bu_max_daily b of None \<Rightarrow> True
         | Some m \<Rightarrow> daily_spent ctx project (case as_of of None \<Rightarrow> date_of clock | Some x \<Rightarrow> x) d < m))"
proof (cases "budget_get ctx project d")
  case (Inr row)
  then show ?thesis
    by (cases row) (auto simp: cost_evaluate_def evaluate_stop_def decision_ok_def decision_stopped_def
        split: option.splits)
qed (simp add: cost_evaluate_def)

text \<open>A spent budget stays spent: once a project stops because its total cap is reached, recording
  further costs of any tenant keeps it stopped for that reason.\<close>

theorem total_stop_is_final:
  assumes "cost_evaluate ctx project as_of clock d = Inr (decision_stopped BUDGET_EXCEEDED)"
    "cost_record ctx' q d = Inr (ev, d')"
  shows "cost_evaluate ctx project as_of' clock' d' = Inr (decision_stopped BUDGET_EXCEEDED)"
proof -
  obtain b where b: "budget_get ctx project d = Inr (Some b)" "bu_max_total b \<le> total_spent ctx project d"
    using assms(1)
    by (auto simp: cost_evaluate_def evaluate_stop_def decision_ok_def decision_stopped_def
        split: option.splits if_splits)
  have "budgets d' = budgets d \<and> total_spent ctx project d \<le> total_spent ctx project d'"
    using assms(2)
  proof (cases rule: cost_record_cases)
    case (inserted amount qty amount_n qty_n atext)
    have "0 \<le> ce_amount ev"
      using inserted(2,4,6) by (auto simp: to_numeric_Inr new_event_def dest: to_decimal_micros)
    then show ?thesis by (simp add: inserted(7) total_spent_def)
  qed simp
  with b show ?thesis
    by (simp add: cost_evaluate_def budget_get_def evaluate_stop_def)
qed

lemma total_stop_is_final_witness:
  "\<exists>ev d' ev2 d2. cost_record example_cost_ctx example_cost example_cost_db = Inr (ev, d') \<and>
     cost_record example_cost_ctx example_cost d' = Inr (ev2, d2) \<and>
     cost_evaluate example_cost_ctx 3 None 0 d2 = Inr (decision_stopped BUDGET_EXCEEDED)"
proof -
  obtain ev d' where r: "cost_record example_cost_ctx example_cost example_cost_db = Inr (ev, d')"
    and a: "ce_amount ev = 2500000" and evs: "cost_events d' = [ev]"
    using example_cost_recorded by blast
  from r have b: "budgets d' = budgets example_cost_db" and ev: "ce_tenant ev = 7" "ce_project ev = 3"
    by (cases rule: cost_record_cases;
        auto simp: new_event_def example_cost_ctx_def example_cost_def by_idempotency_def
          example_cost_db_def empty_db_def)+
  have "cost_evaluate example_cost_ctx 3 None 0 d' = Inr (decision_stopped BUDGET_EXCEEDED)"
    by (simp add: cost_evaluate_def budget_get_def b example_cost_db_def empty_db_def evaluate_stop_def
        total_spent_def evs a ev example_cost_ctx_def)
  moreover have again: "cost_record example_cost_ctx example_cost d' = Inr (ev, d')"
    by (rule cost_record_replay [OF r]) (simp add: example_cost_def)
  ultimately have "cost_evaluate example_cost_ctx 3 None 0 d' = Inr (decision_stopped BUDGET_EXCEEDED)"
    by (rule total_stop_is_final)
  with r again show ?thesis by blast
qed

text \<open>The UTC days partition the spend: over any finite set of days that covers the project's
  events, the daily amounts add up to the total.\<close>

theorem daily_amounts_partition_total:
  assumes "finite days" "\<forall>r\<in>set (cost_events d). date_of (ce_occurred_at r) \<in> days"
  shows "(\<Sum>day\<in>days. daily_spent ctx project day d) = total_spent ctx project d"
proof -
  let ?rs = "filter (\<lambda>r. ce_tenant r = ctx_tenant ctx \<and> ce_project r = project) (cost_events d)"
  have "daily_spent ctx project day d =
      sum_list (map ce_amount (filter (\<lambda>r. date_of (ce_occurred_at r) = day) ?rs))" for day
    by (simp add: daily_spent_day conj_ac)
  then show ?thesis
    using sum_by_key [OF assms(1), of ?rs "\<lambda>r. date_of (ce_occurred_at r)" ce_amount] assms(2)
    by (simp add: total_spent_def)
qed

lemma daily_amounts_partition_total_witness:
  "(\<Sum>day\<in>{0}. daily_spent example_cost_ctx 3 day example_cost_db) = total_spent example_cost_ctx 3 example_cost_db"
  by (rule daily_amounts_partition_total) (simp_all add: example_cost_db_def empty_db_def)

end
