(* ===== verification/Runs.thy ===== *)
theory Runs
  imports Store
begin

text \<open>
  The run state machine with its append-only step history (\<open>app/repositories/runs.py\<close>) and the
  project emergency latch that guards it (\<open>app/repositories/emergency_controls.py\<close>,
  \<open>app/release/emergency_stop.py\<close>).  \<open>clock_timestamp()\<close> is an argument of the operations that
  append a stop event.
\<close>

section \<open>Statuses\<close>

primrec run_status_value :: "run_status \<Rightarrow> string" where
  "run_status_value Created = ''created''"
| "run_status_value Running = ''running''"
| "run_status_value Paused = ''paused''"
| "run_status_value Blocked = ''blocked''"
| "run_status_value Completed = ''completed''"
| "run_status_value Failed = ''failed''"

definition RUN_ALLOWED :: "(run_status \<times> run_status list) list" where
  "RUN_ALLOWED = [
     (Created, [Running]),
     (Running, [Completed, Failed, Paused, Blocked]),
     (Paused, [Running, Failed]),
     (Blocked, [Running, Failed]),
     (Completed, []),
     (Failed, [])]"

definition is_valid_transition :: "run_status \<Rightarrow> run_status \<Rightarrow> bool" where
  "is_valid_transition from_status to_status =
     (case map_of RUN_ALLOWED from_status of None \<Rightarrow> False | Some ts \<Rightarrow> to_status \<in> set ts)"

text \<open>
  \<open>EmergencyUnavailable\<close> carries the code of an \<open>EmergencyControlRepositoryError\<close>.
\<close>

datatype run_error =
    InvalidRunTransition
  | RunNotFound
  | EmergencyStopActive
  | EmergencyUnavailable string

section \<open>The latch\<close>

text \<open>The generated column \<open>state_after\<close>.\<close>

datatype latch_state = Armed | Active

primrec state_after :: "latch_event \<Rightarrow> latch_state" where
  "state_after ArmedAnchor = Armed"
| "state_after Activated = Active"
| "state_after Cleared = Armed"

definition lock_project_row :: "tenant_context \<Rightarrow> uuid \<Rightarrow> db \<Rightarrow> run_error + project_row" where
  "lock_project_row ctx project d =
     (case List.find (\<lambda>r. pr_id r = project \<and> pr_tenant r = ctx_tenant ctx) (projects d) of
        None \<Rightarrow> Inl (EmergencyUnavailable ''emergency_control_unavailable'')
      | Some r \<Rightarrow> Inr r)"

definition latest_stop_event :: "tenant_context \<Rightarrow> uuid \<Rightarrow> db \<Rightarrow> stop_event_row option" where
  "latest_stop_event ctx project d =
     latest_by (\<lambda>e. (se_created_at e, se_id e))
       (filter (\<lambda>e. se_tenant e = ctx_tenant ctx \<and> se_project e = project) (stop_events d))"

definition assert_project_not_stopped :: "tenant_context \<Rightarrow> uuid \<Rightarrow> db \<Rightarrow> run_error + unit" where
  "assert_project_not_stopped ctx project d =
     bindE (lock_project_row ctx project d) (\<lambda>_.
       case latest_stop_event ctx project d of
         None \<Rightarrow> Inr ()
       | Some head \<Rightarrow> check (state_after (se_event head) \<noteq> Active) EmergencyStopActive)"

section \<open>The run repository\<close>

definition run_get :: "tenant_context \<Rightarrow> uuid \<Rightarrow> db \<Rightarrow> run_row option" where
  "run_get ctx i d = List.find (\<lambda>r. ru_id r = i \<and> ru_tenant r = ctx_tenant ctx) (project_runs d)"

definition run_require :: "tenant_context \<Rightarrow> uuid \<Rightarrow> db \<Rightarrow> run_error + run_row" where
  "run_require ctx i d = (case run_get ctx i d of None \<Rightarrow> Inl RunNotFound | Some r \<Rightarrow> Inr r)"

definition list_for_project :: "tenant_context \<Rightarrow> uuid \<Rightarrow> db \<Rightarrow> run_row list" where
  "list_for_project ctx project d =
     filter (\<lambda>r. ru_tenant r = ctx_tenant ctx \<and> ru_project r = project) (project_runs d)"

text \<open>\<open>TenantScopedRepository.add\<close> of a new run: the status default is \<open>created\<close>.\<close>

definition run_add :: "tenant_context \<Rightarrow> uuid \<Rightarrow> db \<Rightarrow> run_row \<times> db" where
  "run_add ctx project d =
     (let r = \<lparr>ru_id = db_next_id d, ru_tenant = ctx_tenant ctx, ru_project = project, ru_status = Created\<rparr>
      in (r, d\<lparr>project_runs := project_runs d @ [r], db_next_id := db_next_id d + 1\<rparr>))"

definition record_step ::
  "tenant_context \<Rightarrow> uuid \<Rightarrow> uuid \<Rightarrow> string \<Rightarrow> string option \<Rightarrow> run_status option \<Rightarrow> run_status option \<Rightarrow>
     pydict option \<Rightarrow> db \<Rightarrow> step_row \<times> db" where
  "record_step ctx run project event node from_status to_status payload d =
     (let s = \<lparr>st_id = db_next_id d, st_tenant = ctx_tenant ctx, st_project = project, st_run = run,
               st_node = node, st_event = event, st_from = from_status, st_to = to_status,
               st_payload = (case payload of None \<Rightarrow> [] | Some p \<Rightarrow> p)\<rparr>
      in (s, d\<lparr>run_steps := run_steps d @ [s], db_next_id := db_next_id d + 1\<rparr>))"

definition set_run_status :: "tenant_context \<Rightarrow> uuid \<Rightarrow> run_status \<Rightarrow> db \<Rightarrow> db" where
  "set_run_status ctx i s d =
     d\<lparr>project_runs := update_where (\<lambda>r. ru_id r = i \<and> ru_tenant r = ctx_tenant ctx)
         (\<lambda>r. r\<lparr>ru_status := s\<rparr>) (project_runs d)\<rparr>"

definition run_transition ::
  "tenant_context \<Rightarrow> uuid \<Rightarrow> run_status \<Rightarrow> string \<Rightarrow> string \<Rightarrow> pydict option \<Rightarrow> db \<Rightarrow> run_error + (run_row \<times> db)" where
  "run_transition ctx i to_status event actor payload d =
     bindE (run_require ctx i d) (\<lambda>run.
     bindE (if to_status = Running then assert_project_not_stopped ctx (ru_project run) d else Inr ()) (\<lambda>_.
     bindE (check (is_valid_transition (ru_status run) to_status) InvalidRunTransition) (\<lambda>_.
       let d1 = set_run_status ctx i to_status d;
           d2 = snd (record_step ctx i (ru_project run) event None (Some (ru_status run)) (Some to_status) payload d1)
       in Inr (run\<lparr>ru_status := to_status\<rparr>,
            audit_record ctx (''run.'' @ event) actor (Some (''run:'' @ uuid_str i))
              [(''run_id'', PStr (uuid_str i)), (''project_id'', PStr (uuid_str (ru_project run))),
               (''from'', PStr (run_status_value (ru_status run))),
               (''to'', PStr (run_status_value to_status))] d2))))"

definition mark_running :: "tenant_context \<Rightarrow> uuid \<Rightarrow> string \<Rightarrow> db \<Rightarrow> run_error + (run_row \<times> db)" where
  "mark_running ctx i actor = run_transition ctx i Running ''run_started'' actor None"

definition mark_completed :: "tenant_context \<Rightarrow> uuid \<Rightarrow> string \<Rightarrow> db \<Rightarrow> run_error + (run_row \<times> db)" where
  "mark_completed ctx i actor = run_transition ctx i Completed ''run_completed'' actor None"

definition mark_failed ::
  "tenant_context \<Rightarrow> uuid \<Rightarrow> string \<Rightarrow> pydict option \<Rightarrow> db \<Rightarrow> run_error + (run_row \<times> db)" where
  "mark_failed ctx i actor payload = run_transition ctx i Failed ''run_failed'' actor payload"

definition mark_blocked_on_approval ::
  "tenant_context \<Rightarrow> uuid \<Rightarrow> string \<Rightarrow> pydict option \<Rightarrow> db \<Rightarrow> run_error + (run_row \<times> db)" where
  "mark_blocked_on_approval ctx i actor payload = run_transition ctx i Blocked ''blocked_on_approval'' actor payload"

definition mark_paused_for_cost ::
  "tenant_context \<Rightarrow> uuid \<Rightarrow> string \<Rightarrow> pydict option \<Rightarrow> db \<Rightarrow> run_error + (run_row \<times> db)" where
  "mark_paused_for_cost ctx i actor payload = run_transition ctx i Paused ''cost_paused'' actor payload"

definition mark_blocked_control_loop ::
  "tenant_context \<Rightarrow> uuid \<Rightarrow> string \<Rightarrow> pydict option \<Rightarrow> db \<Rightarrow> run_error + (run_row \<times> db)" where
  "mark_blocked_control_loop ctx i actor payload = run_transition ctx i Blocked ''control_loop_waiting'' actor payload"

definition mark_resumed ::
  "tenant_context \<Rightarrow> uuid \<Rightarrow> string \<Rightarrow> pydict option \<Rightarrow> db \<Rightarrow> run_error + (run_row \<times> db)" where
  "mark_resumed ctx i actor payload = run_transition ctx i Running ''run_resumed'' actor payload"

definition STOP_REASON :: string where
  "STOP_REASON = ''project_emergency_stop_active''"

definition mark_paused_for_emergency :: "tenant_context \<Rightarrow> uuid \<Rightarrow> db \<Rightarrow> run_error + (run_row \<times> db)" where
  "mark_paused_for_emergency ctx i d =
     bindE (run_require ctx i d) (\<lambda>run.
     bindE (check (is_valid_transition (ru_status run) Paused) InvalidRunTransition) (\<lambda>_.
       let d1 = set_run_status ctx i Paused d;
           d2 = snd (record_step ctx (ru_id run) (ru_project run) ''emergency_paused'' None
                       (Some Running) (Some Paused) (Some [(''reason_code'', PStr STOP_REASON)]) d1)
       in Inr (run\<lparr>ru_status := Paused\<rparr>,
            audit_record ctx ''run.emergency_paused'' ''emergency_control_authority''
              (Some ''emergency_runtime_run'')
              [(''project_id'', PStr (uuid_str (ru_project run))), (''from'', PStr ''running''),
               (''to'', PStr ''paused''), (''reason_code'', PStr STOP_REASON)] d2)))"

text \<open>\<open>seq\<close> is an identity column: the latest step is the last row; none is an error.\<close>

definition latest_step :: "tenant_context \<Rightarrow> uuid \<Rightarrow> db \<Rightarrow> step_row option" where
  "latest_step ctx run d =
     (case filter (\<lambda>s. st_tenant s = ctx_tenant ctx \<and> st_run s = run) (run_steps d) of
        [] \<Rightarrow> None | ss \<Rightarrow> Some (last ss))"

section \<open>Lemmas\<close>

interpretation run_status: lifecycle is_valid_transition "\<lambda>s. s \<in> {Completed, Failed}"
  by unfold_locales (auto simp: is_valid_transition_def RUN_ALLOWED_def)

lemma is_valid_transition_simps [simp]:
  "is_valid_transition Created t \<longleftrightarrow> t = Running"
  "is_valid_transition Running t \<longleftrightarrow> t \<in> {Completed, Failed, Paused, Blocked}"
  "is_valid_transition Paused t \<longleftrightarrow> t \<in> {Running, Failed}"
  "is_valid_transition Blocked t \<longleftrightarrow> t \<in> {Running, Failed}"
  "\<not> is_valid_transition Completed t" "\<not> is_valid_transition Failed t"
  by (auto simp: is_valid_transition_def RUN_ALLOWED_def)

lemma pause_only_running: "is_valid_transition s Paused \<longleftrightarrow> s = Running"
  by (cases s) simp_all

text \<open>The history of a run, and its replay through the transition table.\<close>

definition run_history :: "db \<Rightarrow> uuid \<Rightarrow> (run_status option \<times> run_status option) list" where
  "run_history d i = map (\<lambda>s. (st_from s, st_to s))
     (filter (\<lambda>s. st_run s = i \<and> st_to s \<noteq> None) (run_steps d))"

fun replay :: "run_status \<Rightarrow> (run_status option \<times> run_status option) list \<Rightarrow> run_status option" where
  "replay s [] = Some s"
| "replay s ((a, b) # h) =
     (case (a, b) of
        (Some x, Some y) \<Rightarrow> if x = s \<and> is_valid_transition x y then replay y h else None
      | _ \<Rightarrow> None)"

lemma replay_append: "replay s (g @ h) = (case replay s g of None \<Rightarrow> None | Some t \<Rightarrow> replay t h)"
proof (induction g arbitrary: s)
  case (Cons e g)
  obtain a b where "e = (a, b)" by (cases e)
  with Cons.IH show ?case by (cases a; cases b) auto
qed simp

lemma replay_path:
  "replay s h = Some t \<Longrightarrow>
     path is_valid_transition s (map (the \<circ> snd) h) \<and> t = last (s # map (the \<circ> snd) h)"
  by (induction h arbitrary: s) (auto split: option.splits if_splits)

definition runs_wf :: "db \<Rightarrow> bool" where
  "runs_wf d \<longleftrightarrow>
     distinct (map ru_id (project_runs d)) \<and>
     (\<forall>r\<in>set (project_runs d). ru_id r < db_next_id d \<and>
        replay Created (run_history d (ru_id r)) = Some (ru_status r)) \<and>
     (\<forall>s\<in>set (run_steps d). st_run s < db_next_id d)"

lemma run_history_frame [simp]:
  "run_history (d\<lparr>project_runs := rs\<rparr>) i = run_history d i"
  "run_history (d\<lparr>stop_events := es\<rparr>) i = run_history d i"
  "run_history (d\<lparr>stop_effects := fs\<rparr>) i = run_history d i"
  "run_history (d\<lparr>db_next_id := n\<rparr>) i = run_history d i"
  "run_history (audit_record c a b t p d) i = run_history d i"
  by (simp_all add: run_history_def)

lemma runs_wf_frame [simp]:
  "runs_wf (audit_record c a b t p d) = runs_wf d"
  "runs_wf (d\<lparr>stop_effects := fs\<rparr>) = runs_wf d"
  by (simp_all add: runs_wf_def)

lemma run_get_iff:
  "run_get ctx i d = Some r \<Longrightarrow> r \<in> set (project_runs d) \<and> ru_id r = i \<and> ru_tenant r = ctx_tenant ctx"
  by (auto simp: run_get_def dest: find_Some_mem)

lemma runs_unique:
  "runs_wf d \<Longrightarrow> r \<in> set (project_runs d) \<Longrightarrow> s \<in> set (project_runs d) \<Longrightarrow> ru_id r = ru_id s \<Longrightarrow> r = s"
  by (auto simp: runs_wf_def distinct_map inj_on_def)

text \<open>Moving one run: the status and the step that records it.\<close>

definition move_run ::
  "tenant_context \<Rightarrow> run_row \<Rightarrow> run_status \<Rightarrow> string \<Rightarrow> pydict option \<Rightarrow> db \<Rightarrow> db" where
  "move_run ctx r t event payload d =
     snd (record_step ctx (ru_id r) (ru_project r) event None (Some (ru_status r)) (Some t) payload
            (set_run_status ctx (ru_id r) t d))"

lemma move_run_frame [simp]:
  "stop_events (move_run ctx r t ev pl d) = stop_events d"
  "stop_effects (move_run ctx r t ev pl d) = stop_effects d"
  "projects (move_run ctx r t ev pl d) = projects d"
  "db_next_id (move_run ctx r t ev pl d) = Suc (db_next_id d)"
  "length (audit_log (move_run ctx r t ev pl d)) = length (audit_log d)"
  by (simp_all add: move_run_def record_step_def set_run_status_def Let_def)

lemma foreign_move_run [simp]:
  "foreign (ctx_tenant ctx) (move_run ctx r t ev pl d) = foreign (ctx_tenant ctx) d"
proof -
  have "filter (\<lambda>r. ru_tenant r \<noteq> ctx_tenant ctx) (update_where (\<lambda>x. ru_id x = ru_id r \<and> ru_tenant x = ctx_tenant ctx)
      (\<lambda>r. r\<lparr>ru_status := t\<rparr>) (project_runs d)) = filter (\<lambda>r. ru_tenant r \<noteq> ctx_tenant ctx) (project_runs d)"
    by (rule filter_update_where_disjoint) simp
  then show ?thesis
    by (simp add: move_run_def record_step_def set_run_status_def Let_def)
qed

lemma move_run_rows:
  assumes "runs_wf d" "r \<in> set (project_runs d)" "ru_tenant r = ctx_tenant ctx"
  shows "project_runs (move_run ctx r t ev pl d) =
    map (\<lambda>x. if x = r then r\<lparr>ru_status := t\<rparr> else x) (project_runs d)"
proof -
  have "ru_id x = ru_id r \<and> ru_tenant x = ctx_tenant ctx \<longleftrightarrow> x = r" if "x \<in> set (project_runs d)" for x
    using runs_unique [OF assms(1) that assms(2)] assms(3) by blast
  then show ?thesis
    by (simp add: move_run_def record_step_def set_run_status_def Let_def update_where_def)
qed

lemma move_run_history:
  "run_history (move_run ctx r t ev pl d) i =
     run_history d i @ (if i = ru_id r then [(Some (ru_status r), Some t)] else [])"
  by (simp add: run_history_def move_run_def record_step_def set_run_status_def Let_def)

lemma move_run_wf:
  assumes "runs_wf d" "r \<in> set (project_runs d)" "ru_tenant r = ctx_tenant ctx"
    "is_valid_transition (ru_status r) t"
  shows "runs_wf (move_run ctx r t ev pl d)"
proof -
  note rows = move_run_rows [OF assms(1-3), of t ev pl]
  have ids: "map ru_id (project_runs (move_run ctx r t ev pl d)) = map ru_id (project_runs d)"
    unfolding rows by (simp add: comp_def)
  have steps: "run_steps (move_run ctx r t ev pl d) = run_steps d @
      [\<lparr>st_id = db_next_id d, st_tenant = ctx_tenant ctx, st_project = ru_project r, st_run = ru_id r,
        st_node = None, st_event = ev, st_from = Some (ru_status r), st_to = Some t,
        st_payload = (case pl of None \<Rightarrow> [] | Some p \<Rightarrow> p)\<rparr>]"
    by (simp add: move_run_def record_step_def set_run_status_def Let_def)
  have row: "ru_id x < Suc (db_next_id d) \<and>
      replay Created (run_history (move_run ctx r t ev pl d) (ru_id x)) = Some (ru_status x)"
    if "x \<in> set (project_runs (move_run ctx r t ev pl d))" for x
  proof -
    from that consider "x = r\<lparr>ru_status := t\<rparr>" | "x \<in> set (project_runs d)" "x \<noteq> r"
      unfolding rows by (auto split: if_splits)
    then show ?thesis
    proof cases
      case 1
      with assms show ?thesis
        by (auto simp: move_run_history replay_append runs_wf_def)
    next
      case 2
      with runs_unique [OF assms(1) 2(1) assms(2)] have "ru_id x \<noteq> ru_id r" by blast
      with 2 assms(1) show ?thesis by (auto simp: move_run_history runs_wf_def)
    qed
  qed
  with assms(1,2) ids steps show ?thesis
    by (auto simp: runs_wf_def less_Suc_eq)
qed

lemma run_transition_cases:
  assumes "run_transition ctx i t ev actor pl d = Inr (r', d')"
  obtains r pay where "run_get ctx i d = Some r" "is_valid_transition (ru_status r) t"
    "t = Running \<Longrightarrow> assert_project_not_stopped ctx (ru_project r) d = Inr ()"
    "d' = audit_record ctx (''run.'' @ ev) actor (Some (''run:'' @ uuid_str i)) pay (move_run ctx r t ev pl d)"
    "r' = r\<lparr>ru_status := t\<rparr>"
proof -
  obtain r where r: "run_get ctx i d = Some r" "is_valid_transition (ru_status r) t"
    "t = Running \<Longrightarrow> assert_project_not_stopped ctx (ru_project r) d = Inr ()"
    and d': "d' = audit_record ctx (''run.'' @ ev) actor (Some (''run:'' @ uuid_str i))
      [(''run_id'', PStr (uuid_str i)), (''project_id'', PStr (uuid_str (ru_project r))),
       (''from'', PStr (run_status_value (ru_status r))), (''to'', PStr (run_status_value t))]
      (snd (record_step ctx i (ru_project r) ev None (Some (ru_status r)) (Some t) pl (set_run_status ctx i t d)))"
    and r': "r' = r\<lparr>ru_status := t\<rparr>"
    using assms by (auto simp: run_transition_def run_require_def Let_def split: option.splits if_splits)
  have "ru_id r = i" using run_get_iff [OF r(1)] by simp
  with r d' r' that show thesis by (simp add: move_run_def)
qed

lemma mark_paused_cases:
  assumes "mark_paused_for_emergency ctx i d = Inr (r', d')"
  obtains r a b c pay pl where "run_get ctx i d = Some r" "ru_status r = Running"
    "d' = audit_record ctx a b c pay (move_run ctx r Paused ''emergency_paused'' pl d)"
    "r' = r\<lparr>ru_status := Paused\<rparr>"
proof -
  obtain r where r: "run_get ctx i d = Some r" "ru_status r = Running"
    and rest: "r' = r\<lparr>ru_status := Paused\<rparr>"
      "d' = audit_record ctx ''run.emergency_paused'' ''emergency_control_authority'' (Some ''emergency_runtime_run'')
        [(''project_id'', PStr (uuid_str (ru_project r))), (''from'', PStr ''running''),
         (''to'', PStr ''paused''), (''reason_code'', PStr STOP_REASON)]
        (snd (record_step ctx (ru_id r) (ru_project r) ''emergency_paused'' None
                       (Some Running) (Some Paused) (Some [(''reason_code'', PStr STOP_REASON)])
           (set_run_status ctx i Paused d)))"
    using assms by (auto simp: mark_paused_for_emergency_def run_require_def Let_def pause_only_running
        split: option.splits)
  have "ru_id r = i" using run_get_iff [OF r(1)] by simp
  with r rest that show thesis by (simp add: move_run_def)
qed

lemma mark_paused_total:
  assumes "runs_wf d" "r \<in> set (project_runs d)" "ru_tenant r = ctx_tenant ctx" "ru_status r = Running"
  shows "\<exists>a b c pay pl. mark_paused_for_emergency ctx (ru_id r) d =
    Inr (r\<lparr>ru_status := Paused\<rparr>, audit_record ctx a b c pay (move_run ctx r Paused ''emergency_paused'' pl d))"
proof -
  have "run_get ctx (ru_id r) d = Some r"
    unfolding run_get_def
    by (rule find_unique [where key = ru_id]) (use assms in \<open>auto simp: runs_wf_def\<close>)
  then have "\<exists>x. mark_paused_for_emergency ctx (ru_id r) d = Inr x"
    using assms(4) by (simp add: mark_paused_for_emergency_def run_require_def Let_def)
  then obtain r' d' where m: "mark_paused_for_emergency ctx (ru_id r) d = Inr (r', d')" by auto
  from mark_paused_cases [OF m] \<open>run_get ctx (ru_id r) d = Some r\<close> m show ?thesis
    by (metis option.inject)
qed

lemma latest_step_eq:
  "latest_step ctx run d =
     (let ss = filter (\<lambda>s. st_tenant s = ctx_tenant ctx \<and> st_run s = run) (run_steps d)
      in if ss = [] then None else Some (last ss))"
  by (simp add: latest_step_def Let_def split: list.splits)

lemma latest_step_move_run:
  "\<exists>s. latest_step ctx (ru_id r) (audit_record x a b c pay (move_run ctx r t ev pl d)) = Some s \<and>
     st_to s = Some t \<and> st_event s = ev"
  by (simp add: latest_step_eq move_run_def record_step_def set_run_status_def Let_def)

end
