(* ===== verification/Emergency.thy ===== *)
theory Emergency
  imports Runs
begin

text \<open>
  The project emergency stop (\<open>app/repositories/emergency_controls.py\<close>,
  \<open>app/release/emergency_stop.py\<close>): the authority rules, arming, activating and clearing the
  latch, the boundary a workflow passes before each step, and the run state machine under it.
  Whether a member is still in the recorded approval policy (\<open>_assert_current_member\<close>) is decided by
  the intake and preapproval components; its outcome is an argument here.
\<close>

section \<open>The pure contract\<close>

datatype contract_error = EmergencyControlContractError

primrec latch_state_value :: "latch_state \<Rightarrow> string" where
  "latch_state_value Armed = ''armed''"
| "latch_state_value Active = ''active''"

definition validate_latch_transition :: "string \<Rightarrow> string \<Rightarrow> contract_error + unit" where
  "validate_latch_transition before after =
     check ((before, after) \<in> {(''armed'', ''active''), (''active'', ''armed'')}) EmergencyControlContractError"

definition OPERATIONS :: "string list" where
  "OPERATIONS = [''activate'', ''clear'', ''authorize_rollback'']"

text \<open>\<open>sha256:[0-9a-f]{64}\<close>, matched in full.\<close>

definition is_digest :: "pyval \<Rightarrow> bool" where
  "is_digest v = (case v of
       PStr s \<Rightarrow> take 7 s = ''sha256:'' \<and> length s = 71 \<and> (\<forall>c\<in>set (drop 7 s). c \<in> set hex_digits)
     | _ \<Rightarrow> False)"

definition validate_actor_authority ::
  "string \<Rightarrow> string \<Rightarrow> pyval \<Rightarrow> string \<Rightarrow> pyval \<Rightarrow> pyval \<Rightarrow> contract_error + unit" where
  "validate_actor_authority provenance atype is_member operation activating actor =
     (let err = EmergencyControlContractError in
      bindE (check (operation \<in> set OPERATIONS) err) (\<lambda>_.
      bindE (check (provenance = ''request_authenticated'') err) (\<lambda>_.
      bindE (check (atype = ''human'') err) (\<lambda>_.
      bindE (check (is_member = PBool True) err) (\<lambda>_.
        if operation = ''clear''
        then bindE (check (is_digest activating \<and> is_digest actor) err)
               (\<lambda>_. check (activating \<noteq> actor) err)
        else Inr ())))))"

definition validate_empty_operation_payload :: "pyval \<Rightarrow> contract_error + unit" where
  "validate_empty_operation_payload payload =
     check (is_dict payload \<and> \<not> py_truthy payload) EmergencyControlContractError"

section \<open>The latch operations\<close>

record control_binding =
  cb_id :: uuid
  cb_project :: uuid

record authority_member =
  am_id :: uuid
  am_subject_hash :: string

definition AUTHORITY_PROVENANCE :: string where
  "AUTHORITY_PROVENANCE = ''request_authenticated''"

text \<open>The first event of a project, written when its first binding is appended.\<close>

definition append_anchor ::
  "tenant_context \<Rightarrow> control_binding \<Rightarrow> authority_member \<Rightarrow> string \<Rightarrow> string \<Rightarrow> timestamp \<Rightarrow> db \<Rightarrow> db" where
  "append_anchor ctx binding member atype key clock d =
     (case latest_stop_event ctx (cb_project binding) d of
        Some _ \<Rightarrow> d
      | None \<Rightarrow>
          d\<lparr>stop_events := stop_events d @
              [\<lparr>se_id = db_next_id d, se_tenant = ctx_tenant ctx, se_project = cb_project binding,
                se_binding = cb_id binding, se_previous = None, se_event = ArmedAnchor,
                se_member = am_id member, se_actor_hash = am_subject_hash member,
                se_actor_type = atype, se_actor_prov = AUTHORITY_PROVENANCE,
                se_reason = ''emergency_stop_mechanism_armed'', se_key_hash = key,
                se_created_at = clock\<rparr>],
            db_next_id := db_next_id d + 1\<rparr>)"

definition append_event ::
  "tenant_context \<Rightarrow> control_binding \<Rightarrow> stop_event_row \<Rightarrow> authority_member \<Rightarrow> latch_event \<Rightarrow> string \<Rightarrow> timestamp \<Rightarrow>
     db \<Rightarrow> stop_event_row \<times> db" where
  "append_event ctx binding previous member event key clock d =
     (let e = \<lparr>se_id = db_next_id d, se_tenant = ctx_tenant ctx, se_project = cb_project binding,
               se_binding = cb_id binding, se_previous = Some (se_id previous), se_event = event,
               se_member = am_id member, se_actor_hash = am_subject_hash member,
               se_actor_type = ''human'', se_actor_prov = AUTHORITY_PROVENANCE,
               se_reason = (if event = Activated then ''emergency_stop_activated'' else ''emergency_stop_cleared''),
               se_key_hash = key, se_created_at = clock\<rparr>
      in (e, d\<lparr>stop_events := stop_events d @ [e], db_next_id := db_next_id d + 1\<rparr>))"

definition emergency_audit ::
  "tenant_context \<Rightarrow> string \<Rightarrow> uuid \<Rightarrow> uuid \<Rightarrow> string \<Rightarrow> pydict \<Rightarrow> db \<Rightarrow> db" where
  "emergency_audit ctx action project target result extra d =
     audit_record ctx action ''emergency_control_authority''
       (Some (''emergency_control:'' @ uuid_str target))
       ([(''project_id'', PStr (uuid_str project)), (''operation_code'', PStr action),
         (''result_code'', PStr result)] @ extra) d"

text \<open>What activation does to one live run: the running ones pause, and each leaves an effect row.\<close>

definition stop_run :: "tenant_context \<Rightarrow> uuid \<Rightarrow> uuid \<Rightarrow> run_row \<Rightarrow> db \<Rightarrow> run_error + db" where
  "stop_run ctx project event run d =
     bindE (if ru_status run = Running
            then bindE (mark_paused_for_emergency ctx (ru_id run) d) (\<lambda>(_, d1).
                   case latest_step ctx (ru_id run) d1 of
                     None \<Rightarrow> Inl RunNotFound
                   | Some s \<Rightarrow> Inr (''paused'', Paused, Some (st_id s), d1))
            else Inr (if ru_status run = Created then (''not_started'', ru_status run, None, d)
                      else if ru_status run = Paused then (''already_paused'', ru_status run, None, d)
                      else (''already_blocked'', ru_status run, None, d)))
       (\<lambda>(code, after, step, d1).
          Inr (d1\<lparr>stop_effects := stop_effects d1 @
                 [\<lparr>sf_tenant = ctx_tenant ctx, sf_project = project, sf_event = event, sf_run = ru_id run,
                   sf_step = step, sf_before = ru_status run, sf_after = after, sf_code = code\<rparr>]\<rparr>))"

fun stop_runs :: "tenant_context \<Rightarrow> uuid \<Rightarrow> uuid \<Rightarrow> run_row list \<Rightarrow> db \<Rightarrow> run_error + db" where
  "stop_runs ctx project event [] d = Inr d"
| "stop_runs ctx project event (r # rs) d =
     bindE (stop_run ctx project event r d) (stop_runs ctx project event rs)"

definition live_runs :: "tenant_context \<Rightarrow> uuid \<Rightarrow> db \<Rightarrow> run_row list" where
  "live_runs ctx project d =
     sort_key ru_id (filter (\<lambda>r. ru_tenant r = ctx_tenant ctx \<and> ru_project r = project \<and>
       ru_status r \<in> {Created, Running, Paused, Blocked}) (project_runs d))"

definition activate ::
  "tenant_context \<Rightarrow> control_binding \<Rightarrow> authority_member \<Rightarrow> bool \<Rightarrow> string \<Rightarrow> timestamp \<Rightarrow> db \<Rightarrow>
     run_error + (stop_event_row \<times> nat \<times> db)" where
  "activate ctx binding member member_current key clock d =
     bindE (lock_project_row ctx (cb_project binding) d) (\<lambda>_.
     bindE (check member_current (EmergencyUnavailable ''emergency_authority_membership_unavailable'')) (\<lambda>_.
       case latest_stop_event ctx (cb_project binding) d of
         None \<Rightarrow> Inl (EmergencyUnavailable ''emergency_stop_unavailable'')
       | Some head \<Rightarrow>
           if state_after (se_event head) \<noteq> Armed
           then Inl (EmergencyUnavailable ''emergency_stop_unavailable'')
           else let (e, d1) = append_event ctx binding head member Activated key clock d;
                    runs = live_runs ctx (cb_project binding) d1
                in bindE (stop_runs ctx (cb_project binding) (se_id e) runs d1) (\<lambda>d2.
                     Inr (e, length runs,
                       emergency_audit ctx ''emergency_stop.activated'' (cb_project binding) (se_id e)
                         ''local_runtime_stop_activated''
                         [(''affected_run_count'', PInt (int (length runs)))] d2))))"

definition clear ::
  "tenant_context \<Rightarrow> control_binding \<Rightarrow> authority_member \<Rightarrow> bool \<Rightarrow> string \<Rightarrow> timestamp \<Rightarrow> db \<Rightarrow>
     run_error + (stop_event_row \<times> db)" where
  "clear ctx binding member member_current key clock d =
     bindE (lock_project_row ctx (cb_project binding) d) (\<lambda>_.
     bindE (check member_current (EmergencyUnavailable ''emergency_authority_membership_unavailable'')) (\<lambda>_.
       case latest_stop_event ctx (cb_project binding) d of
         None \<Rightarrow> Inl (EmergencyUnavailable ''emergency_stop_unavailable'')
       | Some head \<Rightarrow>
           if state_after (se_event head) \<noteq> Active
           then Inl (EmergencyUnavailable ''emergency_stop_unavailable'')
           else if se_actor_hash head = am_subject_hash member
           then Inl (EmergencyUnavailable ''distinct_clear_authority_required'')
           else let (e, d1) = append_event ctx binding head member Cleared key clock d
                in Inr (e, emergency_audit ctx ''emergency_stop.cleared'' (cb_project binding) (se_id e)
                     ''local_runtime_stop_cleared'' [(''automatic_resume'', PBool False)] d1)))"

text \<open>
  The step boundary.  It pauses the caller's run before it raises, and the run loop may catch the
  exception inside the transaction, so the outcome keeps the database: \<open>StopRaised\<close> is the raised
  \<open>EmergencyStopActive\<close>.
\<close>

datatype boundary = BoundaryPassed | StopRaised

definition enforce_boundary ::
  "tenant_context \<Rightarrow> uuid \<Rightarrow> uuid option \<Rightarrow> db \<Rightarrow> run_error + (boundary \<times> db)" where
  "enforce_boundary ctx project run_id d =
     bindE (lock_project_row ctx project d) (\<lambda>_.
       case latest_stop_event ctx project d of
         None \<Rightarrow> Inr (BoundaryPassed, d)
       | Some head \<Rightarrow>
           if state_after (se_event head) \<noteq> Active then Inr (BoundaryPassed, d)
           else case run_id of
             None \<Rightarrow> Inr (StopRaised, d)
           | Some i \<Rightarrow>
               (case List.find (\<lambda>r. ru_tenant r = ctx_tenant ctx \<and> ru_project r = project \<and> ru_id r = i)
                       (project_runs d) of
                  None \<Rightarrow> Inr (StopRaised, d)
                | Some run \<Rightarrow>
                    if ru_status run = Running
                    then bindE (mark_paused_for_emergency ctx (ru_id run) d) (\<lambda>(_, d1). Inr (StopRaised, d1))
                    else Inr (StopRaised, d)))"

section \<open>Lemmas: the latch\<close>

definition project_events :: "uuid \<Rightarrow> uuid \<Rightarrow> db \<Rightarrow> stop_event_row list" where
  "project_events t p d = filter (\<lambda>e. se_tenant e = t \<and> se_project e = p) (stop_events d)"

definition latch_active :: "uuid \<Rightarrow> uuid \<Rightarrow> db \<Rightarrow> bool" where
  "latch_active t p d \<longleftrightarrow>
     project_events t p d \<noteq> [] \<and> state_after (se_event (last (project_events t p d))) = Active"

text \<open>
  A project's events, newest first: anchored, then activations and clearings in alternation, each
  clearing by a subject other than the one that activated.
\<close>

fun latch_history :: "stop_event_row list \<Rightarrow> bool" where
  "latch_history [] = True"
| "latch_history [e] = (se_event e = ArmedAnchor)"
| "latch_history (e # p # es) =
     ((case se_event e of
         ArmedAnchor \<Rightarrow> False
       | Activated \<Rightarrow> state_after (se_event p) = Armed
       | Cleared \<Rightarrow> state_after (se_event p) = Active \<and> se_actor_hash e \<noteq> se_actor_hash p) \<and>
      latch_history (p # es))"

definition latch_wf :: "db \<Rightarrow> bool" where
  "latch_wf d \<longleftrightarrow>
     sorted_wrt (<) (map se_created_at (stop_events d)) \<and>
     (\<forall>t p. latch_history (rev (project_events t p d)))"

lemma latest_by_sorted:
  "sorted_wrt (\<lambda>a b. key a < key b) rs \<Longrightarrow> latest_by key rs = (if rs = [] then None else Some (last rs))"
proof (induction rs rule: rev_induct)
  case (snoc r rs)
  then show ?case by (auto simp: latest_by_snoc sorted_wrt_append)
qed simp

lemma latest_stop_event_last:
  assumes "latch_wf d"
  shows "latest_stop_event ctx p d =
    (let es = project_events (ctx_tenant ctx) p d in if es = [] then None else Some (last es))"
proof -
  have "sorted_wrt (\<lambda>a b. se_created_at a < se_created_at b) (stop_events d)"
    using assms by (simp add: latch_wf_def sorted_wrt_map)
  then have "sorted_wrt (\<lambda>a b. se_created_at a < se_created_at b) (project_events (ctx_tenant ctx) p d)"
    unfolding project_events_def by (rule sorted_wrt_filter)
  then have "sorted_wrt (\<lambda>a b. (se_created_at a, se_id a) < (se_created_at b, se_id b))
      (project_events (ctx_tenant ctx) p d)"
    by (rule sorted_wrt_mono_rel [rotated]) (simp add: less_prod_def)
  from latest_by_sorted [OF this] show ?thesis
    by (simp add: latest_stop_event_def project_events_def Let_def)
qed

lemma latest_stop_event_active:
  "latch_wf d \<Longrightarrow>
     (\<exists>head. latest_stop_event ctx p d = Some head \<and> state_after (se_event head) = Active) \<longleftrightarrow>
     latch_active (ctx_tenant ctx) p d"
  by (simp add: latest_stop_event_last latch_active_def Let_def)

lemma latch_frame [simp]:
  "project_events t p (audit_record c a b g pl d) = project_events t p d"
  "project_events t p (move_run ctx r s ev pl' d) = project_events t p d"
  "project_events t p (d\<lparr>stop_effects := fs\<rparr>) = project_events t p d"
  "latch_wf (audit_record c a b g pl d) = latch_wf d"
  "latch_wf (move_run ctx r s ev pl' d) = latch_wf d"
  "latch_wf (d\<lparr>stop_effects := fs\<rparr>) = latch_wf d"
  "latch_active t p (audit_record c a b g pl d) = latch_active t p d"
  "latch_active t p (move_run ctx r s ev pl' d) = latch_active t p d"
  "latch_active t p (d\<lparr>stop_effects := fs\<rparr>) = latch_active t p d"
  by (simp_all add: project_events_def latch_wf_def latch_active_def)

text \<open>Appending an event with a fresh clock reading.\<close>

definition add_event :: "stop_event_row \<Rightarrow> db \<Rightarrow> db" where
  "add_event e d = d\<lparr>stop_events := stop_events d @ [e], db_next_id := db_next_id d + 1\<rparr>"

lemma project_events_add_event:
  "project_events t p (add_event e d) =
     project_events t p d @ (if se_tenant e = t \<and> se_project e = p then [e] else [])"
  by (simp add: project_events_def add_event_def)

lemma add_event_frame [simp]:
  "project_runs (add_event e d) = project_runs d"
  "run_steps (add_event e d) = run_steps d"
  "stop_effects (add_event e d) = stop_effects d"
  "stop_events (add_event e d) = stop_events d @ [e]"
  "projects (add_event e d) = projects d"
  "se_tenant e = t \<Longrightarrow> foreign t (add_event e d) = foreign t d"
  by (simp_all add: add_event_def)

lemma runs_wf_add_event: "runs_wf d \<Longrightarrow> runs_wf (add_event e d)"
  by (auto simp: runs_wf_def add_event_def less_Suc_eq)

lemma latch_wf_add_event:
  assumes "latch_wf d" "\<forall>x\<in>set (stop_events d). se_created_at x < se_created_at e"
    "latch_history (e # rev (project_events (se_tenant e) (se_project e) d))"
  shows "latch_wf (add_event e d)"
  using assms by (auto simp: latch_wf_def project_events_add_event sorted_wrt_append)

section \<open>Lemmas: pausing the live runs\<close>

definition pause_in :: "run_row list \<Rightarrow> run_row \<Rightarrow> run_row" where
  "pause_in rs x = (if x \<in> set rs \<and> ru_status x = Running then x\<lparr>ru_status := Paused\<rparr> else x)"

text \<open>What stays the same while runs are paused.\<close>

definition same_outside :: "uuid \<Rightarrow> db \<Rightarrow> db \<Rightarrow> bool" where
  "same_outside t d d' \<longleftrightarrow>
     stop_events d' = stop_events d \<and> projects d' = projects d \<and> foreign t d' = foreign t d"

lemma same_outside_trans: "same_outside t d d' \<Longrightarrow> same_outside t d' d'' \<Longrightarrow> same_outside t d d''"
  by (simp add: same_outside_def)

lemma same_outside_latch:
  "same_outside t d d' \<Longrightarrow> latch_wf d' = latch_wf d \<and> latch_active u p d' = latch_active u p d \<and>
     project_events u p d' = project_events u p d"
  by (simp add: same_outside_def latch_wf_def latch_active_def project_events_def)

lemma stop_run_ok:
  assumes "runs_wf d" "r \<in> set (project_runs d)" "ru_tenant r = ctx_tenant ctx"
  shows "\<exists>d1. stop_run ctx p e r d = Inr d1 \<and> project_runs d1 = map (pause_in [r]) (project_runs d) \<and>
    runs_wf d1 \<and> same_outside (ctx_tenant ctx) d d1 \<and>
    map sf_run (stop_effects d1) = map sf_run (stop_effects d) @ [ru_id r]"
proof (cases "ru_status r = Running")
  case True
  obtain a b c pay pl where m: "mark_paused_for_emergency ctx (ru_id r) d =
      Inr (r\<lparr>ru_status := Paused\<rparr>, audit_record ctx a b c pay (move_run ctx r Paused ''emergency_paused'' pl d))"
    using mark_paused_total [OF assms True] by blast
  let ?d1 = "audit_record ctx a b c pay (move_run ctx r Paused ''emergency_paused'' pl d)"
  obtain s where s: "latest_step ctx (ru_id r) ?d1 = Some s"
    using latest_step_move_run by blast
  have rows: "project_runs ?d1 = map (pause_in [r]) (project_runs d)"
    using move_run_rows [OF assms] True by (auto simp: pause_in_def)
  have wf: "runs_wf ?d1"
    using move_run_wf [OF assms, of Paused] True by simp
  show ?thesis
    using True m s rows wf by (simp add: stop_run_def same_outside_def)
next
  case False
  then have "map (pause_in [r]) (project_runs d) = project_runs d"
    by (intro map_idI) (auto simp: pause_in_def)
  with False assms(1) show ?thesis
    by (simp add: stop_run_def same_outside_def)
qed

lemma pause_in_fields [simp]:
  "ru_id (pause_in rs x) = ru_id x" "ru_tenant (pause_in rs x) = ru_tenant x"
  "ru_project (pause_in rs x) = ru_project x"
  by (simp_all add: pause_in_def)

lemma stop_runs_ok:
  assumes "runs_wf d" "set rs \<subseteq> set (project_runs d)" "\<forall>r\<in>set rs. ru_tenant r = ctx_tenant ctx"
    "distinct (map ru_id rs)"
  shows "\<exists>d1. stop_runs ctx p e rs d = Inr d1 \<and> project_runs d1 = map (pause_in rs) (project_runs d) \<and>
    runs_wf d1 \<and> same_outside (ctx_tenant ctx) d d1 \<and>
    map sf_run (stop_effects d1) = map sf_run (stop_effects d) @ map ru_id rs"
  using assms
proof (induction rs arbitrary: d)
  case Nil
  have "map (pause_in []) (project_runs d) = project_runs d"
    by (intro map_idI) (simp add: pause_in_def)
  with Nil show ?case by (simp add: same_outside_def)
next
  case (Cons r rs)
  obtain d1 where d1: "stop_run ctx p e r d = Inr d1" "project_runs d1 = map (pause_in [r]) (project_runs d)"
    "runs_wf d1" "same_outside (ctx_tenant ctx) d d1"
    "map sf_run (stop_effects d1) = map sf_run (stop_effects d) @ [ru_id r]"
    using stop_run_ok [OF Cons.prems(1)] Cons.prems(2,3) by force
  have keep: "pause_in [r] x = x" if "x \<in> set rs" for x
    using that Cons.prems(4) by (auto simp: pause_in_def)
  have "set rs \<subseteq> set (project_runs d1)"
  proof
    fix x
    assume "x \<in> set rs"
    with keep Cons.prems(2) show "x \<in> set (project_runs d1)"
      unfolding d1(2) set_map by (metis image_eqI list.set_intros(2) subsetD)
  qed
  then obtain d2 where d2: "stop_runs ctx p e rs d1 = Inr d2" "project_runs d2 = map (pause_in rs) (project_runs d1)"
    "runs_wf d2" "same_outside (ctx_tenant ctx) d1 d2"
    "map sf_run (stop_effects d2) = map sf_run (stop_effects d1) @ map ru_id rs"
    using Cons.IH [OF d1(3)] Cons.prems(3,4) by auto
  have "pause_in rs (pause_in [r] x) = pause_in (r # rs) x" for x
    by (auto simp: pause_in_def)
  then have "project_runs d2 = map (pause_in (r # rs)) (project_runs d)"
    using d1(2) d2(2) by simp
  with d1 d2 same_outside_trans [OF d1(4) d2(4)] show ?case by simp
qed

lemma live_runs_facts:
  "set (live_runs ctx p d) = {r \<in> set (project_runs d). ru_tenant r = ctx_tenant ctx \<and> ru_project r = p \<and>
     ru_status r \<notin> {Completed, Failed}}"
  by (auto simp: live_runs_def intro: run_status.exhaust)

lemma live_runs_distinct:
  assumes "runs_wf d"
  shows "distinct (map ru_id (live_runs ctx p d))"
proof -
  have "distinct (map ru_id (filter P (project_runs d)))" for P
    using assms by (simp add: runs_wf_def distinct_map_filter)
  then show ?thesis
    by (simp add: live_runs_def distinct_map)
qed

section \<open>The runtime and its invariant\<close>

definition halted :: "db \<Rightarrow> bool" where
  "halted d \<longleftrightarrow> (\<forall>r\<in>set (project_runs d). ru_status r = Running \<longrightarrow> \<not> latch_active (ru_tenant r) (ru_project r) d)"

definition runtime_wf :: "db \<Rightarrow> bool" where
  "runtime_wf d \<longleftrightarrow> runs_wf d \<and> latch_wf d \<and> halted d"

text \<open>\<open>clock_timestamp()\<close> read after every stored event.\<close>

definition fresh_clock :: "timestamp \<Rightarrow> db \<Rightarrow> bool" where
  "fresh_clock clock d \<longleftrightarrow> (\<forall>e\<in>set (stop_events d). se_created_at e < clock)"

inductive runtime_step :: "db \<Rightarrow> db \<Rightarrow> bool" where
  rt_add: "run_add ctx p d = (r, d') \<Longrightarrow> runtime_step d d'"
| rt_transition: "run_transition ctx i t ev actor pl d = Inr (r, d') \<Longrightarrow> runtime_step d d'"
| rt_pause: "mark_paused_for_emergency ctx i d = Inr (r, d') \<Longrightarrow> runtime_step d d'"
| rt_note: "run_get ctx i d = Some r \<Longrightarrow> record_step ctx i p ev node None None pl d = (s, d') \<Longrightarrow>
    runtime_step d d'"
| rt_arm: "fresh_clock clock d \<Longrightarrow> append_anchor ctx b m atype key clock d = d' \<Longrightarrow> runtime_step d d'"
| rt_activate: "fresh_clock clock d \<Longrightarrow> activate ctx b m cur key clock d = Inr (e, n, d') \<Longrightarrow> runtime_step d d'"
| rt_clear: "fresh_clock clock d \<Longrightarrow> clear ctx b m cur key clock d = Inr (e, d') \<Longrightarrow> runtime_step d d'"
| rt_boundary: "enforce_boundary ctx p i d = Inr (o', d') \<Longrightarrow> runtime_step d d'"

inductive runtime_reachable :: "db \<Rightarrow> bool" where
  rt_init: "project_runs d = [] \<Longrightarrow> run_steps d = [] \<Longrightarrow> stop_events d = [] \<Longrightarrow> runtime_reachable d"
| rt_step: "runtime_reachable d \<Longrightarrow> runtime_step d d' \<Longrightarrow> runtime_reachable d'"

inductive_cases runtime_stepE: "runtime_step d d'"

lemma move_run_runtime_wf:
  assumes "runtime_wf d" "run_get ctx i d = Some r" "is_valid_transition (ru_status r) t"
    "t = Running \<Longrightarrow> \<not> latch_active (ctx_tenant ctx) (ru_project r) d"
  shows "runtime_wf (audit_record x a b c pay (move_run ctx r t ev pl d))"
proof -
  from run_get_iff [OF assms(2)] have r: "r \<in> set (project_runs d)" "ru_tenant r = ctx_tenant ctx"
    by simp_all
  have wf: "runs_wf d" "latch_wf d" "halted d"
    using assms(1) by (simp_all add: runtime_wf_def)
  have "halted (move_run ctx r t ev pl d)"
    using wf(3) assms(4) r by (auto simp: halted_def move_run_rows [OF wf(1) r])
  with wf move_run_wf [OF wf(1) r assms(3)] show ?thesis
    by (simp add: runtime_wf_def halted_def)
qed

lemma assert_not_stopped_latch:
  "latch_wf d \<Longrightarrow> assert_project_not_stopped ctx p d = Inr () \<Longrightarrow> \<not> latch_active (ctx_tenant ctx) p d"
  using latest_stop_event_active [of d ctx p]
  by (auto simp: assert_project_not_stopped_def split: option.splits)

lemma pause_runtime_wf:
  assumes "runtime_wf d" "mark_paused_for_emergency ctx i d = Inr (r', d')"
  shows "runtime_wf d'"
proof -
  obtain r a b c pay pl where "run_get ctx i d = Some r" "ru_status r = Running"
    "d' = audit_record ctx a b c pay (move_run ctx r Paused ''emergency_paused'' pl d)"
    using mark_paused_cases [OF assms(2)] by metis
  then show ?thesis using move_run_runtime_wf [OF assms(1), of ctx i r Paused] by simp
qed

text \<open>Appending an event after which the project is armed, or stopped with no run running.\<close>

lemma add_event_runtime_wf:
  assumes "runtime_wf d" "fresh_clock (se_created_at e) d"
    "latch_history (e # rev (project_events (se_tenant e) (se_project e) d))"
    "state_after (se_event e) = Armed"
  shows "runtime_wf (add_event e d)"
proof -
  have wf: "runs_wf d" "latch_wf d" "halted d"
    using assms(1) by (simp_all add: runtime_wf_def)
  have "latch_wf (add_event e d)"
    using latch_wf_add_event [OF wf(2) _ assms(3)] assms(2) by (simp add: fresh_clock_def)
  moreover have "halted (add_event e d)"
    using wf(3) assms(4) by (auto simp: halted_def latch_active_def project_events_add_event)
  ultimately show ?thesis
    using runs_wf_add_event [OF wf(1)] by (simp add: runtime_wf_def)
qed

lemma rev_last: "xs \<noteq> [] \<Longrightarrow> rev xs = last xs # rev (butlast xs)"
  by (induction xs rule: rev_induct) simp_all

lemma latest_head:
  assumes "latch_wf d" "latest_stop_event ctx p d = Some head"
  obtains es where "rev (project_events (ctx_tenant ctx) p d) = head # es" "latch_history (head # es)"
proof -
  have "project_events (ctx_tenant ctx) p d \<noteq> []" "head = last (project_events (ctx_tenant ctx) p d)"
    using assms latest_stop_event_last [OF assms(1)] by (auto simp: Let_def split: if_splits)
  then have "rev (project_events (ctx_tenant ctx) p d) = head # rev (butlast (project_events (ctx_tenant ctx) p d))"
    using rev_last by metis
  moreover have "latch_history (rev (project_events (ctx_tenant ctx) p d))"
    using assms(1) by (simp add: latch_wf_def)
  ultimately show thesis using that by metis
qed

lemma activate_cases:
  assumes "activate ctx b m cur key clock d = Inr (e, n, d')" "runtime_wf d" "fresh_clock clock d"
  obtains d2 x where
    "d' = emergency_audit ctx ''emergency_stop.activated'' (cb_project b) (se_id e) ''local_runtime_stop_activated'' x d2"
    "se_event e = Activated" "se_tenant e = ctx_tenant ctx" "se_project e = cb_project b" "se_created_at e = clock"
    "runs_wf d2" "same_outside (ctx_tenant ctx) (add_event e d) d2" "latch_wf (add_event e d)"
    "project_runs d2 = map (pause_in (live_runs ctx (cb_project b) d)) (project_runs d)"
    "map sf_run (stop_effects d2) = map sf_run (stop_effects d) @ map ru_id (live_runs ctx (cb_project b) d)"
    "n = length (live_runs ctx (cb_project b) d)"
proof -
  have wf: "runs_wf d" "latch_wf d" using assms(2) by (simp_all add: runtime_wf_def)
  obtain head where head: "latest_stop_event ctx (cb_project b) d = Some head"
    "state_after (se_event head) = Armed"
    and run: "(let (e, d1) = append_event ctx b head m Activated key clock d; runs = live_runs ctx (cb_project b) d1
                in bindE (stop_runs ctx (cb_project b) (se_id e) runs d1) (\<lambda>d2.
                     Inr (e, length runs, emergency_audit ctx ''emergency_stop.activated'' (cb_project b) (se_id e)
                         ''local_runtime_stop_activated''
                         [(''affected_run_count'', PInt (int (length runs)))] d2))) = Inr (e, n, d')"
    using assms(1) by (auto simp: activate_def split: option.splits if_splits)
  define e0 where "e0 = fst (append_event ctx b head m Activated key clock d)"
  have ap: "append_event ctx b head m Activated key clock d = (e0, add_event e0 d)"
    by (simp add: e0_def append_event_def add_event_def Let_def)
  have e0: "se_event e0 = Activated" "se_tenant e0 = ctx_tenant ctx" "se_project e0 = cb_project b"
    "se_created_at e0 = clock"
    by (simp_all add: e0_def append_event_def Let_def)
  have live: "live_runs ctx (cb_project b) (add_event e0 d) = live_runs ctx (cb_project b) d"
    by (simp add: live_runs_def)
  obtain es where es: "rev (project_events (ctx_tenant ctx) (cb_project b) d) = head # es" "latch_history (head # es)"
    using latest_head [OF wf(2) head(1)] by blast
  have lw: "latch_wf (add_event e0 d)"
    using latch_wf_add_event [OF wf(2), of e0] assms(3) es head(2) e0 by (simp add: fresh_clock_def)
  have rw: "runs_wf (add_event e0 d)" by (rule runs_wf_add_event [OF wf(1)])
  have sub: "set (live_runs ctx (cb_project b) d) \<subseteq> set (project_runs (add_event e0 d))"
    and ten: "\<forall>r\<in>set (live_runs ctx (cb_project b) d). ru_tenant r = ctx_tenant ctx"
    by (auto simp: live_runs_facts)
  obtain d2 where d2: "stop_runs ctx (cb_project b) (se_id e0) (live_runs ctx (cb_project b) d) (add_event e0 d) = Inr d2"
    "project_runs d2 = map (pause_in (live_runs ctx (cb_project b) d)) (project_runs (add_event e0 d))"
    "runs_wf d2" "same_outside (ctx_tenant ctx) (add_event e0 d) d2"
    "map sf_run (stop_effects d2) = map sf_run (stop_effects (add_event e0 d)) @ map ru_id (live_runs ctx (cb_project b) d)"
    using stop_runs_ok [OF rw sub ten live_runs_distinct [OF wf(1)]] by blast
  from run d2(1) have res: "e = e0" "n = length (live_runs ctx (cb_project b) d)"
    "d' = emergency_audit ctx ''emergency_stop.activated'' (cb_project b) (se_id e0) ''local_runtime_stop_activated''
       [(''affected_run_count'', PInt (int (length (live_runs ctx (cb_project b) d))))] d2"
    by (auto simp: ap live Let_def)
  show thesis
    by (rule that [OF res(3) [folded res(1)]]) (use e0 d2 lw res in simp_all)
qed

lemma latch_active_add_event:
  "latch_active t p (add_event e d) \<longleftrightarrow>
     (if se_tenant e = t \<and> se_project e = p then state_after (se_event e) = Active else latch_active t p d)"
  by (auto simp: latch_active_def project_events_add_event)

lemma emergency_audit_frame [simp]:
  "runtime_wf (emergency_audit ctx a p g r x d) = runtime_wf d"
  "runs_wf (emergency_audit ctx a p g r x d) = runs_wf d"
  "halted (emergency_audit ctx a p g r x d) = halted d"
  "latch_wf (emergency_audit ctx a p g r x d) = latch_wf d"
  "latch_active t q (emergency_audit ctx a p g r x d) = latch_active t q d"
  "project_events t q (emergency_audit ctx a p g r x d) = project_events t q d"
  "project_runs (emergency_audit ctx a p g r x d) = project_runs d"
  "stop_effects (emergency_audit ctx a p g r x d) = stop_effects d"
  "projects (emergency_audit ctx a p g r x d) = projects d"
  "foreign (ctx_tenant ctx) (emergency_audit ctx a p g r x d) = foreign (ctx_tenant ctx) d"
  by (simp_all add: emergency_audit_def runtime_wf_def halted_def)

lemma paused_not_running:
  assumes "x \<in> set (map (pause_in (live_runs ctx p d)) (project_runs d))" "ru_tenant x = ctx_tenant ctx"
    "ru_project x = p"
  shows "ru_status x \<noteq> Running"
proof -
  from assms obtain y where y: "y \<in> set (project_runs d)" "x = pause_in (live_runs ctx p d) y" by auto
  with assms(2,3) have own: "ru_tenant y = ctx_tenant ctx" "ru_project y = p" by simp_all
  show ?thesis
  proof (cases "ru_status y = Running")
    case True
    with y(1) own have "y \<in> set (live_runs ctx p d)" by (simp add: live_runs_facts)
    with True y(2) show ?thesis by (simp add: pause_in_def)
  next
    case False
    with y(2) show ?thesis by (simp add: pause_in_def)
  qed
qed

lemma activate_runtime_wf:
  assumes "activate ctx b m cur key clock d = Inr (e, n, d')" "runtime_wf d" "fresh_clock clock d"
  shows "runtime_wf d'"
proof -
  obtain d2 x where
    d': "d' = emergency_audit ctx ''emergency_stop.activated'' (cb_project b) (se_id e) ''local_runtime_stop_activated'' x d2"
    and e: "se_event e = Activated" "se_tenant e = ctx_tenant ctx" "se_project e = cb_project b"
    and wf: "runs_wf d2" "same_outside (ctx_tenant ctx) (add_event e d) d2" "latch_wf (add_event e d)"
    and rows: "project_runs d2 = map (pause_in (live_runs ctx (cb_project b) d)) (project_runs d)"
    using activate_cases [OF assms] by metis
  note latch = same_outside_latch [OF wf(2)]
  have "halted d2"
    unfolding halted_def
  proof (intro ballI impI)
    fix r
    assume r: "r \<in> set (project_runs d2)" "ru_status r = Running"
    then obtain y where y: "y \<in> set (project_runs d)" "r = pause_in (live_runs ctx (cb_project b) d) y"
      unfolding rows by auto
    with r(2) have "ru_status y = Running" by (simp add: pause_in_def split: if_splits)
    with y assms(2) have "\<not> latch_active (ru_tenant r) (ru_project r) d"
      by (simp add: runtime_wf_def halted_def)
    moreover have "\<not> (ru_tenant r = ctx_tenant ctx \<and> ru_project r = cb_project b)"
      using paused_not_running r unfolding rows by blast
    ultimately show "\<not> latch_active (ru_tenant r) (ru_project r) d2"
      using e latch by (auto simp: latch_active_add_event)
  qed
  with wf latch show ?thesis by (simp add: d' runtime_wf_def)
qed

lemma clear_cases:
  assumes "clear ctx b m cur key clock d = Inr (e, d')"
  obtains head x where "latest_stop_event ctx (cb_project b) d = Some head" "state_after (se_event head) = Active"
    "se_actor_hash head \<noteq> se_actor_hash e" "se_event e = Cleared" "se_tenant e = ctx_tenant ctx"
    "se_project e = cb_project b" "se_created_at e = clock"
    "d' = emergency_audit ctx ''emergency_stop.cleared'' (cb_project b) (se_id e) ''local_runtime_stop_cleared'' x
       (add_event e d)"
  using assms
  by (auto simp: clear_def append_event_def add_event_def Let_def split: option.splits if_splits)

lemma clear_runtime_wf:
  assumes "clear ctx b m cur key clock d = Inr (e, d')" "runtime_wf d" "fresh_clock clock d"
  shows "runtime_wf d'"
  using assms(1)
proof (rule clear_cases)
  fix head x
  assume head: "latest_stop_event ctx (cb_project b) d = Some head" "state_after (se_event head) = Active"
    "se_actor_hash head \<noteq> se_actor_hash e"
    and e: "se_event e = Cleared" "se_tenant e = ctx_tenant ctx" "se_project e = cb_project b" "se_created_at e = clock"
    and d': "d' = emergency_audit ctx ''emergency_stop.cleared'' (cb_project b) (se_id e) ''local_runtime_stop_cleared'' x
       (add_event e d)"
  obtain es where es: "rev (project_events (ctx_tenant ctx) (cb_project b) d) = head # es" "latch_history (head # es)"
    using latest_head [OF _ head(1)] assms(2) by (auto simp: runtime_wf_def)
  have "runtime_wf (add_event e d)"
    by (rule add_event_runtime_wf [OF assms(2)]) (use e es head assms(3) in simp_all)
  then show ?thesis by (simp add: d')
qed

lemma arm_runtime_wf:
  assumes "runtime_wf d" "fresh_clock clock d"
  shows "runtime_wf (append_anchor ctx b m atype key clock d)"
proof (cases "latest_stop_event ctx (cb_project b) d")
  case None
  then have none: "project_events (ctx_tenant ctx) (cb_project b) d = []"
    using assms(1) latest_stop_event_last [of d ctx "cb_project b"]
    by (auto simp: runtime_wf_def Let_def split: if_splits)
  define e where "e = \<lparr>se_id = db_next_id d, se_tenant = ctx_tenant ctx, se_project = cb_project b,
                se_binding = cb_id b, se_previous = None, se_event = ArmedAnchor,
                se_member = am_id m, se_actor_hash = am_subject_hash m,
                se_actor_type = atype, se_actor_prov = AUTHORITY_PROVENANCE,
                se_reason = ''emergency_stop_mechanism_armed'', se_key_hash = key, se_created_at = clock\<rparr>"
  have "append_anchor ctx b m atype key clock d = add_event e d"
    using None by (simp add: append_anchor_def add_event_def e_def)
  moreover have "runtime_wf (add_event e d)"
    by (rule add_event_runtime_wf [OF assms(1)]) (use assms(2) none in \<open>simp_all add: e_def\<close>)
  ultimately show ?thesis by simp
qed (use assms in \<open>simp add: append_anchor_def\<close>)

lemma boundary_runtime_wf:
  assumes "enforce_boundary ctx p i d = Inr (o', d')" "runtime_wf d"
  shows "runtime_wf d'"
proof -
  from assms(1) have "d' = d \<or> (\<exists>j r. mark_paused_for_emergency ctx j d = Inr (r, d'))"
    by (auto simp: enforce_boundary_def split: option.splits if_splits)
  then show ?thesis using assms(2) pause_runtime_wf by blast
qed

lemma runtime_step_wf: "runtime_step d d' \<Longrightarrow> runtime_wf d \<Longrightarrow> runtime_wf d'"
proof (induction rule: runtime_step.induct)
  case (rt_add ctx p d r d')
  then have d': "d' = d\<lparr>project_runs := project_runs d @ [r], db_next_id := db_next_id d + 1\<rparr>"
    and r: "ru_id r = db_next_id d" "ru_status r = Created"
    by (auto simp: run_add_def Let_def)
  have "run_history d (db_next_id d) = []"
    using rt_add(2) by (auto simp: runtime_wf_def runs_wf_def run_history_def filter_empty_conv)
  with rt_add(2) r show ?case
    by (auto simp: d' runtime_wf_def runs_wf_def latch_wf_def halted_def latch_active_def project_events_def less_Suc_eq)
next
  case (rt_transition ctx i t ev actor pl d r d')
  from rt_transition(1) show ?case
  proof (rule run_transition_cases)
    fix x pay
    assume x: "run_get ctx i d = Some x" "is_valid_transition (ru_status x) t"
      "t = Running \<Longrightarrow> assert_project_not_stopped ctx (ru_project x) d = Inr ()"
      and d': "d' = audit_record ctx (''run.'' @ ev) actor (Some (''run:'' @ uuid_str i)) pay (move_run ctx x t ev pl d)"
    have "\<not> latch_active (ctx_tenant ctx) (ru_project x) d" if "t = Running"
      using assert_not_stopped_latch x(3) that rt_transition(2) by (auto simp: runtime_wf_def)
    then show ?thesis
      unfolding d' using move_run_runtime_wf [OF rt_transition(2) x(1,2)] by blast
  qed
next
  case (rt_note ctx i d r p ev node pl s d')
  then have "i < db_next_id d"
    using run_get_iff by (fastforce simp: runtime_wf_def runs_wf_def)
  with rt_note show ?case
    by (auto simp: record_step_def Let_def runtime_wf_def runs_wf_def latch_wf_def halted_def latch_active_def
        project_events_def less_Suc_eq run_history_def)
qed (auto intro: pause_runtime_wf arm_runtime_wf activate_runtime_wf clear_runtime_wf boundary_runtime_wf)

lemma runtime_reachable_wf: "runtime_reachable d \<Longrightarrow> runtime_wf d"
proof (induction rule: runtime_reachable.induct)
  case (rt_init d)
  then show ?case
    by (simp add: runtime_wf_def runs_wf_def latch_wf_def halted_def project_events_def)
qed (blast intro: runtime_step_wf)

section \<open>Properties\<close>

text \<open>
  The instance the witnesses share: a project of tenant 7 with one running run, armed by one member
  and stopped by another.
\<close>

definition example_rt_ctx :: tenant_context where
  "example_rt_ctx = \<lparr>ctx_tenant = 7, ctx_actor = None\<rparr>"

definition example_rt_db :: db where
  "example_rt_db = empty_db\<lparr>projects := [\<lparr>pr_id = 3, pr_tenant = 7\<rparr>]\<rparr>"

definition example_binding :: control_binding where
  "example_binding = \<lparr>cb_id = 50, cb_project = 3\<rparr>"

definition member_a :: authority_member where
  "member_a = \<lparr>am_id = 51, am_subject_hash = ''a''\<rparr>"

lemma example_fields [simp]:
  "cb_project example_binding = 3" "ctx_tenant example_rt_ctx = 7"
  by (simp_all add: example_binding_def example_rt_ctx_def)

lemma example_runtime:
  "\<exists>d0 r d1 d2 e d3. runtime_reachable d2 \<and> fresh_clock 20 d2 \<and>
     run_add example_rt_ctx 3 example_rt_db = (r, d0) \<and>
     mark_running example_rt_ctx (ru_id r) ''op'' d0 = Inr (r\<lparr>ru_status := Running\<rparr>, d1) \<and>
     d2 = append_anchor example_rt_ctx example_binding member_a ''human'' ''k'' 10 d1 \<and>
     activate example_rt_ctx example_binding member_a True ''k2'' 20 d2 = Inr (e, 1, d3) \<and>
     r\<lparr>ru_status := Running\<rparr> \<in> set (project_runs d2)"
proof -
  define r where "r = \<lparr>ru_id = 100, ru_tenant = 7, ru_project = 3, ru_status = Created\<rparr>"
  define d0 where "d0 = example_rt_db\<lparr>project_runs := [r], db_next_id := 101\<rparr>"
  have add: "run_add example_rt_ctx 3 example_rt_db = (r, d0)"
    by (simp add: run_add_def example_rt_ctx_def example_rt_db_def empty_db_def r_def d0_def Let_def)
  have get: "run_get example_rt_ctx 100 d0 = Some r"
    by (simp add: run_get_def d0_def r_def example_rt_ctx_def)
  have free: "assert_project_not_stopped example_rt_ctx 3 d0 = Inr ()"
    by (simp add: assert_project_not_stopped_def lock_project_row_def latest_stop_event_def d0_def
        example_rt_db_def empty_db_def example_rt_ctx_def)
  obtain pay where "mark_running example_rt_ctx 100 ''op'' d0 = Inr (r\<lparr>ru_status := Running\<rparr>,
      audit_record example_rt_ctx ''run.run_started'' ''op'' (Some (''run:'' @ uuid_str 100)) pay
        (move_run example_rt_ctx r Running ''run_started'' None d0))"
    using get free by (simp add: mark_running_def run_transition_def run_require_def r_def Let_def move_run_def)
  then obtain a b c d1 where run: "mark_running example_rt_ctx 100 ''op'' d0 = Inr (r\<lparr>ru_status := Running\<rparr>, d1)"
    and d1: "d1 = audit_record example_rt_ctx a b c pay (move_run example_rt_ctx r Running ''run_started'' None d0)"
    by blast
  have reach0: "runtime_reachable d0"
    by (rule rt_step [OF rt_init rt_add [OF add]]) (simp_all add: example_rt_db_def empty_db_def)
  have wf0: "runs_wf d0" using runtime_reachable_wf [OF reach0] by (simp add: runtime_wf_def)
  have reach1: "runtime_reachable d1"
    by (rule rt_step [OF reach0 rt_transition]) (rule run [unfolded mark_running_def])
  have ev1: "stop_events d1 = []" "projects d1 = [\<lparr>pr_id = 3, pr_tenant = 7\<rparr>]"
    by (simp_all add: d1 d0_def example_rt_db_def empty_db_def)
  have rows1: "project_runs d1 = [r\<lparr>ru_status := Running\<rparr>]"
    using move_run_rows [OF wf0, of r example_rt_ctx] by (simp add: d1 d0_def r_def example_rt_ctx_def)
  define d2 where "d2 = append_anchor example_rt_ctx example_binding member_a ''human'' ''k'' 10 d1"
  have reach2: "runtime_reachable d2"
    by (rule rt_step [OF reach1 rt_arm [of 10]]) (simp_all add: fresh_clock_def ev1 d2_def)
  have anchor: "\<exists>h. stop_events d2 = [h] \<and> se_tenant h = 7 \<and> se_project h = 3 \<and> se_event h = ArmedAnchor \<and>
      se_created_at h = 10" and same: "project_runs d2 = project_runs d1" "projects d2 = projects d1"
    by (simp_all add: d2_def append_anchor_def latest_stop_event_def ev1 example_rt_ctx_def example_binding_def)
  then obtain h where h: "stop_events d2 = [h]" "se_tenant h = 7" "se_project h = 3" "se_event h = ArmedAnchor"
    "se_created_at h = 10" by blast
  have fresh: "fresh_clock 20 d2" using h by (simp add: fresh_clock_def)
  have "\<exists>e n d3. activate example_rt_ctx example_binding member_a True ''k2'' 20 d2 = Inr (e, n, d3) \<and> n = 1"
  proof -
    define e where "e = fst (append_event example_rt_ctx example_binding h member_a Activated ''k2'' 20 d2)"
    have ap: "append_event example_rt_ctx example_binding h member_a Activated ''k2'' 20 d2 = (e, add_event e d2)"
      by (simp add: e_def append_event_def add_event_def Let_def)
    have live: "live_runs example_rt_ctx 3 (add_event e d2) = [r\<lparr>ru_status := Running\<rparr>]"
      by (simp add: live_runs_def same rows1 r_def example_rt_ctx_def)
    have wf2: "runs_wf (add_event e d2)"
      using runs_wf_add_event runtime_reachable_wf [OF reach2] by (simp add: runtime_wf_def)
    obtain d3 where "stop_runs example_rt_ctx 3 (se_id e) [r\<lparr>ru_status := Running\<rparr>] (add_event e d2) = Inr d3"
      using stop_runs_ok [OF wf2, of "[r\<lparr>ru_status := Running\<rparr>]" example_rt_ctx 3 "se_id e"]
      by (auto simp: same rows1 r_def example_rt_ctx_def)
    then show ?thesis
      by (simp add: activate_def lock_project_row_def same ev1 latest_stop_event_def h ap live Let_def)
  qed
  then obtain e d3 where "activate example_rt_ctx example_binding member_a True ''k2'' 20 d2 = Inr (e, 1, d3)" by blast
  with add run reach2 fresh d2_def same rows1 show ?thesis
    by (intro exI [of _ d0] exI [of _ r] exI [of _ d1] exI [of _ d2] exI [of _ e] exI [of _ d3])
      (simp add: r_def)
qed

text \<open>C13: While the emergency latch of a project is active, none of its runs is running: in every
  database the runtime can reach, whatever starts, resumes, stops, clears and boundary checks of
  whatever tenants came before.\<close>

theorem no_run_while_stopped:
  assumes "runtime_reachable d" "latest_stop_event ctx project d = Some head"
    "state_after (se_event head) = Active" "run \<in> set (list_for_project ctx project d)"
  shows "ru_status run \<noteq> Running"
proof
  assume running: "ru_status run = Running"
  have wf: "latch_wf d" "halted d"
    using runtime_reachable_wf [OF assms(1)] by (simp_all add: runtime_wf_def)
  have "latch_active (ctx_tenant ctx) project d"
    using latest_stop_event_active [OF wf(1)] assms(2,3) by blast
  with wf(2) running assms(4) show False
    by (auto simp: list_for_project_def halted_def)
qed

text \<open>The step history explains the status: in every reachable database, replaying a run's
  recorded status changes from \<open>created\<close> through the transition table succeeds, each step starts where
  the one before ended, and the end is the run's current status; a finished run's history ended there.\<close>

theorem steps_replay_to_status:
  assumes "runtime_reachable d" "run \<in> set (project_runs d)"
  shows "replay Created (run_history d (ru_id run)) = Some (ru_status run) \<and>
    (\<forall>t\<in>set (butlast (Created # map (the \<circ> snd) (run_history d (ru_id run)))). t \<notin> {Completed, Failed})"
proof -
  have r: "replay Created (run_history d (ru_id run)) = Some (ru_status run)"
    using runtime_reachable_wf [OF assms(1)] assms(2) by (simp add: runtime_wf_def runs_wf_def)
  then have "path is_valid_transition Created (map (the \<circ> snd) (run_history d (ru_id run)))"
    using replay_path by blast
  with r show ?thesis
    using run_status.terminal_only_last by blast
qed

text \<open>C14: Stopping and resuming takes two: in every reachable database each project's stop events are
  an anchor followed by activations and clearings in strict alternation, and every clearing was
  made under a subject other than the one that activated the stop it clears.\<close>

theorem clearing_needs_second_member:
  assumes "runtime_reachable d"
  shows "latch_history (rev (project_events tenant project d))"
  using runtime_reachable_wf [OF assms] by (simp add: runtime_wf_def latch_wf_def)

text \<open>Activation stops the project: exactly its running runs become paused, every other run of the
  database keeps its status, each live run of the project gets one effect row, and from then on every
  attempt to start or resume a run of the project is refused.\<close>

theorem activation_stops_project:
  assumes "runtime_reachable d" "fresh_clock clock d"
    "activate ctx binding member current key clock d = Inr (e, n, d')"
  shows "project_runs d' = map (\<lambda>r. if ru_tenant r = ctx_tenant ctx \<and> ru_project r = cb_project binding \<and>
             ru_status r = Running then r\<lparr>ru_status := Paused\<rparr> else r) (project_runs d) \<and>
    map sf_run (stop_effects d') = map sf_run (stop_effects d) @ map ru_id (live_runs ctx (cb_project binding) d) \<and>
    (\<forall>run\<in>set (list_for_project ctx (cb_project binding) d').
       mark_running ctx (ru_id run) actor d' = Inl EmergencyStopActive \<and>
       mark_resumed ctx (ru_id run) actor payload d' = Inl EmergencyStopActive)"
proof -
  have wf: "runtime_wf d" using assms(1) by (rule runtime_reachable_wf)
  obtain d2 x where
    d': "d' = emergency_audit ctx ''emergency_stop.activated'' (cb_project binding) (se_id e) ''local_runtime_stop_activated'' x d2"
    and e: "se_event e = Activated" "se_tenant e = ctx_tenant ctx" "se_project e = cb_project binding"
    and out: "same_outside (ctx_tenant ctx) (add_event e d) d2" "latch_wf (add_event e d)"
    and rows: "project_runs d2 = map (pause_in (live_runs ctx (cb_project binding) d)) (project_runs d)"
    and eff: "map sf_run (stop_effects d2) = map sf_run (stop_effects d) @ map ru_id (live_runs ctx (cb_project binding) d)"
    using activate_cases [OF assms(3) wf assms(2)] by metis
  have rows': "project_runs d' = map (\<lambda>r. if ru_tenant r = ctx_tenant ctx \<and> ru_project r = cb_project binding \<and>
      ru_status r = Running then r\<lparr>ru_status := Paused\<rparr> else r) (project_runs d)"
    unfolding d' emergency_audit_frame rows by (intro map_cong refl) (auto simp: pause_in_def live_runs_facts)
  have lw: "latch_wf d'" and active: "latch_active (ctx_tenant ctx) (cb_project binding) d'"
    using out e same_outside_latch [OF out(1)] by (simp_all add: d' latch_active_add_event)
  have "projects d' = projects d" using out(1) by (simp add: d' same_outside_def)
  then have "\<exists>p. lock_project_row ctx (cb_project binding) d' = Inr p"
    using assms(3) by (auto simp: activate_def lock_project_row_def split: option.splits)
  then have stopped: "assert_project_not_stopped ctx (cb_project binding) d' = Inl EmergencyStopActive"
    using latest_stop_event_active [OF lw, of ctx "cb_project binding"] active
    by (auto simp: assert_project_not_stopped_def check_def)
  have "runs_wf d'"
    using activate_runtime_wf [OF assms(3) wf assms(2)] by (simp add: runtime_wf_def)
  then have "run_get ctx (ru_id run) d' = Some run" if "run \<in> set (list_for_project ctx (cb_project binding) d')" for run
    unfolding run_get_def using that
    by (intro find_unique [where key = ru_id]) (auto simp: runs_wf_def list_for_project_def)
  then have "mark_running ctx (ru_id run) actor d' = Inl EmergencyStopActive \<and>
       mark_resumed ctx (ru_id run) actor payload d' = Inl EmergencyStopActive"
    if "run \<in> set (list_for_project ctx (cb_project binding) d')" for run
    using that stopped
    by (auto simp: mark_running_def mark_resumed_def run_transition_def run_require_def list_for_project_def)
  with rows' eff show ?thesis by (simp add: d')
qed

lemma example_stopped:
  "\<exists>d2 e d3 r. runtime_reachable d2 \<and> runtime_reachable d3 \<and> fresh_clock 20 d2 \<and>
     activate example_rt_ctx example_binding member_a True ''k2'' 20 d2 = Inr (e, 1, d3) \<and>
     r \<in> set (list_for_project example_rt_ctx 3 d3) \<and>
     (\<exists>head. latest_stop_event example_rt_ctx 3 d3 = Some head \<and> state_after (se_event head) = Active)"
proof -
  obtain r d1 d2 e d3 where ex: "runtime_reachable d2" "fresh_clock 20 d2"
    "activate example_rt_ctx example_binding member_a True ''k2'' 20 d2 = Inr (e, 1, d3)"
    "d2 = append_anchor example_rt_ctx example_binding member_a ''human'' ''k'' 10 d1"
    using example_runtime by blast
  have wf: "runtime_wf d2" using ex(1) by (rule runtime_reachable_wf)
  obtain d4 x where
    d3: "d3 = emergency_audit example_rt_ctx ''emergency_stop.activated'' 3 (se_id e) ''local_runtime_stop_activated'' x d4"
    and e: "se_event e = Activated" "se_tenant e = 7" "se_project e = 3"
    and out: "same_outside 7 (add_event e d2) d4" "latch_wf (add_event e d2)"
    and rows: "project_runs d4 = map (pause_in (live_runs example_rt_ctx 3 d2)) (project_runs d2)"
    and n: "length (live_runs example_rt_ctx 3 d2) = 1"
    using activate_cases [OF ex(3) wf ex(2)] by (metis example_fields)
  from n obtain y where "y \<in> set (live_runs example_rt_ctx 3 d2)"
    by (metis list.set_intros(1) length_greater_0_conv less_one list.exhaust)
  then have y: "y \<in> set (project_runs d2)" "ru_tenant y = 7" "ru_project y = 3"
    by (auto simp: live_runs_facts)
  have "pause_in (live_runs example_rt_ctx 3 d2) y \<in> set (list_for_project example_rt_ctx 3 d3)"
    using y rows by (simp add: list_for_project_def d3)
  moreover have "latch_wf d3" "latch_active 7 3 d3"
    using out e same_outside_latch [OF out(1)] by (simp_all add: d3 latch_active_add_event)
  then have "\<exists>head. latest_stop_event example_rt_ctx 3 d3 = Some head \<and> state_after (se_event head) = Active"
    by (simp add: latest_stop_event_active)
  moreover have "runtime_reachable d3"
    by (rule rt_step [OF ex(1) rt_activate [OF ex(2,3)]])
  ultimately show ?thesis using ex by blast
qed

lemma no_run_while_stopped_witness:
  "\<exists>d r. r \<in> set (list_for_project example_rt_ctx 3 d) \<and> ru_status r \<noteq> Running"
  using example_stopped no_run_while_stopped by metis

lemma steps_replay_to_status_witness:
  "\<exists>d r. r \<in> set (project_runs d) \<and> replay Created (run_history d (ru_id r)) = Some (ru_status r)"
proof -
  obtain d r where "runtime_reachable d" "r \<in> set (list_for_project example_rt_ctx 3 d)"
    using example_stopped by blast
  then have "runtime_reachable d" "r \<in> set (project_runs d)" by (simp_all add: list_for_project_def)
  with steps_replay_to_status show ?thesis by blast
qed

lemma clearing_needs_second_member_witness:
  "\<exists>d head. latest_stop_event example_rt_ctx 3 d = Some head \<and> latch_history (rev (project_events 7 3 d))"
  using example_stopped clearing_needs_second_member by metis

lemma activation_stops_project_witness:
  "\<exists>d2 e d3 r. activate example_rt_ctx example_binding member_a True ''k2'' 20 d2 = Inr (e, 1, d3) \<and>
     r \<in> set (list_for_project example_rt_ctx 3 d3) \<and>
     mark_running example_rt_ctx (ru_id r) ''op'' d3 = Inl EmergencyStopActive"
proof -
  obtain d2 e d3 r where ex: "runtime_reachable d2" "fresh_clock 20 d2"
    "activate example_rt_ctx example_binding member_a True ''k2'' 20 d2 = Inr (e, 1, d3)"
    "r \<in> set (list_for_project example_rt_ctx 3 d3)"
    using example_stopped by blast
  from activation_stops_project [OF ex(1-3), of "''op''"] ex(4)
  have "mark_running example_rt_ctx (ru_id r) ''op'' d3 = Inl EmergencyStopActive"
    by (simp add: example_binding_def)
  with ex show ?thesis by blast
qed

end
