(* ===== verification/Intake.thy ===== *)
theory Intake
  imports Store
begin

text \<open>
  The intake categories: the category universe and the validation of a declaration
  (\<open>app/intake/categories.py\<close>), and the repository that declares and revises them
  (\<open>app/repositories/intake_categories.py\<close>).  The intake tables extend the shared store; the
  unique key on tenant, project and category is the error of a second declaration, the composite
  foreign key to the documents is left to the migrations.
\<close>

section \<open>The category universe\<close>

definition SPINE_CATEGORIES :: "string list" where
  "SPINE_CATEGORIES = [''functional_requirements'', ''acceptance_criteria'', ''test_oracles'']"

definition GATED_ENGINE_CATEGORIES :: "string list" where
  "GATED_ENGINE_CATEGORIES = [''autonomy_policy'', ''cost_and_resource_policy'']"

definition DECLARABLE_INTAKE_CATEGORIES :: "string list" where
  "DECLARABLE_INTAKE_CATEGORIES = [
     ''project_manifest'',
     ''product_brief'',
     ''business_objectives'',
     ''scope_and_boundaries'',
     ''users_roles_permissions'',
     ''user_journeys_and_workflows'',
     ''non_functional_requirements'',
     ''domain_pack'',
     ''data_model_and_contracts'',
     ''integrations_and_external_systems'',
     ''existing_assets_and_repositories'',
     ''architecture_and_technology_constraints'',
     ''security_privacy_compliance'',
     ''environments_and_deployment_targets'',
     ''secrets_and_credentials_manifest'',
     ''tool_access_manifest'',
     ''human_approval_policy'',
     ''operations_observability_support'',
     ''go_live_checklist'',
     ''risk_register_and_assurance_requirements'',
     ''prior_decisions_and_architecture_log'',
     ''production_authority'']"

definition CANONICAL_READINESS_CATEGORY_UNIVERSE :: "string list" where
  "CANONICAL_READINESS_CATEGORY_UNIVERSE =
     sort (remdups (SPINE_CATEGORIES @ GATED_ENGINE_CATEGORIES @ DECLARABLE_INTAKE_CATEGORIES))"

definition SECRET_CATEGORY :: string where
  "SECRET_CATEGORY = ''secrets_and_credentials_manifest''"

definition SECRET_DENYLIST_KEYS :: "string list" where
  "SECRET_DENYLIST_KEYS =
     [''value'', ''secret'', ''password'', ''passwd'', ''token'', ''api_key'', ''apikey'',
      ''credential'', ''credentials'', ''private_key'', ''privatekey'']"

definition SECRET_ALLOWED_KEYS :: "string list" where
  "SECRET_ALLOWED_KEYS = [''manager'', ''reference_name'', ''references'']"

definition MAX_REF_LEN :: nat where
  "MAX_REF_LEN = 256"

section \<open>Validation\<close>

datatype intake_error =
    InvalidCategory
  | InvalidCategoryData
  | InvalidProvenance
  | InvalidStatus
  | UnknownDocument
  | DocumentNotAccepted
  | NoDeclaration
  | DuplicateDeclaration
  | MultipleDeclarations

definition validate_declarable_category :: "string \<Rightarrow> intake_error + unit" where
  "validate_declarable_category category =
     check (category \<in> set DECLARABLE_INTAKE_CATEGORIES) InvalidCategory"

definition non_blank :: "string option \<Rightarrow> bool" where
  "non_blank s = (case s of None \<Rightarrow> False | Some t \<Rightarrow> py_strip t \<noteq> [])"

definition validate_source ::
  "uuid option \<Rightarrow> string option \<Rightarrow> string option \<Rightarrow> intake_error + unit" where
  "validate_source source_document_id locator origin =
     (if source_document_id \<noteq> None
      then bindE (check (origin = None) InvalidProvenance) (\<lambda>_.
             check (non_blank locator) InvalidProvenance)
      else bindE (check (locator = None) InvalidProvenance) (\<lambda>_.
             check (non_blank origin) InvalidProvenance))"

text \<open>The loops call the function on the elements of their list, at any depth.\<close>

lemma size_dict_value: "(k, v) \<in> set d \<Longrightarrow> size v < Suc (size_list (size_prod (\<lambda>_. 0) size) d)"
  using size_list_estimation' [of "(k, v)" d "size v" "size_prod (\<lambda>_. 0) size"] by simp

fun reject_secretish_keys :: "pyval \<Rightarrow> intake_error + unit" where
  "reject_secretish_keys (PDict d) =
     for_each (\<lambda>kv. bindE (check (py_lower (fst kv) \<notin> set SECRET_DENYLIST_KEYS) InvalidCategoryData)
       (\<lambda>_. reject_secretish_keys (snd kv))) d"
| "reject_secretish_keys (PList xs) = for_each reject_secretish_keys xs"
| "reject_secretish_keys v = Inr ()"

text \<open>One entry of the secrets manifest.\<close>

definition validate_reference :: "pyval \<Rightarrow> intake_error + unit" where
  "validate_reference entry =
     (case entry of
        PDict e \<Rightarrow>
          bindE (check (set (map fst e) \<subseteq> {''manager'', ''reference_name''}) InvalidCategoryData) (\<lambda>_.
            for_each (\<lambda>v. case v of PStr s \<Rightarrow> check (length s \<le> MAX_REF_LEN) InvalidCategoryData
                                  | _ \<Rightarrow> Inl InvalidCategoryData) (map snd e))
      | _ \<Rightarrow> Inl InvalidCategoryData)"

definition validate_category_data :: "string \<Rightarrow> pyval \<Rightarrow> intake_error + unit" where
  "validate_category_data category data =
     (case data of
        PNone \<Rightarrow> Inr ()
      | PDict d \<Rightarrow>
          bindE (reject_secretish_keys data) (\<lambda>_.
          if category \<noteq> SECRET_CATEGORY then Inr ()
          else bindE (check (set (map fst d) \<subseteq> set SECRET_ALLOWED_KEYS) InvalidCategoryData) (\<lambda>_.
            if dhas d ''references''
            then (case dget d ''references'' of
                    PList refs \<Rightarrow> for_each validate_reference refs
                  | _ \<Rightarrow> Inl InvalidCategoryData)
            else for_each validate_reference [data]))
      | _ \<Rightarrow> Inl InvalidCategoryData)"

section \<open>The intake tables\<close>

record document_row =
  dc_id :: uuid
  dc_tenant :: uuid
  dc_project :: uuid
  dc_status :: string

record artifact_row =
  ar_id :: uuid
  ar_tenant :: uuid
  ar_project :: uuid
  ar_kind :: string
  ar_ref :: string
  ar_title :: string
  ar_parent :: "uuid option"
  ar_classification :: "string option"

record category_row =
  ic_id :: uuid
  ic_tenant :: uuid
  ic_project :: uuid
  ic_category :: string
  ic_status :: string
  ic_summary :: "string option"
  ic_data :: pyval
  ic_document :: "uuid option"
  ic_locator :: "string option"
  ic_origin :: "string option"

record report_row =
  rp_id :: uuid
  rp_tenant :: uuid
  rp_project :: uuid
  rp_level :: string
  rp_staging :: bool
  rp_go_live :: bool
  rp_report :: pydict
  rp_by :: string

record intake_db =
  core :: db
  documents :: "document_row list"
  artifacts :: "artifact_row list"
  intake_categories :: "category_row list"
  readiness_reports :: "report_row list"

definition empty_intake :: intake_db where
  "empty_intake = \<lparr>core = empty_db, documents = [], artifacts = [], intake_categories = [],
     readiness_reports = []\<rparr>"

definition document_get :: "tenant_context \<Rightarrow> uuid \<Rightarrow> intake_db \<Rightarrow> document_row option" where
  "document_get ctx i d = List.find (\<lambda>r. dc_id r = i \<and> dc_tenant r = ctx_tenant ctx) (documents d)"

section \<open>Declaring and revising\<close>

definition VALID_STATUS :: "string list" where
  "VALID_STATUS = [''declared'', ''not_applicable'']"

definition category_validate ::
  "string \<Rightarrow> string \<Rightarrow> pyval \<Rightarrow> uuid option \<Rightarrow> string option \<Rightarrow> string option \<Rightarrow> intake_error + unit" where
  "category_validate category status data doc locator origin =
     bindE (validate_declarable_category category) (\<lambda>_.
     bindE (check (status \<in> set VALID_STATUS) InvalidStatus) (\<lambda>_.
     bindE (validate_category_data category data) (\<lambda>_.
     validate_source doc locator origin)))"

definition check_document ::
  "tenant_context \<Rightarrow> uuid \<Rightarrow> uuid option \<Rightarrow> intake_db \<Rightarrow> intake_error + unit" where
  "check_document ctx project source_document_id d =
     (case source_document_id of
        None \<Rightarrow> Inr ()
      | Some i \<Rightarrow>
          (case document_get ctx i d of
             None \<Rightarrow> Inl UnknownDocument
           | Some doc \<Rightarrow>
               if dc_project doc \<noteq> project then Inl UnknownDocument
               else check (dc_status doc = ''accepted'') DocumentNotAccepted))"

definition category_rows :: "tenant_context \<Rightarrow> uuid \<Rightarrow> string \<Rightarrow> intake_db \<Rightarrow> category_row list" where
  "category_rows ctx project category d =
     filter (\<lambda>r. ic_tenant r = ctx_tenant ctx \<and> ic_project r = project \<and> ic_category r = category)
       (intake_categories d)"

definition get_category ::
  "tenant_context \<Rightarrow> uuid \<Rightarrow> string \<Rightarrow> intake_db \<Rightarrow> intake_error + category_row option" where
  "get_category ctx project category d =
     scalar_one_or_none MultipleDeclarations (category_rows ctx project category d)"

definition list_categories :: "tenant_context \<Rightarrow> uuid \<Rightarrow> intake_db \<Rightarrow> category_row list" where
  "list_categories ctx project d =
     filter (\<lambda>r. ic_tenant r = ctx_tenant ctx \<and> ic_project r = project) (intake_categories d)"

definition category_audit ::
  "tenant_context \<Rightarrow> category_row \<Rightarrow> string \<Rightarrow> string \<Rightarrow> intake_db \<Rightarrow> intake_db" where
  "category_audit ctx r action actor d =
     d\<lparr>core := audit_record ctx action actor (Some (''intake_category:'' @ uuid_str (ic_id r)))
        [(''intake_category_id'', PStr (uuid_str (ic_id r))),
         (''project_id'', PStr (uuid_str (ic_project r))),
         (''category'', PStr (ic_category r)),
         (''status'', PStr (ic_status r)),
         (''has_source_document'', PBool (ic_document r \<noteq> None)),
         (''has_origin'', PBool (ic_origin r \<noteq> None))] (core d)\<rparr>"

text \<open>The arguments of \<open>declare\<close> and \<open>revise\<close>; \<open>data or {}\<close> makes every falsy value the empty dict.\<close>

record category_args =
  cd_category :: string
  cd_actor_name :: string
  cd_status :: "string option"
  cd_summary :: "string option"
  cd_data :: pyval
  cd_document :: "uuid option"
  cd_locator :: "string option"
  cd_origin :: "string option"

definition new_category :: "tenant_context \<Rightarrow> uuid \<Rightarrow> category_args \<Rightarrow> string \<Rightarrow> intake_db \<Rightarrow> category_row" where
  "new_category ctx project q status d =
     \<lparr>ic_id = db_next_id (core d), ic_tenant = ctx_tenant ctx, ic_project = project,
      ic_category = cd_category q, ic_status = status, ic_summary = cd_summary q,
      ic_data = (if py_truthy (cd_data q) then cd_data q else PDict []),
      ic_document = cd_document q, ic_locator = cd_locator q, ic_origin = cd_origin q\<rparr>"

definition declare_category ::
  "tenant_context \<Rightarrow> uuid \<Rightarrow> category_args \<Rightarrow> intake_db \<Rightarrow> intake_error + (category_row \<times> intake_db)" where
  "declare_category ctx project q d =
     (let status = (case cd_status q of None \<Rightarrow> ''declared'' | Some s \<Rightarrow> s);
          rec = new_category ctx project q status d in
      bindE (category_validate (cd_category q) status (cd_data q) (cd_document q) (cd_locator q)
               (cd_origin q)) (\<lambda>_.
      bindE (check_document ctx project (cd_document q) d) (\<lambda>_.
      bindE (check (category_rows ctx project (cd_category q) d = []) DuplicateDeclaration) (\<lambda>_.
      Inr (rec, category_audit ctx rec ''intake.category_declared'' (cd_actor_name q)
        (d\<lparr>intake_categories := intake_categories d @ [rec],
           core := (core d)\<lparr>db_next_id := db_next_id (core d) + 1\<rparr>\<rparr>))))))"

definition revised_row :: "category_row \<Rightarrow> category_args \<Rightarrow> category_row" where
  "revised_row r q =
     r\<lparr>ic_status := (case cd_status q of None \<Rightarrow> ic_status r | Some s \<Rightarrow> s),
       ic_summary := (case cd_summary q of None \<Rightarrow> ic_summary r | Some s \<Rightarrow> Some s),
       ic_data := (if cd_data q \<noteq> PNone then cd_data q else ic_data r),
       ic_document := (if cd_document q \<noteq> None \<or> cd_origin q \<noteq> None then cd_document q else ic_document r),
       ic_locator := (if cd_document q \<noteq> None \<or> cd_origin q \<noteq> None then cd_locator q else ic_locator r),
       ic_origin := (if cd_document q \<noteq> None \<or> cd_origin q \<noteq> None then cd_origin q else ic_origin r)\<rparr>"

definition revise_category ::
  "tenant_context \<Rightarrow> uuid \<Rightarrow> category_args \<Rightarrow> intake_db \<Rightarrow> intake_error + (category_row \<times> intake_db)" where
  "revise_category ctx project q d =
     bindE (get_category ctx project (cd_category q) d) (\<lambda>found.
       case found of
         None \<Rightarrow> Inl NoDeclaration
       | Some r \<Rightarrow>
           let r' = revised_row r q in
           bindE (category_validate (cd_category q) (ic_status r') (cd_data q) (ic_document r')
                    (ic_locator r') (ic_origin r')) (\<lambda>_.
           bindE (check_document ctx project (cd_document q) d) (\<lambda>_.
           Inr (r', category_audit ctx r' ''intake.category_revised'' (cd_actor_name q)
             (d\<lparr>intake_categories :=
                  update_where (\<lambda>x. ic_id x = ic_id r) (\<lambda>_. r') (intake_categories d)\<rparr>)))))"

section \<open>What a stored declaration satisfies\<close>

text \<open>Every key of a value, at any depth the scan looks at.\<close>

fun deep_keys :: "pyval \<Rightarrow> string list" where
  "deep_keys (PDict d) = concat (map (\<lambda>kv. fst kv # deep_keys (snd kv)) d)"
| "deep_keys (PList xs) = concat (map deep_keys xs)"
| "deep_keys v = []"

lemma reject_secretish_keys_iff:
  "reject_secretish_keys v = Inr () \<longleftrightarrow>
     (\<forall>k\<in>set (deep_keys v). py_lower k \<notin> set SECRET_DENYLIST_KEYS)"
  by (induction v rule: reject_secretish_keys.induct) fastforce+

definition one_source :: "uuid option \<Rightarrow> string option \<Rightarrow> string option \<Rightarrow> bool" where
  "one_source doc locator origin =
     ((doc \<noteq> None \<and> non_blank locator \<and> origin = None) \<noteq>
      (doc = None \<and> locator = None \<and> non_blank origin))"

lemma validate_source_iff: "validate_source doc locator origin = Inr () \<longleftrightarrow> one_source doc locator origin"
  by (auto simp: validate_source_def one_source_def)

definition secret_free :: "string \<Rightarrow> pyval \<Rightarrow> bool" where
  "secret_free category v =
     ((\<forall>k\<in>set (deep_keys v). py_lower k \<notin> set SECRET_DENYLIST_KEYS) \<and>
      (category = SECRET_CATEGORY \<longrightarrow>
         (case v of PDict d \<Rightarrow> set (map fst d) \<subseteq> set SECRET_ALLOWED_KEYS | _ \<Rightarrow> False)))"

lemma validate_category_data_secret_free:
  assumes "validate_category_data category v = Inr ()" "v \<noteq> PNone"
  shows "is_dict v \<and> secret_free category v"
proof -
  obtain d where v: "v = PDict d" and r: "reject_secretish_keys v = Inr ()"
    and s: "category = SECRET_CATEGORY \<Longrightarrow> set (map fst d) \<subseteq> set SECRET_ALLOWED_KEYS"
    using assms by (cases v) (auto simp: validate_category_data_def split: if_splits)
  with r [unfolded reject_secretish_keys_iff] show ?thesis by (simp add: secret_free_def)
qed

definition well_declared :: "category_row \<Rightarrow> bool" where
  "well_declared r =
     (ic_category r \<in> set DECLARABLE_INTAKE_CATEGORIES \<and> ic_status r \<in> set VALID_STATUS \<and>
      one_source (ic_document r) (ic_locator r) (ic_origin r) \<and>
      is_dict (ic_data r) \<and> secret_free (ic_category r) (ic_data r))"

lemma category_validate_iff:
  "category_validate category status data doc locator origin = Inr () \<longleftrightarrow>
     category \<in> set DECLARABLE_INTAKE_CATEGORIES \<and> status \<in> set VALID_STATUS \<and>
     validate_category_data category data = Inr () \<and> one_source doc locator origin"
  by (simp add: category_validate_def validate_declarable_category_def validate_source_iff)

definition category_key :: "category_row \<Rightarrow> uuid \<times> uuid \<times> string" where
  "category_key r = (ic_tenant r, ic_project r, ic_category r)"

text \<open>
  The category table over its life: declared to, revised, and left alone by everything else (ids
  handed out elsewhere only grow the counter).
\<close>

inductive intake_reachable :: "intake_db \<Rightarrow> bool" where
  start: "intake_categories d = [] \<Longrightarrow> intake_reachable d"
| declared: "intake_reachable d \<Longrightarrow> declare_category ctx project q d = Inr (r, d') \<Longrightarrow> intake_reachable d'"
| revised: "intake_reachable d \<Longrightarrow> revise_category ctx project q d = Inr (r, d') \<Longrightarrow> intake_reachable d'"
| elsewhere: "intake_reachable d \<Longrightarrow> intake_categories d' = intake_categories d \<Longrightarrow>
    db_next_id (core d) \<le> db_next_id (core d') \<Longrightarrow> intake_reachable d'"

definition category_table :: "intake_db \<Rightarrow> bool" where
  "category_table d =
     ((\<forall>r\<in>set (intake_categories d). well_declared r \<and> ic_id r < db_next_id (core d)) \<and>
      distinct (map category_key (intake_categories d)) \<and> distinct (map ic_id (intake_categories d)))"

lemma category_audit_frame [simp]:
  "intake_categories (category_audit ctx r a b d) = intake_categories d"
  "db_next_id (core (category_audit ctx r a b d)) = db_next_id (core d)"
  by (simp_all add: category_audit_def)

lemma new_category_well_declared:
  assumes "category_validate (cd_category q) status (cd_data q) (cd_document q) (cd_locator q) (cd_origin q) = Inr ()"
  shows "well_declared (new_category ctx project q status d)"
proof -
  let ?v = "if py_truthy (cd_data q) then cd_data q else PDict []"
  have "is_dict ?v \<and> secret_free (cd_category q) ?v"
  proof (cases "py_truthy (cd_data q)")
    case True
    then have "cd_data q \<noteq> PNone" by auto
    moreover have "validate_category_data (cd_category q) (cd_data q) = Inr ()"
      using assms by (simp add: category_validate_iff)
    ultimately show ?thesis
      using True validate_category_data_secret_free by simp
  qed (simp add: secret_free_def)
  with assms show ?thesis
    by (simp add: well_declared_def new_category_def category_validate_iff)
qed

lemma declare_category_table:
  assumes "category_table d" "declare_category ctx project q d = Inr (r, d')"
  shows "category_table d'"
proof -
  define status where "status = (case cd_status q of None \<Rightarrow> ''declared'' | Some s \<Rightarrow> s)"
  define r0 where "r0 = new_category ctx project q status d"
  have v: "category_validate (cd_category q) status (cd_data q) (cd_document q) (cd_locator q) (cd_origin q) = Inr ()"
    and fresh: "category_rows ctx project (cd_category q) d = []"
    and d': "intake_categories d' = intake_categories d @ [r0]"
    and n: "db_next_id (core d') = db_next_id (core d) + 1"
    using assms(2) by (auto simp: declare_category_def Let_def status_def r0_def)
  have "well_declared r0" unfolding r0_def by (rule new_category_well_declared [OF v])
  moreover have "category_key r0 = (ctx_tenant ctx, project, cd_category q)" "ic_id r0 = db_next_id (core d)"
    by (simp_all add: r0_def category_key_def new_category_def)
  moreover have "(ctx_tenant ctx, project, cd_category q) \<notin> category_key ` set (intake_categories d)"
    using fresh by (auto simp: category_rows_def filter_empty_conv category_key_def)
  ultimately show ?thesis
    using assms(1) d' n by (fastforce simp: category_table_def)
qed

lemma revised_row_keeps [simp]:
  "ic_id (revised_row r q) = ic_id r" "category_key (revised_row r q) = category_key r"
  "ic_category (revised_row r q) = ic_category r"
  by (simp_all add: revised_row_def category_key_def)

lemma revised_row_well_declared:
  assumes "well_declared r" "ic_category r = cd_category q"
    and "category_validate (cd_category q) (ic_status (revised_row r q)) (cd_data q)
           (ic_document (revised_row r q)) (ic_locator (revised_row r q)) (ic_origin (revised_row r q)) = Inr ()"
  shows "well_declared (revised_row r q)"
proof -
  have "is_dict (ic_data (revised_row r q)) \<and> secret_free (cd_category q) (ic_data (revised_row r q))"
  proof (cases "cd_data q = PNone")
    case True
    then show ?thesis using assms(1,2) by (simp add: revised_row_def well_declared_def)
  next
    case False
    then have "ic_data (revised_row r q) = cd_data q" by (simp add: revised_row_def)
    moreover have "validate_category_data (cd_category q) (cd_data q) = Inr ()"
      using assms(3) by (simp add: category_validate_iff)
    ultimately show ?thesis
      using False validate_category_data_secret_free by simp
  qed
  with assms(2,3) show ?thesis
    by (simp add: well_declared_def category_validate_iff)
qed

lemma revise_category_table:
  assumes "category_table d" "revise_category ctx project q d = Inr (r', d')"
  shows "category_table d'"
proof -
  obtain r where g: "get_category ctx project (cd_category q) d = Inr (Some r)"
    and v: "category_validate (cd_category q) (ic_status (revised_row r q)) (cd_data q)
           (ic_document (revised_row r q)) (ic_locator (revised_row r q)) (ic_origin (revised_row r q)) = Inr ()"
    and d': "intake_categories d' =
      update_where (\<lambda>x. ic_id x = ic_id r) (\<lambda>_. revised_row r q) (intake_categories d)"
    and n: "db_next_id (core d') = db_next_id (core d)"
    using assms(2) by (auto simp: revise_category_def Let_def split: option.splits)
  from g have "r \<in> set (category_rows ctx project (cd_category q) d)"
    by (simp add: get_category_def scalar_one_or_none_iff)
  then have r: "r \<in> set (intake_categories d)" "ic_category r = cd_category q"
    by (simp_all add: category_rows_def)
  have w: "well_declared (revised_row r q)"
    using assms(1) r v by (intro revised_row_well_declared) (auto simp: category_table_def)
  have same: "x = r" if "x \<in> set (intake_categories d)" "ic_id x = ic_id r" for x
    using assms(1) r(1) that by (auto simp: category_table_def distinct_map dest: inj_onD)
  have "map ic_id (intake_categories d') = map ic_id (intake_categories d)"
    unfolding d' by (rule map_update_where) simp
  moreover have "map category_key (intake_categories d') = map category_key (intake_categories d)"
    unfolding d' update_where_def using same by (auto simp: map_eq_conv)
  moreover have "\<forall>x\<in>set (intake_categories d'). well_declared x \<and> ic_id x < db_next_id (core d')"
    using assms(1) w r(1) unfolding d' n by (auto simp: update_where_def category_table_def)
  ultimately show ?thesis
    using assms(1) by (simp only: category_table_def)
qed

lemma reachable_category_table: "intake_reachable d \<Longrightarrow> category_table d"
proof (induction rule: intake_reachable.induct)
  case (elsewhere d d')
  then show ?case by (fastforce simp: category_table_def)
qed (simp add: category_table_def, (erule (1) declare_category_table revise_category_table)+)

definition example_intake_ctx :: tenant_context where
  "example_intake_ctx = \<lparr>ctx_tenant = 7, ctx_actor = None\<rparr>"

definition example_declaration :: category_args where
  "example_declaration = \<lparr>cd_category = SECRET_CATEGORY, cd_actor_name = ''ann'', cd_status = None,
     cd_summary = None, cd_data = PDict [(''references'', PList [PDict [(''manager'', PStr ''vault'')]])],
     cd_document = None, cd_locator = None, cd_origin = Some ''workshop''\<rparr>"

lemma example_declaration_stored:
  "\<exists>r d. declare_category example_intake_ctx 3 example_declaration empty_intake = Inr (r, d) \<and>
     r \<in> set (intake_categories d)"
  by (simp add: declare_category_def Let_def example_declaration_def empty_intake_def category_validate_iff
      validate_category_data_def SECRET_CATEGORY_def DECLARABLE_INTAKE_CATEGORIES_def VALID_STATUS_def
      SECRET_DENYLIST_KEYS_def SECRET_ALLOWED_KEYS_def validate_reference_def MAX_REF_LEN_def
      one_source_def non_blank_def check_document_def category_rows_def py_lower_def lower_char_def
      py_strip_def py_space_def category_audit_def)

text \<open>In every reachable store each declared category is one of the 22 declarable ones with a
  known status and exactly one source (a document with a locator, or an origin), its data is an
  object without a credential-looking key at any depth, the secrets manifest holds only reference
  keys, and a project declares a category at most once.\<close>

theorem declared_categories_stay_valid:
  assumes "intake_reachable d"
  shows "(\<forall>r\<in>set (intake_categories d). well_declared r) \<and>
         distinct (map category_key (intake_categories d))"
  using reachable_category_table [OF assms] by (simp add: category_table_def)

lemma declared_categories_stay_valid_witness:
  "\<exists>r d. declare_category example_intake_ctx 3 example_declaration empty_intake = Inr (r, d) \<and>
     well_declared r \<and> distinct (map category_key (intake_categories d))"
proof -
  obtain r d where d: "declare_category example_intake_ctx 3 example_declaration empty_intake = Inr (r, d)"
    "r \<in> set (intake_categories d)"
    using example_declaration_stored by blast
  have "intake_reachable empty_intake" by (rule start) (simp add: empty_intake_def)
  then have "intake_reachable d" using d(1) by (rule declared)
  from declared_categories_stay_valid [OF this] d show ?thesis by blast
qed

text \<open>
  The length and type checks of the secrets manifest look at \<open>references\<close> when it is there, and
  then not at a top-level \<open>manager\<close> or \<open>reference_name\<close>: any value passes.
\<close>

lemma top_level_manager_unchecked:
  assumes "reject_secretish_keys v = Inr ()"
  shows "validate_category_data SECRET_CATEGORY (PDict [(''references'', PList []), (''manager'', v)]) = Inr ()"
    and "v = PInt 3 \<Longrightarrow> validate_category_data SECRET_CATEGORY (PDict [(''manager'', v)]) = Inl InvalidCategoryData"
  using assms by (simp_all add: validate_category_data_def SECRET_DENYLIST_KEYS_def SECRET_ALLOWED_KEYS_def
      py_lower_def lower_char_def validate_reference_def)

end
