(* ===== verification/Readiness.thy ===== *)
theory Readiness
  imports Intake Policy Cost "HOL-Library.Multiset"
begin

text \<open>
  The build-readiness auditor (\<open>app/intake/readiness.py\<close>), the gap and contradiction detector
  (\<open>app/intake/findings.py\<close>) and the readiness repository (\<open>app/repositories/readiness.py\<close>).  Both
  auditors read the same view of the intake spine; the detector's view lacks the title.
\<close>

section \<open>The views of the spine\<close>

record structural_view =
  sv_id :: uuid
  sv_kind :: string
  sv_ref :: string
  sv_parent :: "uuid option"
  sv_classification :: "string option"

record artifact_view = structural_view +
  av_title :: string

record declaration_view =
  dv_category :: string
  dv_status :: string

text \<open>\<open>{a.id: a for a in artifacts}\<close>: the last artifact with an id wins.\<close>

definition by_id :: "'a structural_view_scheme list \<Rightarrow> uuid \<Rightarrow> 'a structural_view_scheme option" where
  "by_id arts i = List.find (\<lambda>a. sv_id a = i) (rev arts)"

definition parent_of ::
  "'a structural_view_scheme list \<Rightarrow> 'a structural_view_scheme \<Rightarrow> 'a structural_view_scheme option" where
  "parent_of arts a = (case sv_parent a of None \<Rightarrow> None | Some i \<Rightarrow> by_id arts i)"

definition of_kind :: "string \<Rightarrow> 'a structural_view_scheme list \<Rightarrow> 'a structural_view_scheme list" where
  "of_kind k arts = filter (\<lambda>a. sv_kind a = k) arts"

abbreviation requirements where "requirements \<equiv> of_kind ''requirement''"
abbreviation acceptance where "acceptance \<equiv> of_kind ''acceptance_criterion''"
abbreviation oracles where "oracles \<equiv> of_kind ''test_oracle''"
abbreviation assumptions where "assumptions \<equiv> of_kind ''assumption''"

definition parent_kind_is :: "'a structural_view_scheme list \<Rightarrow> string \<Rightarrow> 'a structural_view_scheme \<Rightarrow> bool" where
  "parent_kind_is arts k a = (case parent_of arts a of None \<Rightarrow> False | Some p \<Rightarrow> sv_kind p = k)"

definition valid_ac :: "'a structural_view_scheme list \<Rightarrow> 'a structural_view_scheme list" where
  "valid_ac arts = filter (parent_kind_is arts ''requirement'') (acceptance arts)"

definition covered_req_ids :: "'a structural_view_scheme list \<Rightarrow> uuid option list" where
  "covered_req_ids arts = map sv_parent (valid_ac arts)"

definition valid_oracle :: "'a structural_view_scheme list \<Rightarrow> 'a structural_view_scheme list" where
  "valid_oracle arts = filter (parent_kind_is arts ''acceptance_criterion'') (oracles arts)"

definition ac_with_oracle :: "'a structural_view_scheme list \<Rightarrow> uuid option list" where
  "ac_with_oracle arts = map sv_parent (valid_oracle arts)"

section \<open>The spine gaps\<close>

record spine_gap =
  sg_kind :: string
  sg_ref :: string
  sg_summary :: string

definition requirement_gaps :: "'a structural_view_scheme list \<Rightarrow> spine_gap list" where
  "requirement_gaps arts =
     map (\<lambda>r. \<lparr>sg_kind = ''requirement_without_acceptance_criterion'', sg_ref = sv_ref r,
               sg_summary = ''requirement '' @ sv_ref r @ '' has no acceptance criterion''\<rparr>)
       (filter (\<lambda>r. Some (sv_id r) \<notin> set (covered_req_ids arts)) (requirements arts))"

definition acceptance_gap :: "'a structural_view_scheme list \<Rightarrow> 'a structural_view_scheme \<Rightarrow> spine_gap list" where
  "acceptance_gap arts a =
     (if a \<notin> set (valid_ac arts)
      then [\<lparr>sg_kind = ''acceptance_criterion_invalid_parent'', sg_ref = sv_ref a,
             sg_summary = ''acceptance criterion '' @ sv_ref a @
               '' has a missing or wrong-kind parent (must be a requirement)''\<rparr>]
      else if Some (sv_id a) \<notin> set (ac_with_oracle arts)
      then [\<lparr>sg_kind = ''acceptance_criterion_without_test_oracle'', sg_ref = sv_ref a,
             sg_summary = ''acceptance criterion '' @ sv_ref a @ '' has no test oracle''\<rparr>]
      else [])"

definition oracle_gaps :: "'a structural_view_scheme list \<Rightarrow> spine_gap list" where
  "oracle_gaps arts =
     map (\<lambda>o'. \<lparr>sg_kind = ''test_oracle_invalid_parent'', sg_ref = sv_ref o',
               sg_summary = ''test oracle '' @ sv_ref o' @
                 '' has a missing or wrong-kind parent (must be an acceptance criterion)''\<rparr>)
       (filter (\<lambda>o'. o' \<notin> set (valid_oracle arts)) (oracles arts))"

definition spine_gaps :: "'a structural_view_scheme list \<Rightarrow> spine_gap list" where
  "spine_gaps arts =
     requirement_gaps arts @ concat (map (acceptance_gap arts) (acceptance arts)) @ oracle_gaps arts"

section \<open>The readiness ladder\<close>

datatype level = R0 | R1 | R2 | R3 | R4 | R5

primrec level_value :: "level \<Rightarrow> string" where
  "level_value R0 = ''R0''"
| "level_value R1 = ''R1''"
| "level_value R2 = ''R2''"
| "level_value R3 = ''R3''"
| "level_value R4 = ''R4''"
| "level_value R5 = ''R5''"

primrec level_rank :: "level \<Rightarrow> nat" where
  "level_rank R0 = 0"
| "level_rank R1 = 1"
| "level_rank R2 = 2"
| "level_rank R3 = 3"
| "level_rank R4 = 4"
| "level_rank R5 = 5"

lemma level_rank_inject [simp]: "level_rank a = level_rank b \<longleftrightarrow> a = b"
  by (cases a; cases b) simp_all

instantiation level :: linorder
begin

definition less_eq_level :: "level \<Rightarrow> level \<Rightarrow> bool" where
  "less_eq_level a b = (level_rank a \<le> level_rank b)"

definition less_level :: "level \<Rightarrow> level \<Rightarrow> bool" where
  "less_level a b = (level_rank a < level_rank b)"

instance
  by standard (auto simp: less_eq_level_def less_level_def)

end

definition R3_TECHNICAL_CATEGORIES :: "string list" where
  "R3_TECHNICAL_CATEGORIES =
     [''user_journeys_and_workflows'', ''data_model_and_contracts'',
      ''architecture_and_technology_constraints'']"

definition R4_TOOL_CATEGORIES :: "string list" where
  "R4_TOOL_CATEGORIES = [''integrations_and_external_systems'', ''tool_access_manifest'']"

definition STAGING_ENVIRONMENT_CATEGORY :: string where
  "STAGING_ENVIRONMENT_CATEGORY = ''environments_and_deployment_targets''"

definition R5_DECLARABLE_CATEGORIES :: "string list" where
  "R5_DECLARABLE_CATEGORIES = DECLARABLE_INTAKE_CATEGORIES"

definition R5_GATE_AUTONOMY_ABSENT :: string where
  "R5_GATE_AUTONOMY_ABSENT = ''autonomy_policy_absent_or_invalid''"

definition R5_GATE_COST_ABSENT :: string where
  "R5_GATE_COST_ABSENT = ''cost_budget_absent_or_zero''"

definition CANONICAL_FILE_ORDER :: "string list" where
  "CANONICAL_FILE_ORDER = [
     ''project_manifest'',
     ''product_brief'',
     ''business_objectives'',
     ''scope_and_boundaries'',
     ''users_roles_permissions'',
     ''user_journeys_and_workflows'',
     ''functional_requirements'',
     ''non_functional_requirements'',
     ''acceptance_criteria'',
     ''test_oracles'',
     ''domain_pack'',
     ''data_model_and_contracts'',
     ''integrations_and_external_systems'',
     ''existing_assets_and_repositories'',
     ''architecture_and_technology_constraints'',
     ''security_privacy_compliance'',
     ''environments_and_deployment_targets'',
     ''secrets_and_credentials_manifest'',
     ''tool_access_manifest'',
     ''autonomy_policy'',
     ''human_approval_policy'',
     ''cost_and_resource_policy'',
     ''operations_observability_support'',
     ''go_live_checklist'',
     ''risk_register_and_assurance_requirements'',
     ''prior_decisions_and_architecture_log'',
     ''production_authority'']"

definition CONSUMED_CATEGORIES :: "string list" where
  "CONSUMED_CATEGORIES = SPINE_CATEGORIES @ DECLARABLE_INTAKE_CATEGORIES @ GATED_ENGINE_CATEGORIES"

definition NOT_ASSESSED_CATEGORIES :: "string list" where
  "NOT_ASSESSED_CATEGORIES = filter (\<lambda>c. c \<notin> set CONSUMED_CATEGORIES) CANONICAL_FILE_ORDER"

definition spine_level :: "'a structural_view_scheme list \<Rightarrow> level" where
  "spine_level arts =
     (if requirements arts = [] then R0 else if covered_req_ids arts = [] then R1 else R2)"

definition declared_set :: "declaration_view list \<Rightarrow> string list" where
  "declared_set ds = map dv_category (filter (\<lambda>v. dv_status v = ''declared'') ds)"

definition missing_of :: "string list \<Rightarrow> declaration_view list \<Rightarrow> string list" where
  "missing_of cs ds = filter (\<lambda>c. c \<notin> set (declared_set ds)) cs"

definition missing_r5_gates :: "bool \<Rightarrow> bool \<Rightarrow> string list" where
  "missing_r5_gates autonomy_policy_present cost_policy_ok =
     (if \<not> autonomy_policy_present then [R5_GATE_AUTONOMY_ABSENT] else []) @
     (if \<not> cost_policy_ok then [R5_GATE_COST_ABSENT] else [])"

text \<open>\<open>if level == base and ok: level = goal\<close>.\<close>

definition climb :: "level \<Rightarrow> level \<Rightarrow> bool \<Rightarrow> level \<Rightarrow> level" where
  "climb base goal ok l = (if l = base \<and> ok then goal else l)"

definition readiness_level ::
  "'a structural_view_scheme list \<Rightarrow> declaration_view list \<Rightarrow> bool \<Rightarrow> bool \<Rightarrow> level" where
  "readiness_level arts ds autonomy cost =
     climb R4 R5 (missing_of R5_DECLARABLE_CATEGORIES ds = [] \<and> missing_r5_gates autonomy cost = [])
       (climb R3 R4 (missing_of R4_TOOL_CATEGORIES ds = [] \<and> spine_gaps arts = [])
         (climb R2 R3 (missing_of R3_TECHNICAL_CATEGORIES ds = []) (spine_level arts)))"

definition staging_facet :: "level \<Rightarrow> declaration_view list \<Rightarrow> bool \<times> string" where
  "staging_facet l ds =
     (if l \<in> {R3, R4, R5} \<and> STAGING_ENVIRONMENT_CATEGORY \<in> set (declared_set ds)
      then (True, ''r3_with_environments_and_deployment_targets_declared'')
      else if l \<in> {R4, R5} then (False, ''r4_but_environments_and_deployment_targets_not_declared'')
      else if l = R3 then (False, ''r3_but_environments_and_deployment_targets_not_declared'')
      else (False, ''readiness_below_R3''))"

section \<open>The report\<close>

record readiness_report =
  rr_project :: string
  rr_level :: level
  rr_staging :: bool
  rr_go_live :: bool
  rr_authority :: string
  rr_staging_reason :: string
  rr_spine_gaps :: "spine_gap list"
  rr_safe :: "artifact_view list"
  rr_blocked :: "artifact_view list"
  rr_missing_r3 :: "string list"
  rr_missing_r4 :: "string list"
  rr_missing_r4_coverage :: "spine_gap list"
  rr_missing_r5 :: "string list"
  rr_missing_r5_gates :: "string list"

definition SAFE :: string where
  "SAFE = ''safe_assumption''"

definition evaluate_readiness ::
  "string \<Rightarrow> artifact_view list \<Rightarrow> string \<Rightarrow> declaration_view list \<Rightarrow> bool \<Rightarrow> bool \<Rightarrow> readiness_report" where
  "evaluate_readiness project arts production_authority_decision ds autonomy cost =
     (let l = readiness_level arts ds autonomy cost;
          (staging, reason) = staging_facet l ds in
      \<lparr>rr_project = project, rr_level = l, rr_staging = staging, rr_go_live = False,
       rr_authority = production_authority_decision, rr_staging_reason = reason,
       rr_spine_gaps = spine_gaps arts,
       rr_safe = filter (\<lambda>a. sv_classification a = Some SAFE) (assumptions arts),
       rr_blocked = filter (\<lambda>a. sv_classification a \<noteq> Some SAFE) (assumptions arts),
       rr_missing_r3 = missing_of R3_TECHNICAL_CATEGORIES ds,
       rr_missing_r4 = missing_of R4_TOOL_CATEGORIES ds,
       rr_missing_r4_coverage = spine_gaps arts,
       rr_missing_r5 = missing_of R5_DECLARABLE_CATEGORIES ds,
       rr_missing_r5_gates = missing_r5_gates autonomy cost\<rparr>)"

definition gap_dict :: "spine_gap \<Rightarrow> pyval" where
  "gap_dict g = PDict [(''kind'', PStr (sg_kind g)), (''ref'', PStr (sg_ref g)),
     (''summary'', PStr (sg_summary g))]"

definition assumption_dict :: "artifact_view \<Rightarrow> pyval" where
  "assumption_dict a = PDict [(''ref'', PStr (sv_ref a)), (''title'', PStr (av_title a)),
     (''classification'', opt_str (sv_classification a))]"

definition READINESS_CAP_REASON :: string where
  "READINESS_CAP_REASON =
     ''slice_20_reaches_R5_intake_completeness_when_all_declarable_categories_are_declared_and_the_'' @
     ''autonomy_and_cost_engine_gates_pass; production_autonomy_(A5/Appendix-B)_is_a_separate_gate_'' @
     ''and_can_go_live_autonomously_stays_false''"

definition NO_GO_LIVE_REASONS :: "string list" where
  "NO_GO_LIVE_REASONS =
     [''a5_production_autonomy_appendix_b_checklist_not_evaluated'',
      ''production_authority_declaration_is_presence_only_not_a_go_live_authorization'']"

definition missing_for_go_live :: "readiness_report \<Rightarrow> string list" where
  "missing_for_go_live r =
     map sg_summary (rr_spine_gaps r) @
     map (\<lambda>c. ''r3_category_not_declared:'' @ c) (rr_missing_r3 r) @
     map (\<lambda>c. ''r4_category_not_declared:'' @ c) (rr_missing_r4 r) @
     map (\<lambda>c. ''r5_category_not_declared:'' @ c) (rr_missing_r5 r) @
     map (\<lambda>g. ''r5_gate_incomplete:'' @ g) (rr_missing_r5_gates r) @
     NOT_ASSESSED_CATEGORIES"

definition report_to_dict :: "readiness_report \<Rightarrow> pydict" where
  "report_to_dict r =
     [(''project_id'', PStr (rr_project r)),
      (''readiness_level'', PStr (level_value (rr_level r))),
      (''can_build_to_staging'', PBool (rr_staging r)),
      (''can_go_live_autonomously'', PBool (rr_go_live r)),
      (''missing_for_go_live'', str_list (missing_for_go_live r)),
      (''safe_assumptions'', PList (map assumption_dict (rr_safe r))),
      (''blocked_assumptions'', PList (map assumption_dict (rr_blocked r))),
      (''readiness_cap'', PStr ''R5''),
      (''readiness_cap_reason'', PStr READINESS_CAP_REASON),
      (''can_build_to_staging_reason'', PStr (rr_staging_reason r)),
      (''can_go_live_autonomously_reasons'', str_list NO_GO_LIVE_REASONS),
      (''not_assessed_categories'', str_list NOT_ASSESSED_CATEGORIES),
      (''spine_gaps'', PList (map gap_dict (rr_spine_gaps r))),
      (''missing_r3_categories'', str_list (rr_missing_r3 r)),
      (''missing_r4_categories'', str_list (rr_missing_r4 r)),
      (''missing_r4_test_coverage'', PList (map gap_dict (rr_missing_r4_coverage r))),
      (''missing_r5_categories'', str_list (rr_missing_r5 r)),
      (''missing_r5_gates'', str_list (rr_missing_r5_gates r)),
      (''production_authority_decision'', PStr (rr_authority r)),
      (''ruleset_version'', PStr ''slice20.v1'')]"

section \<open>Gaps and contradictions\<close>

record gap =
  ga_kind :: string
  ga_ref :: string
  ga_summary :: string
  ga_extra :: pydict

record contradiction =
  co_kind :: string
  co_refs :: "string list"
  co_summary :: string

record findings_report =
  fr_project :: string
  fr_gaps :: "gap list"
  fr_contradictions :: "contradiction list"

definition mk_gap :: "string \<Rightarrow> string \<Rightarrow> string \<Rightarrow> gap" where
  "mk_gap k ref summary = \<lparr>ga_kind = k, ga_ref = ref, ga_summary = summary, ga_extra = []\<rparr>"

definition mk_contradiction :: "string \<Rightarrow> string \<Rightarrow> string \<Rightarrow> contradiction" where
  "mk_contradiction k ref summary = \<lparr>co_kind = k, co_refs = [ref], co_summary = summary\<rparr>"

text \<open>\<open>str(classification)\<close>.\<close>

definition classification_str :: "string option \<Rightarrow> string" where
  "classification_str c = (case c of None \<Rightarrow> ''None'' | Some s \<Rightarrow> s)"

definition raw_gaps :: "structural_view list \<Rightarrow> gap list" where
  "raw_gaps arts =
     (if requirements arts = [] then [mk_gap ''G_NO_REQUIREMENTS'' [] ''project has no requirement artifacts'']
      else []) @
     map (\<lambda>r. mk_gap ''G_REQUIREMENT_WITHOUT_ACCEPTANCE'' (sv_ref r)
            (''requirement '' @ sv_ref r @ '' has no acceptance criterion''))
       (filter (\<lambda>r. Some (sv_id r) \<notin> set (covered_req_ids arts)) (requirements arts)) @
     map (\<lambda>a. mk_gap ''G_ACCEPTANCE_WITHOUT_ORACLE'' (sv_ref a)
            (''acceptance criterion '' @ sv_ref a @ '' has no test oracle''))
       (filter (\<lambda>a. Some (sv_id a) \<notin> set (ac_with_oracle arts)) (valid_ac arts)) @
     map (\<lambda>a. (mk_gap ''G_UNRESOLVED_ASSUMPTION'' (sv_ref a)
            (''assumption '' @ sv_ref a @ '' is unresolved ('' @ classification_str (sv_classification a) @ '')''))
            \<lparr>ga_extra := [(''classification'', opt_str (sv_classification a))]\<rparr>)
       (filter (\<lambda>a. sv_classification a \<noteq> Some SAFE) (assumptions arts))"

definition self_parents :: "structural_view list \<Rightarrow> structural_view list" where
  "self_parents arts = filter (\<lambda>a. sv_parent a = Some (sv_id a)) arts"

definition other_parents :: "structural_view list \<Rightarrow> structural_view list \<Rightarrow> structural_view list" where
  "other_parents arts as = filter (\<lambda>a. sv_id a \<notin> sv_id ` set (self_parents arts)) as"

text \<open>The contradiction of a criterion or an oracle whose parent must be of kind \<open>k\<close>.\<close>

definition parent_contradiction ::
  "structural_view list \<Rightarrow> string \<Rightarrow> string \<Rightarrow> string \<Rightarrow> string \<Rightarrow> structural_view \<Rightarrow> contradiction list" where
  "parent_contradiction arts k orphan noun wanted a =
     (if sv_parent a = None
      then [mk_contradiction orphan (sv_ref a) (noun @ '' '' @ sv_ref a @ '' has no parent'')]
      else if \<not> parent_kind_is arts k a
      then [mk_contradiction ''C_WRONG_KIND_PARENT'' (sv_ref a)
             (noun @ '' '' @ sv_ref a @ '' parent is not '' @ wanted)]
      else [])"

definition raw_contradictions :: "structural_view list \<Rightarrow> contradiction list" where
  "raw_contradictions arts =
     map (\<lambda>a. mk_contradiction ''C_SELF_PARENT'' (sv_ref a) (sv_ref a @ '' is its own parent''))
       (self_parents arts) @
     map (\<lambda>r. mk_contradiction ''C_REQUIREMENT_HAS_PARENT'' (sv_ref r)
            (''requirement '' @ sv_ref r @ '' must be top-level but has a parent''))
       (filter (\<lambda>r. sv_parent r \<noteq> None) (other_parents arts (requirements arts))) @
     concat (map (parent_contradiction arts ''requirement'' ''C_ORPHAN_ACCEPTANCE''
              ''acceptance criterion'' ''a requirement'') (other_parents arts (acceptance arts))) @
     concat (map (parent_contradiction arts ''acceptance_criterion'' ''C_ORPHAN_ORACLE''
              ''test oracle'' ''an acceptance criterion'') (other_parents arts (oracles arts)))"

definition gap_key :: "gap \<Rightarrow> string \<times> string" where
  "gap_key g = (ga_kind g, ga_ref g)"

definition contradiction_key :: "contradiction \<Rightarrow> string \<times> string list" where
  "contradiction_key c = (co_kind c, co_refs c)"

definition detect_findings :: "string \<Rightarrow> structural_view list \<Rightarrow> findings_report" where
  "detect_findings project arts =
     \<lparr>fr_project = project, fr_gaps = sort_key gap_key (raw_gaps arts),
      fr_contradictions = sort_key contradiction_key (raw_contradictions arts)\<rparr>"

definition findings_to_dict :: "findings_report \<Rightarrow> pydict" where
  "findings_to_dict r =
     [(''project_id'', PStr (fr_project r)),
      (''gaps'', PList (map (\<lambda>g. PDict ([(''kind'', PStr (ga_kind g)), (''ref'', PStr (ga_ref g)),
          (''summary'', PStr (ga_summary g))] @ ga_extra g)) (fr_gaps r))),
      (''contradictions'', PList (map (\<lambda>c. PDict [(''kind'', PStr (co_kind c)),
          (''refs'', str_list (co_refs c)), (''summary'', PStr (co_summary c))]) (fr_contradictions r))),
      (''gap_count'', PInt (int (length (fr_gaps r)))),
      (''contradiction_count'', PInt (int (length (fr_contradictions r)))),
      (''ruleset_version'', PStr ''slice13.v1'')]"

section \<open>The repository\<close>

datatype readiness_error = PolicyReadError policy_error | BudgetReadError cost_error

primrec authority_value :: "decision \<Rightarrow> string" where
  "authority_value ALLOW = ''allow''"
| "authority_value DENY = ''deny''"
| "authority_value NEEDS_APPROVAL = ''needs_approval''"

definition list_artifacts :: "tenant_context \<Rightarrow> uuid \<Rightarrow> intake_db \<Rightarrow> artifact_row list" where
  "list_artifacts ctx project d =
     filter (\<lambda>r. ar_tenant r = ctx_tenant ctx \<and> ar_project r = project) (artifacts d)"

definition view_of_artifact :: "artifact_row \<Rightarrow> artifact_view" where
  "view_of_artifact a =
     \<lparr>sv_id = ar_id a, sv_kind = ar_kind a, sv_ref = ar_ref a, sv_parent = ar_parent a,
      sv_classification = ar_classification a, av_title = ar_title a\<rparr>"

text \<open>A declaration from a document that is gone, not accepted or of another project is dropped.\<close>

definition source_stands :: "tenant_context \<Rightarrow> uuid \<Rightarrow> intake_db \<Rightarrow> category_row \<Rightarrow> bool" where
  "source_stands ctx project d r =
     (case ic_document r of
        None \<Rightarrow> True
      | Some i \<Rightarrow> (case document_get ctx i d of
                     None \<Rightarrow> False
                   | Some doc \<Rightarrow> dc_status doc = ''accepted'' \<and> dc_project doc = project))"

definition category_declarations :: "tenant_context \<Rightarrow> uuid \<Rightarrow> intake_db \<Rightarrow> declaration_view list" where
  "category_declarations ctx project d =
     map (\<lambda>r. \<lparr>dv_category = ic_category r, dv_status = ic_status r\<rparr>)
       (filter (source_stands ctx project d) (list_categories ctx project d))"

definition r5_engine_gates ::
  "tenant_context \<Rightarrow> uuid \<Rightarrow> intake_db \<Rightarrow> readiness_error + (bool \<times> bool)" where
  "r5_engine_gates ctx project d =
     bindE (lift_error PolicyReadError (policy_get_for_project ctx project (core d))) (\<lambda>policy.
     bindE (lift_error BudgetReadError (budget_get ctx project (core d))) (\<lambda>budget.
     Inr (case policy of None \<Rightarrow> False | Some p \<Rightarrow> validate_overrides (pol_overrides p) = Inr (),
          case budget of None \<Rightarrow> False | Some b \<Rightarrow> bu_max_total b > 0)))"

definition readiness_evaluate ::
  "tenant_context \<Rightarrow> uuid \<Rightarrow> intake_db \<Rightarrow> readiness_error + readiness_report" where
  "readiness_evaluate ctx project d =
     bindE (lift_error PolicyReadError (decision_for ctx project ''deploy_production'' (core d))) (\<lambda>decision.
     bindE (r5_engine_gates ctx project d) (\<lambda>(autonomy, cost).
     Inr (evaluate_readiness (uuid_str project) (map view_of_artifact (list_artifacts ctx project d))
            (authority_value decision) (category_declarations ctx project d) autonomy cost)))"

definition readiness_audit ::
  "tenant_context \<Rightarrow> report_row \<Rightarrow> readiness_report \<Rightarrow> string \<Rightarrow> db \<Rightarrow> db" where
  "readiness_audit ctx row r actor d =
     audit_record ctx ''intake.readiness_evaluated'' actor
       (Some (''readiness_report:'' @ uuid_str (rp_id row)))
       [(''readiness_report_id'', PStr (uuid_str (rp_id row))),
        (''project_id'', PStr (uuid_str (rp_project row))),
        (''readiness_level'', PStr (level_value (rr_level r))),
        (''can_build_to_staging'', PBool (rr_staging r)),
        (''can_go_live_autonomously'', PBool (rr_go_live r)),
        (''spine_gap_count'', PInt (int (length (rr_spine_gaps r)))),
        (''safe_assumption_count'', PInt (int (length (rr_safe r)))),
        (''blocked_assumption_count'', PInt (int (length (rr_blocked r)))),
        (''ruleset_version'', dget (report_to_dict r) ''ruleset_version'')] d"

definition readiness_evaluate_and_record ::
  "tenant_context \<Rightarrow> uuid \<Rightarrow> string \<Rightarrow> intake_db \<Rightarrow>
     readiness_error + (readiness_report \<times> report_row \<times> intake_db)" where
  "readiness_evaluate_and_record ctx project actor d =
     bindE (readiness_evaluate ctx project d) (\<lambda>r.
       let row = \<lparr>rp_id = db_next_id (core d), rp_tenant = ctx_tenant ctx, rp_project = project,
                  rp_level = level_value (rr_level r), rp_staging = rr_staging r,
                  rp_go_live = rr_go_live r, rp_report = report_to_dict r, rp_by = actor\<rparr>
       in Inr (r, row, d\<lparr>readiness_reports := readiness_reports d @ [row],
            core := readiness_audit ctx row r actor ((core d)\<lparr>db_next_id := db_next_id (core d) + 1\<rparr>)\<rparr>))"

section \<open>The complete spine\<close>

text \<open>
  The specification of test coverage, without the auditor's tables: every requirement has a
  criterion, every criterion belongs to a requirement and has an oracle, every oracle belongs to a
  criterion.
\<close>

definition child_of :: "'a structural_view_scheme \<Rightarrow> 'a structural_view_scheme \<Rightarrow> bool" where
  "child_of p a = (sv_parent a = Some (sv_id p))"

definition complete_spine :: "'a structural_view_scheme list \<Rightarrow> bool" where
  "complete_spine arts =
     ((\<forall>r\<in>set (requirements arts). \<exists>a\<in>set (acceptance arts). child_of r a) \<and>
      (\<forall>a\<in>set (acceptance arts). (\<exists>r\<in>set (requirements arts). child_of r a) \<and>
         (\<exists>o'\<in>set (oracles arts). child_of a o')) \<and>
      (\<forall>o'\<in>set (oracles arts). \<exists>a\<in>set (acceptance arts). child_of a o'))"

lemma set_of_kind [simp]: "a \<in> set (of_kind k arts) \<longleftrightarrow> a \<in> set arts \<and> sv_kind a = k"
  by (simp add: of_kind_def)

lemma by_id_Some:
  assumes "distinct (map sv_id arts)"
  shows "by_id arts i = Some p \<longleftrightarrow> p \<in> set arts \<and> sv_id p = i"
proof
  assume "by_id arts i = Some p"
  then show "p \<in> set arts \<and> sv_id p = i"
    using find_Some_mem by (fastforce simp: by_id_def)
next
  assume p: "p \<in> set arts \<and> sv_id p = i"
  have "distinct (map sv_id (rev arts))" using assms by (simp add: rev_map [symmetric])
  then show "by_id arts i = Some p"
    unfolding by_id_def using p by (intro find_unique [where key = sv_id]) auto
qed

lemma parent_kind_is_iff:
  assumes "distinct (map sv_id arts)"
  shows "parent_kind_is arts k a \<longleftrightarrow> (\<exists>p\<in>set (of_kind k arts). child_of p a)"
proof (cases "sv_parent a")
  case (Some i)
  then have "parent_kind_is arts k a \<longleftrightarrow> (\<exists>p. by_id arts i = Some p \<and> sv_kind p = k)"
    by (simp add: parent_kind_is_def parent_of_def split: option.split)
  also have "\<dots> \<longleftrightarrow> (\<exists>p. (p \<in> set arts \<and> sv_id p = i) \<and> sv_kind p = k)"
    by (simp only: by_id_Some [OF assms])
  also have "\<dots> \<longleftrightarrow> (\<exists>p\<in>set (of_kind k arts). child_of p a)"
    using Some by (auto simp: child_of_def)
  finally show ?thesis .
qed (simp add: parent_kind_is_def parent_of_def child_of_def)

lemma set_valid_ac [simp]:
  "a \<in> set (valid_ac arts) \<longleftrightarrow> a \<in> set (acceptance arts) \<and> parent_kind_is arts ''requirement'' a"
  by (auto simp: valid_ac_def)

lemma set_valid_oracle [simp]:
  "a \<in> set (valid_oracle arts) \<longleftrightarrow>
     a \<in> set (oracles arts) \<and> parent_kind_is arts ''acceptance_criterion'' a"
  by (auto simp: valid_oracle_def)

lemma mem_parents: "Some i \<in> set (map sv_parent xs) \<longleftrightarrow> (\<exists>a\<in>set xs. sv_parent a = Some i)"
  by (force simp: image_iff)

lemma gap_parts_Nil_iff:
  "requirement_gaps arts = [] \<longleftrightarrow>
     (\<forall>r\<in>set (requirements arts). Some (sv_id r) \<in> set (covered_req_ids arts))"
  "acceptance_gap arts a = [] \<longleftrightarrow> a \<in> set (valid_ac arts) \<and> Some (sv_id a) \<in> set (ac_with_oracle arts)"
  "oracle_gaps arts = [] \<longleftrightarrow> (\<forall>o'\<in>set (oracles arts). o' \<in> set (valid_oracle arts))"
  by (simp_all only: requirement_gaps_def acceptance_gap_def oracle_gaps_def map_is_Nil_conv
      filter_empty_conv not_not split: if_split) auto

lemma spine_gaps_Nil_iff:
  "spine_gaps arts = [] \<longleftrightarrow>
     (\<forall>r\<in>set (requirements arts). Some (sv_id r) \<in> set (covered_req_ids arts)) \<and>
     (\<forall>a\<in>set (acceptance arts). parent_kind_is arts ''requirement'' a \<and>
        Some (sv_id a) \<in> set (ac_with_oracle arts)) \<and>
     (\<forall>o'\<in>set (oracles arts). parent_kind_is arts ''acceptance_criterion'' o')"
proof -
  have "concat (map (acceptance_gap arts) (acceptance arts)) = [] \<longleftrightarrow>
      (\<forall>a\<in>set (acceptance arts). acceptance_gap arts a = [])"
    by (simp only: concat_eq_Nil_conv set_map ball_simps)
  then show ?thesis
    by (simp only: spine_gaps_def append_is_Nil_conv gap_parts_Nil_iff set_valid_ac set_valid_oracle) blast
qed

lemma covered_req_ids_iff:
  assumes "distinct (map sv_id arts)" "r \<in> set (requirements arts)"
  shows "Some (sv_id r) \<in> set (covered_req_ids arts) \<longleftrightarrow> (\<exists>a\<in>set (acceptance arts). child_of r a)"
proof -
  have "Some (sv_id r) \<in> set (covered_req_ids arts) \<longleftrightarrow>
      (\<exists>a\<in>set (valid_ac arts). child_of r a)"
    by (simp only: covered_req_ids_def mem_parents child_of_def)
  also have "\<dots> \<longleftrightarrow> (\<exists>a\<in>set (acceptance arts). child_of r a)"
    unfolding set_valid_ac parent_kind_is_iff [OF assms(1)] Bex_def using assms(2) by blast
  finally show ?thesis .
qed

lemma ac_with_oracle_iff:
  assumes "distinct (map sv_id arts)" "a \<in> set (acceptance arts)"
  shows "Some (sv_id a) \<in> set (ac_with_oracle arts) \<longleftrightarrow> (\<exists>o'\<in>set (oracles arts). child_of a o')"
proof -
  have "Some (sv_id a) \<in> set (ac_with_oracle arts) \<longleftrightarrow>
      (\<exists>o'\<in>set (valid_oracle arts). child_of a o')"
    by (simp only: ac_with_oracle_def mem_parents child_of_def)
  also have "\<dots> \<longleftrightarrow> (\<exists>o'\<in>set (oracles arts). child_of a o')"
    unfolding set_valid_oracle parent_kind_is_iff [OF assms(1)] Bex_def using assms(2) by blast
  finally show ?thesis .
qed

lemma spine_gaps_complete:
  assumes "distinct (map sv_id arts)"
  shows "spine_gaps arts = [] \<longleftrightarrow> complete_spine arts"
  unfolding spine_gaps_Nil_iff complete_spine_def parent_kind_is_iff [OF assms]
  by (intro conj_cong ball_cong refl covered_req_ids_iff [OF assms] ac_with_oracle_iff [OF assms])

lemma covered_req_ids_empty_iff:
  assumes "distinct (map sv_id arts)"
  shows "covered_req_ids arts = [] \<longleftrightarrow>
     \<not> (\<exists>r\<in>set (requirements arts). \<exists>a\<in>set (acceptance arts). child_of r a)"
proof -
  have "covered_req_ids arts = [] \<longleftrightarrow> \<not> (\<exists>a\<in>set (acceptance arts). parent_kind_is arts ''requirement'' a)"
    by (simp only: covered_req_ids_def valid_ac_def map_is_Nil_conv filter_empty_conv) blast
  then show ?thesis unfolding parent_kind_is_iff [OF assms] by blast
qed

section \<open>The ladder\<close>

lemma level_le_simps [simp]:
  "(R3 \<le> l) = (l \<in> {R3, R4, R5})" "(R4 \<le> l) = (l \<in> {R4, R5})" "(R5 \<le> l) = (l = R5)"
  by (cases l; simp add: less_eq_level_def)+

lemma missing_of_Nil_iff: "missing_of cs ds = [] \<longleftrightarrow> set cs \<subseteq> set (declared_set ds)"
  by (auto simp: missing_of_def filter_empty_conv)

lemma missing_r5_gates_Nil_iff: "missing_r5_gates a c = [] \<longleftrightarrow> a \<and> c"
  by (simp add: missing_r5_gates_def)

lemma spine_level_cases:
  "spine_level arts \<in> {R0, R1, R2}" "spine_level arts = R2 \<longleftrightarrow> covered_req_ids arts \<noteq> [] \<and> requirements arts \<noteq> []"
  by (auto simp: spine_level_def)

lemma climb_iffs:
  assumes "l \<in> {R0, R1, R2}" "m = climb R4 R5 p5 (climb R3 R4 p4 (climb R2 R3 p3 l))"
  shows "m \<in> {R3, R4, R5} \<longleftrightarrow> l = R2 \<and> p3" "m \<in> {R4, R5} \<longleftrightarrow> l = R2 \<and> p3 \<and> p4"
    "m = R5 \<longleftrightarrow> l = R2 \<and> p3 \<and> p4 \<and> p5" "m \<notin> {R3, R4, R5} \<Longrightarrow> m = l"
  using assms by (cases p3; cases p4; cases p5; auto simp: climb_def)+

lemma climb_mono:
  assumes "l \<in> {R0, R1, R2}" "p3 \<Longrightarrow> q3" "p4 \<Longrightarrow> q4" "p5 \<Longrightarrow> q5"
  shows "climb R4 R5 p5 (climb R3 R4 p4 (climb R2 R3 p3 l)) \<le> climb R4 R5 q5 (climb R3 R4 q4 (climb R2 R3 q3 l))"
  using assms by (cases p3; cases p4; cases p5; cases q3; cases q4; cases q5;
      auto simp: climb_def less_eq_level_def)

lemmas readiness_level_iffs =
  climb_iffs [OF spine_level_cases(1) readiness_level_def, unfolded missing_of_Nil_iff missing_r5_gates_Nil_iff]

lemma evaluate_readiness_sel [simp]:
  "rr_level (evaluate_readiness p arts auth ds a c) = readiness_level arts ds a c"
  "rr_staging (evaluate_readiness p arts auth ds a c) = fst (staging_facet (readiness_level arts ds a c) ds)"
  "rr_go_live (evaluate_readiness p arts auth ds a c) = False"
  "rr_authority (evaluate_readiness p arts auth ds a c) = auth"
  "rr_spine_gaps (evaluate_readiness p arts auth ds a c) = spine_gaps arts"
  by (simp_all add: evaluate_readiness_def Let_def split_beta)

lemma staging_iff:
  "fst (staging_facet l ds) \<longleftrightarrow> l \<in> {R3, R4, R5} \<and> STAGING_ENVIRONMENT_CATEGORY \<in> set (declared_set ds)"
  by (simp add: staging_facet_def)

lemma r3_r4_declarable:
  "set R3_TECHNICAL_CATEGORIES \<subseteq> set R5_DECLARABLE_CATEGORIES"
  "set R4_TOOL_CATEGORIES \<subseteq> set R5_DECLARABLE_CATEGORIES"
  "STAGING_ENVIRONMENT_CATEGORY \<in> set R5_DECLARABLE_CATEGORIES"
  by (simp_all add: R3_TECHNICAL_CATEGORIES_def R4_TOOL_CATEGORIES_def STAGING_ENVIRONMENT_CATEGORY_def
      R5_DECLARABLE_CATEGORIES_def DECLARABLE_INTAKE_CATEGORIES_def)

lemma complete_spine_chain:
  "complete_spine arts \<Longrightarrow> requirements arts \<noteq> [] \<Longrightarrow>
     \<exists>r\<in>set (requirements arts). \<exists>a\<in>set (acceptance arts). child_of r a"
  by (cases "requirements arts") (auto simp: complete_spine_def simp del: set_of_kind)

definition has_chain :: "'a structural_view_scheme list \<Rightarrow> bool" where
  "has_chain arts = (\<exists>r\<in>set (requirements arts). \<exists>a\<in>set (acceptance arts). child_of r a)"

lemma spine_level_R2_iff:
  assumes "distinct (map sv_id arts)"
  shows "spine_level arts = R2 \<longleftrightarrow> has_chain arts"
proof -
  have "has_chain arts \<Longrightarrow> requirements arts \<noteq> []"
    by (auto simp: has_chain_def simp del: set_of_kind)
  then show ?thesis
    unfolding spine_level_cases(2) covered_req_ids_empty_iff [OF assms] has_chain_def by blast
qed

lemma complete_has_chain: "complete_spine arts \<Longrightarrow> has_chain arts \<longleftrightarrow> requirements arts \<noteq> []"
  using complete_spine_chain [of arts] by (auto simp: has_chain_def simp del: set_of_kind)

section \<open>Examples\<close>

definition example_spine :: "artifact_view list" where
  "example_spine =
     [\<lparr>sv_id = 1, sv_kind = ''requirement'', sv_ref = ''REQ-1'', sv_parent = None,
       sv_classification = None, av_title = ''login''\<rparr>,
      \<lparr>sv_id = 2, sv_kind = ''acceptance_criterion'', sv_ref = ''AC-1'', sv_parent = Some 1,
       sv_classification = None, av_title = ''a session''\<rparr>,
      \<lparr>sv_id = 3, sv_kind = ''test_oracle'', sv_ref = ''TO-1'', sv_parent = Some 2,
       sv_classification = None, av_title = ''200''\<rparr>]"

definition example_declarations :: "declaration_view list" where
  "example_declarations = map (\<lambda>c. \<lparr>dv_category = c, dv_status = ''declared''\<rparr>) DECLARABLE_INTAKE_CATEGORIES"

lemma example_spine_ids: "distinct (map sv_id example_spine)"
  by (simp add: example_spine_def)

lemma example_spine_complete: "complete_spine example_spine" "requirements example_spine \<noteq> []"
  by (simp_all add: complete_spine_def of_kind_def child_of_def example_spine_def)

lemma example_declared: "set (declared_set example_declarations) = set DECLARABLE_INTAKE_CATEGORIES"
  by (simp add: declared_set_def example_declarations_def o_def)

section \<open>The detector against the auditor\<close>

definition structural :: "artifact_view list \<Rightarrow> structural_view list" where
  "structural arts = map structural_view.truncate arts"

lemma truncate_sel [simp]:
  "sv_id (structural_view.truncate a) = sv_id a" "sv_kind (structural_view.truncate a) = sv_kind a"
  "sv_ref (structural_view.truncate a) = sv_ref a" "sv_parent (structural_view.truncate a) = sv_parent a"
  "sv_classification (structural_view.truncate a) = sv_classification a"
  by (simp_all add: structural_view.truncate_def)

lemma structural_of_kind: "of_kind k (structural arts) = structural (of_kind k arts)"
  by (induction arts) (auto simp: of_kind_def structural_def)

lemma structural_ids [simp]: "map sv_id (structural arts) = map sv_id arts"
  by (simp add: structural_def o_def)

lemma set_structural: "set (structural arts) = structural_view.truncate ` set arts"
  by (simp add: structural_def)

lemma structural_complete [simp]: "complete_spine (structural arts) = complete_spine arts"
  unfolding complete_spine_def structural_of_kind set_structural
  by (simp add: child_of_def del: set_of_kind)

lemma coverage_gap_iff:
  "(\<exists>g\<in>set (raw_gaps arts). ga_kind g \<in> {''G_REQUIREMENT_WITHOUT_ACCEPTANCE'', ''G_ACCEPTANCE_WITHOUT_ORACLE''}) \<longleftrightarrow>
     (\<exists>r\<in>set (requirements arts). Some (sv_id r) \<notin> set (covered_req_ids arts)) \<or>
     (\<exists>a\<in>set (valid_ac arts). Some (sv_id a) \<notin> set (ac_with_oracle arts))"
  unfolding raw_gaps_def set_append bex_Un set_map bex_simps set_filter mk_gap_def
  by (auto split: if_splits simp del: set_of_kind set_valid_ac)

lemma parent_contradiction_kind:
  "(\<exists>c\<in>set (parent_contradiction arts k orphan noun wanted a). co_kind c \<in> {orphan, ''C_WRONG_KIND_PARENT''} \<union> X) \<longleftrightarrow>
     \<not> parent_kind_is arts k a"
  by (auto simp: parent_contradiction_def mk_contradiction_def parent_kind_is_def parent_of_def)

definition link_contradictions :: "string set" where
  "link_contradictions = {''C_ORPHAN_ACCEPTANCE'', ''C_ORPHAN_ORACLE'', ''C_WRONG_KIND_PARENT''}"

lemma link_contradiction_iff:
  "(\<exists>c\<in>set (raw_contradictions arts). co_kind c \<in> link_contradictions) \<longleftrightarrow>
     (\<exists>a\<in>set (other_parents arts (acceptance arts)). \<not> parent_kind_is arts ''requirement'' a) \<or>
     (\<exists>o'\<in>set (other_parents arts (oracles arts)). \<not> parent_kind_is arts ''acceptance_criterion'' o')"
proof -
  have k: "(\<exists>c\<in>set (parent_contradiction arts k orphan noun wanted a). co_kind c \<in> link_contradictions) \<longleftrightarrow>
      \<not> parent_kind_is arts k a"
    if "orphan \<in> {''C_ORPHAN_ACCEPTANCE'', ''C_ORPHAN_ORACLE''}" for k orphan noun wanted a
  proof -
    have "link_contradictions = {orphan, ''C_WRONG_KIND_PARENT''} \<union> link_contradictions"
      using that by (auto simp: link_contradictions_def)
    then show ?thesis using parent_contradiction_kind by metis
  qed
  have none: "(\<exists>c\<in>set (map f xs). co_kind c \<in> link_contradictions) = False"
    if "\<And>x. co_kind (f x) \<in> {''C_SELF_PARENT'', ''C_REQUIREMENT_HAS_PARENT''}"
    for f :: "structural_view \<Rightarrow> contradiction" and xs
  proof -
    have "co_kind (f x) \<notin> link_contradictions" for x
      using that [of x] by (auto simp: link_contradictions_def)
    then show ?thesis by simp
  qed
  show ?thesis
    unfolding raw_contradictions_def set_append bex_Un
    by (subst (1 2) none) (simp_all add: mk_contradiction_def k)
qed

lemma set_other_parents:
  assumes "distinct (map sv_id arts)" "a \<in> set arts"
  shows "a \<in> set (other_parents arts as) \<longleftrightarrow> a \<in> set as \<and> sv_parent a \<noteq> Some (sv_id a)"
proof -
  have "sv_id a \<in> sv_id ` set (self_parents arts) \<longleftrightarrow> a \<in> set (self_parents arts)"
    using assms by (auto simp: self_parents_def distinct_map dest: inj_onD)
  with assms(2) show ?thesis by (auto simp: other_parents_def self_parents_def)
qed

lemma self_parent_not_linked:
  assumes "distinct (map sv_id arts)" "a \<in> set arts" "sv_parent a = Some (sv_id a)" "sv_kind a \<noteq> k"
  shows "\<not> parent_kind_is arts k a"
proof
  assume "parent_kind_is arts k a"
  then obtain p where "p \<in> set arts" "sv_kind p = k" "sv_id p = sv_id a"
    unfolding parent_kind_is_iff [OF assms(1)] using assms(3) by (auto simp: child_of_def)
  moreover then have "p = a" using assms(1,2) by (auto simp: distinct_map dest: inj_onD)
  ultimately show False using assms(4) by simp
qed

lemma linked_iff:
  assumes "distinct (map sv_id arts)" "j \<noteq> k"
  shows "(\<forall>a\<in>set (of_kind j arts). parent_kind_is arts k a) \<longleftrightarrow>
     (\<forall>a\<in>set (other_parents arts (of_kind j arts)). parent_kind_is arts k a) \<and>
     (\<forall>a\<in>set (of_kind j arts). sv_parent a \<noteq> Some (sv_id a))"
proof -
  have m: "a \<in> set arts" "sv_kind a \<noteq> k" if "a \<in> set (of_kind j arts)" for a
    using that assms(2) by simp_all
  have o: "a \<in> set (other_parents arts (of_kind j arts)) \<longleftrightarrow>
      a \<in> set (of_kind j arts) \<and> sv_parent a \<noteq> Some (sv_id a)" for a
    using set_other_parents [OF assms(1) m(1)] by (auto simp: other_parents_def simp del: set_of_kind)
  show ?thesis
    using o self_parent_not_linked [OF assms(1) m(1) _ m(2)] by blast
qed

section \<open>Properties\<close>

text \<open>C15: What each readiness level means.  With distinct artifact ids a project reaches R3 exactly
  when some requirement has a criterion and the technical categories are declared; R4 exactly when
  it has requirements, its spine is complete (requirements, criteria and oracles all linked) and
  the tool categories are declared as well; R5 exactly when every declarable category is declared
  and both engine gates pass.\<close>

theorem readiness_ladder:
  assumes "distinct (map sv_id arts)"
    and "r = evaluate_readiness project arts auth ds autonomy cost"
  shows "((R3 \<le> rr_level r) = (has_chain arts \<and> set R3_TECHNICAL_CATEGORIES \<subseteq> set (declared_set ds))) \<and>
    ((R4 \<le> rr_level r) = (requirements arts \<noteq> [] \<and> complete_spine arts \<and>
       set R3_TECHNICAL_CATEGORIES \<union> set R4_TOOL_CATEGORIES \<subseteq> set (declared_set ds))) \<and>
    ((rr_level r = R5) = (requirements arts \<noteq> [] \<and> complete_spine arts \<and>
       set DECLARABLE_INTAKE_CATEGORIES \<subseteq> set (declared_set ds) \<and> autonomy \<and> cost))"
    (is "?r3 \<and> ?r4 \<and> ?r5")
proof (intro conjI)
  note iffs = spine_level_R2_iff [OF assms(1)] spine_gaps_complete [OF assms(1)]
  show ?r3
    unfolding assms(2) evaluate_readiness_sel level_le_simps readiness_level_iffs iffs ..
  show ?r4
    unfolding assms(2) evaluate_readiness_sel level_le_simps readiness_level_iffs iffs
    using complete_has_chain [of arts] by blast
  show ?r5
    unfolding assms(2) evaluate_readiness_sel readiness_level_iffs iffs
    using complete_has_chain [of arts] r3_r4_declarable unfolding R5_DECLARABLE_CATEGORIES_def by blast
qed

lemma readiness_ladder_witness:
  "rr_level (evaluate_readiness ''p'' example_spine ''deny'' example_declarations True True) = R5"
  using readiness_ladder [OF example_spine_ids refl, of "''p''" "''deny''" example_declarations True True]
  by (simp add: example_spine_complete example_declared)

text \<open>Declaring more never hurts: with at least the same declarations and engine gates the level
  and the staging permission do not fall, staging is only ever granted from R3 on, and no report
  grants autonomous go-live.\<close>

theorem declarations_never_lower:
  assumes "set (declared_set ds) \<subseteq> set (declared_set ds')"
    and "autonomy \<Longrightarrow> autonomy'" and "cost \<Longrightarrow> cost'"
    and "r = evaluate_readiness project arts auth ds autonomy cost"
    and "r' = evaluate_readiness project' arts auth' ds' autonomy' cost'"
  shows "rr_level r \<le> rr_level r' \<and> (rr_staging r \<longrightarrow> rr_staging r' \<and> R3 \<le> rr_level r') \<and>
         \<not> rr_go_live r \<and> \<not> rr_go_live r'"
proof -
  have "rr_level r \<le> rr_level r'"
    unfolding assms(4,5) evaluate_readiness_sel readiness_level_def
      missing_of_Nil_iff missing_r5_gates_Nil_iff
    by (rule climb_mono [OF spine_level_cases(1)]) (use assms(1-3) in blast)+
  moreover have "rr_staging r \<Longrightarrow> rr_staging r' \<and> R3 \<le> rr_level r'"
    using assms(1) unfolding assms(4,5) evaluate_readiness_sel staging_iff readiness_level_iffs level_le_simps
    by blast
  ultimately show ?thesis unfolding assms(4,5) by simp
qed

lemma declarations_never_lower_witness:
  "rr_level (evaluate_readiness ''p'' example_spine ''deny'' [] False False) \<le>
     rr_level (evaluate_readiness ''p'' example_spine ''deny'' example_declarations True True)"
  using declarations_never_lower [of "[]" example_declarations False True False True, OF _ _ _ refl refl]
  by (simp add: declared_set_def)



section \<open>The order of the artifacts\<close>

text \<open>The same artifacts in another order; the lemmas show each table of the detector unchanged.\<close>

definition reordered :: "structural_view list \<Rightarrow> structural_view list \<Rightarrow> bool" where
  "reordered as bs = (mset as = mset bs \<and> distinct (map sv_id as))"

lemma reorderedD:
  assumes "reordered as bs"
  shows "mset as = mset bs" "distinct (map sv_id as)" "distinct (map sv_id bs)" "set as = set bs"
proof -
  show m: "mset as = mset bs" and d: "distinct (map sv_id as)"
    using assms by (simp_all add: reordered_def)
  then show "distinct (map sv_id bs)" by (metis mset_map mset_eq_imp_distinct_iff)
  show "set as = set bs" using m by (rule mset_eq_setD)
qed

lemma reordered_kind:
  assumes "reordered as bs"
  shows "mset (of_kind k as) = mset (of_kind k bs)" "of_kind k as = [] \<longleftrightarrow> of_kind k bs = []"
    "set (of_kind k as) = set (of_kind k bs)"
proof -
  show m: "mset (of_kind k as) = mset (of_kind k bs)"
    using reorderedD(1) [OF assms] by (simp add: of_kind_def)
  then show "of_kind k as = [] \<longleftrightarrow> of_kind k bs = []"
    using mset_zero_iff by metis
  show "set (of_kind k as) = set (of_kind k bs)" using m by (rule mset_eq_setD)
qed

lemma reordered_parent_kind:
  assumes "reordered as bs"
  shows "parent_kind_is as = parent_kind_is bs"
  unfolding fun_eq_iff parent_kind_is_iff [OF reorderedD(2) [OF assms]]
    parent_kind_is_iff [OF reorderedD(3) [OF assms]] reordered_kind(3) [OF assms] by simp

lemma reordered_valid:
  assumes "reordered as bs"
  shows "mset (valid_ac as) = mset (valid_ac bs)" "mset (valid_oracle as) = mset (valid_oracle bs)"
  unfolding valid_ac_def valid_oracle_def mset_filter reordered_parent_kind [OF assms]
    reordered_kind(1) [OF assms] by (rule refl)+

lemma reordered_covered:
  assumes "reordered as bs"
  shows "set (covered_req_ids as) = set (covered_req_ids bs)"
    "set (ac_with_oracle as) = set (ac_with_oracle bs)"
  using reordered_valid [OF assms, THEN mset_eq_setD]
  by (simp_all only: covered_req_ids_def ac_with_oracle_def set_map)

lemma reordered_others:
  assumes "reordered as bs"
  shows "mset (other_parents as (of_kind k as)) = mset (other_parents bs (of_kind k bs))"
    "mset (self_parents as) = mset (self_parents bs)"
proof -
  show m: "mset (self_parents as) = mset (self_parents bs)"
    using reorderedD(1) [OF assms] by (simp add: self_parents_def)
  show "mset (other_parents as (of_kind k as)) = mset (other_parents bs (of_kind k bs))"
    unfolding other_parents_def mset_filter reordered_kind(1) [OF assms] mset_eq_setD [OF m] ..
qed

lemma reordered_raw_gaps: "reordered as bs \<Longrightarrow> mset (raw_gaps as) = mset (raw_gaps bs)"
  by (simp only: raw_gaps_def mset_append mset_map mset_filter reordered_kind(1,2) reordered_covered
      reordered_valid)

lemma mset_concat_map: "mset xs = mset ys \<Longrightarrow> mset (concat (map f xs)) = mset (concat (map f ys))"
proof -
  assume "mset xs = mset ys"
  then have "mset (map (\<lambda>x. mset (f x)) xs) = mset (map (\<lambda>x. mset (f x)) ys)" by simp
  then have "sum_list (map (\<lambda>x. mset (f x)) xs) = sum_list (map (\<lambda>x. mset (f x)) ys)"
    by (metis sum_mset_sum_list)
  then show ?thesis by (simp add: mset_concat o_def)
qed

text \<open>A gap is determined by its sort key: a gap kind belongs to one artifact kind, so refs distinct
  within each kind are enough.\<close>

definition kind_ref :: "structural_view \<Rightarrow> string \<times> string" where
  "kind_ref a = (sv_kind a, sv_ref a)"

lemma gap_key_inj:
  assumes "distinct (map kind_ref as)"
  shows "inj_on gap_key (set (raw_gaps as))"
proof -
  define canon where "canon = (\<lambda>(k, ref).
    if k = ''G_NO_REQUIREMENTS'' then mk_gap k [] ''project has no requirement artifacts''
    else if k = ''G_REQUIREMENT_WITHOUT_ACCEPTANCE''
      then mk_gap k ref (''requirement '' @ ref @ '' has no acceptance criterion'')
    else if k = ''G_ACCEPTANCE_WITHOUT_ORACLE''
      then mk_gap k ref (''acceptance criterion '' @ ref @ '' has no test oracle'')
    else (case List.find (\<lambda>a. sv_kind a = ''assumption'' \<and> sv_ref a = ref) as of
            None \<Rightarrow> mk_gap k ref []
          | Some a \<Rightarrow> (mk_gap k ref (''assumption '' @ ref @ '' is unresolved ('' @
              classification_str (sv_classification a) @ '')''))
              \<lparr>ga_extra := [(''classification'', opt_str (sv_classification a))]\<rparr>))"
  have find: "List.find (\<lambda>x. sv_kind x = ''assumption'' \<and> sv_ref x = sv_ref a) as = Some a"
    if "a \<in> set as" "sv_kind a = ''assumption''" for a
    using that by (intro find_unique [where key = kind_ref] assms) (auto simp: kind_ref_def)
  have "canon (gap_key g) = g" if "g \<in> set (raw_gaps as)" for g
    using that unfolding raw_gaps_def set_append set_map
    by (elim UnE imageE) (auto simp: canon_def gap_key_def mk_gap_def find split: if_splits)
  then show ?thesis by (rule inj_on_inverseI)
qed

lemma parent_contradiction_mem:
  "c \<in> set (parent_contradiction arts k orphan noun wanted a) \<Longrightarrow>
     c = mk_contradiction orphan (sv_ref a) (noun @ '' '' @ sv_ref a @ '' has no parent'') \<or>
     c = mk_contradiction ''C_WRONG_KIND_PARENT'' (sv_ref a) (noun @ '' '' @ sv_ref a @ '' parent is not '' @ wanted)"
  by (auto simp: parent_contradiction_def split: if_splits)

text \<open>
  Two contradictions may tie (a criterion and an oracle with the same ref and a wrong parent), but
  each of the four lists the detector appends has its summaries determined by the key, and the
  sort is stable.
\<close>

definition link_noun :: "bool \<Rightarrow> string" where
  "link_noun criterion = (if criterion then ''acceptance criterion'' else ''test oracle'')"

definition link_wanted :: "bool \<Rightarrow> string" where
  "link_wanted criterion = (if criterion then ''a requirement'' else ''an acceptance criterion'')"

definition summary_of :: "bool \<Rightarrow> string \<Rightarrow> string \<Rightarrow> string" where
  "summary_of criterion k ref =
     (if k = ''C_SELF_PARENT'' then ref @ '' is its own parent''
      else if k = ''C_REQUIREMENT_HAS_PARENT''
        then ''requirement '' @ ref @ '' must be top-level but has a parent''
      else if k = ''C_WRONG_KIND_PARENT''
        then link_noun criterion @ '' '' @ ref @ '' parent is not '' @ link_wanted criterion
      else link_noun criterion @ '' '' @ ref @ '' has no parent'')"

lemma link_contradiction_summary:
  assumes "c \<in> set (parent_contradiction arts k orphan noun wanted a)"
    and "orphan \<in> {''C_ORPHAN_ACCEPTANCE'', ''C_ORPHAN_ORACLE''}"
    and "noun = link_noun b" "wanted = link_wanted b"
  shows "co_refs c = [sv_ref a] \<and> co_summary c = summary_of b (co_kind c) (sv_ref a)"
  using parent_contradiction_mem [OF assms(1)] assms(2-4)
  by (auto simp: mk_contradiction_def summary_of_def simp del: append.simps append_Cons)

definition contradiction_parts :: "structural_view list \<Rightarrow> contradiction list list" where
  "contradiction_parts arts =
     [map (\<lambda>a. mk_contradiction ''C_SELF_PARENT'' (sv_ref a) (sv_ref a @ '' is its own parent''))
        (self_parents arts),
      map (\<lambda>r. mk_contradiction ''C_REQUIREMENT_HAS_PARENT'' (sv_ref r)
            (''requirement '' @ sv_ref r @ '' must be top-level but has a parent''))
        (filter (\<lambda>r. sv_parent r \<noteq> None) (other_parents arts (requirements arts))),
      concat (map (parent_contradiction arts ''requirement'' ''C_ORPHAN_ACCEPTANCE''
        ''acceptance criterion'' ''a requirement'') (other_parents arts (acceptance arts))),
      concat (map (parent_contradiction arts ''acceptance_criterion'' ''C_ORPHAN_ORACLE''
        ''test oracle'' ''an acceptance criterion'') (other_parents arts (oracles arts)))]"

lemma raw_contradictions_parts: "raw_contradictions arts = concat (contradiction_parts arts)"
  by (simp add: raw_contradictions_def contradiction_parts_def)

lemma link_contradictions_inj:
  assumes "orphan \<in> {''C_ORPHAN_ACCEPTANCE'', ''C_ORPHAN_ORACLE''}"
    and "noun = link_noun b" "wanted = link_wanted b"
  shows "inj_on contradiction_key (set (concat (map (parent_contradiction arts k orphan noun wanted) as)))"
proof (rule inj_onI)
  let ?C = "set (concat (map (parent_contradiction arts k orphan noun wanted) as))"
  have summary: "co_summary c = summary_of b (co_kind c) (hd (co_refs c))" if c: "c \<in> ?C" for c
  proof -
    obtain a where "c \<in> set (parent_contradiction arts k orphan noun wanted a)" using c by auto
    from link_contradiction_summary [OF this assms] show ?thesis by simp
  qed
  fix c d
  assume "c \<in> ?C" "d \<in> ?C" and key: "contradiction_key c = contradiction_key d"
  then have "co_summary c = co_summary d"
    using summary by (simp add: contradiction_key_def)
  with key show "c = d" by (simp add: contradiction_key_def)
qed

lemma mk_contradictions_inj:
  "inj_on contradiction_key (set (map (\<lambda>a. mk_contradiction k (sv_ref a) (f (sv_ref a))) as))"
  by (auto simp: inj_on_def contradiction_key_def mk_contradiction_def)

section \<open>Sorting parts that agree\<close>

definition same_part :: "('a \<Rightarrow> 'k) \<Rightarrow> 'a list \<Rightarrow> 'a list \<Rightarrow> bool" where
  "same_part f xs ys = (mset xs = mset ys \<and> inj_on f (set xs))"

lemma replicate_of_same: "(\<And>x. x \<in> set xs \<Longrightarrow> x = z) \<Longrightarrow> xs = replicate (length xs) z"
  by (induction xs) auto

lemma same_part_filter:
  assumes "same_part f xs ys"
  shows "filter (\<lambda>x. k = f x) xs = filter (\<lambda>x. k = f x) ys"
proof (cases "filter (\<lambda>x. k = f x) xs")
  case Nil
  have "mset (filter (\<lambda>x. k = f x) ys) = mset (filter (\<lambda>x. k = f x) xs)"
    using assms by (simp add: same_part_def)
  with Nil show ?thesis by simp
next
  case (Cons z zs)
  then have "z \<in> set (filter (\<lambda>x. k = f x) xs)" by simp
  then have z: "z \<in> set xs" "k = f z" by simp_all
  have len: "length (filter (\<lambda>x. k = f x) ys) = length (filter (\<lambda>x. k = f x) xs)"
    using assms by (metis same_part_def mset_filter size_mset)
  have "x = z" if "x \<in> set xs" "k = f x" for x
    using that z assms by (auto simp: same_part_def dest: inj_onD)
  moreover have "set ys = set xs" using assms by (metis same_part_def mset_eq_setD)
  ultimately have "filter (\<lambda>x. k = f x) xs = replicate (length (filter (\<lambda>x. k = f x) xs)) z"
    "filter (\<lambda>x. k = f x) ys = replicate (length (filter (\<lambda>x. k = f x) ys)) z"
    by (intro replicate_of_same; simp)+
  with len show ?thesis by simp
qed

lemma sort_key_parts:
  assumes "list_all2 (same_part f) Xs Ys"
  shows "sort_key f (concat Xs) = sort_key f (concat Ys)"
proof (rule properties_for_sort_key)
  have "mset (concat Ys) = mset (concat Xs)"
    using assms by (induction rule: list_all2_induct) (simp_all add: same_part_def)
  then show "mset (sort_key f (concat Ys)) = mset (concat Xs)" by simp
  have stable: "filter (\<lambda>x. k = f x) (sort_key f zs) = filter (\<lambda>x. k = f x) zs" for k zs
    using sort_key_stable [of f k zs] by (simp add: eq_commute)
  have "filter (\<lambda>x. k = f x) (concat Xs) = filter (\<lambda>x. k = f x) (concat Ys)" for k
    using assms by (induction rule: list_all2_induct) (simp_all add: same_part_filter)
  then show "\<And>k. k \<in> set (sort_key f (concat Ys)) \<Longrightarrow>
      filter (\<lambda>x. f k = f x) (sort_key f (concat Ys)) = filter (\<lambda>x. f k = f x) (concat Xs)"
    by (simp add: stable)
qed simp

lemma reordered_contradictions:
  assumes "reordered as bs"
  shows "sort_key contradiction_key (raw_contradictions as) = sort_key contradiction_key (raw_contradictions bs)"
proof -
  have p: "parent_contradiction as = parent_contradiction bs"
    by (simp add: fun_eq_iff parent_contradiction_def reordered_parent_kind [OF assms])
  have links: "same_part contradiction_key
      (concat (map (parent_contradiction bs k orphan noun wanted) (other_parents as (of_kind j as))))
      (concat (map (parent_contradiction bs k orphan noun wanted) (other_parents bs (of_kind j bs))))"
    if "orphan \<in> {''C_ORPHAN_ACCEPTANCE'', ''C_ORPHAN_ORACLE''}" "noun = link_noun b" "wanted = link_wanted b"
    for j k orphan noun wanted b
    unfolding same_part_def
    by (intro conjI mset_concat_map reordered_others [OF assms] link_contradictions_inj [OF that])
  have marks: "same_part contradiction_key (map (\<lambda>a. mk_contradiction k (sv_ref a) (f (sv_ref a))) xs)
      (map (\<lambda>a. mk_contradiction k (sv_ref a) (f (sv_ref a))) ys)" if "mset xs = mset ys" for k f and xs ys :: "structural_view list"
    unfolding same_part_def by (intro conjI mk_contradictions_inj) (simp add: that)
  have tops: "mset (filter (\<lambda>r. sv_parent r \<noteq> None) (other_parents as (requirements as))) =
      mset (filter (\<lambda>r. sv_parent r \<noteq> None) (other_parents bs (requirements bs)))"
    by (simp only: mset_filter reordered_others(1) [OF assms])
  have "list_all2 (same_part contradiction_key) (contradiction_parts as) (contradiction_parts bs)"
    unfolding contradiction_parts_def p
    by (intro list.rel_intros marks tops reordered_others(2) [OF assms]
        links [where b = True] links [where b = False])
      (simp_all add: link_noun_def link_wanted_def)
  then show ?thesis
    using sort_key_parts by (simp add: raw_contradictions_parts)
qed

text \<open>The detector does not depend on the order the artifacts are read in: with distinct ids and
  refs distinct within each kind (what the table's keys guarantee), two orders of the same artifacts
  give the same report, its gaps sorted by kind and ref, its contradictions by kind and refs.\<close>

theorem findings_order_independent:
  assumes "mset as = mset bs" "distinct (map sv_id as)" "distinct (map kind_ref as)"
  shows "detect_findings project as = detect_findings project bs \<and>
         sorted (map gap_key (fr_gaps (detect_findings project as))) \<and>
         sorted (map contradiction_key (fr_contradictions (detect_findings project as)))"
proof -
  have r: "reordered as bs" using assms(1,2) by (simp add: reordered_def)
  have "list_all2 (same_part gap_key) [raw_gaps as] [raw_gaps bs]"
    by (simp add: same_part_def reordered_raw_gaps [OF r] gap_key_inj [OF assms(3)])
  from sort_key_parts [OF this] show ?thesis
    by (simp add: detect_findings_def reordered_contradictions [OF r])
qed

lemma findings_order_independent_witness:
  "detect_findings ''p'' (structural example_spine) = detect_findings ''p'' (rev (structural example_spine))"
  by (rule findings_order_independent [THEN conjunct1])
    (simp_all add: structural_def example_spine_def structural_view.truncate_def kind_ref_def)

section \<open>The stored evidence behind a level\<close>

lemma mem_declared_set:
  "c \<in> set (declared_set (category_declarations ctx project d)) \<longleftrightarrow>
     (\<exists>row\<in>set (intake_categories d). ic_tenant row = ctx_tenant ctx \<and> ic_project row = project \<and>
        ic_category row = c \<and> ic_status row = ''declared'' \<and> source_stands ctx project d row)"
  by (auto simp: declared_set_def category_declarations_def list_categories_def image_iff)

lemma source_standsD:
  "source_stands ctx project d row \<Longrightarrow> ic_document row = Some i \<Longrightarrow>
     \<exists>doc\<in>set (documents d). dc_id doc = i \<and> dc_tenant doc = ctx_tenant ctx \<and> dc_project doc = project \<and>
        dc_status doc = ''accepted''"
  using find_Some_mem by (fastforce simp: source_stands_def document_get_def split: option.splits)

lemma deploy_production_not_allowed: "decision_for ctx project ''deploy_production'' d \<noteq> Inr ALLOW"
proof
  assume "decision_for ctx project ''deploy_production'' d = Inr ALLOW"
  then obtain p where "validated_decision p ''deploy_production'' = Inr ALLOW"
    by (rule decision_for_ALLOW_D)
  then show False
    by (auto simp: validated_decision_ALLOW MATRIX_def mk_rule_def)
qed

text \<open>
  A category is evidenced by one declared row of the project with one source, in the shape of the
  one-source rule: a stated origin and nothing else, or a place in a document of the same tenant and
  project that is accepted now.
\<close>

definition evidenced :: "tenant_context \<Rightarrow> uuid \<Rightarrow> intake_db \<Rightarrow> string \<Rightarrow> bool" where
  "evidenced ctx project d c =
     (\<exists>row\<in>set (intake_categories d). ic_tenant row = ctx_tenant ctx \<and> ic_project row = project \<and>
        ic_category row = c \<and> ic_status row = ''declared'' \<and>
        (case ic_document row of
           None \<Rightarrow> ic_locator row = None \<and> non_blank (ic_origin row)
         | Some i \<Rightarrow> ic_origin row = None \<and> non_blank (ic_locator row) \<and>
             (\<exists>doc\<in>set (documents d). dc_id doc = i \<and> dc_tenant doc = ctx_tenant ctx \<and>
                dc_project doc = project \<and> dc_status doc = ''accepted'')))"

lemma declared_evidenced:
  assumes "intake_reachable d" "c \<in> set (declared_set (category_declarations ctx project d))"
  shows "evidenced ctx project d c"
proof -
  from assms(2) obtain row where row: "row \<in> set (intake_categories d)" "ic_tenant row = ctx_tenant ctx"
    "ic_project row = project" "ic_category row = c" "ic_status row = ''declared''" "source_stands ctx project d row"
    unfolding mem_declared_set by blast
  have "one_source (ic_document row) (ic_locator row) (ic_origin row)"
    using reachable_category_table [OF assms(1)] row(1) by (simp add: category_table_def well_declared_def)
  with source_standsD [OF row(6)] row(2-5) show ?thesis
    unfolding evidenced_def one_source_def by (intro bexI [OF _ row(1)]) (auto split: option.split)
qed

text \<open>C17: What a recorded level rests on, in a store whose categories were declared and revised through the
  repository.  From R3 on every technical category, from R4 on also the tool categories, and at R5
  every declarable category, is declared for this project with exactly one source: a non-blank origin,
  or a non-blank place in a document of the same tenant and project that is accepted now.  At R5,
  the one level that asks for them, also one policy row whose overrides only tighten and a budget above
  zero.  At any level the recorded row says the level, the report never shows production deployment as allowed, and but
  for the report no table changes except the audit log and the id counter.\<close>

theorem recorded_level_is_evidenced:
  assumes "intake_reachable d" "readiness_evaluate_and_record ctx project actor d = Inr (r, row, d')"
  shows "(R3 \<le> rr_level r \<longrightarrow> (\<forall>c\<in>set R3_TECHNICAL_CATEGORIES. evidenced ctx project d c)) \<and>
    (R4 \<le> rr_level r \<longrightarrow> (\<forall>c\<in>set R4_TOOL_CATEGORIES. evidenced ctx project d c)) \<and>
    (rr_level r = R5 \<longrightarrow> (\<forall>c\<in>set DECLARABLE_INTAKE_CATEGORIES. evidenced ctx project d c) \<and>
       (\<exists>p. policy_get_for_project ctx project (core d) = Inr (Some p) \<and> tightening_map (pol_overrides p)) \<and>
       (\<exists>b. budget_get ctx project (core d) = Inr (Some b) \<and> 0 < bu_max_total b)) \<and>
    rr_authority r \<noteq> ''allow'' \<and>
    rp_level row = level_value (rr_level r) \<and> readiness_reports d' = readiness_reports d @ [row] \<and>
    intake_categories d' = intake_categories d \<and> documents d' = documents d \<and> artifacts d' = artifacts d \<and>
    (core d')\<lparr>audit_log := audit_log (core d), db_next_id := db_next_id (core d)\<rparr> = core d \<and>
    foreign (ctx_tenant ctx) (core d') = foreign (ctx_tenant ctx) (core d)"
proof -
  let ?ds = "category_declarations ctx project d"
  obtain decision autonomy cost where
      dec: "decision_for ctx project ''deploy_production'' (core d) = Inr decision"
    and gates: "r5_engine_gates ctx project d = Inr (autonomy, cost)"
    and r: "r = evaluate_readiness (uuid_str project) (map view_of_artifact (list_artifacts ctx project d))
        (authority_value decision) ?ds autonomy cost"
    and rows: "rp_level row = level_value (rr_level r)" "readiness_reports d' = readiness_reports d @ [row]"
    "intake_categories d' = intake_categories d" "documents d' = documents d" "artifacts d' = artifacts d"
    "foreign (ctx_tenant ctx) (core d') = foreign (ctx_tenant ctx) (core d)"
    and frame: "(core d')\<lparr>audit_log := audit_log (core d), db_next_id := db_next_id (core d)\<rparr> = core d"
    using assms(2) by (auto simp: readiness_evaluate_and_record_def readiness_evaluate_def Let_def readiness_audit_def
        audit_record_def)
  have r3: "R3 \<le> rr_level r \<Longrightarrow> set R3_TECHNICAL_CATEGORIES \<subseteq> set (declared_set ?ds)"
    and r4: "R4 \<le> rr_level r \<Longrightarrow> set R4_TOOL_CATEGORIES \<subseteq> set (declared_set ?ds)"
    and r5: "rr_level r = R5 \<Longrightarrow> set DECLARABLE_INTAKE_CATEGORIES \<subseteq> set (declared_set ?ds) \<and> autonomy \<and> cost"
    unfolding r evaluate_readiness_sel level_le_simps readiness_level_iffs R5_DECLARABLE_CATEGORIES_def by blast+
  have "autonomy \<Longrightarrow> \<exists>p. policy_get_for_project ctx project (core d) = Inr (Some p) \<and> tightening_map (pol_overrides p)"
    and "cost \<Longrightarrow> \<exists>b. budget_get ctx project (core d) = Inr (Some b) \<and> 0 < bu_max_total b"
    using gates by (auto simp: r5_engine_gates_def tightening_map_iff split: option.splits)
  moreover have "rr_authority r \<noteq> ''allow''"
    using dec deploy_production_not_allowed [of ctx project "core d"]
    unfolding r evaluate_readiness_sel by (cases decision) auto
  ultimately show ?thesis
    using r3 r4 r5 rows frame declared_evidenced [OF assms(1)] by blast
qed

text \<open>Declaring categories one after the other, each with an origin.\<close>

definition origin_declared :: "tenant_context \<Rightarrow> uuid \<Rightarrow> category_row \<Rightarrow> bool" where
  "origin_declared ctx project r \<longleftrightarrow> ic_tenant r = ctx_tenant ctx \<and> ic_project r = project \<and>
     ic_status r = ''declared'' \<and> ic_document r = None"

lemma declare_each:
  "intake_reachable d \<Longrightarrow> set cs \<subseteq> set DECLARABLE_INTAKE_CATEGORIES \<Longrightarrow> distinct cs \<Longrightarrow>
     \<forall>c\<in>set cs. category_rows ctx project c d = [] \<Longrightarrow>
     \<exists>d' rows. intake_reachable d' \<and> intake_categories d' = intake_categories d @ rows \<and> map ic_category rows = cs \<and>
       list_all (origin_declared ctx project) rows"
proof (induction cs arbitrary: d)
  case (Cons c cs)
  let ?q = "\<lparr>cd_category = c, cd_actor_name = ''ann'', cd_status = None, cd_summary = None, cd_data = PNone,
     cd_document = None, cd_locator = None, cd_origin = Some ''ann''\<rparr>"
  let ?r = "new_category ctx project ?q ''declared'' d"
  have "category_rows ctx project c d = []" using Cons.prems(4) by simp
  then have "\<exists>d1. declare_category ctx project ?q d = Inr (?r, d1) \<and> intake_categories d1 = intake_categories d @ [?r]"
    using Cons.prems(2) by (simp add: declare_category_def Let_def category_validate_iff VALID_STATUS_def
        validate_category_data_def one_source_def non_blank_def check_document_def py_strip_def py_space_def)
  then obtain d1 where d1: "declare_category ctx project ?q d = Inr (?r, d1)"
    "intake_categories d1 = intake_categories d @ [?r]" by blast
  have "\<exists>d' rows. intake_reachable d' \<and> intake_categories d' = intake_categories d1 @ rows \<and> map ic_category rows = cs \<and>
      list_all (origin_declared ctx project) rows"
    by (rule Cons.IH [OF intake_reachable.declared [OF Cons.prems(1) d1(1)]])
      (use Cons.prems d1(2) in \<open>auto simp: category_rows_def new_category_def\<close>)
  then obtain d' rows where d': "intake_reachable d'" "intake_categories d' = intake_categories d1 @ rows"
    "map ic_category rows = cs" "list_all (origin_declared ctx project) rows" by blast
  moreover have "origin_declared ctx project ?r" "ic_category ?r = c"
    by (simp_all add: new_category_def origin_declared_def)
  ultimately show ?case
    unfolding d1(2) by (intro exI [of _ d'] exI [of _ "?r # rows"]) simp
qed auto

text \<open>A project with the example's spine and policy whose technical categories have just been declared.\<close>

definition example_readiness_db :: "category_row list \<Rightarrow> nat \<Rightarrow> intake_db" where
  "example_readiness_db rows n = empty_intake\<lparr>core := example_policy_db\<lparr>db_next_id := n\<rparr>, intake_categories := rows,
     artifacts := map (\<lambda>v. \<lparr>ar_id = sv_id v, ar_tenant = 7, ar_project = 3, ar_kind = sv_kind v, ar_ref = sv_ref v,
       ar_title = av_title v, ar_parent = sv_parent v, ar_classification = sv_classification v\<rparr>) example_spine\<rparr>"

lemma example_readiness_reachable:
  "\<exists>rows n. intake_reachable (example_readiness_db rows n) \<and> map ic_category rows = R3_TECHNICAL_CATEGORIES \<and>
     list_all (origin_declared example_intake_ctx 3) rows"
proof -
  have "intake_reachable empty_intake" by (rule intake_reachable.start) (simp add: empty_intake_def)
  from declare_each [OF this, of R3_TECHNICAL_CATEGORIES example_intake_ctx 3]
  obtain d rows where d: "intake_reachable d" "intake_categories d = rows"
    "map ic_category rows = R3_TECHNICAL_CATEGORIES" "list_all (origin_declared example_intake_ctx 3) rows"
    by (auto simp: R3_TECHNICAL_CATEGORIES_def DECLARABLE_INTAKE_CATEGORIES_def category_rows_def empty_intake_def)
  have "intake_reachable (example_readiness_db rows (db_next_id (core d)))"
    by (rule intake_reachable.elsewhere [OF d(1)]) (simp_all add: example_readiness_db_def d(2))
  with d(3,4) show ?thesis by blast
qed

lemma example_readiness_recorded:
  "\<exists>d r row d'. intake_reachable d \<and> readiness_evaluate_and_record example_intake_ctx 3 ''ann'' d = Inr (r, row, d') \<and>
     rr_level r = R3"
proof -
  obtain rows n where rows: "intake_reachable (example_readiness_db rows n)"
    "map ic_category rows = R3_TECHNICAL_CATEGORIES" "list_all (origin_declared example_intake_ctx 3) rows"
    using example_readiness_reachable by blast
  let ?d = "example_readiness_db rows n"
  have arts: "map view_of_artifact (list_artifacts example_intake_ctx 3 ?d) = example_spine"
    by (simp add: list_artifacts_def example_readiness_db_def example_spine_def example_intake_ctx_def
        view_of_artifact_def)
  have "filter (source_stands example_intake_ctx 3 ?d) (list_categories example_intake_ctx 3 ?d) = rows"
    using rows(3) by (simp add: list_categories_def example_readiness_db_def source_stands_def origin_declared_def
        list_all_iff filter_id_conv)
  then have ds: "declared_set (category_declarations example_intake_ctx 3 ?d) = R3_TECHNICAL_CATEGORIES"
    using rows(2,3) by (simp add: declared_set_def category_declarations_def origin_declared_def list_all_iff
        filter_map comp_def cong: filter_cong)
  have lvl: "readiness_level example_spine (category_declarations example_intake_ctx 3 ?d) a c = R3" for a c
  proof -
    have "spine_level example_spine = R2"
      by (simp add: spine_level_R2_iff [OF example_spine_ids] complete_has_chain example_spine_complete)
    moreover have "missing_of R4_TOOL_CATEGORIES (category_declarations example_intake_ctx 3 ?d) \<noteq> []"
      unfolding missing_of_Nil_iff ds by (simp add: R3_TECHNICAL_CATEGORIES_def R4_TOOL_CATEGORIES_def)
    moreover have "missing_of R3_TECHNICAL_CATEGORIES (category_declarations example_intake_ctx 3 ?d) = []"
      unfolding missing_of_Nil_iff ds by simp
    ultimately show ?thesis by (simp add: readiness_level_def climb_def)
  qed
  have pol: "policy_get_for_project example_intake_ctx 3 (core ?d) = Inr (Some example_policy)"
    using example_policy_get by (simp add: example_intake_ctx_def example_readiness_db_def policy_get_for_project_def)
  have dec: "\<exists>x. decision_for example_intake_ctx 3 ''deploy_production'' (core ?d) = Inr x"
    using pol by (cases "validated_decision example_policy ''deploy_production''")
      (auto simp: decision_for_def dest: validated_decision_error split: policy_error.splits)
  have bud: "budget_get example_intake_ctx 3 (core ?d) = Inr None"
    by (simp add: budget_get_def example_readiness_db_def example_policy_db_def empty_db_def)
  show ?thesis
    using rows(1) dec pol bud by (intro exI [of _ ?d]) (auto simp: readiness_evaluate_and_record_def readiness_evaluate_def
        r5_engine_gates_def lift_error_def arts lvl Let_def)
qed

lemma recorded_level_is_evidenced_witness:
  "\<exists>d. evidenced example_intake_ctx 3 d ''data_model_and_contracts''"
proof -
  obtain d r row d' where e: "intake_reachable d"
      "readiness_evaluate_and_record example_intake_ctx 3 ''ann'' d = Inr (r, row, d')" "rr_level r = R3"
    using example_readiness_recorded by blast
  have "\<forall>c\<in>set R3_TECHNICAL_CATEGORIES. evidenced example_intake_ctx 3 d c"
    using recorded_level_is_evidenced [OF e(1,2)] e(3) by simp
  then show ?thesis by (auto simp: R3_TECHNICAL_CATEGORIES_def)
qed

end
