(* ===== verification/Gate_Evidence.thy ===== *)
theory Gate_Evidence
  imports Emergency
begin

text \<open>
  The thirteen Appendix-B gates of the A5 evaluator (\<open>app/release/production_autonomy.py\<close>).  The
  keyword arguments a gate reads are a record, with its defaults; the \<open>if\<close>/\<open>elif\<close> chain that
  scores the gate is a list of rungs, each a condition and the reason it gives, and the gate fails
  with the reason of the first rung whose condition holds.
\<close>

section \<open>Gate results\<close>

definition STATUS_PASSED :: string where
  "STATUS_PASSED = ''passed''"

definition STATUS_INSUFFICIENT :: string where
  "STATUS_INSUFFICIENT = ''insufficient_evidence''"

record gate_result =
  gr_number :: int
  gr_gate :: string
  gr_status :: string
  gr_reason :: string
  gr_context :: pydict

definition insufficient :: "int \<Rightarrow> string \<Rightarrow> string \<Rightarrow> pydict \<Rightarrow> gate_result" where
  "insufficient number gate reason ctx =
     \<lparr>gr_number = number, gr_gate = gate, gr_status = STATUS_INSUFFICIENT, gr_reason = reason,
      gr_context = ctx\<rparr>"

definition passed :: "int \<Rightarrow> string \<Rightarrow> string \<Rightarrow> pydict \<Rightarrow> gate_result" where
  "passed number gate reason ctx =
     \<lparr>gr_number = number, gr_gate = gate, gr_status = STATUS_PASSED, gr_reason = reason,
      gr_context = ctx\<rparr>"

definition ladder ::
  "int \<Rightarrow> string \<Rightarrow> pydict \<Rightarrow> (bool \<times> string) list \<Rightarrow> string \<Rightarrow> gate_result" where
  "ladder number gate ctx rungs pass_reason =
     (case List.find fst rungs of
        Some rung \<Rightarrow> insufficient number gate (snd rung) ctx
      | None \<Rightarrow> passed number gate pass_reason ctx)"

definition gate3_protection_sufficient :: "bool option \<Rightarrow> bool option \<Rightarrow> int \<Rightarrow> bool" where
  "gate3_protection_sufficient protection_enabled required_pull_request_reviews required_count =
     (protection_enabled = Some True \<and> required_pull_request_reviews = Some True \<and>
      required_count \<ge> 1)"

definition EMERGENCY_CONTROL_CONTRACT_VERSION :: string where
  "EMERGENCY_CONTROL_CONTRACT_VERSION = ''slice54.emergency_control.v1''"

definition EMERGENCY_STOP_CONTRACT_VERSION :: string where
  "EMERGENCY_STOP_CONTRACT_VERSION = ''slice54.emergency_stop.v1''"

definition ROLLBACK_AUTHORITY_CONTRACT_VERSION :: string where
  "ROLLBACK_AUTHORITY_CONTRACT_VERSION = ''slice54.rollback_authority.v1''"

definition SCOPE_LIMITATION_CODES :: "string list" where
  "SCOPE_LIMITATION_CODES =
     [''local_uaid_runtime_step_boundary_only'', ''in_flight_node_not_preempted'',
      ''production_rollback_not_executed'', ''rollback_path_connector_observed_staging_only'',
      ''authority_is_request_authenticated_key_custody_under_recorded_policy'']"

section \<open>Gate 1: Intake complete\<close>

definition gate1 :: "string \<Rightarrow> gate_result" where
  "gate1 readiness_level =
     (if readiness_level = ''R5'' then passed 1 ''r5_intake_complete'' ''readiness_r5'' []
      else insufficient 1 ''r5_intake_complete'' (''readiness_below_r5:'' @ readiness_level) [])"

section \<open>Gate 2: Production deployment target\<close>

record target_evidence =
  deployment_target_bound :: bool
  latest_deployment_target_provenance :: "string option"
  latest_deployment_target_available :: "bool option"
  latest_deployment_target_fresh :: bool

definition default_target_evidence :: target_evidence where
  "default_target_evidence = \<lparr>deployment_target_bound = False,
     latest_deployment_target_provenance = None,
     latest_deployment_target_available = None,
     latest_deployment_target_fresh = False\<rparr>"

definition gate2_rungs :: "target_evidence \<Rightarrow> (bool \<times> string) list" where
  "gate2_rungs e =
     [(\<not> deployment_target_bound e, ''no_environment_declaration''),
      (latest_deployment_target_provenance e = None,
       ''environments_declared_but_no_target_evidence''),
      (latest_deployment_target_provenance e \<noteq> Some ''connector_verified'',
       ''deployment_target_observed_unverified''),
      (\<not> latest_deployment_target_fresh e, ''deployment_target_evidence_stale''),
      (latest_deployment_target_available e \<noteq> Some True, ''deployment_target_unavailable'')]"

definition gate2 :: "target_evidence \<Rightarrow> gate_result" where
  "gate2 e = ladder 2 ''production_deployment_target_available'' [] (gate2_rungs e)
     ''production_deployment_target_available_verified''"

section \<open>Gate 3: Branch protection\<close>

record protection_evidence =
  branch_protection_snapshot_count :: int
  connector_verified_branch_protection_count :: int
  latest_branch_protection_provenance :: "string option"
  latest_branch_protection_enabled :: "bool option"
  latest_required_status_check_count :: int
  branch_protection_repo_bound :: bool
  latest_branch_protection_required_pull_request_reviews :: "bool option"
  latest_branch_protection_fresh :: bool

definition default_protection_evidence :: protection_evidence where
  "default_protection_evidence = \<lparr>branch_protection_snapshot_count = 0,
     connector_verified_branch_protection_count = 0,
     latest_branch_protection_provenance = None,
     latest_branch_protection_enabled = None,
     latest_required_status_check_count = 0,
     branch_protection_repo_bound = False,
     latest_branch_protection_required_pull_request_reviews = None,
     latest_branch_protection_fresh = False\<rparr>"

definition gate3_context :: "protection_evidence \<Rightarrow> pydict" where
  "gate3_context e =
     [(''branch_protection_repo_bound'', PBool (branch_protection_repo_bound e)),
      (''branch_protection_snapshot_count'', PInt (branch_protection_snapshot_count e)),
      (''connector_verified_branch_protection_count'', PInt
        (connector_verified_branch_protection_count e)),
      (''latest_branch_protection_provenance'', opt_str (latest_branch_protection_provenance e)),
      (''latest_branch_protection_enabled'', opt_bool (latest_branch_protection_enabled e)),
      (''latest_required_status_check_count'', PInt (latest_required_status_check_count e))]"

definition gate3_rungs :: "protection_evidence \<Rightarrow> (bool \<times> string) list" where
  "gate3_rungs e =
     [(\<not> branch_protection_repo_bound e, ''branch_protection_repo_unbound''),
      (latest_branch_protection_provenance e = None, ''no_branch_protection_evidence''),
      (latest_branch_protection_provenance e \<noteq> Some ''connector_verified'',
       ''branch_protection_observed_unverified''),
      (\<not> latest_branch_protection_fresh e, ''branch_protection_evidence_stale''),
      (\<not> (gate3_protection_sufficient (latest_branch_protection_enabled e) (latest_branch_protection_required_pull_request_reviews e) (latest_required_status_check_count e)),
       ''branch_protection_insufficient'')]"

definition gate3 :: "protection_evidence \<Rightarrow> gate_result" where
  "gate3 e = ladder 3 ''branch_protection_and_required_checks_active'' (gate3_context e)
    (gate3_rungs e)
     ''branch_protection_and_required_checks_active_verified''"

section \<open>Gate 4: Test oracles\<close>

record oracle_evidence =
  test_oracle_scope_resolved :: bool
  test_oracle_scope_count :: int
  test_oracle_valid_definition_count :: int
  test_oracle_invalid_definition_count :: int
  test_oracle_binding_present :: bool
  test_oracle_unrun_count :: int
  test_oracle_untrusted_count :: int
  test_oracle_incomplete_count :: int
  test_oracle_execution_failed_count :: int
  test_oracle_judgment_control_failed_count :: int
  test_oracle_failed_count :: int
  test_oracle_passed_count :: int

definition default_oracle_evidence :: oracle_evidence where
  "default_oracle_evidence = \<lparr>test_oracle_scope_resolved = True,
     test_oracle_scope_count = 0,
     test_oracle_valid_definition_count = 0,
     test_oracle_invalid_definition_count = 0,
     test_oracle_binding_present = False,
     test_oracle_unrun_count = 0,
     test_oracle_untrusted_count = 0,
     test_oracle_incomplete_count = 0,
     test_oracle_execution_failed_count = 0,
     test_oracle_judgment_control_failed_count = 0,
     test_oracle_failed_count = 0,
     test_oracle_passed_count = 0\<rparr>"

definition gate4_context :: "oracle_evidence \<Rightarrow> pydict" where
  "gate4_context e =
     [(''scope_resolved'', PBool (test_oracle_scope_resolved e)),
      (''scoped_oracle_count'', PInt (test_oracle_scope_count e)),
      (''valid_definition_count'', PInt (test_oracle_valid_definition_count e)),
      (''invalid_definition_count'', PInt (test_oracle_invalid_definition_count e)),
      (''binding_present'', PBool (test_oracle_binding_present e)),
      (''unrun_count'', PInt (test_oracle_unrun_count e)),
      (''untrusted_count'', PInt (test_oracle_untrusted_count e)),
      (''incomplete_count'', PInt (test_oracle_incomplete_count e)),
      (''execution_failed_count'', PInt (test_oracle_execution_failed_count e)),
      (''judgment_control_failed_count'', PInt (test_oracle_judgment_control_failed_count e)),
      (''failed_count'', PInt (test_oracle_failed_count e)),
      (''passed_count'', PInt (test_oracle_passed_count e))]"

definition gate4_rungs :: "oracle_evidence \<Rightarrow> (bool \<times> string) list" where
  "gate4_rungs e =
     [(\<not> test_oracle_scope_resolved e,
      ''insufficient_evidence:critical_oracle_scope_unresolved''),
      (test_oracle_scope_count e \<le> 0,
       ''insufficient_evidence:no_proven_critical_oracle_scope''),
      (test_oracle_valid_definition_count e < 0 \<or> test_oracle_invalid_definition_count e < 0
        \<or> test_oracle_valid_definition_count e + test_oracle_invalid_definition_count e
          \<noteq> test_oracle_scope_count e,
       ''insufficient_evidence:critical_oracle_evidence_inconsistent''),
      (test_oracle_invalid_definition_count e > 0,
       ''insufficient_evidence:critical_feature_without_valid_oracle''),
      (\<not> test_oracle_binding_present e,
       ''insufficient_evidence:critical_oracle_binding_unresolved''),
      (list_ex (\<lambda>count. count < 0)  [test_oracle_unrun_count e,
        test_oracle_untrusted_count e, test_oracle_incomplete_count e,
        test_oracle_execution_failed_count e, test_oracle_judgment_control_failed_count e,
        test_oracle_failed_count e, test_oracle_passed_count e]
        \<or> test_oracle_unrun_count e + test_oracle_untrusted_count e
          + test_oracle_incomplete_count e + test_oracle_execution_failed_count e
          + test_oracle_judgment_control_failed_count e + test_oracle_failed_count e
          + test_oracle_passed_count e \<noteq> test_oracle_valid_definition_count e,
       ''insufficient_evidence:critical_oracle_evidence_inconsistent''),
      (test_oracle_unrun_count e > 0, ''insufficient_evidence:critical_oracle_not_executed''),
      (test_oracle_untrusted_count e > 0,
       ''insufficient_evidence:critical_oracle_observation_untrusted''),
      (test_oracle_incomplete_count e > 0, ''insufficient_evidence:critical_oracle_incomplete''),
      (test_oracle_execution_failed_count e > 0,
       ''insufficient_evidence:critical_oracle_execution_failed''),
      (test_oracle_judgment_control_failed_count e > 0,
       ''insufficient_evidence:critical_oracle_judgment_controls_failed''),
      (test_oracle_failed_count e > 0
        \<or> test_oracle_passed_count e \<noteq> test_oracle_scope_count e,
       ''insufficient_evidence:critical_oracle_failed'')]"

definition gate4 :: "oracle_evidence \<Rightarrow> gate_result" where
  "gate4 e = ladder 4 ''all_critical_test_oracles_pass'' (gate4_context e) (gate4_rungs e)
     ''passed:all_critical_test_oracles_pass_verified''"

section \<open>Gate 5: Security findings\<close>

record security_evidence =
  open_security_finding_count :: int
  open_unaccepted_critical_security_finding_count :: int
  security_scan_scope_resolved :: bool
  security_scan_binding_resolved :: bool
  security_scan_run_present :: bool
  security_scan_artifact_trusted :: bool
  security_scan_execution_failed :: bool
  security_scan_coverage_complete :: bool
  security_scan_evidence_consistent :: bool
  security_scan_mandatory_category_count :: int
  security_scan_completed_category_count :: int
  security_scan_failed_category_count :: int
  security_scan_finding_count :: int

definition default_security_evidence :: security_evidence where
  "default_security_evidence = \<lparr>open_security_finding_count = 0,
     open_unaccepted_critical_security_finding_count = 0,
     security_scan_scope_resolved = True,
     security_scan_binding_resolved = False,
     security_scan_run_present = False,
     security_scan_artifact_trusted = False,
     security_scan_execution_failed = False,
     security_scan_coverage_complete = False,
     security_scan_evidence_consistent = False,
     security_scan_mandatory_category_count = 5,
     security_scan_completed_category_count = 0,
     security_scan_failed_category_count = 0,
     security_scan_finding_count = 0\<rparr>"

definition gate5_counts_consistent :: "security_evidence \<Rightarrow> bool" where
  "gate5_counts_consistent e =
     (security_scan_mandatory_category_count e = 5 \<and>
      security_scan_completed_category_count e \<ge> 0 \<and>
      security_scan_failed_category_count e \<ge> 0 \<and>
      security_scan_completed_category_count e + security_scan_failed_category_count e =
        security_scan_mandatory_category_count e \<and>
      security_scan_finding_count e \<ge> 0 \<and>
      open_security_finding_count e \<ge> 0 \<and>
      open_unaccepted_critical_security_finding_count e \<ge> 0 \<and>
      open_unaccepted_critical_security_finding_count e \<le> open_security_finding_count e \<and>
      (\<not> security_scan_coverage_complete e \<or> (security_scan_completed_category_count e =
        security_scan_mandatory_category_count e \<and> security_scan_failed_category_count e =
        0)))"

definition gate5_evidence_consistent :: "security_evidence \<Rightarrow> bool" where
  "gate5_evidence_consistent e =
     (security_scan_evidence_consistent e \<and>
      gate5_counts_consistent e)"

definition gate5_context :: "security_evidence \<Rightarrow> pydict" where
  "gate5_context e =
     [(''security_scan_scope_resolved'', PBool (security_scan_scope_resolved e)),
      (''security_scan_binding_resolved'', PBool (security_scan_binding_resolved e)),
      (''security_scan_run_present'', PBool (security_scan_run_present e)),
      (''security_scan_artifact_trusted'', PBool (security_scan_artifact_trusted e)),
      (''security_scan_execution_failed'', PBool (security_scan_execution_failed e)),
      (''security_scan_coverage_complete'', PBool (security_scan_coverage_complete e)),
      (''security_scan_evidence_consistent'', PBool (gate5_evidence_consistent e)),
      (''security_scan_mandatory_category_count'', PInt (security_scan_mandatory_category_count e)),
      (''security_scan_completed_category_count'', PInt (security_scan_completed_category_count e)),
      (''security_scan_failed_category_count'', PInt (security_scan_failed_category_count e)),
      (''security_scan_finding_count'', PInt (security_scan_finding_count e)),
      (''open_security_finding_count'', PInt (open_security_finding_count e)),
      (''open_unaccepted_critical_security_finding_count'', PInt
        (open_unaccepted_critical_security_finding_count e))]"

definition gate5_rungs :: "security_evidence \<Rightarrow> (bool \<times> string) list" where
  "gate5_rungs e =
     [(\<not> security_scan_scope_resolved e,
      ''insufficient_evidence:security_scan_scope_unresolved''),
      (\<not> security_scan_binding_resolved e,
       ''insufficient_evidence:security_scan_binding_unresolved''),
      (\<not> security_scan_run_present e, ''insufficient_evidence:security_scan_not_executed''),
      (\<not> security_scan_artifact_trusted e,
       ''insufficient_evidence:security_scan_observed_unverified''),
      (security_scan_execution_failed e, ''insufficient_evidence:security_scan_execution_failed''),
      (\<not> security_scan_coverage_complete e,
       ''insufficient_evidence:security_scan_coverage_incomplete''),
      (\<not> gate5_evidence_consistent e,
       ''insufficient_evidence:security_scan_evidence_inconsistent''),
      (open_unaccepted_critical_security_finding_count e > 0,
       ''insufficient_evidence:critical_security_findings_open'')]"

definition gate5 :: "security_evidence \<Rightarrow> gate_result" where
  "gate5 e = ladder 5 ''no_unaccepted_critical_security_findings'' (gate5_context e) (gate5_rungs e)
     ''passed:no_unaccepted_critical_security_findings_verified''"

section \<open>Gate 6: Shortcut findings\<close>

record shortcut_evidence =
  open_shortcut_finding_count :: int
  open_unaccepted_critical_shortcut_finding_count :: int
  shortcut_review_scope_resolved :: bool
  shortcut_review_binding_resolved :: bool
  shortcut_review_run_present :: bool
  shortcut_review_corpus_trusted :: bool
  shortcut_review_execution_failed :: bool
  shortcut_review_independence_resolved :: bool
  shortcut_review_coverage_complete :: bool
  shortcut_review_evidence_consistent :: bool
  shortcut_review_mandatory_category_count :: int
  shortcut_review_completed_category_count :: int
  shortcut_review_failed_category_count :: int
  shortcut_review_reviewer_count :: int
  shortcut_review_finding_count :: int

definition default_shortcut_evidence :: shortcut_evidence where
  "default_shortcut_evidence = \<lparr>open_shortcut_finding_count = 0,
     open_unaccepted_critical_shortcut_finding_count = 0,
     shortcut_review_scope_resolved = True,
     shortcut_review_binding_resolved = False,
     shortcut_review_run_present = False,
     shortcut_review_corpus_trusted = False,
     shortcut_review_execution_failed = False,
     shortcut_review_independence_resolved = False,
     shortcut_review_coverage_complete = False,
     shortcut_review_evidence_consistent = False,
     shortcut_review_mandatory_category_count = 12,
     shortcut_review_completed_category_count = 0,
     shortcut_review_failed_category_count = 0,
     shortcut_review_reviewer_count = 0,
     shortcut_review_finding_count = 0\<rparr>"

definition gate6_counts_consistent :: "shortcut_evidence \<Rightarrow> bool" where
  "gate6_counts_consistent e =
     (shortcut_review_mandatory_category_count e = 12 \<and>
      shortcut_review_completed_category_count e \<ge> 0 \<and>
      shortcut_review_failed_category_count e \<ge> 0 \<and>
      shortcut_review_reviewer_count e \<ge> 0 \<and>
      shortcut_review_finding_count e \<ge> 0 \<and>
      open_shortcut_finding_count e \<ge> 0 \<and>
      open_unaccepted_critical_shortcut_finding_count e \<ge> 0 \<and>
      open_unaccepted_critical_shortcut_finding_count e \<le> open_shortcut_finding_count e \<and>
      (\<not> shortcut_review_coverage_complete e \<or> (shortcut_review_completed_category_count
        e = shortcut_review_mandatory_category_count e \<and>
        shortcut_review_failed_category_count e = 0 \<and> shortcut_review_reviewer_count e \<ge>
        2)))"

definition gate6_evidence_consistent :: "shortcut_evidence \<Rightarrow> bool" where
  "gate6_evidence_consistent e =
     (shortcut_review_evidence_consistent e \<and>
      gate6_counts_consistent e)"

definition gate6_context :: "shortcut_evidence \<Rightarrow> pydict" where
  "gate6_context e =
     [(''shortcut_review_scope_resolved'', PBool (shortcut_review_scope_resolved e)),
      (''shortcut_review_binding_resolved'', PBool (shortcut_review_binding_resolved e)),
      (''shortcut_review_run_present'', PBool (shortcut_review_run_present e)),
      (''shortcut_review_corpus_trusted'', PBool (shortcut_review_corpus_trusted e)),
      (''shortcut_review_execution_failed'', PBool (shortcut_review_execution_failed e)),
      (''shortcut_review_independence_resolved'', PBool (shortcut_review_independence_resolved e)),
      (''shortcut_review_coverage_complete'', PBool (shortcut_review_coverage_complete e)),
      (''shortcut_review_evidence_consistent'', PBool (gate6_evidence_consistent e)),
      (''shortcut_review_mandatory_category_count'', PInt
        (shortcut_review_mandatory_category_count e)),
      (''shortcut_review_completed_category_count'', PInt
        (shortcut_review_completed_category_count e)),
      (''shortcut_review_failed_category_count'', PInt (shortcut_review_failed_category_count e)),
      (''shortcut_review_reviewer_count'', PInt (shortcut_review_reviewer_count e)),
      (''shortcut_review_finding_count'', PInt (shortcut_review_finding_count e)),
      (''open_shortcut_finding_count'', PInt (open_shortcut_finding_count e)),
      (''open_unaccepted_critical_shortcut_finding_count'', PInt
        (open_unaccepted_critical_shortcut_finding_count e))]"

definition gate6_rungs :: "shortcut_evidence \<Rightarrow> (bool \<times> string) list" where
  "gate6_rungs e =
     [(\<not> shortcut_review_scope_resolved e,
      ''insufficient_evidence:shortcut_review_scope_unresolved''),
      (\<not> shortcut_review_binding_resolved e,
       ''insufficient_evidence:shortcut_review_binding_unresolved''),
      (\<not> shortcut_review_run_present e,
       ''insufficient_evidence:shortcut_review_not_executed''),
      (\<not> shortcut_review_corpus_trusted e,
       ''insufficient_evidence:shortcut_review_observed_unverified''),
      (shortcut_review_execution_failed e,
       ''insufficient_evidence:shortcut_review_execution_failed''),
      (\<not> shortcut_review_independence_resolved e,
       ''insufficient_evidence:shortcut_review_independence_unproven''),
      (\<not> shortcut_review_coverage_complete e,
       ''insufficient_evidence:shortcut_review_coverage_incomplete''),
      (\<not> gate6_evidence_consistent e,
       ''insufficient_evidence:shortcut_review_evidence_inconsistent''),
      (open_unaccepted_critical_shortcut_finding_count e > 0,
       ''insufficient_evidence:critical_shortcut_findings_open'')]"

definition gate6 :: "shortcut_evidence \<Rightarrow> gate_result" where
  "gate6 e = ladder 6 ''no_unaccepted_critical_shortcut_findings'' (gate6_context e) (gate6_rungs e)
     ''passed:no_unaccepted_critical_shortcut_findings_verified''"

section \<open>Gate 7: Risk acceptance and issue disposition\<close>

record disposition_evidence =
  active_risk_acceptance_count :: int
  open_issue_count :: int
  open_blocking_issue_count :: int
  open_unaccepted_blocking_issue_count :: int
  frozen_release_candidate_count :: int
  latest_frozen_release_candidate_id :: "string option"
  latest_frozen_release_ref :: "string option"
  bound_open_issue_count :: int
  bound_open_blocking_issue_count :: int
  bound_open_unaccepted_blocking_issue_count :: int
  bound_issue_count :: int
  bound_trusted_issue_count :: int
  bound_untrusted_issue_count :: int
  bound_finding_bridge_issue_count :: int
  bound_security_bridge_issue_count :: int
  bound_shortcut_bridge_issue_count :: int
  bound_accepted_issue_count :: int
  bound_release_consistent_accepted_issue_count :: int
  release_bound_active_risk_acceptance_count :: int
  legacy_unbound_risk_acceptance_count :: int
  release_evidence_core_present :: bool
  release_evidence_core_audited :: bool
  release_verdict_run_present :: bool
  release_verdict_attempt_failed :: bool
  release_verdict_binding_current :: bool
  release_verdict_evidence_consistent :: bool
  release_verdict_spec_verdict :: "string option"
  release_verdict_gate_eligible :: bool
  release_verdict_reason_code :: "string option"
  release_verdict_decision_scope :: "string option"
  release_verdict_execution_provenance :: "string option"

definition default_disposition_evidence :: disposition_evidence where
  "default_disposition_evidence = \<lparr>active_risk_acceptance_count = 0,
     open_issue_count = 0,
     open_blocking_issue_count = 0,
     open_unaccepted_blocking_issue_count = 0,
     frozen_release_candidate_count = 0,
     latest_frozen_release_candidate_id = None,
     latest_frozen_release_ref = None,
     bound_open_issue_count = 0,
     bound_open_blocking_issue_count = 0,
     bound_open_unaccepted_blocking_issue_count = 0,
     bound_issue_count = 0,
     bound_trusted_issue_count = 0,
     bound_untrusted_issue_count = 0,
     bound_finding_bridge_issue_count = 0,
     bound_security_bridge_issue_count = 0,
     bound_shortcut_bridge_issue_count = 0,
     bound_accepted_issue_count = 0,
     bound_release_consistent_accepted_issue_count = 0,
     release_bound_active_risk_acceptance_count = 0,
     legacy_unbound_risk_acceptance_count = 0,
     release_evidence_core_present = False,
     release_evidence_core_audited = False,
     release_verdict_run_present = False,
     release_verdict_attempt_failed = False,
     release_verdict_binding_current = False,
     release_verdict_evidence_consistent = False,
     release_verdict_spec_verdict = None,
     release_verdict_gate_eligible = False,
     release_verdict_reason_code = None,
     release_verdict_decision_scope = None,
     release_verdict_execution_provenance = None\<rparr>"

definition gate7_counts_consistent :: "disposition_evidence \<Rightarrow> bool" where
  "gate7_counts_consistent e =
     (list_all (\<lambda>count. count \<ge> 0) [bound_issue_count e, bound_trusted_issue_count e,
       bound_untrusted_issue_count e, bound_finding_bridge_issue_count e,
       bound_security_bridge_issue_count e, bound_shortcut_bridge_issue_count e,
       bound_accepted_issue_count e, bound_release_consistent_accepted_issue_count e,
       release_bound_active_risk_acceptance_count e, legacy_unbound_risk_acceptance_count e]
       \<and>
      bound_trusted_issue_count e + bound_untrusted_issue_count e = bound_issue_count e \<and>
      bound_finding_bridge_issue_count e = bound_trusted_issue_count e \<and>
      bound_security_bridge_issue_count e + bound_shortcut_bridge_issue_count e =
        bound_finding_bridge_issue_count e \<and>
      bound_release_consistent_accepted_issue_count e \<le> bound_accepted_issue_count e \<and>
      bound_accepted_issue_count e \<le> bound_issue_count e)"

definition verdict_shape_valid :: "disposition_evidence \<Rightarrow> bool" where
  "verdict_shape_valid e =
     (release_verdict_decision_scope e = Some ''known_bound_issue_disposition'' \<and>
      release_verdict_execution_provenance e = Some ''system_derived_release_verdict'' \<and>
      release_verdict_spec_verdict e \<in> {Some ''passed'', Some ''passed_with_limitations'',
        Some ''failed_blocking_issue'', Some ''failed_missing_evidence'', Some
        ''requires_human_decision'', Some ''not_applicable''})"

definition gate7_context :: "disposition_evidence \<Rightarrow> pydict" where
  "gate7_context e =
     [(''active_risk_acceptance_count'', PInt (active_risk_acceptance_count e)),
      (''open_issue_count'', PInt (open_issue_count e)),
      (''open_blocking_issue_count'', PInt (open_blocking_issue_count e)),
      (''open_unaccepted_blocking_issue_count'', PInt (open_unaccepted_blocking_issue_count e)),
      (''frozen_release_candidate_count'', PInt (frozen_release_candidate_count e)),
      (''latest_frozen_release_candidate_id'', opt_str (latest_frozen_release_candidate_id e)),
      (''latest_frozen_release_ref'', opt_str (latest_frozen_release_ref e)),
      (''bound_open_issue_count'', PInt (bound_open_issue_count e)),
      (''bound_open_blocking_issue_count'', PInt (bound_open_blocking_issue_count e)),
      (''bound_open_unaccepted_blocking_issue_count'', PInt
        (bound_open_unaccepted_blocking_issue_count e)),
      (''bound_issue_count'', PInt (bound_issue_count e)),
      (''bound_trusted_issue_count'', PInt (bound_trusted_issue_count e)),
      (''bound_untrusted_issue_count'', PInt (bound_untrusted_issue_count e)),
      (''bound_finding_bridge_issue_count'', PInt (bound_finding_bridge_issue_count e)),
      (''bound_security_bridge_issue_count'', PInt (bound_security_bridge_issue_count e)),
      (''bound_shortcut_bridge_issue_count'', PInt (bound_shortcut_bridge_issue_count e)),
      (''bound_accepted_issue_count'', PInt (bound_accepted_issue_count e)),
      (''bound_release_consistent_accepted_issue_count'', PInt
        (bound_release_consistent_accepted_issue_count e)),
      (''release_bound_active_risk_acceptance_count'', PInt
        (release_bound_active_risk_acceptance_count e)),
      (''legacy_unbound_risk_acceptance_count'', PInt (legacy_unbound_risk_acceptance_count e)),
      (''issue_provenance_consistent'', PBool (gate7_counts_consistent e)),
      (''evidence_core_present'', PBool (release_evidence_core_present e)),
      (''evidence_core_audited'', PBool (release_evidence_core_audited e)),
      (''verdict_run_present'', PBool (release_verdict_run_present e)),
      (''verdict_attempt_failed'', PBool (release_verdict_attempt_failed e)),
      (''verdict_binding_current'', PBool (release_verdict_binding_current e)),
      (''verdict_evidence_consistent'', PBool (release_verdict_evidence_consistent e)),
      (''spec_verdict'', opt_str (release_verdict_spec_verdict e)),
      (''verdict_reason_code'', opt_str (release_verdict_reason_code e)),
      (''verdict_execution_provenance'', opt_str (release_verdict_execution_provenance e)),
      (''decision_scope'', opt_str (release_verdict_decision_scope e)),
      (''verdict_gate_eligible'', PBool (release_verdict_gate_eligible e))]"

definition gate7_rungs :: "disposition_evidence \<Rightarrow> (bool \<times> string) list" where
  "gate7_rungs e =
     [(frozen_release_candidate_count e \<le> 0,
      ''insufficient_evidence:no_issue_provenance_or_release_binding''),
      (\<not> release_evidence_core_present e \<or> \<not> release_evidence_core_audited e,
       ''insufficient_evidence:no_audited_release_evidence_core''),
      (release_verdict_run_present e \<and> (release_verdict_attempt_failed e
        \<or> \<not> release_verdict_binding_current e
        \<or> \<not> release_verdict_evidence_consistent e \<or> \<not> gate7_counts_consistent e
        \<or> (release_verdict_spec_verdict e \<noteq> None \<and> \<not> verdict_shape_valid e)),
       ''insufficient_evidence:release_verdict_evidence_incomplete_or_stale''),
      (\<not> release_verdict_run_present e \<or> release_verdict_spec_verdict e = None,
       ''insufficient_evidence:verified_known_issue_set_but_no_release_verdict''),
      (release_verdict_spec_verdict e = Some ''failed_missing_evidence'',
       ''insufficient_evidence:release_verdict_failed_missing_evidence''),
      (release_verdict_spec_verdict e = Some ''failed_blocking_issue'',
       ''insufficient_evidence:release_verdict_failed_blocking_issue''),
      (release_verdict_spec_verdict e = Some ''requires_human_decision'',
       ''insufficient_evidence:release_verdict_requires_human_decision''),
      (release_verdict_spec_verdict e = Some ''not_applicable'',
       ''insufficient_evidence:release_verdict_not_applicable''),
      (\<not> release_verdict_gate_eligible e,
       ''insufficient_evidence:release_limitations_not_authoritatively_accepted'')]"

definition gate7 :: "disposition_evidence \<Rightarrow> gate_result" where
  "gate7 e = ladder 7 ''approved_risk_acceptance_records'' (gate7_context e) (gate7_rungs e)
     ''passed:bound_release_issue_disposition_verdict_current''"

section \<open>Gate 8: Generated acceptance criteria\<close>

record acceptance_evidence =
  acceptance_scope_resolved :: bool
  acceptance_binding_resolved :: bool
  acceptance_scope_count :: int
  acceptance_verification_run_present :: bool
  acceptance_verification_failed :: bool
  acceptance_missing_authorship_count :: int
  acceptance_untrusted_count :: int
  acceptance_disputed_count :: int
  acceptance_unapproved_count :: int
  acceptance_controls_failed_count :: int
  acceptance_eligible_count :: int
  acceptance_evidence_consistent :: bool

definition default_acceptance_evidence :: acceptance_evidence where
  "default_acceptance_evidence = \<lparr>acceptance_scope_resolved = True,
     acceptance_binding_resolved = False,
     acceptance_scope_count = 0,
     acceptance_verification_run_present = False,
     acceptance_verification_failed = False,
     acceptance_missing_authorship_count = 0,
     acceptance_untrusted_count = 0,
     acceptance_disputed_count = 0,
     acceptance_unapproved_count = 0,
     acceptance_controls_failed_count = 0,
     acceptance_eligible_count = 0,
     acceptance_evidence_consistent = False\<rparr>"

definition gate8_context :: "acceptance_evidence \<Rightarrow> pydict" where
  "gate8_context e =
     [(''acceptance_scope_resolved'', PBool (acceptance_scope_resolved e)),
      (''acceptance_binding_resolved'', PBool (acceptance_binding_resolved e)),
      (''acceptance_scope_count'', PInt (acceptance_scope_count e)),
      (''acceptance_verification_run_present'', PBool (acceptance_verification_run_present e)),
      (''acceptance_verification_failed'', PBool (acceptance_verification_failed e)),
      (''acceptance_missing_authorship_count'', PInt (acceptance_missing_authorship_count e)),
      (''acceptance_untrusted_count'', PInt (acceptance_untrusted_count e)),
      (''acceptance_disputed_count'', PInt (acceptance_disputed_count e)),
      (''acceptance_unapproved_count'', PInt (acceptance_unapproved_count e)),
      (''acceptance_controls_failed_count'', PInt (acceptance_controls_failed_count e)),
      (''acceptance_eligible_count'', PInt (acceptance_eligible_count e)),
      (''acceptance_evidence_consistent'', PBool (acceptance_evidence_consistent e)),
      (''approval_provenance_tier'', PStr ''db_verified_independent_agent_lineage''),
      (''human_owner_approval_gate_eligible'', PBool False)]"

definition gate8_rungs :: "acceptance_evidence \<Rightarrow> (bool \<times> string) list" where
  "gate8_rungs e =
     [(\<not> acceptance_scope_resolved e, ''insufficient_evidence:acceptance_scope_unresolved''),
      (\<not> acceptance_binding_resolved e,
       ''insufficient_evidence:acceptance_binding_unresolved''),
      (acceptance_scope_count e \<le> 0,
       ''insufficient_evidence:no_proven_release_gating_acceptance_scope''),
      (\<not> acceptance_verification_run_present e,
       ''insufficient_evidence:acceptance_verification_not_run''),
      (acceptance_verification_failed e, ''insufficient_evidence:acceptance_verification_failed''),
      (acceptance_missing_authorship_count e > 0,
       ''insufficient_evidence:acceptance_authorship_missing''),
      (acceptance_untrusted_count e > 0, ''insufficient_evidence:authorship_approval_unverified''),
      (acceptance_disputed_count e > 0,
       ''insufficient_evidence:disputed_acceptance_criteria_in_release_scope''),
      (acceptance_unapproved_count e > 0,
       ''insufficient_evidence:unapproved_generated_acceptance_criteria_in_release_scope''),
      (acceptance_controls_failed_count e > 0,
       ''insufficient_evidence:acceptance_authorship_controls_failed''),
      (\<not> acceptance_evidence_consistent e
        \<or> acceptance_eligible_count e \<noteq> acceptance_scope_count e
        \<or> list_ex (\<lambda>count. count < 0)  [acceptance_scope_count e,
          acceptance_missing_authorship_count e, acceptance_untrusted_count e,
          acceptance_disputed_count e, acceptance_unapproved_count e,
          acceptance_controls_failed_count e, acceptance_eligible_count e],
       ''insufficient_evidence:acceptance_evidence_inconsistent'')]"

definition gate8 :: "acceptance_evidence \<Rightarrow> gate_result" where
  "gate8 e = ladder 8 ''no_unapproved_generated_ac_in_critical_gates'' (gate8_context e)
    (gate8_rungs e)
     ''passed:no_unapproved_generated_acceptance_criteria_in_critical_gates_verified''"

section \<open>Gate 9: Cost forecast\<close>

record forecast_evidence =
  cost_forecast_scope_resolved :: bool
  cost_forecast_policy_present :: bool
  cost_forecast_policy_valid :: bool
  cost_forecast_budget_present :: bool
  cost_forecast_budget_valid :: bool
  cost_forecast_history_count :: int
  cost_forecast_run_present :: bool
  cost_forecast_attempt_failed :: bool
  cost_forecast_binding_current :: bool
  cost_forecast_input_coverage_complete :: bool
  cost_forecast_price_coverage_complete :: bool
  cost_forecast_evidence_consistent :: bool
  cost_forecast_stop_active :: bool
  cost_forecast_all_dimensions_within :: bool
  cost_forecast_approval_required :: bool
  cost_forecast_gate_eligible :: bool
  cost_forecast_dimension_count :: int
  cost_forecast_utc_date :: "string option"
  cost_forecast_execution_provenance :: "string option"

definition default_forecast_evidence :: forecast_evidence where
  "default_forecast_evidence = \<lparr>cost_forecast_scope_resolved = False,
     cost_forecast_policy_present = False,
     cost_forecast_policy_valid = False,
     cost_forecast_budget_present = False,
     cost_forecast_budget_valid = False,
     cost_forecast_history_count = 0,
     cost_forecast_run_present = False,
     cost_forecast_attempt_failed = False,
     cost_forecast_binding_current = False,
     cost_forecast_input_coverage_complete = False,
     cost_forecast_price_coverage_complete = False,
     cost_forecast_evidence_consistent = False,
     cost_forecast_stop_active = False,
     cost_forecast_all_dimensions_within = False,
     cost_forecast_approval_required = False,
     cost_forecast_gate_eligible = False,
     cost_forecast_dimension_count = 0,
     cost_forecast_utc_date = None,
     cost_forecast_execution_provenance = None\<rparr>"

definition gate9_structurally_consistent :: "forecast_evidence \<Rightarrow> bool" where
  "gate9_structurally_consistent e =
     (cost_forecast_evidence_consistent e \<and>
      cost_forecast_history_count e \<ge> 0 \<and>
      cost_forecast_dimension_count e = 6 \<and>
      cost_forecast_execution_provenance e = Some ''system_derived_cost_forecast'' \<and>
      \<not> (cost_forecast_gate_eligible e \<and> (cost_forecast_stop_active e \<or> \<not>
        cost_forecast_all_dimensions_within e \<or> cost_forecast_approval_required e)))"

definition gate9_context :: "forecast_evidence \<Rightarrow> pydict" where
  "gate9_context e =
     [(''scope_resolved'', PBool (cost_forecast_scope_resolved e)),
      (''structured_policy_present'', PBool (cost_forecast_policy_present e)),
      (''structured_policy_valid'', PBool (cost_forecast_policy_valid e)),
      (''budget_present'', PBool (cost_forecast_budget_present e)),
      (''budget_valid'', PBool (cost_forecast_budget_valid e)),
      (''ledger_event_count'', PInt (cost_forecast_history_count e)),
      (''run_present'', PBool (cost_forecast_run_present e)),
      (''latest_attempt_failed_or_refused'', PBool (cost_forecast_attempt_failed e)),
      (''binding_current'', PBool (cost_forecast_binding_current e)),
      (''input_coverage_complete'', PBool (cost_forecast_input_coverage_complete e)),
      (''price_coverage_complete'', PBool (cost_forecast_price_coverage_complete e)),
      (''evidence_consistent'', PBool (cost_forecast_evidence_consistent e)),
      (''stop_active'', PBool (cost_forecast_stop_active e)),
      (''all_dimensions_within'', PBool (cost_forecast_all_dimensions_within e)),
      (''approval_required'', PBool (cost_forecast_approval_required e)),
      (''gate_eligible'', PBool (cost_forecast_gate_eligible e)),
      (''dimension_count'', PInt (cost_forecast_dimension_count e)),
      (''forecast_utc_date'', opt_str (cost_forecast_utc_date e)),
      (''execution_provenance'', opt_str (cost_forecast_execution_provenance e))]"

definition gate9_rungs :: "forecast_evidence \<Rightarrow> (bool \<times> string) list" where
  "gate9_rungs e =
     [(\<not> cost_forecast_scope_resolved e, ''no_current_release_scope''),
      (\<not> cost_forecast_policy_present e, ''no_current_structured_cost_policy''),
      (\<not> cost_forecast_policy_valid e, ''cost_policy_invalid''),
      (\<not> cost_forecast_budget_present e, ''no_current_cost_budget''),
      (\<not> cost_forecast_budget_valid e, ''cost_budget_invalid''),
      (cost_forecast_history_count e \<le> 0, ''no_cost_history''),
      (\<not> cost_forecast_run_present e, ''cost_forecast_not_run''),
      (cost_forecast_attempt_failed e, ''cost_forecast_latest_attempt_failed_or_refused''),
      (\<not> cost_forecast_binding_current e, ''cost_forecast_binding_stale''),
      (\<not> cost_forecast_input_coverage_complete e
        \<or> \<not> cost_forecast_price_coverage_complete e,
       ''cost_forecast_input_or_price_coverage_incomplete''),
      (\<not> gate9_structurally_consistent e, ''cost_forecast_evidence_inconsistent''),
      (cost_forecast_stop_active e, ''cost_stop_active''),
      (\<not> cost_forecast_all_dimensions_within e, ''cost_forecast_limit_reached_or_exceeded''),
      (cost_forecast_approval_required e, ''cost_forecast_requires_approval''),
      (\<not> cost_forecast_gate_eligible e, ''cost_forecast_evidence_inconsistent'')]"

definition gate9 :: "forecast_evidence \<Rightarrow> gate_result" where
  "gate9 e = ladder 9 ''cost_forecast_within_policy'' (gate9_context e) (gate9_rungs e)
     ''passed:system_derived_cost_forecast_within_recorded_policy''"

section \<open>Gate 10: Rollback drill\<close>

record rollback_evidence =
  rollback_scope_resolved :: bool
  rollback_core_present :: bool
  rollback_core_reaudited :: bool
  rollback_repo_binding_agreed :: bool
  rollback_staging_target_valid :: bool
  rollback_staging_snapshot_present :: bool
  rollback_staging_snapshot_available :: bool
  rollback_staging_snapshot_fresh :: bool
  rollback_run_present :: bool
  rollback_attempt_failed :: bool
  rollback_artifact_trusted :: bool
  rollback_binding_current :: bool
  rollback_phase_coverage_complete :: bool
  rollback_evidence_consistent :: bool
  rollback_drill_passed :: bool
  rollback_gate_eligible :: bool
  rollback_phase_count :: int
  rollback_execution_observation :: "string option"

definition default_rollback_evidence :: rollback_evidence where
  "default_rollback_evidence = \<lparr>rollback_scope_resolved = False,
     rollback_core_present = False,
     rollback_core_reaudited = False,
     rollback_repo_binding_agreed = False,
     rollback_staging_target_valid = False,
     rollback_staging_snapshot_present = False,
     rollback_staging_snapshot_available = False,
     rollback_staging_snapshot_fresh = False,
     rollback_run_present = False,
     rollback_attempt_failed = False,
     rollback_artifact_trusted = False,
     rollback_binding_current = False,
     rollback_phase_coverage_complete = False,
     rollback_evidence_consistent = False,
     rollback_drill_passed = False,
     rollback_gate_eligible = False,
     rollback_phase_count = 0,
     rollback_execution_observation = None\<rparr>"

definition gate10_context :: "rollback_evidence \<Rightarrow> pydict" where
  "gate10_context e =
     [(''scope_resolved'', PBool (rollback_scope_resolved e)),
      (''core_present'', PBool (rollback_core_present e)),
      (''core_reaudited'', PBool (rollback_core_reaudited e)),
      (''repo_binding_agreed'', PBool (rollback_repo_binding_agreed e)),
      (''staging_target_valid'', PBool (rollback_staging_target_valid e)),
      (''staging_snapshot_present'', PBool (rollback_staging_snapshot_present e)),
      (''staging_snapshot_available'', PBool (rollback_staging_snapshot_available e)),
      (''staging_snapshot_fresh'', PBool (rollback_staging_snapshot_fresh e)),
      (''run_present'', PBool (rollback_run_present e)),
      (''attempt_failed'', PBool (rollback_attempt_failed e)),
      (''artifact_trusted'', PBool (rollback_artifact_trusted e)),
      (''binding_current'', PBool (rollback_binding_current e)),
      (''phase_coverage_complete'', PBool (rollback_phase_coverage_complete e)),
      (''evidence_consistent'', PBool (rollback_evidence_consistent e)),
      (''drill_passed'', PBool (rollback_drill_passed e)),
      (''gate_eligible'', PBool (rollback_gate_eligible e)),
      (''phase_count'', PInt (rollback_phase_count e)),
      (''execution_observation'', opt_str (rollback_execution_observation e))]"

definition gate10_rungs :: "rollback_evidence \<Rightarrow> (bool \<times> string) list" where
  "gate10_rungs e =
     [(\<not> rollback_scope_resolved e,
      ''insufficient_evidence:no_current_frozen_release_candidate''),
      (\<not> rollback_core_present e,
       ''insufficient_evidence:no_complete_reauditable_evidence_core''),
      (\<not> rollback_core_reaudited e, ''insufficient_evidence:release_core_reaudit_failed''),
      (\<not> rollback_repo_binding_agreed e,
       ''insufficient_evidence:release_repo_commit_binding_missing_or_disagreed''),
      (\<not> rollback_staging_target_valid e,
       ''insufficient_evidence:staging_target_declaration_missing_or_invalid''),
      (\<not> rollback_staging_snapshot_present e,
       ''insufficient_evidence:no_current_connector_verified_staging_target''),
      (\<not> rollback_staging_snapshot_available e
        \<or> \<not> rollback_staging_snapshot_fresh e,
       ''insufficient_evidence:staging_target_unavailable_or_stale''),
      (\<not> rollback_run_present e,
       ''insufficient_evidence:rollback_verification_not_run_for_current_binding''),
      (rollback_attempt_failed e,
       ''insufficient_evidence:latest_rollback_attempt_failed_or_refused''),
      (\<not> rollback_artifact_trusted e
        \<or> rollback_execution_observation e \<noteq> Some ''connector_observed_ci'',
       ''insufficient_evidence:rollback_artifact_provenance_untrusted''),
      (\<not> rollback_binding_current e,
       ''insufficient_evidence:rollback_binding_stale_or_inconsistent''),
      (\<not> rollback_phase_coverage_complete e \<or> rollback_phase_count e \<noteq> 5,
       ''insufficient_evidence:rollback_phase_coverage_incomplete''),
      (\<not> rollback_evidence_consistent e,
       ''insufficient_evidence:rollback_phase_evidence_inconsistent''),
      (\<not> rollback_drill_passed e \<or> \<not> rollback_gate_eligible e,
       ''insufficient_evidence:rollback_drill_failed'')]"

definition gate10 :: "rollback_evidence \<Rightarrow> gate_result" where
  "gate10 e = ladder 10 ''rollback_verified'' (gate10_context e) (gate10_rungs e)
     ''passed:connector_observed_staging_rollback_drill_verified''"

section \<open>Gate 11: Monitoring and alerts\<close>

record monitoring_evidence =
  monitoring_bound :: bool
  latest_monitoring_provenance :: "string option"
  latest_monitoring_response_valid :: "bool option"
  latest_monitoring_overall_active :: "bool option"
  latest_monitoring_fresh :: bool
  latest_monitoring_failure_kind :: "string option"

definition default_monitoring_evidence :: monitoring_evidence where
  "default_monitoring_evidence = \<lparr>monitoring_bound = False,
     latest_monitoring_provenance = None,
     latest_monitoring_response_valid = None,
     latest_monitoring_overall_active = None,
     latest_monitoring_fresh = False,
     latest_monitoring_failure_kind = None\<rparr>"

definition gate11_context :: "monitoring_evidence \<Rightarrow> pydict" where
  "gate11_context e =
     [(''monitoring_bound'', PBool (monitoring_bound e)),
      (''latest_monitoring_provenance'', opt_str (latest_monitoring_provenance e)),
      (''latest_monitoring_response_valid'', opt_bool (latest_monitoring_response_valid e)),
      (''latest_monitoring_overall_active'', opt_bool (latest_monitoring_overall_active e)),
      (''latest_monitoring_failure_kind'', opt_str (latest_monitoring_failure_kind e))]"

definition gate11_rungs :: "monitoring_evidence \<Rightarrow> (bool \<times> string) list" where
  "gate11_rungs e =
     [(\<not> monitoring_bound e, ''no_monitoring_declaration''),
      (latest_monitoring_provenance e = None, ''monitoring_declared_but_no_evidence''),
      (latest_monitoring_provenance e \<noteq> Some ''connector_verified'',
       ''monitoring_observed_unverified''),
      (\<not> latest_monitoring_fresh e, ''monitoring_evidence_stale''),
      (latest_monitoring_response_valid e \<noteq> Some True, ''monitoring_evidence_unreadable''),
      (latest_monitoring_overall_active e \<noteq> Some True, ''monitoring_or_alerts_inactive'')]"

definition gate11 :: "monitoring_evidence \<Rightarrow> gate_result" where
  "gate11 e = ladder 11 ''monitoring_and_alerts_active'' (gate11_context e) (gate11_rungs e)
     ''monitoring_and_alerts_active_verified''"

section \<open>Gate 12: Production pre-approval\<close>

record preapproval_evidence =
  preapproval_candidate_present :: bool
  preapproval_core_present :: bool
  preapproval_core_reaudited :: bool
  preapproval_verdict_present :: bool
  preapproval_verdict_gate_eligible :: bool
  preapproval_policy_present :: bool
  preapproval_policy_valid :: bool
  preapproval_approver_count :: int
  preapproval_autonomy_policy_eligible :: bool
  preapproval_request_present :: bool
  preapproval_binding_current :: bool
  preapproval_requester_authenticated :: bool
  preapproval_notification_valid :: bool
  preapproval_request_status :: "string option"
  preapproval_attestation_present :: bool
  preapproval_approver_authenticated :: bool
  preapproval_approver_in_policy :: bool
  preapproval_separation_ok :: bool
  preapproval_lifecycle_status :: "string option"
  preapproval_expired :: bool
  preapproval_evidence_consistent :: bool
  preapproval_gate_eligible :: bool
  preapproval_requester_actor_type :: "string option"
  preapproval_approver_actor_type :: "string option"
  preapproval_policy_contract_version :: "string option"
  preapproval_condition_contract_version :: "string option"
  preapproval_contract_version :: "string option"

definition default_preapproval_evidence :: preapproval_evidence where
  "default_preapproval_evidence = \<lparr>preapproval_candidate_present = False,
     preapproval_core_present = False,
     preapproval_core_reaudited = False,
     preapproval_verdict_present = False,
     preapproval_verdict_gate_eligible = False,
     preapproval_policy_present = False,
     preapproval_policy_valid = False,
     preapproval_approver_count = 0,
     preapproval_autonomy_policy_eligible = False,
     preapproval_request_present = False,
     preapproval_binding_current = False,
     preapproval_requester_authenticated = False,
     preapproval_notification_valid = False,
     preapproval_request_status = None,
     preapproval_attestation_present = False,
     preapproval_approver_authenticated = False,
     preapproval_approver_in_policy = False,
     preapproval_separation_ok = False,
     preapproval_lifecycle_status = None,
     preapproval_expired = False,
     preapproval_evidence_consistent = False,
     preapproval_gate_eligible = False,
     preapproval_requester_actor_type = None,
     preapproval_approver_actor_type = None,
     preapproval_policy_contract_version = None,
     preapproval_condition_contract_version = None,
     preapproval_contract_version = None\<rparr>"

definition gate12_contracts_ok :: "preapproval_evidence \<Rightarrow> bool" where
  "gate12_contracts_ok e =
     (preapproval_policy_contract_version e = Some ''slice53.production_approval_policy.v1'' \<and>
      preapproval_condition_contract_version e = Some
        ''slice53.production_preapproval_conditions.v1'' \<and>
      preapproval_contract_version e = Some ''slice53.production_preapproval.v1'')"

definition gate12_context :: "preapproval_evidence \<Rightarrow> pydict" where
  "gate12_context e =
     [(''candidate_present'', PBool (preapproval_candidate_present e)),
      (''core_present'', PBool (preapproval_core_present e)),
      (''core_reaudited'', PBool (preapproval_core_reaudited e)),
      (''verdict_present'', PBool (preapproval_verdict_present e)),
      (''verdict_gate_eligible'', PBool (preapproval_verdict_gate_eligible e)),
      (''recorded_policy_present'', PBool (preapproval_policy_present e)),
      (''recorded_policy_valid'', PBool (preapproval_policy_valid e)),
      (''approver_count'', PInt (preapproval_approver_count e)),
      (''autonomy_policy_eligible'', PBool (preapproval_autonomy_policy_eligible e)),
      (''request_present'', PBool (preapproval_request_present e)),
      (''binding_current'', PBool (preapproval_binding_current e)),
      (''requester_request_authenticated'', PBool (preapproval_requester_authenticated e)),
      (''notification_valid'', PBool (preapproval_notification_valid e)),
      (''request_status'', opt_str (preapproval_request_status e)),
      (''attestation_present'', PBool (preapproval_attestation_present e)),
      (''approver_request_authenticated'', PBool (preapproval_approver_authenticated e)),
      (''approver_in_recorded_policy'', PBool (preapproval_approver_in_policy e)),
      (''separation_ok'', PBool (preapproval_separation_ok e)),
      (''lifecycle_status'', opt_str (preapproval_lifecycle_status e)),
      (''expired'', PBool (preapproval_expired e)),
      (''evidence_consistent'', PBool (preapproval_evidence_consistent e)),
      (''gate_eligible'', PBool (preapproval_gate_eligible e)),
      (''requester_actor_type'', opt_str (preapproval_requester_actor_type e)),
      (''approver_actor_type'', opt_str (preapproval_approver_actor_type e)),
      (''policy_contract_version'', opt_str (preapproval_policy_contract_version e)),
      (''condition_contract_version'', opt_str (preapproval_condition_contract_version e)),
      (''preapproval_contract_version'', opt_str (preapproval_contract_version e)),
      (''identity_claim'', PStr ''request_authenticated_key_custody_under_recorded_policy'')]"

definition gate12_rungs :: "preapproval_evidence \<Rightarrow> (bool \<times> string) list" where
  "gate12_rungs e =
     [(\<not> preapproval_candidate_present e,
      ''insufficient_evidence:no_current_frozen_release_candidate''),
      (\<not> preapproval_core_present e,
       ''insufficient_evidence:no_complete_reauditable_evidence_core''),
      (\<not> preapproval_core_reaudited e, ''insufficient_evidence:release_core_reaudit_failed''),
      (\<not> preapproval_verdict_present e \<or> \<not> preapproval_verdict_gate_eligible e,
       ''insufficient_evidence:no_current_gate_eligible_release_verdict''),
      (\<not> preapproval_policy_present e \<or> \<not> preapproval_policy_valid e,
       ''insufficient_evidence:release_approval_policy_missing_or_invalid''),
      (preapproval_approver_count e \<le> 0,
       ''insufficient_evidence:release_approval_policy_has_no_exact_approver''),
      (\<not> preapproval_autonomy_policy_eligible e,
       ''insufficient_evidence:a5_autonomy_policy_missing_or_ineligible''),
      (\<not> preapproval_request_present e,
       ''insufficient_evidence:no_production_preapproval_request_for_current_binding''),
      (\<not> preapproval_binding_current e,
       ''insufficient_evidence:latest_preapproval_request_binding_stale_or_inconsistent''),
      (\<not> preapproval_requester_authenticated e,
       ''insufficient_evidence:preapproval_requester_not_request_authenticated''),
      (\<not> preapproval_notification_valid e,
       ''insufficient_evidence:production_approval_notification_missing_or_invalid''),
      (preapproval_request_status e = Some ''pending'',
       ''insufficient_evidence:production_preapproval_pending''),
      (preapproval_request_status e \<in> {Some ''rejected'', Some ''cancelled''},
       ''insufficient_evidence:production_preapproval_rejected_or_cancelled''),
      (\<not> preapproval_approver_authenticated e,
       ''insufficient_evidence:preapproval_approver_not_request_authenticated''),
      (\<not> preapproval_approver_in_policy e,
       ''insufficient_evidence:preapproval_approver_not_in_recorded_policy''),
      (\<not> preapproval_separation_ok e,
       ''insufficient_evidence:preapproval_separation_of_duties_failed''),
      (preapproval_lifecycle_status e \<in> {Some ''revoked'', Some ''superseded''},
       ''insufficient_evidence:production_preapproval_revoked_or_superseded''),
      (preapproval_expired e, ''insufficient_evidence:production_preapproval_expired''),
      (\<not> preapproval_attestation_present e
        \<or> preapproval_request_status e \<noteq> Some ''approved''
        \<or> preapproval_lifecycle_status e \<noteq> Some ''approved_anchor''
        \<or> \<not> preapproval_evidence_consistent e \<or> \<not> preapproval_gate_eligible e
        \<or> \<not> gate12_contracts_ok e
        \<or> preapproval_requester_actor_type e \<notin> {Some ''human'', Some ''service''}
        \<or> preapproval_approver_actor_type e \<noteq> Some ''human'',
       ''insufficient_evidence:production_preapproval_evidence_inconsistent'')]"

definition gate12 :: "preapproval_evidence \<Rightarrow> gate_result" where
  "gate12 e = ladder 12 ''production_deploy_preapproved_under_conditions'' (gate12_context e)
    (gate12_rungs e)
     ''passed:request_authenticated_preapproval_under_recorded_conditions''"

section \<open>Gate 13: Emergency stop and rollback authority\<close>

record emergency_evidence =
  emergency_policy_present :: bool
  emergency_policy_valid :: bool
  emergency_binding_present :: bool
  emergency_latest_binding_failed_or_refused :: bool
  emergency_contracts_current :: bool
  emergency_authority_membership_complete :: bool
  emergency_authority_member_count :: int
  emergency_mechanism_initialized :: bool
  emergency_stop_state_consistent :: bool
  emergency_stop_active :: bool
  emergency_rollback_authority_bound :: bool
  emergency_rollback_binding_current :: bool
  emergency_rollback_verification_current :: bool
  emergency_evidence_consistent :: bool
  emergency_control_contract_version :: "string option"
  emergency_stop_contract_version :: "string option"
  emergency_rollback_authority_contract_version :: "string option"

definition default_emergency_evidence :: emergency_evidence where
  "default_emergency_evidence = \<lparr>emergency_policy_present = False,
     emergency_policy_valid = False,
     emergency_binding_present = False,
     emergency_latest_binding_failed_or_refused = False,
     emergency_contracts_current = False,
     emergency_authority_membership_complete = False,
     emergency_authority_member_count = 0,
     emergency_mechanism_initialized = False,
     emergency_stop_state_consistent = False,
     emergency_stop_active = False,
     emergency_rollback_authority_bound = False,
     emergency_rollback_binding_current = False,
     emergency_rollback_verification_current = False,
     emergency_evidence_consistent = False,
     emergency_control_contract_version = None,
     emergency_stop_contract_version = None,
     emergency_rollback_authority_contract_version = None\<rparr>"

definition gate13_contracts_ok :: "emergency_evidence \<Rightarrow> bool" where
  "gate13_contracts_ok e =
     (emergency_contracts_current e \<and>
      emergency_control_contract_version e = Some EMERGENCY_CONTROL_CONTRACT_VERSION \<and>
      emergency_stop_contract_version e = Some EMERGENCY_STOP_CONTRACT_VERSION \<and>
      emergency_rollback_authority_contract_version e = Some ROLLBACK_AUTHORITY_CONTRACT_VERSION)"

definition gate13_context :: "emergency_evidence \<Rightarrow> pydict" where
  "gate13_context e =
     [(''recorded_policy_present'', PBool (emergency_policy_present e)),
      (''recorded_policy_valid'', PBool (emergency_policy_valid e)),
      (''binding_present'', PBool (emergency_binding_present e)),
      (''latest_binding_failed_or_refused'', PBool (emergency_latest_binding_failed_or_refused e)),
      (''contracts_current'', PBool (emergency_contracts_current e)),
      (''authority_membership_complete'', PBool (emergency_authority_membership_complete e)),
      (''authority_member_count'', PInt (emergency_authority_member_count e)),
      (''mechanism_initialized'', PBool (emergency_mechanism_initialized e)),
      (''stop_state_consistent'', PBool (emergency_stop_state_consistent e)),
      (''stop_active'', PBool (emergency_stop_active e)),
      (''rollback_authority_bound'', PBool (emergency_rollback_authority_bound e)),
      (''rollback_binding_current'', PBool (emergency_rollback_binding_current e)),
      (''rollback_verification_current'', PBool (emergency_rollback_verification_current e)),
      (''evidence_consistent'', PBool (emergency_evidence_consistent e)),
      (''scope_limitation_codes'', str_list SCOPE_LIMITATION_CODES),
      (''identity_claim'', PStr ''request_authenticated_key_custody_under_recorded_policy'')]"

definition gate13_rungs :: "emergency_evidence \<Rightarrow> (bool \<times> string) list" where
  "gate13_rungs e =
     [(\<not> emergency_policy_present e,
      ''insufficient_evidence:no_recorded_emergency_authority_policy''),
      (\<not> emergency_policy_valid e,
       ''insufficient_evidence:emergency_authority_policy_invalid''),
      (\<not> emergency_binding_present e, ''insufficient_evidence:no_emergency_control_binding''),
      (emergency_latest_binding_failed_or_refused e,
       ''insufficient_evidence:latest_emergency_control_binding_failed_or_refused''),
      (\<not> gate13_contracts_ok e, ''insufficient_evidence:emergency_control_contract_mismatch''),
      (\<not> emergency_authority_membership_complete e
        \<or> emergency_authority_member_count e < 2,
       ''insufficient_evidence:emergency_authority_membership_incomplete''),
      (\<not> emergency_mechanism_initialized e,
       ''insufficient_evidence:emergency_stop_mechanism_uninitialized''),
      (\<not> emergency_stop_state_consistent e,
       ''insufficient_evidence:emergency_stop_state_inconsistent''),
      (\<not> emergency_rollback_authority_bound e,
       ''insufficient_evidence:rollback_authority_not_release_bound''),
      (\<not> emergency_rollback_binding_current e,
       ''insufficient_evidence:rollback_authority_binding_stale''),
      (\<not> emergency_rollback_verification_current e,
       ''insufficient_evidence:rollback_verification_not_current_or_gate_eligible''),
      (\<not> emergency_evidence_consistent e,
       ''insufficient_evidence:emergency_control_evidence_inconsistent''),
      (emergency_stop_active e, ''insufficient_evidence:emergency_stop_active'')]"

definition gate13 :: "emergency_evidence \<Rightarrow> gate_result" where
  "gate13 e = ladder 13 ''emergency_stop_rollback_authority'' (gate13_context e) (gate13_rungs e)
     ''passed:request_authenticated_runtime_stop_and_release_bound_rollback_authority''"

end
