(* ===== verification/Autonomy_Report.thy ===== *)
theory Autonomy_Report
  imports Gate_Evidence
begin

text \<open>
  The A5 report over the thirteen gates (\<open>ProductionAutonomyReport\<close> and the end of
  \<open>evaluate_production_autonomy\<close>).  Each gate implements one contract, the locale \<open>a5_gate\<close>: a
  fixed number, one of two statuses, and a pass exactly on sound evidence, where \<open>sound_k\<close> states
  what the evidence must be without the ladder.
\<close>

section \<open>The contract of a gate\<close>

locale a5_gate =
  fixes gate :: "'e \<Rightarrow> gate_result"
    and number :: int
    and sound :: "'e \<Rightarrow> bool"
  assumes numbered: "gr_number (gate e) = number"
    and two_valued: "gr_status (gate e) \<in> {STATUS_PASSED, STATUS_INSUFFICIENT}"
    and passes_iff_sound: "gr_status (gate e) = STATUS_PASSED \<longleftrightarrow> sound e"
begin

lemma fails_iff: "gr_status (gate e) = STATUS_INSUFFICIENT \<longleftrightarrow> \<not> sound e"
  using two_valued [of e] passes_iff_sound [of e]
  by (auto simp: STATUS_PASSED_def STATUS_INSUFFICIENT_def)

end

lemma find_rung_None: "List.find fst rungs = None \<longleftrightarrow> list_all (\<lambda>r. \<not> fst r) rungs"
  by (induction rungs) auto

lemma ladder_sel [simp]:
  "gr_number (ladder n g c rungs p) = n" "gr_gate (ladder n g c rungs p) = g"
  "gr_context (ladder n g c rungs p) = c"
  "gr_status (ladder n g c rungs p) \<in> {STATUS_PASSED, STATUS_INSUFFICIENT}"
  by (auto simp: ladder_def passed_def insufficient_def split: option.split)

lemma ladder_status:
  "gr_status (ladder n g c rungs p) = STATUS_PASSED \<longleftrightarrow> list_all (\<lambda>r. \<not> fst r) rungs"
  by (cases "List.find fst rungs")
    (auto simp: ladder_def passed_def insufficient_def STATUS_PASSED_def STATUS_INSUFFICIENT_def
      find_rung_None [symmetric])

section \<open>What each gate demands\<close>

definition sound2 :: "target_evidence \<Rightarrow> bool" where
  "sound2 e =
     (deployment_target_bound e \<and>
      latest_deployment_target_provenance e = Some ''connector_verified'' \<and>
      latest_deployment_target_fresh e \<and> latest_deployment_target_available e = Some True)"

definition sound3 :: "protection_evidence \<Rightarrow> bool" where
  "sound3 e =
     (branch_protection_repo_bound e \<and>
      latest_branch_protection_provenance e = Some ''connector_verified'' \<and>
      latest_branch_protection_fresh e \<and> latest_branch_protection_enabled e = Some True \<and>
      latest_branch_protection_required_pull_request_reviews e = Some True \<and>
      1 \<le> latest_required_status_check_count e)"

definition sound4 :: "oracle_evidence \<Rightarrow> bool" where
  "sound4 e =
     (test_oracle_scope_resolved e \<and> test_oracle_binding_present e \<and>
      0 < test_oracle_scope_count e \<and>
      test_oracle_passed_count e = test_oracle_scope_count e \<and>
      test_oracle_valid_definition_count e = test_oracle_scope_count e \<and>
      test_oracle_invalid_definition_count e = 0 \<and> test_oracle_unrun_count e = 0 \<and>
      test_oracle_untrusted_count e = 0 \<and> test_oracle_incomplete_count e = 0 \<and>
      test_oracle_execution_failed_count e = 0 \<and>
      test_oracle_judgment_control_failed_count e = 0 \<and> test_oracle_failed_count e = 0)"

definition sound5 :: "security_evidence \<Rightarrow> bool" where
  "sound5 e =
     (security_scan_scope_resolved e \<and> security_scan_binding_resolved e \<and>
      security_scan_run_present e \<and> security_scan_artifact_trusted e \<and>
      \<not> security_scan_execution_failed e \<and> security_scan_coverage_complete e \<and>
      security_scan_evidence_consistent e \<and>
      security_scan_mandatory_category_count e = 5 \<and>
      security_scan_completed_category_count e = 5 \<and>
      security_scan_failed_category_count e = 0 \<and> 0 \<le> security_scan_finding_count e \<and>
      0 \<le> open_security_finding_count e \<and>
      open_unaccepted_critical_security_finding_count e = 0)"

definition sound6 :: "shortcut_evidence \<Rightarrow> bool" where
  "sound6 e =
     (shortcut_review_scope_resolved e \<and> shortcut_review_binding_resolved e \<and>
      shortcut_review_run_present e \<and> shortcut_review_corpus_trusted e \<and>
      \<not> shortcut_review_execution_failed e \<and> shortcut_review_independence_resolved e \<and>
      shortcut_review_coverage_complete e \<and> shortcut_review_evidence_consistent e \<and>
      shortcut_review_mandatory_category_count e = 12 \<and>
      shortcut_review_completed_category_count e = 12 \<and>
      shortcut_review_failed_category_count e = 0 \<and> 2 \<le> shortcut_review_reviewer_count e \<and>
      0 \<le> shortcut_review_finding_count e \<and> 0 \<le> open_shortcut_finding_count e \<and>
      open_unaccepted_critical_shortcut_finding_count e = 0)"

definition sound7 :: "disposition_evidence \<Rightarrow> bool" where
  "sound7 e =
     (0 < frozen_release_candidate_count e \<and> release_evidence_core_present e \<and>
      release_evidence_core_audited e \<and> release_verdict_run_present e \<and>
      \<not> release_verdict_attempt_failed e \<and> release_verdict_binding_current e \<and>
      release_verdict_evidence_consistent e \<and> gate7_counts_consistent e \<and>
      release_verdict_decision_scope e = Some ''known_bound_issue_disposition'' \<and>
      release_verdict_execution_provenance e = Some ''system_derived_release_verdict'' \<and>
      release_verdict_spec_verdict e \<in> {Some ''passed'', Some ''passed_with_limitations''} \<and>
      release_verdict_gate_eligible e)"

definition sound8 :: "acceptance_evidence \<Rightarrow> bool" where
  "sound8 e =
     (acceptance_scope_resolved e \<and> acceptance_binding_resolved e \<and>
      0 < acceptance_scope_count e \<and> acceptance_eligible_count e = acceptance_scope_count e \<and>
      acceptance_verification_run_present e \<and> \<not> acceptance_verification_failed e \<and>
      acceptance_missing_authorship_count e = 0 \<and> acceptance_untrusted_count e = 0 \<and>
      acceptance_disputed_count e = 0 \<and> acceptance_unapproved_count e = 0 \<and>
      acceptance_controls_failed_count e = 0 \<and> acceptance_evidence_consistent e)"

definition sound9 :: "forecast_evidence \<Rightarrow> bool" where
  "sound9 e =
     (cost_forecast_scope_resolved e \<and> cost_forecast_policy_present e \<and>
      cost_forecast_policy_valid e \<and> cost_forecast_budget_present e \<and>
      cost_forecast_budget_valid e \<and> 0 < cost_forecast_history_count e \<and>
      cost_forecast_run_present e \<and> \<not> cost_forecast_attempt_failed e \<and>
      cost_forecast_binding_current e \<and> cost_forecast_input_coverage_complete e \<and>
      cost_forecast_price_coverage_complete e \<and> cost_forecast_evidence_consistent e \<and>
      cost_forecast_dimension_count e = 6 \<and>
      cost_forecast_execution_provenance e = Some ''system_derived_cost_forecast'' \<and>
      \<not> cost_forecast_stop_active e \<and> cost_forecast_all_dimensions_within e \<and>
      \<not> cost_forecast_approval_required e \<and> cost_forecast_gate_eligible e)"

definition sound10 :: "rollback_evidence \<Rightarrow> bool" where
  "sound10 e =
     (rollback_scope_resolved e \<and> rollback_core_present e \<and> rollback_core_reaudited e \<and>
      rollback_repo_binding_agreed e \<and> rollback_staging_target_valid e \<and>
      rollback_staging_snapshot_present e \<and> rollback_staging_snapshot_available e \<and>
      rollback_staging_snapshot_fresh e \<and> rollback_run_present e \<and>
      \<not> rollback_attempt_failed e \<and> rollback_artifact_trusted e \<and>
      rollback_execution_observation e = Some ''connector_observed_ci'' \<and>
      rollback_binding_current e \<and> rollback_phase_coverage_complete e \<and>
      rollback_phase_count e = 5 \<and> rollback_evidence_consistent e \<and> rollback_drill_passed e \<and>
      rollback_gate_eligible e)"

definition sound11 :: "monitoring_evidence \<Rightarrow> bool" where
  "sound11 e =
     (monitoring_bound e \<and> latest_monitoring_provenance e = Some ''connector_verified'' \<and>
      latest_monitoring_fresh e \<and> latest_monitoring_response_valid e = Some True \<and>
      latest_monitoring_overall_active e = Some True)"

definition sound12 :: "preapproval_evidence \<Rightarrow> bool" where
  "sound12 e =
     (preapproval_candidate_present e \<and> preapproval_core_present e \<and>
      preapproval_core_reaudited e \<and> preapproval_verdict_present e \<and>
      preapproval_verdict_gate_eligible e \<and> preapproval_policy_present e \<and>
      preapproval_policy_valid e \<and> 0 < preapproval_approver_count e \<and>
      preapproval_autonomy_policy_eligible e \<and> preapproval_request_present e \<and>
      preapproval_binding_current e \<and> preapproval_requester_authenticated e \<and>
      preapproval_notification_valid e \<and> preapproval_attestation_present e \<and>
      preapproval_approver_authenticated e \<and> preapproval_approver_in_policy e \<and>
      preapproval_separation_ok e \<and> \<not> preapproval_expired e \<and>
      preapproval_request_status e = Some ''approved'' \<and>
      preapproval_lifecycle_status e = Some ''approved_anchor'' \<and>
      preapproval_evidence_consistent e \<and> preapproval_gate_eligible e \<and> gate12_contracts_ok e \<and>
      preapproval_requester_actor_type e \<in> {Some ''human'', Some ''service''} \<and>
      preapproval_approver_actor_type e = Some ''human'')"

definition sound13 :: "emergency_evidence \<Rightarrow> bool" where
  "sound13 e =
     (emergency_policy_present e \<and> emergency_policy_valid e \<and> emergency_binding_present e \<and>
      \<not> emergency_latest_binding_failed_or_refused e \<and> gate13_contracts_ok e \<and>
      emergency_authority_membership_complete e \<and> 2 \<le> emergency_authority_member_count e \<and>
      emergency_mechanism_initialized e \<and> emergency_stop_state_consistent e \<and>
      emergency_rollback_authority_bound e \<and> emergency_rollback_binding_current e \<and>
      emergency_rollback_verification_current e \<and> emergency_evidence_consistent e \<and>
      \<not> emergency_stop_active e)"

text \<open>The statuses of the gates, each against its specification.\<close>

lemma gate1_iff: "gr_status (gate1 l) = STATUS_PASSED \<longleftrightarrow> l = ''R5''"
  by (simp add: gate1_def passed_def insufficient_def STATUS_PASSED_def STATUS_INSUFFICIENT_def)

lemma gate2_iff: "gr_status (gate2 e) = STATUS_PASSED \<longleftrightarrow> sound2 e"
  unfolding gate2_def ladder_status gate2_rungs_def list.pred_inject fst_conv sound2_def by auto

lemma gate3_iff: "gr_status (gate3 e) = STATUS_PASSED \<longleftrightarrow> sound3 e"
  unfolding gate3_def ladder_status gate3_rungs_def list.pred_inject fst_conv sound3_def
    gate3_protection_sufficient_def by auto

lemma gate4_iff: "gr_status (gate4 e) = STATUS_PASSED \<longleftrightarrow> sound4 e"
  unfolding gate4_def ladder_status gate4_rungs_def list.pred_inject fst_conv
    sound4_def by auto

lemma gate5_iff: "gr_status (gate5 e) = STATUS_PASSED \<longleftrightarrow> sound5 e"
  unfolding gate5_def ladder_status gate5_rungs_def list.pred_inject fst_conv sound5_def
    gate5_evidence_consistent_def gate5_counts_consistent_def by auto

lemma gate6_iff: "gr_status (gate6 e) = STATUS_PASSED \<longleftrightarrow> sound6 e"
  unfolding gate6_def ladder_status gate6_rungs_def list.pred_inject fst_conv sound6_def
    gate6_evidence_consistent_def gate6_counts_consistent_def by auto

lemma gate7_iff: "gr_status (gate7 e) = STATUS_PASSED \<longleftrightarrow> sound7 e"
  unfolding gate7_def ladder_status gate7_rungs_def list.pred_inject fst_conv sound7_def
    verdict_shape_valid_def by auto

lemma gate8_iff: "gr_status (gate8 e) = STATUS_PASSED \<longleftrightarrow> sound8 e"
  unfolding gate8_def ladder_status gate8_rungs_def list.pred_inject fst_conv
    sound8_def by auto

lemma gate9_iff: "gr_status (gate9 e) = STATUS_PASSED \<longleftrightarrow> sound9 e"
  unfolding gate9_def ladder_status gate9_rungs_def list.pred_inject fst_conv sound9_def
    gate9_structurally_consistent_def by auto

lemma gate10_iff: "gr_status (gate10 e) = STATUS_PASSED \<longleftrightarrow> sound10 e"
  unfolding gate10_def ladder_status gate10_rungs_def list.pred_inject fst_conv sound10_def by auto

lemma gate11_iff: "gr_status (gate11 e) = STATUS_PASSED \<longleftrightarrow> sound11 e"
  unfolding gate11_def ladder_status gate11_rungs_def list.pred_inject fst_conv sound11_def by auto

lemma gate12_iff: "gr_status (gate12 e) = STATUS_PASSED \<longleftrightarrow> sound12 e"
  unfolding gate12_def ladder_status gate12_rungs_def list.pred_inject fst_conv sound12_def by auto

lemma gate13_iff: "gr_status (gate13 e) = STATUS_PASSED \<longleftrightarrow> sound13 e"
  unfolding gate13_def ladder_status gate13_rungs_def list.pred_inject fst_conv sound13_def by auto

section \<open>The gates meet the contract\<close>

interpretation g1: a5_gate gate1 1 "\<lambda>l. l = ''R5''"
  by unfold_locales
    (auto simp: gate1_def passed_def insufficient_def STATUS_PASSED_def STATUS_INSUFFICIENT_def)

interpretation g2: a5_gate gate2 2 sound2
  by (unfold_locales, simp_all only: gate2_iff) (simp_all add: gate2_def del: insert_iff)

interpretation g3: a5_gate gate3 3 sound3
  by (unfold_locales, simp_all only: gate3_iff) (simp_all add: gate3_def del: insert_iff)

interpretation g4: a5_gate gate4 4 sound4
  by (unfold_locales, simp_all only: gate4_iff) (simp_all add: gate4_def del: insert_iff)

interpretation g5: a5_gate gate5 5 sound5
  by (unfold_locales, simp_all only: gate5_iff) (simp_all add: gate5_def del: insert_iff)

interpretation g6: a5_gate gate6 6 sound6
  by (unfold_locales, simp_all only: gate6_iff) (simp_all add: gate6_def del: insert_iff)

interpretation g7: a5_gate gate7 7 sound7
  by (unfold_locales, simp_all only: gate7_iff) (simp_all add: gate7_def del: insert_iff)

interpretation g8: a5_gate gate8 8 sound8
  by (unfold_locales, simp_all only: gate8_iff) (simp_all add: gate8_def del: insert_iff)

interpretation g9: a5_gate gate9 9 sound9
  by (unfold_locales, simp_all only: gate9_iff) (simp_all add: gate9_def del: insert_iff)

interpretation g10: a5_gate gate10 10 sound10
  by (unfold_locales, simp_all only: gate10_iff) (simp_all add: gate10_def del: insert_iff)

interpretation g11: a5_gate gate11 11 sound11
  by (unfold_locales, simp_all only: gate11_iff) (simp_all add: gate11_def del: insert_iff)

interpretation g12: a5_gate gate12 12 sound12
  by (unfold_locales, simp_all only: gate12_iff) (simp_all add: gate12_def del: insert_iff)

interpretation g13: a5_gate gate13 13 sound13
  by (unfold_locales, simp_all only: gate13_iff) (simp_all add: gate13_def del: insert_iff)

section \<open>The report\<close>

record a5_evidence =
  ev_readiness_level :: string
  ev_target :: target_evidence
  ev_protection :: protection_evidence
  ev_oracle :: oracle_evidence
  ev_security :: security_evidence
  ev_shortcut :: shortcut_evidence
  ev_disposition :: disposition_evidence
  ev_acceptance :: acceptance_evidence
  ev_forecast :: forecast_evidence
  ev_rollback :: rollback_evidence
  ev_monitoring :: monitoring_evidence
  ev_preapproval :: preapproval_evidence
  ev_emergency :: emergency_evidence

definition a5_gates :: "a5_evidence \<Rightarrow> gate_result list" where
  "a5_gates ev =
     [gate1 (ev_readiness_level ev),
      gate2 (ev_target ev),
      gate3 (ev_protection ev),
      gate4 (ev_oracle ev),
      gate5 (ev_security ev),
      gate6 (ev_shortcut ev),
      gate7 (ev_disposition ev),
      gate8 (ev_acceptance ev),
      gate9 (ev_forecast ev),
      gate10 (ev_rollback ev),
      gate11 (ev_monitoring ev),
      gate12 (ev_preapproval ev),
      gate13 (ev_emergency ev)]"

record autonomy_report =
  rep_project :: string
  rep_gates :: "gate_result list"

definition evaluate_production_autonomy :: "string \<Rightarrow> a5_evidence \<Rightarrow> autonomy_report" where
  "evaluate_production_autonomy project ev =
     \<lparr>rep_project = project, rep_gates = sort_key gr_number (a5_gates ev)\<rparr>"

definition a5_satisfied :: "autonomy_report \<Rightarrow> bool" where
  "a5_satisfied r =
     (rep_gates r \<noteq> [] \<and> list_all (\<lambda>g. gr_status g = STATUS_PASSED) (rep_gates r))"

definition unmet_gates :: "autonomy_report \<Rightarrow> gate_result list" where
  "unmet_gates r = filter (\<lambda>g. gr_status g \<noteq> STATUS_PASSED) (rep_gates r)"

definition passed_gate_count :: "autonomy_report \<Rightarrow> nat" where
  "passed_gate_count r = length (filter (\<lambda>g. gr_status g = STATUS_PASSED) (rep_gates r))"

definition gate_to_dict :: "gate_result \<Rightarrow> pyval" where
  "gate_to_dict g =
     PDict [(''number'', PInt (gr_number g)), (''gate'', PStr (gr_gate g)),
       (''status'', PStr (gr_status g)), (''reason'', PStr (gr_reason g)),
       (''context'', PDict (gr_context g))]"

definition autonomy_to_dict :: "autonomy_report \<Rightarrow> pydict" where
  "autonomy_to_dict r =
     [(''project_id'', PStr (rep_project r)),
      (''a5_satisfied'', PBool (a5_satisfied r)),
      (''can_go_live_autonomously'', PBool False),
      (''can_go_live_reasons'', str_list [''a5_gates_not_all_satisfied'']),
      (''gates'', PList (map gate_to_dict (rep_gates r))),
      (''passed_gate_count'', PInt (int (passed_gate_count r))),
      (''unmet_gates'', PList (map gate_to_dict (unmet_gates r))),
      (''ruleset_version'', PStr ''slice54.v1'')]"

lemmas gate_numbers = g1.numbered g2.numbered g3.numbered g4.numbered g5.numbered g6.numbered g7.numbered g8.numbered g9.numbered g10.numbered g11.numbered g12.numbered g13.numbered

lemmas gate_statuses = g1.passes_iff_sound g2.passes_iff_sound g3.passes_iff_sound g4.passes_iff_sound g5.passes_iff_sound g6.passes_iff_sound g7.passes_iff_sound g8.passes_iff_sound g9.passes_iff_sound g10.passes_iff_sound g11.passes_iff_sound g12.passes_iff_sound g13.passes_iff_sound

lemma a5_gates_numbered: "map gr_number (a5_gates ev) = [1 .. 13]"
  by (simp add: a5_gates_def gate_numbers upto.simps)

lemma a5_gates_sorted [simp]: "rep_gates (evaluate_production_autonomy project ev) = a5_gates ev"
proof -
  have "sorted (map gr_number (a5_gates ev))"
    unfolding a5_gates_numbered by simp
  then show ?thesis by (simp add: evaluate_production_autonomy_def sort_key_id_if_sorted)
qed

lemma a5_gates_two_valued: "g \<in> set (a5_gates ev) \<Longrightarrow> gr_status g \<in> {STATUS_PASSED, STATUS_INSUFFICIENT}"
  unfolding a5_gates_def list.set
  by (elim insertE emptyE) (simp_all only: g1.two_valued g2.two_valued g3.two_valued g4.two_valued
      g5.two_valued g6.two_valued g7.two_valued g8.two_valued g9.two_valued g10.two_valued
      g11.two_valued g12.two_valued g13.two_valued)

definition sound_evidence :: "a5_evidence \<Rightarrow> bool" where
  "sound_evidence ev =
     (ev_readiness_level ev = ''R5'' \<and>
      sound2 (ev_target ev) \<and>
      sound3 (ev_protection ev) \<and>
      sound4 (ev_oracle ev) \<and>
      sound5 (ev_security ev) \<and>
      sound6 (ev_shortcut ev) \<and>
      sound7 (ev_disposition ev) \<and>
      sound8 (ev_acceptance ev) \<and>
      sound9 (ev_forecast ev) \<and>
      sound10 (ev_rollback ev) \<and>
      sound11 (ev_monitoring ev) \<and>
      sound12 (ev_preapproval ev) \<and>
      sound13 (ev_emergency ev))"

definition no_evidence :: "string \<Rightarrow> a5_evidence" where
  "no_evidence level =
     \<lparr>ev_readiness_level = level,
      ev_target = default_target_evidence,
      ev_protection = default_protection_evidence,
      ev_oracle = default_oracle_evidence,
      ev_security = default_security_evidence,
      ev_shortcut = default_shortcut_evidence,
      ev_disposition = default_disposition_evidence,
      ev_acceptance = default_acceptance_evidence,
      ev_forecast = default_forecast_evidence,
      ev_rollback = default_rollback_evidence,
      ev_monitoring = default_monitoring_evidence,
      ev_preapproval = default_preapproval_evidence,
      ev_emergency = default_emergency_evidence\<rparr>"

lemma satisfied_iff_sound:
  "a5_satisfied (evaluate_production_autonomy project ev) \<longleftrightarrow> sound_evidence ev"
proof -
  have "a5_gates ev \<noteq> []" by (simp add: a5_gates_def)
  then show ?thesis
    unfolding a5_satisfied_def a5_gates_sorted sound_evidence_def a5_gates_def list.pred_inject
      gate_statuses by (simp only: list.pred_inject(1) list.distinct simp_thms)
qed

lemma defaults_unsound:
  "\<not> sound2 default_target_evidence"
  "\<not> sound3 default_protection_evidence"
  "\<not> sound4 default_oracle_evidence"
  "\<not> sound5 default_security_evidence"
  "\<not> sound6 default_shortcut_evidence"
  "\<not> sound7 default_disposition_evidence"
  "\<not> sound8 default_acceptance_evidence"
  "\<not> sound9 default_forecast_evidence"
  "\<not> sound10 default_rollback_evidence"
  "\<not> sound11 default_monitoring_evidence"
  "\<not> sound12 default_preapproval_evidence"
  "\<not> sound13 default_emergency_evidence"
  by (simp_all add: sound2_def default_target_evidence_def sound3_def default_protection_evidence_def sound4_def default_oracle_evidence_def sound5_def default_security_evidence_def sound6_def default_shortcut_evidence_def sound7_def default_disposition_evidence_def sound8_def default_acceptance_evidence_def sound9_def default_forecast_evidence_def sound10_def default_rollback_evidence_def sound11_def default_monitoring_evidence_def sound12_def default_preapproval_evidence_def sound13_def default_emergency_evidence_def)

section \<open>A fully evidenced project\<close>

definition full_evidence :: a5_evidence where
  "full_evidence =
     \<lparr>ev_readiness_level = ''R5'',
      ev_target = default_target_evidence\<lparr>deployment_target_bound := True,
        latest_deployment_target_provenance := Some ''connector_verified'',
        latest_deployment_target_fresh := True, latest_deployment_target_available := Some True\<rparr>,
      ev_protection = default_protection_evidence\<lparr>branch_protection_repo_bound := True,
        latest_branch_protection_provenance := Some ''connector_verified'',
        latest_branch_protection_fresh := True, latest_branch_protection_enabled := Some True,
        latest_branch_protection_required_pull_request_reviews := Some True,
        latest_required_status_check_count := 2\<rparr>,
      ev_oracle = default_oracle_evidence\<lparr>test_oracle_scope_count := 4,
        test_oracle_binding_present := True, test_oracle_valid_definition_count := 4,
        test_oracle_passed_count := 4\<rparr>,
      ev_security = default_security_evidence\<lparr>open_security_finding_count := 2,
        security_scan_binding_resolved := True, security_scan_run_present := True,
        security_scan_artifact_trusted := True, security_scan_coverage_complete := True,
        security_scan_evidence_consistent := True, security_scan_completed_category_count := 5\<rparr>,
      ev_shortcut = default_shortcut_evidence\<lparr>shortcut_review_binding_resolved := True,
        shortcut_review_run_present := True, shortcut_review_corpus_trusted := True,
        shortcut_review_independence_resolved := True, shortcut_review_coverage_complete := True,
        shortcut_review_evidence_consistent := True, shortcut_review_completed_category_count := 12,
        shortcut_review_reviewer_count := 2\<rparr>,
      ev_disposition = default_disposition_evidence\<lparr>frozen_release_candidate_count := 1,
        release_evidence_core_present := True, release_evidence_core_audited := True,
        release_verdict_run_present := True, release_verdict_binding_current := True,
        release_verdict_evidence_consistent := True,
        release_verdict_decision_scope := Some ''known_bound_issue_disposition'',
        release_verdict_execution_provenance := Some ''system_derived_release_verdict'',
        release_verdict_spec_verdict := Some ''passed'', release_verdict_gate_eligible := True\<rparr>,
      ev_acceptance = default_acceptance_evidence\<lparr>acceptance_binding_resolved := True,
        acceptance_scope_count := 3, acceptance_eligible_count := 3,
        acceptance_verification_run_present := True, acceptance_evidence_consistent := True\<rparr>,
      ev_forecast = default_forecast_evidence\<lparr>cost_forecast_scope_resolved := True,
        cost_forecast_policy_present := True, cost_forecast_policy_valid := True,
        cost_forecast_budget_present := True, cost_forecast_budget_valid := True,
        cost_forecast_history_count := 9, cost_forecast_run_present := True,
        cost_forecast_binding_current := True, cost_forecast_input_coverage_complete := True,
        cost_forecast_price_coverage_complete := True, cost_forecast_evidence_consistent := True,
        cost_forecast_all_dimensions_within := True, cost_forecast_gate_eligible := True,
        cost_forecast_dimension_count := 6,
        cost_forecast_execution_provenance := Some ''system_derived_cost_forecast''\<rparr>,
      ev_rollback = default_rollback_evidence\<lparr>rollback_scope_resolved := True,
        rollback_core_present := True, rollback_core_reaudited := True,
        rollback_repo_binding_agreed := True, rollback_staging_target_valid := True,
        rollback_staging_snapshot_present := True, rollback_staging_snapshot_available := True,
        rollback_staging_snapshot_fresh := True, rollback_run_present := True,
        rollback_artifact_trusted := True, rollback_binding_current := True,
        rollback_phase_coverage_complete := True, rollback_evidence_consistent := True,
        rollback_drill_passed := True, rollback_gate_eligible := True, rollback_phase_count := 5,
        rollback_execution_observation := Some ''connector_observed_ci''\<rparr>,
      ev_monitoring = default_monitoring_evidence\<lparr>monitoring_bound := True,
        latest_monitoring_provenance := Some ''connector_verified'', latest_monitoring_fresh := True,
        latest_monitoring_response_valid := Some True, latest_monitoring_overall_active := Some True\<rparr>,
      ev_preapproval = default_preapproval_evidence\<lparr>preapproval_candidate_present := True,
        preapproval_core_present := True, preapproval_core_reaudited := True,
        preapproval_verdict_present := True, preapproval_verdict_gate_eligible := True,
        preapproval_policy_present := True, preapproval_policy_valid := True,
        preapproval_approver_count := 1, preapproval_autonomy_policy_eligible := True,
        preapproval_request_present := True, preapproval_binding_current := True,
        preapproval_requester_authenticated := True, preapproval_notification_valid := True,
        preapproval_request_status := Some ''approved'', preapproval_attestation_present := True,
        preapproval_approver_authenticated := True, preapproval_approver_in_policy := True,
        preapproval_separation_ok := True, preapproval_lifecycle_status := Some ''approved_anchor'',
        preapproval_evidence_consistent := True, preapproval_gate_eligible := True,
        preapproval_requester_actor_type := Some ''service'',
        preapproval_approver_actor_type := Some ''human'',
        preapproval_policy_contract_version := Some ''slice53.production_approval_policy.v1'',
        preapproval_condition_contract_version := Some ''slice53.production_preapproval_conditions.v1'',
        preapproval_contract_version := Some ''slice53.production_preapproval.v1''\<rparr>,
      ev_emergency = default_emergency_evidence\<lparr>emergency_policy_present := True,
        emergency_policy_valid := True, emergency_binding_present := True,
        emergency_contracts_current := True, emergency_authority_membership_complete := True,
        emergency_authority_member_count := 2, emergency_mechanism_initialized := True,
        emergency_stop_state_consistent := True, emergency_rollback_authority_bound := True,
        emergency_rollback_binding_current := True, emergency_rollback_verification_current := True,
        emergency_evidence_consistent := True,
        emergency_control_contract_version := Some EMERGENCY_CONTROL_CONTRACT_VERSION,
        emergency_stop_contract_version := Some EMERGENCY_STOP_CONTRACT_VERSION,
        emergency_rollback_authority_contract_version := Some ROLLBACK_AUTHORITY_CONTRACT_VERSION\<rparr>\<rparr>"

text \<open>The contract is satisfiable: this evidence passes every gate.\<close>

lemma full_evidence_sound: "sound_evidence full_evidence"
  unfolding sound_evidence_def full_evidence_def
  by (intro conjI)
    (simp_all add: sound2_def default_target_evidence_def sound3_def default_protection_evidence_def sound4_def default_oracle_evidence_def sound5_def default_security_evidence_def sound6_def default_shortcut_evidence_def sound7_def default_disposition_evidence_def sound8_def default_acceptance_evidence_def sound9_def default_forecast_evidence_def sound10_def default_rollback_evidence_def sound11_def default_monitoring_evidence_def sound12_def default_preapproval_evidence_def sound13_def default_emergency_evidence_def gate7_counts_consistent_def
      gate12_contracts_ok_def gate13_contracts_ok_def)

section \<open>Properties\<close>

text \<open>C18: The evaluator refines its specification: A5 is satisfied exactly when readiness is R5 and the
  evidence of each of the other twelve gates is sound, e.g. every scoped oracle passed with none
  unrun, untrusted or failed; all five scan categories completed with no open critical finding; a
  current passing verdict; an approved, unexpired, human pre-approval; no active stop.\<close>

theorem a5_satisfied_iff:
  "a5_satisfied (evaluate_production_autonomy project ev) = sound_evidence ev"
  by (rule satisfied_iff_sound)

text \<open>C19: The report is well formed whatever the evidence: gates 1 to 13 in order, each passed or
  insufficient, the passed and the unmet gates partition them, A5 is satisfied exactly when none is
  unmet, and the serialised report never grants autonomous go-live.\<close>

theorem a5_report_well_formed:
  "map gr_number (rep_gates (evaluate_production_autonomy project ev)) = [1 .. 13] \<and>
   list_all (\<lambda>g. gr_status g \<in> {STATUS_PASSED, STATUS_INSUFFICIENT})
     (rep_gates (evaluate_production_autonomy project ev)) \<and>
   passed_gate_count (evaluate_production_autonomy project ev) +
     length (unmet_gates (evaluate_production_autonomy project ev)) = 13 \<and>
   (a5_satisfied (evaluate_production_autonomy project ev) =
     (unmet_gates (evaluate_production_autonomy project ev) = [])) \<and>
   dget (autonomy_to_dict (evaluate_production_autonomy project ev)) ''can_go_live_autonomously'' = PBool False"
proof -
  let ?r = "evaluate_production_autonomy project ev"
  have len: "length (rep_gates ?r) = 13"
    by (simp add: a5_gates_def)
  have "passed_gate_count ?r + length (unmet_gates ?r) = length (rep_gates ?r)"
    unfolding passed_gate_count_def unmet_gates_def by (rule sum_length_filter_compl)
  moreover have "a5_satisfied ?r = (unmet_gates ?r = [])"
    by (auto simp: a5_satisfied_def unmet_gates_def filter_empty_conv list_all_iff a5_gates_def
        simp del: a5_gates_sorted) (auto simp: a5_gates_def)
  moreover have "list_all (\<lambda>g. gr_status g \<in> {STATUS_PASSED, STATUS_INSUFFICIENT}) (rep_gates ?r)"
    unfolding list_all_iff a5_gates_sorted using a5_gates_two_valued by blast
  moreover have "dget (autonomy_to_dict ?r) ''can_go_live_autonomously'' = PBool False"
    by (simp add: autonomy_to_dict_def)
  ultimately show ?thesis
    unfolding a5_gates_sorted a5_gates_numbered by (simp add: a5_gates_def)
qed

text \<open>Missing evidence blocks: if the evidence of any gate from 2 to 13 is left at the defaults of the
  evaluator, or the readiness level is below R5, A5 is not satisfied; with no evidence at all no gate
  but the first can pass.\<close>

theorem missing_evidence_blocks:
  "(ev_readiness_level ev \<noteq> ''R5'' \<or> ev_target ev = default_target_evidence \<or> ev_protection ev = default_protection_evidence \<or>
    ev_oracle ev = default_oracle_evidence \<or> ev_security ev = default_security_evidence \<or>
    ev_shortcut ev = default_shortcut_evidence \<or> ev_disposition ev = default_disposition_evidence \<or>
    ev_acceptance ev = default_acceptance_evidence \<or> ev_forecast ev = default_forecast_evidence \<or>
    ev_rollback ev = default_rollback_evidence \<or> ev_monitoring ev = default_monitoring_evidence \<or>
    ev_preapproval ev = default_preapproval_evidence \<or> ev_emergency ev = default_emergency_evidence
     \<longrightarrow>
      \<not> a5_satisfied (evaluate_production_autonomy project ev)) \<and>
   passed_gate_count (evaluate_production_autonomy project (no_evidence level)) =
     (if level = ''R5'' then 1 else 0)"
proof
  have "passed_gate_count (evaluate_production_autonomy project (no_evidence level)) =
      length (filter (\<lambda>g. gr_status g = STATUS_PASSED) (a5_gates (no_evidence level)))"
    by (simp add: passed_gate_count_def)
  also have "\<dots> = (if level = ''R5'' then 1 else 0)"
    unfolding a5_gates_def no_evidence_def a5_evidence.simps filter.simps gate_statuses
    by (simp only: defaults_unsound if_False list.size) simp
  finally show "passed_gate_count (evaluate_production_autonomy project (no_evidence level)) =
      (if level = ''R5'' then 1 else 0)" .
qed (use defaults_unsound in \<open>auto simp: satisfied_iff_sound sound_evidence_def\<close>)

lemma missing_evidence_blocks_witness:
  "\<not> a5_satisfied (evaluate_production_autonomy ''p'' (full_evidence\<lparr>ev_rollback := default_rollback_evidence\<rparr>))"
  using missing_evidence_blocks [of "full_evidence\<lparr>ev_rollback := default_rollback_evidence\<rparr>" "''p''"]
  by simp

end
