(* ===== verification/Go_Live.thy ===== *)
theory Go_Live
  imports Json
begin

text \<open>
  The go-live decision contracts (\<open>app/release/go_live_decision.py\<close>): the stage machine of the
  control loop, the decision itself, the rejection of caller-supplied truth, and the canonical text
  whose digest binds the thirteen gate results.  \<open>hashlib.sha256\<close> is the argument \<open>sha\<close>.
\<close>

section \<open>Stages and outcomes\<close>

definition CONTROL_LOOP_STAGE_SEQUENCE :: "string list" where
  "CONTROL_LOOP_STAGE_SEQUENCE =
     [''read_project_state'',
      ''inspect_existing_work_evidence'',
      ''observe_existing_review_and_verification_evidence'',
      ''assemble_or_reaudit_evidence_pack'',
      ''check_cost_and_authority_limits'',
      ''observe_staging_evidence'',
      ''evaluate_a5_gate'',
      ''finalize_go_live_decision'']"

definition GUARD_OUTCOMES :: "string list" where
  "GUARD_OUTCOMES = [''paused_emergency_stop'', ''paused_cost_stop'']"

definition TERMINAL_OUTCOMES :: "string list" where
  "TERMINAL_OUTCOMES =
     GUARD_OUTCOMES @ [''failed_infrastructure'', ''decision_recorded'', ''blocked_evidence_or_authority'']"

definition ALLOWED_STAGE_OUTCOMES :: "(string \<times> string list) list" where
  "ALLOWED_STAGE_OUTCOMES =
     [(''read_project_state'', ''capability_unavailable_not_executed'' # GUARD_OUTCOMES),
      (''inspect_existing_work_evidence'', ''capability_unavailable_not_executed'' # GUARD_OUTCOMES),
      (''observe_existing_review_and_verification_evidence'',
        ''capability_unavailable_not_executed'' # GUARD_OUTCOMES),
      (''assemble_or_reaudit_evidence_pack'',
        [''evidence_pack_reaudited'', ''evidence_pack_unavailable_not_executed''] @ GUARD_OUTCOMES),
      (''check_cost_and_authority_limits'', ''cost_and_authority_limits_checked'' # GUARD_OUTCOMES),
      (''observe_staging_evidence'',
        [''staging_evidence_observed_not_deployed'', ''staging_evidence_not_observed''] @ GUARD_OUTCOMES),
      (''evaluate_a5_gate'', ''a5_evaluation_completed'' # GUARD_OUTCOMES),
      (''finalize_go_live_decision'',
        [''decision_recorded'', ''blocked_evidence_or_authority''] @ GUARD_OUTCOMES),
      (''control_loop_runtime'', [''failed_infrastructure''])]"

datatype go_live_error =
  TransitionInvalid | ExactGateSetRequired | CallerTruthFieldForbidden string | FieldInvalid string | NotSerializable

text \<open>\<open>sequence[sequence.index(x) + 1]\<close>, \<open>None\<close> where the code raises.\<close>

fun next_in :: "'a \<Rightarrow> 'a list \<Rightarrow> 'a option" where
  "next_in x [] = None"
| "next_in x (y # ys) =
     (if x = y then (case ys of [] \<Rightarrow> None | z # _ \<Rightarrow> Some z) else next_in x ys)"

definition expected_stage :: "string option \<Rightarrow> string option" where
  "expected_stage previous_stage =
     (case previous_stage of
        None \<Rightarrow> Some (hd CONTROL_LOOP_STAGE_SEQUENCE)
      | Some s \<Rightarrow> next_in s CONTROL_LOOP_STAGE_SEQUENCE)"

definition validate_event_transition ::
  "string option \<Rightarrow> string option \<Rightarrow> string \<Rightarrow> string \<Rightarrow> go_live_error + unit" where
  "validate_event_transition previous_stage previous_outcome stage_code outcome_code =
     (case map_of ALLOWED_STAGE_OUTCOMES stage_code of
        None \<Rightarrow> Inl TransitionInvalid
      | Some allowed \<Rightarrow>
          if outcome_code \<notin> set allowed then Inl TransitionInvalid
          else if previous_outcome \<in> Some ` set GUARD_OUTCOMES
          then check (Some stage_code = previous_stage) TransitionInvalid
          else if previous_outcome \<in> Some ` set TERMINAL_OUTCOMES then Inl TransitionInvalid
          else if stage_code = ''control_loop_runtime'' then Inr ()
          else (case expected_stage previous_stage of
                  None \<Rightarrow> Inl TransitionInvalid
                | Some e \<Rightarrow> check (stage_code = e) TransitionInvalid))"

section \<open>The event log of a loop\<close>

type_synonym loop_event = "string \<times> string"

text \<open>Each event is validated against the one before it.\<close>

fun log_ok :: "string option \<Rightarrow> string option \<Rightarrow> loop_event list \<Rightarrow> bool" where
  "log_ok ps po [] = True"
| "log_ok ps po ((s, oc) # es) =
     (validate_event_transition ps po s oc = Inr () \<and> log_ok (Some s) (Some oc) es)"

section \<open>The abstract loop\<close>

text \<open>
  The loop as it is meant: a position in the stage list, and whether the loop is ready for that
  stage, paused before retrying it, or over.
\<close>

datatype loop_mode = Ready | Retry | Over

fun loop_next :: "nat \<times> loop_mode \<Rightarrow> loop_event \<Rightarrow> (nat \<times> loop_mode) option" where
  "loop_next (k, m) (s, oc) =
     (if m = Over then None
      else if m = Ready \<and> (s, oc) = (''control_loop_runtime'', ''failed_infrastructure'') then Some (k, Over)
      else if k < length CONTROL_LOOP_STAGE_SEQUENCE \<and> s = CONTROL_LOOP_STAGE_SEQUENCE ! k \<and>
              oc \<in> set (the (map_of ALLOWED_STAGE_OUTCOMES s))
      then (if oc \<in> set GUARD_OUTCOMES then Some (k, Retry)
            else if Suc k = length CONTROL_LOOP_STAGE_SEQUENCE then Some (Suc k, Over)
            else Some (Suc k, Ready))
      else None)"

fun loop_run :: "nat \<times> loop_mode \<Rightarrow> loop_event list \<Rightarrow> (nat \<times> loop_mode) option" where
  "loop_run c [] = Some c"
| "loop_run c (e # es) = (case loop_next c e of None \<Rightarrow> None | Some c' \<Rightarrow> loop_run c' es)"

text \<open>Which previous event an abstract state stands for.\<close>

definition stands_for :: "nat \<times> loop_mode \<Rightarrow> string option \<Rightarrow> string option \<Rightarrow> bool" where
  "stands_for c ps po =
     (case c of
        (k, Ready) \<Rightarrow> po \<notin> Some ` set TERMINAL_OUTCOMES \<and> k < length CONTROL_LOOP_STAGE_SEQUENCE \<and>
          expected_stage ps = Some (CONTROL_LOOP_STAGE_SEQUENCE ! k)
      | (k, Retry) \<Rightarrow> po \<in> Some ` set GUARD_OUTCOMES \<and> k < length CONTROL_LOOP_STAGE_SEQUENCE \<and>
          ps = Some (CONTROL_LOOP_STAGE_SEQUENCE ! k)
      | (k, Over) \<Rightarrow> po \<in> Some ` (set TERMINAL_OUTCOMES - set GUARD_OUTCOMES))"

lemma next_in_nth:
  "distinct xs \<Longrightarrow> Suc i < length xs \<Longrightarrow> next_in (xs ! i) xs = Some (xs ! Suc i)"
proof (induction xs arbitrary: i)
  case (Cons x xs)
  show ?case
  proof (cases i)
    case 0
    with Cons.prems show ?thesis by (cases xs) auto
  next
    case (Suc j)
    then have "xs ! j \<noteq> x" using Cons.prems by auto
    with Suc Cons show ?thesis by simp
  qed
qed simp

lemma sequence_distinct: "distinct CONTROL_LOOP_STAGE_SEQUENCE"
  by (simp add: CONTROL_LOOP_STAGE_SEQUENCE_def)

lemma sequence_length [simp]: "length CONTROL_LOOP_STAGE_SEQUENCE = 8"
  by (simp add: CONTROL_LOOP_STAGE_SEQUENCE_def)

lemma stage_facts:
  "s \<in> set CONTROL_LOOP_STAGE_SEQUENCE \<Longrightarrow>
     s \<noteq> ''control_loop_runtime'' \<and>
     (\<exists>al. map_of ALLOWED_STAGE_OUTCOMES s = Some al \<and> set GUARD_OUTCOMES \<subseteq> set al)"
  by (simp only: CONTROL_LOOP_STAGE_SEQUENCE_def list.set)
    (elim insertE emptyE; simp add: ALLOWED_STAGE_OUTCOMES_def; blast)

lemma known_stages:
  "map_of ALLOWED_STAGE_OUTCOMES s = Some al \<Longrightarrow>
     s \<in> set CONTROL_LOOP_STAGE_SEQUENCE \<or> s = ''control_loop_runtime'' \<and> al = [''failed_infrastructure'']"
  by (auto simp: ALLOWED_STAGE_OUTCOMES_def CONTROL_LOOP_STAGE_SEQUENCE_def split: if_splits)

lemma stage_nth: "k < 8 \<Longrightarrow> CONTROL_LOOP_STAGE_SEQUENCE ! k \<in> set CONTROL_LOOP_STAGE_SEQUENCE"
  by (metis nth_mem sequence_length)

lemma guard_terminal: "set GUARD_OUTCOMES \<subseteq> set TERMINAL_OUTCOMES"
  by (auto simp: TERMINAL_OUTCOMES_def)

text \<open>Only the last stage has outcomes that end the loop, and it has no others but the guards.\<close>

lemma early_outcomes:
  assumes "Suc k < 8" "oc \<in> set (the (map_of ALLOWED_STAGE_OUTCOMES (CONTROL_LOOP_STAGE_SEQUENCE ! k)))"
    and "oc \<notin> set GUARD_OUTCOMES"
  shows "oc \<notin> set TERMINAL_OUTCOMES"
proof -
  have "k \<in> {0, 1, 2, 3, 4, 5, 6}" using assms(1) by auto
  then show ?thesis
    using assms(2,3) by (elim insertE emptyE; simp add: CONTROL_LOOP_STAGE_SEQUENCE_def
        ALLOWED_STAGE_OUTCOMES_def TERMINAL_OUTCOMES_def GUARD_OUTCOMES_def; elim disjE; simp)
qed

lemma last_outcomes:
  "oc \<in> set (the (map_of ALLOWED_STAGE_OUTCOMES (CONTROL_LOOP_STAGE_SEQUENCE ! 7))) \<Longrightarrow>
     oc \<in> set TERMINAL_OUTCOMES"
  by (auto simp: CONTROL_LOOP_STAGE_SEQUENCE_def ALLOWED_STAGE_OUTCOMES_def TERMINAL_OUTCOMES_def)

lemma validate_iff:
  "validate_event_transition ps po s oc = Inr () \<longleftrightarrow>
     (\<exists>al. map_of ALLOWED_STAGE_OUTCOMES s = Some al \<and> oc \<in> set al \<and>
        (if po \<in> Some ` set GUARD_OUTCOMES then ps = Some s
         else po \<notin> Some ` set TERMINAL_OUTCOMES \<and>
           (s = ''control_loop_runtime'' \<or> expected_stage ps = Some s)))"
  by (simp add: validate_event_transition_def eq_commute [of "Some s"] eq_commute [of s] split: option.split)

lemma loop_next_iff:
  "loop_next (k, m) (s, oc) \<noteq> None \<longleftrightarrow>
     m \<noteq> Over \<and> (m = Ready \<and> (s, oc) = (''control_loop_runtime'', ''failed_infrastructure'') \<or>
       k < 8 \<and> s = CONTROL_LOOP_STAGE_SEQUENCE ! k \<and> oc \<in> set (the (map_of ALLOWED_STAGE_OUTCOMES s)))"
  by auto

lemma runtime_outcomes: "map_of ALLOWED_STAGE_OUTCOMES ''control_loop_runtime'' = Some [''failed_infrastructure'']"
  by (simp add: ALLOWED_STAGE_OUTCOMES_def)

lemma validate_accepts_iff:
  assumes "stands_for c ps po"
  shows "validate_event_transition ps po s oc = Inr () \<longleftrightarrow> loop_next c (s, oc) \<noteq> None"
proof (cases c)
  case (Pair k m)
  let ?q = "CONTROL_LOOP_STAGE_SEQUENCE ! k"
  have guards: "po \<in> Some ` set GUARD_OUTCOMES \<Longrightarrow> po \<in> Some ` set TERMINAL_OUTCOMES"
    using guard_terminal by blast
  have q: "?q \<noteq> ''control_loop_runtime''" "\<exists>al. map_of ALLOWED_STAGE_OUTCOMES ?q = Some al" if "k < 8"
    using stage_facts [OF stage_nth [OF that]] by blast+
  show ?thesis
  proof (cases m)
    case Ready
    with assms have h: "po \<notin> Some ` set TERMINAL_OUTCOMES" "k < 8" "expected_stage ps = Some ?q"
      by (simp_all add: Pair stands_for_def)
    then have "po \<notin> Some ` set GUARD_OUTCOMES" using guards by blast
    with h q [OF h(2)] show ?thesis
      unfolding Pair Ready validate_iff loop_next_iff
      by (cases "s = ''control_loop_runtime''") (simp add: runtime_outcomes, auto)
  next
    case Retry
    with assms have h: "po \<in> Some ` set GUARD_OUTCOMES" "k < 8" "ps = Some ?q"
      by (simp_all add: Pair stands_for_def)
    with q(2) [OF h(2)] show ?thesis
      unfolding Pair Retry validate_iff loop_next_iff by (auto simp only: if_True option.sel loop_mode.distinct)
  next
    case Over
    with assms have "po \<notin> Some ` set GUARD_OUTCOMES" "po \<in> Some ` set TERMINAL_OUTCOMES"
      by (auto simp: Pair stands_for_def)
    then show ?thesis unfolding Pair Over validate_iff loop_next_iff by simp
  qed
qed

lemma loop_next_stands_for:
  assumes "stands_for c ps po" "loop_next c (s, oc) = Some c'"
  shows "stands_for c' (Some s) (Some oc)"
proof (cases c)
  case (Pair k m)
  have over: "''failed_infrastructure'' \<in> set TERMINAL_OUTCOMES - set GUARD_OUTCOMES"
    by (simp add: TERMINAL_OUTCOMES_def GUARD_OUTCOMES_def)
  show ?thesis
  proof (cases "s = ''control_loop_runtime''")
    case True
    with assms(2) over stage_facts [OF stage_nth [of k]] show ?thesis
      by (auto simp: Pair stands_for_def split: if_splits)
  next
    case False
    with assms(2) have k: "k < 8" "s = CONTROL_LOOP_STAGE_SEQUENCE ! k" "m \<noteq> Over"
      "oc \<in> set (the (map_of ALLOWED_STAGE_OUTCOMES s))"
      by (auto simp: Pair split: if_splits)
    show ?thesis
    proof (cases "oc \<in> set GUARD_OUTCOMES")
      case True
      with assms(2) k False show ?thesis by (auto simp: Pair stands_for_def)
    next
      case ng: False
      show ?thesis
      proof (cases "Suc k = 8")
        case True
        then have "k = 7" by simp
        with k(4) have "oc \<in> set TERMINAL_OUTCOMES" using last_outcomes k(2) by simp
        with assms(2) k ng True False show ?thesis by (auto simp: Pair stands_for_def)
      next
        case False
        with k(1) have "Suc k < 8" by simp
        with k(4) ng have "oc \<notin> set TERMINAL_OUTCOMES" using early_outcomes k(2) by simp
        moreover have "expected_stage (Some s) = Some (CONTROL_LOOP_STAGE_SEQUENCE ! Suc k)"
          using next_in_nth [OF sequence_distinct] \<open>Suc k < 8\<close> k(2) by (simp add: expected_stage_def)
        ultimately show ?thesis
          using assms(2) k ng \<open>Suc k < 8\<close> \<open>s \<noteq> ''control_loop_runtime''\<close>
          by (auto simp: Pair stands_for_def image_iff)
      qed
    qed
  qed
qed

lemma log_ok_iff_run:
  "stands_for c ps po \<Longrightarrow> log_ok ps po es \<longleftrightarrow> loop_run c es \<noteq> None"
proof (induction es arbitrary: c ps po)
  case (Cons e es)
  obtain s oc where e: "e = (s, oc)" by (cases e)
  show ?case
    using validate_accepts_iff [OF Cons.prems, of s oc] Cons.IH loop_next_stands_for [OF Cons.prems]
    by (cases "loop_next c (s, oc)") (auto simp: e simp del: loop_next.simps)
qed simp

lemma start_stands_for: "stands_for (0, Ready) None None"
  by (simp add: stands_for_def expected_stage_def CONTROL_LOOP_STAGE_SEQUENCE_def)

section \<open>What a log shows\<close>

definition work_events :: "loop_event list \<Rightarrow> loop_event list" where
  "work_events es = filter (\<lambda>e. snd e \<notin> set GUARD_OUTCOMES) es"

lemma loop_next_cases:
  assumes "loop_next (k, m) (s, oc) = Some (k1, m1)"
  shows "(s, oc) = (''control_loop_runtime'', ''failed_infrastructure'') \<and> k1 = k \<and> m1 = Over \<or>
     oc \<in> set GUARD_OUTCOMES \<and> k < 8 \<and> k1 = k \<and> m1 = Retry \<or>
     oc \<notin> set GUARD_OUTCOMES \<and> k < 8 \<and> s = CONTROL_LOOP_STAGE_SEQUENCE ! k \<and> k1 = Suc k \<and>
       m1 = (if Suc k = 8 then Over else Ready)"
proof -
  show ?thesis
    using assms unfolding loop_next.simps sequence_length
    by (simp only: split: if_splits) simp_all
qed

text \<open>The stages completed, in order: a prefix of the sequence, and at most a runtime failure after it.\<close>

lemma run_stages:
  "loop_run (k, m) es = Some (k', m') \<Longrightarrow> m \<noteq> Over \<Longrightarrow> k \<le> 8 \<Longrightarrow>
     k \<le> k' \<and> k' \<le> 8 \<and>
     (map fst (work_events es) = drop k (take k' CONTROL_LOOP_STAGE_SEQUENCE) \<or>
      m' = Over \<and> map fst (work_events es) = drop k (take k' CONTROL_LOOP_STAGE_SEQUENCE) @ [''control_loop_runtime''])"
proof (induction es arbitrary: k m)
  case Nil
  then show ?case by (simp add: work_events_def drop_take)
next
  case (Cons e es)
  obtain s oc where e: "e = (s, oc)" by (cases e)
  obtain k1 m1 where n: "loop_next (k, m) e = Some (k1, m1)" and r: "loop_run (k1, m1) es = Some (k', m')"
    using Cons.prems(1) by (auto split: option.splits)
  have over: "m1 = Over \<Longrightarrow> es = [] \<and> k' = k1 \<and> m' = Over"
    using r by (cases es) auto
  consider (fail) "s = ''control_loop_runtime''" "oc = ''failed_infrastructure''" "k1 = k" "m1 = Over"
    | (guard) "oc \<in> set GUARD_OUTCOMES" "k1 = k" "m1 = Retry"
    | (stage) "oc \<notin> set GUARD_OUTCOMES" "k < 8" "s = CONTROL_LOOP_STAGE_SEQUENCE ! k" "k1 = Suc k"
        "m1 = (if Suc k = 8 then Over else Ready)"
    using loop_next_cases [OF n [unfolded e]] by blast
  then show ?case
  proof cases
    case fail
    with over Cons.prems(3) show ?thesis
      by (simp add: work_events_def e GUARD_OUTCOMES_def drop_take)
  next
    case guard
    then show ?thesis using Cons.IH [OF r] Cons.prems(3) by (simp add: work_events_def e)
  next
    case stage
    have c: "drop k (take k' CONTROL_LOOP_STAGE_SEQUENCE) = s # drop (Suc k) (take k' CONTROL_LOOP_STAGE_SEQUENCE)"
      if "Suc k \<le> k'" "k' \<le> 8"
      using Cons_nth_drop_Suc [of k "take k' CONTROL_LOOP_STAGE_SEQUENCE"] that stage(2,3) by simp
    show ?thesis
    proof (cases "Suc k = 8")
      case True
      with stage over have "es = []" "k' = 8" "m' = Over" by simp_all
      with c stage True show ?thesis by (simp add: work_events_def e)
    next
      case False
      with stage Cons.IH [OF r] have ih: "Suc k \<le> k'" "k' \<le> 8"
        "map fst (work_events es) = drop (Suc k) (take k' CONTROL_LOOP_STAGE_SEQUENCE) \<or>
         m' = Over \<and> map fst (work_events es) = drop (Suc k) (take k' CONTROL_LOOP_STAGE_SEQUENCE) @ [''control_loop_runtime'']"
        by simp_all
      with c [OF ih(1,2)] stage show ?thesis by (auto simp: work_events_def e)
    qed
  qed
qed

lemma loop_run_append:
  "loop_run c (es @ fs) = (case loop_run c es of None \<Rightarrow> None | Some c' \<Rightarrow> loop_run c' fs)"
  by (induction es arbitrary: c) (auto split: option.splits)

text \<open>An outcome that is terminal and no guard ends the loop: after a failure, or at the last stage.\<close>

lemma run_terminal_last:
  assumes "loop_run c es = Some c'" "(s, oc) \<in> set es" "oc \<in> set TERMINAL_OUTCOMES" "oc \<notin> set GUARD_OUTCOMES"
  shows "snd c' = Over \<and> last es = (s, oc) \<and>
     ((s, oc) = (''control_loop_runtime'', ''failed_infrastructure'') \<or>
      fst c' = 8 \<and> s = ''finalize_go_live_decision'')"
  using assms(1,2)
proof (induction es arbitrary: c)
  case (Cons e es)
  obtain k m where c: "c = (k, m)" by (cases c)
  obtain s1 oc1 where e: "e = (s1, oc1)" by (cases e)
  obtain k1 m1 where n: "loop_next (k, m) (s1, oc1) = Some (k1, m1)" and r: "loop_run (k1, m1) es = Some c'"
    using Cons.prems(1) by (auto simp: c e split: option.splits)
  show ?case
  proof (cases "(s, oc) \<in> set es")
    case True
    then have "es \<noteq> []" by auto
    then show ?thesis using Cons.IH [OF r True] by simp
  next
    case False
    with Cons.prems(2) have eq: "s1 = s" "oc1 = oc" by (simp_all add: e)
    have m1: "m1 = Over \<and> ((s, oc) = (''control_loop_runtime'', ''failed_infrastructure'') \<or>
        k1 = 8 \<and> s = ''finalize_go_live_decision'')"
      using loop_next_cases [OF n] unfolding eq
    proof (elim disjE conjE)
      assume st: "k < 8" "s = CONTROL_LOOP_STAGE_SEQUENCE ! k" "k1 = Suc k" "m1 = (if Suc k = 8 then Over else Ready)"
      have "s \<noteq> ''control_loop_runtime''" using stage_facts [OF stage_nth [OF st(1)]] st(2) by simp
      then have "oc \<in> set (the (map_of ALLOWED_STAGE_OUTCOMES s))"
        using n st(3) unfolding eq loop_next.simps by (simp only: split: if_splits) simp_all
      then have "\<not> Suc k < 8" using early_outcomes [of k oc] assms(3,4) st(2) by blast
      with st have "k = 7" by simp
      with st show ?thesis by (simp add: CONTROL_LOOP_STAGE_SEQUENCE_def)
    qed (use assms(4) in simp_all)
    moreover have "es = [] \<and> c' = (k1, m1)"
      using r m1 by (cases es) auto
    ultimately show ?thesis by (simp add: e eq)
  qed
qed simp

lemma run_over_last:
  assumes "loop_run (k, m) es = Some (k', Over)" "m \<noteq> Over"
  shows "es \<noteq> [] \<and> snd (last es) \<in> set TERMINAL_OUTCOMES - set GUARD_OUTCOMES"
proof (cases es rule: rev_cases)
  case (snoc fs e)
  obtain s oc where e: "e = (s, oc)" by (cases e)
  obtain k1 m1 where n: "loop_next (k1, m1) (s, oc) = Some (k', Over)"
    using assms(1) by (auto simp: snoc e loop_run_append split: option.splits)
  from loop_next_cases [OF n] have "oc \<in> set TERMINAL_OUTCOMES - set GUARD_OUTCOMES"
  proof (elim disjE conjE)
    assume st: "oc \<notin> set GUARD_OUTCOMES" "k1 < 8" "s = CONTROL_LOOP_STAGE_SEQUENCE ! k1" "k' = Suc k1"
      "Over = (if Suc k1 = 8 then Over else Ready)"
    then have "k1 = 7" by (simp split: if_splits)
    have "s \<noteq> ''control_loop_runtime''" using stage_facts [OF stage_nth [OF st(2)]] st(3) by simp
    then have "oc \<in> set (the (map_of ALLOWED_STAGE_OUTCOMES s))"
      using n st(4) unfolding loop_next.simps by (simp only: split: if_splits) simp_all
    with \<open>k1 = 7\<close> st(1,3) show ?thesis using last_outcomes by simp
  qed (simp_all add: TERMINAL_OUTCOMES_def GUARD_OUTCOMES_def)
  with snoc e show ?thesis by simp
qed (use assms in simp)

text \<open>A run that is not over is at a stage.\<close>

lemma run_position: "loop_run c es = Some (k', m') \<Longrightarrow> m' \<noteq> Over \<Longrightarrow> fst c < 8 \<Longrightarrow> k' < 8"
proof (induction es arbitrary: c)
  case (Cons e es)
  obtain c1 where n: "loop_next c e = Some c1" and r: "loop_run c1 es = Some (k', m')"
    using Cons.prems(1) by (auto split: option.splits)
  have "snd c1 = Over \<Longrightarrow> es = [] \<and> c1 = (k', m')"
    using r by (cases es; cases c1) auto
  with Cons.prems(2) have "snd c1 \<noteq> Over" by auto
  then have "fst c1 < 8"
    using loop_next_cases [of "fst c" "snd c" "fst e" "snd e" "fst c1" "snd c1"] n Cons.prems(3)
    by (auto split: if_splits)
  with Cons.IH [OF r Cons.prems(2)] show ?case .
qed auto

text \<open>The way on from every stage: one event per stage, none of them a guard.\<close>

definition completion :: "loop_event list" where
  "completion =
     [(''read_project_state'', ''capability_unavailable_not_executed''),
      (''inspect_existing_work_evidence'', ''capability_unavailable_not_executed''),
      (''observe_existing_review_and_verification_evidence'', ''capability_unavailable_not_executed''),
      (''assemble_or_reaudit_evidence_pack'', ''evidence_pack_reaudited''),
      (''check_cost_and_authority_limits'', ''cost_and_authority_limits_checked''),
      (''observe_staging_evidence'', ''staging_evidence_observed_not_deployed''),
      (''evaluate_a5_gate'', ''a5_evaluation_completed''),
      (''finalize_go_live_decision'', ''decision_recorded'')]"

lemma completion_step:
  assumes "k < 8" "m \<noteq> Over"
  shows "loop_next (k, m) (completion ! k) = Some (Suc k, if k = 7 then Over else Ready)"
proof -
  have "k \<in> {0, 1, 2, 3, 4, 5, 6, 7}" using assms(1) by auto
  then show ?thesis
    using assms(2) by (elim insertE emptyE) (simp_all add: completion_def CONTROL_LOOP_STAGE_SEQUENCE_def
        ALLOWED_STAGE_OUTCOMES_def GUARD_OUTCOMES_def)
qed

lemma completion_run:
  "k < 8 \<Longrightarrow> m \<noteq> Over \<Longrightarrow> loop_run (k, m) (drop k completion) = Some (8, Over)"
proof (induction "7 - k" arbitrary: k m)
  case 0
  then have "k = 7" by simp
  with completion_step [of 7 m] 0 show ?case
    by (simp add: completion_def numeral_eq_Suc del: loop_next.simps)
next
  case (Suc n)
  have l: "length completion = 8" by (simp add: completion_def)
  have "drop k completion = completion ! k # drop (Suc k) completion"
    using Cons_nth_drop_Suc [of k completion] Suc.prems(1) l by simp
  then show ?case
    using completion_step [OF Suc.prems] Suc.hyps(1) [of "Suc k" Ready] Suc.hyps(2) by (simp del: loop_next.simps)
qed

text \<open>The position of the loop is a lifecycle whose terminal positions are the finished ones.\<close>

interpretation loop_life: lifecycle "\<lambda>c c'. \<exists>e. loop_next c e = Some c'" "\<lambda>c. snd c = Over"
  by unfold_locales auto

text \<open>
  What an accepted log says: an event that records or refuses a decision is the last, after all
  stages, and a log that has not ended is carried to a recorded decision by the remaining stages.
  \<open>log_ok\<close> checks each event against the one before it, as the code does; the limit of 64 events is
  the repository's and is part of \<open>loop_wf\<close> in \<open>Control_Loop\<close>.
\<close>

lemma log_decision_after_stages:
  assumes "log_ok None None es" "(s, oc) \<in> set es" "oc \<in> {''decision_recorded'', ''blocked_evidence_or_authority''}"
  shows "map fst (work_events es) = CONTROL_LOOP_STAGE_SEQUENCE \<and> last es = (''finalize_go_live_decision'', oc)"
proof -
  obtain k' m' where r: "loop_run (0, Ready) es = Some (k', m')"
    using assms(1) log_ok_iff_run [OF start_stands_for] by fastforce
  have oc: "oc \<in> set TERMINAL_OUTCOMES" "oc \<notin> set GUARD_OUTCOMES" "oc \<noteq> ''failed_infrastructure''"
    using assms(3) by (auto simp: TERMINAL_OUTCOMES_def GUARD_OUTCOMES_def)
  from run_terminal_last [OF r assms(2) oc(1,2)] oc(3)
  have last: "last es = (''finalize_go_live_decision'', oc)" "k' = 8" by auto
  have "es \<noteq> []" using assms(2) by auto
  then obtain fs where fs: "es = fs @ [(''finalize_go_live_decision'', oc)]"
    using last(1) by (metis append_butlast_last_id)
  have "map fst (work_events es) = map fst (work_events fs) @ [''finalize_go_live_decision'']"
    using oc(2) by (simp add: fs work_events_def)
  with run_stages [OF r] last(2) show ?thesis by (auto simp: last(1))
qed

lemma open_log_completes:
  assumes "log_ok None None es" "es = [] \<or> snd (last es) \<notin> set TERMINAL_OUTCOMES - set GUARD_OUTCOMES"
  shows "log_ok None None (es @ drop (length (work_events es)) completion) \<and>
    last (drop (length (work_events es)) completion) = (''finalize_go_live_decision'', ''decision_recorded'') \<and>
    length (work_events es) < 8"
proof -
  obtain k' m' where r: "loop_run (0, Ready) es = Some (k', m')"
    using assms(1) log_ok_iff_run [OF start_stands_for] by fastforce
  have m: "m' \<noteq> Over" using run_over_last [of 0 Ready es k'] r assms(2) by auto
  have k: "k' < 8" using run_position [OF r m] by simp
  from run_stages [OF r] m have "map fst (work_events es) = take k' CONTROL_LOOP_STAGE_SEQUENCE" by auto
  from arg_cong [OF this, of length] have "length (work_events es) = k'" using k by simp
  moreover have "drop k' completion \<noteq> [] \<and> last (drop k' completion) = (''finalize_go_live_decision'', ''decision_recorded'')"
    using k by (simp add: last_drop completion_def)
  ultimately show ?thesis
    using completion_run [OF k m] r k
    by (simp add: log_ok_iff_run [OF start_stands_for] loop_run_append)
qed

section \<open>Properties\<close>

text \<open>Checking each event of the control loop against the one before it accepts exactly the logs
  of the intended machine: a position in the stage sequence, retried after a guard outcome, advanced
  by any other, and over after the last stage or a runtime failure.\<close>

theorem control_loop_refines:
  "log_ok None None es \<longleftrightarrow> loop_run (0, Ready) es \<noteq> None"
  by (rule log_ok_iff_run [OF start_stands_for])

end
