(* ===== verification/Canonical.thy ===== *)
theory Canonical
  imports Json Interfaces
begin

text \<open>
  Canonical text: the UTF-8 bytes of a string and the JSON text
  \<open>json.dumps(value, sort_keys=True, separators=(",", ":"))\<close> whose digest the release contracts
  bind.  The text determines the value, up to the order of the keys of its objects.
\<close>

section \<open>UTF-8\<close>

text \<open>A byte is written as the character with its value.\<close>

definition utf8_char :: "char \<Rightarrow> string" where
  "utf8_char c = (let n = (of_char c :: nat) in
     if n < 128 then [c] else [char_of (192 + n div 64), char_of (128 + n mod 64)])"

definition utf8 :: "string \<Rightarrow> string" where
  "utf8 s = concat (map utf8_char s)"

section \<open>The canonical JSON text\<close>

definition json_escape :: "bool \<Rightarrow> char \<Rightarrow> string" where
  "json_escape ensure_ascii c =
     (if c = CHR 0x22 then [CHR 0x5C, CHR 0x22]
      else if c = CHR 0x5C then [CHR 0x5C, CHR 0x5C]
      else if c = CHR 0x0A then [CHR 0x5C, CHR ''n'']
      else if c = CHR 0x0D then [CHR 0x5C, CHR ''r'']
      else if c = CHR 0x09 then [CHR 0x5C, CHR ''t'']
      else if c = CHR 0x0C then [CHR 0x5C, CHR ''f'']
      else if c = CHR 0x08 then [CHR 0x5C, CHR ''b'']
      else if (of_char c :: nat) < 32 \<or> ensure_ascii \<and> 127 \<le> (of_char c :: nat)
      then [CHR 0x5C, CHR ''u'', CHR ''0'', CHR ''0'', hex_char (of_char c div 16), hex_char (of_char c)]
      else [c])"

definition json_quote :: "bool \<Rightarrow> string \<Rightarrow> string" where
  "json_quote ensure_ascii s =
     [CHR 0x22] @ concat (map (json_escape ensure_ascii) s) @ [CHR 0x22]"

fun join :: "'a list \<Rightarrow> 'a list list \<Rightarrow> 'a list" where
  "join sep [] = []"
| "join sep [x] = x"
| "join sep (x # y # ys) = x @ sep @ join sep (y # ys)"

lemma join_Cons: "join [c] (x # xs) = x @ concat (map (\<lambda>y. c # y) xs)"
  by (induction xs arbitrary: x) simp_all

fun json_text :: "bool \<Rightarrow> pyval \<Rightarrow> string" where
  "json_text a PNone = ''null''"
| "json_text a (PBool b) = (if b then ''true'' else ''false'')"
| "json_text a (PInt i) = int_str i"
| "json_text a (PFloat (FloatFinite r)) = r"
| "json_text a (PStr s) = json_quote a s"
| "json_text a (PList xs) = ''['' @ join '','' (map (json_text a) xs) @ '']''"
| "json_text a (PTuple xs) = ''['' @ join '','' (map (json_text a) xs) @ '']''"
| "json_text a (PDict d) =
     ''{'' @ join '','' (map (\<lambda>(k, t). json_quote a k @ '':'' @ t)
                        (sort_key fst (map (\<lambda>(k, v). (k, json_text a v)) d))) @ ''}''"
| "json_text a _ = []"

text \<open>Everything else raises: no \<open>default\<close> is given.\<close>

fun json_plain :: "pyval \<Rightarrow> bool" where
  "json_plain PNone = True"
| "json_plain (PBool b) = True"
| "json_plain (PInt i) = (length (nat_str (nat \<bar>i\<bar>)) \<le> 4300)"
| "json_plain (PFloat x) = (case x of FloatFinite _ \<Rightarrow> True | _ \<Rightarrow> False)"
| "json_plain (PStr s) = True"
| "json_plain (PList xs) = (\<forall>x\<in>set xs. json_plain x)"
| "json_plain (PTuple xs) = (\<forall>x\<in>set xs. json_plain x)"
| "json_plain (PDict d) = (\<forall>kv\<in>set d. json_plain (snd kv))"
| "json_plain _ = False"

definition canonical_json :: "bool \<Rightarrow> pyval \<Rightarrow> string option" where
  "canonical_json ensure_ascii v =
     (if json_plain v then Some (utf8 (json_text ensure_ascii v)) else None)"

section \<open>Prefix-free codes\<close>

text \<open>
  A code in which the text of a value can be split off the front of any longer text.  Sequences of
  codes inherit it: with a known number of items, or closed by a character no code starts with.
\<close>

locale prefix_code =
  fixes enc :: "'a \<Rightarrow> 'b list"
    and ok :: "'a \<Rightarrow> bool"
    and follows :: "'b list \<Rightarrow> bool"
  assumes prefix_free:
      "ok x \<Longrightarrow> ok y \<Longrightarrow> follows r \<Longrightarrow> follows s \<Longrightarrow> enc x @ r = enc y @ s \<Longrightarrow> x = y \<and> r = s"
    and follows_Nil: "follows []"
    and enc_nonempty: "ok x \<Longrightarrow> enc x \<noteq> []"
begin

lemma enc_inj: "ok x \<Longrightarrow> ok y \<Longrightarrow> enc x = enc y \<Longrightarrow> x = y"
  using prefix_free [of x y "[]" "[]"] follows_Nil by simp

text \<open>Items separated by \<open>c\<close> and closed by \<open>t\<close>.\<close>

lemma tail_inj:
  assumes "\<And>u. follows (c # u)" "\<And>u. follows (t # u)" "c \<noteq> t" "\<forall>x\<in>set xs \<union> set ys. ok x"
    and "concat (map (\<lambda>x. c # enc x) xs) @ t # r = concat (map (\<lambda>x. c # enc x) ys) @ t # s"
  shows "xs = ys \<and> r = s"
  using assms(4,5)
proof (induction xs arbitrary: ys)
  case Nil
  with assms(3) show ?case by (cases ys) auto
next
  case (Cons x xs)
  have rest: "follows (concat (map (\<lambda>x. c # enc x) zs) @ t # u)" for zs u
    using assms(1,2) by (cases zs) simp_all
  show ?case
  proof (cases ys)
    case Nil
    with assms(3) Cons.prems(2) show ?thesis by simp
  next
    case (Cons y zs)
    note p = Cons.prems [unfolded Cons]
    from p(2) have e: "enc x @ (concat (map (\<lambda>x. c # enc x) xs) @ t # r) =
        enc y @ (concat (map (\<lambda>x. c # enc x) zs) @ t # s)" by simp
    have "ok x" "ok y" using p(1) by simp_all
    from prefix_free [OF this rest rest e]
    have h: "x = y" "concat (map (\<lambda>x. c # enc x) xs) @ t # r = concat (map (\<lambda>x. c # enc x) zs) @ t # s"
      by simp_all
    have "xs = zs \<and> r = s" by (rule Cons.IH [OF _ h(2)]) (use p(1) in simp)
    with h(1) Cons show ?thesis by simp
  qed
qed

lemma join_inj:
  assumes "\<And>u. follows (c # u)" "\<And>u. follows (t # u)" "c \<noteq> t"
    and ok: "\<forall>x\<in>set xs \<union> set ys. ok x \<and> hd (enc x) \<noteq> t"
    and eq: "join [c] (map enc xs) @ t # r = join [c] (map enc ys) @ t # s"
  shows "xs = ys \<and> r = s"
proof -
  have rest: "follows (concat (map (\<lambda>x. c # enc x) zs) @ t # u)" for zs u
    using assms(1,2) by (cases zs) simp_all
  have ne: "enc x @ u \<noteq> t # v" if "ok x \<and> hd (enc x) \<noteq> t" for x u v
    using that enc_nonempty [of x] by (cases "enc x") auto
  show ?thesis
  proof (cases xs)
    case Nil
    with eq ok ne show ?thesis by (cases ys) (auto simp: join_Cons eq_commute [of "t # _"])
  next
    case (Cons x xs')
    show ?thesis
    proof (cases ys)
      case Nil
      with Cons eq ok ne [of x] show ?thesis by (auto simp: join_Cons)
    next
      case (Cons y ys')
      from eq have e: "enc x @ (concat (map (\<lambda>x. c # enc x) xs') @ t # r) =
          enc y @ (concat (map (\<lambda>x. c # enc x) ys') @ t # s)"
        by (simp add: \<open>xs = x # xs'\<close> Cons join_Cons o_def)
      have "ok x" "ok y" using ok \<open>xs = x # xs'\<close> Cons by simp_all
      from prefix_free [OF this rest rest e] tail_inj [OF assms(1-3), of xs' ys' r s]
      show ?thesis using ok \<open>xs = x # xs'\<close> Cons by auto
    qed
  qed
qed

text \<open>Items one after the other, closed by \<open>t\<close>.\<close>

lemma concat_closed_inj:
  assumes "\<And>u. follows u" "\<forall>x\<in>set xs \<union> set ys. ok x \<and> hd (enc x) \<noteq> t"
    and "concat (map enc xs) @ t # r = concat (map enc ys) @ t # s"
  shows "xs = ys \<and> r = s"
  using assms(2,3)
proof (induction xs arbitrary: ys)
  case Nil
  then show ?case
  proof (cases ys)
    case (Cons y zs)
    then show ?thesis using Nil enc_nonempty [of y] by (cases "enc y") auto
  qed simp
next
  case (Cons x xs)
  show ?case
  proof (cases ys)
    case Nil
    then show ?thesis using Cons.prems enc_nonempty [of x] by (cases "enc x") auto
  next
    case (Cons y zs)
    have "x = y \<and> concat (map enc xs) @ t # r = concat (map enc zs) @ t # s"
      using Cons.prems Cons by (intro prefix_free assms(1)) auto
    then show ?thesis using Cons.IH [of zs] Cons.prems Cons by auto
  qed
qed

lemma concat_inj:
  assumes "\<And>u. follows u" "\<forall>x\<in>set xs \<union> set ys. ok x"
    and "concat (map enc xs) = concat (map enc ys)"
  shows "xs = ys"
  using assms(2,3)
proof (induction xs arbitrary: ys)
  case Nil
  then show ?case using enc_nonempty by (cases ys) auto
next
  case (Cons x xs)
  show ?case
  proof (cases ys)
    case Nil
    then show ?thesis using Cons.prems enc_nonempty [of x] by auto
  next
    case (Cons y zs)
    have "x = y \<and> concat (map enc xs) = concat (map enc zs)"
      using Cons.prems Cons by (intro prefix_free assms(1)) auto
    then show ?thesis using Cons.IH [of zs] Cons.prems Cons by auto
  qed
qed

end

section \<open>The text determines the value\<close>

lemma of_char_small: "(of_char c :: nat) < 256"
  by (rule nat_of_char_less_256)

lemma div_mod_inj:
  fixes m n k :: nat
  assumes "m div k = n div k" "m mod k = n mod k"
  shows "m = n"
  using assms by (metis div_mult_mod_eq)

lemma of_char_of: "n < 256 \<Longrightarrow> (of_char (char_of n :: char) :: nat) = n"
  by simp

lemma utf8_char_prefix_free:
  assumes "utf8_char c @ r = utf8_char d @ s"
  shows "c = d \<and> r = s"
proof -
  define m n where "m = (of_char c :: nat)" and "n = (of_char d :: nat)"
  have b: "m < 256" "n < 256" by (simp_all add: m_def n_def of_char_small)
  have first: "(of_char (char_of (192 + k div 64) :: char) :: nat) = 192 + k div 64" if "k < 256" for k :: nat
    using that by (intro of_char_of) simp
  have second: "(of_char (char_of (128 + k mod 64) :: char) :: nat) = 128 + k mod 64" for k :: nat
    by (intro of_char_of) simp
  consider "m < 128" "n < 128" | "m < 128" "128 \<le> n" | "128 \<le> m" "n < 128" | "128 \<le> m" "128 \<le> n"
    by linarith
  then show ?thesis
  proof cases
    case 1
    then show ?thesis using assms by (simp add: utf8_char_def flip: m_def n_def)
  next
    case 2
    then have "c = char_of (192 + n div 64)" using assms by (simp add: utf8_char_def flip: m_def n_def)
    then have "m = 192 + n div 64" using first [OF b(2)] by (simp add: m_def)
    with 2 show ?thesis by simp
  next
    case 3
    then have "d = char_of (192 + m div 64)" using assms by (simp add: utf8_char_def flip: m_def n_def)
    then have "n = 192 + m div 64" using first [OF b(1)] by (simp add: n_def)
    with 3 show ?thesis by simp
  next
    case 4
    then have e: "(char_of (192 + m div 64) :: char) = char_of (192 + n div 64)"
      "(char_of (128 + m mod 64) :: char) = char_of (128 + n mod 64)" "r = s"
      using assms by (simp_all add: utf8_char_def flip: m_def n_def)
    have "192 + m div 64 = 192 + n div 64"
      using arg_cong [OF e(1), of "of_char :: char \<Rightarrow> nat"] by (simp only: first b)
    then have "m div 64 = n div 64" by (rule add_left_imp_eq)
    moreover have "128 + m mod 64 = 128 + n mod 64"
      using arg_cong [OF e(2), of "of_char :: char \<Rightarrow> nat"] by (simp only: second)
    then have "m mod 64 = n mod 64" by (rule add_left_imp_eq)
    ultimately have "m = n" by (rule div_mod_inj)
    with e(3) show ?thesis by (simp add: m_def n_def)
  qed
qed

interpretation utf8_code: prefix_code utf8_char "\<lambda>_. True" "\<lambda>_. True"
  by unfold_locales (rule utf8_char_prefix_free, assumption, simp_all add: utf8_char_def Let_def)

lemma utf8_inj [simp]: "utf8 s = utf8 t \<longleftrightarrow> s = t"
  using utf8_code.concat_inj [of s t] by (auto simp: utf8_def)

lemma json_escape_cases:
  obtains "json_escape a c = [c]" "c \<noteq> CHR 0x5C" "c \<noteq> CHR 0x22"
  | e where "json_escape a c = [CHR 0x5C, e]" "e \<noteq> CHR ''u''"
      "(c, e) \<in> {(CHR 0x22, CHR 0x22), (CHR 0x5C, CHR 0x5C), (CHR 0x0A, CHR ''n''), (CHR 0x0D, CHR ''r''),
        (CHR 0x09, CHR ''t''), (CHR 0x0C, CHR ''f''), (CHR 0x08, CHR ''b'')}"
  | "json_escape a c = [CHR 0x5C, CHR ''u'', CHR ''0'', CHR ''0'', hex_char (of_char c div 16), hex_char (of_char c)]"
proof (cases "c \<in> {CHR 0x22, CHR 0x5C, CHR 0x0A, CHR 0x0D, CHR 0x09, CHR 0x0C, CHR 0x08}")
  case True
  then show thesis
    by (elim insertE emptyE; intro that(2); simp add: json_escape_def)
next
  case False
  then show thesis
    using that(1,3) by (cases "(of_char c :: nat) < 32 \<or> a \<and> 127 \<le> (of_char c :: nat)") (simp_all add: json_escape_def)
qed

lemma hex_pair_inj:
  assumes "hex_char (of_char c div 16) = hex_char (of_char d div 16)" "hex_char (of_char c) = hex_char (of_char d)"
  shows "c = d"
proof -
  have "(of_char c div 16 :: nat) < 16" "(of_char d div 16 :: nat) < 16"
    using of_char_small [of c] of_char_small [of d] by (simp_all add: less_mult_imp_div_less)
  then have "(of_char c div 16 :: nat) = of_char d div 16"
    using hex_char_inj [OF assms(1)] by simp
  moreover have "(of_char c mod 16 :: nat) = of_char d mod 16" by (rule hex_char_inj [OF assms(2)])
  ultimately have "(of_char c :: nat) = of_char d" by (rule div_mod_inj)
  then show ?thesis by simp
qed

lemma json_escape_prefix_free:
  assumes "json_escape a c @ r = json_escape a d @ s"
  shows "c = d \<and> r = s"
proof (cases rule: json_escape_cases [of a c])
  case 1
  then show ?thesis using assms by (cases rule: json_escape_cases [of a d]) auto
next
  case (2 e)
  then show ?thesis using assms by (cases rule: json_escape_cases [of a d]) auto
next
  case 3
  then show ?thesis using assms hex_pair_inj [of c d] by (cases rule: json_escape_cases [of a d]) auto
qed

interpretation escape_code: prefix_code "json_escape a" "\<lambda>_. True" "\<lambda>_. True"
  by unfold_locales (rule json_escape_prefix_free, assumption, simp_all add: json_escape_def)

lemma json_escape_hd: "hd (json_escape a c) \<noteq> CHR 0x22"
  by (rule json_escape_cases [of a c]) auto

lemma json_quote_prefix_free: "json_quote a s @ r = json_quote a t @ u \<Longrightarrow> s = t \<and> r = u"
  using escape_code.concat_closed_inj [of s t a "CHR 0x22" r u] json_escape_hd by (simp add: json_quote_def)

section \<open>JSON values in normal form\<close>

text \<open>
  \<open>json_norm\<close>: objects sorted by key, tuples as lists, which is all the text forgets.
  \<open>json_canon\<close> is the shape of the result, \<open>json_data\<close> the values it is defined for: no floats, whose
  text is Python's \<open>repr\<close>.
\<close>

fun json_norm :: "pyval \<Rightarrow> pyval" where
  "json_norm (PList xs) = PList (map json_norm xs)"
| "json_norm (PTuple xs) = PList (map json_norm xs)"
| "json_norm (PDict d) = PDict (sort_key fst (map (\<lambda>(k, v). (k, json_norm v)) d))"
| "json_norm v = v"

fun json_data :: "pyval \<Rightarrow> bool" where
  "json_data PNone = True"
| "json_data (PBool b) = True"
| "json_data (PInt i) = True"
| "json_data (PStr s) = True"
| "json_data (PList xs) = (\<forall>x\<in>set xs. json_data x)"
| "json_data (PTuple xs) = (\<forall>x\<in>set xs. json_data x)"
| "json_data (PDict d) = (distinct (map fst d) \<and> (\<forall>kv\<in>set d. json_data (snd kv)))"
| "json_data _ = False"

fun json_canon :: "pyval \<Rightarrow> bool" where
  "json_canon PNone = True"
| "json_canon (PBool b) = True"
| "json_canon (PInt i) = True"
| "json_canon (PStr s) = True"
| "json_canon (PList xs) = (\<forall>x\<in>set xs. json_canon x)"
| "json_canon (PDict d) = (sorted (map fst d) \<and> distinct (map fst d) \<and> (\<forall>kv\<in>set d. json_canon (snd kv)))"
| "json_canon _ = False"

lemma sort_key_map:
  "sort_key f (map g xs) = map g (sort_key (\<lambda>x. f (g x)) xs)"
proof -
  have "insort_key f (g x) (map g ys) = map g (insort_key (\<lambda>x. f (g x)) x ys)" for x ys
    by (induction ys) simp_all
  then show ?thesis by (induction xs) simp_all
qed

lemma sort_items: "sort_key fst (map (\<lambda>(k, v). (k, h v)) d) = map (\<lambda>(k, v). (k, h v)) (sort_key fst d)"
  by (simp add: sort_key_map split_def)

lemma keys_sorted: "map fst (sort_key fst d) = sort (map fst d)"
  by (simp flip: sort_key_map [of "\<lambda>x. x" fst, simplified])

lemma json_norm_canon: "json_data v \<Longrightarrow> json_canon (json_norm v)"
proof (induction v)
  case (PDict d)
  have "map fst (sort_key fst (map (\<lambda>(k, v). (k, json_norm v)) d)) = sort (map fst d)"
    by (simp add: keys_sorted split_def o_def)
  then show ?case using PDict by (auto simp: Ball_def)
qed auto

lemma json_norm_text: "json_text a (json_norm v) = json_text a v"
proof (induction v)
  case (PList xs)
  then show ?case by (simp cong: map_cong)
next
  case (PTuple xs)
  then show ?case by (simp cong: map_cong)
next
  case (PDict d)
  let ?n = "\<lambda>(k, v). (k, json_norm v)" and ?t = "\<lambda>(k, v). (k, json_text a v)"
  have "sort_key fst (map ?t (sort_key fst (map ?n d))) = map ?t (sort_key fst (sort_key fst (map ?n d)))"
    by (rule sort_items)
  also have "\<dots> = map ?t (sort_key fst (map ?n d))"
    by (simp only: sort_key_id_if_sorted [OF sorted_sort_key])
  also have "\<dots> = sort_key fst (map ?t (map ?n d))"
    by (rule sort_items [symmetric])
  also have "map ?t (map ?n d) = map ?t d"
    unfolding map_map by (intro map_cong) (use PDict in fastforce)+
  finally show ?case by (simp only: json_norm.simps json_text.simps)
qed simp_all

section \<open>Numbers and literals\<close>

definition no_digit :: "string \<Rightarrow> bool" where
  "no_digit r = (r = [] \<or> \<not> is_digit (hd r))"

lemma no_digit_simps [simp]: "no_digit []" "no_digit (c # r) \<longleftrightarrow> \<not> is_digit c"
  by (simp_all add: no_digit_def)

lemma takeWhile_digits:
  "list_all is_digit ds \<Longrightarrow> no_digit r \<Longrightarrow> takeWhile is_digit (ds @ r) = ds"
  by (induction ds) (auto simp: no_digit_def takeWhile_eq_Nil_iff)

lemma nat_str_prefix_free:
  assumes "no_digit r" "no_digit s" "nat_str m @ r = nat_str n @ s"
  shows "m = n \<and> r = s"
proof -
  have "nat_str m = nat_str n"
    using takeWhile_digits [OF _ assms(1), of "nat_str m"] takeWhile_digits [OF _ assms(2), of "nat_str n"]
      nat_str_facts [of m] nat_str_facts [of n] assms(3) by metis
  then show ?thesis using assms(3) nat_str_facts [of m] nat_str_facts [of n] by (metis same_append_eq)
qed

lemma nat_str_hd: "is_digit (hd (nat_str n))"
  using nat_str_facts [of n] by (cases "nat_str n") simp_all

lemma int_str_prefix_free:
  assumes "no_digit r" "no_digit s" "int_str i @ r = int_str j @ s"
  shows "i = j \<and> r = s"
proof -
  have "\<not> is_digit (CHR ''-'')" by (simp add: is_digit_def)
  then have "hd (nat_str n @ u) \<noteq> CHR ''-''" for n u
    using nat_str_hd [of n] nat_str_facts [of n] by (cases "nat_str n") auto
  then have ne: "nat_str n @ u \<noteq> CHR ''-'' # v" for n u v by (metis list.sel(1))
  have sign: "(i < 0) = (j < 0)"
    using assms(3) ne [of "nat \<bar>i\<bar>" r] ne [of "nat \<bar>j\<bar>" s] ne [THEN not_sym, of _ "nat \<bar>j\<bar>" s]
    by (auto simp: int_str_def split: if_splits)
  then have "nat_str (nat \<bar>i\<bar>) @ r = nat_str (nat \<bar>j\<bar>) @ s"
    using assms(3) by (simp add: int_str_def split: if_splits)
  then have "nat \<bar>i\<bar> = nat \<bar>j\<bar> \<and> r = s" by (rule nat_str_prefix_free [OF assms(1,2)])
  then have "\<bar>i\<bar> = \<bar>j\<bar>" "r = s" using eq_nat_nat_iff [OF abs_ge_zero abs_ge_zero, of i j] by blast+
  with sign show ?thesis by linarith
qed

text \<open>The first character tells the constructor.\<close>

definition json_kind :: "char \<Rightarrow> nat" where
  "json_kind c = (if c = CHR ''n'' then 0 else if c = CHR ''t'' then 1 else if c = CHR ''f'' then 2
     else if is_digit c \<or> c = CHR ''-'' then 3 else if c = CHR 0x22 then 4 else if c = CHR ''['' then 5
     else if c = CHR ''{'' then 6 else 7)"

definition kind_of :: "pyval \<Rightarrow> nat" where
  "kind_of v = (case v of PNone \<Rightarrow> 0 | PBool b \<Rightarrow> (if b then 1 else 2) | PInt i \<Rightarrow> 3 | PStr s \<Rightarrow> 4
     | PList xs \<Rightarrow> 5 | PDict d \<Rightarrow> 6 | _ \<Rightarrow> 7)"

lemma digit_letters [simp]:
  "\<not> is_digit (CHR ''n'')" "\<not> is_digit (CHR ''t'')" "\<not> is_digit (CHR ''f'')" "\<not> is_digit (CHR ''['')"
  "\<not> is_digit (CHR ''{'')" "\<not> is_digit (CHR 0x22)" "\<not> is_digit (CHR ''-'')" "\<not> is_digit (CHR '','')"
  "\<not> is_digit (CHR '']'')" "\<not> is_digit (CHR ''}'')" "\<not> is_digit (CHR '':'')"
  by (simp_all add: is_digit_def)

lemma int_str_hd: "\<exists>c t. int_str i = c # t \<and> (is_digit c \<or> c = CHR ''-'')"
  using nat_str_facts [of "nat \<bar>i\<bar>"] nat_str_hd [of "nat \<bar>i\<bar>"]
  by (cases "nat_str (nat \<bar>i\<bar>)") (simp_all add: int_str_def)

lemma json_text_hd:
  assumes "json_canon v"
  shows "\<exists>c t. json_text a v = c # t \<and> json_kind c = kind_of v \<and> c \<notin> set '',]}''"
proof (cases v)
  case (PInt i)
  obtain c t where c: "int_str i = c # t" "is_digit c \<or> c = CHR ''-''" using int_str_hd [of i] by blast
  then have "c \<noteq> CHR ''n''" "c \<noteq> CHR ''t''" "c \<noteq> CHR ''f''" "c \<notin> set '',]}''" by auto
  with c show ?thesis by (simp add: PInt json_kind_def kind_of_def)
next
  case (PBool b)
  then show ?thesis by (cases b) (simp_all add: json_kind_def kind_of_def)
qed (use assms in \<open>simp_all add: json_kind_def kind_of_def json_quote_def\<close>)

lemma json_text_kind:
  "json_canon v \<Longrightarrow> json_canon w \<Longrightarrow> json_text a v @ r = json_text a w @ s \<Longrightarrow> kind_of v = kind_of w"
  using json_text_hd [of v a] json_text_hd [of w a] by auto

section \<open>The whole value\<close>

lemma size_item: "x \<in> set xs \<Longrightarrow> size x < size (PList xs)"
  by (induction xs) auto

lemma size_member: "kv \<in> set d \<Longrightarrow> size (snd kv) < size (PDict d)"
  by (induction d) auto

lemma dict_text:
  assumes "json_canon (PDict d)"
  shows "json_text a (PDict d) =
     ''{'' @ join '','' (map (\<lambda>kv. json_quote a (fst kv) @ '':'' @ json_text a (snd kv)) d) @ ''}''"
proof -
  have "sorted (map fst (map (\<lambda>(k, v). (k, json_text a v)) d))"
    using assms by (simp add: o_def split_def)
  then show ?thesis
    by (simp add: sort_key_id_if_sorted o_def split_def)
qed

text \<open>A member of an object is a code when its values are.\<close>

lemma member_code:
  assumes "prefix_code (json_text a) ok no_digit"
  shows "prefix_code (\<lambda>kv. json_quote a (fst kv) @ '':'' @ json_text a (snd kv)) (\<lambda>kv. ok (snd kv)) no_digit"
proof (rule prefix_code.intro)
  fix x y :: "string \<times> pyval" and r s
  assume h: "ok (snd x)" "ok (snd y)" "no_digit r" "no_digit s"
    and e: "(json_quote a (fst x) @ '':'' @ json_text a (snd x)) @ r =
      (json_quote a (fst y) @ '':'' @ json_text a (snd y)) @ s"
  from e have "fst x = fst y \<and> '':'' @ json_text a (snd x) @ r = '':'' @ json_text a (snd y) @ s"
    by (intro json_quote_prefix_free) simp
  with prefix_code.prefix_free [OF assms h] show "x = y \<and> r = s" by (simp add: prod_eq_iff)
qed (simp_all add: json_quote_def)

lemma json_text_code:
  "prefix_code (json_text a) (\<lambda>v. json_canon v \<and> size v < n) no_digit"
proof (induction n)
  case 0
  show ?case by unfold_locales simp_all
next
  case (Suc n)
  note elems = Suc.IH and members = member_code [OF Suc.IH]
  show ?case
  proof (rule prefix_code.intro)
    fix v w r s
    assume v: "json_canon v \<and> size v < Suc n" and w: "json_canon w \<and> size w < Suc n"
      and d: "no_digit r" "no_digit s" and e: "json_text a v @ r = json_text a w @ s"
    have k: "kind_of v = kind_of w" using json_text_kind v w e by blast
    show "v = w \<and> r = s"
    proof (cases v)
      case (PList xs)
      then obtain ys where w': "w = PList ys" using k w by (cases w) (auto simp: kind_of_def split: if_splits)
      have "\<forall>x\<in>set xs \<union> set ys. (json_canon x \<and> size x < n) \<and> hd (json_text a x) \<noteq> CHR '']''"
      proof
        fix x assume x: "x \<in> set xs \<union> set ys"
        then have "size x < size v \<or> size x < size w"
          using size_item [of x xs] size_item [of x ys] unfolding PList w' by blast
        with v w have "size x < n" by linarith
        moreover have "json_canon x" using x v w unfolding PList w' by auto
        ultimately have "json_canon x" "size x < n" by blast+
        with json_text_hd [of x a] show "(json_canon x \<and> size x < n) \<and> hd (json_text a x) \<noteq> CHR '']''" by auto
      qed
      from prefix_code.join_inj [OF elems _ _ _ this, of "CHR '',''" r s]
      show ?thesis using e by (simp add: PList w')
    next
      case (PDict d1)
      then obtain d2 where w': "w = PDict d2" using k w by (cases w) (auto simp: kind_of_def split: if_splits)
      have "\<forall>x\<in>set d1 \<union> set d2. (json_canon (snd x) \<and> size (snd x) < n) \<and>
          hd (json_quote a (fst x) @ '':'' @ json_text a (snd x)) \<noteq> CHR ''}''"
      proof
        fix x assume x: "x \<in> set d1 \<union> set d2"
        then have "size (snd x) < size v \<or> size (snd x) < size w"
          using size_member [of x d1] size_member [of x d2] unfolding PDict w' by blast
        with v w have "size (snd x) < n" by linarith
        moreover have "json_canon (snd x)" using x v w unfolding PDict w' by auto
        ultimately have "json_canon (snd x)" "size (snd x) < n" by blast+
        then show "(json_canon (snd x) \<and> size (snd x) < n) \<and>
            hd (json_quote a (fst x) @ '':'' @ json_text a (snd x)) \<noteq> CHR ''}''"
          by (simp add: json_quote_def)
      qed
      from prefix_code.join_inj [OF members _ _ _ this, of "CHR '',''" r s]
      show ?thesis using e v w by (simp add: PDict w' dict_text del: json_text.simps)
    next
      case (PInt i)
      then obtain j where "w = PInt j" using k w by (cases w) (auto simp: kind_of_def split: if_splits)
      with PInt e int_str_prefix_free [OF d, of i j] show ?thesis by simp
    next
      case (PStr t)
      then obtain u where "w = PStr u" using k w by (cases w) (auto simp: kind_of_def split: if_splits)
      with PStr e json_quote_prefix_free [of a t r u s] show ?thesis by simp
    next
      case (PBool b)
      then obtain c where "w = PBool c" using k w by (cases w) (auto simp: kind_of_def split: if_splits)
      with PBool e k show ?thesis by (simp add: kind_of_def split: if_splits)
    next
      case PNone
      then have "w = PNone" using k w by (cases w) (auto simp: kind_of_def split: if_splits)
      with PNone e show ?thesis by simp
    qed (use v in simp_all)
  next
    fix v assume "json_canon v \<and> size v < Suc n"
    then show "json_text a v \<noteq> []" using json_text_hd [of v a] by auto
  qed simp
qed

lemma json_text_inj:
  assumes "json_data v" "json_data w" "json_text a v = json_text a w"
  shows "json_norm v = json_norm w"
proof -
  let ?n = "Suc (max (size (json_norm v)) (size (json_norm w)))"
  show ?thesis
    by (rule prefix_code.enc_inj [OF json_text_code [of a ?n]])
      (use assms json_norm_canon in \<open>simp_all add: json_norm_text\<close>)
qed

theorem canonical_json_inj:
  "json_data v \<Longrightarrow> json_data w \<Longrightarrow> canonical_json a v = canonical_json a w \<Longrightarrow> canonical_json a v \<noteq> None \<Longrightarrow>
     json_norm v = json_norm w"
  using json_text_inj [of v w a] by (auto simp: canonical_json_def split: if_splits)

text \<open>Objects with the same items have the same normal form, and only they.\<close>

lemma sort_items_iff:
  assumes "distinct (map fst d)" "distinct (map fst e)"
  shows "sort_key fst d = sort_key fst e \<longleftrightarrow> map_of d = map_of e"
proof
  assume "sort_key fst d = sort_key fst e"
  then have "set d = set e" by (metis set_sort)
  with assms show "map_of d = map_of e" by (metis map_of_eqI map_of_inject_set)
next
  assume m: "map_of d = map_of e"
  then have "set d = set e" using map_of_inject_set [OF assms] by blast
  moreover have "inj_on fst (set d \<union> set e)" using assms calculation by (simp add: distinct_map)
  ultimately show "sort_key fst d = sort_key fst e"
    using assms by (intro map_sorted_distinct_set_unique [of fst]) (simp_all add: keys_sorted)
qed

end
