(* ===== verification/Decision.thy ===== *)
theory Decision
  imports Go_Live Canonical
begin

text \<open>
  The go-live decision (\<open>app/release/go_live_decision.py\<close>): the validated inputs, the eligibility of
  a decision, the digests that bind it to its gate results and inputs, and the rejection of
  caller-supplied truth.  \<open>hashlib.sha256(...).hexdigest()\<close> is the argument \<open>sha\<close>, a function of the
  bytes.
\<close>

section \<open>Validated inputs\<close>

definition GO_LIVE_DECISION_CONTRACT_VERSION :: string where
  "GO_LIVE_DECISION_CONTRACT_VERSION = ''slice55.go_live_decision.v1''"

definition DECISION_STATUS :: string where
  "DECISION_STATUS = ''decided_not_executed''"

definition AUTHORITY_TRUTH_TIER :: string where
  "AUTHORITY_TRUTH_TIER = ''request_authenticated_key_custody_under_recorded_policy_not_human_signature''"

definition DECISION_SCOPE_LIMITATION_CODES :: "string list" where
  "DECISION_SCOPE_LIMITATION_CODES =
     [''production_not_executed'',
      ''key_custody_not_human_signature'',
      ''bounded_current_evidence_only'',
      ''staging_evidence_observed_not_deployed'',
      ''future_execution_requires_new_plan'']"

definition HASH_PREFIX :: string where
  "HASH_PREFIX = ''sha256:''"

definition ALLOWED_GATE_STATUSES :: "string list" where
  "ALLOWED_GATE_STATUSES = [''passed'', ''insufficient_evidence'', ''no_evidence_source'']"

definition FORBIDDEN_CALLER_TRUTH_FIELDS :: "string list" where
  "FORBIDDEN_CALLER_TRUTH_FIELDS =
     [''passed'', ''eligible'', ''current'', ''approved'', ''policy_permits'', ''latch_active'',
      ''decision_status'', ''executed'', ''can_go_live'', ''prev_hash'', ''entry_hash'', ''chain_seq'']"

definition bounded_code :: "pyval \<Rightarrow> string \<Rightarrow> go_live_error + string" where
  "bounded_code value field =
     (case value of
        PStr s \<Rightarrow> if py_strip s = [] \<or> utf8_len s > 128 then Inl (FieldInvalid (field @ ''_invalid'')) else Inr s
      | _ \<Rightarrow> Inl (FieldInvalid (field @ ''_invalid'')))"

definition sha256_text :: "(string \<Rightarrow> string) \<Rightarrow> string \<Rightarrow> string" where
  "sha256_text sha value = HASH_PREFIX @ sha value"

record gate_snapshot =
  gs_number :: int
  gs_name :: string
  gs_status :: string
  gs_reason :: string
  gs_digest :: string

definition context_digest_ok :: "pyval \<Rightarrow> bool" where
  "context_digest_ok v =
     (case v of
        PStr s \<Rightarrow> length s = 71 \<and> starts_with HASH_PREFIX s \<and> (\<forall>c\<in>set (drop 7 s). c \<in> set ''0123456789abcdef'')
      | _ \<Rightarrow> False)"

text \<open>\<open>GateSnapshot(...)\<close>, with its \<open>__post_init__\<close>.\<close>

definition GateSnapshot :: "pyval \<Rightarrow> pyval \<Rightarrow> pyval \<Rightarrow> pyval \<Rightarrow> pyval \<Rightarrow> go_live_error + gate_snapshot" where
  "GateSnapshot number name status reason digest =
     (case number of
        PInt n \<Rightarrow>
          bindE (bounded_code name ''gate_name'') (\<lambda>nm.
          case status of
            PStr st \<Rightarrow>
              if st \<notin> set ALLOWED_GATE_STATUSES then Inl (FieldInvalid ''gate_status_invalid'')
              else bindE (bounded_code reason ''gate_reason'') (\<lambda>rs.
                case digest of
                  PStr dg \<Rightarrow>
                    if context_digest_ok (PStr dg)
                    then Inr \<lparr>gs_number = n, gs_name = nm, gs_status = st, gs_reason = rs, gs_digest = dg\<rparr>
                    else Inl (FieldInvalid ''safe_context_digest_invalid'')
                | _ \<Rightarrow> Inl (FieldInvalid ''safe_context_digest_invalid''))
          | _ \<Rightarrow> Inl (FieldInvalid ''gate_status_invalid''))
      | _ \<Rightarrow> Inl (FieldInvalid ''gate_number_invalid''))"

record decision_inputs =
  di_gates :: "gate_snapshot list"
  di_preapproval :: bool
  di_policy :: string
  di_latch :: bool
  di_bindings :: "(string \<times> string) list"

fun normalize_bindings :: "(string \<times> pyval) list \<Rightarrow> go_live_error + (string \<times> string) list" where
  "normalize_bindings [] = Inr []"
| "normalize_bindings ((k, v) # items) =
     bindE (bounded_code v ''binding_value'') (\<lambda>value.
     bindE (bounded_code (PStr k) ''binding_key'') (\<lambda>key.
     bindE (normalize_bindings items) (\<lambda>rest. Inr ((key, value) # rest))))"

text \<open>\<open>DecisionInputs(...)\<close>; the gates are \<open>GateSnapshot\<close>s, the bindings a mapping with string keys.\<close>

definition DecisionInputs ::
  "gate_snapshot list \<Rightarrow> pyval \<Rightarrow> pyval \<Rightarrow> pyval \<Rightarrow> (string \<times> pyval) list \<Rightarrow> go_live_error + decision_inputs" where
  "DecisionInputs gates preapproval policy latch bindings =
     (case preapproval of
        PBool p \<Rightarrow>
          (if str_in policy [''needs_approval'', ''deny'', ''allow'']
           then (case latch of
                   PBool l \<Rightarrow>
                     bindE (normalize_bindings bindings) (\<lambda>normalized.
                       Inr \<lparr>di_gates = gates, di_preapproval = p,
                             di_policy = (case policy of PStr s \<Rightarrow> s | _ \<Rightarrow> []),
                             di_latch = l, di_bindings = normalized\<rparr>)
                 | _ \<Rightarrow> Inl (FieldInvalid ''emergency_latch_active_invalid''))
           else Inl (FieldInvalid ''policy_decision_invalid''))
      | _ \<Rightarrow> Inl (FieldInvalid ''preapproval_gate_eligible_invalid''))"

section \<open>The decision\<close>

record decision_outcome =
  do_eligible :: bool
  do_status :: "string option"
  do_production_action_executed :: bool
  do_can_go_live_autonomously :: bool
  do_authority_truth_tier :: string
  do_scope_limitation_codes :: "string list"

definition validate_exact_gate_set :: "gate_snapshot list \<Rightarrow> go_live_error + gate_snapshot list" where
  "validate_exact_gate_set gates =
     (if map gs_number gates \<noteq> map int [1..<14] then Inl ExactGateSetRequired else Inr gates)"

text \<open>One row of the gate digest: the lengths are those of the UTF-8 bytes.\<close>

definition gate_row :: "gate_snapshot \<Rightarrow> string" where
  "gate_row g = join '':''
     [utf8 (int_str (gs_number g)),
      utf8 (nat_str (length (utf8 (gs_name g)))), utf8 (gs_name g),
      utf8 (nat_str (length (utf8 (gs_status g)))), utf8 (gs_status g),
      utf8 (nat_str (length (utf8 (gs_reason g)))), utf8 (gs_reason g),
      utf8 (gs_digest g)]"

definition gate_bytes :: "gate_snapshot list \<Rightarrow> go_live_error + string" where
  "gate_bytes gates = bindE (validate_exact_gate_set gates) (\<lambda>normalized. Inr (join [CHR 0x0A] (map gate_row normalized)))"

definition canonical_gate_digest :: "(string \<Rightarrow> string) \<Rightarrow> gate_snapshot list \<Rightarrow> go_live_error + string" where
  "canonical_gate_digest sha gates = bindE (gate_bytes gates) (\<lambda>b. Inr (sha256_text sha b))"

definition binding_payload :: "string \<Rightarrow> decision_inputs \<Rightarrow> pyval" where
  "binding_payload gate_result_digest inputs =
     PDict [(''gate_result_digest'', PStr gate_result_digest),
            (''preapproval_gate_eligible'', PBool (di_preapproval inputs)),
            (''policy_decision'', PStr (di_policy inputs)),
            (''emergency_latch_active'', PBool (di_latch inputs)),
            (''binding_ids'', PDict (map (\<lambda>(k, v). (k, PStr v)) (di_bindings inputs))),
            (''decision_contract'', PStr GO_LIVE_DECISION_CONTRACT_VERSION)]"

definition canonical_binding_digest :: "(string \<Rightarrow> string) \<Rightarrow> decision_inputs \<Rightarrow> go_live_error + string" where
  "canonical_binding_digest sha inputs =
     bindE (canonical_gate_digest sha (di_gates inputs)) (\<lambda>gd.
       case canonical_json False (binding_payload gd inputs) of
         None \<Rightarrow> Inl NotSerializable
       | Some b \<Rightarrow> Inr (sha256_text sha b))"

definition decision_eligible :: "decision_inputs \<Rightarrow> go_live_error + bool" where
  "decision_eligible inputs =
     bindE (validate_exact_gate_set (di_gates inputs)) (\<lambda>gates.
       Inr ((\<forall>gate\<in>set gates. gs_status gate = ''passed'')
            \<and> di_preapproval inputs
            \<and> di_policy inputs = ''needs_approval''
            \<and> \<not> di_latch inputs))"

definition derive_decision :: "decision_inputs \<Rightarrow> go_live_error + decision_outcome" where
  "derive_decision inputs =
     bindE (decision_eligible inputs) (\<lambda>eligible.
       Inr \<lparr>do_eligible = eligible,
             do_status = (if eligible then Some DECISION_STATUS else None),
             do_production_action_executed = False,
             do_can_go_live_autonomously = False,
             do_authority_truth_tier = AUTHORITY_TRUTH_TIER,
             do_scope_limitation_codes = DECISION_SCOPE_LIMITATION_CODES\<rparr>)"

section \<open>Caller-supplied truth\<close>

fun reject_caller_truth_fields :: "pyval \<Rightarrow> go_live_error + unit" where
  "reject_caller_truth_fields (PDict d) =
     for_each (\<lambda>(key, value).
       bindE (check (key \<notin> set FORBIDDEN_CALLER_TRUTH_FIELDS) (CallerTruthFieldForbidden key)) (\<lambda>_.
         reject_caller_truth_fields value)) d"
| "reject_caller_truth_fields (PList xs) = for_each reject_caller_truth_fields xs"
| "reject_caller_truth_fields (PTuple xs) = for_each reject_caller_truth_fields xs"
| "reject_caller_truth_fields _ = Inr ()"

text \<open>A field is forbidden wherever it occurs in the payload.\<close>

fun keys_of :: "pyval \<Rightarrow> string set" where
  "keys_of (PDict d) = (\<Union>(k, v)\<in>set d. insert k (keys_of v))"
| "keys_of (PList xs) = (\<Union>x\<in>set xs. keys_of x)"
| "keys_of (PTuple xs) = (\<Union>x\<in>set xs. keys_of x)"
| "keys_of _ = {}"

lemma reject_caller_truth_fields_iff:
  "reject_caller_truth_fields v = Inr () \<longleftrightarrow> keys_of v \<inter> set FORBIDDEN_CALLER_TRUTH_FIELDS = {}"
proof (induction v)
  case (PDict d)
  have "(\<forall>kv\<in>set d. fst kv \<notin> set FORBIDDEN_CALLER_TRUTH_FIELDS \<and>
          reject_caller_truth_fields (snd kv) = Inr ()) \<longleftrightarrow>
      (\<forall>kv\<in>set d. insert (fst kv) (keys_of (snd kv)) \<inter> set FORBIDDEN_CALLER_TRUTH_FIELDS = {})"
    using PDict by (intro ball_cong) auto
  then show ?case by (auto simp: split_beta)
qed auto

section \<open>Decisions from the gates\<close>

lemma derive_decision_iff:
  "(\<exists>out. derive_decision i = Inr out \<and> do_eligible out) \<longleftrightarrow>
     map gs_number (di_gates i) = map int [1..<14] \<and> (\<forall>g\<in>set (di_gates i). gs_status g = ''passed'') \<and>
     di_preapproval i \<and> di_policy i = ''needs_approval'' \<and> \<not> di_latch i"
  by (auto simp: derive_decision_def decision_eligible_def validate_exact_gate_set_def)

lemma derive_decision_never_executes:
  "derive_decision i = Inr out \<Longrightarrow>
     \<not> do_production_action_executed out \<and> \<not> do_can_go_live_autonomously out \<and>
     (do_status out = (if do_eligible out then Some DECISION_STATUS else None))"
  by (auto simp: derive_decision_def)

section \<open>What the gate digest binds\<close>

definition ascii :: "string \<Rightarrow> bool" where
  "ascii s = (\<forall>c\<in>set s. (of_char c :: nat) < 128)"

lemma utf8_ascii: "ascii s \<Longrightarrow> utf8 s = s"
  by (induction s) (auto simp: ascii_def utf8_def utf8_char_def)

lemma ascii_digits: "list_all is_digit ds \<Longrightarrow> ascii ds"
  by (auto simp: ascii_def list_all_iff is_digit_def Let_def)

lemma utf8_nat_str [simp]: "utf8 (nat_str n) = nat_str n"
  using nat_str_facts [of n] by (intro utf8_ascii ascii_digits) simp

lemma utf8_int_str [simp]: "utf8 (int_str i) = int_str i"
proof (rule utf8_ascii)
  show "ascii (int_str i)"
    using ascii_digits nat_str_facts [of "nat \<bar>i\<bar>"] by (auto simp: int_str_def ascii_def)
qed

text \<open>A snapshot as \<open>GateSnapshot\<close> makes it.\<close>

definition snapshot_ok :: "gate_snapshot \<Rightarrow> bool" where
  "snapshot_ok g =
     (GateSnapshot (PInt (gs_number g)) (PStr (gs_name g)) (PStr (gs_status g)) (PStr (gs_reason g)) (PStr (gs_digest g))
        = Inr g)"

lemma GateSnapshot_ok:
  assumes "GateSnapshot a b c d e = Inr g"
  shows "snapshot_ok g"
proof -
  obtain n where a: "a = PInt n"
    using assms by (cases a) (simp_all add: GateSnapshot_def)
  obtain nm where b: "b = PStr nm" "bounded_code b ''gate_name'' = Inr nm"
    using assms by (cases b) (simp_all add: GateSnapshot_def bounded_code_def a split: if_splits)
  obtain st where c: "c = PStr st" "st \<in> set ALLOWED_GATE_STATUSES"
    using assms by (cases c) (simp_all add: GateSnapshot_def a b split: if_splits)
  obtain rs where d: "d = PStr rs" "bounded_code d ''gate_reason'' = Inr rs"
    using assms by (cases d) (simp_all add: GateSnapshot_def bounded_code_def a b(2) c split: if_splits)
  obtain dg where e: "e = PStr dg" "context_digest_ok e"
    using assms by (cases e) (simp_all add: GateSnapshot_def a b c d(2) split: if_splits)
  have "g = \<lparr>gs_number = n, gs_name = nm, gs_status = st, gs_reason = rs, gs_digest = dg\<rparr>"
    using assms by (simp add: GateSnapshot_def a b(2) c d(2) e(2) [unfolded e(1)] e(1))
  with assms show ?thesis by (simp add: snapshot_ok_def a b(1) c(1) d(1) e(1))
qed

lemma starts_with_take: "starts_with p s \<Longrightarrow> take (length p) s = p"
  by (induction p s rule: starts_with.induct) auto

lemma snapshot_digest:
  assumes "snapshot_ok g"
  shows "length (gs_digest g) = 71" "utf8 (gs_digest g) = gs_digest g"
proof -
  have d: "context_digest_ok (PStr (gs_digest g))"
    using assms unfolding snapshot_ok_def GateSnapshot_def pyval.case
    by (simp only: bindE_Inr_iff split: if_splits) blast+
  then show "length (gs_digest g) = 71" by (simp add: context_digest_ok_def)
  have hex: "\<forall>c\<in>set ''0123456789abcdef''. (of_char c :: nat) < 128" by simp
  have "\<forall>c\<in>set (drop 7 (gs_digest g)). c \<in> set ''0123456789abcdef''"
    using d unfolding context_digest_ok_def pyval.case by blast
  with hex have "\<forall>c\<in>set (drop 7 (gs_digest g)). (of_char c :: nat) < 128" by blast
  moreover have "starts_with HASH_PREFIX (gs_digest g)" using d by (simp add: context_digest_ok_def)
  then have "take 7 (gs_digest g) = HASH_PREFIX"
    using starts_with_take [of HASH_PREFIX "gs_digest g"] by (simp add: HASH_PREFIX_def numeral_eq_Suc)
  then have "\<forall>c\<in>set (take 7 (gs_digest g)). (of_char c :: nat) < 128" by (simp add: HASH_PREFIX_def)
  ultimately have "ascii (gs_digest g)"
    unfolding ascii_def by (metis append_take_drop_id Un_iff set_append)
  then show "utf8 (gs_digest g) = gs_digest g" by (rule utf8_ascii)
qed

lemma netstring_prefix_free:
  assumes "nat_str (length b) @ CHR '':'' # b @ r = nat_str (length c) @ CHR '':'' # c @ s"
  shows "b = c \<and> r = s"
proof -
  have "length b = length c \<and> CHR '':'' # b @ r = CHR '':'' # c @ s"
    by (rule nat_str_prefix_free [OF _ _ assms]) simp_all
  then have "length b = length c" "b @ r = c @ s" by simp_all
  then show ?thesis using append_eq_append_conv [of b c r s] by blast
qed

lemma netstring_iff:
  "nat_str (length b) @ CHR '':'' # b @ r = nat_str (length c) @ CHR '':'' # c @ s \<longleftrightarrow> b = c \<and> r = s"
  using netstring_prefix_free by blast

lemma gate_row_prefix_free:
  assumes "snapshot_ok g" "snapshot_ok h" "gate_row g @ r = gate_row h @ s"
  shows "g = h \<and> r = s"
proof -
  let ?f = "\<lambda>b r. nat_str (length b) @ CHR '':'' # b @ r"
  have row: "gate_row g @ r = int_str (gs_number g) @ CHR '':'' # ?f (utf8 (gs_name g)) (CHR '':'' #
      ?f (utf8 (gs_status g)) (CHR '':'' # ?f (utf8 (gs_reason g)) (CHR '':'' # gs_digest g @ r)))"
    if "snapshot_ok g" for g r
    using snapshot_digest [OF that] by (simp add: gate_row_def)
  from assms(3) have "gs_number g = gs_number h \<and> CHR '':'' # ?f (utf8 (gs_name g)) (CHR '':'' #
      ?f (utf8 (gs_status g)) (CHR '':'' # ?f (utf8 (gs_reason g)) (CHR '':'' # gs_digest g @ r))) =
      CHR '':'' # ?f (utf8 (gs_name h)) (CHR '':'' #
      ?f (utf8 (gs_status h)) (CHR '':'' # ?f (utf8 (gs_reason h)) (CHR '':'' # gs_digest h @ s)))"
    unfolding row [OF assms(1)] row [OF assms(2)] by (intro int_str_prefix_free) simp_all
  then have "gs_number g = gs_number h" "gs_name g = gs_name h" "gs_status g = gs_status h"
      "gs_reason g = gs_reason h" "gs_digest g @ r = gs_digest h @ s"
    by (simp_all only: list.inject netstring_iff utf8_inj)
  then show ?thesis
    using snapshot_digest(1) [OF assms(1)] snapshot_digest(1) [OF assms(2)] by simp
qed

lemma gate_row_hd: "gate_row g = c # t \<Longrightarrow> is_digit c \<or> c = CHR ''-''"
  using int_str_hd [of "gs_number g"] by (auto simp: gate_row_def)

interpretation gate_code: prefix_code gate_row snapshot_ok "\<lambda>_. True"
  by unfold_locales (use gate_row_prefix_free in \<open>blast, simp, simp add: gate_row_def\<close>)

lemma gate_bytes_inj:
  assumes "gate_bytes gs = Inr b" "gate_bytes hs = Inr b" "\<forall>g\<in>set gs \<union> set hs. snapshot_ok g"
  shows "gs = hs"
proof -
  have "hd (gate_row g) \<noteq> CHR ''x''" if "snapshot_ok g" for g
    using gate_row_hd [of g] gate_code.enc_nonempty [OF that] by (cases "gate_row g") (auto simp: is_digit_def)
  moreover have "join [CHR 0x0A] (map gate_row gs) = join [CHR 0x0A] (map gate_row hs)"
    using assms(1,2) by (auto simp: gate_bytes_def validate_exact_gate_set_def split: if_splits)
  ultimately show ?thesis
    using gate_code.join_inj [of "CHR 0x0A" "CHR ''x''" gs hs "[]" "[]"] assms(3) by simp
qed

section \<open>What the binding digest binds\<close>

definition inputs_ok :: "decision_inputs \<Rightarrow> bool" where
  "inputs_ok i = ((\<forall>g\<in>set (di_gates i). snapshot_ok g) \<and> distinct (map fst (di_bindings i)))"

lemma binding_payload_data:
  "distinct (map fst (di_bindings i)) \<Longrightarrow> json_data (binding_payload gd i)"
  "json_plain (binding_payload gd i)"
  by (auto simp: binding_payload_def o_def split_def)

lemma map_of_PStr: "map_of (map (\<lambda>(k, v). (k, PStr v)) d) = (\<lambda>k. map_option PStr (map_of d k))"
  by (induction d) auto

lemma binding_payload_inj:
  assumes "json_norm (binding_payload gd i) = json_norm (binding_payload ge j)"
    and "distinct (map fst (di_bindings i))" "distinct (map fst (di_bindings j))"
  shows "gd = ge \<and> di_preapproval i = di_preapproval j \<and> di_policy i = di_policy j \<and> di_latch i = di_latch j \<and>
    map_of (di_bindings i) = map_of (di_bindings j)"
proof -
  let ?b = "\<lambda>i. map (\<lambda>(k, v). (k, PStr v)) (di_bindings i)"
  have n: "(\<lambda>(k, v). (k, json_norm v)) \<circ> (\<lambda>(k, v). (k, PStr v)) = (\<lambda>(k :: string, v). (k, PStr v))"
    by auto
  from assms(1) have h: "gd = ge" "di_preapproval i = di_preapproval j" "di_policy i = di_policy j"
      "di_latch i = di_latch j" "sort_key fst (?b i) = sort_key fst (?b j)"
    by (simp_all add: binding_payload_def n)
  have "map_of (?b i) = map_of (?b j)"
    using h(5) assms(2,3) sort_items_iff [of "?b i" "?b j"] by (simp add: o_def split_def)
  then have "map_option PStr (map_of (di_bindings i) k) = map_option PStr (map_of (di_bindings j) k)" for k
    by (metis map_of_PStr)
  then have "map_of (di_bindings i) = map_of (di_bindings j)"
    by (intro ext option.inj_map_strong [of _ _ PStr PStr]) auto
  with h show ?thesis by simp
qed

text \<open>The texts whose hashes the binding digest takes.\<close>

definition hashed_texts :: "(string \<Rightarrow> string) \<Rightarrow> decision_inputs \<Rightarrow> string set" where
  "hashed_texts sha i =
     {b. gate_bytes (di_gates i) = Inr b} \<union>
     {b. \<exists>gd. canonical_gate_digest sha (di_gates i) = Inr gd \<and> canonical_json False (binding_payload gd i) = Some b}"

lemma binding_digest_texts:
  assumes "canonical_binding_digest sha i = Inr d"
  obtains b gd where "gate_bytes (di_gates i) = Inr b" "gd = sha256_text sha b"
    "d = sha256_text sha (utf8 (json_text False (binding_payload gd i)))"
    "b \<in> hashed_texts sha i" "utf8 (json_text False (binding_payload gd i)) \<in> hashed_texts sha i"
proof -
  from assms obtain b where b: "gate_bytes (di_gates i) = Inr b"
    by (auto simp: canonical_binding_digest_def canonical_gate_digest_def)
  let ?gd = "sha256_text sha b"
  have c: "canonical_json False (binding_payload ?gd i) = Some (utf8 (json_text False (binding_payload ?gd i)))"
    by (simp add: canonical_json_def binding_payload_data(2))
  show thesis
    by (rule that [OF b refl])
      (use assms b c in \<open>auto simp: canonical_binding_digest_def canonical_gate_digest_def hashed_texts_def\<close>)
qed

lemma binding_digest_total:
  "map gs_number (di_gates i) = map int [1..<14] \<Longrightarrow> \<exists>d. canonical_binding_digest sha i = Inr d"
  by (simp add: canonical_binding_digest_def canonical_gate_digest_def gate_bytes_def validate_exact_gate_set_def
      canonical_json_def binding_payload_data(2))

section \<open>Properties\<close>

text \<open>C29: The binding digest binds: unless the hash collides on the few texts involved, two decisions
  with the same digest were taken on the same thirteen gate results, field for field, the same
  pre-approval, policy and latch inputs, and the same bound identifiers in whatever order; neither the
  separators of the gate rows nor the JSON text can be forged from inside a field.\<close>

theorem decision_digest_binds:
  assumes "inputs_ok i" "inputs_ok j"
    and "canonical_binding_digest sha i = Inr d" "canonical_binding_digest sha j = Inr d"
    and "inj_on sha (hashed_texts sha i \<union> hashed_texts sha j)"
  shows "di_gates i = di_gates j \<and> di_preapproval i = di_preapproval j \<and> di_policy i = di_policy j \<and>
    di_latch i = di_latch j \<and> map_of (di_bindings i) = map_of (di_bindings j)"
proof -
  from binding_digest_texts [OF assms(3)] obtain b gb where b: "gate_bytes (di_gates i) = Inr b"
      "gb = sha256_text sha b" "d = sha256_text sha (utf8 (json_text False (binding_payload gb i)))"
      "b \<in> hashed_texts sha i" "utf8 (json_text False (binding_payload gb i)) \<in> hashed_texts sha i" by metis
  from binding_digest_texts [OF assms(4)] obtain c gc where c: "gate_bytes (di_gates j) = Inr c"
      "gc = sha256_text sha c" "d = sha256_text sha (utf8 (json_text False (binding_payload gc j)))"
      "c \<in> hashed_texts sha j" "utf8 (json_text False (binding_payload gc j)) \<in> hashed_texts sha j" by metis
  have dist: "distinct (map fst (di_bindings i))" "distinct (map fst (di_bindings j))"
    using assms(1,2) by (simp_all add: inputs_ok_def)
  have "sha (utf8 (json_text False (binding_payload gb i))) = sha (utf8 (json_text False (binding_payload gc j)))"
    using b(3) c(3) by (simp add: sha256_text_def)
  then have "json_text False (binding_payload gb i) = json_text False (binding_payload gc j)"
    using inj_onD [OF assms(5)] b(5) c(5) by (metis UnI1 UnI2 utf8_inj)
  then have n: "json_norm (binding_payload gb i) = json_norm (binding_payload gc j)"
    by (intro json_text_inj binding_payload_data(1) dist)
  from binding_payload_inj [OF n dist] have p: "gb = gc" "di_preapproval i = di_preapproval j"
      "di_policy i = di_policy j" "di_latch i = di_latch j" "map_of (di_bindings i) = map_of (di_bindings j)"
    by simp_all
  from p(1) have "b = c"
    using inj_onD [OF assms(5)] b(2,4) c(2,4) by (metis UnI1 UnI2 same_append_eq sha256_text_def)
  then have "di_gates i = di_gates j"
    using gate_bytes_inj [OF b(1), of "di_gates j"] c(1) assms(1,2) by (auto simp: inputs_ok_def)
  with p show ?thesis by simp
qed

definition sample_gate :: "nat \<Rightarrow> gate_snapshot" where
  "sample_gate n = \<lparr>gs_number = int n, gs_name = ''gate'', gs_status = ''passed'', gs_reason = ''ok'',
     gs_digest = HASH_PREFIX @ replicate 64 (CHR ''a'')\<rparr>"

definition sample_inputs :: "bool \<Rightarrow> decision_inputs" where
  "sample_inputs latch = \<lparr>di_gates = map sample_gate [1..<14], di_preapproval = True,
     di_policy = ''needs_approval'', di_latch = latch, di_bindings = [(''evidence_pack_id'', ''7'')]\<rparr>"

lemma sample_gate_ok: "snapshot_ok (sample_gate n)"
  by (simp add: snapshot_ok_def sample_gate_def GateSnapshot_def bounded_code_def py_strip_def py_space_def
      utf8_len_def ALLOWED_GATE_STATUSES_def context_digest_ok_def HASH_PREFIX_def)

lemma sample_inputs_ok: "inputs_ok (sample_inputs l)"
  using sample_gate_ok by (simp add: inputs_ok_def sample_inputs_def)

lemma sample_digest: "\<exists>d. canonical_binding_digest sha (sample_inputs l) = Inr d"
  by (rule binding_digest_total) (simp add: sample_inputs_def sample_gate_def o_def)

lemma decision_digest_binds_witness:
  "canonical_binding_digest rev (sample_inputs True) \<noteq> canonical_binding_digest rev (sample_inputs False)"
proof
  assume e: "canonical_binding_digest rev (sample_inputs True) = canonical_binding_digest rev (sample_inputs False)"
  obtain d where d: "canonical_binding_digest rev (sample_inputs False) = Inr d" using sample_digest by blast
  have "inj_on rev (hashed_texts rev (sample_inputs True) \<union> hashed_texts rev (sample_inputs False))"
    by (simp add: inj_on_def)
  from decision_digest_binds [OF sample_inputs_ok sample_inputs_ok _ d this] e d show False
    by (simp add: sample_inputs_def)
qed

end
