(* ===== verification/Snapshots.thy ===== *)
theory Snapshots
  imports Decision Autonomy_Report
begin

text \<open>
  Freezing an A5 report: each gate of \<open>app/release/production_autonomy.py\<close> becomes a \<open>GateSnapshot\<close>
  with the digest of its context (\<open>app/repositories/go_live_decisions.py\<close>).  Every gate name and
  every reason the evaluator can give fits the snapshot's bounds.
\<close>

datatype loop_error =
    LoopError string
  | ProjectLock run_error
  | BadGate go_live_error
  | BadContext
  | BadTimestamp
  | MultipleRows
  | Database string

definition context_digest :: "(string \<Rightarrow> string) \<Rightarrow> pydict \<Rightarrow> string option" where
  "context_digest sha value = map_option (\<lambda>b. ''sha256:'' @ sha b) (canonical_json False (PDict value))"

text \<open>The snapshots of a report, in the order of its gates.\<close>

fun snapshots_of :: "(string \<Rightarrow> string) \<Rightarrow> gate_result list \<Rightarrow> loop_error + gate_snapshot list" where
  "snapshots_of sha [] = Inr []"
| "snapshots_of sha (gate # gates) =
     (case context_digest sha (gr_context gate) of
        None \<Rightarrow> Inl BadContext
      | Some dg \<Rightarrow>
          (case GateSnapshot (PInt (gr_number gate)) (PStr (gr_gate gate)) (PStr (gr_status gate))
                  (PStr (gr_reason gate)) (PStr dg) of
             Inl e \<Rightarrow> Inl (BadGate e)
           | Inr s \<Rightarrow> bindE (snapshots_of sha gates) (\<lambda>rest. Inr (s # rest))))"

section \<open>Every report can be frozen\<close>

text \<open>What it takes to snapshot a gate.\<close>

definition snapshot_able :: "(string \<Rightarrow> string) \<Rightarrow> gate_result \<Rightarrow> bool" where
  "snapshot_able sha g \<longleftrightarrow>
     json_plain (PDict (gr_context g)) \<and> bounded_code (PStr (gr_gate g)) ''gate_name'' = Inr (gr_gate g) \<and>
     gr_status g \<in> set ALLOWED_GATE_STATUSES \<and> bounded_code (PStr (gr_reason g)) ''gate_reason'' = Inr (gr_reason g) \<and>
     context_digest_ok (PStr (''sha256:'' @ sha (utf8 (json_text False (PDict (gr_context g))))))"

lemma bounded_code_str: "bounded_code (PStr t) f = Inr u \<Longrightarrow> u = t"
  by (simp add: bounded_code_def split: if_splits)

lemma snapshots_of_able: "(\<forall>g\<in>set gates. snapshot_able sha g) \<Longrightarrow> \<exists>snaps. snapshots_of sha gates = Inr snaps"
  by (induction gates) (auto simp: snapshot_able_def context_digest_def canonical_json_def GateSnapshot_def)

lemma snapshots_of_gates:
  "snapshots_of sha gates = Inr snaps \<Longrightarrow>
     map gs_number snaps = map gr_number gates \<and> map gs_status snaps = map gr_status gates \<and>
     map gs_name snaps = map gr_gate gates \<and> map gs_reason snaps = map gr_reason gates \<and>
     (\<forall>g\<in>set snaps. snapshot_ok g)"
proof (induction gates arbitrary: snaps)
  case (Cons g gs)
  then obtain dg sn rest where sn: "GateSnapshot (PInt (gr_number g)) (PStr (gr_gate g)) (PStr (gr_status g))
      (PStr (gr_reason g)) (PStr dg) = Inr sn" and rest: "snapshots_of sha gs = Inr rest" "snaps = sn # rest"
    by (auto split: option.splits sum.splits)
  have "gs_number sn = gr_number g \<and> gs_status sn = gr_status g \<and> gs_name sn = gr_gate g \<and> gs_reason sn = gr_reason g"
    using sn by (auto simp: GateSnapshot_def dest!: bounded_code_str split: if_splits)
  with Cons.IH [OF rest(1)] rest(2) GateSnapshot_ok [OF sn] show ?case by simp
qed simp

definition code_ok :: "string \<Rightarrow> bool" where
  "code_ok s = (py_strip s \<noteq> [] \<and> utf8_len s \<le> 128)"

lemma bounded_code_ok: "code_ok s \<Longrightarrow> bounded_code (PStr s) f = Inr s"
  by (auto simp: bounded_code_def code_ok_def)

lemma ladder_fields:
  "gr_gate (ladder n g ctx rungs p) = g" "gr_context (ladder n g ctx rungs p) = ctx"
  "gr_status (ladder n g ctx rungs p) \<in> {STATUS_PASSED, STATUS_INSUFFICIENT}"
  by (simp_all add: ladder_def insufficient_def passed_def split: option.split)

lemma ladder_reason: "gr_reason (ladder n g ctx rungs p) \<in> set (p # map snd rungs)"
proof (cases "List.find fst rungs")
  case (Some r)
  then have "r \<in> set rungs" by (rule find_Some_mem [THEN conjunct1])
  with Some show ?thesis by (auto simp: ladder_def insufficient_def)
qed (simp add: ladder_def passed_def)

lemma snapshot_able_ladder:
  assumes "list_all code_ok (g # p # map snd rungs)" "json_plain (PDict ctx)"
    and "\<And>b. context_digest_ok (PStr (''sha256:'' @ sha b))"
  shows "snapshot_able sha (ladder n g ctx rungs p)"
proof -
  have "code_ok (gr_reason (ladder n g ctx rungs p))"
    using assms(1) ladder_reason [of n g ctx rungs p] by (auto simp: list_all_iff)
  moreover have "set [STATUS_PASSED, STATUS_INSUFFICIENT] \<subseteq> set ALLOWED_GATE_STATUSES"
    by (simp add: ALLOWED_GATE_STATUSES_def STATUS_PASSED_def STATUS_INSUFFICIENT_def)
  ultimately show ?thesis
    using assms ladder_fields(3) [of n g ctx rungs p]
    by (auto simp: snapshot_able_def ladder_fields bounded_code_ok)
qed

lemma gate2_snapshot_able:
  assumes "json_plain (PDict [])" "\<And>b. context_digest_ok (PStr (''sha256:'' @ sha b))"
  shows "snapshot_able sha (gate2 e)"
  unfolding gate2_def by (rule snapshot_able_ladder [OF _ assms]) (unfold gate2_rungs_def list.map snd_conv, code_simp)

lemma gate3_snapshot_able:
  assumes "json_plain (PDict (gate3_context e))" "\<And>b. context_digest_ok (PStr (''sha256:'' @ sha b))"
  shows "snapshot_able sha (gate3 e)"
  unfolding gate3_def by (rule snapshot_able_ladder [OF _ assms]) (unfold gate3_rungs_def list.map snd_conv, code_simp)

lemma gate4_snapshot_able:
  assumes "json_plain (PDict (gate4_context e))" "\<And>b. context_digest_ok (PStr (''sha256:'' @ sha b))"
  shows "snapshot_able sha (gate4 e)"
  unfolding gate4_def by (rule snapshot_able_ladder [OF _ assms]) (unfold gate4_rungs_def list.map snd_conv, code_simp)

lemma gate5_snapshot_able:
  assumes "json_plain (PDict (gate5_context e))" "\<And>b. context_digest_ok (PStr (''sha256:'' @ sha b))"
  shows "snapshot_able sha (gate5 e)"
  unfolding gate5_def by (rule snapshot_able_ladder [OF _ assms]) (unfold gate5_rungs_def list.map snd_conv, code_simp)

lemma gate6_snapshot_able:
  assumes "json_plain (PDict (gate6_context e))" "\<And>b. context_digest_ok (PStr (''sha256:'' @ sha b))"
  shows "snapshot_able sha (gate6 e)"
  unfolding gate6_def by (rule snapshot_able_ladder [OF _ assms]) (unfold gate6_rungs_def list.map snd_conv, code_simp)

lemma gate7_snapshot_able:
  assumes "json_plain (PDict (gate7_context e))" "\<And>b. context_digest_ok (PStr (''sha256:'' @ sha b))"
  shows "snapshot_able sha (gate7 e)"
  unfolding gate7_def by (rule snapshot_able_ladder [OF _ assms]) (unfold gate7_rungs_def list.map snd_conv, code_simp)

lemma gate8_snapshot_able:
  assumes "json_plain (PDict (gate8_context e))" "\<And>b. context_digest_ok (PStr (''sha256:'' @ sha b))"
  shows "snapshot_able sha (gate8 e)"
  unfolding gate8_def by (rule snapshot_able_ladder [OF _ assms]) (unfold gate8_rungs_def list.map snd_conv, code_simp)

lemma gate9_snapshot_able:
  assumes "json_plain (PDict (gate9_context e))" "\<And>b. context_digest_ok (PStr (''sha256:'' @ sha b))"
  shows "snapshot_able sha (gate9 e)"
  unfolding gate9_def by (rule snapshot_able_ladder [OF _ assms]) (unfold gate9_rungs_def list.map snd_conv, code_simp)

lemma gate10_snapshot_able:
  assumes "json_plain (PDict (gate10_context e))" "\<And>b. context_digest_ok (PStr (''sha256:'' @ sha b))"
  shows "snapshot_able sha (gate10 e)"
  unfolding gate10_def by (rule snapshot_able_ladder [OF _ assms]) (unfold gate10_rungs_def list.map snd_conv, code_simp)

lemma gate11_snapshot_able:
  assumes "json_plain (PDict (gate11_context e))" "\<And>b. context_digest_ok (PStr (''sha256:'' @ sha b))"
  shows "snapshot_able sha (gate11 e)"
  unfolding gate11_def by (rule snapshot_able_ladder [OF _ assms]) (unfold gate11_rungs_def list.map snd_conv, code_simp)

lemma gate12_snapshot_able:
  assumes "json_plain (PDict (gate12_context e))" "\<And>b. context_digest_ok (PStr (''sha256:'' @ sha b))"
  shows "snapshot_able sha (gate12 e)"
  unfolding gate12_def by (rule snapshot_able_ladder [OF _ assms]) (unfold gate12_rungs_def list.map snd_conv, code_simp)

lemma gate13_snapshot_able:
  assumes "json_plain (PDict (gate13_context e))" "\<And>b. context_digest_ok (PStr (''sha256:'' @ sha b))"
  shows "snapshot_able sha (gate13 e)"
  unfolding gate13_def by (rule snapshot_able_ladder [OF _ assms]) (unfold gate13_rungs_def list.map snd_conv, code_simp)

text \<open>Only the readiness level and the counts can be too long.\<close>

definition plain_contexts :: "a5_evidence \<Rightarrow> bool" where
  "plain_contexts ev = list_all (\<lambda>g. json_plain (PDict (gr_context g))) (a5_gates ev)"

lemma report_snapshot_able:
  assumes "plain_contexts ev" "code_ok (''readiness_below_r5:'' @ ev_readiness_level ev)"
    and "\<And>b. context_digest_ok (PStr (''sha256:'' @ sha b))"
  shows "\<forall>g\<in>set (a5_gates ev). snapshot_able sha g"
proof -
  have c: "gr_context (gate2 (ev_target ev)) = []" "gr_context (gate3 (ev_protection ev)) = gate3_context (ev_protection ev)"
    "gr_context (gate4 (ev_oracle ev)) = gate4_context (ev_oracle ev)"
    "gr_context (gate5 (ev_security ev)) = gate5_context (ev_security ev)"
    "gr_context (gate6 (ev_shortcut ev)) = gate6_context (ev_shortcut ev)"
    "gr_context (gate7 (ev_disposition ev)) = gate7_context (ev_disposition ev)"
    "gr_context (gate8 (ev_acceptance ev)) = gate8_context (ev_acceptance ev)"
    "gr_context (gate9 (ev_forecast ev)) = gate9_context (ev_forecast ev)"
    "gr_context (gate10 (ev_rollback ev)) = gate10_context (ev_rollback ev)"
    "gr_context (gate11 (ev_monitoring ev)) = gate11_context (ev_monitoring ev)"
    "gr_context (gate12 (ev_preapproval ev)) = gate12_context (ev_preapproval ev)"
    "gr_context (gate13 (ev_emergency ev)) = gate13_context (ev_emergency ev)"
    by (simp_all add: ladder_fields gate2_def gate3_def gate4_def gate5_def gate6_def gate7_def gate8_def gate9_def
        gate10_def gate11_def gate12_def gate13_def)
  have g1: "snapshot_able sha (gate1 l)" if "code_ok (''readiness_below_r5:'' @ l)" for l
  proof -
    have "list_all code_ok [''r5_intake_complete'', ''readiness_r5'']" by code_simp
    with that assms(3) show ?thesis
      by (simp add: gate1_def snapshot_able_def passed_def insufficient_def bounded_code_ok ALLOWED_GATE_STATUSES_def
          STATUS_PASSED_def STATUS_INSUFFICIENT_def)
  qed
  show ?thesis
    using assms(1,2) unfolding plain_contexts_def a5_gates_def list.pred_inject list.set c
    by (elim conjE, intro ballI)
      (elim insertE emptyE; simp only: g1 gate2_snapshot_able [OF _ assms(3)] gate3_snapshot_able [OF _ assms(3)]
        gate4_snapshot_able [OF _ assms(3)] gate5_snapshot_able [OF _ assms(3)] gate6_snapshot_able [OF _ assms(3)]
        gate7_snapshot_able [OF _ assms(3)] gate8_snapshot_able [OF _ assms(3)] gate9_snapshot_able [OF _ assms(3)]
        gate10_snapshot_able [OF _ assms(3)] gate11_snapshot_able [OF _ assms(3)] gate12_snapshot_able [OF _ assms(3)]
        gate13_snapshot_able [OF _ assms(3)])
qed

lemma small_int_plain: "0 \<le> i \<Longrightarrow> i < 1000 \<Longrightarrow> json_plain (PInt i)"
proof -
  assume "0 \<le> i" "i < 1000"
  then have "nat \<bar>i\<bar> < 10 ^ Suc 2" by simp
  then have "length (nat_str (nat \<bar>i\<bar>)) \<le> Suc 2" by (rule nat_str_length)
  then show ?thesis by simp
qed

lemma plain_opts: "json_plain (opt_str x)" "json_plain (opt_bool y)" "json_plain (str_list xs)"
  by (auto simp: opt_str_def opt_bool_def str_list_def split: option.split)

lemma full_contexts_plain: "plain_contexts full_evidence"
  unfolding plain_contexts_def a5_gates_def list.pred_inject
    gate2_def gate3_def gate4_def gate5_def gate6_def gate7_def gate8_def gate9_def
        gate10_def gate11_def gate12_def gate13_def ladder_fields
  by (intro conjI)
   (simp_all add: gate1_def passed_def full_evidence_def small_int_plain plain_opts gate3_context_def gate4_context_def gate5_context_def gate6_context_def gate7_context_def gate8_context_def gate9_context_def gate10_context_def gate11_context_def gate12_context_def gate13_context_def default_target_evidence_def default_protection_evidence_def default_oracle_evidence_def default_security_evidence_def default_shortcut_evidence_def default_disposition_evidence_def default_acceptance_evidence_def default_forecast_evidence_def default_rollback_evidence_def default_monitoring_evidence_def default_preapproval_evidence_def default_emergency_evidence_def SCOPE_LIMITATION_CODES_def del: json_plain.simps(3))

end
