(* ===== verification/Control_Loop.thy ===== *)
theory Control_Loop
  imports Snapshots
begin

text \<open>
  The repository of the control loop (\<open>app/repositories/go_live_decisions.py\<close>): idempotent cycles,
  their append-only event logs, the evaluation that freezes an A5 report with its digests, the
  readings of the latest and current decision, and the retry of serializable transactions.  The SQL
  functions and triggers of migration 0054 are in \<open>Finalization\<close>.
\<close>

section \<open>Rows\<close>

record cycle_row =
  cy_id :: uuid
  cy_tenant :: uuid
  cy_project :: uuid
  cy_run :: uuid
  cy_key_digest :: string
  cy_contract_version :: string
  cy_contract_hash :: string
  cy_created_at :: timestamp

record loop_event_row =
  le_id :: uuid
  le_tenant :: uuid
  le_project :: uuid
  le_cycle :: uuid
  le_ordinal :: nat
  le_previous :: "uuid option"
  le_stage :: string
  le_outcome :: string
  le_evidence :: "string option"

record evaluation_row =
  el_id :: uuid
  el_tenant :: uuid
  el_project :: uuid
  el_cycle :: uuid
  el_evaluated_at :: timestamp
  el_ruleset :: string
  el_contract_version :: string
  el_contract_hash :: string
  el_gate_digest :: string
  el_passed_count :: nat
  el_all_passed :: bool
  el_preapproval :: bool
  el_policy :: string
  el_latch :: bool
  el_release_candidate :: "uuid option"
  el_evidence_pack :: "uuid option"
  el_verdict :: "uuid option"
  el_request :: "uuid option"
  el_attestation :: "uuid option"
  el_expires_at :: "timestamp option"
  el_autonomy_policy :: "uuid option"
  el_autonomy_digest :: "string option"
  el_autonomy_updated :: "timestamp option"
  el_emergency_binding :: "uuid option"
  el_stop_event :: "uuid option"
  el_binding_digest :: string

record gate_result_row =
  gg_tenant :: uuid
  gg_project :: uuid
  gg_evaluation :: uuid
  gg_number :: int
  gg_name :: string
  gg_status :: string
  gg_reason :: string
  gg_digest :: string
  gg_ordinal :: int

record decision_row =
  gd_id :: uuid
  gd_seq :: nat
  gd_tenant :: uuid
  gd_project :: uuid
  gd_cycle :: uuid
  gd_evaluation :: uuid
  gd_request :: uuid
  gd_attestation :: uuid
  gd_autonomy_policy :: uuid
  gd_autonomy_digest :: string
  gd_emergency_binding :: uuid
  gd_stop_event :: uuid
  gd_release_candidate :: uuid
  gd_evidence_pack :: uuid
  gd_verdict :: uuid
  gd_evaluation_digest :: string
  gd_binding_digest :: string
  gd_status :: string
  gd_truth_tier :: string
  gd_executed :: bool
  gd_can_go_live :: bool
  gd_scope_digest :: string
  gd_previous :: "uuid option"
  gd_prev_hash :: "string option"
  gd_entry_hash :: string
  gd_created_at :: timestamp

text \<open>A production preapproval: its request, the attestation of the approver, and lifecycle events.\<close>

record request_row =
  pq_id :: uuid
  pq_tenant :: uuid
  pq_project :: uuid
  pq_release_candidate :: uuid
  pq_evidence_pack :: uuid
  pq_verdict :: uuid
  pq_policy_version :: uuid
  pq_autonomy_policy :: uuid
  pq_approval :: uuid
  pq_notification :: uuid
  pq_contract_version :: string
  pq_condition_version :: string
  pq_condition_hash :: string
  pq_release_binding_digest :: string
  pq_core_hash :: string
  pq_issue_digest :: string
  pq_source_digest :: string
  pq_traceability_digest :: string
  pq_verdict_input_digest :: string
  pq_verdict_contract_hash :: string
  pq_autonomy_digest :: string
  pq_requester_hash :: string
  pq_requester_type :: string
  pq_requester_prov :: string
  pq_key_hash :: string
  pq_requested_at :: timestamp
  pq_created_at :: timestamp

record attestation_row =
  ta_id :: uuid
  ta_tenant :: uuid
  ta_project :: uuid
  ta_request :: uuid
  ta_approval :: uuid
  ta_policy_version :: uuid
  ta_release_candidate :: uuid
  ta_evidence_pack :: uuid
  ta_verdict :: uuid
  ta_requester_hash :: string
  ta_requester_type :: string
  ta_requester_prov :: string
  ta_approver_hash :: string
  ta_approver_type :: string
  ta_approver_prov :: string
  ta_key_hash :: string
  ta_approved_at :: timestamp
  ta_valid_from :: timestamp
  ta_expires_at :: timestamp
  ta_membership_ok :: bool
  ta_created_at :: timestamp

record preapproval_event_row =
  pv_id :: uuid
  pv_tenant :: uuid
  pv_project :: uuid
  pv_attestation :: uuid
  pv_previous :: "uuid option"
  pv_type :: string
  pv_actor_hash :: string
  pv_actor_type :: string
  pv_actor_prov :: string
  pv_reason :: string
  pv_key_hash :: string
  pv_created_at :: timestamp

record control_row =
  eb_id :: uuid
  eb_tenant :: uuid
  eb_project :: uuid
  eb_created_at :: timestamp

text \<open>Of the emergency controls the loop reads the bindings; policies, runs and stop events are in \<open>ls_db\<close>.\<close>

record loop_store =
  ls_db :: db
  ls_isolation :: string
  ls_cycles :: "cycle_row list"
  ls_events :: "loop_event_row list"
  ls_evaluations :: "evaluation_row list"
  ls_gate_results :: "gate_result_row list"
  ls_decisions :: "decision_row list"
  ls_requests :: "request_row list"
  ls_attestations :: "attestation_row list"
  ls_preapproval_events :: "preapproval_event_row list"
  ls_controls :: "control_row list"

section \<open>Retrying serializable transactions\<close>

text \<open>
  An exception is an object of a heap: its \<open>sqlstate\<close> and \<open>pgcode\<close> attributes (\<open>None\<close> where it has
  none) and the exceptions its \<open>orig\<close>, \<open>__cause__\<close> and \<open>__context__\<close> hold, which may form cycles.
\<close>

record exn =
  ex_sqlstate :: pyval
  ex_pgcode :: pyval
  ex_orig :: "nat option"
  ex_cause :: "nat option"
  ex_context :: "nat option"

type_synonym exn_heap = "(nat \<times> exn) list"

definition RETRYABLE_TRANSACTION_SQLSTATES :: "string list" where
  "RETRYABLE_TRANSACTION_SQLSTATES = [''40001'', ''40P01'']"

definition SERIALIZABLE_MAX_ATTEMPTS :: nat where
  "SERIALIZABLE_MAX_ATTEMPTS = 5"

definition exn_state :: "exn_heap \<Rightarrow> nat \<Rightarrow> string option" where
  "exn_state h i =
     (case map_of h i of
        None \<Rightarrow> None
      | Some e \<Rightarrow> (case ex_sqlstate e of
                    PStr s \<Rightarrow> Some s
                  | _ \<Rightarrow> (case ex_pgcode e of PStr s \<Rightarrow> Some s | _ \<Rightarrow> None)))"

text \<open>What is pushed on the stack, the last pushed first.\<close>

definition exn_nested :: "exn_heap \<Rightarrow> nat \<Rightarrow> nat list" where
  "exn_nested h i =
     (case map_of h i of
        None \<Rightarrow> []
      | Some e \<Rightarrow> List.map_filter (\<lambda>x. x) [ex_context e, ex_cause e, ex_orig e])"

lemma fresh_shrinks:
  assumes "current \<notin> set visited" "current \<in> fst ` set h"
  shows "card (fst ` set h - insert current (set visited)) < card (fst ` set h - set visited)"
  by (rule psubset_card_mono) (use assms in auto)

function sqlstate_loop :: "exn_heap \<Rightarrow> nat list \<Rightarrow> nat list \<Rightarrow> string option" where
  "sqlstate_loop h [] visited = None"
| "sqlstate_loop h (current # pending) visited =
     (if current \<in> set visited then sqlstate_loop h pending visited
      else (case exn_state h current of
              Some s \<Rightarrow> Some s
            | None \<Rightarrow> sqlstate_loop h (exn_nested h current @ pending) (current # visited)))"
  by pat_completeness auto

termination
proof (relation "(\<lambda>(h, p, v). card (fst ` set h - set v)) <*mlex*> measure (\<lambda>(h, p, v). length p)")
  show "wf ((\<lambda>(h, p, v). card (fst ` set h - set v)) <*mlex*> measure (\<lambda>(h, p, v). length p))"
    by (intro wf_mlex) simp
next
  fix h :: exn_heap and current :: nat and pending visited
  assume "current \<in> set visited"
  then show "((h, pending, visited), h, current # pending, visited)
      \<in> (\<lambda>(h, p, v). card (fst ` set h - set v)) <*mlex*> measure (\<lambda>(h, p, v). length p)"
    by (intro mlex_leq) auto
next
  fix h :: exn_heap and current :: nat and pending visited
  assume new: "current \<notin> set visited"
  show "((h, exn_nested h current @ pending, current # visited), h, current # pending, visited)
      \<in> (\<lambda>(h, p, v). card (fst ` set h - set v)) <*mlex*> measure (\<lambda>(h, p, v). length p)"
  proof (cases "current \<in> fst ` set h")
    case True
    from fresh_shrinks [OF new this] show ?thesis
      by (intro mlex_less) (simp only: prod.case list.set)
  next
    case False
    then have "map_of h current = None" by (simp add: map_of_eq_None_iff)
    moreover have "fst ` set h - insert current (set visited) = fst ` set h - set visited"
      using False by auto
    ultimately show ?thesis by (intro mlex_leq) (simp_all add: exn_nested_def)
  qed
qed

definition transaction_sqlstate :: "exn_heap \<Rightarrow> nat \<Rightarrow> string option" where
  "transaction_sqlstate h exc = sqlstate_loop h [exc] []"

definition is_retryable_transaction_error :: "exn_heap \<Rightarrow> nat \<Rightarrow> bool" where
  "is_retryable_transaction_error h exc =
     (transaction_sqlstate h exc \<in> Some ` set RETRYABLE_TRANSACTION_SQLSTATES)"

text \<open>
  One attempt of the work: it returns, it raises, or its session turns out not to be serializable,
  which raises an exception without a SQLSTATE.
\<close>

datatype 'a work_result = Returned 'a | Raised exn_heap nat | IsolationRequired

datatype 'a retry_result = RetryReturned 'a | RetryRaised exn_heap nat | RetryIsolation | RetryExhausted

text \<open>\<open>for attempt in range(SERIALIZABLE_MAX_ATTEMPTS)\<close>, with the number of attempts made.\<close>

function attempt_from :: "(nat \<Rightarrow> 'a work_result) \<Rightarrow> nat \<Rightarrow> 'a retry_result \<times> nat" where
  "attempt_from work attempt =
     (if attempt \<ge> SERIALIZABLE_MAX_ATTEMPTS then (RetryExhausted, attempt)
      else (case work attempt of
              Returned v \<Rightarrow> (RetryReturned v, attempt + 1)
            | IsolationRequired \<Rightarrow> (RetryIsolation, attempt + 1)
            | Raised h exc \<Rightarrow>
                if \<not> is_retryable_transaction_error h exc \<or> attempt + 1 \<ge> SERIALIZABLE_MAX_ATTEMPTS
                then (RetryRaised h exc, attempt + 1)
                else attempt_from work (attempt + 1)))"
  by pat_completeness auto
termination by (relation "measure (\<lambda>(w, n). SERIALIZABLE_MAX_ATTEMPTS - n)") auto

definition run_serializable_tenant_work :: "(nat \<Rightarrow> 'a work_result) \<Rightarrow> 'a retry_result \<times> nat" where
  "run_serializable_tenant_work work = attempt_from work 0"

section \<open>Texts and digests\<close>

definition CONTROL_LOOP_CONTRACT_VERSION :: string where
  "CONTROL_LOOP_CONTRACT_VERSION = ''slice55.control_loop.v1''"

definition GO_LIVE_EVALUATION_CONTRACT_VERSION :: string where
  "GO_LIVE_EVALUATION_CONTRACT_VERSION = ''slice55.go_live_evaluation.v1''"

definition A5_RULESET_VERSION :: string where
  "A5_RULESET_VERSION = ''slice54.v1''"

definition hash_text :: "(string \<Rightarrow> string) \<Rightarrow> string \<Rightarrow> string" where
  "hash_text sha value = ''sha256:'' @ sha (utf8 value)"

type_synonym bindings = "(string \<times> string) list"

definition uuid_or_none :: "bindings \<Rightarrow> string \<Rightarrow> loop_error + uuid option" where
  "uuid_or_none values key =
     (case map_of values key of
        None \<Rightarrow> Inr None
      | Some v \<Rightarrow> (case parse_uuid v of
                    None \<Rightarrow> Inl (LoopError (''invalid_binding_id:'' @ key))
                  | Some u \<Rightarrow> Inr (Some u)))"

definition binding_order :: "string list" where
  "binding_order =
     [''release_candidate_id'', ''evidence_pack_id'', ''release_verdict_id'', ''preapproval_request_id'',
      ''preapproval_attestation_id'', ''autonomy_policy_id'', ''autonomy_policy_digest'',
      ''autonomy_policy_updated_at'', ''emergency_control_binding_id'', ''emergency_stop_event_id'']"

definition bool_str :: "bool \<Rightarrow> string" where
  "bool_str b = (if b then ''true'' else ''false'')"

definition evaluation_binding_text :: "bindings \<Rightarrow> bool \<Rightarrow> string \<Rightarrow> bool \<Rightarrow> string" where
  "evaluation_binding_text binding_ids preapproval policy latch =
     join ''|'' (map (\<lambda>key. case map_of binding_ids key of None \<Rightarrow> [] | Some v \<Rightarrow> v) binding_order @
                 [bool_str preapproval, policy, bool_str latch, A5_RULESET_VERSION,
                  GO_LIVE_EVALUATION_CONTRACT_VERSION])"

definition evaluation_binding_digest ::
  "(string \<Rightarrow> string) \<Rightarrow> bindings \<Rightarrow> bool \<Rightarrow> string \<Rightarrow> bool \<Rightarrow> string" where
  "evaluation_binding_digest sha binding_ids preapproval policy latch =
     hash_text sha (evaluation_binding_text binding_ids preapproval policy latch)"

definition gate_result_digest :: "(string \<Rightarrow> string) \<Rightarrow> gate_snapshot list \<Rightarrow> loop_error + string" where
  "gate_result_digest sha snapshots =
     (case canonical_gate_digest sha snapshots of Inl e \<Rightarrow> Inl (BadGate e) | Inr dg \<Rightarrow> Inr dg)"

definition preview_evaluation_digests ::
  "(string \<Rightarrow> string) \<Rightarrow> autonomy_report \<Rightarrow> bool \<Rightarrow> string \<Rightarrow> bool \<Rightarrow> bindings \<Rightarrow> loop_error + (string \<times> string)" where
  "preview_evaluation_digests sha report preapproval policy latch binding_ids =
     bindE (snapshots_of sha (rep_gates report)) (\<lambda>snapshots.
     bindE (gate_result_digest sha snapshots) (\<lambda>gd.
       Inr (gd, evaluation_binding_digest sha binding_ids preapproval policy latch)))"

section \<open>Cycles and their events\<close>

definition require_serializable :: "loop_store \<Rightarrow> loop_error + unit" where
  "require_serializable s = check (ls_isolation s = ''serializable'') (LoopError ''serializable_isolation_required'')"

definition find_cycle :: "tenant_context \<Rightarrow> uuid \<Rightarrow> string \<Rightarrow> loop_store \<Rightarrow> cycle_row option" where
  "find_cycle ctx project digest s =
     List.find (\<lambda>r. cy_tenant r = ctx_tenant ctx \<and> cy_project r = project \<and> cy_key_digest r = digest) (ls_cycles s)"

text \<open>\<open>insert ... on conflict do nothing\<close>, then the row is read back.\<close>

definition start_cycle ::
  "(string \<Rightarrow> string) \<Rightarrow> tenant_context \<Rightarrow> uuid \<Rightarrow> uuid \<Rightarrow> string \<Rightarrow> timestamp \<Rightarrow> loop_store \<Rightarrow>
     loop_error + (cycle_row \<times> loop_store)" where
  "start_cycle sha ctx project run key clock s =
     (if key = [] \<or> utf8_len key > 256 then Inl (LoopError ''idempotency_key_invalid'')
      else let digest = hash_text sha key in
        (case find_cycle ctx project digest s of
           Some row \<Rightarrow> if cy_run row \<noteq> run then Inl (LoopError ''idempotency_conflict'') else Inr (row, s)
         | None \<Rightarrow>
             let row = \<lparr>cy_id = db_next_id (ls_db s), cy_tenant = ctx_tenant ctx, cy_project = project, cy_run = run,
                        cy_key_digest = digest, cy_contract_version = CONTROL_LOOP_CONTRACT_VERSION,
                        cy_contract_hash = hash_text sha CONTROL_LOOP_CONTRACT_VERSION, cy_created_at = clock\<rparr>
             in Inr (row,
                  s\<lparr>ls_cycles := ls_cycles s @ [row],
                    ls_db := audit_record ctx ''control_loop.started'' ''control_loop_runtime''
                      (Some ''control_loop_run'')
                      [(''project_id'', PStr (uuid_str project)),
                       (''control_loop_run_id'', PStr (uuid_str (cy_id row))),
                       (''contract_version'', PStr CONTROL_LOOP_CONTRACT_VERSION)]
                      ((ls_db s)\<lparr>db_next_id := db_next_id (ls_db s) + 1\<rparr>)\<rparr>)))"

definition require_cycle :: "tenant_context \<Rightarrow> uuid \<Rightarrow> loop_store \<Rightarrow> loop_error + cycle_row" where
  "require_cycle ctx cycle s =
     (case List.find (\<lambda>r. cy_id r = cycle \<and> cy_tenant r = ctx_tenant ctx) (ls_cycles s) of
        None \<Rightarrow> Inl (LoopError ''control_loop_unavailable'')
      | Some r \<Rightarrow> Inr r)"

definition cycle_events :: "uuid \<Rightarrow> uuid \<Rightarrow> loop_store \<Rightarrow> loop_event_row list" where
  "cycle_events tenant cycle s = filter (\<lambda>e. le_tenant e = tenant \<and> le_cycle e = cycle) (ls_events s)"

text \<open>
  The CHECK of the column \<open>evidence_reference_digest\<close>: \<open>NULL\<close>, or \<open>^sha256:[0-9a-f]{64}$\<close>, which is the
  language of the context digests.  It refuses the row when the session is flushed.
\<close>

definition evidence_reference_ok :: "string option \<Rightarrow> bool" where
  "evidence_reference_ok evidence = (case evidence of None \<Rightarrow> True | Some d \<Rightarrow> context_digest_ok (PStr d))"

definition append_event ::
  "tenant_context \<Rightarrow> uuid \<Rightarrow> string \<Rightarrow> string \<Rightarrow> string option \<Rightarrow> loop_store \<Rightarrow>
     loop_error + (loop_event_row \<times> loop_store)" where
  "append_event ctx control_loop_run_id stage_code outcome_code evidence s =
     bindE (require_cycle ctx control_loop_run_id s) (\<lambda>cycle.
       case lock_project_row ctx (cy_project cycle) (ls_db s) of
         Inl e \<Rightarrow> Inl (ProjectLock e)
       | Inr _ \<Rightarrow>
           let prior = latest_by le_ordinal (cycle_events (ctx_tenant ctx) (cy_id cycle) s) in
           (case validate_event_transition (map_option le_stage prior) (map_option le_outcome prior)
                   stage_code outcome_code of
              Inl _ \<Rightarrow> Inl (LoopError ''control_loop_event_transition_invalid'')
            | Inr _ \<Rightarrow>
                let ordinal = (case prior of None \<Rightarrow> 1 | Some p \<Rightarrow> le_ordinal p + 1) in
                if ordinal > 64 then Inl (LoopError ''control_loop_event_limit'')
                else if \<not> evidence_reference_ok evidence then Inl (Database ''ck_control_loop_events_digest'')
                else let event = \<lparr>le_id = db_next_id (ls_db s), le_tenant = ctx_tenant ctx,
                                  le_project = cy_project cycle, le_cycle = cy_id cycle, le_ordinal = ordinal,
                                  le_previous = map_option le_id prior, le_stage = stage_code,
                                  le_outcome = outcome_code, le_evidence = evidence\<rparr>
                     in Inr (event,
                          s\<lparr>ls_events := ls_events s @ [event],
                            ls_db := (ls_db s)\<lparr>db_next_id := db_next_id (ls_db s) + 1\<rparr>\<rparr>)))"

section \<open>Evaluations\<close>

definition require_evaluation :: "tenant_context \<Rightarrow> uuid \<Rightarrow> loop_store \<Rightarrow> loop_error + evaluation_row" where
  "require_evaluation ctx evaluation s =
     (case List.find (\<lambda>r. el_id r = evaluation \<and> el_tenant r = ctx_tenant ctx) (ls_evaluations s) of
        None \<Rightarrow> Inl (LoopError ''evaluation_unavailable'')
      | Some r \<Rightarrow> Inr r)"

text \<open>\<open>datetime.fromisoformat\<close> is the argument \<open>from_iso\<close>; it raises where it gives \<open>None\<close>.\<close>

definition updated_at_of :: "(string \<Rightarrow> timestamp option) \<Rightarrow> bindings \<Rightarrow> loop_error + timestamp option" where
  "updated_at_of from_iso binding_ids =
     (case map_of binding_ids ''autonomy_policy_updated_at'' of
        None \<Rightarrow> Inr None
      | Some v \<Rightarrow> if v = [] then Inr None
                  else (case from_iso v of None \<Rightarrow> Inl BadTimestamp | Some t \<Rightarrow> Inr (Some t)))"

definition evaluation_of ::
  "(string \<Rightarrow> string) \<Rightarrow> (string \<Rightarrow> timestamp option) \<Rightarrow> uuid \<Rightarrow> cycle_row \<Rightarrow> gate_snapshot list \<Rightarrow> string \<Rightarrow>
     bool \<Rightarrow> string \<Rightarrow> bool \<Rightarrow> bindings \<Rightarrow> timestamp option \<Rightarrow> timestamp \<Rightarrow> loop_error + evaluation_row" where
  "evaluation_of sha from_iso new_id cycle snapshots gd preapproval policy latch binding_ids expires at =
     bindE (uuid_or_none binding_ids ''release_candidate_id'') (\<lambda>release_candidate.
     bindE (uuid_or_none binding_ids ''evidence_pack_id'') (\<lambda>evidence_pack.
     bindE (uuid_or_none binding_ids ''release_verdict_id'') (\<lambda>verdict.
     bindE (uuid_or_none binding_ids ''preapproval_request_id'') (\<lambda>request.
     bindE (uuid_or_none binding_ids ''preapproval_attestation_id'') (\<lambda>attestation.
     bindE (uuid_or_none binding_ids ''autonomy_policy_id'') (\<lambda>autonomy_policy.
     bindE (updated_at_of from_iso binding_ids) (\<lambda>updated.
     bindE (uuid_or_none binding_ids ''emergency_control_binding_id'') (\<lambda>emergency_binding.
     bindE (uuid_or_none binding_ids ''emergency_stop_event_id'') (\<lambda>stop_event.
       Inr \<lparr>el_id = new_id, el_tenant = cy_tenant cycle, el_project = cy_project cycle, el_cycle = cy_id cycle,
             el_evaluated_at = at, el_ruleset = A5_RULESET_VERSION,
             el_contract_version = GO_LIVE_EVALUATION_CONTRACT_VERSION,
             el_contract_hash = hash_text sha GO_LIVE_EVALUATION_CONTRACT_VERSION,
             el_gate_digest = gd,
             el_passed_count = length (filter (\<lambda>g. gs_status g = ''passed'') snapshots),
             el_all_passed = (\<forall>g\<in>set snapshots. gs_status g = ''passed''),
             el_preapproval = preapproval, el_policy = policy, el_latch = latch,
             el_release_candidate = release_candidate, el_evidence_pack = evidence_pack, el_verdict = verdict,
             el_request = request, el_attestation = attestation, el_expires_at = expires,
             el_autonomy_policy = autonomy_policy,
             el_autonomy_digest = map_of binding_ids ''autonomy_policy_digest'',
             el_autonomy_updated = updated, el_emergency_binding = emergency_binding,
             el_stop_event = stop_event,
             el_binding_digest = evaluation_binding_digest sha binding_ids preapproval policy latch\<rparr>)))))))))"

definition gate_rows_of :: "evaluation_row \<Rightarrow> gate_snapshot list \<Rightarrow> gate_result_row list" where
  "gate_rows_of ev snapshots =
     map (\<lambda>g. \<lparr>gg_tenant = el_tenant ev, gg_project = el_project ev, gg_evaluation = el_id ev,
               gg_number = gs_number g, gg_name = gs_name g, gg_status = gs_status g, gg_reason = gs_reason g,
               gg_digest = gs_digest g, gg_ordinal = gs_number g\<rparr>) snapshots"

definition record_evaluation ::
  "(string \<Rightarrow> string) \<Rightarrow> (string \<Rightarrow> timestamp option) \<Rightarrow> tenant_context \<Rightarrow> uuid \<Rightarrow> autonomy_report \<Rightarrow>
     bool \<Rightarrow> string \<Rightarrow> bool \<Rightarrow> bindings \<Rightarrow> timestamp option \<Rightarrow> timestamp option \<Rightarrow> timestamp \<Rightarrow> loop_store \<Rightarrow>
     loop_error + (evaluation_row \<times> loop_store)" where
  "record_evaluation sha from_iso ctx control_loop_run_id report preapproval policy latch binding_ids expires
       evaluated_at clock s =
     bindE (require_serializable s) (\<lambda>_.
     bindE (require_cycle ctx control_loop_run_id s) (\<lambda>cycle.
       if rep_project report \<noteq> uuid_str (cy_project cycle) then Inl (LoopError ''evaluation_project_mismatch'')
       else if policy \<notin> {''needs_approval'', ''deny'', ''allow''} then Inl (LoopError ''policy_decision_invalid'')
       else
         bindE (snapshots_of sha (rep_gates report)) (\<lambda>snapshots.
         bindE (gate_result_digest sha snapshots) (\<lambda>gd.
         bindE (evaluation_of sha from_iso (db_next_id (ls_db s)) cycle snapshots gd preapproval policy latch
                  binding_ids expires (case evaluated_at of None \<Rightarrow> clock | Some t \<Rightarrow> t)) (\<lambda>evaluation.
           Inr (evaluation,
             s\<lparr>ls_evaluations := ls_evaluations s @ [evaluation],
               ls_gate_results := ls_gate_results s @ gate_rows_of evaluation snapshots,
               ls_db := audit_record ctx ''control_loop.a5_evaluated'' ''control_loop_runtime''
                 (Some ''go_live_evaluation'')
                 [(''project_id'', PStr (uuid_str (cy_project cycle))),
                  (''control_loop_run_id'', PStr (uuid_str (cy_id cycle))),
                  (''evaluation_id'', PStr (uuid_str (el_id evaluation))),
                  (''passed_gate_count'', PInt (int (el_passed_count evaluation))),
                  (''all_gates_passed'', PBool (el_all_passed evaluation)),
                  (''ruleset_version'', PStr A5_RULESET_VERSION)]
                 ((ls_db s)\<lparr>db_next_id := db_next_id (ls_db s) + 1\<rparr>)\<rparr>))))))"

section \<open>Reading decisions\<close>

definition latest_decision :: "tenant_context \<Rightarrow> uuid \<Rightarrow> loop_store \<Rightarrow> decision_row option" where
  "latest_decision ctx project s =
     latest_by gd_seq (filter (\<lambda>r. gd_tenant r = ctx_tenant ctx \<and> gd_project r = project) (ls_decisions s))"

definition current_decision ::
  "tenant_context \<Rightarrow> uuid \<Rightarrow> timestamp option \<Rightarrow> timestamp \<Rightarrow> loop_store \<Rightarrow> loop_error + decision_row option" where
  "current_decision ctx project as_of clock s =
     (let now = (case as_of of None \<Rightarrow> clock | Some t \<Rightarrow> t);
          latest_cycle = latest_by (\<lambda>r. (cy_created_at r, cy_id r))
            (filter (\<lambda>r. cy_tenant r = ctx_tenant ctx \<and> cy_project r = project) (ls_cycles s))
      in (case (latest_cycle, latest_decision ctx project s) of
            (Some cycle, Some decision) \<Rightarrow>
              if gd_cycle decision \<noteq> cy_id cycle then Inr None
              else
                bindE (scalar_one_or_none MultipleRows
                         (filter (\<lambda>r. el_id r = gd_evaluation decision \<and> el_tenant r = ctx_tenant ctx)
                           (ls_evaluations s))) (\<lambda>found.
                  case found of
                    None \<Rightarrow> Inr None
                  | Some evaluation \<Rightarrow>
                      (case el_expires_at evaluation of
                         None \<Rightarrow> Inr None
                       | Some expires \<Rightarrow>
                           if expires \<le> now then Inr None
                           else
                             let latest_request = map_option pq_id (latest_by (\<lambda>r. (pq_created_at r, pq_id r))
                                   (filter (\<lambda>r. pq_tenant r = ctx_tenant ctx \<and> pq_project r = project) (ls_requests s)));
                                 latest_emergency = map_option se_id (latest_stop_event ctx project (ls_db s))
                             in bindE (scalar_one_or_none MultipleRows
                                  (filter (\<lambda>r. pol_tenant r = ctx_tenant ctx \<and> pol_project r = project)
                                    (autonomy_policies (ls_db s))))
                                (\<lambda>autonomy.
                                  case autonomy of
                                    None \<Rightarrow> Inr None
                                  | Some a \<Rightarrow>
                                      if latest_request \<noteq> Some (gd_request decision) \<or>
                                         latest_emergency \<noteq> Some (gd_stop_event decision) \<or>
                                         pol_id a \<noteq> gd_autonomy_policy decision \<or>
                                         Some (pol_updated_at a) \<noteq> el_autonomy_updated evaluation \<or>
                                         Some (gd_autonomy_digest decision) \<noteq> el_autonomy_digest evaluation
                                      then Inr None
                                      else Inr (Some decision))))
          | _ \<Rightarrow> Inr None))"

section \<open>Lemmas: the retry\<close>

definition exn_edges :: "exn_heap \<Rightarrow> (nat \<times> nat) set" where
  "exn_edges h = {(x, y). y \<in> set (exn_nested h x)}"

lemma sqlstate_loop_sound:
  "sqlstate_loop h p v = Some s \<Longrightarrow> \<exists>x\<in>set p. \<exists>y. (x, y) \<in> (exn_edges h)\<^sup>* \<and> exn_state h y = Some s"
proof (induction h p v rule: sqlstate_loop.induct)
  case (2 h x p v)
  show ?case
  proof (cases "x \<in> set v")
    case True
    with 2 show ?thesis by auto
  next
    case new: False
    show ?thesis
    proof (cases "exn_state h x")
      case (Some t)
      with 2(3) new have "exn_state h x = Some s" by simp
      then show ?thesis by auto
    next
      case None
      with 2(2,3) new obtain a y where a: "a \<in> set (exn_nested h x) \<union> set p" and
        y: "(a, y) \<in> (exn_edges h)\<^sup>*" "exn_state h y = Some s" by auto
      show ?thesis
      proof (cases "a \<in> set p")
        case True
        with y show ?thesis by auto
      next
        case False
        with a have "(x, a) \<in> exn_edges h" by (simp add: exn_edges_def)
        with y show ?thesis by (auto intro: converse_rtrancl_into_rtrancl)
      qed
    qed
  qed
qed simp

text \<open>When the loop finds nothing, what it has seen is closed under nesting.\<close>

lemma sqlstate_loop_complete:
  "sqlstate_loop h p v = None \<Longrightarrow>
     (\<forall>x\<in>set v. exn_state h x = None \<and> set (exn_nested h x) \<subseteq> set v \<union> set p) \<Longrightarrow>
     \<exists>V. set p \<union> set v \<subseteq> V \<and> (\<forall>x\<in>V. exn_state h x = None \<and> set (exn_nested h x) \<subseteq> V)"
proof (induction h p v rule: sqlstate_loop.induct)
  case (1 h v)
  then show ?case by (intro exI [of _ "set v"]) auto
next
  case (2 h x p v)
  show ?case
  proof (cases "x \<in> set v")
    case True
    with 2(3) have "sqlstate_loop h p v = None" by simp
    moreover have "\<forall>y\<in>set v. exn_state h y = None \<and> set (exn_nested h y) \<subseteq> set v \<union> set p"
      using 2(4) True by auto
    ultimately obtain V where "set p \<union> set v \<subseteq> V" "\<forall>x\<in>V. exn_state h x = None \<and> set (exn_nested h x) \<subseteq> V"
      using 2(1) [OF True] by blast
    with True show ?thesis by (intro exI [of _ V]) auto
  next
    case new: False
    with 2(3) have n: "exn_state h x = None" "sqlstate_loop h (exn_nested h x @ p) (x # v) = None"
      by (auto split: option.splits)
    have "\<forall>y\<in>set (x # v). exn_state h y = None \<and> set (exn_nested h y) \<subseteq> set (x # v) \<union> set (exn_nested h x @ p)"
      using 2(4) n(1) by auto
    from 2(2) [OF new n(1,2) this] show ?thesis by auto
  qed
qed

lemma closed_rtrancl:
  "(x, y) \<in> (exn_edges h)\<^sup>* \<Longrightarrow> x \<in> V \<Longrightarrow> \<forall>z\<in>V. set (exn_nested h z) \<subseteq> V \<Longrightarrow> y \<in> V"
  by (induction rule: rtrancl_induct) (auto simp: exn_edges_def)

lemma transaction_sqlstate_None_iff:
  "transaction_sqlstate h e = None \<longleftrightarrow> (\<forall>y. (e, y) \<in> (exn_edges h)\<^sup>* \<longrightarrow> exn_state h y = None)"
proof
  assume "transaction_sqlstate h e = None"
  then obtain V where "e \<in> V" "\<forall>x\<in>V. exn_state h x = None \<and> set (exn_nested h x) \<subseteq> V"
    using sqlstate_loop_complete [of h "[e]" "[]"] by (auto simp: transaction_sqlstate_def)
  then show "\<forall>y. (e, y) \<in> (exn_edges h)\<^sup>* \<longrightarrow> exn_state h y = None"
    using closed_rtrancl by blast
next
  assume "\<forall>y. (e, y) \<in> (exn_edges h)\<^sup>* \<longrightarrow> exn_state h y = None"
  then have "sqlstate_loop h [e] [] \<noteq> Some t" for t
    using sqlstate_loop_sound [of h "[e]" "[]" t] by auto
  then show "transaction_sqlstate h e = None"
    by (cases "sqlstate_loop h [e] []") (simp_all add: transaction_sqlstate_def)
qed

text \<open>An attempt that ends the retry: anything but a retryable failure.\<close>

definition final_attempt :: "(nat \<Rightarrow> 'a work_result) \<Rightarrow> nat \<Rightarrow> bool" where
  "final_attempt work n =
     (case work n of Raised h exc \<Rightarrow> \<not> is_retryable_transaction_error h exc | _ \<Rightarrow> True)"

definition attempt_outcome :: "'a work_result \<Rightarrow> 'a retry_result" where
  "attempt_outcome r =
     (case r of Returned v \<Rightarrow> RetryReturned v | Raised h exc \<Rightarrow> RetryRaised h exc | IsolationRequired \<Rightarrow> RetryIsolation)"

declare attempt_from.simps [simp del]

lemma attempt_from_spec:
  "n < 5 \<Longrightarrow> \<exists>m. n \<le> m \<and> m < 5 \<and> attempt_from work n = (attempt_outcome (work m), m + 1) \<and>
     (\<forall>k. n \<le> k \<and> k < m \<longrightarrow> \<not> final_attempt work k) \<and> (final_attempt work m \<or> m = 4)"
proof (induction "4 - n" arbitrary: n)
  case 0
  then have "n = 4" by simp
  then show ?case
    by (intro exI [of _ 4])
      (auto simp: attempt_from.simps [of work 4] SERIALIZABLE_MAX_ATTEMPTS_def attempt_outcome_def split: work_result.split)
next
  case (Suc k)
  show ?case
  proof (cases "final_attempt work n")
    case True
    with Suc show ?thesis
      by (intro exI [of _ n])
        (auto simp: attempt_from.simps [of work n] SERIALIZABLE_MAX_ATTEMPTS_def attempt_outcome_def final_attempt_def
          split: work_result.split)
  next
    case False
    have h: "k = 4 - (n + 1)" "n + 1 < 5" using Suc.hyps(2) by simp_all
    from False have "attempt_from work n = attempt_from work (n + 1)"
      using Suc.hyps(2) Suc.prems
      by (auto simp: attempt_from.simps [of work n] SERIALIZABLE_MAX_ATTEMPTS_def final_attempt_def
          split: work_result.splits)
    moreover obtain m where m: "n + 1 \<le> m" "m < 5" "attempt_from work (n + 1) = (attempt_outcome (work m), m + 1)"
        "\<forall>k. n + 1 \<le> k \<and> k < m \<longrightarrow> \<not> final_attempt work k" "final_attempt work m \<or> m = 4"
      using Suc.hyps(1) [OF h] by blast
    moreover have "\<not> final_attempt work k" if "n \<le> k" "k < m" for k
      using m(4) that False by (cases "k = n") auto
    ultimately show ?thesis by (intro exI [of _ m]) auto
  qed
qed

section \<open>Lemmas: the event log\<close>

definition event_log :: "uuid \<Rightarrow> uuid \<Rightarrow> loop_store \<Rightarrow> loop_event list" where
  "event_log tenant cycle s = map (\<lambda>e. (le_stage e, le_outcome e)) (cycle_events tenant cycle s)"

definition loop_wf :: "loop_store \<Rightarrow> bool" where
  "loop_wf s \<longleftrightarrow>
     (\<forall>t c. map le_ordinal (cycle_events t c s) = [1..<Suc (length (cycle_events t c s))] \<and>
            length (cycle_events t c s) \<le> 64 \<and> log_ok None None (event_log t c s))"

lemma log_ok_snoc:
  "log_ok ps po (es @ [(s, oc)]) \<longleftrightarrow>
     log_ok ps po es \<and>
     validate_event_transition (if es = [] then ps else Some (fst (last es)))
       (if es = [] then po else Some (snd (last es))) s oc = Inr ()"
  by (induction es arbitrary: ps po) auto

lemma latest_event_last:
  assumes "map le_ordinal es = [1..<Suc (length es)]"
  shows "latest_by le_ordinal es = (if es = [] then None else Some (last es))"
proof (rule latest_by_sorted)
  have "sorted_wrt (<) (map le_ordinal es)" unfolding assms by (rule sorted_wrt_upt)
  then show "sorted_wrt (\<lambda>a b. le_ordinal a < le_ordinal b) es" by (simp add: sorted_wrt_map)
qed

lemma last_ordinal:
  "map le_ordinal es = [1..<Suc (length es)] \<Longrightarrow> es \<noteq> [] \<Longrightarrow> le_ordinal (last es) = length es"
  by (cases es rule: rev_cases) (auto simp: upt_Suc split: if_splits)

lemma append_event_effect:
  assumes "loop_wf s" "append_event ctx c st oc evd s = Inr (e, s')"
  shows "ls_events s' = ls_events s @ [e] \<and> le_tenant e = ctx_tenant ctx \<and> le_cycle e = c \<and>
    le_stage e = st \<and> le_outcome e = oc \<and>
    le_ordinal e = Suc (length (cycle_events (ctx_tenant ctx) c s)) \<and> le_ordinal e \<le> 64 \<and>
    log_ok None None (event_log (ctx_tenant ctx) c s @ [(st, oc)])"
proof -
  let ?es = "cycle_events (ctx_tenant ctx) c s"
  have wf: "map le_ordinal ?es = [1..<Suc (length ?es)]" "log_ok None None (event_log (ctx_tenant ctx) c s)"
    using assms(1) by (auto simp: loop_wf_def)
  obtain cyc where cyc: "require_cycle ctx c s = Inr cyc" "cy_id cyc = c"
    using assms(2) by (auto simp: append_event_def require_cycle_def dest!: find_Some_mem split: option.splits)
  note lat = latest_event_last [OF wf(1)]
  show ?thesis
    using assms(2) cyc lat last_ordinal [OF wf(1)] wf(2)
    by (auto simp: append_event_def event_log_def log_ok_snoc Let_def last_map
        split: sum.splits if_splits)
qed

lemma loop_wf_append_event:
  assumes "loop_wf s" "append_event ctx c st oc evd s = Inr (e, s')"
  shows "loop_wf s' \<and>
    event_log (ctx_tenant ctx) c s' = event_log (ctx_tenant ctx) c s @ [(st, oc)]"
proof -
  note eff = append_event_effect [OF assms]
  have rows: "cycle_events t d s' =
      (if t = ctx_tenant ctx \<and> d = c then cycle_events t d s @ [e] else cycle_events t d s)" for t d
    using eff by (simp add: cycle_events_def)
  have log: "event_log (ctx_tenant ctx) c s' = event_log (ctx_tenant ctx) c s @ [(st, oc)]"
    using eff rows by (simp add: event_log_def)
  have "loop_wf s'"
    unfolding loop_wf_def
  proof (intro allI)
    fix t d
    show "map le_ordinal (cycle_events t d s') = [1..<Suc (length (cycle_events t d s'))] \<and>
        length (cycle_events t d s') \<le> 64 \<and> log_ok None None (event_log t d s')"
    proof (cases "t = ctx_tenant ctx \<and> d = c")
      case True
      then show ?thesis using assms(1) eff rows log by (auto simp: loop_wf_def)
    next
      case False
      then have "cycle_events t d s' = cycle_events t d s" using rows by auto
      then show ?thesis using assms(1) by (simp add: loop_wf_def event_log_def)
    qed
  qed
  with log show ?thesis by simp
qed

lemma append_event_accepts_iff:
  assumes "loop_wf s" "require_cycle ctx c s = Inr cyc" "lock_project_row ctx (cy_project cyc) (ls_db s) = Inr pr"
  shows "(\<exists>r. append_event ctx c st oc evd s = Inr r) \<longleftrightarrow>
    length (event_log (ctx_tenant ctx) c s) < 64 \<and> evidence_reference_ok evd \<and>
    log_ok None None (event_log (ctx_tenant ctx) c s @ [(st, oc)])"
proof -
  let ?es = "cycle_events (ctx_tenant ctx) c s"
  have wf: "map le_ordinal ?es = [1..<Suc (length ?es)]" "log_ok None None (event_log (ctx_tenant ctx) c s)"
    using assms(1) by (auto simp: loop_wf_def)
  have c: "cy_id cyc = c"
    using assms(2) by (auto simp: require_cycle_def dest!: find_Some_mem split: option.splits)
  show ?thesis
    using assms(2,3) c latest_event_last [OF wf(1)] last_ordinal [OF wf(1)] wf(2)
    by (auto simp: append_event_def event_log_def log_ok_snoc Let_def last_map split: sum.splits)
qed

text \<open>A batch of appends; each event is appended in its own transaction.\<close>

fun append_events ::
  "tenant_context \<Rightarrow> uuid \<Rightarrow> (string \<times> string \<times> string option) list \<Rightarrow> loop_store \<Rightarrow> loop_error + loop_store" where
  "append_events ctx c [] s = Inr s"
| "append_events ctx c ((st, oc, evd) # es) s =
     bindE (append_event ctx c st oc evd s) (\<lambda>(_, s'). append_events ctx c es s')"

abbreviation unreferenced :: "loop_event list \<Rightarrow> (string \<times> string \<times> string option) list" where
  "unreferenced es \<equiv> map (\<lambda>(st, oc). (st, oc, None)) es"

lemma append_event_frame:
  assumes "append_event ctx c st oc evd s = Inr (e, s')"
  shows "require_cycle ctx d s' = require_cycle ctx d s \<and>
    lock_project_row ctx p (ls_db s') = lock_project_row ctx p (ls_db s)"
proof -
  have "ls_cycles s' = ls_cycles s \<and> projects (ls_db s') = projects (ls_db s)"
    using assms by (auto simp: append_event_def bindE_def Let_def split: sum.splits if_splits)
  then show ?thesis by (simp add: require_cycle_def lock_project_row_def)
qed

lemma append_events_log:
  "append_events ctx c es s = Inr s' \<Longrightarrow> loop_wf s \<Longrightarrow>
     loop_wf s' \<and> event_log (ctx_tenant ctx) c s' = event_log (ctx_tenant ctx) c s @ map (\<lambda>(st, oc, _). (st, oc)) es"
proof (induction es arbitrary: s)
  case (Cons x es)
  obtain st oc evd where x: "x = (st, oc, evd)" by (cases x)
  obtain e s1 where s1: "append_event ctx c st oc evd s = Inr (e, s1)" "append_events ctx c es s1 = Inr s'"
    using Cons.prems(1) by (auto simp: x bindE_def split: sum.splits)
  from loop_wf_append_event [OF Cons.prems(2) s1(1)] Cons.IH [OF s1(2)] show ?case by (simp add: x)
qed simp

lemma log_ok_prefix: "log_ok ps po (xs @ ys) \<Longrightarrow> log_ok ps po xs"
  by (induction xs arbitrary: ps po) auto

lemma append_events_succeed:
  "loop_wf s \<Longrightarrow> require_cycle ctx c s = Inr cyc \<Longrightarrow> lock_project_row ctx (cy_project cyc) (ls_db s) = Inr pr \<Longrightarrow>
     log_ok None None (event_log (ctx_tenant ctx) c s @ es) \<Longrightarrow>
     length (event_log (ctx_tenant ctx) c s) + length es \<le> 64 \<Longrightarrow>
     \<exists>s'. append_events ctx c (unreferenced es) s = Inr s'"
proof (induction es arbitrary: s)
  case (Cons x es)
  obtain st oc where x: "x = (st, oc)" by (cases x)
  have "log_ok None None (event_log (ctx_tenant ctx) c s @ [(st, oc)])"
    using Cons.prems(4) log_ok_prefix [of None None "event_log (ctx_tenant ctx) c s @ [(st, oc)]" es] by (simp add: x)
  then obtain e s1 where s1: "append_event ctx c st oc None s = Inr (e, s1)"
    using append_event_accepts_iff [OF Cons.prems(1-3), of st oc None] Cons.prems(5)
    by (auto simp: evidence_reference_ok_def)
  note log = loop_wf_append_event [OF Cons.prems(1) s1] and frame = append_event_frame [OF s1]
  have "\<exists>s'. append_events ctx c (unreferenced es) s1 = Inr s'"
    using log frame Cons.prems by (intro Cons.IH) (simp_all add: x)
  with s1 show ?case by (simp add: x)
qed simp

text \<open>How many pauses a log holds, and the room the limit leaves for them beside the eight stages.\<close>

definition pauses :: "loop_event list \<Rightarrow> nat" where
  "pauses es = length (filter (\<lambda>e. snd e \<in> set GUARD_OUTCOMES) es)"

lemma pauses_work: "pauses es + length (work_events es) = length es"
  using sum_length_filter_compl [of "\<lambda>e. snd e \<in> set GUARD_OUTCOMES" es] by (simp add: pauses_def work_events_def)

lemma recorded_log_pauses:
  assumes "loop_wf s" "(''finalize_go_live_decision'', ''decision_recorded'') \<in> set (event_log t c s)"
  shows "pauses (event_log t c s) \<le> 56"
proof -
  have "log_ok None None (event_log t c s)" "length (event_log t c s) \<le> 64"
    using assms(1) by (auto simp: loop_wf_def event_log_def)
  moreover from log_decision_after_stages [OF this(1) assms(2)]
  have "map fst (work_events (event_log t c s)) = CONTROL_LOOP_STAGE_SEQUENCE" by simp
  from arg_cong [OF this, of length] have "length (work_events (event_log t c s)) = 8" by simp
  ultimately show ?thesis using pauses_work [of "event_log t c s"] by simp
qed

section \<open>Lemmas: evaluations\<close>

lemma evaluation_of_fields:
  "evaluation_of sha fi i cyc snaps gd pre pol latch b ex at = Inr e \<Longrightarrow>
     el_passed_count e = length (filter (\<lambda>g. gs_status g = ''passed'') snaps) \<and>
     el_all_passed e = (\<forall>g\<in>set snaps. gs_status g = ''passed'') \<and>
     el_gate_digest e = gd \<and> el_binding_digest e = evaluation_binding_digest sha b pre pol latch"
  by (auto simp: evaluation_of_def)

lemma count_statuses:
  "map gs_status snaps = map gr_status gates \<Longrightarrow>
     length (filter (\<lambda>g. gs_status g = x) snaps) = length (filter (\<lambda>g. gr_status g = x) gates) \<and>
     ((\<forall>g\<in>set snaps. gs_status g = x) = list_all (\<lambda>g. gr_status g = x) gates)"
proof (induction snaps arbitrary: gates)
  case (Cons s ss)
  then show ?case by (cases gates) auto
qed simp

lemma record_evaluation_facts:
  assumes "record_evaluation sha fi ctx c report pre pol latch b ex at clock s = Inr (e, s')"
  obtains snaps gd cyc where "snapshots_of sha (rep_gates report) = Inr snaps"
    "gate_result_digest sha snaps = Inr gd" "require_cycle ctx c s = Inr cyc"
    "rep_project report = uuid_str (cy_project cyc)"
    "el_passed_count e = length (filter (\<lambda>g. gs_status g = ''passed'') snaps)"
    "el_all_passed e = (\<forall>g\<in>set snaps. gs_status g = ''passed'')"
    "el_gate_digest e = gd" "el_binding_digest e = evaluation_binding_digest sha b pre pol latch"
    "ls_gate_results s' = ls_gate_results s @ gate_rows_of e snaps"
  using assms evaluation_of_fields unfolding record_evaluation_def
  by (auto split: if_splits)

section \<open>A concrete loop\<close>

definition sample_loop :: loop_store where
  "sample_loop = \<lparr>ls_db = empty_db, ls_isolation = ''serializable'',
     ls_cycles = [\<lparr>cy_id = 5, cy_tenant = 1, cy_project = 2, cy_run = 3, cy_key_digest = [],
       cy_contract_version = CONTROL_LOOP_CONTRACT_VERSION, cy_contract_hash = [], cy_created_at = 0\<rparr>],
     ls_events = [], ls_evaluations = [], ls_gate_results = [], ls_decisions = [], ls_requests = [],
     ls_attestations = [], ls_preapproval_events = [], ls_controls = []\<rparr>"

definition sample_sha :: "string \<Rightarrow> string" where
  "sample_sha b = replicate 64 (CHR ''a'')"

lemma report_frozen:
  assumes "\<And>b. context_digest_ok (PStr (''sha256:'' @ sha b))"
  shows "\<exists>snaps gd. snapshots_of sha (a5_gates full_evidence) = Inr snaps \<and> gate_result_digest sha snaps = Inr gd"
proof -
  have "code_ok (''readiness_below_r5:'' @ ev_readiness_level full_evidence)"
    by (simp add: full_evidence_def code_ok_def py_strip_def py_space_def utf8_len_def)
  with assms obtain snaps where sn: "snapshots_of sha (a5_gates full_evidence) = Inr snaps"
    using snapshots_of_able [OF report_snapshot_able [OF full_contexts_plain]] by blast
  have "map gs_number snaps = [1 .. 13]"
    using snapshots_of_gates [OF sn] a5_gates_numbered by simp
  also have "\<dots> = map int [1..<14]" by (simp add: upto.simps upt_rec)
  finally show ?thesis using sn
    by (auto simp: gate_result_digest_def canonical_gate_digest_def gate_bytes_def validate_exact_gate_set_def)
qed

lemma sample_report_frozen:
  "\<exists>snaps gd. snapshots_of sample_sha (a5_gates full_evidence) = Inr snaps \<and> gate_result_digest sample_sha snaps = Inr gd"
  by (rule report_frozen) (simp add: context_digest_ok_def sample_sha_def HASH_PREFIX_def)

lemma sample_evaluation:
  "\<exists>e s'. record_evaluation sample_sha (\<lambda>_. None) \<lparr>ctx_tenant = 1, ctx_actor = None\<rparr> 5
     (evaluate_production_autonomy (uuid_str 2) full_evidence) True ''needs_approval'' False [] None None 0 sample_loop
     = Inr (e, s')"
proof -
  obtain snaps gd where sn: "snapshots_of sample_sha (a5_gates full_evidence) = Inr snaps"
    "gate_result_digest sample_sha snaps = Inr gd" using sample_report_frozen by blast
  have "rep_project (evaluate_production_autonomy (uuid_str 2) full_evidence) = uuid_str 2"
    by (simp add: evaluate_production_autonomy_def)
  with sn show ?thesis
    by (simp add: record_evaluation_def sample_loop_def require_serializable_def require_cycle_def evaluation_of_def
        uuid_or_none_def updated_at_of_def)
qed

lemma sample_loop_wf: "loop_wf sample_loop"
  by (simp add: loop_wf_def cycle_events_def event_log_def sample_loop_def)

section \<open>Properties\<close>

text \<open>C31: The search for a SQLSTATE through nested exceptions ends on every heap of exceptions, cyclic
  ones included, and misses nothing: it comes back empty exactly when no exception that can be reached
  carries a state.\<close>

theorem transaction_sqlstate_complete:
  "transaction_sqlstate h e \<noteq> None \<longleftrightarrow> (\<exists>y s. (e, y) \<in> (exn_edges h)\<^sup>* \<and> exn_state h y = Some s)"
  using transaction_sqlstate_None_iff [of h e] by auto

text \<open>Serializable work is tried at most five times: the first attempt that does not fail with a
  retryable code decides, the fifth decides in any case, and the loop is never left without a result.\<close>

theorem serializable_work_bounded:
  "\<exists>m<5. run_serializable_tenant_work work = (attempt_outcome (work m), m + 1) \<and>
     \<not> (\<exists>k<m. final_attempt work k) \<and> (final_attempt work m \<or> m = 4)"
  using attempt_from_spec [of 0 work] by (fastforce simp: run_serializable_tenant_work_def)

text \<open>C27: Appending an event keeps every cycle's log an accepted run of the control loop with contiguous
  ordinals from 1, never more than 64 events; and with the cycle and its project present an event is
  refused only when the log is full, the loop does not allow the event, or its evidence digest is not
  one the CHECK of the table admits.\<close>

theorem append_event_keeps_logs:
  assumes "loop_wf s" "require_cycle ctx c s = Inr cyc" "lock_project_row ctx (cy_project cyc) (ls_db s) = Inr pr"
  shows "(case append_event ctx c st oc evd s of
      Inr (e, s') \<Rightarrow> loop_wf s' \<and> le_ordinal e \<le> 64 \<and>
        event_log (ctx_tenant ctx) c s' = event_log (ctx_tenant ctx) c s @ [(st, oc)]
    | Inl _ \<Rightarrow> length (event_log (ctx_tenant ctx) c s) = 64 \<or> \<not> evidence_reference_ok evd \<or>
        loop_run (0, Ready) (event_log (ctx_tenant ctx) c s @ [(st, oc)]) = None)"
proof (cases "append_event ctx c st oc evd s")
  case (Inl x)
  moreover have "length (event_log (ctx_tenant ctx) c s) \<le> 64"
    using assms(1) by (simp add: loop_wf_def event_log_def)
  ultimately show ?thesis
    using append_event_accepts_iff [OF assms, of st oc evd] log_ok_iff_run [OF start_stands_for] by auto
next
  case (Inr r)
  obtain e s' where r: "r = (e, s')" by (cases r)
  show ?thesis
    using loop_wf_append_event [OF assms(1) Inr [unfolded r]] append_event_effect [OF assms(1) Inr [unfolded r]]
    by (simp add: Inr r)
qed

text \<open>C30: An evaluation recorded from an A5 report says what the evidence says: all gates passed exactly
  when the evidence of every gate is sound, the count is the report's, the thirteen gate rows are
  written in order, and the digests are the ones a preview of the same report gives.\<close>

theorem recorded_evaluation_is_the_report:
  assumes "record_evaluation sha fi ctx c (evaluate_production_autonomy project ev) pre pol latch b ex at clock s
      = Inr (e, s')"
  shows "el_all_passed e = sound_evidence ev \<and>
    el_passed_count e = passed_gate_count (evaluate_production_autonomy project ev) \<and>
    map gg_number (drop (length (ls_gate_results s)) (ls_gate_results s')) = [1 .. 13] \<and>
    preview_evaluation_digests sha (evaluate_production_autonomy project ev) pre pol latch b =
      Inr (el_gate_digest e, el_binding_digest e)"
proof -
  let ?r = "evaluate_production_autonomy project ev"
  from record_evaluation_facts [OF assms] obtain snaps gd where f:
    "snapshots_of sha (rep_gates ?r) = Inr snaps" "gate_result_digest sha snaps = Inr gd"
    "el_passed_count e = length (filter (\<lambda>g. gs_status g = ''passed'') snaps)"
    "el_all_passed e = (\<forall>g\<in>set snaps. gs_status g = ''passed'')"
    "el_gate_digest e = gd" "el_binding_digest e = evaluation_binding_digest sha b pre pol latch"
    "ls_gate_results s' = ls_gate_results s @ gate_rows_of e snaps" by metis
  have g: "map gs_number snaps = map gr_number (rep_gates ?r)" "map gs_status snaps = map gr_status (rep_gates ?r)"
    using snapshots_of_gates [OF f(1)] by simp_all
  have "map gr_number (rep_gates ?r) = [1 .. 13]" "rep_gates ?r \<noteq> []"
    unfolding a5_gates_sorted a5_gates_numbered by (simp_all add: a5_gates_def)
  moreover have "map gg_number (gate_rows_of e snaps) = map gs_number snaps"
    by (simp add: gate_rows_of_def)
  ultimately show ?thesis
    using f g(1) count_statuses [OF g(2), of "''passed''"] satisfied_iff_sound [of project ev]
    by (simp add: passed_gate_count_def a5_satisfied_def STATUS_PASSED_def preview_evaluation_digests_def)
qed

text \<open>C28: A control loop that has not ended can be carried to a recorded decision exactly when it has been
  paused at most 56 times: then the remaining stages alone, one event each, are appended and record
  it, and after more pauses no sequence of events does, because a log holds at most 64.  The cycle and
  its project are present.\<close>

theorem open_loop_completes:
  assumes "loop_wf s" "require_cycle ctx c s = Inr cyc" "lock_project_row ctx (cy_project cyc) (ls_db s) = Inr pr"
    and log: "log = event_log (ctx_tenant ctx) c s"
    and ongoing: "log = [] \<or> snd (last log) \<notin> set TERMINAL_OUTCOMES - set GUARD_OUTCOMES"
  shows "((\<exists>es s'. append_events ctx c es s = Inr s' \<and>
        (''finalize_go_live_decision'', ''decision_recorded'') \<in> set (event_log (ctx_tenant ctx) c s')) \<longleftrightarrow> pauses log \<le> 56) \<and>
    ((\<exists>s'. append_events ctx c (unreferenced (drop (length (work_events log)) completion)) s = Inr s' \<and>
        event_log (ctx_tenant ctx) c s' = log @ drop (length (work_events log)) completion \<and>
        last (event_log (ctx_tenant ctx) c s') = (''finalize_go_live_decision'', ''decision_recorded'')) \<longleftrightarrow> pauses log \<le> 56)"
    (is "(?some \<longleftrightarrow> _) \<and> (?rest \<longleftrightarrow> _)")
proof -
  let ?r = "drop (length (work_events log)) completion"
  have ok: "log_ok None None log" using assms(1) by (simp add: loop_wf_def log)
  from open_log_completes [OF ok ongoing] have r: "log_ok None None (log @ ?r)"
    "last ?r = (''finalize_go_live_decision'', ''decision_recorded'')" "length (work_events log) < 8" by simp_all
  have len: "length completion = 8" by (simp add: completion_def)
  have ne: "?r \<noteq> []" using r(3) len by simp
  have rest: "?rest" if "pauses log \<le> 56"
  proof -
    have "length log + length ?r \<le> 64" using that r(3) pauses_work [of log] len by simp
    then obtain s' where s': "append_events ctx c (unreferenced ?r) s = Inr s'"
      using append_events_succeed [OF assms(1-3), of ?r] r(1) by (auto simp: log)
    have "map (\<lambda>(st, oc, _). (st, oc)) (unreferenced ?r) = ?r" by (simp add: comp_def case_prod_unfold)
    with append_events_log [OF s' assms(1)] s' r(2) ne show ?thesis by (auto simp: log)
  qed
  have "?some" if "?rest"
  proof -
    from that obtain s' where s': "append_events ctx c (unreferenced ?r) s = Inr s'"
      "event_log (ctx_tenant ctx) c s' = log @ ?r" by blast
    have "(''finalize_go_live_decision'', ''decision_recorded'') \<in> set ?r"
      using last_in_set [OF ne] r(2) by simp
    then have "(''finalize_go_live_decision'', ''decision_recorded'') \<in> set (event_log (ctx_tenant ctx) c s')"
      unfolding s'(2) set_append by (rule UnI2)
    with s'(1) show ?thesis by blast
  qed
  moreover have "pauses log \<le> 56" if "?some"
  proof -
    from that obtain es s' where s': "append_events ctx c es s = Inr s'"
      "(''finalize_go_live_decision'', ''decision_recorded'') \<in> set (event_log (ctx_tenant ctx) c s')" by blast
    from append_events_log [OF s'(1) assms(1)] recorded_log_pauses [OF _ s'(2)] show ?thesis
      by (simp add: log pauses_def)
  qed
  ultimately show ?thesis using rest by blast
qed

lemma recorded_evaluation_is_the_report_witness:
  "\<exists>e s'. record_evaluation sample_sha (\<lambda>_. None) \<lparr>ctx_tenant = 1, ctx_actor = None\<rparr> 5
     (evaluate_production_autonomy (uuid_str 2) full_evidence) True ''needs_approval'' False [] None None 0 sample_loop
     = Inr (e, s') \<and> el_all_passed e"
  using sample_evaluation recorded_evaluation_is_the_report full_evidence_sound by metis

text \<open>The sample cycle in its tenant's project, with nothing logged yet.\<close>

lemma sample_project_loop:
  fixes s :: loop_store and ctx :: tenant_context
  defines "s \<equiv> sample_loop\<lparr>ls_db := empty_db\<lparr>projects := [\<lparr>pr_id = 2, pr_tenant = 1\<rparr>]\<rparr>\<rparr>"
    and "ctx \<equiv> \<lparr>ctx_tenant = 1, ctx_actor = None\<rparr>"
  shows "loop_wf s" "require_cycle ctx 5 s = Inr (hd (ls_cycles s))"
    "lock_project_row ctx (cy_project (hd (ls_cycles s))) (ls_db s) = Inr \<lparr>pr_id = 2, pr_tenant = 1\<rparr>"
    "event_log 1 5 s = []"
  using sample_loop_wf
  by (simp_all add: s_def ctx_def loop_wf_def cycle_events_def event_log_def require_cycle_def sample_loop_def
      lock_project_row_def)

lemma append_event_keeps_logs_witness:
  "\<exists>e s'. append_event \<lparr>ctx_tenant = 1, ctx_actor = None\<rparr> 5 ''read_project_state'' ''paused_cost_stop'' None
       (sample_loop\<lparr>ls_db := empty_db\<lparr>projects := [\<lparr>pr_id = 2, pr_tenant = 1\<rparr>]\<rparr>\<rparr>) = Inr (e, s') \<and>
     event_log 1 5 s' = [(''read_project_state'', ''paused_cost_stop'')]"
proof -
  note start = sample_project_loop
  have "loop_run (0, Ready) [(''read_project_state'', ''paused_cost_stop'')] \<noteq> None"
    by (simp add: CONTROL_LOOP_STAGE_SEQUENCE_def ALLOWED_STAGE_OUTCOMES_def GUARD_OUTCOMES_def)
  with append_event_keeps_logs [OF start(1-3), where evd = None and st = "''read_project_state''" and
      oc = "''paused_cost_stop''"] start(4)
  show ?thesis by (auto simp: evidence_reference_ok_def split: sum.splits)
qed

lemma open_loop_completes_witness:
  "\<exists>es s'. append_events \<lparr>ctx_tenant = 1, ctx_actor = None\<rparr> 5 es
       (sample_loop\<lparr>ls_db := empty_db\<lparr>projects := [\<lparr>pr_id = 2, pr_tenant = 1\<rparr>]\<rparr>\<rparr>) = Inr s' \<and>
     (''finalize_go_live_decision'', ''decision_recorded'') \<in> set (event_log 1 5 s')"
proof -
  from open_loop_completes [OF sample_project_loop(1-3) refl] sample_project_loop(4) show ?thesis
    by (simp add: pauses_def)
qed

end
