(* ===== verification/Verdict.thy ===== *)
theory Verdict
  imports Canonical
begin

text \<open>
  The release verdict (\<open>app/release/release_manager.py\<close>): the validated issue dispositions of one
  frozen candidate, the six verdicts and their projection to four, the evaluation ladder, and the
  digest of the canonically ordered input.
\<close>

section \<open>Validated input\<close>

definition SPEC_VERDICTS :: "string list" where
  "SPEC_VERDICTS =
     [''passed'', ''passed_with_limitations'', ''failed_blocking_issue'', ''failed_missing_evidence'',
      ''requires_human_decision'', ''not_applicable'']"

definition CANONICAL_VERDICTS :: "string list" where
  "CANONICAL_VERDICTS = [''passed'', ''passed_with_accepted_risk'', ''failed'', ''blocked'']"

definition INPUT_CONTRACT_VERSION :: string where
  "INPUT_CONTRACT_VERSION = ''slice50.release_verdict_input.v1''"

definition DECISION_SCOPE :: string where
  "DECISION_SCOPE = ''known_bound_issue_disposition''"

definition EXECUTION_PROVENANCE :: string where
  "EXECUTION_PROVENANCE = ''system_derived_release_verdict''"

definition MAX_ISSUE_RESULTS :: nat where
  "MAX_ISSUE_RESULTS = 10000"

definition PROJECTION :: "(string \<times> string) list" where
  "PROJECTION =
     [(''passed'', ''passed''),
      (''passed_with_limitations'', ''passed_with_accepted_risk''),
      (''failed_blocking_issue'', ''failed''),
      (''failed_missing_evidence'', ''failed''),
      (''requires_human_decision'', ''blocked''),
      (''not_applicable'', ''blocked'')]"

definition ISSUE_STATUSES :: "string list" where
  "ISSUE_STATUSES = [''open'', ''resolved'', ''accepted'', ''superseded'']"

datatype verdict_error = ReleaseVerdictContractError string

record issue_disposition =
  binding_id :: string
  issue_id :: string
  status :: string
  trusted_provenance :: bool
  blocking :: bool
  hard_blocker :: bool
  exact_risk_acceptance :: bool
  risk_authority_verified :: bool

text \<open>\<open>__post_init__\<close> reads the attributes in order and stops at the first that is invalid.\<close>

definition bounded_id :: "string \<Rightarrow> pyval \<Rightarrow> verdict_error + string" where
  "bounded_id name v =
     (case v of
        PStr s \<Rightarrow> if py_strip s = [] \<or> length s > 128
                 then Inl (ReleaseVerdictContractError (name @ ''_invalid'')) else Inr s
      | _ \<Rightarrow> Inl (ReleaseVerdictContractError (name @ ''_invalid'')))"

definition strict_bool :: "string \<Rightarrow> pyval \<Rightarrow> verdict_error + bool" where
  "strict_bool name v =
     (case v of PBool b \<Rightarrow> Inr b | _ \<Rightarrow> Inl (ReleaseVerdictContractError (name @ ''_invalid'')))"

definition issue_status :: "pyval \<Rightarrow> verdict_error + string" where
  "issue_status v =
     (case v of
        PStr s \<Rightarrow> if s \<in> set ISSUE_STATUSES then Inr s else Inl (ReleaseVerdictContractError ''issue_status_invalid'')
      | _ \<Rightarrow> Inl (ReleaseVerdictContractError ''issue_status_invalid''))"

definition IssueDisposition ::
  "pyval \<Rightarrow> pyval \<Rightarrow> pyval \<Rightarrow> pyval \<Rightarrow> pyval \<Rightarrow> pyval \<Rightarrow> pyval \<Rightarrow> pyval \<Rightarrow> verdict_error + issue_disposition" where
  "IssueDisposition binding issue st trusted block hard exact verified =
     bindE (bounded_id ''binding_id'' binding) (\<lambda>b.
     bindE (bounded_id ''issue_id'' issue) (\<lambda>i.
     bindE (issue_status st) (\<lambda>s.
     bindE (strict_bool ''trusted_provenance'' trusted) (\<lambda>t.
     bindE (strict_bool ''blocking'' block) (\<lambda>bl.
     bindE (strict_bool ''hard_blocker'' hard) (\<lambda>h.
     bindE (strict_bool ''exact_risk_acceptance'' exact) (\<lambda>e.
     bindE (strict_bool ''risk_authority_verified'' verified) (\<lambda>v.
       if v \<and> \<not> e then Inl (ReleaseVerdictContractError ''risk_authority_without_exact_acceptance'')
       else Inr \<lparr>binding_id = b, issue_id = i, status = s, trusted_provenance = t, blocking = bl,
                 hard_blocker = h, exact_risk_acceptance = e, risk_authority_verified = v\<rparr>))))))))"

record verdict_input =
  assembly_complete :: bool
  inventory_complete :: bool
  issue_binding_exact :: bool
  input_current :: bool
  issues :: "issue_disposition list"

text \<open>\<open>ReleaseVerdictInput(...)\<close>; the issues are a tuple of \<open>IssueDisposition\<close>s.\<close>

definition ReleaseVerdictInput ::
  "pyval \<Rightarrow> pyval \<Rightarrow> pyval \<Rightarrow> pyval \<Rightarrow> issue_disposition list \<Rightarrow> verdict_error + verdict_input" where
  "ReleaseVerdictInput assembly inventory exact current rows =
     bindE (strict_bool ''assembly_complete'' assembly) (\<lambda>a.
     bindE (strict_bool ''inventory_complete'' inventory) (\<lambda>i.
     bindE (strict_bool ''issue_binding_exact'' exact) (\<lambda>x.
     bindE (strict_bool ''input_current'' current) (\<lambda>c.
       if length rows > MAX_ISSUE_RESULTS then Inl (ReleaseVerdictContractError ''issue_result_count_invalid'')
       else if \<not> distinct (map binding_id rows) \<or> \<not> distinct (map issue_id rows)
       then Inl (ReleaseVerdictContractError ''issue_result_duplicate'')
       else Inr \<lparr>assembly_complete = a, inventory_complete = i, issue_binding_exact = x, input_current = c,
                 issues = rows\<rparr>))))"

section \<open>The verdict\<close>

record verdict_decision =
  spec_verdict :: string
  canonical_verdict :: string
  reason_code :: string
  gate_eligible :: bool
  decision_scope :: string
  execution_provenance :: string

definition project_canonical_verdict :: "string \<Rightarrow> verdict_error + string" where
  "project_canonical_verdict v =
     (case map_of PROJECTION v of
        None \<Rightarrow> Inl (ReleaseVerdictContractError ''spec_verdict_invalid'')
      | Some c \<Rightarrow> Inr c)"

definition decision :: "string \<Rightarrow> string \<Rightarrow> bool \<Rightarrow> verdict_error + verdict_decision" where
  "decision spec reason eligible =
     bindE (project_canonical_verdict spec) (\<lambda>c.
       Inr \<lparr>spec_verdict = spec, canonical_verdict = c, reason_code = reason, gate_eligible = eligible,
             decision_scope = DECISION_SCOPE, execution_provenance = EXECUTION_PROVENANCE\<rparr>)"

definition evaluate_release_verdict :: "verdict_input \<Rightarrow> verdict_error + verdict_decision" where
  "evaluate_release_verdict value =
     (if \<not> (assembly_complete value \<and> inventory_complete value \<and> issue_binding_exact value \<and> input_current value)
      then decision ''failed_missing_evidence'' ''release_verdict_evidence_incomplete_or_stale'' False
      else if list_ex (\<lambda>i. \<not> trusted_provenance i) (issues value)
      then decision ''failed_missing_evidence'' ''bound_issue_provenance_incomplete'' False
      else
        let active = filter (\<lambda>i. status i \<notin> {''resolved'', ''superseded''}) (issues value) in
        if list_ex (\<lambda>i. blocking i \<or> hard_blocker i) active
        then decision ''failed_blocking_issue'' ''open_blocking_or_hard_refusal_issue'' False
        else
          let limitations = filter (\<lambda>i. status i \<in> {''open'', ''accepted''}) active in
          if limitations \<noteq> []
          then if list_ex (\<lambda>i. \<not> exact_risk_acceptance i) limitations
               then decision ''requires_human_decision'' ''open_issue_requires_risk_acceptance_authority'' False
               else if list_ex (\<lambda>i. \<not> risk_authority_verified i) limitations
               then decision ''requires_human_decision'' ''risk_acceptance_authority_unverified'' False
               else decision ''passed_with_limitations'' ''bound_release_limitations_authoritatively_accepted'' True
          else decision ''passed'' ''bound_release_issue_disposition_clean'' True)"

section \<open>The input digest\<close>

definition issue_dict :: "issue_disposition \<Rightarrow> pyval" where
  "issue_dict i = PDict
     [(''binding_id'', PStr (binding_id i)), (''issue_id'', PStr (issue_id i)), (''status'', PStr (status i)),
      (''trusted_provenance'', PBool (trusted_provenance i)), (''blocking'', PBool (blocking i)),
      (''hard_blocker'', PBool (hard_blocker i)), (''exact_risk_acceptance'', PBool (exact_risk_acceptance i)),
      (''risk_authority_verified'', PBool (risk_authority_verified i))]"

definition input_payload :: "verdict_input \<Rightarrow> pyval" where
  "input_payload value = PDict
     [(''contract_version'', PStr INPUT_CONTRACT_VERSION),
      (''assembly_complete'', PBool (assembly_complete value)),
      (''inventory_complete'', PBool (inventory_complete value)),
      (''issue_binding_exact'', PBool (issue_binding_exact value)),
      (''input_current'', PBool (input_current value)),
      (''issues'', PList (map issue_dict (sort_key (\<lambda>i. (binding_id i, issue_id i)) (issues value))))]"

text \<open>\<open>ensure_ascii\<close> is left at its default here; \<open>sha\<close> is \<open>hashlib.sha256(...).hexdigest()\<close>.\<close>

definition canonical_input_digest :: "(string \<Rightarrow> string) \<Rightarrow> verdict_input \<Rightarrow> string" where
  "canonical_input_digest sha value = ''sha256:'' @ sha (utf8 (json_text True (input_payload value)))"

section \<open>Lemmas\<close>

text \<open>An input as the constructors make it.\<close>

definition disposition_ok :: "issue_disposition \<Rightarrow> bool" where
  "disposition_ok i =
     (status i \<in> set ISSUE_STATUSES \<and> (\<not> risk_authority_verified i \<or> exact_risk_acceptance i))"

definition input_ok :: "verdict_input \<Rightarrow> bool" where
  "input_ok v =
     (list_all disposition_ok (issues v) \<and> distinct (map binding_id (issues v)) \<and> distinct (map issue_id (issues v)) \<and>
      length (issues v) \<le> MAX_ISSUE_RESULTS)"

lemma strict_bool_Inr: "strict_bool n v = Inr b \<longleftrightarrow> v = PBool b"
  by (cases v) (simp_all add: strict_bool_def)

lemma issue_status_Inr: "issue_status v = Inr s \<longleftrightarrow> v = PStr s \<and> s \<in> set ISSUE_STATUSES"
  by (cases v) (auto simp: issue_status_def)

lemma IssueDisposition_ok:
  "IssueDisposition a b c d e f g h = Inr i \<Longrightarrow> disposition_ok i"
  by (auto simp: IssueDisposition_def issue_status_Inr disposition_ok_def split: if_splits)

lemma ReleaseVerdictInput_ok:
  "ReleaseVerdictInput a i x c rows = Inr v \<Longrightarrow> list_all disposition_ok rows \<Longrightarrow> input_ok v \<and> issues v = rows"
  by (auto simp: ReleaseVerdictInput_def input_ok_def split: if_splits)

text \<open>What a candidate's known issues may be for the gate.\<close>

definition disposed :: "issue_disposition \<Rightarrow> bool" where
  "disposed i =
     (status i \<in> {''resolved'', ''superseded''} \<or>
      (\<not> blocking i \<and> \<not> hard_blocker i \<and> exact_risk_acceptance i \<and> risk_authority_verified i))"

definition evidence_complete :: "verdict_input \<Rightarrow> bool" where
  "evidence_complete v = (assembly_complete v \<and> inventory_complete v \<and> issue_binding_exact v \<and> input_current v \<and>
     list_all trusted_provenance (issues v))"

lemma decision_Inr:
  "v \<in> set SPEC_VERDICTS \<Longrightarrow>
     \<exists>c. map_of PROJECTION v = Some c \<and> c \<in> set CANONICAL_VERDICTS \<and>
       decision v r e = Inr \<lparr>spec_verdict = v, canonical_verdict = c, reason_code = r, gate_eligible = e,
         decision_scope = DECISION_SCOPE, execution_provenance = EXECUTION_PROVENANCE\<rparr>"
  by (simp add: SPEC_VERDICTS_def) (elim disjE; simp add: decision_def project_canonical_verdict_def PROJECTION_def
      CANONICAL_VERDICTS_def)

text \<open>Only which issues there are matters, not their order.\<close>

lemma filter_Nil_set: "set xs = set ys \<Longrightarrow> (filter P xs = []) = (filter P ys = [])"
  by (simp add: filter_empty_conv)

lemma list_ex_filter_set: "set xs = set ys \<Longrightarrow> list_ex Q (filter P xs) = list_ex Q (filter P ys)"
  by (simp add: list_ex_iff)

lemma list_ex_filter2_set: "set xs = set ys \<Longrightarrow> list_ex Q (filter P (filter R xs)) = list_ex Q (filter P (filter R ys))"
  by (simp add: list_ex_iff)

lemma filter2_Nil_set: "set xs = set ys \<Longrightarrow> (filter P (filter R xs) = []) = (filter P (filter R ys) = [])"
  by (simp add: filter_empty_conv)

lemma list_ex_set: "set xs = set ys \<Longrightarrow> list_ex Q xs = list_ex Q ys"
  by (simp add: list_ex_iff)

lemma evaluate_issue_set:
  assumes "set (issues v) = set (issues w)" "v\<lparr>issues := []\<rparr> = w\<lparr>issues := []\<rparr>"
  shows "evaluate_release_verdict v = evaluate_release_verdict w"
proof -
  have f: "assembly_complete v = assembly_complete w" "inventory_complete v = inventory_complete w"
    "issue_binding_exact v = issue_binding_exact w" "input_current v = input_current w"
    using assms(2) by (cases v; cases w; simp)+
  show ?thesis
    unfolding evaluate_release_verdict_def Let_def f list_ex_set [OF assms(1)] list_ex_filter_set [OF assms(1)]
      list_ex_filter2_set [OF assms(1)] filter2_Nil_set [OF assms(1)] by (rule refl)
qed

lemma limitations_are_active:
  assumes "list_all disposition_ok xs"
  shows "filter (\<lambda>i. status i \<in> {''open'', ''accepted''}) (filter (\<lambda>i. status i \<notin> {''resolved'', ''superseded''}) xs) =
    filter (\<lambda>i. status i \<notin> {''resolved'', ''superseded''}) xs"
  using assms by (induction xs) (auto simp: disposition_ok_def ISSUE_STATUSES_def)

lemma evaluate_cases:
  assumes "input_ok v"
  defines "act \<equiv> filter (\<lambda>i. status i \<notin> {''resolved'', ''superseded''}) (issues v)"
  shows "evaluate_release_verdict v =
    (if \<not> evidence_complete v
     then decision ''failed_missing_evidence''
       (if assembly_complete v \<and> inventory_complete v \<and> issue_binding_exact v \<and> input_current v
        then ''bound_issue_provenance_incomplete'' else ''release_verdict_evidence_incomplete_or_stale'') False
     else if list_ex (\<lambda>i. blocking i \<or> hard_blocker i) act
     then decision ''failed_blocking_issue'' ''open_blocking_or_hard_refusal_issue'' False
     else if list_ex (\<lambda>i. \<not> exact_risk_acceptance i) act
     then decision ''requires_human_decision'' ''open_issue_requires_risk_acceptance_authority'' False
     else if list_ex (\<lambda>i. \<not> risk_authority_verified i) act
     then decision ''requires_human_decision'' ''risk_acceptance_authority_unverified'' False
     else if act \<noteq> [] then decision ''passed_with_limitations'' ''bound_release_limitations_authoritatively_accepted'' True
     else decision ''passed'' ''bound_release_issue_disposition_clean'' True)"
proof -
  have l: "filter (\<lambda>i. status i \<in> {''open'', ''accepted''}) act = act"
    unfolding act_def using assms(1) by (intro limitations_are_active) (simp add: input_ok_def)
  have e: "evidence_complete v \<longleftrightarrow> (assembly_complete v \<and> inventory_complete v \<and> issue_binding_exact v \<and> input_current v) \<and>
      \<not> list_ex (\<lambda>i. \<not> trusted_provenance i) (issues v)"
    by (auto simp: evidence_complete_def list_all_iff list_ex_iff)
  show ?thesis
    unfolding evaluate_release_verdict_def Let_def act_def [symmetric] l e by (cases "act = []") simp_all
qed

text \<open>The four conditions on the active issues are the negations of \<open>disposed\<close>.\<close>

lemma disposed_iff:
  "list_all disposed xs \<longleftrightarrow>
     (let act = filter (\<lambda>i. status i \<notin> {''resolved'', ''superseded''}) xs in
      \<not> list_ex (\<lambda>i. blocking i \<or> hard_blocker i) act \<and> \<not> list_ex (\<lambda>i. \<not> exact_risk_acceptance i) act \<and>
      \<not> list_ex (\<lambda>i. \<not> risk_authority_verified i) act)"
  by (auto simp: Let_def list_all_iff list_ex_iff disposed_def)

definition verdict_of :: "string \<Rightarrow> string \<Rightarrow> string \<Rightarrow> bool \<Rightarrow> verdict_decision" where
  "verdict_of spec canonical reason eligible = \<lparr>spec_verdict = spec, canonical_verdict = canonical, reason_code = reason,
     gate_eligible = eligible, decision_scope = DECISION_SCOPE, execution_provenance = EXECUTION_PROVENANCE\<rparr>"

lemma decision_values:
  "decision ''passed'' r e = Inr (verdict_of ''passed'' ''passed'' r e)"
  "decision ''passed_with_limitations'' r e = Inr (verdict_of ''passed_with_limitations'' ''passed_with_accepted_risk'' r e)"
  "decision ''failed_blocking_issue'' r e = Inr (verdict_of ''failed_blocking_issue'' ''failed'' r e)"
  "decision ''failed_missing_evidence'' r e = Inr (verdict_of ''failed_missing_evidence'' ''failed'' r e)"
  "decision ''requires_human_decision'' r e = Inr (verdict_of ''requires_human_decision'' ''blocked'' r e)"
  by (simp_all add: decision_def project_canonical_verdict_def PROJECTION_def verdict_of_def)

lemma verdict_of_fields [simp]:
  "spec_verdict (verdict_of s c r e) = s" "canonical_verdict (verdict_of s c r e) = c"
  "gate_eligible (verdict_of s c r e) = e"
  by (simp_all add: verdict_of_def)

section \<open>What the digest binds\<close>

lemma issue_dict_norm_inj: "json_norm (issue_dict i) = json_norm (issue_dict j) \<Longrightarrow> i = j"
  by (cases i; cases j) (simp add: issue_dict_def)

lemma input_payload_data: "json_data (input_payload v)"
  by (simp add: input_payload_def issue_dict_def)

lemma input_payload_inj:
  assumes "json_norm (input_payload v) = json_norm (input_payload w)"
  shows "v\<lparr>issues := []\<rparr> = w\<lparr>issues := []\<rparr> \<and> set (issues v) = set (issues w)"
proof -
  let ?s = "\<lambda>v. sort_key (\<lambda>i. (binding_id i, issue_id i)) (issues v)"
  from assms have h: "assembly_complete v = assembly_complete w" "inventory_complete v = inventory_complete w"
      "issue_binding_exact v = issue_binding_exact w" "input_current v = input_current w"
      "map (json_norm \<circ> issue_dict) (?s v) = map (json_norm \<circ> issue_dict) (?s w)"
    by (simp_all add: input_payload_def del: o_apply)
  have "inj (json_norm \<circ> issue_dict)" using issue_dict_norm_inj by (simp add: inj_def)
  with h(5) have "?s v = ?s w" by (simp only: inj_map_eq_map)
  then have "set (issues v) = set (issues w)" by (metis set_sort)
  with h(1-4) show ?thesis by (cases v; cases w) simp
qed

text \<open>
  Two inputs with the same digest get the same verdict, unless the hash collides on their texts; and
  listing the same issues in another order gives the same digest.
\<close>

theorem verdict_determined_by_digest:
  assumes "canonical_input_digest sha v = canonical_input_digest sha w"
    and "inj_on sha {utf8 (json_text True (input_payload v)), utf8 (json_text True (input_payload w))}"
  shows "evaluate_release_verdict v = evaluate_release_verdict w"
proof -
  have "utf8 (json_text True (input_payload v)) = utf8 (json_text True (input_payload w))"
    using assms by (auto simp: canonical_input_digest_def dest: inj_onD)
  then have "json_norm (input_payload v) = json_norm (input_payload w)"
    by (intro json_text_inj input_payload_data) simp
  with input_payload_inj evaluate_issue_set show ?thesis by blast
qed

theorem digest_ignores_order:
  assumes "set xs = set (issues v)" "distinct (map binding_id xs)" "distinct (map binding_id (issues v))"
  shows "canonical_input_digest sha (v\<lparr>issues := xs\<rparr>) = canonical_input_digest sha v"
proof -
  let ?k = "\<lambda>i. (binding_id i, issue_id i)"
  have d: "distinct (map ?k ys)" if "distinct (map binding_id ys)" for ys
    using that by (induction ys) auto
  have "inj_on ?k (set (sort_key ?k xs) \<union> set (sort_key ?k (issues v)))"
    using d [OF assms(3)] assms(1) by (simp add: distinct_map)
  moreover have "distinct (map ?k (sort_key ?k ys))" if "distinct (map binding_id ys)" for ys
    using d [OF that] by (simp add: distinct_map)
  ultimately have "sort_key ?k xs = sort_key ?k (issues v)"
    using assms by (intro map_sorted_distinct_set_unique [of ?k]) simp_all
  then show ?thesis by (simp add: canonical_input_digest_def input_payload_def)
qed

section \<open>Properties\<close>

text \<open>C37: On every well-formed input the evaluation gives a verdict, and it opens the gate exactly when the
  bound evidence is complete, current and trusted and every issue is disposed of: resolved or
  superseded, or not blocking, not a hard blocker, and accepted exactly with verified authority.  The
  gate opens exactly for the two passing canonical verdicts, and a clean pass leaves no active issue.\<close>

theorem verdict_gate_iff:
  assumes "input_ok v"
  shows "\<exists>d. evaluate_release_verdict v = Inr d \<and>
    gate_eligible d = (evidence_complete v \<and> list_all disposed (issues v)) \<and>
    gate_eligible d = (canonical_verdict d \<in> {''passed'', ''passed_with_accepted_risk''}) \<and>
    (spec_verdict d = ''passed'') =
      (evidence_complete v \<and> list_all (\<lambda>i. status i \<in> {''resolved'', ''superseded''}) (issues v))"
proof -
  let ?act = "filter (\<lambda>i. status i \<notin> {''resolved'', ''superseded''}) (issues v)"
  have clean: "list_all (\<lambda>i. status i \<in> {''resolved'', ''superseded''}) (issues v) \<longleftrightarrow> ?act = []"
    by (auto simp: list_all_iff filter_empty_conv)
  have disp: "list_all disposed (issues v) \<longleftrightarrow> \<not> list_ex (\<lambda>i. blocking i \<or> hard_blocker i) ?act \<and>
      \<not> list_ex (\<lambda>i. \<not> exact_risk_acceptance i) ?act \<and> \<not> list_ex (\<lambda>i. \<not> risk_authority_verified i) ?act"
    using disposed_iff [of "issues v"] by (simp only: Let_def)
  show ?thesis
  proof (cases "evidence_complete v")
    case False
    then show ?thesis unfolding evaluate_cases [OF assms] by (simp add: decision_values)
  next
    case True
    have abs: "\<exists>d. (if A then Inr (verdict_of ''failed_blocking_issue'' ''failed'' r1 False)
        else if B then Inr (verdict_of ''requires_human_decision'' ''blocked'' r2 False)
        else if C then Inr (verdict_of ''requires_human_decision'' ''blocked'' r3 False)
        else if \<not> N then Inr (verdict_of ''passed_with_limitations'' ''passed_with_accepted_risk'' r4 True)
        else Inr (verdict_of ''passed'' ''passed'' r5 True)) = Inr d \<and>
      gate_eligible d = (\<not> A \<and> \<not> B \<and> \<not> C) \<and>
      gate_eligible d = (canonical_verdict d \<in> {''passed'', ''passed_with_accepted_risk''}) \<and>
      (spec_verdict d = ''passed'') = N" if "N \<Longrightarrow> \<not> A \<and> \<not> B \<and> \<not> C" for A B C N r1 r2 r3 r4 r5
      using that by (cases A; cases B; cases C; cases N) simp_all
    show ?thesis
      unfolding evaluate_cases [OF assms] disp clean decision_values
      using True by (simp only: not_True_eq_False if_False simp_thms) (rule abs, simp)
  qed
qed

lemma verdict_gate_iff_witness:
  "\<exists>v d. issues v \<noteq> [] \<and> evaluate_release_verdict v = Inr d \<and> gate_eligible d"
proof -
  let ?i = "\<lparr>binding_id = ''b1'', issue_id = ''i1'', status = ''accepted'', trusted_provenance = True, blocking = False,
    hard_blocker = False, exact_risk_acceptance = True, risk_authority_verified = True\<rparr>"
  let ?v = "\<lparr>assembly_complete = True, inventory_complete = True, issue_binding_exact = True, input_current = True,
    issues = [?i]\<rparr>"
  have "input_ok ?v" "evidence_complete ?v \<and> list_all disposed (issues ?v)"
    by (simp_all add: input_ok_def disposition_ok_def ISSUE_STATUSES_def MAX_ISSUE_RESULTS_def evidence_complete_def
        disposed_def)
  with verdict_gate_iff [of ?v] show ?thesis by (intro exI [of _ ?v]) auto
qed

end
