(* ===== verification/Release_Records.thy ===== *)
theory Release_Records
  imports Json Store
begin

text \<open>
  Release issues and risk acceptances: the validation of new records, the bridge from a trusted
  finding, the lifecycles (\<open>app/release/issues.py\<close>, \<open>app/release/risk_acceptance.py\<close>,
  \<open>app/release/findings.py\<close>), the rows, and the database guards of migration 0046 that check every
  insert and update again.  SQL comparisons with NULL are written out.
\<close>

section \<open>Vocabulary\<close>

definition SEVERITIES :: "string list" where
  "SEVERITIES = [''low'', ''medium'', ''high'', ''critical'']"

definition HARD_REFUSAL_CATEGORIES :: "string list" where
  "HARD_REFUSAL_CATEGORIES =
     [''critical_security_blocker'', ''fake_done_finding'', ''missing_production_rollback'',
      ''missing_regulated_or_safety_authority'']"

definition SECURITY_CATEGORIES :: "string list" where
  "SECURITY_CATEGORIES =
     [''authz'', ''injection'', ''secrets_exposure'', ''unsafe_tool'', ''supply_chain'', ''other'']"

definition SHORTCUT_CATEGORIES :: "string list" where
  "SHORTCUT_CATEGORIES =
     [''hardcoded_value'', ''static_response'', ''fake_integration'', ''disabled_validation'',
      ''weakened_tests'', ''error_swallowing'', ''placeholder_ui'', ''todo_in_required_path'',
      ''local_only_substitute'', ''acceptance_silently_skipped'', ''tests_check_implementation'',
      ''readiness_without_evidence'', ''other'']"

definition ISSUE_CATEGORIES :: "string list" where
  "ISSUE_CATEGORIES =
     [''security'', ''shortcut'', ''test_or_acceptance'', ''cost'', ''deployment'', ''rollback'',
      ''monitoring'', ''evidence'', ''approval'', ''other'']"

definition REQUIRED_CREATE_FIELDS :: "string list" where
  "REQUIRED_CREATE_FIELDS = [''issue_category'', ''severity'', ''blocking'', ''summary'', ''source'']"

definition TRUSTED_FINDING_PROVENANCE :: string where
  "TRUSTED_FINDING_PROVENANCE = ''db_verified_trusted_release_finding''"

definition FINDING_BRIDGE_SOURCE :: string where
  "FINDING_BRIDGE_SOURCE = ''slice47.finding_bridge.v1''"

definition MAX_RECONCILIATION_FINDINGS :: int where
  "MAX_RECONCILIATION_FINDINGS = 10000"

definition APPROVAL_AUTHORITY_SOURCE :: string where
  "APPROVAL_AUTHORITY_SOURCE = ''approval_matrix''"

definition SUBJECT_TYPES :: "string list" where
  "SUBJECT_TYPES = [''release_issue'', ''release_finding'']"

definition RISK_REQUIRED_FIELDS :: "string list" where
  "RISK_REQUIRED_FIELDS =
     [''release_id'', ''issue_id'', ''subject_type'', ''severity'', ''reason_for_acceptance'',
      ''business_impact'', ''rollback_or_mitigation_plan'', ''required_follow_up_ticket'',
      ''expiry_date'', ''owner'', ''approver'', ''accepted_by'', ''approval_authority_source'']"

datatype issue_status = IOpen | IResolved | IAccepted | ISuperseded

datatype risk_status = RActive | RExpired | RRevoked | RSuperseded

datatype release_error =
    InvalidIssue string
  | InvalidRiskAcceptance string
  | NotFound
  | BadLimit
  | BadType
  | GuardRefused string
  | MultipleFound

section \<open>Lifecycles\<close>

definition issue_transition_allowed :: "issue_status \<Rightarrow> issue_status \<Rightarrow> bool" where
  "issue_transition_allowed f t = (f = IOpen \<and> t \<in> {IResolved, IAccepted, ISuperseded})"

definition validate_issue_transition :: "issue_status \<Rightarrow> issue_status \<Rightarrow> release_error + unit" where
  "validate_issue_transition f t = check (issue_transition_allowed f t) (InvalidIssue ''invalid transition'')"

definition risk_transition_allowed :: "risk_status \<Rightarrow> risk_status \<Rightarrow> bool" where
  "risk_transition_allowed f t = (f = RActive \<and> t \<in> {RExpired, RRevoked, RSuperseded})"

definition validate_risk_transition :: "risk_status \<Rightarrow> risk_status \<Rightarrow> release_error + unit" where
  "validate_risk_transition f t = check (risk_transition_allowed f t) (InvalidRiskAcceptance ''invalid transition'')"

section \<open>Validation\<close>

definition is_critical :: "string \<Rightarrow> bool" where
  "is_critical severity = (severity = ''critical'')"

definition is_hard_blocker :: "string \<Rightarrow> string option \<Rightarrow> bool" where
  "is_hard_blocker severity category =
     (is_critical severity \<or> category \<in> Some ` set HARD_REFUSAL_CATEGORIES)"

text \<open>The same test on the fields of a payload.\<close>

definition payload_hard_blocker :: "pyval \<Rightarrow> pyval \<Rightarrow> bool" where
  "payload_hard_blocker severity category =
     (severity = PStr ''critical'' \<or> str_in category HARD_REFUSAL_CATEGORIES)"

definition validate_new_issue :: "pydict \<Rightarrow> release_error + unit" where
  "validate_new_issue record =
     bindE (for_each (\<lambda>field. check (dhas record field) (InvalidIssue (''missing required field: '' @ field)))
              REQUIRED_CREATE_FIELDS) (\<lambda>_.
     bindE (check (is_bool (dget record ''blocking'')) (InvalidIssue ''blocking must be a boolean'')) (\<lambda>_.
     bindE (for_each (\<lambda>field. check (\<not> py_empty (dget record field))
                (InvalidIssue (''missing or empty required field: '' @ field)))
              [''issue_category'', ''severity'', ''summary'', ''source'']) (\<lambda>_.
     bindE (check (str_in (dget record ''issue_category'') ISSUE_CATEGORIES)
              (InvalidIssue ''invalid issue_category'')) (\<lambda>_.
     bindE (check (str_in (dget record ''severity'') SEVERITIES) (InvalidIssue ''invalid severity'')) (\<lambda>_.
     bindE (check (\<not> (dget record ''issue_category'' = PStr ''other'' \<and>
                (py_empty (dget record ''summary'') \<or> py_empty (dget record ''detail''))))
              (InvalidIssue ''issue_category=other requires non-empty summary and detail'')) (\<lambda>_.
       check (\<not> (payload_hard_blocker (dget record ''severity'') (dget record ''blocking_category'') \<and>
                dget record ''blocking'' \<noteq> PBool True))
         (InvalidIssue ''hard-blocker issues must be blocking'')))))))"

definition is_empty_value :: "pyval \<Rightarrow> bool" where
  "is_empty_value v =
     (case v of
        PNone \<Rightarrow> True
      | PStr s \<Rightarrow> py_strip s = []
      | PList xs \<Rightarrow> xs = []
      | PTuple xs \<Rightarrow> xs = []
      | PDict d \<Rightarrow> d = []
      | _ \<Rightarrow> False)"

definition validate_new_record :: "pydict \<Rightarrow> release_error + unit" where
  "validate_new_record record =
     bindE (for_each (\<lambda>field. check (dhas record field \<and> \<not> is_empty_value (dget record field))
                (InvalidRiskAcceptance (''missing or empty required field: '' @ field)))
              RISK_REQUIRED_FIELDS) (\<lambda>_.
     bindE (check (str_in (dget record ''severity'') SEVERITIES) (InvalidRiskAcceptance ''invalid severity'')) (\<lambda>_.
     bindE (check (str_in (dget record ''subject_type'') SUBJECT_TYPES)
              (InvalidRiskAcceptance ''invalid subject_type'')) (\<lambda>_.
     bindE (check (is_list (dget record ''accepted_by'') \<and> dget record ''accepted_by'' \<noteq> PList [])
              (InvalidRiskAcceptance ''accepted_by must be a non-empty list'')) (\<lambda>_.
     bindE (check (dget record ''approval_authority_source'' = PStr APPROVAL_AUTHORITY_SOURCE)
              (InvalidRiskAcceptance ''approval_authority_source must be approval_matrix'')) (\<lambda>_.
       check (\<not> str_in (dget record ''blocking_category'') HARD_REFUSAL_CATEGORIES)
         (InvalidRiskAcceptance ''hard-refusal category cannot be risk-accepted''))))))"

section \<open>Rows\<close>

record finding_row =
  rf_id :: uuid
  rf_tenant :: uuid
  rf_project :: uuid
  rf_type :: string
  rf_category :: string
  rf_severity :: string
  rf_status :: string
  rf_provenance :: string
  rf_security_result :: "uuid option"
  rf_scan_fingerprint :: "string option"
  rf_shortcut_result :: "uuid option"
  rf_shortcut_fingerprint :: "string option"
  rf_created_at :: timestamp

record issue_row =
  ri_id :: uuid
  ri_tenant :: uuid
  ri_project :: uuid
  ri_category :: string
  ri_severity :: string
  ri_blocking :: bool
  ri_blocking_category :: "string option"
  ri_summary :: string
  ri_detail :: "string option"
  ri_source :: string
  ri_source_provenance :: string
  ri_source_finding :: "uuid option"
  ri_status :: issue_status
  ri_risk_record :: "uuid option"
  ri_resolution_note :: "string option"
  ri_resolved_at :: "timestamp option"
  ri_resolved_by :: "string option"
  ri_created_at :: timestamp
  ri_updated_at :: timestamp

record issue_event_row =
  rie_tenant :: uuid
  rie_issue :: uuid
  rie_type :: string
  rie_actor :: string

record risk_row =
  ra_id :: uuid
  ra_tenant :: uuid
  ra_project :: uuid
  ra_release_id :: string
  ra_issue_id :: string
  ra_subject_type :: "string option"
  ra_severity :: string
  ra_affected :: "pyval list"
  ra_reason :: string
  ra_impact :: string
  ra_controls :: "pyval list"
  ra_mitigation :: string
  ra_evidence :: "pyval list"
  ra_ticket :: string
  ra_in_notes :: bool
  ra_expiry :: int
  ra_owner :: string
  ra_approver :: string
  ra_accepted_by :: "pyval list"
  ra_authority_source :: string
  ra_blocking_category :: "string option"
  ra_status :: risk_status
  ra_provenance :: string
  ra_updated_at :: timestamp

record risk_event_row =
  rae_tenant :: uuid
  rae_record :: uuid
  rae_type :: string
  rae_actor :: string

record candidate_row =
  rc_id :: uuid
  rc_tenant :: uuid
  rc_project :: uuid
  rc_ref :: string
  rc_status :: string

record binding_row =
  rb_tenant :: uuid
  rb_project :: uuid
  rb_candidate :: uuid
  rb_issue :: uuid

record release_store =
  rs_db :: db
  rs_findings :: "finding_row list"
  rs_issues :: "issue_row list"
  rs_issue_events :: "issue_event_row list"
  rs_risks :: "risk_row list"
  rs_risk_events :: "risk_event_row list"
  rs_candidates :: "candidate_row list"
  rs_bindings :: "binding_row list"

section \<open>The bridge from a trusted finding\<close>

text \<open>\<open>^sha256:[0-9a-f]{64}$\<close>, matched in full.\<close>

definition is_fingerprint :: "string \<Rightarrow> bool" where
  "is_fingerprint s =
     (take 7 s = ''sha256:'' \<and> length s = 71 \<and> (\<forall>c\<in>set (drop 7 s). c \<in> set hex_digits))"

record derivation =
  dv_source_finding :: uuid
  dv_category :: string
  dv_severity :: string
  dv_blocking :: bool
  dv_blocking_category :: "string option"
  dv_summary :: string
  dv_detail :: "string option"
  dv_source :: string
  dv_provenance :: string

definition finding_summary :: "string \<Rightarrow> string \<Rightarrow> string" where
  "finding_summary ftype category =
     ''Trusted '' @ ftype @ '' finding ('' @ category @ '') requires release disposition''"

definition derive_issue_from_finding :: "finding_row \<Rightarrow> release_error + derivation" where
  "derive_issue_from_finding f =
     (if rf_status f \<noteq> ''open'' then Inl (InvalidIssue ''only open findings may be bridged'')
      else if rf_severity f \<notin> set SEVERITIES then Inl (InvalidIssue ''trusted finding severity is invalid'')
      else
        let (valid, category) =
          (if rf_type f = ''security''
           then (rf_provenance f = ''connector_verified_security_scan''
                 \<and> rf_category f \<in> set (butlast SECURITY_CATEGORIES)
                 \<and> rf_security_result f \<noteq> None
                 \<and> is_fingerprint (case rf_scan_fingerprint f of None \<Rightarrow> [] | Some s \<Rightarrow> s)
                 \<and> rf_shortcut_result f = None
                 \<and> rf_shortcut_fingerprint f = None,
                 if rf_severity f = ''critical'' then Some ''critical_security_blocker'' else None)
           else if rf_type f = ''shortcut''
           then (rf_provenance f = ''system_executed_shortcut_review''
                 \<and> rf_category f \<in> set (butlast SHORTCUT_CATEGORIES)
                 \<and> rf_shortcut_result f \<noteq> None
                 \<and> is_fingerprint (case rf_shortcut_fingerprint f of None \<Rightarrow> [] | Some s \<Rightarrow> s)
                 \<and> rf_security_result f = None
                 \<and> rf_scan_fingerprint f = None,
                 Some ''fake_done_finding'')
           else (False, None))
        in
          if \<not> valid then Inl (InvalidIssue ''finding lacks trusted Slice-44/45 attachment provenance'')
          else
            let summary = finding_summary (rf_type f) (rf_category f) in
            if utf8_len summary > 500 then Inl (InvalidIssue ''derived issue summary exceeds 500 bytes'')
            else Inr \<lparr>dv_source_finding = rf_id f, dv_category = rf_type f, dv_severity = rf_severity f,
                      dv_blocking = True, dv_blocking_category = category, dv_summary = summary,
                      dv_detail = None, dv_source = FINDING_BRIDGE_SOURCE,
                      dv_provenance = TRUSTED_FINDING_PROVENANCE\<rparr>)"

section \<open>The database guards\<close>

text \<open>\<open>btrim(x) = ''\<close>: only spaces are trimmed.\<close>

definition btrim_empty :: "string \<Rightarrow> bool" where
  "btrim_empty s = (\<forall>c\<in>set s. c = CHR '' '')"

definition blank :: "string option \<Rightarrow> bool" where
  "blank s = (case s of None \<Rightarrow> True | Some t \<Rightarrow> btrim_empty t)"

text \<open>
  \<open>x !~ pattern\<close> raises only when it is true: a NULL fingerprint makes the test NULL and lets the row
  through.
\<close>

definition not_matching :: "string option \<Rightarrow> bool" where
  "not_matching s = (case s of None \<Rightarrow> False | Some t \<Rightarrow> \<not> is_fingerprint t)"

definition expected_blocking_category :: "finding_row \<Rightarrow> string option" where
  "expected_blocking_category f =
     (if rf_type f = ''security''
      then (if rf_severity f = ''critical'' then Some ''critical_security_blocker'' else None)
      else Some ''fake_done_finding'')"

definition guard_source :: "release_store \<Rightarrow> issue_row \<Rightarrow> release_error + unit" where
  "guard_source s new =
     (if ri_source_provenance new = CALLER_SUPPLIED_UNVERIFIED
      then check (ri_source_finding new = None) (GuardRefused ''unverified issue cannot carry trusted finding'')
      else if ri_source_provenance new = TRUSTED_FINDING_PROVENANCE
      then (case ri_source_finding new of
              None \<Rightarrow> Inl (GuardRefused ''trusted issue requires source_finding_id'')
            | Some i \<Rightarrow>
                (case List.find (\<lambda>f. rf_id f = i \<and> rf_tenant f = ri_tenant new \<and> rf_project f = ri_project new)
                        (rs_findings s) of
                   None \<Rightarrow> Inl (GuardRefused ''trusted source finding is missing, cross-project, or non-open'')
                 | Some f \<Rightarrow>
                     bindE (check (rf_status f = ''open'')
                       (GuardRefused ''trusted source finding is missing, cross-project, or non-open'')) (\<lambda>_.
                     bindE (if rf_type f = ''security''
                            then check (\<not> (rf_provenance f \<noteq> ''connector_verified_security_scan''
                                   \<or> rf_security_result f = None \<or> not_matching (rf_scan_fingerprint f)
                                   \<or> rf_shortcut_result f \<noteq> None \<or> rf_shortcut_fingerprint f \<noteq> None
                                   \<or> rf_category f = ''other''))
                                 (GuardRefused ''security source finding is not trusted'')
                            else if rf_type f = ''shortcut''
                            then check (\<not> (rf_provenance f \<noteq> ''system_executed_shortcut_review''
                                   \<or> rf_shortcut_result f = None \<or> not_matching (rf_shortcut_fingerprint f)
                                   \<or> rf_security_result f \<noteq> None \<or> rf_scan_fingerprint f \<noteq> None
                                   \<or> rf_category f = ''other''))
                                 (GuardRefused ''shortcut source finding is not trusted'')
                            else Inl (GuardRefused ''source finding type is unsupported'')) (\<lambda>_.
                       check (\<not> (ri_category new \<noteq> rf_type f
                                 \<or> ri_severity new \<noteq> rf_severity f
                                 \<or> \<not> ri_blocking new
                                 \<or> ri_blocking_category new \<noteq> expected_blocking_category f
                                 \<or> ri_source new \<noteq> FINDING_BRIDGE_SOURCE
                                 \<or> ri_summary new \<noteq> finding_summary (rf_type f) (rf_category f)
                                 \<or> utf8_len (ri_summary new) > 500
                                 \<or> ri_detail new \<noteq> None))
                         (GuardRefused ''trusted bridge fields do not match source finding'')))))
      else Inl (GuardRefused ''release_issues source_provenance is unsupported''))"

definition issue_insert_guard :: "release_store \<Rightarrow> issue_row \<Rightarrow> release_error + unit" where
  "issue_insert_guard s new =
     bindE (check (ri_status new = IOpen) (GuardRefused ''release_issues must be created with status=open'')) (\<lambda>_.
     bindE (guard_source s new) (\<lambda>_.
     bindE (check (ri_risk_record new = None \<and> ri_resolution_note new = None \<and> ri_resolved_at new = None \<and>
                   ri_resolved_by new = None)
              (GuardRefused ''resolution/acceptance metadata must be NULL at creation'')) (\<lambda>_.
     bindE (check (\<not> (ri_category new = ''other'' \<and> (btrim_empty (ri_summary new) \<or> blank (ri_detail new))))
              (GuardRefused ''issue_category=other requires non-empty summary and detail'')) (\<lambda>_.
       check (\<not> (is_hard_blocker (ri_severity new) (ri_blocking_category new) \<and> \<not> ri_blocking new))
         (GuardRefused ''hard-blocker issues must be blocking'')))))"

text \<open>The immutable columns of an issue, as a row with the mutable ones blanked.\<close>

definition issue_identity :: "issue_row \<Rightarrow> issue_row" where
  "issue_identity r = r\<lparr>ri_status := IOpen, ri_risk_record := None, ri_resolution_note := None,
     ri_resolved_at := None, ri_resolved_by := None, ri_updated_at := 0\<rparr>"

text \<open>How many usable acceptances an issue has: active, unexpired, non-blocking, bound exactly.\<close>

definition usable_acceptances :: "release_store \<Rightarrow> int \<Rightarrow> issue_row \<Rightarrow> nat" where
  "usable_acceptances s today new =
     length (filter (\<lambda>(r, c, b).
         rc_tenant c = ra_tenant r \<and> rc_project c = ra_project r \<and> rc_ref c = ra_release_id r \<and>
         rc_status c = ''frozen'' \<and>
         rb_candidate b = rc_id c \<and> rb_project b = rc_project c \<and> rb_tenant b = rc_tenant c \<and>
         rb_issue b = ri_id new \<and>
         Some (ra_id r) = ri_risk_record new \<and> ra_tenant r = ri_tenant new \<and> ra_project r = ri_project new \<and>
         ra_status r = RActive \<and> ra_expiry r \<ge> today \<and> ra_blocking_category r = None \<and>
         ra_subject_type r = Some ''release_issue'' \<and> ra_issue_id r = uuid_str (ri_id new))
       (List.product (rs_risks s) (List.product (rs_candidates s) (rs_bindings s))))"

definition issue_update_guard :: "release_store \<Rightarrow> int \<Rightarrow> issue_row \<Rightarrow> issue_row \<Rightarrow> release_error + unit" where
  "issue_update_guard s today old new =
     bindE (check (issue_identity new = issue_identity old)
              (GuardRefused ''identity/content/source fields are immutable'')) (\<lambda>_.
       if ri_status new = ri_status old
       then check (new = old) (GuardRefused ''fields change only via a status transition'')
       else
         bindE (check (ri_status old = IOpen) (GuardRefused ''terminal status cannot transition'')) (\<lambda>_.
         if ri_status new = IAccepted
         then
           bindE (check (\<not> is_hard_blocker (ri_severity old) (ri_blocking_category old))
                    (GuardRefused ''critical/hard-blocker issues cannot be accepted'')) (\<lambda>_.
           bindE (check (ri_risk_record new \<noteq> None)
                    (GuardRefused ''accepted requires a risk_acceptance_record_id'')) (\<lambda>_.
           bindE (check (ri_resolution_note new = None \<and> ri_resolved_at new = None \<and> ri_resolved_by new = None)
                    (GuardRefused ''accepted must not set resolution metadata'')) (\<lambda>_.
             check (usable_acceptances s today new = 1)
               (GuardRefused ''no usable risk-acceptance record for this issue''))))
         else check (ri_risk_record new = None)
                (GuardRefused ''only accepted may set risk_acceptance_record_id'')))"

text \<open>The release candidate and subject a new acceptance names must be bound exactly.\<close>

definition subject_bound :: "release_store \<Rightarrow> risk_row \<Rightarrow> candidate_row \<Rightarrow> bool" where
  "subject_bound s new c =
     (ra_subject_type new = Some ''release_issue'' \<and>
        (\<exists>b\<in>set (rs_bindings s). \<exists>i\<in>set (rs_issues s).
           ri_id i = rb_issue b \<and> ri_tenant i = rb_tenant b \<and>
           rb_candidate b = rc_id c \<and> rb_project b = rc_project c \<and> rb_tenant b = rc_tenant c \<and>
           ri_project i = rc_project c \<and> uuid_str (ri_id i) = ra_issue_id new) \<or>
      ra_subject_type new = Some ''release_finding'' \<and>
        (\<exists>f\<in>set (rs_findings s). \<exists>i\<in>set (rs_issues s). \<exists>b\<in>set (rs_bindings s).
           ri_source_finding i = Some (rf_id f) \<and> ri_tenant i = rf_tenant f \<and> ri_project i = rf_project f \<and>
           rb_issue b = ri_id i \<and> rb_tenant b = ri_tenant i \<and> rb_project b = ri_project i \<and>
           rb_candidate b = rc_id c \<and> rf_tenant f = rc_tenant c \<and> rf_project f = rc_project c \<and>
           uuid_str (rf_id f) = ra_issue_id new \<and>
           ri_blocking_category i = None \<and> ri_severity i \<noteq> ''critical''))"

definition risk_insert_guard :: "release_store \<Rightarrow> risk_row \<Rightarrow> release_error + unit" where
  "risk_insert_guard s new =
     bindE (check (ra_status new = RActive) (GuardRefused ''must be created with status=active'')) (\<lambda>_.
     bindE (check (ra_provenance new \<in> {CALLER_SUPPLIED_UNVERIFIED, REQUEST_AUTHENTICATED})
              (GuardRefused ''approver_provenance'')) (\<lambda>_.
     bindE (check (ra_authority_source new = APPROVAL_AUTHORITY_SOURCE)
              (GuardRefused ''approval_authority_source must be approval_matrix'')) (\<lambda>_.
     bindE (check (ra_blocking_category new \<notin> Some ` set HARD_REFUSAL_CATEGORIES)
              (GuardRefused ''hard-refusal category cannot be accepted'')) (\<lambda>_.
     bindE (check (ra_subject_type new = None \<or> ra_subject_type new \<in> Some ` set SUBJECT_TYPES)
              (GuardRefused ''subject_type is required for new rows'')) (\<lambda>_.
       check (length (filter (\<lambda>c. rc_tenant c = ra_tenant new \<and> rc_project c = ra_project new \<and>
                 rc_ref c = ra_release_id new \<and> rc_status c = ''frozen'' \<and> subject_bound s new c)
               (rs_candidates s)) = 1)
         (GuardRefused ''release/subject binding is not exact''))))))"

definition risk_update_guard :: "risk_row \<Rightarrow> risk_row \<Rightarrow> release_error + unit" where
  "risk_update_guard old new =
     bindE (check (new\<lparr>ra_status := ra_status old, ra_updated_at := ra_updated_at old\<rparr> = old)
              (GuardRefused ''only status and updated_at are mutable'')) (\<lambda>_.
       if ra_status new \<noteq> ra_status old
       then check (ra_status old = RActive \<and> ra_status new \<in> {RExpired, RRevoked, RSuperseded})
              (GuardRefused ''invalid status transition'')
       else Inr ())"

end
