(* ===== verification/Release_Issues.thy ===== *)
theory Release_Issues
  imports Release_Records
begin

text \<open>
  The repositories of release issues and risk acceptances (\<open>app/repositories/release_issues.py\<close>,
  \<open>app/repositories/risk_acceptance.py\<close>), with the database guard run on every insert and update,
  and the invariants over every sequence of their operations.  \<open>today\<close> is \<open>CURRENT_DATE\<close>; \<open>as_date\<close> is the
  driver's encoding of a value for a DATE column.
\<close>

section \<open>Columns\<close>

definition as_text :: "pyval \<Rightarrow> release_error + string" where
  "as_text v = (case v of PStr s \<Rightarrow> Inr s | _ \<Rightarrow> Inl BadType)"

definition as_text_opt :: "pyval \<Rightarrow> release_error + string option" where
  "as_text_opt v = (case v of PNone \<Rightarrow> Inr None | PStr s \<Rightarrow> Inr (Some s) | _ \<Rightarrow> Inl BadType)"

text \<open>\<open>list(value or [])\<close>.\<close>

definition list_or_empty :: "pyval \<Rightarrow> release_error + pyval list" where
  "list_or_empty v =
     (if \<not> py_truthy v then Inr []
      else (case v of
              PList xs \<Rightarrow> Inr xs
            | PTuple xs \<Rightarrow> Inr xs
            | PStr s \<Rightarrow> Inr (map (\<lambda>c. PStr [c]) s)
            | PDict d \<Rightarrow> Inr (map (PStr \<circ> fst) d)
            | _ \<Rightarrow> Inl BadType))"

definition status_str :: "issue_status \<Rightarrow> string" where
  "status_str st = (case st of IOpen \<Rightarrow> ''open'' | IResolved \<Rightarrow> ''resolved'' | IAccepted \<Rightarrow> ''accepted''
     | ISuperseded \<Rightarrow> ''superseded'')"

definition risk_status_str :: "risk_status \<Rightarrow> string" where
  "risk_status_str st = (case st of RActive \<Rightarrow> ''active'' | RExpired \<Rightarrow> ''expired'' | RRevoked \<Rightarrow> ''revoked''
     | RSuperseded \<Rightarrow> ''superseded'')"

section \<open>Issues\<close>

text \<open>\<open>_event\<close> and \<open>_audit\<close>.\<close>

definition log_issue :: "tenant_context \<Rightarrow> issue_row \<Rightarrow> string \<Rightarrow> string \<Rightarrow> string \<Rightarrow> release_store \<Rightarrow> release_store" where
  "log_issue ctx row event_type action actor s =
     s\<lparr>rs_issue_events := rs_issue_events s @
         [\<lparr>rie_tenant = ctx_tenant ctx, rie_issue = ri_id row, rie_type = event_type, rie_actor = actor\<rparr>],
       rs_db := audit_record ctx action actor (Some (''release_issue:'' @ uuid_str (ri_id row)))
         [(''release_issue_id'', PStr (uuid_str (ri_id row))),
          (''project_id'', PStr (uuid_str (ri_project row))),
          (''issue_category'', PStr (ri_category row)),
          (''severity'', PStr (ri_severity row)),
          (''blocking'', PBool (ri_blocking row)),
          (''status'', PStr (status_str (ri_status row))),
          (''source_provenance'', PStr (ri_source_provenance row)),
          (''source_finding_id'', opt_str (map_option uuid_str (ri_source_finding row)))]
         (rs_db s)\<rparr>"

text \<open>\<open>session.add\<close>, \<open>flush\<close> through the guard, then the event and the audit entry.\<close>

definition insert_issue :: "tenant_context \<Rightarrow> issue_row \<Rightarrow> string \<Rightarrow> release_store \<Rightarrow>
    release_error + (issue_row \<times> release_store)" where
  "insert_issue ctx row actor s =
     bindE (issue_insert_guard s row) (\<lambda>_.
       Inr (row, log_issue ctx row ''created'' ''release.issue_created'' actor
         (s\<lparr>rs_issues := rs_issues s @ [row],
            rs_db := (rs_db s)\<lparr>db_next_id := db_next_id (rs_db s) + 1\<rparr>\<rparr>)))"

definition issue_create ::
  "tenant_context \<Rightarrow> uuid \<Rightarrow> pydict \<Rightarrow> string \<Rightarrow> timestamp \<Rightarrow> release_store \<Rightarrow>
     release_error + (issue_row \<times> release_store)" where
  "issue_create ctx project payload actor clock s =
     bindE (validate_new_issue payload) (\<lambda>_.
     bindE (as_text (dget payload ''issue_category'')) (\<lambda>category.
     bindE (as_text (dget payload ''severity'')) (\<lambda>severity.
     bindE (as_text_opt (dget payload ''blocking_category'')) (\<lambda>blocking_category.
     bindE (as_text (dget payload ''summary'')) (\<lambda>summary.
     bindE (as_text_opt (dget payload ''detail'')) (\<lambda>detail.
     bindE (as_text (dget payload ''source'')) (\<lambda>source.
       insert_issue ctx
         \<lparr>ri_id = db_next_id (rs_db s), ri_tenant = ctx_tenant ctx, ri_project = project, ri_category = category,
          ri_severity = severity, ri_blocking = (dget payload ''blocking'' = PBool True),
          ri_blocking_category = blocking_category, ri_summary = summary, ri_detail = detail, ri_source = source,
          ri_source_provenance = CALLER_SUPPLIED_UNVERIFIED, ri_source_finding = None, ri_status = IOpen,
          ri_risk_record = None, ri_resolution_note = None, ri_resolved_at = None, ri_resolved_by = None,
          ri_created_at = clock, ri_updated_at = clock\<rparr> actor s)))))))"

definition get_by_source_finding ::
  "tenant_context \<Rightarrow> uuid \<Rightarrow> release_store \<Rightarrow> release_error + issue_row option" where
  "get_by_source_finding ctx finding s =
     scalar_one_or_none MultipleFound
       (filter (\<lambda>r. ri_tenant r = ctx_tenant ctx \<and> ri_source_finding r = Some finding) (rs_issues s))"

definition material_matches :: "issue_row \<Rightarrow> derivation \<Rightarrow> bool" where
  "material_matches row d =
     (ri_source_finding row = Some (dv_source_finding d) \<and> ri_category row = dv_category d \<and>
      ri_severity row = dv_severity d \<and> ri_blocking row = dv_blocking d \<and>
      ri_blocking_category row = dv_blocking_category d \<and> ri_summary row = dv_summary d \<and>
      ri_detail row = dv_detail d \<and> ri_source row = dv_source d \<and> ri_source_provenance row = dv_provenance d)"

definition require_material_match :: "issue_row \<Rightarrow> derivation \<Rightarrow> release_error + unit" where
  "require_material_match row d =
     check (material_matches row d) (InvalidIssue ''existing finding bridge conflicts with code-owned derivation'')"

definition bridged_row :: "tenant_context \<Rightarrow> uuid \<Rightarrow> derivation \<Rightarrow> timestamp \<Rightarrow> release_store \<Rightarrow> issue_row" where
  "bridged_row ctx project d clock s =
     \<lparr>ri_id = db_next_id (rs_db s), ri_tenant = ctx_tenant ctx, ri_project = project, ri_category = dv_category d,
      ri_severity = dv_severity d, ri_blocking = dv_blocking d, ri_blocking_category = dv_blocking_category d,
      ri_summary = dv_summary d, ri_detail = None, ri_source = dv_source d,
      ri_source_provenance = dv_provenance d, ri_source_finding = Some (dv_source_finding d), ri_status = IOpen,
      ri_risk_record = None, ri_resolution_note = None, ri_resolved_at = None, ri_resolved_by = None,
      ri_created_at = clock, ri_updated_at = clock\<rparr>"

text \<open>
  The savepoint catches the unique index on the source finding, which only a concurrent insert can
  violate after the lookup before it; the model is sequential and has no such branch.
\<close>

definition create_from_trusted_finding ::
  "tenant_context \<Rightarrow> uuid \<Rightarrow> uuid \<Rightarrow> string \<Rightarrow> timestamp \<Rightarrow> release_store \<Rightarrow>
     release_error + (issue_row \<times> release_store)" where
  "create_from_trusted_finding ctx project finding_id actor clock s =
     bindE (scalar_one_or_none MultipleFound
              (filter (\<lambda>f. rf_id f = finding_id \<and> rf_tenant f = ctx_tenant ctx \<and> rf_project f = project)
                (rs_findings s))) (\<lambda>found.
       case found of
         None \<Rightarrow> Inl (InvalidIssue ''trusted finding is missing or outside project scope'')
       | Some finding \<Rightarrow>
           bindE (derive_issue_from_finding finding) (\<lambda>derived.
           bindE (get_by_source_finding ctx finding_id s) (\<lambda>existing.
             case existing of
               Some row \<Rightarrow> bindE (require_material_match row derived) (\<lambda>_. Inr (row, s))
             | None \<Rightarrow> insert_issue ctx (bridged_row ctx project derived clock s) actor s)))"

fun bridge_all ::
  "tenant_context \<Rightarrow> uuid \<Rightarrow> finding_row list \<Rightarrow> string \<Rightarrow> timestamp \<Rightarrow> release_store \<Rightarrow> release_error + release_store" where
  "bridge_all ctx project [] actor clock s = Inr s"
| "bridge_all ctx project (f # fs) actor clock s =
     bindE (create_from_trusted_finding ctx project (rf_id f) actor clock s) (\<lambda>(_, s').
       bridge_all ctx project fs actor clock s')"

definition unbridged_findings :: "tenant_context \<Rightarrow> uuid \<Rightarrow> release_store \<Rightarrow> finding_row list" where
  "unbridged_findings ctx project s =
     sort_key (\<lambda>f. (rf_created_at f, rf_id f))
       (filter (\<lambda>f. rf_tenant f = ctx_tenant ctx \<and> rf_project f = project \<and> rf_status f = ''open'' \<and>
                   rf_provenance f \<in> {''connector_verified_security_scan'', ''system_executed_shortcut_review''} \<and>
                   \<not> (\<exists>r\<in>set (rs_issues s). ri_tenant r = rf_tenant f \<and> ri_source_finding r = Some (rf_id f)))
         (rs_findings s))"

definition reconcile_trusted_findings ::
  "tenant_context \<Rightarrow> uuid \<Rightarrow> string \<Rightarrow> int \<Rightarrow> timestamp \<Rightarrow> release_store \<Rightarrow> release_error + (nat \<times> release_store)" where
  "reconcile_trusted_findings ctx project actor limit clock s =
     (if limit < 1 \<or> limit > MAX_RECONCILIATION_FINDINGS then Inl BadLimit
      else let findings = take (nat limit) (unbridged_findings ctx project s) in
        bindE (bridge_all ctx project findings actor clock s) (\<lambda>s'. Inr (length findings, s')))"

definition list_trusted_for_project ::
  "tenant_context \<Rightarrow> uuid \<Rightarrow> int \<Rightarrow> release_store \<Rightarrow> release_error + issue_row list" where
  "list_trusted_for_project ctx project limit s =
     (if limit < 1 \<or> limit > MAX_RECONCILIATION_FINDINGS then Inl BadLimit
      else Inr (take (nat limit) (sort_key (\<lambda>r. (ri_created_at r, ri_id r))
        (filter (\<lambda>r. ri_tenant r = ctx_tenant ctx \<and> ri_project r = project \<and>
                    ri_source_provenance r = TRUSTED_FINDING_PROVENANCE \<and> ri_source_finding r \<noteq> None)
          (rs_issues s)))))"

definition issue_get :: "tenant_context \<Rightarrow> uuid \<Rightarrow> release_store \<Rightarrow> issue_row option" where
  "issue_get ctx i s = List.find (\<lambda>r. ri_id r = i \<and> ri_tenant r = ctx_tenant ctx) (rs_issues s)"

definition issue_get_or_raise :: "tenant_context \<Rightarrow> uuid \<Rightarrow> release_store \<Rightarrow> release_error + issue_row" where
  "issue_get_or_raise ctx i s = (case issue_get ctx i s of None \<Rightarrow> Inl NotFound | Some r \<Rightarrow> Inr r)"

text \<open>A flushed update: the guard, then the row is replaced.\<close>

definition update_issue ::
  "tenant_context \<Rightarrow> int \<Rightarrow> issue_row \<Rightarrow> issue_row \<Rightarrow> string \<Rightarrow> string \<Rightarrow> string \<Rightarrow> release_store \<Rightarrow>
     release_error + (issue_row \<times> release_store)" where
  "update_issue ctx today old new event_type action actor s =
     bindE (issue_update_guard s today old new) (\<lambda>_.
       Inr (new, log_issue ctx new event_type action actor
         (s\<lparr>rs_issues := update_where (\<lambda>r. ri_id r = ri_id old \<and> ri_tenant r = ri_tenant old) (\<lambda>_. new)
              (rs_issues s)\<rparr>)))"

definition resolve_like ::
  "tenant_context \<Rightarrow> uuid \<Rightarrow> issue_status \<Rightarrow> string \<Rightarrow> string \<Rightarrow> string \<Rightarrow> int \<Rightarrow> timestamp \<Rightarrow> release_store \<Rightarrow>
     release_error + (issue_row \<times> release_store)" where
  "resolve_like ctx i to_status note resolved_by actor today clock s =
     bindE (issue_get_or_raise ctx i s) (\<lambda>row.
     bindE (validate_issue_transition (ri_status row) to_status) (\<lambda>_.
       update_issue ctx today row
         (row\<lparr>ri_status := to_status, ri_resolution_note := Some note, ri_resolved_by := Some resolved_by,
              ri_resolved_at := Some clock, ri_updated_at := clock\<rparr>)
         (status_str to_status) (''release.issue_'' @ status_str to_status) actor s))"

definition issue_resolve where
  "issue_resolve ctx i note resolved_by actor today clock s = resolve_like ctx i IResolved note resolved_by actor today clock s"

definition issue_supersede where
  "issue_supersede ctx i note resolved_by actor today clock s = resolve_like ctx i ISuperseded note resolved_by actor today clock s"

definition issue_accept ::
  "tenant_context \<Rightarrow> uuid \<Rightarrow> uuid \<Rightarrow> string \<Rightarrow> int \<Rightarrow> timestamp \<Rightarrow> release_store \<Rightarrow>
     release_error + (issue_row \<times> release_store)" where
  "issue_accept ctx i risk_record actor today clock s =
     bindE (issue_get_or_raise ctx i s) (\<lambda>row.
     bindE (validate_issue_transition (ri_status row) IAccepted) (\<lambda>_.
       if is_hard_blocker (ri_severity row) (ri_blocking_category row)
       then Inl (InvalidIssue ''critical/hard-blocker issues cannot be accepted'')
       else update_issue ctx today row
              (row\<lparr>ri_status := IAccepted, ri_risk_record := Some risk_record, ri_updated_at := clock\<rparr>)
              ''accepted'' ''release.issue_accepted'' actor s))"

definition count_issues :: "tenant_context \<Rightarrow> uuid \<Rightarrow> bool option \<Rightarrow> release_store \<Rightarrow> nat" where
  "count_issues ctx project blocking s =
     length (filter (\<lambda>r. ri_tenant r = ctx_tenant ctx \<and> ri_project r = project \<and> ri_status r = IOpen \<and>
                        (case blocking of None \<Rightarrow> True | Some b \<Rightarrow> ri_blocking r = b)) (rs_issues s))"

definition count_open where "count_open ctx project s = count_issues ctx project None s"

definition count_open_blocking where "count_open_blocking ctx project s = count_issues ctx project (Some True) s"

definition count_open_unaccepted_blocking where
  "count_open_unaccepted_blocking ctx project s = count_issues ctx project (Some True) s"

section \<open>Risk acceptances\<close>

text \<open>The outer join of the bindings with their issues.\<close>

definition joined_bindings :: "release_store \<Rightarrow> (binding_row \<times> issue_row option) list" where
  "joined_bindings s = concat (map (\<lambda>b.
     let is = filter (\<lambda>i. ri_id i = rb_issue b \<and> ri_tenant i = rb_tenant b) (rs_issues s)
     in if is = [] then [(b, None)] else map (\<lambda>i. (b, Some i)) is) (rs_bindings s))"

definition subject_condition ::
  "tenant_context \<Rightarrow> uuid \<Rightarrow> uuid \<Rightarrow> bool \<Rightarrow> uuid \<Rightarrow> binding_row \<times> issue_row option \<Rightarrow> bool" where
  "subject_condition ctx project candidate is_issue subject row =
     (case row of (b, issue) \<Rightarrow>
       rb_tenant b = ctx_tenant ctx \<and> rb_project b = project \<and> rb_candidate b = candidate \<and>
       (if is_issue then rb_issue b = subject
        else (case issue of
                None \<Rightarrow> False
              | Some i \<Rightarrow> ri_project i = project \<and> ri_source_finding i = Some subject \<and>
                          ri_blocking_category i = None \<and> ri_severity i \<noteq> ''critical'')))"

definition require_subject_binding :: "tenant_context \<Rightarrow> uuid \<Rightarrow> pydict \<Rightarrow> release_store \<Rightarrow> release_error + unit" where
  "require_subject_binding ctx project payload s =
     (case (case dget payload ''issue_id'' of PStr t \<Rightarrow> parse_uuid t | _ \<Rightarrow> None) of
        None \<Rightarrow> Inl (InvalidRiskAcceptance ''issue_id must be a UUID for a new bound record'')
      | Some subject \<Rightarrow>
          bindE (scalar_one_or_none MultipleFound
                   (filter (\<lambda>c. rc_tenant c = ctx_tenant ctx \<and> rc_project c = project \<and>
                              PStr (rc_ref c) = dget payload ''release_id'' \<and> rc_status c = ''frozen'')
                     (rs_candidates s))) (\<lambda>candidate.
            case candidate of
              None \<Rightarrow> Inl (InvalidRiskAcceptance ''release_id must resolve to one same-project frozen candidate'')
            | Some c \<Rightarrow>
                check (length (filter (subject_condition ctx project (rc_id c)
                                 (dget payload ''subject_type'' = PStr ''release_issue'') subject)
                               (joined_bindings s)) = 1)
                  (InvalidRiskAcceptance ''release/subject binding is not exact'')))"

definition signer_provenance :: "tenant_context \<Rightarrow> pydict \<Rightarrow> release_error + string" where
  "signer_provenance ctx payload =
     (case ctx_actor ctx of
        None \<Rightarrow> Inr CALLER_SUPPLIED_UNVERIFIED
      | Some actor \<Rightarrow>
          if dget payload ''approver'' \<noteq> PStr (actor_subject actor) \<or>
             PStr (actor_subject actor) \<notin> set (case dget payload ''accepted_by'' of PList xs \<Rightarrow> xs | _ \<Rightarrow> [])
          then Inl (InvalidRiskAcceptance ''verified signer must equal payload approver and appear in accepted_by'')
          else Inr REQUEST_AUTHENTICATED)"

definition log_risk :: "tenant_context \<Rightarrow> risk_row \<Rightarrow> string \<Rightarrow> string \<Rightarrow> release_store \<Rightarrow> release_store" where
  "log_risk ctx row event_type actor s =
     s\<lparr>rs_risk_events := rs_risk_events s @
         [\<lparr>rae_tenant = ctx_tenant ctx, rae_record = ra_id row, rae_type = event_type, rae_actor = actor\<rparr>],
       rs_db := audit_record ctx (''intake.risk_acceptance_'' @ event_type) actor
         (Some (''risk_acceptance_record:'' @ uuid_str (ra_id row)))
         [(''risk_acceptance_record_id'', PStr (uuid_str (ra_id row))),
          (''project_id'', PStr (uuid_str (ra_project row))),
          (''issue_id'', PStr (ra_issue_id row)),
          (''subject_type'', opt_str (ra_subject_type row)),
          (''release_id'', PStr (ra_release_id row)),
          (''severity'', PStr (ra_severity row)),
          (''status'', PStr (risk_status_str (ra_status row))),
          (''has_blocking_category'', PBool (ra_blocking_category row \<noteq> None))]
         (rs_db s)\<rparr>"

definition risk_row_of ::
  "(pyval \<Rightarrow> int option) \<Rightarrow> tenant_context \<Rightarrow> uuid \<Rightarrow> pydict \<Rightarrow> string \<Rightarrow> uuid \<Rightarrow> timestamp \<Rightarrow> release_error + risk_row" where
  "risk_row_of as_date ctx project payload provenance new_id clock =
     bindE (list_or_empty (dget payload ''affected_requirements'')) (\<lambda>affected.
     bindE (list_or_empty (dget payload ''compensating_controls'')) (\<lambda>controls.
     bindE (list_or_empty (dget payload ''evidence_links'')) (\<lambda>evidence.
     bindE (as_text (dget payload ''release_id'')) (\<lambda>release_id.
     bindE (as_text (dget payload ''issue_id'')) (\<lambda>issue_id.
     bindE (as_text (dget payload ''subject_type'')) (\<lambda>subject_type.
     bindE (as_text (dget payload ''severity'')) (\<lambda>severity.
     bindE (as_text (dget payload ''reason_for_acceptance'')) (\<lambda>reason.
     bindE (as_text (dget payload ''business_impact'')) (\<lambda>impact.
     bindE (as_text (dget payload ''rollback_or_mitigation_plan'')) (\<lambda>mitigation.
     bindE (as_text (dget payload ''required_follow_up_ticket'')) (\<lambda>ticket.
     bindE (case as_date (dget payload ''expiry_date'') of None \<Rightarrow> Inl BadType | Some t \<Rightarrow> Inr t) (\<lambda>expiry.
     bindE (as_text (dget payload ''owner'')) (\<lambda>owner.
     bindE (as_text (dget payload ''approver'')) (\<lambda>approver.
     bindE (as_text (dget payload ''approval_authority_source'')) (\<lambda>authority.
     bindE (as_text_opt (dget payload ''blocking_category'')) (\<lambda>blocking_category.
       Inr \<lparr>ra_id = new_id, ra_tenant = ctx_tenant ctx, ra_project = project, ra_release_id = release_id,
             ra_issue_id = issue_id, ra_subject_type = Some subject_type, ra_severity = severity,
             ra_affected = affected, ra_reason = reason, ra_impact = impact, ra_controls = controls,
             ra_mitigation = mitigation, ra_evidence = evidence, ra_ticket = ticket,
             ra_in_notes = py_truthy (dget payload ''included_in_release_notes''), ra_expiry = expiry,
             ra_owner = owner, ra_approver = approver,
             ra_accepted_by = (case dget payload ''accepted_by'' of PList xs \<Rightarrow> xs | _ \<Rightarrow> []),
             ra_authority_source = authority, ra_blocking_category = blocking_category, ra_status = RActive,
             ra_provenance = provenance, ra_updated_at = clock\<rparr>))))))))))))))))"

definition risk_create ::
  "(pyval \<Rightarrow> int option) \<Rightarrow> tenant_context \<Rightarrow> uuid \<Rightarrow> pydict \<Rightarrow> string \<Rightarrow> timestamp \<Rightarrow> release_store \<Rightarrow>
     release_error + (risk_row \<times> release_store)" where
  "risk_create as_date ctx project payload actor clock s =
     bindE (validate_new_record payload) (\<lambda>_.
     bindE (require_subject_binding ctx project payload s) (\<lambda>_.
     bindE (signer_provenance ctx payload) (\<lambda>provenance.
     bindE (risk_row_of as_date ctx project payload provenance (db_next_id (rs_db s)) clock) (\<lambda>row.
     bindE (risk_insert_guard s row) (\<lambda>_.
       Inr (row, log_risk ctx row ''created'' actor
         (s\<lparr>rs_risks := rs_risks s @ [row],
            rs_db := (rs_db s)\<lparr>db_next_id := db_next_id (rs_db s) + 1\<rparr>\<rparr>)))))))"

definition risk_get :: "tenant_context \<Rightarrow> uuid \<Rightarrow> release_store \<Rightarrow> risk_row option" where
  "risk_get ctx i s = List.find (\<lambda>r. ra_id r = i \<and> ra_tenant r = ctx_tenant ctx) (rs_risks s)"

definition risk_get_or_raise :: "tenant_context \<Rightarrow> uuid \<Rightarrow> release_store \<Rightarrow> release_error + risk_row" where
  "risk_get_or_raise ctx i s = (case risk_get ctx i s of None \<Rightarrow> Inl NotFound | Some r \<Rightarrow> Inr r)"

definition risk_transition ::
  "tenant_context \<Rightarrow> uuid \<Rightarrow> risk_status \<Rightarrow> string \<Rightarrow> timestamp \<Rightarrow> release_store \<Rightarrow> release_error + (risk_row \<times> release_store)" where
  "risk_transition ctx i to_status actor clock s =
     bindE (risk_get_or_raise ctx i s) (\<lambda>row.
     bindE (validate_risk_transition (ra_status row) to_status) (\<lambda>_.
       let new = row\<lparr>ra_status := to_status, ra_updated_at := clock\<rparr> in
       bindE (risk_update_guard row new) (\<lambda>_.
         Inr (new, log_risk ctx new (risk_status_str to_status) actor
           (s\<lparr>rs_risks := update_where (\<lambda>r. ra_id r = ra_id row \<and> ra_tenant r = ra_tenant row) (\<lambda>_. new)
                (rs_risks s)\<rparr>)))))"

definition risk_revoke where "risk_revoke ctx i actor clock s = risk_transition ctx i RRevoked actor clock s"

definition risk_supersede where "risk_supersede ctx i actor clock s = risk_transition ctx i RSuperseded actor clock s"

definition expire_if_overdue ::
  "tenant_context \<Rightarrow> uuid \<Rightarrow> string \<Rightarrow> int \<Rightarrow> timestamp \<Rightarrow> release_store \<Rightarrow> release_error + (risk_row \<times> release_store)" where
  "expire_if_overdue ctx i actor today clock s =
     bindE (risk_get_or_raise ctx i s) (\<lambda>row.
       if ra_status row = RActive \<and> ra_expiry row < today then risk_transition ctx i RExpired actor clock s
       else Inr (row, s))"

definition count_active_nonblocking :: "tenant_context \<Rightarrow> uuid \<Rightarrow> int \<Rightarrow> release_store \<Rightarrow> nat" where
  "count_active_nonblocking ctx project today s =
     length (filter (\<lambda>r. ra_tenant r = ctx_tenant ctx \<and> ra_project r = project \<and> ra_status r = RActive \<and>
                        ra_blocking_category r = None \<and> ra_expiry r \<ge> today) (rs_risks s))"

definition count_release_bound_active :: "tenant_context \<Rightarrow> uuid \<Rightarrow> int \<Rightarrow> release_store \<Rightarrow> nat" where
  "count_release_bound_active ctx project today s =
     length (filter (\<lambda>r. ra_tenant r = ctx_tenant ctx \<and> ra_project r = project \<and> ra_subject_type r \<noteq> None \<and>
                        ra_status r = RActive \<and> ra_blocking_category r = None \<and> ra_expiry r \<ge> today) (rs_risks s))"

definition count_legacy_unbound :: "tenant_context \<Rightarrow> uuid \<Rightarrow> release_store \<Rightarrow> nat" where
  "count_legacy_unbound ctx project s =
     length (filter (\<lambda>r. ra_tenant r = ctx_tenant ctx \<and> ra_project r = project \<and> ra_subject_type r = None) (rs_risks s))"

section \<open>Lifecycles\<close>

interpretation issue_life: one_way_lifecycle issue_transition_allowed "\<lambda>s. s \<noteq> IOpen" "\<lambda>s. if s = IOpen then 1 else 0"
  by unfold_locales (auto simp: issue_transition_allowed_def)

interpretation risk_life: one_way_lifecycle risk_transition_allowed "\<lambda>s. s \<noteq> RActive" "\<lambda>s. if s = RActive then 1 else 0"
  by unfold_locales (auto simp: risk_transition_allowed_def)

section \<open>What the operations keep\<close>

text \<open>A hard blocker blocks and is never accepted.\<close>

definition blocker_ok :: "issue_row \<Rightarrow> bool" where
  "blocker_ok r \<longleftrightarrow>
     (is_hard_blocker (ri_severity r) (ri_blocking_category r) \<longrightarrow> ri_blocking r \<and> ri_status r \<noteq> IAccepted)"

text \<open>The acceptance an accepted issue names.\<close>

definition accepted_by_record :: "risk_row list \<Rightarrow> issue_row \<Rightarrow> bool" where
  "accepted_by_record risks r \<longleftrightarrow>
     (\<exists>a\<in>set risks. Some (ra_id a) = ri_risk_record r \<and> ra_tenant a = ri_tenant r \<and> ra_project a = ri_project r \<and>
        ra_blocking_category a = None \<and> ra_subject_type a = Some ''release_issue'' \<and>
        ra_issue_id a = uuid_str (ri_id r))"

definition risk_ok :: "risk_row \<Rightarrow> bool" where
  "risk_ok a \<longleftrightarrow>
     ra_blocking_category a \<notin> Some ` set HARD_REFUSAL_CATEGORIES \<and>
     (ra_provenance a = REQUEST_AUTHENTICATED \<longrightarrow> PStr (ra_approver a) \<in> set (ra_accepted_by a))"

definition ids_ok :: "release_store \<Rightarrow> bool" where
  "ids_ok s \<longleftrightarrow>
     distinct (map ri_id (rs_issues s)) \<and> distinct (map ra_id (rs_risks s)) \<and>
     (\<forall>r\<in>set (rs_issues s). ri_id r < db_next_id (rs_db s)) \<and>
     (\<forall>a\<in>set (rs_risks s). ra_id a < db_next_id (rs_db s))"

definition release_ok :: "release_store \<Rightarrow> bool" where
  "release_ok s \<longleftrightarrow> ids_ok s \<and>
     (\<forall>r\<in>set (rs_issues s). blocker_ok r \<and> (ri_status r = IAccepted \<longrightarrow> accepted_by_record (rs_risks s) r)) \<and>
     (\<forall>a\<in>set (rs_risks s). risk_ok a)"

lemma log_frame [simp]:
  "rs_issues (log_issue c r e a x s) = rs_issues s" "rs_risks (log_issue c r e a x s) = rs_risks s"
  "db_next_id (rs_db (log_issue c r e a x s)) = db_next_id (rs_db s)"
  "rs_findings (log_issue c r e a x s) = rs_findings s"
  "rs_issues (log_risk c' r' e' a' s) = rs_issues s" "rs_risks (log_risk c' r' e' a' s) = rs_risks s"
  "db_next_id (rs_db (log_risk c' r' e' a' s)) = db_next_id (rs_db s)"
  by (simp_all add: log_issue_def log_risk_def)

lemma release_ok_log [simp]:
  "release_ok (log_issue c r e a x s) = release_ok s" "release_ok (log_risk c' r' e' a' s) = release_ok s"
  by (simp_all add: release_ok_def ids_ok_def)

lemma insert_issue_ok:
  assumes "release_ok s" "insert_issue ctx row actor s = Inr (r, s')" "ri_id row = db_next_id (rs_db s)"
  shows "release_ok s'"
proof -
  have g: "issue_insert_guard s row = Inr ()"
    using assms(2) by (auto simp: insert_issue_def)
  then have "blocker_ok row" "ri_status row = IOpen"
    by (auto simp: issue_insert_guard_def blocker_ok_def)
  moreover have "ri_id row \<notin> ri_id ` set (rs_issues s)"
    using assms(1,3) by (auto simp: release_ok_def ids_ok_def)
  ultimately show ?thesis
    using assms by (auto simp: insert_issue_def release_ok_def ids_ok_def less_Suc_eq)
qed

lemma issue_get_mem: "issue_get_or_raise ctx i s = Inr r \<Longrightarrow> r \<in> set (rs_issues s) \<and> ri_id r = i \<and> ri_tenant r = ctx_tenant ctx"
  by (auto simp: issue_get_or_raise_def issue_get_def dest: find_Some_mem split: option.splits)

lemma risk_get_mem: "risk_get_or_raise ctx i s = Inr r \<Longrightarrow> r \<in> set (rs_risks s) \<and> ra_id r = i \<and> ra_tenant r = ctx_tenant ctx"
  by (auto simp: risk_get_or_raise_def risk_get_def dest: find_Some_mem split: option.splits)

lemma map_update_same_key:
  "key new = key old \<Longrightarrow> (\<And>r. P r \<Longrightarrow> key r = key old) \<Longrightarrow> map key (update_where P (\<lambda>_. new) rs) = map key rs"
  by (rule map_update_where) simp

lemma update_where_mem: "r \<in> set (update_where P (\<lambda>_. new) rs) \<Longrightarrow> r = new \<or> r \<in> set rs"
  by (auto simp: update_where_def split: if_splits)

lemma update_issue_ok:
  assumes "release_ok s" "update_issue ctx today old new ev act actor s = Inr (r, s')" "old \<in> set (rs_issues s)"
    and "issue_identity new = issue_identity old" "blocker_ok new"
    and "ri_status new = IAccepted \<Longrightarrow> accepted_by_record (rs_risks s) new"
  shows "release_ok s'"
proof -
  have id: "ri_id new = ri_id old"
    using arg_cong [OF assms(4), of ri_id] by (simp add: issue_identity_def)
  let ?rows = "update_where (\<lambda>r. ri_id r = ri_id old \<and> ri_tenant r = ri_tenant old) (\<lambda>_. new) (rs_issues s)"
  have keys: "map ri_id ?rows = map ri_id (rs_issues s)"
    by (rule map_update_same_key) (use id in simp_all)
  have "distinct (map ri_id ?rows)" unfolding keys using assms(1) by (simp add: release_ok_def ids_ok_def)
  moreover have "\<forall>r\<in>set ?rows. ri_id r < db_next_id (rs_db s)"
    using assms(1,3) id by (auto simp: release_ok_def ids_ok_def dest!: update_where_mem)
  moreover have "\<forall>r\<in>set ?rows. blocker_ok r \<and> (ri_status r = IAccepted \<longrightarrow> accepted_by_record (rs_risks s) r)"
    using assms(1,5,6) by (auto simp: release_ok_def dest!: update_where_mem)
  ultimately show ?thesis
    using assms(1,2) by (auto simp: update_issue_def release_ok_def ids_ok_def)
qed

lemma resolve_like_ok:
  assumes "release_ok s" "resolve_like ctx i st note by actor today clock s = Inr (r, s')" "st \<noteq> IAccepted"
  shows "release_ok s'"
proof -
  obtain row where row: "issue_get_or_raise ctx i s = Inr row"
    and u: "update_issue ctx today row (row\<lparr>ri_status := st, ri_resolution_note := Some note, ri_resolved_by := Some by,
              ri_resolved_at := Some clock, ri_updated_at := clock\<rparr>)
         (status_str st) (''release.issue_'' @ status_str st) actor s = Inr (r, s')"
    using assms(2) by (auto simp: resolve_like_def)
  have mem: "row \<in> set (rs_issues s)" using issue_get_mem [OF row] by simp
  with assms(1) have "blocker_ok row" by (simp add: release_ok_def)
  then show ?thesis
    using assms(3) by (intro update_issue_ok [OF assms(1) u mem]) (simp_all add: issue_identity_def blocker_ok_def)
qed

text \<open>The guard's count is one, so there is such a record.\<close>

lemma usable_acceptance_exists:
  "usable_acceptances s today new = 1 \<Longrightarrow>
     \<exists>a\<in>set (rs_risks s). \<exists>c\<in>set (rs_candidates s). \<exists>b\<in>set (rs_bindings s).
       Some (ra_id a) = ri_risk_record new \<and> ra_tenant a = ri_tenant new \<and> ra_project a = ri_project new \<and>
       ra_status a = RActive \<and> ra_expiry a \<ge> today \<and> ra_blocking_category a = None \<and>
       ra_subject_type a = Some ''release_issue'' \<and> ra_issue_id a = uuid_str (ri_id new) \<and>
       rc_ref c = ra_release_id a \<and> rc_status c = ''frozen'' \<and> rb_candidate b = rc_id c \<and> rb_issue b = ri_id new"
proof -
  assume "usable_acceptances s today new = 1"
  then have "usable_acceptances s today new \<noteq> 0" by simp
  then show ?thesis
    unfolding usable_acceptances_def length_0_conv filter_empty_conv by fastforce
qed

lemma issue_accept_facts:
  assumes "issue_accept ctx i a actor today clock s = Inr (r, s')"
  obtains row where "issue_get_or_raise ctx i s = Inr row"
    "r = row\<lparr>ri_status := IAccepted, ri_risk_record := Some a, ri_updated_at := clock\<rparr>"
    "\<not> is_hard_blocker (ri_severity row) (ri_blocking_category row)" "ri_status row = IOpen"
    "usable_acceptances s today r = 1"
    "update_issue ctx today row r ''accepted'' ''release.issue_accepted'' actor s = Inr (r, s')"
proof -
  from assms obtain row where row: "issue_get_or_raise ctx i s = Inr row"
    "validate_issue_transition (ri_status row) IAccepted = Inr ()"
    "\<not> is_hard_blocker (ri_severity row) (ri_blocking_category row)"
    "update_issue ctx today row (row\<lparr>ri_status := IAccepted, ri_risk_record := Some a, ri_updated_at := clock\<rparr>)
       ''accepted'' ''release.issue_accepted'' actor s = Inr (r, s')"
    by (auto simp: issue_accept_def split: if_splits)
  have st: "ri_status row = IOpen"
    using row(2) by (simp add: validate_issue_transition_def issue_transition_allowed_def)
  have r: "r = row\<lparr>ri_status := IAccepted, ri_risk_record := Some a, ri_updated_at := clock\<rparr>"
    and g: "issue_update_guard s today row r = Inr ()"
    using row(4) by (auto simp: update_issue_def)
  have "usable_acceptances s today r = 1"
    using g st r by (simp add: issue_update_guard_def)
  with row st r that show thesis by blast
qed

lemma issue_accept_ok:
  assumes "release_ok s" "issue_accept ctx i a actor today clock s = Inr (r, s')"
  shows "release_ok s'"
proof -
  from issue_accept_facts [OF assms(2)] obtain row where f: "issue_get_or_raise ctx i s = Inr row"
    "r = row\<lparr>ri_status := IAccepted, ri_risk_record := Some a, ri_updated_at := clock\<rparr>"
    "\<not> is_hard_blocker (ri_severity row) (ri_blocking_category row)" "usable_acceptances s today r = 1"
    "update_issue ctx today row r ''accepted'' ''release.issue_accepted'' actor s = Inr (r, s')" by metis
  have "accepted_by_record (rs_risks s) r"
    unfolding accepted_by_record_def using usable_acceptance_exists [OF f(4)] by metis
  with f(2,3) issue_get_mem [OF f(1)] show ?thesis
    by (intro update_issue_ok [OF assms(1) f(5)]) (simp_all add: issue_identity_def blocker_ok_def)
qed

lemma issue_create_ok:
  "release_ok s \<Longrightarrow> issue_create ctx p payload actor clock s = Inr (r, s') \<Longrightarrow> release_ok s'"
  by (auto simp: issue_create_def elim!: insert_issue_ok)

lemma bridged_row_id [simp]: "ri_id (bridged_row ctx p d clock s) = db_next_id (rs_db s)"
  by (simp add: bridged_row_def)

lemma create_from_trusted_finding_ok:
  assumes "release_ok s" "create_from_trusted_finding ctx p f actor clock s = Inr (r, s')"
  shows "release_ok s'"
proof -
  obtain found where found: "(case found of
      None \<Rightarrow> Inl (InvalidIssue ''trusted finding is missing or outside project scope'')
    | Some finding \<Rightarrow>
        bindE (derive_issue_from_finding finding) (\<lambda>derived.
        bindE (get_by_source_finding ctx f s) (\<lambda>existing.
          case existing of
            Some row \<Rightarrow> bindE (require_material_match row derived) (\<lambda>_. Inr (row, s))
          | None \<Rightarrow> insert_issue ctx (bridged_row ctx p derived clock s) actor s))) = Inr (r, s')"
    using assms(2) unfolding create_from_trusted_finding_def bindE_Inr_iff by blast
  then obtain d ex where ex: "(case ex of
            Some row \<Rightarrow> bindE (require_material_match row d) (\<lambda>_. Inr (row, s))
          | None \<Rightarrow> insert_issue ctx (bridged_row ctx p d clock s) actor s) = Inr (r, s')"
    by (cases found) (simp, simp only: option.case bindE_Inr_iff, blast)
  show ?thesis
  proof (cases ex)
    case None
    with ex show ?thesis using insert_issue_ok [OF assms(1)] by simp
  next
    case (Some row)
    with ex assms(1) show ?thesis by simp
  qed
qed

lemma bridge_all_ok:
  "release_ok s \<Longrightarrow> bridge_all ctx p fs actor clock s = Inr s' \<Longrightarrow> release_ok s'"
  by (induction fs arbitrary: s) (auto dest: create_from_trusted_finding_ok)

lemma reconcile_ok:
  "release_ok s \<Longrightarrow> reconcile_trusted_findings ctx p actor limit clock s = Inr (n, s') \<Longrightarrow> release_ok s'"
  by (auto simp: reconcile_trusted_findings_def dest: bridge_all_ok split: if_splits)

lemma as_text_Inr [simp]: "as_text v = Inr t \<longleftrightarrow> v = PStr t"
  by (cases v) (simp_all add: as_text_def)

lemma risk_row_of_fields:
  assumes "risk_row_of as_date ctx p payload prov i clock = Inr row"
  shows "ra_id row = i \<and> ra_tenant row = ctx_tenant ctx \<and> ra_project row = p \<and> ra_provenance row = prov \<and>
    dget payload ''approver'' = PStr (ra_approver row) \<and> dget payload ''issue_id'' = PStr (ra_issue_id row) \<and>
    ra_accepted_by row = (case dget payload ''accepted_by'' of PList xs \<Rightarrow> xs | _ \<Rightarrow> []) \<and>
    ra_status row = RActive"
  using assms unfolding risk_row_of_def
  by (simp only: bindE_Inr_iff as_text_Inr sum.inject) (elim exE conjE, hypsubst, simp)

lemma risk_create_facts:
  assumes "risk_create as_date ctx p payload actor clock s = Inr (row, s')"
  shows "signer_provenance ctx payload = Inr (ra_provenance row) \<and> risk_insert_guard s row = Inr () \<and>
    ra_id row = db_next_id (rs_db s) \<and> dget payload ''approver'' = PStr (ra_approver row) \<and>
    ra_accepted_by row = (case dget payload ''accepted_by'' of PList xs \<Rightarrow> xs | _ \<Rightarrow> []) \<and>
    ra_tenant row = ctx_tenant ctx \<and> ra_project row = p \<and>
    rs_risks s' = rs_risks s @ [row] \<and> rs_issues s' = rs_issues s \<and>
    db_next_id (rs_db s') = Suc (db_next_id (rs_db s))"
  using assms by (auto simp: risk_create_def dest: risk_row_of_fields)

lemma accepted_by_record_mono:
  "accepted_by_record risks r \<Longrightarrow> set risks \<subseteq> set risks' \<Longrightarrow> accepted_by_record risks' r"
  unfolding accepted_by_record_def by blast

lemma risk_create_ok:
  assumes "release_ok s" "risk_create as_date ctx p payload actor clock s = Inr (row, s')"
  shows "release_ok s'"
proof -
  note f = risk_create_facts [OF assms(2)]
  have "ra_blocking_category row \<notin> Some ` set HARD_REFUSAL_CATEGORIES"
    using f by (auto simp: risk_insert_guard_def)
  moreover have "PStr (ra_approver row) \<in> set (ra_accepted_by row)" if "ra_provenance row = REQUEST_AUTHENTICATED"
    using f that by (auto simp: signer_provenance_def split: option.splits if_splits)
  ultimately have row: "risk_ok row" by (simp add: risk_ok_def)
  have fresh: "ra_id row \<notin> ra_id ` set (rs_risks s)"
    using f assms(1) by (auto simp: release_ok_def ids_ok_def)
  have acc: "accepted_by_record (rs_risks s') r" if "accepted_by_record (rs_risks s) r" for r
    by (rule accepted_by_record_mono [OF that]) (use f in auto)
  show ?thesis
    using assms(1) f row fresh acc by (auto simp: release_ok_def ids_ok_def less_Suc_eq)
qed

lemma risk_transition_ok:
  assumes "release_ok s" "risk_transition ctx i st actor clock s = Inr (r, s')"
  shows "release_ok s'"
proof -
  obtain row where row: "risk_get_or_raise ctx i s = Inr row"
    and r: "r = row\<lparr>ra_status := st, ra_updated_at := clock\<rparr>"
    and s': "rs_risks s' = update_where (\<lambda>a. ra_id a = ra_id row \<and> ra_tenant a = ra_tenant row) (\<lambda>_. r) (rs_risks s)"
      "rs_issues s' = rs_issues s" "db_next_id (rs_db s') = db_next_id (rs_db s)"
    using assms(2) by (auto simp: risk_transition_def Let_def)
  have mem: "row \<in> set (rs_risks s)" using risk_get_mem [OF row] by simp
  have keys: "map ra_id (rs_risks s') = map ra_id (rs_risks s)"
    unfolding s' by (rule map_update_same_key) (use r in simp_all)
  have rows: "a \<in> set (rs_risks s') \<Longrightarrow> a = r \<or> a \<in> set (rs_risks s)" for a
    unfolding s' by (rule update_where_mem)
  have acc: "accepted_by_record (rs_risks s') x" if h: "accepted_by_record (rs_risks s) x" for x
  proof -
    obtain a where a: "a \<in> set (rs_risks s)" "Some (ra_id a) = ri_risk_record x" "ra_tenant a = ri_tenant x"
      "ra_project a = ri_project x" "ra_blocking_category a = None" "ra_subject_type a = Some ''release_issue''"
      "ra_issue_id a = uuid_str (ri_id x)"
      using h unfolding accepted_by_record_def by blast
    show ?thesis
    proof (cases "ra_id a = ra_id row")
      case True
      have "distinct (map ra_id (rs_risks s))" using assms(1) by (simp add: release_ok_def ids_ok_def)
      with True a(1) mem have "a = row" by (metis distinct_map inj_onD)
      then have "r \<in> set (rs_risks s')" using mem unfolding s' by (force simp: update_where_def)
      moreover have "ra_id r = ra_id a" "ra_tenant r = ra_tenant a" "ra_project r = ra_project a"
        "ra_blocking_category r = None" "ra_subject_type r = ra_subject_type a" "ra_issue_id r = ra_issue_id a"
        using \<open>a = row\<close> r a(5) by simp_all
      ultimately show ?thesis using a unfolding accepted_by_record_def by metis
    next
      case False
      then have "a \<in> set (rs_risks s')" using a(1) unfolding s' by (force simp: update_where_def)
      with a show ?thesis unfolding accepted_by_record_def by metis
    qed
  qed
  have "risk_ok r" using assms(1) mem r by (auto simp: release_ok_def risk_ok_def)
  moreover have "ra_id r < db_next_id (rs_db s)" using assms(1) mem r by (simp add: release_ok_def ids_ok_def)
  ultimately have "\<forall>a\<in>set (rs_risks s'). risk_ok a \<and> ra_id a < db_next_id (rs_db s)"
    using rows assms(1) unfolding release_ok_def ids_ok_def by metis
  moreover have "distinct (map ra_id (rs_risks s'))"
    unfolding keys using assms(1) by (simp add: release_ok_def ids_ok_def)
  ultimately show ?thesis
    using assms(1) s'(2,3) acc by (simp add: release_ok_def ids_ok_def)
qed

lemma expire_ok:
  "release_ok s \<Longrightarrow> expire_if_overdue ctx i actor today clock s = Inr (r, s') \<Longrightarrow> release_ok s'"
  by (auto simp: expire_if_overdue_def dest: risk_transition_ok split: if_splits)

section \<open>Every sequence of operations\<close>

text \<open>
  The operations of both repositories in any order, for any tenant, between arbitrary changes of the
  findings, candidates and bindings by other components.
\<close>

inductive release_reach :: "release_store \<Rightarrow> bool" where
  reach_start: "rs_issues s = [] \<Longrightarrow> rs_risks s = [] \<Longrightarrow> release_reach s"
| reach_other: "release_reach s \<Longrightarrow> db_next_id (rs_db s) \<le> db_next_id d \<Longrightarrow>
    release_reach (s\<lparr>rs_db := d, rs_findings := fs, rs_candidates := cs, rs_bindings := bs\<rparr>)"
| reach_create: "release_reach s \<Longrightarrow> issue_create ctx p payload actor clock s = Inr (r, s') \<Longrightarrow> release_reach s'"
| reach_bridge: "release_reach s \<Longrightarrow> create_from_trusted_finding ctx p f actor clock s = Inr (r, s') \<Longrightarrow> release_reach s'"
| reach_reconcile: "release_reach s \<Longrightarrow> reconcile_trusted_findings ctx p actor limit clock s = Inr (n, s') \<Longrightarrow> release_reach s'"
| reach_resolve: "release_reach s \<Longrightarrow> issue_resolve ctx i note by actor today clock s = Inr (r, s') \<Longrightarrow> release_reach s'"
| reach_supersede: "release_reach s \<Longrightarrow> issue_supersede ctx i note by actor today clock s = Inr (r, s') \<Longrightarrow> release_reach s'"
| reach_accept: "release_reach s \<Longrightarrow> issue_accept ctx i a actor today clock s = Inr (r, s') \<Longrightarrow> release_reach s'"
| reach_risk: "release_reach s \<Longrightarrow> risk_create as_date ctx p payload actor clock s = Inr (a, s') \<Longrightarrow> release_reach s'"
| reach_revoke: "release_reach s \<Longrightarrow> risk_revoke ctx i actor clock s = Inr (a, s') \<Longrightarrow> release_reach s'"
| reach_risk_supersede: "release_reach s \<Longrightarrow> risk_supersede ctx i actor clock s = Inr (a, s') \<Longrightarrow> release_reach s'"
| reach_expire: "release_reach s \<Longrightarrow> expire_if_overdue ctx i actor today clock s = Inr (a, s') \<Longrightarrow> release_reach s'"

lemma reach_ok: "release_reach s \<Longrightarrow> release_ok s"
proof (induction rule: release_reach.induct)
  case (reach_start s)
  then show ?case by (simp add: release_ok_def ids_ok_def)
next
  case (reach_other s d fs cs bs)
  then show ?case by (auto simp: release_ok_def ids_ok_def dest: less_le_trans)
next
  case reach_resolve
  then show ?case by (auto simp: issue_resolve_def intro: resolve_like_ok)
next
  case reach_supersede
  then show ?case by (auto simp: issue_supersede_def intro: resolve_like_ok)
qed (auto simp: risk_revoke_def risk_supersede_def intro: issue_create_ok create_from_trusted_finding_ok reconcile_ok
    issue_accept_ok risk_create_ok risk_transition_ok expire_ok)

section \<open>The bridge passes its guard\<close>

lemma filter_eq_single_find: "filter P xs = [x] \<Longrightarrow> List.find P xs = Some x"
  by (induction xs) (auto split: if_splits)

lemma derivation_facts:
  assumes "derive_issue_from_finding f = Inr d"
  shows "rf_status f = ''open''" "rf_type f = ''security'' \<or> rf_type f = ''shortcut''"
    "d = \<lparr>dv_source_finding = rf_id f, dv_category = rf_type f, dv_severity = rf_severity f, dv_blocking = True,
       dv_blocking_category = expected_blocking_category f,
       dv_summary = finding_summary (rf_type f) (rf_category f), dv_detail = None,
       dv_source = FINDING_BRIDGE_SOURCE, dv_provenance = TRUSTED_FINDING_PROVENANCE\<rparr>"
    "utf8_len (finding_summary (rf_type f) (rf_category f)) \<le> 500"
    "rf_type f = ''security'' \<Longrightarrow> rf_provenance f = ''connector_verified_security_scan'' \<and>
       rf_security_result f \<noteq> None \<and> \<not> not_matching (rf_scan_fingerprint f) \<and> rf_shortcut_result f = None \<and>
       rf_shortcut_fingerprint f = None \<and> rf_category f \<noteq> ''other''"
    "rf_type f = ''shortcut'' \<Longrightarrow> rf_provenance f = ''system_executed_shortcut_review'' \<and>
       rf_shortcut_result f \<noteq> None \<and> \<not> not_matching (rf_shortcut_fingerprint f) \<and> rf_security_result f = None \<and>
       rf_scan_fingerprint f = None \<and> rf_category f \<noteq> ''other''"
proof -
  have sec: "''other'' \<notin> set (butlast SECURITY_CATEGORIES)" and sho: "''other'' \<notin> set (butlast SHORTCUT_CATEGORIES)"
    by (simp_all add: SECURITY_CATEGORIES_def SHORTCUT_CATEGORIES_def)
  have nf: "\<not> is_fingerprint []" by (simp add: is_fingerprint_def)
  have st: "rf_status f = ''open''" and ty: "rf_type f = ''security'' \<or> rf_type f = ''shortcut''"
    using assms by (auto simp: derive_issue_from_finding_def Let_def split: if_splits)
  show "rf_status f = ''open''" "rf_type f = ''security'' \<or> rf_type f = ''shortcut''" by (fact st ty)+
  from ty show "d = \<lparr>dv_source_finding = rf_id f, dv_category = rf_type f, dv_severity = rf_severity f, dv_blocking = True,
       dv_blocking_category = expected_blocking_category f,
       dv_summary = finding_summary (rf_type f) (rf_category f), dv_detail = None,
       dv_source = FINDING_BRIDGE_SOURCE, dv_provenance = TRUSTED_FINDING_PROVENANCE\<rparr>"
    "utf8_len (finding_summary (rf_type f) (rf_category f)) \<le> 500"
    using assms by (auto simp: derive_issue_from_finding_def Let_def expected_blocking_category_def split: if_splits)
  show "rf_provenance f = ''connector_verified_security_scan'' \<and>
       rf_security_result f \<noteq> None \<and> \<not> not_matching (rf_scan_fingerprint f) \<and> rf_shortcut_result f = None \<and>
       rf_shortcut_fingerprint f = None \<and> rf_category f \<noteq> ''other''" if "rf_type f = ''security''"
    using assms that sec
    by (cases "rf_scan_fingerprint f") (auto simp: derive_issue_from_finding_def Let_def not_matching_def nf split: if_splits)
  show "rf_provenance f = ''system_executed_shortcut_review'' \<and>
       rf_shortcut_result f \<noteq> None \<and> \<not> not_matching (rf_shortcut_fingerprint f) \<and> rf_security_result f = None \<and>
       rf_scan_fingerprint f = None \<and> rf_category f \<noteq> ''other''" if "rf_type f = ''shortcut''"
    using assms that sho
    by (cases "rf_shortcut_fingerprint f") (auto simp: derive_issue_from_finding_def Let_def not_matching_def nf split: if_splits)
qed

lemma bridged_row_passes_guard:
  assumes "filter (\<lambda>f. rf_id f = i \<and> rf_tenant f = ctx_tenant ctx \<and> rf_project f = p) (rs_findings s) = [f]"
    and "derive_issue_from_finding f = Inr d"
  shows "issue_insert_guard s (bridged_row ctx p d clock s) = Inr ()"
proof -
  note dv = derivation_facts [OF assms(2)]
  have "f \<in> set [f]" by simp
  then have id: "rf_id f = i" unfolding assms(1) [symmetric] by simp
  have found: "List.find (\<lambda>g. rf_id g = i \<and> rf_tenant g = ctx_tenant ctx \<and> rf_project g = p) (rs_findings s) = Some f"
    by (rule filter_eq_single_find [OF assms(1)])
  have prov: "TRUSTED_FINDING_PROVENANCE \<noteq> CALLER_SUPPLIED_UNVERIFIED"
    by (simp add: TRUSTED_FINDING_PROVENANCE_def CALLER_SUPPLIED_UNVERIFIED_def)
  have src: "guard_source s (bridged_row ctx p d clock s) = Inr ()"
    using dv(1,2,4-6) by (auto simp: guard_source_def bridged_row_def dv(3) prov id found)
  have "rf_type f \<noteq> ''other''" using dv(2) by auto
  with src show ?thesis
    by (simp add: issue_insert_guard_def) (simp add: bridged_row_def dv(3))
qed

section \<open>A concrete history\<close>

definition sample_ctx :: tenant_context where
  "sample_ctx = \<lparr>ctx_tenant = 1, ctx_actor = Some \<lparr>actor_subject = ''ann'', actor_type = ''human''\<rparr>\<rparr>"

definition sample_store :: release_store where
  "sample_store = \<lparr>rs_db = empty_db, rs_findings = [], rs_issues = [], rs_issue_events = [], rs_risks = [],
     rs_risk_events = [], rs_candidates = [], rs_bindings = []\<rparr>"

definition issue_payload :: "string \<Rightarrow> pydict" where
  "issue_payload severity = [(''issue_category'', PStr ''security''), (''severity'', PStr severity),
     (''blocking'', PBool True), (''summary'', PStr ''leak''), (''source'', PStr ''review'')]"

definition risk_payload :: pydict where
  "risk_payload = [(''release_id'', PStr ''r1''), (''issue_id'', PStr (uuid_str 100)),
     (''subject_type'', PStr ''release_issue''), (''severity'', PStr ''low''),
     (''reason_for_acceptance'', PStr ''x''), (''business_impact'', PStr ''x''),
     (''rollback_or_mitigation_plan'', PStr ''x''), (''required_follow_up_ticket'', PStr ''x''),
     (''expiry_date'', PInt 9), (''owner'', PStr ''ann''), (''approver'', PStr ''ann''),
     (''accepted_by'', PList [PStr ''ann'']), (''approval_authority_source'', PStr ''approval_matrix'')]"

definition int_date :: "pyval \<Rightarrow> int option" where
  "int_date v = (case v of PInt n \<Rightarrow> Some n | _ \<Rightarrow> None)"

lemmas sample_defs = sample_ctx_def sample_store_def issue_payload_def risk_payload_def

definition created_issue :: "string \<Rightarrow> issue_row" where
  "created_issue severity =
     \<lparr>ri_id = 100, ri_tenant = 1, ri_project = 2, ri_category = ''security'', ri_severity = severity, ri_blocking = True,
      ri_blocking_category = None, ri_summary = ''leak'', ri_detail = None, ri_source = ''review'',
      ri_source_provenance = CALLER_SUPPLIED_UNVERIFIED, ri_source_finding = None, ri_status = IOpen,
      ri_risk_record = None, ri_resolution_note = None, ri_resolved_at = None, ri_resolved_by = None,
      ri_created_at = 0, ri_updated_at = 0\<rparr>"

lemma sample_created:
  assumes "sev \<in> {''low'', ''critical''}"
  shows "\<exists>s'. issue_create sample_ctx 2 (issue_payload sev) ''u'' 0 sample_store = Inr (created_issue sev, s') \<and>
    rs_issues s' = [created_issue sev] \<and> rs_risks s' = [] \<and> db_next_id (rs_db s') = 101"
proof -
  have v: "validate_new_issue (issue_payload sev) = Inr ()"
    using assms by (auto simp: validate_new_issue_def issue_payload_def REQUIRED_CREATE_FIELDS_def py_strip_def py_space_def
        str_in_def ISSUE_CATEGORIES_def SEVERITIES_def payload_hard_blocker_def)
  have g: "issue_insert_guard sample_store (created_issue sev) = Inr ()"
    by (simp add: issue_insert_guard_def guard_source_def created_issue_def)
  have "issue_create sample_ctx 2 (issue_payload sev) ''u'' 0 sample_store =
      insert_issue sample_ctx (created_issue sev) ''u'' sample_store"
    unfolding issue_create_def v by (simp add: issue_payload_def as_text_def as_text_opt_def created_issue_def
        sample_ctx_def sample_store_def empty_db_def)
  with g show ?thesis by (simp add: insert_issue_def) (simp add: sample_store_def empty_db_def)
qed

text \<open>A frozen candidate bound to the issue, the acceptance of it, and the accepted issue.\<close>

definition bound_store :: "release_store \<Rightarrow> release_store" where
  "bound_store s = s\<lparr>rs_db := rs_db s, rs_findings := [],
     rs_candidates := [\<lparr>rc_id = 7, rc_tenant = 1, rc_project = 2, rc_ref = ''r1'', rc_status = ''frozen''\<rparr>],
     rs_bindings := [\<lparr>rb_tenant = 1, rb_project = 2, rb_candidate = 7, rb_issue = 100\<rparr>]\<rparr>"

definition created_risk :: risk_row where
  "created_risk =
     \<lparr>ra_id = 101, ra_tenant = 1, ra_project = 2, ra_release_id = ''r1'', ra_issue_id = uuid_str 100,
      ra_subject_type = Some ''release_issue'', ra_severity = ''low'', ra_affected = [], ra_reason = ''x'',
      ra_impact = ''x'', ra_controls = [], ra_mitigation = ''x'', ra_evidence = [], ra_ticket = ''x'',
      ra_in_notes = False, ra_expiry = 9, ra_owner = ''ann'', ra_approver = ''ann'',
      ra_accepted_by = [PStr ''ann''], ra_authority_source = ''approval_matrix'', ra_blocking_category = None,
      ra_status = RActive, ra_provenance = REQUEST_AUTHENTICATED, ra_updated_at = 0\<rparr>"

lemma sample_risk:
  assumes "rs_issues s = [created_issue ''low'']" "rs_risks s = []" "db_next_id (rs_db s) = 101"
  shows "\<exists>s'. risk_create int_date sample_ctx 2 risk_payload ''u'' 0 (bound_store s) = Inr (created_risk, s') \<and>
    rs_issues s' = [created_issue ''low''] \<and> rs_risks s' = [created_risk] \<and>
    rs_candidates s' = rs_candidates (bound_store s) \<and> rs_bindings s' = rs_bindings (bound_store s)"
proof -
  have u: "parse_uuid (uuid_str 100) = Some 100" by (rule parse_uuid_str) simp
  have ne: "py_strip (uuid_str 100) \<noteq> []"
  proof
    assume "py_strip (uuid_str 100) = []"
    then have sp: "\<forall>c\<in>set (uuid_str 100). py_space c" by (simp add: py_strip_empty_iff)
    have "CHR ''-'' \<in> set (uuid_str 100)" by (simp add: uuid_str_def Let_def)
    with sp have "py_space (CHR ''-'')" by blast
    then show False by (simp add: py_space_def)
  qed
  have v: "validate_new_record risk_payload = Inr ()"
    using ne by (simp add: validate_new_record_def risk_payload_def RISK_REQUIRED_FIELDS_def is_empty_value_def
        str_in_def SEVERITIES_def SUBJECT_TYPES_def APPROVAL_AUTHORITY_SOURCE_def)
      (simp add: py_strip_def py_space_def)
  have b: "require_subject_binding sample_ctx 2 risk_payload (bound_store s) = Inr ()"
    by (simp add: require_subject_binding_def risk_payload_def u bound_store_def sample_ctx_def joined_bindings_def
        assms(1) created_issue_def subject_condition_def)
  have p: "signer_provenance sample_ctx risk_payload = Inr REQUEST_AUTHENTICATED"
    by (simp add: signer_provenance_def sample_ctx_def risk_payload_def)
  have r: "risk_row_of int_date sample_ctx 2 risk_payload REQUEST_AUTHENTICATED 101 0 = Inr created_risk"
    by (simp add: risk_row_of_def risk_payload_def list_or_empty_def as_text_def as_text_opt_def int_date_def
        created_risk_def sample_ctx_def)
  have g: "risk_insert_guard (bound_store s) created_risk = Inr ()"
    by (simp add: risk_insert_guard_def created_risk_def bound_store_def subject_bound_def assms(1) created_issue_def
        APPROVAL_AUTHORITY_SOURCE_def SUBJECT_TYPES_def)
  have "db_next_id (rs_db (bound_store s)) = 101" by (simp add: bound_store_def assms(3))
  then show ?thesis
    by (simp add: risk_create_def v b p r g) (simp add: log_risk_def bound_store_def assms)
qed

lemma sample_accepted:
  assumes "rs_issues s = [created_issue ''low'']" "rs_risks s = [created_risk]"
    "rs_candidates s = rs_candidates (bound_store t)" "rs_bindings s = rs_bindings (bound_store t)"
  shows "\<exists>r s'. issue_accept sample_ctx 100 101 ''u'' 5 0 s = Inr (r, s') \<and> r \<in> set (rs_issues s') \<and> ri_status r = IAccepted"
proof -
  let ?r = "(created_issue ''low'')\<lparr>ri_status := IAccepted, ri_risk_record := Some 101, ri_updated_at := 0\<rparr>"
  have "usable_acceptances s 5 ?r = 1"
    unfolding usable_acceptances_def assms(2-4)
    by (simp add: bound_store_def created_risk_def created_issue_def)
  then have g: "issue_update_guard s 5 (created_issue ''low'') ?r = Inr ()"
    by (simp add: issue_update_guard_def issue_identity_def)
      (simp add: created_issue_def is_hard_blocker_def is_critical_def)
  have "issue_get_or_raise sample_ctx 100 s = Inr (created_issue ''low'')"
    by (simp add: issue_get_or_raise_def issue_get_def assms(1) created_issue_def sample_ctx_def)
  moreover have "validate_issue_transition (ri_status (created_issue ''low'')) IAccepted = Inr ()"
    by (simp add: validate_issue_transition_def issue_transition_allowed_def created_issue_def)
  moreover have "\<not> is_hard_blocker (ri_severity (created_issue ''low'')) (ri_blocking_category (created_issue ''low''))"
    by (simp add: created_issue_def is_hard_blocker_def is_critical_def)
  ultimately show ?thesis
    using g by (simp add: issue_accept_def update_issue_def) (simp add: update_where_def assms(1))
qed

definition sample_finding :: finding_row where
  "sample_finding = \<lparr>rf_id = 40, rf_tenant = 1, rf_project = 2, rf_type = ''security'', rf_category = ''authz'',
     rf_severity = ''critical'', rf_status = ''open'', rf_provenance = ''connector_verified_security_scan'',
     rf_security_result = Some 6, rf_scan_fingerprint = Some (''sha256:'' @ replicate 64 (CHR ''a'')),
     rf_shortcut_result = None, rf_shortcut_fingerprint = None, rf_created_at = 0\<rparr>"

section \<open>Properties\<close>


text \<open>C38: Whatever the repositories do, for any tenant and in any order, an issue that is critical or in a
  hard-refusal category is blocking and is never accepted, and while it is open its project's count of
  open blocking issues is not zero.\<close>

theorem hard_blocker_never_accepted:
  assumes "release_reach s" "r \<in> set (rs_issues s)" "is_hard_blocker (ri_severity r) (ri_blocking_category r)"
  shows "ri_blocking r \<and> ri_status r \<noteq> IAccepted \<and>
    (ri_status r = IOpen \<longrightarrow> count_open_blocking \<lparr>ctx_tenant = ri_tenant r, ctx_actor = None\<rparr> (ri_project r) s > 0)"
proof -
  have b: "blocker_ok r" using reach_ok [OF assms(1)] assms(2) by (simp add: release_ok_def)
  with assms(3) have "ri_blocking r" "ri_status r \<noteq> IAccepted" by (simp_all add: blocker_ok_def)
  moreover have "count_open_blocking \<lparr>ctx_tenant = ri_tenant r, ctx_actor = None\<rparr> (ri_project r) s > 0"
    if "ri_status r = IOpen"
    using that assms(2) \<open>ri_blocking r\<close> by (auto simp: count_open_blocking_def count_issues_def filter_empty_conv)
  ultimately show ?thesis by simp
qed

lemma hard_blocker_never_accepted_witness:
  "\<exists>s. release_reach s \<and> count_open_blocking \<lparr>ctx_tenant = 1, ctx_actor = None\<rparr> 2 s > 0"
proof -
  obtain s where c: "issue_create sample_ctx 2 (issue_payload ''critical'') ''u'' 0 sample_store =
      Inr (created_issue ''critical'', s)" "rs_issues s = [created_issue ''critical'']"
    using sample_created [of "''critical''"] by auto
  have "release_reach sample_store" by (rule reach_start) (simp_all add: sample_store_def)
  then have reach: "release_reach s" using c(1) by (rule reach_create)
  with hard_blocker_never_accepted [OF reach, of "created_issue ''critical''"] show ?thesis
    by (intro exI [of _ s]) (simp add: c(2) created_issue_def is_hard_blocker_def is_critical_def)
qed

text \<open>A recorded risk acceptance never covers a hard-refusal category, its subject is an issue or finding
  bound to one frozen candidate of the named release and written in canonical form, and it carries the
  authenticated tier exactly when a verified principal made it, who is then the approver and among
  those who accepted.\<close>

theorem risk_acceptance_is_signed:
  assumes "risk_create as_date ctx p payload actor clock s = Inr (a, s')"
  shows "ra_blocking_category a \<notin> Some ` set HARD_REFUSAL_CATEGORIES \<and>
    (\<exists>c\<in>set (rs_candidates s). rc_ref c = ra_release_id a \<and> rc_status c = ''frozen'' \<and> rc_tenant c = ctx_tenant ctx \<and>
       rc_project c = p \<and> subject_bound s a c) \<and>
    (\<exists>u. ra_issue_id a = uuid_str u) \<and>
    (case ctx_actor ctx of
       None \<Rightarrow> ra_provenance a = CALLER_SUPPLIED_UNVERIFIED
     | Some who \<Rightarrow> ra_provenance a = REQUEST_AUTHENTICATED \<and> ra_approver a = actor_subject who \<and>
         PStr (actor_subject who) \<in> set (ra_accepted_by a))"
proof -
  note f = risk_create_facts [OF assms]
  have g: "risk_insert_guard s a = Inr ()" using f by simp
  then have one: "length (filter (\<lambda>c. rc_tenant c = ra_tenant a \<and> rc_project c = ra_project a \<and>
      rc_ref c = ra_release_id a \<and> rc_status c = ''frozen'' \<and> subject_bound s a c) (rs_candidates s)) = 1"
    by (simp add: risk_insert_guard_def)
  then have "filter (\<lambda>c. rc_tenant c = ra_tenant a \<and> rc_project c = ra_project a \<and>
      rc_ref c = ra_release_id a \<and> rc_status c = ''frozen'' \<and> subject_bound s a c) (rs_candidates s) \<noteq> []" by auto
  then obtain c where c: "c \<in> set (rs_candidates s)" "rc_tenant c = ctx_tenant ctx" "rc_project c = p"
      "rc_ref c = ra_release_id a" "rc_status c = ''frozen''" "subject_bound s a c"
    using f unfolding filter_empty_conv by auto
  moreover have "\<exists>u. uuid_str u = ra_issue_id a" using c(6) unfolding subject_bound_def by blast
  then have "\<exists>u. ra_issue_id a = uuid_str u" by metis
  moreover have "ra_blocking_category a \<notin> Some ` set HARD_REFUSAL_CATEGORIES"
    using g by (simp add: risk_insert_guard_def)
  moreover have "case ctx_actor ctx of
       None \<Rightarrow> ra_provenance a = CALLER_SUPPLIED_UNVERIFIED
     | Some who \<Rightarrow> ra_provenance a = REQUEST_AUTHENTICATED \<and> ra_approver a = actor_subject who \<and>
         PStr (actor_subject who) \<in> set (ra_accepted_by a)"
    using f by (auto simp: signer_provenance_def split: option.splits if_splits)
  ultimately show ?thesis by blast
qed

text \<open>C39: In every reachable store an accepted issue names an acceptance of that very issue, of the same
  tenant and project, outside every blocking category; later revocations and expiries change its
  status, never what it covers.\<close>

theorem accepted_issue_is_covered:
  assumes "release_reach s" "r \<in> set (rs_issues s)" "ri_status r = IAccepted"
  shows "\<exists>a\<in>set (rs_risks s). Some (ra_id a) = ri_risk_record r \<and> ra_tenant a = ri_tenant r \<and>
    ra_project a = ri_project r \<and> ra_issue_id a = uuid_str (ri_id r) \<and> ra_subject_type a = Some ''release_issue'' \<and>
    ra_blocking_category a = None"
  using reach_ok [OF assms(1)] assms(2,3) unfolding release_ok_def accepted_by_record_def by blast

text \<open>C40: The two halves of the bridge agree: an open finding whose trusted shape the code accepts always
  passes the database guard, the stored issue is the derived one, open and blocking, and bridging the
  finding again returns that issue and changes nothing.\<close>

theorem bridge_total_and_idempotent:
  assumes "filter (\<lambda>f. rf_id f = i \<and> rf_tenant f = ctx_tenant ctx \<and> rf_project f = p) (rs_findings s) = [f]"
    and "derive_issue_from_finding f = Inr d" "get_by_source_finding ctx i s = Inr None"
  shows "\<exists>row s'. create_from_trusted_finding ctx p i actor clock s = Inr (row, s') \<and>
    rs_issues s' = rs_issues s @ [row] \<and> material_matches row d \<and> ri_blocking row \<and> ri_status row = IOpen \<and>
    create_from_trusted_finding ctx p i actor2 clock2 s' = Inr (row, s')"
proof -
  let ?row = "bridged_row ctx p d clock s"
  note dv = derivation_facts [OF assms(2)]
  have "f \<in> set [f]" by simp
  then have id: "rf_id f = i" unfolding assms(1) [symmetric] by simp
  have g: "issue_insert_guard s ?row = Inr ()" by (rule bridged_row_passes_guard [OF assms(1,2)])
  obtain s' where s': "insert_issue ctx ?row actor s = Inr (?row, s')" "rs_issues s' = rs_issues s @ [?row]"
      "rs_findings s' = rs_findings s"
    using g by (simp add: insert_issue_def)
  have row: "ri_source_finding ?row = Some i" "ri_tenant ?row = ctx_tenant ctx" "ri_blocking ?row" "ri_status ?row = IOpen"
    "material_matches ?row d"
    by (simp_all add: bridged_row_def dv(3) id material_matches_def)
  have "filter (\<lambda>r. ri_tenant r = ctx_tenant ctx \<and> ri_source_finding r = Some i) (rs_issues s) = []"
    using assms(3) by (simp add: get_by_source_finding_def scalar_one_or_none_iff)
  then have again: "get_by_source_finding ctx i s' = Inr (Some ?row)"
    using row by (simp add: get_by_source_finding_def s'(2))
  have "create_from_trusted_finding ctx p i actor clock s = Inr (?row, s')"
    by (simp add: create_from_trusted_finding_def assms s'(1))
  moreover have "create_from_trusted_finding ctx p i actor2 clock2 s' = Inr (?row, s')"
    using row(5) by (simp add: create_from_trusted_finding_def assms(1,2) s'(3) again require_material_match_def)
  ultimately show ?thesis using s'(2) row by blast
qed

lemma bridge_total_and_idempotent_witness:
  "\<exists>row s'. create_from_trusted_finding sample_ctx 2 40 ''u'' 0 (sample_store\<lparr>rs_findings := [sample_finding]\<rparr>) =
     Inr (row, s') \<and> ri_blocking row"
proof -
  let ?s = "sample_store\<lparr>rs_findings := [sample_finding]\<rparr>"
  have f: "filter (\<lambda>f. rf_id f = 40 \<and> rf_tenant f = ctx_tenant sample_ctx \<and> rf_project f = 2) (rs_findings ?s) =
      [sample_finding]"
    by (simp add: sample_finding_def sample_ctx_def)
  have d: "\<exists>d. derive_issue_from_finding sample_finding = Inr d"
    by (simp add: derive_issue_from_finding_def sample_finding_def SEVERITIES_def SECURITY_CATEGORIES_def
        is_fingerprint_def hex_digits_def finding_summary_def utf8_len_def)
  have "get_by_source_finding sample_ctx 40 ?s = Inr None"
    by (simp add: get_by_source_finding_def sample_store_def)
  with d bridge_total_and_idempotent [OF f] show ?thesis by metis
qed

lemma risk_acceptance_is_signed_witness:
  "\<exists>a s s'. risk_create int_date sample_ctx 2 risk_payload ''u'' 0 s = Inr (a, s') \<and>
     ra_provenance a = REQUEST_AUTHENTICATED \<and> ra_approver a = ''ann''"
proof -
  have "\<exists>s::release_store. rs_issues s = [created_issue ''low''] \<and> rs_risks s = [] \<and> db_next_id (rs_db s) = 101"
    using sample_created [of "''low''"] by blast
  then obtain s :: release_store where "rs_issues s = [created_issue ''low'']" "rs_risks s = []" "db_next_id (rs_db s) = 101" by blast
  from sample_risk [OF this] obtain s' where
    r: "risk_create int_date sample_ctx 2 risk_payload ''u'' 0 (bound_store s) = Inr (created_risk, s')" by blast
  from risk_acceptance_is_signed [OF r] r show ?thesis
    by (intro exI [of _ created_risk] exI [of _ "bound_store s"] exI [of _ s']) (simp add: sample_ctx_def)
qed

lemma accepted_issue_is_covered_witness:
  "\<exists>s r. release_reach s \<and> r \<in> set (rs_issues s) \<and> ri_status r = IAccepted \<and>
     (\<exists>a\<in>set (rs_risks s). Some (ra_id a) = ri_risk_record r)"
proof -
  have r0: "release_reach sample_store" by (rule reach_start) (simp_all add: sample_store_def)
  obtain s1 where s1: "issue_create sample_ctx 2 (issue_payload ''low'') ''u'' 0 sample_store = Inr (created_issue ''low'', s1)"
      "rs_issues s1 = [created_issue ''low'']" "rs_risks s1 = []" "db_next_id (rs_db s1) = 101"
    using sample_created [of "''low''"] by auto
  have r1: "release_reach s1" by (rule reach_create [OF r0 s1(1)])
  have r2: "release_reach (bound_store s1)"
    unfolding bound_store_def by (rule reach_other [OF r1]) simp
  from sample_risk [OF s1(2-4)] obtain s3 where s3:
    "risk_create int_date sample_ctx 2 risk_payload ''u'' 0 (bound_store s1) = Inr (created_risk, s3)"
    "rs_issues s3 = [created_issue ''low'']" "rs_risks s3 = [created_risk]"
    "rs_candidates s3 = rs_candidates (bound_store s1)" "rs_bindings s3 = rs_bindings (bound_store s1)" by blast
  have r3: "release_reach s3" by (rule reach_risk [OF r2 s3(1)])
  from sample_accepted [OF s3(2-5)] obtain r s4 where s4:
    "issue_accept sample_ctx 100 101 ''u'' 5 0 s3 = Inr (r, s4)" "r \<in> set (rs_issues s4)" "ri_status r = IAccepted" by blast
  have r4: "release_reach s4" by (rule reach_accept [OF r3 s4(1)])
  from accepted_issue_is_covered [OF r4 s4(2,3)] r4 s4(2,3) show ?thesis by blast
qed

end
