(* ===== verification/Task_Contracts.thy ===== *)
theory Task_Contracts
  imports Tools
begin

text \<open>
  Task contracts and the review workflow (\<open>app/review/task_contracts.py\<close>, \<open>workflow.py\<close>): the
  validators of a new contract and of a review report, the transition matrix, and the done gate
  over the registered reviewers.
\<close>

section \<open>Vocabulary\<close>

definition RISK_LEVELS :: "string list" where
  "RISK_LEVELS = [''low'', ''medium'', ''high'', ''critical'']"

definition REVIEW_LAYERS :: "string list" where
  "REVIEW_LAYERS = [''role_specific'', ''cross_functional'', ''acceptance'']"

definition ARTIFACT_LINK_KINDS :: "(string \<times> string) list" where
  "ARTIFACT_LINK_KINDS =
     [(''source_requirement'', ''requirement''),
      (''acceptance_criterion'', ''acceptance_criterion''),
      (''test_oracle'', ''test_oracle'')]"

definition MAX_TITLE :: nat where "MAX_TITLE = 200"

definition MAX_DESCRIPTION :: nat where "MAX_DESCRIPTION = 4000"

definition MAX_LIST_ITEMS :: nat where "MAX_LIST_ITEMS = 32"

definition MAX_ITEM_CHARS :: nat where "MAX_ITEM_CHARS = 500"

definition MAX_TOOLS :: nat where "MAX_TOOLS = 64"

definition MAX_REVIEWERS :: nat where "MAX_REVIEWERS = 16"

definition MAX_TOOL_NAME_CHARS :: nat where "MAX_TOOL_NAME_CHARS = 128"

definition MAX_SUMMARY :: nat where "MAX_SUMMARY = 2000"

definition MAX_REPORT_SOURCE :: nat where "MAX_REPORT_SOURCE = 100"

definition REVIEW_RULESET_VERSION :: string where "REVIEW_RULESET_VERSION = ''slice42.v1''"

definition VERDICTS :: "string list" where
  "VERDICTS = [''approved'', ''rejected_with_required_changes'']"

definition SOURCE_PROVENANCES :: "string list" where
  "SOURCE_PROVENANCES = [''caller_supplied_unverified'']"

text \<open>\<open>ReviewInvalid\<close> is a \<open>ValueError\<close> of the code; \<open>ReviewRefused\<close> an exception the database raises.\<close>

datatype review_error = ReviewInvalid string | ReviewRefused string

lemmas review_caps = MAX_TITLE_def MAX_DESCRIPTION_def MAX_LIST_ITEMS_def MAX_ITEM_CHARS_def
  MAX_TOOLS_def MAX_REVIEWERS_def MAX_TOOL_NAME_CHARS_def MAX_SUMMARY_def MAX_REPORT_SOURCE_def

section \<open>Texts\<close>

definition bounded_text :: "nat \<Rightarrow> string \<Rightarrow> bool" where
  "bounded_text cap s = (1 \<le> length s \<and> length s \<le> cap \<and> py_strip s \<noteq> [])"

definition require_text :: "string \<Rightarrow> pyval \<Rightarrow> nat \<Rightarrow> review_error + unit" where
  "require_text label v cap =
     check (case v of PStr s \<Rightarrow> bounded_text cap s | _ \<Rightarrow> False)
       (ReviewInvalid (label @ '' must be a non-blank string''))"

text \<open>The elements of a list or tuple.\<close>

fun py_items :: "pyval \<Rightarrow> pyval list option" where
  "py_items (PList xs) = Some xs"
| "py_items (PTuple xs) = Some xs"
| "py_items _ = None"

definition require_text_list :: "string \<Rightarrow> pyval \<Rightarrow> nat \<Rightarrow> nat \<Rightarrow> review_error + unit" where
  "require_text_list label v max_items max_chars =
     (case py_items v of
        None \<Rightarrow> Inl (ReviewInvalid (label @ '' must be a list of strings''))
      | Some xs \<Rightarrow>
          bindE (check (length xs \<le> max_items) (ReviewInvalid (label @ '' must have fewer items''))) (\<lambda>_.
            for_each (\<lambda>item. require_text (label @ '' item'') item max_chars) xs))"

text \<open>What \<open>list(value)\<close> stores of a validated list.\<close>

definition texts_of :: "pyval \<Rightarrow> string list" where
  "texts_of v = List.map_filter (\<lambda>x. case x of PStr s \<Rightarrow> Some s | _ \<Rightarrow> None)
     (case py_items v of None \<Rightarrow> [] | Some xs \<Rightarrow> xs)"

section \<open>A new contract\<close>

definition ref_start :: "char \<Rightarrow> bool" where
  "ref_start c = (let n = (of_char c :: nat) in (48 \<le> n \<and> n \<le> 57) \<or> (65 \<le> n \<and> n \<le> 90) \<or> (97 \<le> n \<and> n \<le> 122))"

definition ref_char :: "char \<Rightarrow> bool" where
  "ref_char c = (ref_start c \<or> c \<in> set ''._-'')"

text \<open>
  \<open>TASK_REF_RE.match\<close> with \<open>^[A-Za-z0-9][A-Za-z0-9._-]{0,63}$\<close>: a \<open>$\<close> also matches before one
  final newline.
\<close>

definition ref_matches :: "string \<Rightarrow> bool" where
  "ref_matches t = (t \<noteq> [] \<and> ref_start (hd t) \<and> list_all ref_char (tl t) \<and> length t \<le> 64)"

definition task_ref_ok :: "pyval \<Rightarrow> bool" where
  "task_ref_ok v =
     (case v of
        PStr s \<Rightarrow> ref_matches s \<or> s \<noteq> [] \<and> last s = CHR 0x0A \<and> ref_matches (butlast s)
      | _ \<Rightarrow> False)"

definition validate_artifact_link :: "string \<Rightarrow> review_error + unit" where
  "validate_artifact_link link_kind =
     check (link_kind \<in> fst ` set ARTIFACT_LINK_KINDS) (ReviewInvalid ''unknown link_kind'')"

record contract_args =
  nc_task_ref :: pyval
  nc_title :: pyval
  nc_description :: pyval
  nc_must_have :: pyval
  nc_must_not_do :: pyval
  nc_required_evidence :: pyval
  nc_definition_of_done :: pyval
  nc_allowed_tools :: pyval
  nc_forbidden_tools :: pyval
  nc_risk_level :: pyval

definition validate_new_contract :: "contract_args \<Rightarrow> review_error + unit" where
  "validate_new_contract a =
     bindE (check (task_ref_ok (nc_task_ref a)) (ReviewInvalid ''invalid task_ref'')) (\<lambda>_.
     bindE (require_text ''title'' (nc_title a) MAX_TITLE) (\<lambda>_.
     bindE (require_text ''description'' (nc_description a) MAX_DESCRIPTION) (\<lambda>_.
     bindE (check (str_in (nc_risk_level a) RISK_LEVELS) (ReviewInvalid ''unknown risk_level'')) (\<lambda>_.
     bindE (for_each (\<lambda>(label, v). require_text_list label v MAX_LIST_ITEMS MAX_ITEM_CHARS)
              [(''must_have'', nc_must_have a), (''must_not_do'', nc_must_not_do a),
               (''required_evidence'', nc_required_evidence a),
               (''definition_of_done'', nc_definition_of_done a)]) (\<lambda>_.
     bindE (for_each (\<lambda>(label, v). require_text_list label v MAX_TOOLS MAX_TOOL_NAME_CHARS)
              [(''allowed_tools'', nc_allowed_tools a), (''forbidden_tools'', nc_forbidden_tools a)]) (\<lambda>_.
     let allowed = texts_of (nc_allowed_tools a); forbidden = texts_of (nc_forbidden_tools a) in
     bindE (for_each (\<lambda>tool. check (get_contract tool \<noteq> None) (ReviewInvalid (''unknown tool: '' @ tool)))
              (allowed @ forbidden)) (\<lambda>_.
       check (set allowed \<inter> set forbidden = {})
         (ReviewInvalid ''allowed_tools and forbidden_tools overlap''))))))))"

section \<open>Statuses\<close>

datatype contract_status =
    Draft | ReadyForDevelopment | InProgress | SpecialistReview | ChangesRequested | Done | Canceled | Superseded

fun contract_status_value :: "contract_status \<Rightarrow> string" where
  "contract_status_value Draft = ''draft''"
| "contract_status_value ReadyForDevelopment = ''ready_for_development''"
| "contract_status_value InProgress = ''in_progress''"
| "contract_status_value SpecialistReview = ''specialist_review''"
| "contract_status_value ChangesRequested = ''changes_requested''"
| "contract_status_value Done = ''done''"
| "contract_status_value Canceled = ''canceled''"
| "contract_status_value Superseded = ''superseded''"

definition CONTRACT_STATUSES :: "contract_status list" where
  "CONTRACT_STATUSES = [Draft, ReadyForDevelopment, InProgress, SpecialistReview, ChangesRequested, Done,
     Canceled, Superseded]"

fun TASK_TRANSITIONS :: "contract_status \<Rightarrow> contract_status list" where
  "TASK_TRANSITIONS Draft = [ReadyForDevelopment, Canceled]"
| "TASK_TRANSITIONS ReadyForDevelopment = [InProgress, Canceled]"
| "TASK_TRANSITIONS InProgress = [SpecialistReview, Canceled]"
| "TASK_TRANSITIONS SpecialistReview = [ChangesRequested, Done, Canceled]"
| "TASK_TRANSITIONS ChangesRequested = [InProgress, Canceled]"
| "TASK_TRANSITIONS Done = [Superseded]"
| "TASK_TRANSITIONS Canceled = []"
| "TASK_TRANSITIONS Superseded = []"

definition REPORTABLE_STATUSES :: "contract_status list" where
  "REPORTABLE_STATUSES = [InProgress, SpecialistReview, ChangesRequested]"

definition status_named :: "string \<Rightarrow> contract_status option" where
  "status_named s = List.find (\<lambda>c. contract_status_value c = s) CONTRACT_STATUSES"

definition validate_task_transition :: "string \<Rightarrow> string \<Rightarrow> review_error + unit" where
  "validate_task_transition current new =
     (case status_named current of
        None \<Rightarrow> Inl (ReviewInvalid ''unknown status'')
      | Some c \<Rightarrow>
          (case status_named new of
             None \<Rightarrow> Inl (ReviewInvalid ''unknown status'')
           | Some n \<Rightarrow>
               bindE (check (new \<noteq> current) (ReviewInvalid ''same-status transition refused'')) (\<lambda>_.
                 check (n \<in> set (TASK_TRANSITIONS c)) (ReviewInvalid ''illegal transition''))))"

section \<open>Review reports\<close>

record report_args =
  nr_verdict :: pyval
  nr_summary :: pyval
  nr_failed_criteria :: pyval
  nr_suspected_shortcuts :: pyval
  nr_required_changes :: pyval
  nr_source :: pyval
  nr_source_provenance :: pyval

definition validate_review_report :: "report_args \<Rightarrow> review_error + unit" where
  "validate_review_report a =
     bindE (check (str_in (nr_verdict a) VERDICTS) (ReviewInvalid ''unknown verdict'')) (\<lambda>_.
     bindE (check (str_in (nr_source_provenance a) SOURCE_PROVENANCES)
              (ReviewInvalid ''unsupported source_provenance'')) (\<lambda>_.
     bindE (require_text ''summary'' (nr_summary a) MAX_SUMMARY) (\<lambda>_.
     bindE (require_text ''source'' (nr_source a) MAX_REPORT_SOURCE) (\<lambda>_.
     bindE (for_each (\<lambda>(label, v). require_text_list label v MAX_LIST_ITEMS MAX_ITEM_CHARS)
              [(''failed_criteria'', nr_failed_criteria a),
               (''suspected_shortcuts'', nr_suspected_shortcuts a),
               (''required_changes'', nr_required_changes a)]) (\<lambda>_.
       if nr_verdict a = PStr ''approved''
       then check (\<not> (py_truthy (nr_failed_criteria a) \<or> py_truthy (nr_suspected_shortcuts a) \<or>
                       py_truthy (nr_required_changes a)))
              (ReviewInvalid ''approved requires empty failed/shortcut/change lists'')
       else check (py_truthy (nr_failed_criteria a) \<and> py_truthy (nr_required_changes a))
              (ReviewInvalid ''rejected_with_required_changes requires failed_criteria and required_changes''))))))"

section \<open>The done gate\<close>

record registration_view =
  gv_layer :: string
  gv_reviewer :: string
  gv_latest :: "string option"

record done_gate_decision =
  dg_eligible :: bool
  dg_missing :: "string list"
  dg_pending :: "(string \<times> string) list"
  dg_rejected :: "(string \<times> string) list"

fun done_gate_loop ::
  "registration_view list \<Rightarrow> string set \<Rightarrow> (string \<times> string) list \<Rightarrow> (string \<times> string) list \<Rightarrow>
     review_error + (string set \<times> (string \<times> string) list \<times> (string \<times> string) list)" where
  "done_gate_loop [] covered pending rejected = Inr (covered, pending, rejected)"
| "done_gate_loop (reg # regs) covered pending rejected =
     (if gv_layer reg \<notin> set REVIEW_LAYERS then Inl (ReviewInvalid ''unknown layer'')
      else (case gv_latest reg of
              None \<Rightarrow>
                done_gate_loop regs (insert (gv_layer reg) covered)
                  (pending @ [(gv_layer reg, gv_reviewer reg)]) rejected
            | Some v \<Rightarrow>
                if v \<notin> set VERDICTS then Inl (ReviewInvalid ''unknown verdict'')
                else done_gate_loop regs (insert (gv_layer reg) covered) pending
                       (if v \<noteq> ''approved'' then rejected @ [(gv_layer reg, gv_reviewer reg)] else rejected)))"

definition evaluate_done_gate :: "registration_view list \<Rightarrow> review_error + done_gate_decision" where
  "evaluate_done_gate registrations =
     bindE (done_gate_loop registrations {} [] []) (\<lambda>(covered, pending, rejected).
       let missing = filter (\<lambda>layer. layer \<notin> covered) REVIEW_LAYERS in
       Inr \<lparr>dg_eligible = (missing = [] \<and> pending = [] \<and> rejected = []),
            dg_missing = missing, dg_pending = pending, dg_rejected = rejected\<rparr>)"

definition pair_list :: "(string \<times> string) list \<Rightarrow> pyval" where
  "pair_list ps = PList (map (\<lambda>(a, b). PList [PStr a, PStr b]) ps)"

definition done_gate_to_dict :: "done_gate_decision \<Rightarrow> pydict" where
  "done_gate_to_dict d =
     [(''eligible'', PBool (dg_eligible d)),
      (''missing_layers'', str_list (dg_missing d)),
      (''pending_registrations'', pair_list (dg_pending d)),
      (''rejected_registrations'', pair_list (dg_rejected d)),
      (''ruleset_version'', PStr REVIEW_RULESET_VERSION)]"

section \<open>Lemmas\<close>

lemma require_text_Inr [simp]:
  "require_text l v cap = Inr u \<longleftrightarrow> (\<exists>s. v = PStr s \<and> bounded_text cap s)"
  by (cases v) (simp_all add: require_text_def)

lemma all_texts_iff:
  "(\<forall>y\<in>set ys. \<exists>s. y = PStr s \<and> P s) \<longleftrightarrow> (\<exists>xs. ys = map PStr xs \<and> (\<forall>s\<in>set xs. P s))"
proof
  assume all: "\<forall>y\<in>set ys. \<exists>s. y = PStr s \<and> P s"
  then obtain xs where "ys = map PStr xs" by (metis ex_map_conv)
  with all show "\<exists>xs. ys = map PStr xs \<and> (\<forall>s\<in>set xs. P s)" by auto
qed auto

lemma require_text_list_Inr:
  "require_text_list l v n m = Inr u \<longleftrightarrow>
     (\<exists>xs. py_items v = Some (map PStr xs) \<and> length xs \<le> n \<and> (\<forall>s\<in>set xs. bounded_text m s))"
proof (cases "py_items v")
  case (Some ys)
  have "require_text_list l v n m = Inr u \<longleftrightarrow> length ys \<le> n \<and> (\<forall>y\<in>set ys. \<exists>s. y = PStr s \<and> bounded_text m s)"
    by (simp add: require_text_list_def Some)
  then show ?thesis
    unfolding all_texts_iff Some by auto
qed (simp add: require_text_list_def)

lemma map_filter_PStr [simp]:
  "List.map_filter (\<lambda>x. case x of PStr s \<Rightarrow> Some s | _ \<Rightarrow> None) (map PStr xs) = xs"
  by (induction xs) simp_all

lemma texts_of_items [simp]: "py_items v = Some (map PStr xs) \<Longrightarrow> texts_of v = xs"
  by (simp add: texts_of_def)

lemma texts_of_truthy: "py_items v = Some (map PStr xs) \<Longrightarrow> py_truthy v \<longleftrightarrow> texts_of v \<noteq> []"
  by (cases v) (auto simp: texts_of_def py_truthy_def)

lemma status_named_value [simp]: "status_named (contract_status_value c) = Some c"
  by (cases c) (simp_all add: status_named_def CONTRACT_STATUSES_def)

lemma contract_status_value_inj [simp]: "contract_status_value a = contract_status_value b \<longleftrightarrow> a = b"
  by (metis status_named_value option.inject)

lemma no_self_transition [simp]: "c \<notin> set (TASK_TRANSITIONS c)"
  by (cases c) simp_all

lemma validate_task_transition_Inr [simp]:
  "validate_task_transition (contract_status_value a) (contract_status_value b) = Inr u \<longleftrightarrow>
     b \<in> set (TASK_TRANSITIONS a)"
  by (auto simp: validate_task_transition_def)

text \<open>The loop of the done gate collects exactly the layers, and the pending and rejected registrations.\<close>

definition view_ok :: "registration_view \<Rightarrow> bool" where
  "view_ok r = (gv_layer r \<in> set REVIEW_LAYERS \<and> (case gv_latest r of None \<Rightarrow> True | Some v \<Rightarrow> v \<in> set VERDICTS))"

lemma done_gate_loop_ok:
  "list_all view_ok regs \<Longrightarrow> done_gate_loop regs covered pending rejected =
     Inr (covered \<union> gv_layer ` set regs,
          pending @ map (\<lambda>r. (gv_layer r, gv_reviewer r)) (filter (\<lambda>r. gv_latest r = None) regs),
          rejected @ map (\<lambda>r. (gv_layer r, gv_reviewer r))
            (filter (\<lambda>r. gv_latest r \<noteq> None \<and> gv_latest r \<noteq> Some ''approved'') regs))"
  by (induction regs arbitrary: covered pending rejected) (auto simp: view_ok_def split: option.splits)

lemma done_gate_loop_bad:
  "\<not> list_all view_ok regs \<Longrightarrow> \<exists>e. done_gate_loop regs covered pending rejected = Inl e"
  by (induction regs arbitrary: covered pending rejected) (auto simp: view_ok_def split: option.splits)

text \<open>
  The gate is open exactly when every layer has a registration and the latest verdict of every
  registration is an approval; unknown layers and verdicts raise.
\<close>

lemma evaluate_done_gate_eligible:
  "(\<exists>d. evaluate_done_gate regs = Inr d \<and> dg_eligible d) \<longleftrightarrow>
     set REVIEW_LAYERS \<subseteq> gv_layer ` set regs \<and>
     (\<forall>r\<in>set regs. gv_layer r \<in> set REVIEW_LAYERS \<and> gv_latest r = Some ''approved'')"
proof (cases "list_all view_ok regs")
  case True
  then show ?thesis
    by (fastforce simp: evaluate_done_gate_def done_gate_loop_ok filter_empty_conv list_all_iff view_ok_def)
next
  case False
  then obtain r where r: "r \<in> set regs" "\<not> view_ok r" by (auto simp: list_all_iff)
  obtain e where e: "done_gate_loop regs {} [] [] = Inl e"
    using done_gate_loop_bad [OF False] by blast
  have "\<not> (gv_layer r \<in> set REVIEW_LAYERS \<and> gv_latest r = Some ''approved'')"
    using r(2) by (auto simp: view_ok_def VERDICTS_def)
  with r(1) show ?thesis by (auto simp: evaluate_done_gate_def e)
qed

text \<open>A validated approval has empty lists, a validated rejection names criteria and changes.\<close>

lemma validate_review_report_facts:
  assumes "validate_review_report a = Inr u"
  shows "\<exists>v fs ss cs. nr_verdict a = PStr v \<and> v \<in> set VERDICTS \<and>
    texts_of (nr_failed_criteria a) = fs \<and> texts_of (nr_suspected_shortcuts a) = ss \<and>
    texts_of (nr_required_changes a) = cs \<and>
    (if v = ''approved'' then fs = [] \<and> ss = [] \<and> cs = [] else fs \<noteq> [] \<and> cs \<noteq> []) \<and>
    (\<forall>xs\<in>{fs, ss, cs}. length xs \<le> MAX_LIST_ITEMS \<and> (\<forall>s\<in>set xs. bounded_text MAX_ITEM_CHARS s))"
proof -
  from assms have v: "str_in (nr_verdict a) VERDICTS"
    and l: "require_text_list ''failed_criteria'' (nr_failed_criteria a) MAX_LIST_ITEMS MAX_ITEM_CHARS = Inr ()"
      "require_text_list ''suspected_shortcuts'' (nr_suspected_shortcuts a) MAX_LIST_ITEMS MAX_ITEM_CHARS = Inr ()"
      "require_text_list ''required_changes'' (nr_required_changes a) MAX_LIST_ITEMS MAX_ITEM_CHARS = Inr ()"
    and c: "if nr_verdict a = PStr ''approved''
       then \<not> (py_truthy (nr_failed_criteria a) \<or> py_truthy (nr_suspected_shortcuts a) \<or> py_truthy (nr_required_changes a))
       else py_truthy (nr_failed_criteria a) \<and> py_truthy (nr_required_changes a)"
    by (auto simp: validate_review_report_def split: if_splits)
  obtain fs ss cs where
    f: "py_items (nr_failed_criteria a) = Some (map PStr fs)" "length fs \<le> MAX_LIST_ITEMS" "\<forall>s\<in>set fs. bounded_text MAX_ITEM_CHARS s"
    and s: "py_items (nr_suspected_shortcuts a) = Some (map PStr ss)" "length ss \<le> MAX_LIST_ITEMS" "\<forall>s\<in>set ss. bounded_text MAX_ITEM_CHARS s"
    and r: "py_items (nr_required_changes a) = Some (map PStr cs)" "length cs \<le> MAX_LIST_ITEMS" "\<forall>s\<in>set cs. bounded_text MAX_ITEM_CHARS s"
    using l unfolding require_text_list_Inr by blast
  obtain v where v': "nr_verdict a = PStr v" "v \<in> set VERDICTS" using v by (auto simp: str_in_iff)
  show ?thesis
    using c f(2,3) s(2,3) r(2,3)
    unfolding v' texts_of_truthy [OF f(1)] texts_of_truthy [OF s(1)] texts_of_truthy [OF r(1)]
      texts_of_items [OF f(1)] texts_of_items [OF s(1)] texts_of_items [OF r(1)]
    using v'(2) by (intro exI [of _ v] exI [of _ fs] exI [of _ ss] exI [of _ cs]) (auto split: if_splits)
qed

end
