(* ===== verification/Task_Workflow.thy ===== *)
theory Task_Workflow
  imports Task_Contracts Intake
begin

text \<open>
  The task-contract and review-report repositories (\<open>app/repositories/task_contracts.py\<close>,
  \<open>review_reports.py\<close>) over the tables of migration \<open>0041\<close> with the guards that migration puts on
  them.  The invariant shows what a completed task rests on: requirement links, reviewers of every
  layer who are not the builder, and an approval as each reviewer's latest word.
\<close>

section \<open>Rows\<close>

record version_row =
  ve_id :: uuid
  ve_blueprint :: uuid

record agent_row = instance_row +
  in_version :: uuid

record contract_row =
  tk_id :: uuid
  tk_tenant :: uuid
  tk_project :: uuid
  tk_ref :: string
  tk_title :: string
  tk_description :: string
  tk_must_have :: "string list"
  tk_must_not_do :: "string list"
  tk_evidence :: "string list"
  tk_definition_of_done :: "string list"
  tk_allowed_tools :: "string list"
  tk_forbidden_tools :: "string list"
  tk_risk :: string
  tk_builder :: uuid
  tk_status :: contract_status
  tk_created_at :: timestamp
  tk_updated_at :: timestamp

record link_row =
  tl_tenant :: uuid
  tl_project :: uuid
  tl_contract :: uuid
  tl_artifact :: uuid
  tl_kind :: string

record reviewer_row =
  tr_id :: uuid
  tr_tenant :: uuid
  tr_project :: uuid
  tr_contract :: uuid
  tr_instance :: uuid
  tr_layer :: string
  tr_created_at :: timestamp

record review_row =
  rp_id :: uuid
  rp_tenant :: uuid
  rp_project :: uuid
  rp_contract :: uuid
  rp_instance :: uuid
  rp_layer :: string
  rp_verdict :: string
  rp_summary :: string
  rp_failed :: "string list"
  rp_shortcuts :: "string list"
  rp_changes :: "string list"
  rp_source :: string
  rp_provenance :: string
  rp_created_at :: timestamp

definition can_merge :: "review_row \<Rightarrow> bool" where
  "can_merge r = (rp_verdict r = ''approved'')"

record task_event_row =
  te_tenant :: uuid
  te_project :: uuid
  te_contract :: uuid
  te_from :: "contract_status option"
  te_to :: contract_status
  te_actor :: string

record review_store =
  rw_db :: db
  rw_versions :: "version_row list"
  rw_agents :: "agent_row list"
  rw_artifacts :: "artifact_row list"
  rw_contracts :: "contract_row list"
  rw_links :: "link_row list"
  rw_reviewers :: "reviewer_row list"
  rw_reports :: "review_row list"
  rw_events :: "task_event_row list"

section \<open>The guards of the database\<close>

text \<open>\<open>btrim(x, E' \t\n\r\x0b\x0c') = ''\<close>.\<close>

definition sql_blank :: "string \<Rightarrow> bool" where
  "sql_blank x = (\<forall>c\<in>set x. (of_char c :: nat) \<in> {32, 9, 10, 13, 11, 12})"

definition tc_text_array_ok :: "string list \<Rightarrow> nat \<Rightarrow> nat \<Rightarrow> bool" where
  "tc_text_array_ok arr max_items max_chars =
     (length arr \<le> max_items \<and>
      list_all (\<lambda>x. \<not> (length x < 1 \<or> length x > max_chars \<or> sql_blank x)) arr)"

definition tc_check_contract_arrays :: "contract_row \<Rightarrow> review_error + unit" where
  "tc_check_contract_arrays c =
     bindE (check (tc_text_array_ok (tk_must_have c) 32 500 \<and> tc_text_array_ok (tk_must_not_do c) 32 500 \<and>
                   tc_text_array_ok (tk_evidence c) 32 500 \<and> tc_text_array_ok (tk_definition_of_done c) 32 500 \<and>
                   tc_text_array_ok (tk_allowed_tools c) 64 128 \<and> tc_text_array_ok (tk_forbidden_tools c) 64 128)
              (ReviewRefused ''every text-list column must be an array of bounded non-blank strings'')) (\<lambda>_.
       check (set (tk_allowed_tools c) \<inter> set (tk_forbidden_tools c) = {})
         (ReviewRefused ''allowed_tools and forbidden_tools overlap''))"

text \<open>The \<open>CHECK\<close> on the reference column, and the unique key of a project's references.\<close>

definition contract_insert_guard :: "review_store \<Rightarrow> contract_row \<Rightarrow> review_error + unit" where
  "contract_insert_guard s new =
     bindE (check (tk_status new = Draft) (ReviewRefused ''must be created in draft'')) (\<lambda>_.
     bindE (tc_check_contract_arrays new) (\<lambda>_.
     bindE (check (1 \<le> length (tk_ref new) \<and> length (tk_ref new) \<le> 64 \<and> \<not> sql_blank (tk_ref new))
              (ReviewRefused ''ck_task_contracts_task_ref_len'')) (\<lambda>_.
       check (\<forall>c\<in>set (rw_contracts s).
                (tk_tenant c, tk_project c, tk_ref c) \<noteq> (tk_tenant new, tk_project new, tk_ref new))
         (ReviewRefused ''uq_task_contracts_ref''))))"

definition contract_content :: "contract_row \<Rightarrow> string list list" where
  "contract_content c =
     [[tk_ref c], [tk_title c], [tk_description c], tk_must_have c, tk_must_not_do c, tk_evidence c,
      tk_definition_of_done c, tk_allowed_tools c, tk_forbidden_tools c, [tk_risk c]]"

text \<open>
  PostgreSQL holds no NUL character: the server refuses one in a \<open>text\<close> or \<open>jsonb\<close> parameter before
  any constraint is looked at.  Python's strings and the validators admit it.
\<close>

definition storable_texts :: "string list \<Rightarrow> bool" where
  "storable_texts ts = list_all (\<lambda>t. CHR 0x00 \<notin> set t) ts"

definition store_texts :: "string list \<Rightarrow> review_error + unit" where
  "store_texts ts = check (storable_texts ts) (ReviewRefused ''NUL character in text'')"

definition latest_report :: "review_store \<Rightarrow> uuid \<Rightarrow> uuid \<Rightarrow> string \<Rightarrow> review_row option" where
  "latest_report s c i l =
     latest_by (\<lambda>p. (rp_created_at p, rp_id p))
       (filter (\<lambda>p. rp_contract p = c \<and> rp_instance p = i \<and> rp_layer p = l) (rw_reports s))"

definition freeze_prerequisites :: "review_store \<Rightarrow> uuid \<Rightarrow> review_error + unit" where
  "freeze_prerequisites s c =
     bindE (check (\<exists>l\<in>set (rw_links s). tl_contract l = c \<and> tl_kind l = ''source_requirement'')
              (ReviewRefused ''freeze requires at least one source_requirement link'')) (\<lambda>_.
       check (card (tr_layer ` {r\<in>set (rw_reviewers s). tr_contract r = c}) \<ge> 3)
         (ReviewRefused ''freeze requires reviewer coverage of all 3 layers''))"

definition done_gate :: "review_store \<Rightarrow> uuid \<Rightarrow> review_error + unit" where
  "done_gate s c =
     check (\<forall>r\<in>set (rw_reviewers s). tr_contract r = c \<longrightarrow>
              map_option rp_verdict (latest_report s c (tr_instance r) (tr_layer r)) = Some ''approved'')
       (ReviewRefused ''done requires every registered reviewer's latest verdict approved'')"

definition contract_update_guard :: "review_store \<Rightarrow> contract_row \<Rightarrow> contract_row \<Rightarrow> review_error + unit" where
  "contract_update_guard s old new =
     bindE (check (tk_id new = tk_id old \<and> tk_tenant new = tk_tenant old \<and> tk_project new = tk_project old \<and>
                   tk_builder new = tk_builder old \<and> tk_created_at new = tk_created_at old)
              (ReviewRefused ''identity/builder columns are immutable'')) (\<lambda>_.
       if tk_status new = tk_status old
       then if tk_status old = Draft then tc_check_contract_arrays new
            else check (contract_content new = contract_content old)
                   (ReviewRefused ''content is immutable once not draft'')
       else
         bindE (check (contract_content new = contract_content old)
                  (ReviewRefused ''content is immutable on a transition'')) (\<lambda>_.
         bindE (check (tk_status new \<in> set (TASK_TRANSITIONS (tk_status old)))
                  (ReviewRefused ''illegal transition'')) (\<lambda>_.
         bindE (if tk_status old = Draft \<and> tk_status new = ReadyForDevelopment
                then freeze_prerequisites s (tk_id new) else Inr ()) (\<lambda>_.
           if tk_status old = SpecialistReview \<and> tk_status new = Done
           then done_gate s (tk_id new) else Inr ()))))"

definition status_by_id :: "review_store \<Rightarrow> uuid \<Rightarrow> contract_status option" where
  "status_by_id s i = map_option tk_status (List.find (\<lambda>c. tk_id c = i) (rw_contracts s))"

definition link_insert_guard :: "review_store \<Rightarrow> link_row \<Rightarrow> review_error + unit" where
  "link_insert_guard s new =
     bindE (check (status_by_id s (tl_contract new) = Some Draft)
              (ReviewRefused ''contract must be draft (links are freeze-locked)'')) (\<lambda>_.
     bindE (check (map_option ar_kind (List.find (\<lambda>a. ar_id a = tl_artifact new) (rw_artifacts s)) =
                   map_of ARTIFACT_LINK_KINDS (tl_kind new))
              (ReviewRefused ''artifact kind mismatch'')) (\<lambda>_.
       check (\<forall>l\<in>set (rw_links s).
                (tl_contract l, tl_artifact l, tl_kind l) \<noteq> (tl_contract new, tl_artifact new, tl_kind new))
         (ReviewRefused ''uq_tc_artifact_links_triple'')))"

text \<open>\<open>agent_instances\<close> joined with \<open>agent_versions\<close>: the blueprint behind an instance.\<close>

definition blueprint_by_id :: "review_store \<Rightarrow> uuid \<Rightarrow> uuid option" where
  "blueprint_by_id s i =
     (case List.find (\<lambda>n. in_id n = i) (rw_agents s) of
        None \<Rightarrow> None
      | Some n \<Rightarrow> map_option ve_blueprint (List.find (\<lambda>v. ve_id v = in_version n) (rw_versions s)))"

definition reviewer_insert_guard :: "review_store \<Rightarrow> reviewer_row \<Rightarrow> review_error + unit" where
  "reviewer_insert_guard s new =
     bindE (check (status_by_id s (tr_contract new) = Some Draft)
              (ReviewRefused ''contract must be draft (reviewers are freeze-locked)'')) (\<lambda>_.
     bindE (let builder = (case List.find (\<lambda>c. tk_id c = tr_contract new) (rw_contracts s) of
                             None \<Rightarrow> None | Some c \<Rightarrow> blueprint_by_id s (tk_builder c)) in
            check (builder = None \<or> blueprint_by_id s (tr_instance new) \<noteq> builder)
              (ReviewRefused ''reviewer cannot share the builder blueprint'')) (\<lambda>_.
       check (\<forall>r\<in>set (rw_reviewers s).
                (tr_contract r, tr_instance r, tr_layer r) \<noteq> (tr_contract new, tr_instance new, tr_layer new))
         (ReviewRefused ''uq_tc_reviewers_triple'')))"

definition report_insert_guard :: "review_store \<Rightarrow> review_row \<Rightarrow> review_error + unit" where
  "report_insert_guard s new =
     bindE (check (status_by_id s (rp_contract new) \<in> Some ` set REPORTABLE_STATUSES)
              (ReviewRefused ''contract status must be reportable'')) (\<lambda>_.
       check (tc_text_array_ok (rp_failed new) 32 500 \<and> tc_text_array_ok (rp_shortcuts new) 32 500 \<and>
              tc_text_array_ok (rp_changes new) 32 500)
         (ReviewRefused ''every text-list column must be an array of bounded non-blank strings''))"

section \<open>Reads\<close>

definition task_get :: "tenant_context \<Rightarrow> uuid \<Rightarrow> review_store \<Rightarrow> contract_row option" where
  "task_get ctx i s = List.find (\<lambda>c. tk_tenant c = ctx_tenant ctx \<and> tk_id c = i) (rw_contracts s)"

definition task_get_or_raise :: "tenant_context \<Rightarrow> uuid \<Rightarrow> review_store \<Rightarrow> review_error + contract_row" where
  "task_get_or_raise ctx i s =
     (case task_get ctx i s of None \<Rightarrow> Inl (ReviewInvalid ''unknown task contract for this tenant'') | Some c \<Rightarrow> Inr c)"

definition agent_of :: "tenant_context \<Rightarrow> uuid \<Rightarrow> review_store \<Rightarrow> agent_row option" where
  "agent_of ctx i s = List.find (\<lambda>n. in_id n = i \<and> in_tenant n = ctx_tenant ctx) (rw_agents s)"

definition blueprint_of :: "tenant_context \<Rightarrow> uuid \<Rightarrow> review_store \<Rightarrow> review_error + uuid" where
  "blueprint_of ctx i s =
     (case [ve_blueprint v. n \<leftarrow> rw_agents s, in_id n = i \<and> in_tenant n = ctx_tenant ctx,
                            v \<leftarrow> rw_versions s, ve_id v = in_version n] of
        [b] \<Rightarrow> Inr b
      | _ \<Rightarrow> Inl (ReviewInvalid ''scalar_one''))"

definition list_contracts :: "tenant_context \<Rightarrow> uuid \<Rightarrow> review_store \<Rightarrow> contract_row list" where
  "list_contracts ctx project s =
     rev (sort_key (\<lambda>c. (tk_created_at c, tk_id c))
       (filter (\<lambda>c. tk_tenant c = ctx_tenant ctx \<and> tk_project c = project) (rw_contracts s)))"

section \<open>Writes\<close>

definition log_task ::
  "tenant_context \<Rightarrow> string \<Rightarrow> string \<Rightarrow> uuid \<Rightarrow> pydict \<Rightarrow> review_store \<Rightarrow> review_store" where
  "log_task ctx action actor i payload s =
     s\<lparr>rw_db := audit_record ctx action actor (Some (''task_contract:'' @ uuid_str i)) payload (rw_db s)\<rparr>"

definition text_value :: "pyval \<Rightarrow> string" where
  "text_value v = (case v of PStr t \<Rightarrow> t | _ \<Rightarrow> [])"

definition contract_of ::
  "tenant_context \<Rightarrow> contract_args \<Rightarrow> agent_row \<Rightarrow> timestamp \<Rightarrow> review_store \<Rightarrow> contract_row" where
  "contract_of ctx a builder clock s =
     \<lparr>tk_id = db_next_id (rw_db s), tk_tenant = ctx_tenant ctx, tk_project = in_project builder,
      tk_ref = text_value (nc_task_ref a), tk_title = text_value (nc_title a),
      tk_description = text_value (nc_description a), tk_must_have = texts_of (nc_must_have a),
      tk_must_not_do = texts_of (nc_must_not_do a), tk_evidence = texts_of (nc_required_evidence a),
      tk_definition_of_done = texts_of (nc_definition_of_done a),
      tk_allowed_tools = texts_of (nc_allowed_tools a), tk_forbidden_tools = texts_of (nc_forbidden_tools a),
      tk_risk = text_value (nc_risk_level a), tk_builder = in_id builder, tk_status = Draft,
      tk_created_at = clock, tk_updated_at = clock\<rparr>"

definition take_id :: "review_store \<Rightarrow> review_store" where
  "take_id s = s\<lparr>rw_db := (rw_db s)\<lparr>db_next_id := db_next_id (rw_db s) + 1\<rparr>\<rparr>"

definition task_create ::
  "tenant_context \<Rightarrow> uuid \<Rightarrow> contract_args \<Rightarrow> pyval \<Rightarrow> timestamp \<Rightarrow> review_store \<Rightarrow>
     review_error + (contract_row \<times> review_store)" where
  "task_create ctx builder_instance a created_by clock s =
     bindE (validate_new_contract a) (\<lambda>_.
     bindE (require_text ''created_by'' created_by 200) (\<lambda>_.
       case agent_of ctx builder_instance s of
         None \<Rightarrow> Inl (ReviewInvalid ''unknown builder instance for this tenant'')
       | Some builder \<Rightarrow>
           let c = contract_of ctx a builder clock s in
           bindE (store_texts (concat (contract_content c))) (\<lambda>_.
           bindE (contract_insert_guard s c) (\<lambda>_.
           bindE (store_texts [text_value created_by]) (\<lambda>_.
             Inr (c, log_task ctx ''task_contract.created'' (text_value created_by) (tk_id c)
               [(''task_contract_id'', PStr (uuid_str (tk_id c))), (''project_id'', PStr (uuid_str (tk_project c))),
                (''builder_instance_id'', PStr (uuid_str (tk_builder c))), (''task_ref'', PStr (tk_ref c)),
                (''risk_level'', PStr (tk_risk c)), (''status'', PStr ''draft'')]
               ((take_id s)\<lparr>rw_contracts := rw_contracts s @ [c],
                  rw_events := rw_events s @
                    [\<lparr>te_tenant = ctx_tenant ctx, te_project = tk_project c, te_contract = tk_id c,
                      te_from = None, te_to = Draft, te_actor = text_value created_by\<rparr>]\<rparr>)))))))"

definition add_artifact_link ::
  "tenant_context \<Rightarrow> uuid \<Rightarrow> string \<Rightarrow> uuid \<Rightarrow> pyval \<Rightarrow> review_store \<Rightarrow>
     review_error + (link_row \<times> review_store)" where
  "add_artifact_link ctx contract_id link_kind artifact_id actor s =
     bindE (validate_artifact_link link_kind) (\<lambda>_.
     bindE (require_text ''actor'' actor 200) (\<lambda>_.
     bindE (task_get_or_raise ctx contract_id s) (\<lambda>c.
     bindE (check (tk_status c = Draft) (ReviewInvalid ''contract is not draft (links are freeze-locked)'')) (\<lambda>_.
       case List.find (\<lambda>a. ar_id a = artifact_id \<and> ar_tenant a = ctx_tenant ctx \<and> ar_project a = tk_project c)
              (rw_artifacts s) of
         None \<Rightarrow> Inl (ReviewInvalid ''unknown artifact for this project'')
       | Some a \<Rightarrow>
           bindE (check (Some (ar_kind a) = map_of ARTIFACT_LINK_KINDS link_kind)
                    (ReviewInvalid ''artifact kind mismatch'')) (\<lambda>_.
           let l = \<lparr>tl_tenant = ctx_tenant ctx, tl_project = tk_project c, tl_contract = tk_id c,
                    tl_artifact = ar_id a, tl_kind = link_kind\<rparr> in
           bindE (link_insert_guard s l) (\<lambda>_.
             Inr (l, log_task ctx ''task_contract.artifact_linked'' (text_value actor) (tk_id c)
               [(''task_contract_id'', PStr (uuid_str (tk_id c))), (''artifact_id'', PStr (uuid_str (ar_id a))),
                (''link_kind'', PStr link_kind)]
               (s\<lparr>rw_links := rw_links s @ [l]\<rparr>))))))))"

definition registrations_of :: "tenant_context \<Rightarrow> uuid \<Rightarrow> review_store \<Rightarrow> reviewer_row list" where
  "registrations_of ctx i s = filter (\<lambda>r. tr_tenant r = ctx_tenant ctx \<and> tr_contract r = i) (rw_reviewers s)"

definition add_reviewer ::
  "tenant_context \<Rightarrow> uuid \<Rightarrow> uuid \<Rightarrow> string \<Rightarrow> pyval \<Rightarrow> timestamp \<Rightarrow> review_store \<Rightarrow>
     review_error + (reviewer_row \<times> review_store)" where
  "add_reviewer ctx contract_id reviewer_instance layer actor clock s =
     bindE (check (layer \<in> set REVIEW_LAYERS) (ReviewInvalid ''unknown layer'')) (\<lambda>_.
     bindE (require_text ''actor'' actor 200) (\<lambda>_.
     bindE (task_get_or_raise ctx contract_id s) (\<lambda>c.
     bindE (check (tk_status c = Draft) (ReviewInvalid ''contract is not draft (reviewers are freeze-locked)'')) (\<lambda>_.
       case agent_of ctx reviewer_instance s of
         None \<Rightarrow> Inl (ReviewInvalid ''unknown reviewer instance for this project'')
       | Some n \<Rightarrow>
           bindE (check (in_project n = tk_project c)
                    (ReviewInvalid ''unknown reviewer instance for this project'')) (\<lambda>_.
           bindE (blueprint_of ctx (tk_builder c) s) (\<lambda>builder_bp.
           bindE (blueprint_of ctx (in_id n) s) (\<lambda>reviewer_bp.
           bindE (check (builder_bp \<noteq> reviewer_bp)
                    (ReviewInvalid ''reviewer cannot share the builder blueprint'')) (\<lambda>_.
           bindE (check (length (registrations_of ctx (tk_id c) s) < MAX_REVIEWERS)
                    (ReviewInvalid ''too many reviewers'')) (\<lambda>_.
           let r = \<lparr>tr_id = db_next_id (rw_db s), tr_tenant = ctx_tenant ctx, tr_project = tk_project c,
                    tr_contract = tk_id c, tr_instance = in_id n, tr_layer = layer, tr_created_at = clock\<rparr> in
           bindE (reviewer_insert_guard s r) (\<lambda>_.
             Inr (r, log_task ctx ''task_contract.reviewer_registered'' (text_value actor) (tk_id c)
               [(''task_contract_id'', PStr (uuid_str (tk_id c))),
                (''reviewer_instance_id'', PStr (uuid_str (in_id n))), (''layer'', PStr layer)]
               ((take_id s)\<lparr>rw_reviewers := rw_reviewers s @ [r]\<rparr>))))))))))))"

definition task_transition ::
  "tenant_context \<Rightarrow> uuid \<Rightarrow> contract_status \<Rightarrow> pyval \<Rightarrow> string \<Rightarrow> timestamp \<Rightarrow> review_store \<Rightarrow>
     review_error + (contract_row \<times> review_store)" where
  "task_transition ctx contract_id new_status actor action clock s =
     bindE (require_text ''actor'' actor 200) (\<lambda>_.
     bindE (task_get_or_raise ctx contract_id s) (\<lambda>c.
     bindE (validate_task_transition (contract_status_value (tk_status c)) (contract_status_value new_status)) (\<lambda>_.
     let c' = c\<lparr>tk_status := new_status, tk_updated_at := clock\<rparr> in
     bindE (contract_update_guard s c c') (\<lambda>_.
       Inr (c', log_task ctx (''task_contract.'' @ action) (text_value actor) (tk_id c)
         [(''task_contract_id'', PStr (uuid_str (tk_id c))),
          (''from_status'', PStr (contract_status_value (tk_status c))),
          (''to_status'', PStr (contract_status_value new_status))]
         (s\<lparr>rw_contracts := update_where (\<lambda>r. tk_id r = tk_id c) (\<lambda>_. c') (rw_contracts s),
            rw_events := rw_events s @
              [\<lparr>te_tenant = ctx_tenant ctx, te_project = tk_project c, te_contract = tk_id c,
                te_from = Some (tk_status c), te_to = new_status, te_actor = text_value actor\<rparr>]\<rparr>))))))"

definition submit_for_development where
  "submit_for_development ctx i actor = task_transition ctx i ReadyForDevelopment actor ''frozen''"

definition start_task where
  "start_task ctx i actor = task_transition ctx i InProgress actor ''started''"

definition submit_for_review where
  "submit_for_review ctx i actor = task_transition ctx i SpecialistReview actor ''submitted''"

definition request_changes where
  "request_changes ctx i actor = task_transition ctx i ChangesRequested actor ''changes_requested''"

definition complete_task where
  "complete_task ctx i actor = task_transition ctx i Done actor ''completed''"

definition cancel_task where
  "cancel_task ctx i actor = task_transition ctx i Canceled actor ''canceled''"

definition supersede_task where
  "supersede_task ctx i actor = task_transition ctx i Superseded actor ''superseded''"

definition report_of ::
  "tenant_context \<Rightarrow> contract_row \<Rightarrow> uuid \<Rightarrow> string \<Rightarrow> report_args \<Rightarrow> timestamp \<Rightarrow> review_store \<Rightarrow> review_row" where
  "report_of ctx c i layer a clock s =
     \<lparr>rp_id = db_next_id (rw_db s), rp_tenant = ctx_tenant ctx, rp_project = tk_project c, rp_contract = tk_id c,
      rp_instance = i, rp_layer = layer, rp_verdict = text_value (nr_verdict a),
      rp_summary = text_value (nr_summary a), rp_failed = texts_of (nr_failed_criteria a),
      rp_shortcuts = texts_of (nr_suspected_shortcuts a), rp_changes = texts_of (nr_required_changes a),
      rp_source = text_value (nr_source a), rp_provenance = text_value (nr_source_provenance a),
      rp_created_at = clock\<rparr>"

definition record_report ::
  "tenant_context \<Rightarrow> uuid \<Rightarrow> uuid \<Rightarrow> string \<Rightarrow> report_args \<Rightarrow> pyval \<Rightarrow> timestamp \<Rightarrow> review_store \<Rightarrow>
     review_error + (review_row \<times> review_store)" where
  "record_report ctx contract_id reviewer_instance layer a reported_by clock s =
     bindE (validate_review_report a) (\<lambda>_.
     bindE (require_text ''reported_by'' reported_by 200) (\<lambda>_.
     bindE (task_get_or_raise ctx contract_id s) (\<lambda>c.
     bindE (check (\<exists>r\<in>set (registrations_of ctx (tk_id c) s).
                     tr_instance r = reviewer_instance \<and> tr_layer r = layer)
              (ReviewInvalid ''reviewer is not registered for this contract/layer'')) (\<lambda>_.
     let p = report_of ctx c reviewer_instance layer a clock s in
     bindE (report_insert_guard s p) (\<lambda>_.
       Inr (p, (take_id s)\<lparr>rw_reports := rw_reports s @ [p],
         rw_db := audit_record ctx ''review_report.recorded'' (text_value reported_by)
           (Some (''review_report:'' @ uuid_str (rp_id p)))
           [(''review_report_id'', PStr (uuid_str (rp_id p))), (''task_contract_id'', PStr (uuid_str (tk_id c))),
            (''reviewer_instance_id'', PStr (uuid_str reviewer_instance)), (''layer'', PStr layer),
            (''verdict'', PStr (rp_verdict p)),
            (''failed_criteria_count'', PInt (int (length (rp_failed p)))),
            (''suspected_shortcut_count'', PInt (int (length (rp_shortcuts p)))),
            (''required_change_count'', PInt (int (length (rp_changes p))))]
           (rw_db (take_id s))\<rparr>))))))"

section \<open>The done gate, computed on read\<close>

definition view_of :: "tenant_context \<Rightarrow> uuid \<Rightarrow> review_store \<Rightarrow> reviewer_row \<Rightarrow> registration_view" where
  "view_of ctx i s reg =
     \<lparr>gv_layer = tr_layer reg, gv_reviewer = uuid_str (tr_instance reg),
      gv_latest = map_option rp_verdict (latest_by (\<lambda>p. (rp_created_at p, rp_id p))
        (filter (\<lambda>p. rp_tenant p = ctx_tenant ctx \<and> rp_contract p = i \<and> rp_instance p = tr_instance reg \<and>
                     rp_layer p = tr_layer reg) (rw_reports s)))\<rparr>"

definition review_status :: "tenant_context \<Rightarrow> uuid \<Rightarrow> review_store \<Rightarrow> review_error + done_gate_decision" where
  "review_status ctx i s =
     evaluate_done_gate (map (view_of ctx i s)
       (sort_key (\<lambda>r. (tr_created_at r, tr_id r)) (registrations_of ctx i s)))"

definition reports_for :: "tenant_context \<Rightarrow> uuid \<Rightarrow> review_store \<Rightarrow> review_row list" where
  "reports_for ctx i s =
     rev (sort_key (\<lambda>p. (rp_created_at p, rp_id p))
       (filter (\<lambda>p. rp_tenant p = ctx_tenant ctx \<and> rp_contract p = i) (rw_reports s)))"

fun first_by_key ::
  "review_row list \<Rightarrow> ((uuid \<times> string) \<times> review_row) list \<Rightarrow> ((uuid \<times> string) \<times> review_row) list" where
  "first_by_key [] latest = latest"
| "first_by_key (p # ps) latest =
     first_by_key ps (if (rp_instance p, rp_layer p) \<in> fst ` set latest then latest
                      else latest @ [((rp_instance p, rp_layer p), p)])"

definition latest_by_registration ::
  "tenant_context \<Rightarrow> uuid \<Rightarrow> review_store \<Rightarrow> ((uuid \<times> string) \<times> review_row) list" where
  "latest_by_registration ctx i s = first_by_key (reports_for ctx i s) []"

end
