(* ===== verification/Task_Invariant.thy ===== *)
theory Task_Invariant
  imports Task_Workflow
begin

text \<open>
  The stores the task-contract repositories reach, the invariant over them, and the two properties
  of the review workflow: what a completed task rests on, and the agreement of the decision computed
  on read with the guard of the database.
\<close>

section \<open>Interpretation of the lifecycle\<close>

fun task_final :: "contract_status \<Rightarrow> bool" where
  "task_final Canceled = True"
| "task_final Superseded = True"
| "task_final _ = False"

interpretation task_life: lifecycle "\<lambda>a b. b \<in> set (TASK_TRANSITIONS a)" task_final
proof
  show "task_final s \<Longrightarrow> t \<notin> set (TASK_TRANSITIONS s)" for s t
    by (cases s) simp_all
qed

section \<open>Reachable stores\<close>

text \<open>
  Other components register agents and versions, change the status of an agent, and declare
  artifacts; they keep the identity and the version of an agent.
\<close>

inductive review_reach :: "review_store \<Rightarrow> bool" where
  start: "rw_contracts s = [] \<Longrightarrow> rw_links s = [] \<Longrightarrow> rw_reviewers s = [] \<Longrightarrow> rw_reports s = [] \<Longrightarrow>
     rw_events s = [] \<Longrightarrow> distinct (map in_id (rw_agents s)) \<Longrightarrow> review_reach s"
| others: "review_reach s \<Longrightarrow> (\<And>n. in_id (g n) = in_id n \<and> in_version (g n) = in_version n) \<Longrightarrow>
     s' = s\<lparr>rw_db := d, rw_agents := map g (rw_agents s) @ ns, rw_versions := rw_versions s @ vs, rw_artifacts := xs\<rparr> \<Longrightarrow>
     distinct (map in_id (rw_agents s')) \<Longrightarrow> db_next_id (rw_db s) \<le> db_next_id d \<Longrightarrow> review_reach s'"
| create: "review_reach s \<Longrightarrow> task_create ctx b a who clock s = Inr (c, s') \<Longrightarrow> review_reach s'"
| artifact: "review_reach s \<Longrightarrow> add_artifact_link ctx i k x who s = Inr (l, s') \<Longrightarrow> review_reach s'"
| reviewer: "review_reach s \<Longrightarrow> add_reviewer ctx i n layer who clock s = Inr (r, s') \<Longrightarrow> review_reach s'"
| move: "review_reach s \<Longrightarrow> task_transition ctx i st who action clock s = Inr (c, s') \<Longrightarrow> review_reach s'"
| report: "review_reach s \<Longrightarrow> record_report ctx i n layer q who clock s = Inr (p, s') \<Longrightarrow> review_reach s'"

section \<open>The invariant\<close>

definition contracts_ok :: "review_store \<Rightarrow> bool" where
  "contracts_ok s = (distinct (map tk_id (rw_contracts s)) \<and>
     (\<forall>c\<in>set (rw_contracts s). tk_id c < db_next_id (rw_db s)))"

definition reviewer_ok :: "review_store \<Rightarrow> reviewer_row \<Rightarrow> bool" where
  "reviewer_ok s r = (tr_layer r \<in> set REVIEW_LAYERS \<and>
     (\<exists>c\<in>set (rw_contracts s). tk_id c = tr_contract r \<and> tk_tenant c = tr_tenant r \<and>
        (\<exists>b b'. blueprint_by_id s (tk_builder c) = Some b \<and> blueprint_by_id s (tr_instance r) = Some b' \<and> b \<noteq> b')))"

definition report_ok :: "review_store \<Rightarrow> review_row \<Rightarrow> bool" where
  "report_ok s p = ((\<exists>c\<in>set (rw_contracts s). tk_id c = rp_contract p \<and> tk_tenant c = rp_tenant p) \<and>
     rp_verdict p \<in> set VERDICTS \<and>
     (rp_verdict p = ''approved'' \<longrightarrow> rp_failed p = [] \<and> rp_shortcuts p = [] \<and> rp_changes p = []))"

definition contract_ok :: "review_store \<Rightarrow> contract_row \<Rightarrow> bool" where
  "contract_ok s c =
     ((tk_status c \<notin> {Draft, Canceled} \<longrightarrow> freeze_prerequisites s (tk_id c) = Inr ()) \<and>
      (tk_status c \<in> {Done, Superseded} \<longrightarrow> done_gate s (tk_id c) = Inr ()))"

definition review_ok :: "review_store \<Rightarrow> bool" where
  "review_ok s = (contracts_ok s \<and> distinct (map in_id (rw_agents s)) \<and>
     (\<forall>r\<in>set (rw_reviewers s). reviewer_ok s r) \<and> (\<forall>p\<in>set (rw_reports s). report_ok s p) \<and>
     (\<forall>c\<in>set (rw_contracts s). contract_ok s c))"

lemma review_okI:
  assumes "contracts_ok s" "distinct (map in_id (rw_agents s))"
    and "\<And>r. r \<in> set (rw_reviewers s) \<Longrightarrow> reviewer_ok s r"
    and "\<And>p. p \<in> set (rw_reports s) \<Longrightarrow> report_ok s p"
    and "\<And>c. c \<in> set (rw_contracts s) \<Longrightarrow> contract_ok s c"
  shows "review_ok s"
  using assms by (simp add: review_ok_def)

lemma review_okD:
  assumes "review_ok s"
  shows "contracts_ok s" "distinct (map in_id (rw_agents s))"
    and "r \<in> set (rw_reviewers s) \<Longrightarrow> reviewer_ok s r"
    and "p \<in> set (rw_reports s) \<Longrightarrow> report_ok s p"
    and "c \<in> set (rw_contracts s) \<Longrightarrow> contract_ok s c"
  using assms by (auto simp: review_ok_def)

section \<open>Frames\<close>

lemma status_by_id_mem:
  "contracts_ok s \<Longrightarrow> c \<in> set (rw_contracts s) \<Longrightarrow> status_by_id s (tk_id c) = Some (tk_status c)"
  by (simp add: status_by_id_def contracts_ok_def find_by_id)

lemma task_get_mem: "task_get ctx i s = Some c \<Longrightarrow> c \<in> set (rw_contracts s) \<and> tk_id c = i \<and> tk_tenant c = ctx_tenant ctx"
  unfolding task_get_def by (auto dest: find_Some_mem)

lemma task_get_or_raise_Inr [simp]: "task_get_or_raise ctx i s = Inr c \<longleftrightarrow> task_get ctx i s = Some c"
  by (simp add: task_get_or_raise_def split: option.splits)

lemma freeze_mono:
  assumes "freeze_prerequisites s i = Inr ()"
    and "set (rw_links s) \<subseteq> set (rw_links s')" "set (rw_reviewers s) \<subseteq> set (rw_reviewers s')"
  shows "freeze_prerequisites s' i = Inr ()"
proof -
  have "tr_layer ` {r\<in>set (rw_reviewers s). tr_contract r = i} \<subseteq> tr_layer ` {r\<in>set (rw_reviewers s'). tr_contract r = i}"
    using assms(3) by auto
  then have "card (tr_layer ` {r\<in>set (rw_reviewers s). tr_contract r = i}) \<le>
      card (tr_layer ` {r\<in>set (rw_reviewers s'). tr_contract r = i})"
    by (intro card_mono) auto
  with assms show ?thesis
    by (auto simp: freeze_prerequisites_def)
qed

lemma done_gate_frame:
  assumes "filter (\<lambda>r. tr_contract r = i) (rw_reviewers s') = filter (\<lambda>r. tr_contract r = i) (rw_reviewers s)"
    and "filter (\<lambda>p. rp_contract p = i) (rw_reports s') = filter (\<lambda>p. rp_contract p = i) (rw_reports s)"
  shows "done_gate s' i = done_gate s i"
proof -
  have "latest_report s' i n l = latest_report s i n l" for n l
  proof -
    have "filter (\<lambda>p. rp_contract p = i \<and> rp_instance p = n \<and> rp_layer p = l) (rw_reports t) =
        filter (\<lambda>p. rp_instance p = n \<and> rp_layer p = l) (filter (\<lambda>p. rp_contract p = i) (rw_reports t))" for t :: review_store
      unfolding filter_filter by (rule filter_cong) auto
    then show ?thesis by (simp only: latest_report_def assms(2))
  qed
  moreover have "done_gate t i = check (\<forall>r\<in>set (filter (\<lambda>r. tr_contract r = i) (rw_reviewers t)).
      map_option rp_verdict (latest_report t i (tr_instance r) (tr_layer r)) = Some ''approved'')
      (ReviewRefused ''done requires every registered reviewer's latest verdict approved'')" for t :: review_store
    unfolding done_gate_def by (rule arg_cong2 [of _ _ _ _ check]) auto
  ultimately show ?thesis by (simp only: assms(1))
qed

lemma contract_ok_frame:
  assumes "contract_ok s c"
    and "set (rw_links s) \<subseteq> set (rw_links s')" "set (rw_reviewers s) \<subseteq> set (rw_reviewers s')"
    and "tk_status c \<in> {Done, Superseded} \<Longrightarrow> done_gate s' (tk_id c) = done_gate s (tk_id c)"
  shows "contract_ok s' c"
  using assms freeze_mono [of s "tk_id c" s'] by (auto simp: contract_ok_def)

lemma blueprint_append:
  assumes "blueprint_by_id s i = Some b" "\<And>n. in_id (g n) = in_id n \<and> in_version (g n) = in_version n"
  shows "blueprint_by_id (s\<lparr>rw_db := d, rw_agents := map g (rw_agents s) @ ns, rw_versions := rw_versions s @ vs,
    rw_artifacts := xs\<rparr>) i = Some b"
proof -
  have fa: "List.find P (ys @ zs) = (case List.find P ys of None \<Rightarrow> List.find P zs | Some y \<Rightarrow> Some y)" for P and ys zs :: "'z list"
    by (induction ys) auto
  have fm: "List.find (\<lambda>n. in_id n = i) (map g ys) = map_option g (List.find (\<lambda>n. in_id n = i) ys)" for ys
    by (induction ys) (auto simp: assms(2))
  from assms show ?thesis
    by (auto simp: blueprint_by_id_def fa fm split: option.splits)
qed

lemma blueprint_of_by_id:
  assumes "blueprint_of ctx i s = Inr b" "distinct (map in_id (rw_agents s))"
  shows "blueprint_by_id s i = Some b"
proof -
  let ?l = "[ve_blueprint v. n \<leftarrow> rw_agents s, in_id n = i \<and> in_tenant n = ctx_tenant ctx,
      v \<leftarrow> rw_versions s, ve_id v = in_version n]"
  have l: "?l = [b]"
    using assms(1) by (simp add: blueprint_of_def split: list.splits)
  then have "b \<in> set ?l" by simp
  then obtain n v where n: "n \<in> set (rw_agents s)" "in_id n = i" "in_tenant n = ctx_tenant ctx"
      and v: "v \<in> set (rw_versions s)" "ve_id v = in_version n" "ve_blueprint v = b"
    by (auto split: if_splits)
  have "List.find (\<lambda>m. in_id m = i) (rw_agents s) = Some n"
    using find_by_id [OF assms(2) n(1)] n(2) by simp
  moreover have "List.find (\<lambda>v. ve_id v = in_version n) (rw_versions s) \<noteq> None"
    using v(1,2) by (auto simp: find_None_iff_bex)
  then obtain w where w: "List.find (\<lambda>v. ve_id v = in_version n) (rw_versions s) = Some w" by blast
  moreover have "ve_blueprint w \<in> set ?l"
    using find_Some_mem [OF w] n(2,3) n(1) by auto
  then have "ve_blueprint w = b" unfolding l by simp
  ultimately show ?thesis by (simp add: blueprint_by_id_def w)
qed

section \<open>Every operation keeps the invariant\<close>

lemma review_frames [simp]:
  "rw_contracts (log_task ctx a w i p s) = rw_contracts s" "rw_links (log_task ctx a w i p s) = rw_links s"
  "rw_reviewers (log_task ctx a w i p s) = rw_reviewers s" "rw_reports (log_task ctx a w i p s) = rw_reports s"
  "rw_agents (log_task ctx a w i p s) = rw_agents s" "rw_versions (log_task ctx a w i p s) = rw_versions s"
  "rw_artifacts (log_task ctx a w i p s) = rw_artifacts s" "rw_events (log_task ctx a w i p s) = rw_events s"
  "db_next_id (rw_db (log_task ctx a w i p s)) = db_next_id (rw_db s)"
  "rw_contracts (take_id s) = rw_contracts s" "rw_links (take_id s) = rw_links s"
  "rw_reviewers (take_id s) = rw_reviewers s" "rw_reports (take_id s) = rw_reports s"
  "rw_agents (take_id s) = rw_agents s" "rw_versions (take_id s) = rw_versions s"
  "rw_artifacts (take_id s) = rw_artifacts s" "rw_events (take_id s) = rw_events s" "db_next_id (rw_db (take_id s)) = db_next_id (rw_db s) + 1"
  by (simp_all add: log_task_def take_id_def)

text \<open>Growing tables, with the agents unchanged: the rows of the old store stay well formed.\<close>

lemma blueprint_same:
  assumes "rw_agents s' = rw_agents s" "rw_versions s' = rw_versions s"
  shows "blueprint_by_id s' = blueprint_by_id s"
  unfolding blueprint_by_id_def fun_eq_iff assms by simp

lemma rows_grow:
  assumes ok: "review_ok s"
    and same: "rw_agents s' = rw_agents s" "rw_versions s' = rw_versions s"
    and keep: "\<And>c. c \<in> set (rw_contracts s) \<Longrightarrow> \<exists>c'\<in>set (rw_contracts s'). tk_id c' = tk_id c \<and>
       tk_tenant c' = tk_tenant c \<and> tk_builder c' = tk_builder c"
  shows "r \<in> set (rw_reviewers s) \<Longrightarrow> reviewer_ok s' r" "p \<in> set (rw_reports s) \<Longrightarrow> report_ok s' p"
proof -
  note bp = blueprint_same [OF same]
  show "reviewer_ok s' r" if "r \<in> set (rw_reviewers s)"
    using review_okD(3) [OF ok that] keep unfolding reviewer_ok_def bp by metis
  show "report_ok s' p" if "p \<in> set (rw_reports s)"
    using review_okD(4) [OF ok that] keep unfolding report_ok_def by metis
qed

lemma task_create_ok:
  assumes "review_ok s" "task_create ctx b a who clock s = Inr (c, s')"
  shows "review_ok s'"
proof -
  note ok = review_okD [OF assms(1)]
  from assms(2) obtain n where c: "c = contract_of ctx a n clock s"
    and s': "rw_contracts s' = rw_contracts s @ [c]" "rw_links s' = rw_links s" "rw_reviewers s' = rw_reviewers s"
      "rw_reports s' = rw_reports s" "rw_agents s' = rw_agents s" "rw_versions s' = rw_versions s"
      "db_next_id (rw_db s') = db_next_id (rw_db s) + 1"
    by (auto simp: task_create_def Let_def split: option.splits)
  have id: "tk_id c = db_next_id (rw_db s)" "tk_status c = Draft" by (simp_all add: c contract_of_def)
  show ?thesis
  proof (rule review_okI)
    show "contracts_ok s'"
      using ok(1) by (auto simp: contracts_ok_def s' id)
    show "distinct (map in_id (rw_agents s'))" using ok(2) by (simp add: s')
    have keep: "\<exists>c'\<in>set (rw_contracts s'). tk_id c' = tk_id x \<and> tk_tenant c' = tk_tenant x \<and> tk_builder c' = tk_builder x"
      if "x \<in> set (rw_contracts s)" for x using that by (auto simp: s')
    show "reviewer_ok s' r" if "r \<in> set (rw_reviewers s')" for r
      using rows_grow(1) [OF assms(1) s'(5,6) keep] that by (simp add: s'(3))
    show "report_ok s' p" if "p \<in> set (rw_reports s')" for p
      using rows_grow(2) [OF assms(1) s'(5,6) keep] that by (simp add: s'(4))
    show "contract_ok s' x" if "x \<in> set (rw_contracts s')" for x
    proof (cases "x = c")
      case True
      then show ?thesis by (simp add: contract_ok_def id)
    next
      case False
      then have "contract_ok s x" using that ok(5) by (simp add: s')
      then show ?thesis
        by (rule contract_ok_frame) (simp_all add: s' done_gate_frame [of "tk_id x" s' s])
    qed
  qed
qed

lemma add_artifact_link_ok:
  assumes "review_ok s" "add_artifact_link ctx i k x who s = Inr (l, s')"
  shows "review_ok s'"
proof -
  note ok = review_okD [OF assms(1)]
  from assms(2) have
    s': "rw_contracts s' = rw_contracts s" "rw_links s' = rw_links s @ [l]" "rw_reviewers s' = rw_reviewers s"
      "rw_reports s' = rw_reports s" "rw_agents s' = rw_agents s" "rw_versions s' = rw_versions s"
      "db_next_id (rw_db s') = db_next_id (rw_db s)"
    by (auto simp: add_artifact_link_def Let_def split: option.splits)
  show ?thesis
  proof (rule review_okI)
    show "contracts_ok s'" using ok(1) by (simp add: contracts_ok_def s')
    show "distinct (map in_id (rw_agents s'))" using ok(2) by (simp add: s')
    show "reviewer_ok s' r" if "r \<in> set (rw_reviewers s')" for r
      by (rule rows_grow(1) [OF assms(1) s'(5,6)]) (use that in \<open>auto simp: s'\<close>)
    show "report_ok s' p" if "p \<in> set (rw_reports s')" for p
      by (rule rows_grow(2) [OF assms(1) s'(5,6)]) (use that in \<open>auto simp: s'\<close>)
    show "contract_ok s' y" if "y \<in> set (rw_contracts s')" for y
      by (rule contract_ok_frame [OF ok(5)]) (use that in \<open>auto simp: s' done_gate_frame [of "tk_id y" s' s]\<close>)
  qed
qed

lemma add_reviewer_ok:
  assumes "review_ok s" "add_reviewer ctx i n layer who clock s = Inr (r, s')"
  shows "review_ok s'"
proof -
  note ok = review_okD [OF assms(1)]
  from assms(2) obtain c b b' where c: "task_get ctx i s = Some c" "tk_status c = Draft"
    and layer: "layer \<in> set REVIEW_LAYERS"
    and bp: "blueprint_of ctx (tk_builder c) s = Inr b" "blueprint_of ctx (tr_instance r) s = Inr b'" "b \<noteq> b'"
    and r: "tr_contract r = tk_id c" "tr_tenant r = ctx_tenant ctx" "tr_layer r = layer"
    and s': "rw_contracts s' = rw_contracts s" "rw_links s' = rw_links s" "rw_reviewers s' = rw_reviewers s @ [r]"
      "rw_reports s' = rw_reports s" "rw_agents s' = rw_agents s" "rw_versions s' = rw_versions s"
      "db_next_id (rw_db s') = db_next_id (rw_db s) + 1"
    by (auto simp: add_reviewer_def Let_def split: option.splits)
  have mem: "c \<in> set (rw_contracts s)" "tk_tenant c = ctx_tenant ctx" using task_get_mem [OF c(1)] by simp_all
  have new: "reviewer_ok s' r"
    using mem bp(3) blueprint_of_by_id [OF bp(1) ok(2)] blueprint_of_by_id [OF bp(2) ok(2)] layer
    unfolding reviewer_ok_def r blueprint_same [OF s'(5,6)] by (auto simp: s')
  show ?thesis
  proof (rule review_okI)
    show "contracts_ok s'" using ok(1) by (auto simp: contracts_ok_def s')
    show "distinct (map in_id (rw_agents s'))" using ok(2) by (simp add: s')
    show "reviewer_ok s' q" if "q \<in> set (rw_reviewers s')" for q
      using that new rows_grow(1) [OF assms(1) s'(5,6), of q] by (auto simp: s')
    show "report_ok s' p" if "p \<in> set (rw_reports s')" for p
      by (rule rows_grow(2) [OF assms(1) s'(5,6)]) (use that in \<open>auto simp: s'\<close>)
    show "contract_ok s' x" if "x \<in> set (rw_contracts s')" for x
    proof (rule contract_ok_frame [OF ok(5)])
      assume "tk_status x \<in> {Done, Superseded}"
      then have "x \<noteq> c" using c(2) by auto
      then have "tk_id x \<noteq> tk_id c"
        using that mem(1) ok(1) by (auto simp: s' contracts_ok_def distinct_map inj_on_def)
      then show "done_gate s' (tk_id x) = done_gate s (tk_id x)"
        by (intro done_gate_frame) (simp_all add: s' r)
    qed (use that in \<open>auto simp: s'\<close>)
  qed
qed

lemma record_report_ok:
  assumes "review_ok s" "record_report ctx i n layer q who clock s = Inr (p, s')"
  shows "review_ok s'"
proof -
  note ok = review_okD [OF assms(1)]
  from assms(2) obtain c where v: "validate_review_report q = Inr ()" and c: "task_get ctx i s = Some c"
    and g: "report_insert_guard s p = Inr ()" and p: "p = report_of ctx c n layer q clock s"
    and s': "rw_contracts s' = rw_contracts s" "rw_links s' = rw_links s" "rw_reviewers s' = rw_reviewers s"
      "rw_reports s' = rw_reports s @ [p]" "rw_agents s' = rw_agents s" "rw_versions s' = rw_versions s"
      "db_next_id (rw_db s') = db_next_id (rw_db s) + 1"
    by (auto simp: record_report_def Let_def)
  have mem: "c \<in> set (rw_contracts s)" "tk_tenant c = ctx_tenant ctx" using task_get_mem [OF c] by simp_all
  have pf: "rp_contract p = tk_id c" "rp_tenant p = ctx_tenant ctx" by (simp_all add: p report_of_def)
  have reportable: "tk_status c \<in> set REPORTABLE_STATUSES"
    using g status_by_id_mem [OF ok(1) mem(1)] by (auto simp: report_insert_guard_def pf)
  have new: "report_ok s' p"
    using validate_review_report_facts [OF v] mem
    by (auto simp: report_ok_def p report_of_def text_value_def s' split: if_splits)
  show ?thesis
  proof (rule review_okI)
    show "contracts_ok s'" using ok(1) by (auto simp: contracts_ok_def s')
    show "distinct (map in_id (rw_agents s'))" using ok(2) by (simp add: s')
    show "reviewer_ok s' r" if "r \<in> set (rw_reviewers s')" for r
      by (rule rows_grow(1) [OF assms(1) s'(5,6)]) (use that in \<open>auto simp: s'\<close>)
    show "report_ok s' y" if "y \<in> set (rw_reports s')" for y
      using that new rows_grow(2) [OF assms(1) s'(5,6), of y] by (auto simp: s')
    show "contract_ok s' x" if "x \<in> set (rw_contracts s')" for x
    proof (rule contract_ok_frame [OF ok(5)])
      assume "tk_status x \<in> {Done, Superseded}"
      then have "x \<noteq> c" using reportable by (auto simp: REPORTABLE_STATUSES_def)
      then have "tk_id x \<noteq> tk_id c"
        using that mem(1) ok(1) by (auto simp: s' contracts_ok_def distinct_map inj_on_def)
      then show "done_gate s' (tk_id x) = done_gate s (tk_id x)"
        by (intro done_gate_frame) (simp_all add: s' pf)
    qed (use that in \<open>auto simp: s'\<close>)
  qed
qed

lemma task_transition_facts:
  assumes "task_transition ctx i st who action clock s = Inr (c', s')"
  obtains c where "task_get ctx i s = Some c" "c' = c\<lparr>tk_status := st, tk_updated_at := clock\<rparr>"
    "st \<in> set (TASK_TRANSITIONS (tk_status c))"
    "tk_status c = Draft \<and> st = ReadyForDevelopment \<longrightarrow> freeze_prerequisites s (tk_id c) = Inr ()"
    "tk_status c = SpecialistReview \<and> st = Done \<longrightarrow> done_gate s (tk_id c) = Inr ()"
    "rw_contracts s' = update_where (\<lambda>r. tk_id r = tk_id c) (\<lambda>_. c') (rw_contracts s)"
    "rw_links s' = rw_links s" "rw_reviewers s' = rw_reviewers s" "rw_reports s' = rw_reports s"
    "rw_agents s' = rw_agents s" "rw_versions s' = rw_versions s" "rw_artifacts s' = rw_artifacts s"
    "db_next_id (rw_db s') = db_next_id (rw_db s)"
proof -
  from assms obtain c where c: "task_get ctx i s = Some c" "st \<in> set (TASK_TRANSITIONS (tk_status c))"
    and g: "contract_update_guard s c (c\<lparr>tk_status := st, tk_updated_at := clock\<rparr>) = Inr ()"
    and c': "c' = c\<lparr>tk_status := st, tk_updated_at := clock\<rparr>"
    and s': "rw_contracts s' = update_where (\<lambda>r. tk_id r = tk_id c) (\<lambda>_. c') (rw_contracts s)"
      "rw_links s' = rw_links s" "rw_reviewers s' = rw_reviewers s" "rw_reports s' = rw_reports s"
      "rw_agents s' = rw_agents s" "rw_versions s' = rw_versions s" "rw_artifacts s' = rw_artifacts s"
      "db_next_id (rw_db s') = db_next_id (rw_db s)"
    by (auto simp: task_transition_def Let_def)
  have ne: "st \<noteq> tk_status c" using c(2) no_self_transition by metis
  have "freeze_prerequisites s (tk_id c) = Inr ()" if "tk_status c = Draft \<and> st = ReadyForDevelopment"
    using g that by (auto simp: contract_update_guard_def)
  moreover have "done_gate s (tk_id c) = Inr ()" if "tk_status c = SpecialistReview \<and> st = Done"
    using g that by (auto simp: contract_update_guard_def)
  ultimately show thesis using that [OF c(1) c' c(2)] s' by blast
qed

lemma task_transition_ok:
  assumes "review_ok s" "task_transition ctx i st who action clock s = Inr (c', s')"
  shows "review_ok s'"
proof -
  note ok = review_okD [OF assms(1)]
  from assms(2) obtain c where c: "task_get ctx i s = Some c" "c' = c\<lparr>tk_status := st, tk_updated_at := clock\<rparr>"
      "st \<in> set (TASK_TRANSITIONS (tk_status c))"
    and freeze: "tk_status c = Draft \<and> st = ReadyForDevelopment \<longrightarrow> freeze_prerequisites s (tk_id c) = Inr ()"
    and gate: "tk_status c = SpecialistReview \<and> st = Done \<longrightarrow> done_gate s (tk_id c) = Inr ()"
    and s': "rw_contracts s' = update_where (\<lambda>r. tk_id r = tk_id c) (\<lambda>_. c') (rw_contracts s)"
      "rw_links s' = rw_links s" "rw_reviewers s' = rw_reviewers s" "rw_reports s' = rw_reports s"
      "rw_agents s' = rw_agents s" "rw_versions s' = rw_versions s" "rw_artifacts s' = rw_artifacts s"
      "db_next_id (rw_db s') = db_next_id (rw_db s)"
    by (rule task_transition_facts) blast
  have mem: "c \<in> set (rw_contracts s)" using task_get_mem [OF c(1)] by simp
  have same: "done_gate s' j = done_gate s j" "freeze_prerequisites s' j = freeze_prerequisites s j" for j
    by (simp_all add: done_gate_frame [of j s' s] s' freeze_prerequisites_def)
  have uniq: "x = c" if "x \<in> set (rw_contracts s)" "tk_id x = tk_id c" for x
    using that mem ok(1) by (auto simp: contracts_ok_def distinct_map inj_on_def)
  have keep: "\<exists>y\<in>set (rw_contracts s'). tk_id y = tk_id x \<and> tk_tenant y = tk_tenant x \<and> tk_builder y = tk_builder x"
    if "x \<in> set (rw_contracts s)" for x
  proof (cases "tk_id x = tk_id c")
    case True
    with that show ?thesis
      using uniq [OF that] mem by (intro bexI [of _ c']) (auto simp: s' update_where_def c(2))
  next
    case False
    with that show ?thesis by (intro bexI [of _ x]) (auto simp: s' update_where_def)
  qed
  have old: "contract_ok s c" using ok(5) mem .
  have moved: "contract_ok s' c'"
    using old c(3) freeze gate
    by (cases "tk_status c") (auto simp: contract_ok_def c(2) same)
  show ?thesis
  proof (rule review_okI)
    have "map tk_id (rw_contracts s') = map tk_id (rw_contracts s)"
      unfolding s'(1) by (rule map_update_where) (simp add: c(2))
    moreover from this have "tk_id ` set (rw_contracts s') = tk_id ` set (rw_contracts s)"
      by (metis list.set_map)
    ultimately show "contracts_ok s'"
      using ok(1) unfolding contracts_ok_def s'(8) by (metis imageE imageI)
    show "distinct (map in_id (rw_agents s'))" using ok(2) by (simp add: s')
    show "reviewer_ok s' r" if "r \<in> set (rw_reviewers s')" for r
      using rows_grow(1) [OF assms(1) s'(5,6) keep] that by (simp add: s'(3))
    show "report_ok s' p" if "p \<in> set (rw_reports s')" for p
      using rows_grow(2) [OF assms(1) s'(5,6) keep] that by (simp add: s'(4))
    show "contract_ok s' x" if x: "x \<in> set (rw_contracts s')" for x
    proof (cases "x = c'")
      case True
      with moved show ?thesis by simp
    next
      case False
      with x have "x \<in> set (rw_contracts s)" by (auto simp: s'(1) update_where_def split: if_splits)
      from ok(5) [OF this] show ?thesis by (simp add: contract_ok_def same)
    qed
  qed
qed

lemma others_ok:
  assumes "review_ok s" "\<And>n. in_id (g n) = in_id n \<and> in_version (g n) = in_version n"
    and s': "s' = s\<lparr>rw_db := d, rw_agents := map g (rw_agents s) @ ns, rw_versions := rw_versions s @ vs, rw_artifacts := xs\<rparr>"
    and "distinct (map in_id (rw_agents s'))" "db_next_id (rw_db s) \<le> db_next_id d"
  shows "review_ok s'"
proof -
  note ok = review_okD [OF assms(1)]
  have bp: "blueprint_by_id s i = Some b \<Longrightarrow> blueprint_by_id s' i = Some b" for i b
    unfolding s' by (rule blueprint_append [OF _ assms(2)])
  show ?thesis
  proof (rule review_okI)
    show "contracts_ok s'" using ok(1) assms(5) by (fastforce simp: contracts_ok_def s')
    show "distinct (map in_id (rw_agents s'))" by (rule assms(4))
    show "reviewer_ok s' r" if "r \<in> set (rw_reviewers s')" for r
    proof -
      from that ok(3) have "reviewer_ok s r" by (simp add: s')
      then obtain c b b' where "tr_layer r \<in> set REVIEW_LAYERS" "c \<in> set (rw_contracts s')"
          "tk_id c = tr_contract r" "tk_tenant c = tr_tenant r" "b \<noteq> b'"
          "blueprint_by_id s' (tk_builder c) = Some b" "blueprint_by_id s' (tr_instance r) = Some b'"
        unfolding reviewer_ok_def using bp by (auto simp: s')
      then show ?thesis unfolding reviewer_ok_def by blast
    qed
    show "report_ok s' p" if "p \<in> set (rw_reports s')" for p
      using that ok(4) by (simp add: s' report_ok_def)
    show "contract_ok s' c" if "c \<in> set (rw_contracts s')" for c
      using that ok(5) by (simp add: s' contract_ok_def freeze_prerequisites_def done_gate_def latest_report_def)
  qed
qed

lemma reach_review_ok: "review_reach s \<Longrightarrow> review_ok s"
proof (induction rule: review_reach.induct)
  case (start s)
  then show ?case by (simp add: review_ok_def contracts_ok_def)
next
  case others
  show ?case
    by (rule others_ok, fact others.IH, fact others.hyps(2), fact others.hyps(3), fact others.hyps(4), fact others.hyps(5))
qed (blast intro: task_create_ok add_artifact_link_ok add_reviewer_ok task_transition_ok record_report_ok)+

section \<open>Properties\<close>

lemma latest_report_mem: "latest_report s c i l = Some p \<Longrightarrow> p \<in> set (rw_reports s) \<and> rp_contract p = c"
  unfolding latest_report_def by (auto dest: latest_by_mem)

lemma layers_covered:
  assumes "review_ok s" "freeze_prerequisites s i = Inr ()"
  shows "tr_layer ` {r\<in>set (rw_reviewers s). tr_contract r = i} = set REVIEW_LAYERS"
proof (rule card_seteq)
  show "tr_layer ` {r\<in>set (rw_reviewers s). tr_contract r = i} \<subseteq> set REVIEW_LAYERS"
    using review_okD(3) [OF assms(1)] by (auto simp: reviewer_ok_def)
  have "card (set REVIEW_LAYERS) = 3" by (simp add: REVIEW_LAYERS_def)
  with assms(2) show "card (set REVIEW_LAYERS) \<le> card (tr_layer ` {r\<in>set (rw_reviewers s). tr_contract r = i})"
    by (simp add: freeze_prerequisites_def)
qed simp

text \<open>C6: In every reachable store a completed (or completed and then superseded) task rests on a linked
  requirement and on reviewers of all three layers, none of whom shares the blueprint of the builder,
  and the latest report of every registered reviewer is an approval without failed criteria,
  suspected shortcuts or required changes.\<close>

theorem done_means_reviewed:
  assumes "review_reach s" "c \<in> set (rw_contracts s)" "tk_status c \<in> {Done, Superseded}"
  shows "(\<exists>l\<in>set (rw_links s). tl_contract l = tk_id c \<and> tl_kind l = ''source_requirement'') \<and>
    tr_layer ` {r\<in>set (rw_reviewers s). tr_contract r = tk_id c} = set REVIEW_LAYERS \<and>
    (\<forall>r\<in>set (rw_reviewers s). tr_contract r = tk_id c \<longrightarrow>
       blueprint_by_id s (tr_instance r) \<noteq> blueprint_by_id s (tk_builder c) \<and>
       (\<exists>p\<in>set (rw_reports s). latest_report s (tk_id c) (tr_instance r) (tr_layer r) = Some p \<and>
          can_merge p \<and> rp_failed p = [] \<and> rp_shortcuts p = [] \<and> rp_changes p = []))"
proof -
  have ok: "review_ok s" by (rule reach_review_ok [OF assms(1)])
  note okd = review_okD [OF ok]
  have freeze: "freeze_prerequisites s (tk_id c) = Inr ()" and gate: "done_gate s (tk_id c) = Inr ()"
    using okd(5) [OF assms(2)] assms(3) by (auto simp: contract_ok_def)
  have "blueprint_by_id s (tr_instance r) \<noteq> blueprint_by_id s (tk_builder c) \<and>
      (\<exists>p\<in>set (rw_reports s). latest_report s (tk_id c) (tr_instance r) (tr_layer r) = Some p \<and>
         can_merge p \<and> rp_failed p = [] \<and> rp_shortcuts p = [] \<and> rp_changes p = [])"
    if r: "r \<in> set (rw_reviewers s)" "tr_contract r = tk_id c" for r
  proof
    obtain c' b b' where c': "c' \<in> set (rw_contracts s)" "tk_id c' = tr_contract r" "b \<noteq> b'"
        "blueprint_by_id s (tk_builder c') = Some b" "blueprint_by_id s (tr_instance r) = Some b'"
      using okd(3) [OF r(1)] by (auto simp: reviewer_ok_def)
    moreover have "c' = c"
      using c'(1,2) assms(2) okd(1) r(2) by (auto simp: contracts_ok_def distinct_map inj_on_def)
    ultimately show "blueprint_by_id s (tr_instance r) \<noteq> blueprint_by_id s (tk_builder c)" by simp
    obtain p where "latest_report s (tk_id c) (tr_instance r) (tr_layer r) = Some p" "rp_verdict p = ''approved''"
      using gate r by (auto simp: done_gate_def)
    moreover from latest_report_mem [OF this(1)] okd(4) this(2)
    have "p \<in> set (rw_reports s)" "can_merge p" "rp_failed p = []" "rp_shortcuts p = []" "rp_changes p = []"
      by (auto simp: report_ok_def can_merge_def)
    ultimately show "\<exists>p\<in>set (rw_reports s). latest_report s (tk_id c) (tr_instance r) (tr_layer r) = Some p \<and>
         can_merge p \<and> rp_failed p = [] \<and> rp_shortcuts p = [] \<and> rp_changes p = []" by blast
  qed
  moreover have "\<exists>l\<in>set (rw_links s). tl_contract l = tk_id c \<and> tl_kind l = ''source_requirement''"
    using freeze by (simp add: freeze_prerequisites_def)
  ultimately show ?thesis using layers_covered [OF ok freeze] by blast
qed

text \<open>The rows of a contract all carry its tenant, so the filters of the repository add nothing.\<close>

lemma registrations_of_all:
  assumes "review_ok s" "c \<in> set (rw_contracts s)" "tk_tenant c = ctx_tenant ctx"
  shows "set (registrations_of ctx (tk_id c) s) = {r\<in>set (rw_reviewers s). tr_contract r = tk_id c}"
proof -
  have "tr_tenant r = ctx_tenant ctx" if "r \<in> set (rw_reviewers s)" "tr_contract r = tk_id c" for r
    using review_okD(3) [OF assms(1) that(1)] that(2) assms(2,3) review_okD(1) [OF assms(1)]
    by (auto simp: reviewer_ok_def contracts_ok_def distinct_map inj_on_def)
  then show ?thesis by (auto simp: registrations_of_def)
qed

lemma view_of_latest:
  assumes "review_ok s" "c \<in> set (rw_contracts s)" "tk_tenant c = ctx_tenant ctx"
  shows "gv_latest (view_of ctx (tk_id c) s r) =
    map_option rp_verdict (latest_report s (tk_id c) (tr_instance r) (tr_layer r))"
proof -
  have "rp_tenant p = ctx_tenant ctx" if "p \<in> set (rw_reports s)" "rp_contract p = tk_id c" for p
    using review_okD(4) [OF assms(1) that(1)] that(2) assms(2,3) review_okD(1) [OF assms(1)]
    by (auto simp: report_ok_def contracts_ok_def distinct_map inj_on_def)
  then have "filter (\<lambda>p. rp_tenant p = ctx_tenant ctx \<and> rp_contract p = tk_id c \<and> rp_instance p = tr_instance r \<and>
        rp_layer p = tr_layer r) (rw_reports s) =
      filter (\<lambda>p. rp_contract p = tk_id c \<and> rp_instance p = tr_instance r \<and> rp_layer p = tr_layer r) (rw_reports s)"
    by (intro filter_cong) auto
  then show ?thesis by (simp add: view_of_def latest_report_def)
qed

lemma review_status_eligible:
  assumes "review_ok s" "c \<in> set (rw_contracts s)" "tk_tenant c = ctx_tenant ctx"
    and "freeze_prerequisites s (tk_id c) = Inr ()"
  shows "(\<exists>d. review_status ctx (tk_id c) s = Inr d \<and> dg_eligible d) \<longleftrightarrow> done_gate s (tk_id c) = Inr ()"
proof -
  let ?R = "{r\<in>set (rw_reviewers s). tr_contract r = tk_id c}"
  have layers: "tr_layer ` ?R = set REVIEW_LAYERS" by (rule layers_covered [OF assms(1,4)])
  have img: "gv_layer ` view_of ctx (tk_id c) s ` ?R = set REVIEW_LAYERS"
    unfolding image_image by (simp add: view_of_def layers)
  have lay: "gv_layer (view_of ctx (tk_id c) s r) \<in> set REVIEW_LAYERS" if "r \<in> ?R" for r
    using img that by blast
  show ?thesis
    unfolding review_status_def evaluate_done_gate_eligible
    using lay by (auto simp: registrations_of_all [OF assms(1-3)] img view_of_latest [OF assms(1-3)] done_gate_def)
qed

text \<open>C7: For a task under specialist review the decision computed on read and the guard of the database
  agree: completing the task succeeds exactly when \<open>review_status\<close> says it is eligible.\<close>

theorem view_agrees_with_guard:
  assumes "review_reach s" "task_get ctx i s = Some c" "tk_status c = SpecialistReview"
    and "require_text ''actor'' actor 200 = Inr ()"
  shows "(\<exists>r. complete_task ctx i actor clock s = Inr r) \<longleftrightarrow> (\<exists>d. review_status ctx i s = Inr d \<and> dg_eligible d)"
proof -
  have ok: "review_ok s" by (rule reach_review_ok [OF assms(1)])
  have c: "c \<in> set (rw_contracts s)" "tk_id c = i" "tk_tenant c = ctx_tenant ctx" using task_get_mem [OF assms(2)] by simp_all
  have freeze: "freeze_prerequisites s i = Inr ()"
    using review_okD(5) [OF ok c(1)] assms(3) c(2) by (simp add: contract_ok_def)
  have t: "validate_task_transition (contract_status_value (tk_status c)) (contract_status_value Done) = Inr ()"
    by (simp only: validate_task_transition_Inr) (simp add: assms(3))
  have "contract_update_guard s c (c\<lparr>tk_status := Done, tk_updated_at := clock\<rparr>) = done_gate s i"
    using c(2) by (simp add: contract_update_guard_def assms(3) contract_content_def)
  then have "(\<exists>r. complete_task ctx i actor clock s = Inr r) \<longleftrightarrow> done_gate s i = Inr ()"
    unfolding complete_task_def task_transition_def assms(4) by (simp add: assms(2,3) t Let_def del: contract_status_value.simps)
  with review_status_eligible [OF ok c(1,3)] c(2) freeze show ?thesis by simp
qed

section \<open>A concrete task\<close>

definition sample_agents :: "agent_row list" where
  "sample_agents =
     [\<lparr>in_id = 3, in_tenant = 7, in_project = 8, in_status = ACTIVE, in_version = 11\<rparr>,
      \<lparr>in_id = 4, in_tenant = 7, in_project = 8, in_status = ACTIVE, in_version = 12\<rparr>]"

definition sample_reviews :: review_store where
  "sample_reviews =
     \<lparr>rw_db = empty_db, rw_versions = [\<lparr>ve_id = 11, ve_blueprint = 21\<rparr>, \<lparr>ve_id = 12, ve_blueprint = 22\<rparr>],
      rw_agents = sample_agents,
      rw_artifacts = [\<lparr>ar_id = 5, ar_tenant = 7, ar_project = 8, ar_kind = ''requirement'', ar_ref = ''R1'',
        ar_title = ''t'', ar_parent = None, ar_classification = None\<rparr>],
      rw_contracts = [], rw_links = [], rw_reviewers = [], rw_reports = [], rw_events = []\<rparr>"

lemma sample_reviews_tables [simp]:
  "rw_db sample_reviews = empty_db" "rw_agents sample_reviews = sample_agents"
  "rw_contracts sample_reviews = []" "rw_links sample_reviews = []" "rw_reviewers sample_reviews = []"
  "rw_reports sample_reviews = []" "rw_events sample_reviews = []"
  by (simp_all add: sample_reviews_def)

abbreviation rev_ctx :: tenant_context where
  "rev_ctx \<equiv> \<lparr>ctx_tenant = 7, ctx_actor = None\<rparr>"

definition sample_contract_args :: contract_args where
  "sample_contract_args =
     \<lparr>nc_task_ref = PStr ''T-1'', nc_title = PStr ''t'', nc_description = PStr ''d'', nc_must_have = PList [],
      nc_must_not_do = PList [], nc_required_evidence = PList [], nc_definition_of_done = PList [],
      nc_allowed_tools = PList [], nc_forbidden_tools = PList [], nc_risk_level = PStr ''low''\<rparr>"

definition sample_report_args :: report_args where
  "sample_report_args =
     \<lparr>nr_verdict = PStr ''approved'', nr_summary = PStr ''ok'', nr_failed_criteria = PList [],
      nr_suspected_shortcuts = PList [], nr_required_changes = PList [], nr_source = PStr ''s'',
      nr_source_provenance = PStr ''caller_supplied_unverified''\<rparr>"

text \<open>A reachable store with the one contract \<open>c\<close>, over the agents and artifacts of the sample.\<close>

definition sample_shape :: "review_store \<Rightarrow> contract_row \<Rightarrow> bool" where
  "sample_shape s c = (review_reach s \<and> rw_contracts s = [c] \<and> tk_id c = 100 \<and> tk_tenant c = 7 \<and> tk_project c = 8 \<and>
     tk_builder c = 3 \<and> rw_agents s = sample_agents \<and> rw_versions s = rw_versions sample_reviews \<and>
     rw_artifacts s = rw_artifacts sample_reviews)"

lemma sample_text [simp]: "require_text l (PStr ''u'') 200 = Inr ()"
  by (simp add: bounded_text_def py_strip_def py_space_def)

lemma sample_get: "sample_shape s c \<Longrightarrow> task_get rev_ctx 100 s = Some c"
  by (simp add: sample_shape_def task_get_def)

lemma sample_created_task:
  "\<exists>s c. sample_shape s c \<and> tk_status c = Draft \<and> rw_links s = [] \<and> rw_reviewers s = [] \<and> rw_reports s = []"
proof -
  have r: "review_reach sample_reviews"
    by (rule start) (simp_all add: sample_reviews_def sample_agents_def)
  have v: "validate_new_contract sample_contract_args = Inr ()"
    by (simp add: validate_new_contract_def sample_contract_args_def task_ref_ok_def ref_matches_def ref_start_def
        ref_char_def review_caps bounded_text_def py_strip_def py_space_def RISK_LEVELS_def str_in_def
        require_text_list_def texts_of_def map_filter_simps)
  let ?b = "\<lparr>in_id = 3, in_tenant = 7, in_project = 8, in_status = ACTIVE, in_version = 11\<rparr> :: agent_row"
  let ?c = "contract_of rev_ctx sample_contract_args ?b 0 sample_reviews"
  have b: "agent_of rev_ctx 3 sample_reviews = Some ?b"
    by (simp add: agent_of_def sample_reviews_def sample_agents_def)
  have g: "contract_insert_guard sample_reviews ?c = Inr ()"
    by (simp add: contract_insert_guard_def contract_of_def tc_check_contract_arrays_def tc_text_array_ok_def
        sample_contract_args_def text_value_def texts_of_def map_filter_simps sql_blank_def sample_reviews_def)
  have t: "store_texts (concat (contract_content ?c)) = Inr ()" "store_texts [text_value (PStr ''u'')] = Inr ()"
    by (simp_all add: store_texts_def storable_texts_def contract_content_def contract_of_def sample_contract_args_def
        text_value_def texts_of_def map_filter_simps)
  have "\<exists>s'. task_create rev_ctx 3 sample_contract_args (PStr ''u'') 0 sample_reviews = Inr (?c, s') \<and>
      rw_contracts s' = [?c] \<and> rw_links s' = [] \<and> rw_reviewers s' = [] \<and> rw_reports s' = [] \<and>
      rw_agents s' = sample_agents \<and> rw_versions s' = rw_versions sample_reviews \<and>
      rw_artifacts s' = rw_artifacts sample_reviews"
    by (simp add: task_create_def v b g t Let_def)
  then obtain s' where s': "task_create rev_ctx 3 sample_contract_args (PStr ''u'') 0 sample_reviews = Inr (?c, s')"
      "rw_contracts s' = [?c]" "rw_links s' = []" "rw_reviewers s' = []" "rw_reports s' = []"
      "rw_agents s' = sample_agents" "rw_versions s' = rw_versions sample_reviews"
      "rw_artifacts s' = rw_artifacts sample_reviews" by blast
  have "sample_shape s' ?c"
    using create [OF r s'(1)] s' by (simp add: sample_shape_def contract_of_def sample_reviews_def empty_db_def)
  moreover have "tk_status ?c = Draft" by (simp add: contract_of_def)
  ultimately show ?thesis using s' by blast
qed

lemma sample_linked:
  assumes "sample_shape s c" "tk_status c = Draft" "rw_links s = []"
  shows "\<exists>s' l. sample_shape s' c \<and> rw_links s' = [l] \<and> tl_contract l = 100 \<and> tl_kind l = ''source_requirement'' \<and>
    rw_reviewers s' = rw_reviewers s \<and> rw_reports s' = rw_reports s"
proof -
  note sh = assms(1) [unfolded sample_shape_def]
  let ?l = "\<lparr>tl_tenant = 7, tl_project = 8, tl_contract = 100, tl_artifact = 5, tl_kind = ''source_requirement''\<rparr>"
  have "\<exists>s'. add_artifact_link rev_ctx 100 ''source_requirement'' 5 (PStr ''u'') s = Inr (?l, s') \<and>
      rw_links s' = [?l] \<and> rw_contracts s' = rw_contracts s \<and> rw_reviewers s' = rw_reviewers s \<and>
      rw_reports s' = rw_reports s \<and> rw_agents s' = rw_agents s \<and> rw_versions s' = rw_versions s \<and>
      rw_artifacts s' = rw_artifacts s"
    using sh assms(2,3)
    by (simp add: add_artifact_link_def validate_artifact_link_def ARTIFACT_LINK_KINDS_def sample_get [OF assms(1)]
        Let_def link_insert_guard_def status_by_id_def task_get_or_raise_def sample_reviews_def)
  then obtain s' where s': "add_artifact_link rev_ctx 100 ''source_requirement'' 5 (PStr ''u'') s = Inr (?l, s')"
    and f: "rw_links s' = [?l]"
      "rw_contracts s' = rw_contracts s" "rw_reviewers s' = rw_reviewers s" "rw_reports s' = rw_reports s"
      "rw_agents s' = rw_agents s" "rw_versions s' = rw_versions s" "rw_artifacts s' = rw_artifacts s" by blast
  have "sample_shape s' c" using artifact [OF _ s'] sh f by (simp add: sample_shape_def)
  then show ?thesis using f by (intro exI [of _ s'] exI [of _ ?l]) simp
qed

lemma sample_reviewed:
  assumes "sample_shape s c" "tk_status c = Draft" "layer \<in> set REVIEW_LAYERS"
    and "layer \<notin> tr_layer ` set (rw_reviewers s)" "length (rw_reviewers s) < 3"
  shows "\<exists>s' r. sample_shape s' c \<and> rw_links s' = rw_links s \<and> rw_reviewers s' = rw_reviewers s @ [r] \<and>
    tr_contract r = 100 \<and> tr_tenant r = 7 \<and> tr_instance r = 4 \<and> tr_layer r = layer \<and> rw_reports s' = rw_reports s"
proof -
  note sh = assms(1) [unfolded sample_shape_def]
  let ?r = "\<lparr>tr_id = db_next_id (rw_db s), tr_tenant = 7, tr_project = 8, tr_contract = 100, tr_instance = 4,
      tr_layer = layer, tr_created_at = 0\<rparr>"
  have bp: "blueprint_of rev_ctx 3 s = Inr 21" "blueprint_of rev_ctx 4 s = Inr 22"
    "blueprint_by_id s 3 = Some 21" "blueprint_by_id s 4 = Some 22"
    using sh by (simp_all add: blueprint_of_def blueprint_by_id_def sample_agents_def sample_reviews_def)
  have "length (registrations_of rev_ctx 100 s) \<le> length (rw_reviewers s)"
    by (simp add: registrations_of_def)
  then have n: "length (registrations_of rev_ctx 100 s) < MAX_REVIEWERS" using assms(5) by (simp add: MAX_REVIEWERS_def)
  have ag: "agent_of rev_ctx 4 s = Some \<lparr>in_id = 4, in_tenant = 7, in_project = 8, in_status = ACTIVE, in_version = 12\<rparr>"
    using sh by (simp add: agent_of_def sample_agents_def)
  have g: "reviewer_insert_guard s ?r = Inr ()"
    using sh assms(2,4) bp by (auto simp: reviewer_insert_guard_def status_by_id_def)
  have "\<exists>s'. add_reviewer rev_ctx 100 4 layer (PStr ''u'') 0 s = Inr (?r, s') \<and>
      rw_links s' = rw_links s \<and> rw_contracts s' = rw_contracts s \<and> rw_reviewers s' = rw_reviewers s @ [?r] \<and>
      rw_reports s' = rw_reports s \<and> rw_agents s' = rw_agents s \<and> rw_versions s' = rw_versions s \<and>
      rw_artifacts s' = rw_artifacts s"
    using sh assms(2,3) g n bp
    by (simp add: add_reviewer_def sample_get [OF assms(1)] Let_def task_get_or_raise_def ag)
  then obtain s' where s': "add_reviewer rev_ctx 100 4 layer (PStr ''u'') 0 s = Inr (?r, s')"
    and f: "rw_links s' = rw_links s" "rw_contracts s' = rw_contracts s" "rw_reviewers s' = rw_reviewers s @ [?r]"
      "rw_reports s' = rw_reports s" "rw_agents s' = rw_agents s" "rw_versions s' = rw_versions s"
      "rw_artifacts s' = rw_artifacts s" by blast
  have "sample_shape s' c" using reviewer [OF _ s'] sh f by (simp add: sample_shape_def)
  then show ?thesis using f by (intro exI [of _ s'] exI [of _ ?r]) simp
qed

lemma sample_moved:
  assumes "sample_shape s c" "st \<in> set (TASK_TRANSITIONS (tk_status c))"
    and "tk_status c = Draft \<and> st = ReadyForDevelopment \<longrightarrow> freeze_prerequisites s 100 = Inr ()"
    and "tk_status c = SpecialistReview \<and> st = Done \<longrightarrow> done_gate s 100 = Inr ()"
  shows "\<exists>s' c'. task_transition rev_ctx 100 st (PStr ''u'') action 0 s = Inr (c', s') \<and>
    sample_shape s' c' \<and> tk_status c' = st \<and> rw_links s' = rw_links s \<and>
    rw_reviewers s' = rw_reviewers s \<and> rw_reports s' = rw_reports s"
proof -
  note sh = assms(1) [unfolded sample_shape_def]
  let ?c = "c\<lparr>tk_status := st, tk_updated_at := 0\<rparr>"
  have ne: "st \<noteq> tk_status c" using assms(2) no_self_transition by metis
  have g: "contract_update_guard s c ?c = Inr ()"
    using ne assms(2-4) sh by (auto simp: contract_update_guard_def contract_content_def)
  have v: "validate_task_transition (contract_status_value (tk_status c)) (contract_status_value st) = Inr ()"
    using assms(2) by (simp only: validate_task_transition_Inr)
  have "\<exists>s'. task_transition rev_ctx 100 st (PStr ''u'') action 0 s = Inr (?c, s')"
    by (simp add: task_transition_def task_get_or_raise_def sample_get [OF assms(1)] v g Let_def
        del: validate_task_transition_Inr)
  then obtain s' where s': "task_transition rev_ctx 100 st (PStr ''u'') action 0 s = Inr (?c, s')" by blast
  then obtain c0 where "task_get rev_ctx 100 s = Some c0"
    and f: "rw_contracts s' = update_where (\<lambda>r. tk_id r = tk_id c0) (\<lambda>_. ?c) (rw_contracts s)"
      "rw_links s' = rw_links s" "rw_reviewers s' = rw_reviewers s" "rw_reports s' = rw_reports s"
      "rw_agents s' = rw_agents s" "rw_versions s' = rw_versions s" "rw_artifacts s' = rw_artifacts s"
    by (rule task_transition_facts) blast
  then have "c0 = c" by (simp add: sample_get [OF assms(1)])
  then have "sample_shape s' ?c"
    using move [OF _ s'] sh f by (simp add: sample_shape_def update_where_def)
  then show ?thesis using s' f by (intro exI [of _ s'] exI [of _ ?c]) simp
qed

lemma sample_reported:
  assumes "sample_shape s c" "tk_status c = SpecialistReview"
    and "r \<in> set (rw_reviewers s)" "tr_contract r = 100" "tr_tenant r = 7" "tr_instance r = 4" "tr_layer r = layer"
  shows "\<exists>s' p. sample_shape s' c \<and> rw_links s' = rw_links s \<and> rw_reviewers s' = rw_reviewers s \<and>
    rw_reports s' = rw_reports s @ [p] \<and> rp_contract p = 100 \<and> rp_instance p = 4 \<and> rp_layer p = layer \<and>
    rp_verdict p = ''approved''"
proof -
  note sh = assms(1) [unfolded sample_shape_def]
  let ?p = "report_of rev_ctx c 4 layer sample_report_args 0 s"
  have v: "validate_review_report sample_report_args = Inr ()"
    by (simp add: validate_review_report_def sample_report_args_def VERDICTS_def SOURCE_PROVENANCES_def str_in_def
        review_caps bounded_text_def py_strip_def py_space_def require_text_list_def)
  have g: "report_insert_guard s ?p = Inr ()"
    using sh assms(2) by (simp add: report_insert_guard_def report_of_def status_by_id_def REPORTABLE_STATUSES_def
        tc_text_array_ok_def sample_report_args_def texts_of_def map_filter_simps)
  have r: "\<exists>r\<in>set (registrations_of rev_ctx 100 s). tr_instance r = 4 \<and> tr_layer r = layer"
    using assms(3-7) by (auto simp: registrations_of_def)
  have "\<exists>s'. record_report rev_ctx 100 4 layer sample_report_args (PStr ''u'') 0 s = Inr (?p, s') \<and>
      rw_links s' = rw_links s \<and> rw_contracts s' = rw_contracts s \<and> rw_reviewers s' = rw_reviewers s \<and>
      rw_reports s' = rw_reports s @ [?p] \<and> rw_agents s' = rw_agents s \<and> rw_versions s' = rw_versions s \<and>
      rw_artifacts s' = rw_artifacts s"
    using sh g r v
    by (simp add: record_report_def sample_get [OF assms(1)] Let_def task_get_or_raise_def)
  then obtain s' where s': "record_report rev_ctx 100 4 layer sample_report_args (PStr ''u'') 0 s = Inr (?p, s')"
    and f: "rw_links s' = rw_links s" "rw_contracts s' = rw_contracts s" "rw_reviewers s' = rw_reviewers s"
      "rw_reports s' = rw_reports s @ [?p]" "rw_agents s' = rw_agents s" "rw_versions s' = rw_versions s"
      "rw_artifacts s' = rw_artifacts s" by blast
  have "sample_shape s' c" using report [OF _ s'] sh f by (simp add: sample_shape_def)
  moreover have "rp_contract ?p = 100" "rp_instance ?p = 4" "rp_layer ?p = layer" "rp_verdict ?p = ''approved''"
    using sh by (simp_all add: report_of_def sample_report_args_def text_value_def)
  ultimately show ?thesis using f by (intro exI [of _ s'] exI [of _ ?p]) simp
qed

text \<open>A task under review, with one reviewer for the three layers and no report yet.\<close>

lemma sample_under_review:
  "\<exists>s c r1 r2 r3. sample_shape s c \<and> tk_status c = SpecialistReview \<and> rw_reviewers s = [r1, r2, r3] \<and>
     rw_reports s = [] \<and> (\<forall>r\<in>{r1, r2, r3}. tr_contract r = 100 \<and> tr_tenant r = 7 \<and> tr_instance r = 4) \<and>
     map tr_layer [r1, r2, r3] = REVIEW_LAYERS"
proof -
  obtain s0 c where s0: "sample_shape s0 c" "tk_status c = Draft" "rw_links s0 = []" "rw_reviewers s0 = []" "rw_reports s0 = []"
    using sample_created_task by blast
  obtain s1 l where s1: "sample_shape s1 c" "rw_links s1 = [l]" "tl_contract l = 100" "tl_kind l = ''source_requirement''"
      "rw_reviewers s1 = []" "rw_reports s1 = []"
    using sample_linked [OF s0(1-3)] s0(4,5) by auto
  obtain s2 r1 where s2: "sample_shape s2 c" "rw_links s2 = [l]" "rw_reviewers s2 = [r1]" "rw_reports s2 = []"
      "tr_contract r1 = 100" "tr_tenant r1 = 7" "tr_instance r1 = 4" "tr_layer r1 = ''role_specific''"
    using sample_reviewed [OF s1(1) s0(2), of "''role_specific''"] s1 by (auto simp: REVIEW_LAYERS_def)
  obtain s3 r2 where s3: "sample_shape s3 c" "rw_links s3 = [l]" "rw_reviewers s3 = [r1, r2]" "rw_reports s3 = []"
      "tr_contract r2 = 100" "tr_tenant r2 = 7" "tr_instance r2 = 4" "tr_layer r2 = ''cross_functional''"
    using sample_reviewed [OF s2(1) s0(2), of "''cross_functional''"] s2 by (auto simp: REVIEW_LAYERS_def)
  obtain s4 r3 where s4: "sample_shape s4 c" "rw_links s4 = [l]" "rw_reviewers s4 = [r1, r2, r3]" "rw_reports s4 = []"
      "tr_contract r3 = 100" "tr_tenant r3 = 7" "tr_instance r3 = 4" "tr_layer r3 = ''acceptance''"
    using sample_reviewed [OF s3(1) s0(2), of "''acceptance''"] s2(8) s3 by (auto simp: REVIEW_LAYERS_def)
  have "{r\<in>set (rw_reviewers s4). tr_contract r = 100} = {r1, r2, r3}" using s2(5) s3(5) s4(3,5) by auto
  then have fr: "freeze_prerequisites s4 100 = Inr ()"
    using s1(3,4) s2(8) s3(8) s4(2,8) by (simp add: freeze_prerequisites_def)
  obtain s5 c5 where s5: "sample_shape s5 c5" "tk_status c5 = ReadyForDevelopment" "rw_reviewers s5 = [r1, r2, r3]" "rw_reports s5 = []"
    using sample_moved [OF s4(1), of ReadyForDevelopment] s0(2) fr s4(3,4) by fastforce
  obtain s6 c6 where s6: "sample_shape s6 c6" "tk_status c6 = InProgress" "rw_reviewers s6 = [r1, r2, r3]" "rw_reports s6 = []"
    using sample_moved [OF s5(1), of InProgress] s5 by fastforce
  obtain s7 c7 where s7: "sample_shape s7 c7" "tk_status c7 = SpecialistReview" "rw_reviewers s7 = [r1, r2, r3]" "rw_reports s7 = []"
    using sample_moved [OF s6(1), of SpecialistReview] s6 by fastforce
  from s7 s2 s3 s4 show ?thesis
    by (intro exI [of _ s7] exI [of _ c7] exI [of _ r1] exI [of _ r2] exI [of _ r3]) (simp add: REVIEW_LAYERS_def)
qed

lemma done_means_reviewed_witness:
  "\<exists>s c. review_reach s \<and> c \<in> set (rw_contracts s) \<and> tk_status c = Done \<and>
     tr_layer ` {r\<in>set (rw_reviewers s). tr_contract r = tk_id c} = set REVIEW_LAYERS"
proof -
  obtain s0 c r1 r2 r3 where s0: "sample_shape s0 c" "tk_status c = SpecialistReview" "rw_reviewers s0 = [r1, r2, r3]"
      "rw_reports s0 = []" "map tr_layer [r1, r2, r3] = REVIEW_LAYERS"
    and r: "\<And>r. r \<in> {r1, r2, r3} \<Longrightarrow> tr_contract r = 100 \<and> tr_tenant r = 7 \<and> tr_instance r = 4"
    using sample_under_review by metis
  obtain s1 p1 where s1: "sample_shape s1 c" "rw_reviewers s1 = [r1, r2, r3]" "rw_reports s1 = [p1]"
      "rp_contract p1 = 100" "rp_instance p1 = 4" "rp_layer p1 = tr_layer r1" "rp_verdict p1 = ''approved''"
    using sample_reported [OF s0(1,2), of r1] s0 r [of r1] by auto
  obtain s2 p2 where s2: "sample_shape s2 c" "rw_reviewers s2 = [r1, r2, r3]" "rw_reports s2 = [p1, p2]"
      "rp_contract p2 = 100" "rp_instance p2 = 4" "rp_layer p2 = tr_layer r2" "rp_verdict p2 = ''approved''"
    using sample_reported [OF s1(1) s0(2), of r2] s1 r [of r2] by auto
  obtain s3 p3 where s3: "sample_shape s3 c" "rw_reviewers s3 = [r1, r2, r3]" "rw_reports s3 = [p1, p2, p3]"
      "rp_contract p3 = 100" "rp_instance p3 = 4" "rp_layer p3 = tr_layer r3" "rp_verdict p3 = ''approved''"
    using sample_reported [OF s2(1) s0(2), of r3] s2 r [of r3] by auto
  have "tr_layer r1 = ''role_specific''" "tr_layer r2 = ''cross_functional''" "tr_layer r3 = ''acceptance''"
    using s0(5) by (simp_all add: REVIEW_LAYERS_def)
  then have "done_gate s3 100 = Inr ()"
    using r [of r1] r [of r2] r [of r3] s1 s2 s3 by (auto simp: done_gate_def latest_report_def)
  then obtain s4 c4 where s4: "sample_shape s4 c4" "tk_status c4 = Done"
    using sample_moved [OF s3(1), of Done] s0(2) by fastforce
  then have m: "review_reach s4" "c4 \<in> set (rw_contracts s4)" by (simp_all add: sample_shape_def)
  from done_means_reviewed [OF m] s4(2) m show ?thesis by blast
qed

lemma view_agrees_with_guard_witness:
  "\<exists>s. review_reach s \<and> \<not> (\<exists>r. complete_task rev_ctx 100 (PStr ''u'') 0 s = Inr r) \<and>
     \<not> (\<exists>d. review_status rev_ctx 100 s = Inr d \<and> dg_eligible d)"
proof -
  obtain s c r1 r2 r3 where s: "sample_shape s c" "tk_status c = SpecialistReview" "rw_reviewers s = [r1, r2, r3]"
      "rw_reports s = []" and r: "tr_contract r1 = 100"
    using sample_under_review by (metis insertI1)
  have reach: "review_reach s" using s(1) by (simp add: sample_shape_def)
  have "done_gate s 100 \<noteq> Inr ()"
    using s(3,4) r by (simp add: done_gate_def latest_report_def)
  then have "\<not> (\<exists>q. complete_task rev_ctx 100 (PStr ''u'') 0 s = Inr q)"
    using s(2) sample_get [OF s(1)]
    by (auto simp: complete_task_def elim!: task_transition_facts dest: task_get_mem)
  with view_agrees_with_guard [OF reach sample_get [OF s(1)] s(2), of "PStr ''u''" 0] reach show ?thesis by auto
qed

text \<open>
  The shape checks of the database repeat those of the code: a contract the validator accepts passes
  the array checks, and so does a validated report.
\<close>

lemma sql_blank_strip: "sql_blank x \<Longrightarrow> py_strip x = []"
  unfolding py_strip_empty_iff sql_blank_def by (fastforce simp: py_space_def Let_def)

lemma text_list_array_ok:
  "require_text_list l v n m = Inr u \<Longrightarrow> tc_text_array_ok (texts_of v) n m"
  unfolding require_text_list_Inr
  by (fastforce simp: tc_text_array_ok_def list_all_iff bounded_text_def dest: sql_blank_strip)

lemma validated_contract_passes_arrays:
  assumes "validate_new_contract a = Inr ()"
  shows "tc_check_contract_arrays (contract_of ctx a n clock s) = Inr ()"
  using assms
  by (auto simp: validate_new_contract_def tc_check_contract_arrays_def contract_of_def Let_def review_caps
      dest: text_list_array_ok)

lemma validated_ref:
  assumes "task_ref_ok v"
  shows "1 \<le> length (text_value v)" "\<not> sql_blank (text_value v)"
proof -
  obtain t where t: "v = PStr t" and m: "ref_matches t \<or> t \<noteq> [] \<and> last t = CHR 0x0A \<and> ref_matches (butlast t)"
    using assms by (auto simp: task_ref_ok_def split: pyval.splits)
  then obtain x where x: "x \<in> set t" "ref_start x"
    by (metis in_set_butlastD list.set_sel(1) ref_matches_def)
  then show "1 \<le> length (text_value v)" by (cases t) (auto simp: t text_value_def)
  have "\<not> (of_char x :: nat) \<in> {32, 9, 10, 13, 11, 12}"
    using x(2) by (auto simp: ref_start_def Let_def)
  with x(1) show "\<not> sql_blank (text_value v)" unfolding sql_blank_def t text_value_def by auto
qed

lemma ref_no_nul: "task_ref_ok v \<Longrightarrow> CHR 0x00 \<notin> set (text_value v)"
proof -
  have m: "CHR 0x00 \<notin> set t" if "ref_matches t" for t
    using that by (cases t) (auto simp: ref_matches_def ref_start_def ref_char_def list_all_iff Let_def)
  assume "task_ref_ok v"
  then obtain t where t: "v = PStr t" "ref_matches t \<or> t \<noteq> [] \<and> last t = CHR 0x0A \<and> ref_matches (butlast t)"
    by (auto simp: task_ref_ok_def split: pyval.splits)
  have "t \<noteq> [] \<Longrightarrow> set t = insert (last t) (set (butlast t))" by (cases t rule: rev_cases) auto
  with t m [of t] m [of "butlast t"] show ?thesis by (auto simp: text_value_def)
qed

lemma known_tool_no_nul: "get_contract t \<noteq> None \<Longrightarrow> CHR 0x00 \<notin> set t"
  by (auto simp: get_contract_def TOOL_REGISTRY_def mk_tool_def split: if_splits)

text \<open>The reference, the tools and the risk level of a validated contract have no NUL to refuse.\<close>

lemma validated_storable:
  assumes "validate_new_contract a = Inr ()"
  shows "storable_texts (concat (contract_content (contract_of ctx a n clock s))) \<longleftrightarrow>
    storable_texts (text_value (nc_title a) # text_value (nc_description a) # texts_of (nc_must_have a) @
      texts_of (nc_must_not_do a) @ texts_of (nc_required_evidence a) @ texts_of (nc_definition_of_done a))"
proof -
  have ref: "CHR 0x00 \<notin> set (text_value (nc_task_ref a))"
    using assms ref_no_nul by (auto simp: validate_new_contract_def)
  have risk: "CHR 0x00 \<notin> set (text_value (nc_risk_level a))"
    using assms by (auto simp: validate_new_contract_def str_in_def text_value_def RISK_LEVELS_def split: pyval.splits)
  have "CHR 0x00 \<notin> set t" if "t \<in> set (texts_of (nc_allowed_tools a)) \<union> set (texts_of (nc_forbidden_tools a))" for t
    using assms that known_tool_no_nul [of t] by (auto simp: validate_new_contract_def Let_def)
  with ref risk show ?thesis
    by (auto simp: storable_texts_def contract_content_def contract_of_def list_all_iff)
qed



end
