(* ===== verification/Finalization.thy ===== *)
theory Finalization
  imports Control_Loop Policy
begin

text \<open>
  Recording a go-live decision: \<open>load_binding_snapshot\<close> and \<open>finalize_decision\<close> of
  \<open>app/repositories/go_live_decisions.py\<close>, and the functions migration \<open>0054\<close> installs in the
  database: the digests it recomputes from the stored rows, the policy check, the guards of events and
  evaluations, the function that writes a decision and the verification of the decision chain.
  Foreign keys and the format checks of digest columns are not modelled.
\<close>

section \<open>Times as text\<close>

text \<open>
  \<open>strftime('%Y-%m-%dT%H:%M:%S.%fZ')\<close> of a UTC time, which is \<open>to_char\<close> with the same picture: the
  civil date of a day number, and fields padded with zeros.
\<close>

definition civil_of_days :: "int \<Rightarrow> int \<times> int \<times> int" where
  "civil_of_days days =
     (let z = days + 719468; era = z div 146097; doe = z mod 146097;
          yoe = (doe - doe div 1460 + doe div 36524 - doe div 146096) div 365;
          doy = doe - (365 * yoe + yoe div 4 - yoe div 100);
          mp = (5 * doy + 2) div 153;
          m = (if mp < 10 then mp + 3 else mp - 9)
      in (yoe + era * 400 + (if m \<le> 2 then 1 else 0), m, doy - (153 * mp + 2) div 5 + 1))"

definition padded :: "nat \<Rightarrow> int \<Rightarrow> string" where
  "padded width n = (let t = int_str n in replicate (width - length t) CHR ''0'' @ t)"

definition iso_utc :: "timestamp \<Rightarrow> string" where
  "iso_utc t =
     (let (y, m, d) = civil_of_days (date_of t);
          rest = t - day_start (date_of t);
          secs = rest div 1000000
      in padded 4 y @ ''-'' @ padded 2 m @ ''-'' @ padded 2 d @ ''T'' @
         padded 2 (secs div 3600) @ '':'' @ padded 2 (secs div 60 mod 60) @ '':'' @ padded 2 (secs mod 60) @
         ''.'' @ padded 6 (rest mod 1000000) @ ''Z'')"

section \<open>The bindings of a preapproval\<close>

definition load_binding_snapshot ::
  "tenant_context \<Rightarrow> uuid \<Rightarrow> uuid option \<Rightarrow> uuid option \<Rightarrow> uuid option \<Rightarrow> uuid option \<Rightarrow> loop_store \<Rightarrow>
     bindings \<times> timestamp option" where
  "load_binding_snapshot ctx project request_id attestation_id emergency_binding_id emergency_event_id s =
     (case (request_id, attestation_id) of
        (Some rid, Some aid) \<Rightarrow>
          (case (List.find (\<lambda>r. pq_id r = rid \<and> pq_project r = project \<and> pq_tenant r = ctx_tenant ctx)
                   (ls_requests s),
                 List.find (\<lambda>a. ta_id a = aid \<and> ta_request a = rid \<and> ta_project a = project \<and>
                   ta_tenant a = ctx_tenant ctx) (ls_attestations s)) of
             (Some request, Some attestation) \<Rightarrow>
               (case List.find (\<lambda>p. pol_id p = pq_autonomy_policy request \<and> pol_project p = project \<and>
                        pol_tenant p = ctx_tenant ctx) (autonomy_policies (ls_db s)) of
                  None \<Rightarrow> ([], None)
                | Some autonomy \<Rightarrow>
                    ([(''release_candidate_id'', uuid_str (pq_release_candidate request)),
                      (''evidence_pack_id'', uuid_str (pq_evidence_pack request)),
                      (''release_verdict_id'', uuid_str (pq_verdict request)),
                      (''preapproval_request_id'', uuid_str (pq_id request)),
                      (''preapproval_attestation_id'', uuid_str (ta_id attestation)),
                      (''autonomy_policy_id'', uuid_str (pq_autonomy_policy request)),
                      (''autonomy_policy_digest'', pq_autonomy_digest request),
                      (''autonomy_policy_updated_at'', iso_utc (pol_updated_at autonomy))] @
                     (case emergency_binding_id of
                        None \<Rightarrow> [] | Some b \<Rightarrow> [(''emergency_control_binding_id'', uuid_str b)]) @
                     (case emergency_event_id of
                        None \<Rightarrow> [] | Some e \<Rightarrow> [(''emergency_stop_event_id'', uuid_str e)]),
                     Some (ta_expires_at attestation)))
           | _ \<Rightarrow> ([], None))
      | _ \<Rightarrow> ([], None))"

section \<open>Digests recomputed by the database\<close>

definition sql_gate_text :: "gate_result_row \<Rightarrow> string" where
  "sql_gate_text g =
     int_str (gg_number g) @ '':'' @
     nat_str (length (utf8 (gg_name g))) @ '':'' @ gg_name g @ '':'' @
     nat_str (length (utf8 (gg_status g))) @ '':'' @ gg_status g @ '':'' @
     nat_str (length (utf8 (gg_reason g))) @ '':'' @ gg_reason g @ '':'' @ gg_digest g"

definition gate_rows :: "uuid \<Rightarrow> loop_store \<Rightarrow> gate_result_row list" where
  "gate_rows evaluation s = filter (\<lambda>g. gg_evaluation g = evaluation) (ls_gate_results s)"

definition sql_gate_digest :: "(string \<Rightarrow> string) \<Rightarrow> uuid \<Rightarrow> loop_store \<Rightarrow> string" where
  "sql_gate_digest sha evaluation s =
     hash_text sha (join [CHR 0x0A] (map sql_gate_text (sort_key gg_number (gate_rows evaluation s))))"

definition sql_uuid :: "uuid option \<Rightarrow> string" where
  "sql_uuid u = (case u of None \<Rightarrow> [] | Some i \<Rightarrow> uuid_str i)"

definition sql_binding_digest :: "(string \<Rightarrow> string) \<Rightarrow> evaluation_row \<Rightarrow> string" where
  "sql_binding_digest sha e =
     hash_text sha (join ''|''
       [sql_uuid (el_release_candidate e), sql_uuid (el_evidence_pack e), sql_uuid (el_verdict e),
        sql_uuid (el_request e), sql_uuid (el_attestation e), sql_uuid (el_autonomy_policy e),
        (case el_autonomy_digest e of None \<Rightarrow> [] | Some d \<Rightarrow> d),
        (case el_autonomy_updated e of None \<Rightarrow> [] | Some t \<Rightarrow> iso_utc t),
        sql_uuid (el_emergency_binding e), sql_uuid (el_stop_event e),
        bool_str (el_preapproval e), el_policy e, bool_str (el_latch e), el_ruleset e, el_contract_version e])"

section \<open>Guards\<close>

text \<open>The messages of \<open>RAISE EXCEPTION\<close> are the errors.\<close>

definition evaluation_by_id :: "uuid \<Rightarrow> loop_store \<Rightarrow> evaluation_row option" where
  "evaluation_by_id i s = List.find (\<lambda>e. el_id e = i) (ls_evaluations s)"

definition validate_evaluation :: "(string \<Rightarrow> string) \<Rightarrow> uuid \<Rightarrow> loop_store \<Rightarrow> string + unit" where
  "validate_evaluation sha i s =
     (case evaluation_by_id i s of
        None \<Rightarrow> Inr ()
      | Some e \<Rightarrow>
          let rows = gate_rows (el_id e) s;
              p = length (filter (\<lambda>g. gg_status g = ''passed'') rows)
          in bindE (check (length rows = 13 \<and>
                       list_all (\<lambda>n. list_ex (\<lambda>g. gg_number g = n \<and> gg_ordinal g = n) rows) [1 .. 13])
                     ''go-live evaluation exact gate set incomplete'') (\<lambda>_.
             bindE (check (el_passed_count e = p \<and> el_all_passed e = (p = 13))
                     ''go-live evaluation aggregate mismatch'') (\<lambda>_.
             bindE (check (el_gate_digest e = sql_gate_digest sha (el_id e) s)
                     ''go-live evaluation gate digest mismatch'') (\<lambda>_.
               check (el_binding_digest e = sql_binding_digest sha e)
                 ''go-live evaluation binding digest mismatch''))))"

definition sql_stage_successors :: "(string \<times> string) list" where
  "sql_stage_successors =
     [(''read_project_state'', ''inspect_existing_work_evidence''),
      (''inspect_existing_work_evidence'', ''observe_existing_review_and_verification_evidence''),
      (''observe_existing_review_and_verification_evidence'', ''assemble_or_reaudit_evidence_pack''),
      (''assemble_or_reaudit_evidence_pack'', ''check_cost_and_authority_limits''),
      (''check_cost_and_authority_limits'', ''observe_staging_evidence''),
      (''observe_staging_evidence'', ''evaluate_a5_gate''),
      (''evaluate_a5_gate'', ''finalize_go_live_decision'')]"

text \<open>The constraint \<open>stage_outcome\<close> of the event table.\<close>

definition sql_stage_outcome :: "string \<Rightarrow> string \<Rightarrow> bool" where
  "sql_stage_outcome stage outcome =
     (let paused = [''paused_emergency_stop'', ''paused_cost_stop''] in
      stage = ''read_project_state'' \<and> outcome \<in> set (''capability_unavailable_not_executed'' # paused) \<or>
      stage = ''inspect_existing_work_evidence'' \<and> outcome \<in> set (''capability_unavailable_not_executed'' # paused) \<or>
      stage = ''observe_existing_review_and_verification_evidence'' \<and>
        outcome \<in> set (''capability_unavailable_not_executed'' # paused) \<or>
      stage = ''assemble_or_reaudit_evidence_pack'' \<and>
        outcome \<in> set (''evidence_pack_reaudited'' # ''evidence_pack_unavailable_not_executed'' # paused) \<or>
      stage = ''check_cost_and_authority_limits'' \<and> outcome \<in> set (''cost_and_authority_limits_checked'' # paused) \<or>
      stage = ''observe_staging_evidence'' \<and>
        outcome \<in> set (''staging_evidence_observed_not_deployed'' # ''staging_evidence_not_observed'' # paused) \<or>
      stage = ''evaluate_a5_gate'' \<and> outcome \<in> set (''a5_evaluation_completed'' # paused) \<or>
      stage = ''finalize_go_live_decision'' \<and>
        outcome \<in> set (''decision_recorded'' # ''blocked_evidence_or_authority'' # paused) \<or>
      stage = ''control_loop_runtime'' \<and> outcome = ''failed_infrastructure'')"

text \<open>The transition part of \<open>slice55_validate_event\<close>, over the stage and outcome of the previous event.\<close>

definition sql_event_transition :: "(string \<times> string) option \<Rightarrow> string \<Rightarrow> bool" where
  "sql_event_transition previous stage =
     (case previous of
        None \<Rightarrow> stage \<in> {''read_project_state'', ''control_loop_runtime''}
      | Some (p_stage, p_outcome) \<Rightarrow>
          if p_outcome \<in> {''failed_infrastructure'', ''decision_recorded'', ''blocked_evidence_or_authority''}
          then False
          else if p_outcome \<in> {''paused_emergency_stop'', ''paused_cost_stop''} then stage = p_stage
          else (p_stage, stage) \<in> set sql_stage_successors \<or> stage = ''control_loop_runtime'')"

definition validate_event :: "loop_store \<Rightarrow> loop_event_row \<Rightarrow> string + unit" where
  "validate_event s e =
     bindE (check (sql_stage_outcome (le_stage e) (le_outcome e) \<and> 1 \<le> le_ordinal e \<and> le_ordinal e \<le> 64)
              ''check constraint'') (\<lambda>_.
       case le_previous e of
         None \<Rightarrow>
           bindE (check (le_ordinal e = 1) ''control-loop event chain is not linear'') (\<lambda>_.
             check (sql_event_transition None (le_stage e)) ''control-loop event transition is not allowed'')
       | Some i \<Rightarrow>
           (case List.find (\<lambda>p. le_id p = i) (ls_events s) of
              None \<Rightarrow> Inl ''control-loop event chain is not linear''
            | Some p \<Rightarrow>
                bindE (check (le_cycle p = le_cycle e \<and> le_ordinal p + 1 = le_ordinal e)
                         ''control-loop event chain is not linear'') (\<lambda>_.
                  check (sql_event_transition (Some (le_stage p, le_outcome p)) (le_stage e))
                    ''control-loop event transition is not allowed'')))"

section \<open>The policy check\<close>

definition sql_policy_actions :: "string list" where
  "sql_policy_actions =
     [''read_docs'', ''read_source_control_config'', ''read_pull_requests'', ''read_deployment_target'',
      ''read_monitoring_status'', ''verify_secret_reference'', ''read_project_management_issues'',
      ''create_draft_prd'', ''create_project_tasks'', ''create_repository'', ''create_branches'', ''commit_code'',
      ''open_pull_requests'', ''run_tests'', ''deploy_staging'', ''merge_to_protected'', ''deploy_production'',
      ''delete_resources'', ''change_secrets'', ''modify_billing_or_paid_resources'',
      ''send_external_communications'', ''access_sensitive_data'', ''accept_risk'', ''override_failed_gate'',
      ''weaken_test_or_review_standards'']"

definition sql_min_level :: "string \<Rightarrow> int" where
  "sql_min_level action =
     (if action = ''read_docs'' then 0
      else if action \<in> {''create_repository'', ''create_branches'', ''commit_code'', ''open_pull_requests'', ''run_tests''}
      then 2
      else if action = ''deploy_staging'' then 3
      else if action \<in> {''merge_to_protected'', ''deploy_production''} then 4
      else 1)"

text \<open>A number of a JSON document whose text is one digit from 0 to 5.\<close>

definition sql_level_digit :: "pyval \<Rightarrow> int option" where
  "sql_level_digit v = (case v of PInt n \<Rightarrow> if 0 \<le> n \<and> n \<le> 5 then Some n else None | _ \<Rightarrow> None)"

definition sql_override_bad :: "string \<times> pyval \<Rightarrow> bool" where
  "sql_override_bad item =
     (case item of (action, v) \<Rightarrow>
        action \<notin> set sql_policy_actions \<or>
        (case v of
           PDict o' \<Rightarrow>
             list_ex (\<lambda>k. k \<notin> {''min_level'', ''requires_approval'', ''allow''}) (map fst o') \<or>
             (dhas o' ''min_level'' \<and>
                (case sql_level_digit (dget o' ''min_level'') of None \<Rightarrow> True | Some n \<Rightarrow> n < sql_min_level action)) \<or>
             (dhas o' ''requires_approval'' \<and> dget o' ''requires_approval'' \<noteq> PBool True) \<or>
             (dhas o' ''allow'' \<and> dget o' ''allow'' \<noteq> PBool False)
         | _ \<Rightarrow> True))"

text \<open>\<open>overrides #>> '{deploy_production, key}'\<close>, as a JSON value; \<open>null\<close> and no value are the same.\<close>

definition sql_path :: "(string \<times> pyval) list \<Rightarrow> string \<Rightarrow> string \<Rightarrow> pyval" where
  "sql_path ov action key =
     (if dhas ov action then (case dget ov action of PDict o' \<Rightarrow> if dhas o' key then dget o' key else PNone | _ \<Rightarrow> PNone)
      else PNone)"

text \<open>
  \<open>slice55_policy_permits\<close>: the casts of the last conjunct are reached with valid overrides only.
\<close>

definition sql_policy_permits :: "uuid \<Rightarrow> db \<Rightarrow> bool" where
  "sql_policy_permits policy d =
     (case List.find (\<lambda>a. pol_id a = policy) (autonomy_policies d) of
        None \<Rightarrow> False
      | Some a \<Rightarrow>
          pol_level a \<ge> 4 \<and>
          (case pol_overrides a of
             PDict ov \<Rightarrow>
               \<not> list_ex sql_override_bad ov \<and>
               sql_path ov ''deploy_production'' ''allow'' \<noteq> PBool False \<and>
               pol_level a \<ge> (case sql_path ov ''deploy_production'' ''min_level'' of PInt n \<Rightarrow> n | _ \<Rightarrow> 4)
           | _ \<Rightarrow> False))"

section \<open>The decision\<close>

definition SCOPE_TEXT :: string where
  "SCOPE_TEXT =
     ''production_not_executed|key_custody_not_human_signature|bounded_current_evidence_only|'' @
     ''staging_evidence_observed_not_deployed|future_execution_requires_new_plan''"

definition sql_scope_digest :: "(string \<Rightarrow> string) \<Rightarrow> string" where
  "sql_scope_digest sha = hash_text sha SCOPE_TEXT"

definition sql_entry_hash ::
  "(string \<Rightarrow> string) \<Rightarrow> nat \<Rightarrow> uuid \<Rightarrow> uuid \<Rightarrow> uuid \<Rightarrow> string \<Rightarrow> string \<Rightarrow> string \<Rightarrow> string \<Rightarrow> string \<Rightarrow> timestamp \<Rightarrow>
     string option \<Rightarrow> string" where
  "sql_entry_hash sha seq tenant project evaluation evaluation_digest binding_digest status truth scope created prev =
     hash_text sha (join ''|''
       [nat_str seq, uuid_str tenant, uuid_str project, uuid_str evaluation, evaluation_digest, binding_digest,
        status, truth, scope, iso_utc created, (case prev of None \<Rightarrow> [] | Some h \<Rightarrow> h)])"

text \<open>The preapproval of the evaluation is the latest request of the project, attested, unexpired and not ended.\<close>

definition identity_separation_ok :: "attestation_row \<Rightarrow> bool" where
  "identity_separation_ok a = (ta_requester_hash a \<noteq> ta_approver_hash a)"

definition gate_eligible_at_creation :: "attestation_row \<Rightarrow> bool" where
  "gate_eligible_at_creation a =
     (ta_requester_hash a \<noteq> ta_approver_hash a \<and> ta_requester_prov a = ''request_authenticated'' \<and>
      ta_approver_prov a = ''request_authenticated'' \<and> ta_approver_type a = ''human'' \<and> ta_membership_ok a \<and>
      ta_expires_at a > ta_approved_at a)"

definition preapproval_current :: "evaluation_row \<Rightarrow> timestamp \<Rightarrow> loop_store \<Rightarrow> bool" where
  "preapproval_current e now s =
     list_ex (\<lambda>r.
       Some (pq_id r) = el_request e \<and> pq_project r = el_project e \<and> pq_tenant r = el_tenant e \<and>
       Some (pq_release_candidate r) = el_release_candidate e \<and> Some (pq_evidence_pack r) = el_evidence_pack e \<and>
       Some (pq_verdict r) = el_verdict e \<and> Some (pq_autonomy_policy r) = el_autonomy_policy e \<and>
       Some (pq_autonomy_digest r) = el_autonomy_digest e \<and>
       map_option pq_id (latest_by (\<lambda>lr. (pq_created_at lr, pq_id lr))
         (filter (\<lambda>lr. pq_project lr = el_project e \<and> pq_tenant lr = el_tenant e) (ls_requests s))) = Some (pq_id r) \<and>
       list_ex (\<lambda>a.
         Some (ta_id a) = el_attestation e \<and> ta_request a = pq_id r \<and> ta_project a = pq_project r \<and>
         ta_tenant a = pq_tenant r \<and> gate_eligible_at_creation a \<and> Some (ta_expires_at a) = el_expires_at e \<and>
         ta_expires_at a > now \<and>
         \<not> list_ex (\<lambda>l. pv_attestation l = ta_id a \<and> pv_type l \<in> {''revoked'', ''superseded''})
             (ls_preapproval_events s))
         (ls_attestations s)) (ls_requests s)"

definition policy_binding_valid :: "evaluation_row \<Rightarrow> db \<Rightarrow> bool" where
  "policy_binding_valid e d =
     list_ex (\<lambda>a. Some (pol_id a) = el_autonomy_policy e \<and> pol_project a = el_project e \<and>
                  pol_tenant a = el_tenant e \<and> Some (pol_updated_at a) = el_autonomy_updated e \<and>
                  sql_policy_permits (pol_id a) d) (autonomy_policies d)"

definition emergency_binding_current :: "evaluation_row \<Rightarrow> loop_store \<Rightarrow> bool" where
  "emergency_binding_current e s =
     list_ex (\<lambda>b. Some (eb_id b) = el_emergency_binding e \<and> eb_project b = el_project e \<and> eb_tenant b = el_tenant e \<and>
       list_ex (\<lambda>v. Some (se_id v) = el_stop_event e \<and> se_binding v = eb_id b \<and> se_project v = eb_project b \<and>
                    se_tenant v = eb_tenant b \<and> state_after (se_event v) = Armed \<and>
                    map_option se_id (latest_by (\<lambda>x. (se_created_at x, se_id x))
                      (filter (\<lambda>x. se_project x = el_project e \<and> se_tenant x = el_tenant e)
                        (stop_events (ls_db s)))) = Some (se_id v))
         (stop_events (ls_db s))) (ls_controls s)"

definition next_seq :: "decision_row list \<Rightarrow> nat" where
  "next_seq ds = Suc (foldr (\<lambda>d m. max (gd_seq d) m) ds 0)"

definition prior_decision :: "evaluation_row \<Rightarrow> loop_store \<Rightarrow> decision_row option" where
  "prior_decision e s =
     latest_by gd_seq (filter (\<lambda>d. gd_tenant d = el_tenant e \<and> gd_project d = el_project e) (ls_decisions s))"

definition TRUTH_TIER :: string where
  "TRUTH_TIER = ''request_authenticated_key_custody_under_recorded_policy_not_human_signature''"

definition decision_of :: "(string \<Rightarrow> string) \<Rightarrow> evaluation_row \<Rightarrow> timestamp \<Rightarrow> loop_store \<Rightarrow> decision_row" where
  "decision_of sha e now s =
     (let prior = prior_decision e s; seq = next_seq (ls_decisions s) in
      \<lparr>gd_id = db_next_id (ls_db s), gd_seq = seq, gd_tenant = el_tenant e, gd_project = el_project e,
       gd_cycle = el_cycle e, gd_evaluation = el_id e, gd_request = the (el_request e),
       gd_attestation = the (el_attestation e), gd_autonomy_policy = the (el_autonomy_policy e),
       gd_autonomy_digest = the (el_autonomy_digest e), gd_emergency_binding = the (el_emergency_binding e),
       gd_stop_event = the (el_stop_event e), gd_release_candidate = the (el_release_candidate e),
       gd_evidence_pack = the (el_evidence_pack e), gd_verdict = the (el_verdict e),
       gd_evaluation_digest = el_gate_digest e, gd_binding_digest = el_binding_digest e,
       gd_status = ''decided_not_executed'', gd_truth_tier = TRUTH_TIER, gd_executed = False, gd_can_go_live = False,
       gd_scope_digest = sql_scope_digest sha, gd_previous = map_option gd_id prior,
       gd_prev_hash = map_option gd_entry_hash prior,
       gd_entry_hash = sql_entry_hash sha seq (el_tenant e) (el_project e) (el_id e) (el_gate_digest e)
         (el_binding_digest e) ''decided_not_executed'' TRUTH_TIER (sql_scope_digest sha) now
         (map_option gd_entry_hash prior),
       gd_created_at = now\<rparr>)"

text \<open>The unique constraints and the partial unique index of the decisions table.\<close>

definition decision_unique :: "decision_row \<Rightarrow> decision_row list \<Rightarrow> bool" where
  "decision_unique new ds =
     list_all (\<lambda>d. gd_evaluation d \<noteq> gd_evaluation new \<and> gd_entry_hash d \<noteq> gd_entry_hash new \<and>
                   (gd_previous new = None \<or> gd_previous d \<noteq> gd_previous new) \<and>
                   \<not> (gd_previous new = None \<and> gd_previous d = None \<and> gd_tenant d = gd_tenant new \<and>
                      gd_project d = gd_project new)) ds"

definition sql_finalize_decision ::
  "(string \<Rightarrow> string) \<Rightarrow> tenant_context \<Rightarrow> uuid \<Rightarrow> timestamp \<Rightarrow> loop_store \<Rightarrow> string + (uuid \<times> loop_store)" where
  "sql_finalize_decision sha ctx evaluation now s =
     (case List.find (\<lambda>r. el_id r = evaluation \<and> el_tenant r = ctx_tenant ctx) (ls_evaluations s) of
        None \<Rightarrow> Inl ''go-live evaluation unavailable''
      | Some e \<Rightarrow>
          bindE (validate_evaluation sha (el_id e) s) (\<lambda>_.
          bindE (check (el_all_passed e \<and> el_preapproval e \<and> el_policy e = ''needs_approval'' \<and> \<not> el_latch e)
                  ''go-live decision predicate not satisfied'') (\<lambda>_.
          bindE (check (el_release_candidate e \<noteq> None \<and> el_evidence_pack e \<noteq> None \<and> el_verdict e \<noteq> None \<and>
                        el_request e \<noteq> None \<and> el_attestation e \<noteq> None \<and> el_autonomy_policy e \<noteq> None \<and>
                        el_autonomy_digest e \<noteq> None \<and> el_autonomy_updated e \<noteq> None \<and>
                        el_emergency_binding e \<noteq> None \<and> el_stop_event e \<noteq> None \<and> el_expires_at e \<noteq> None)
                  ''go-live decision binding incomplete'') (\<lambda>_.
          bindE (check (the (el_expires_at e) > now \<and> preapproval_current e now s)
                  ''go-live preapproval is not current'') (\<lambda>_.
          bindE (check (policy_binding_valid e (ls_db s)) ''go-live autonomy policy binding invalid'') (\<lambda>_.
          bindE (check (emergency_binding_current e s) ''go-live emergency binding is not current'') (\<lambda>_.
            let new = decision_of sha e now s
            in bindE (check (decision_unique new (ls_decisions s)) ''unique constraint'') (\<lambda>_.
                 Inr (gd_id new,
                   s\<lparr>ls_decisions := ls_decisions s @ [new],
                     ls_db := audit_record ctx ''control_loop.decision_recorded'' ''control_loop_runtime''
                       (Some ''go_live_decision'')
                       [(''project_id'', PStr (uuid_str (el_project e))),
                        (''control_loop_run_id'', PStr (uuid_str (el_cycle e))),
                        (''evaluation_id'', PStr (uuid_str (el_id e))),
                        (''decision_id'', PStr (uuid_str (gd_id new))),
                        (''status'', PStr ''decided_not_executed''), (''production_action_executed'', PBool False)]
                       ((ls_db s)\<lparr>db_next_id := db_next_id (ls_db s) + 1\<rparr>)\<rparr>)))))))))"

text \<open>A message of the database becomes a code; the row is then read back.\<close>

definition mentions :: "string \<Rightarrow> string \<Rightarrow> bool" where
  "mentions part message = list_ex (\<lambda>k. take (length part) (drop k message) = part) [0..<Suc (length message)]"

definition finalize_decision ::
  "(string \<Rightarrow> string) \<Rightarrow> tenant_context \<Rightarrow> uuid \<Rightarrow> timestamp \<Rightarrow> loop_store \<Rightarrow> loop_error + (decision_row \<times> loop_store)" where
  "finalize_decision sha ctx evaluation now s =
     bindE (require_serializable s) (\<lambda>_.
       case sql_finalize_decision sha ctx evaluation now s of
         Inl message \<Rightarrow>
           Inl (LoopError (if mentions ''predicate not satisfied'' message then ''predicate_not_satisfied''
                           else ''decision_finalization_refused''))
       | Inr (decision_id, s') \<Rightarrow>
           (case filter (\<lambda>d. gd_id d = decision_id \<and> gd_tenant d = ctx_tenant ctx) (ls_decisions s') of
              [d] \<Rightarrow> Inr (d, s')
            | _ \<Rightarrow> Inl MultipleRows))"

text \<open>
  \<open>record_evaluation\<close> as the session runs it: one evaluation per cycle, and the deferred guards fire
  when it sets its constraints immediate.
\<close>

definition record_checked_evaluation ::
  "(string \<Rightarrow> string) \<Rightarrow> (string \<Rightarrow> timestamp option) \<Rightarrow> tenant_context \<Rightarrow> uuid \<Rightarrow> autonomy_report \<Rightarrow>
     bool \<Rightarrow> string \<Rightarrow> bool \<Rightarrow> bindings \<Rightarrow> timestamp option \<Rightarrow> timestamp option \<Rightarrow> timestamp \<Rightarrow> loop_store \<Rightarrow>
     loop_error + (evaluation_row \<times> loop_store)" where
  "record_checked_evaluation sha from_iso ctx cycle report preapproval policy latch binding_ids expires at clock s =
     bindE (record_evaluation sha from_iso ctx cycle report preapproval policy latch binding_ids expires at clock s)
       (\<lambda>(e, s').
          if list_ex (\<lambda>x. el_cycle x = cycle) (ls_evaluations s) then Inl (Database ''uq_gle_loop'')
          else (case validate_evaluation sha (el_id e) s' of
                  Inl message \<Rightarrow> Inl (Database message)
                | Inr _ \<Rightarrow> Inr (e, s')))"

section \<open>The chain of decisions\<close>

fun chain_ok :: "(string \<Rightarrow> string) \<Rightarrow> uuid option \<Rightarrow> string option \<Rightarrow> decision_row list \<Rightarrow> bool" where
  "chain_ok sha prior_id prior_hash [] = True"
| "chain_ok sha prior_id prior_hash (d # ds) =
     (gd_previous d = prior_id \<and> gd_prev_hash d = prior_hash \<and>
      gd_entry_hash d = sql_entry_hash sha (gd_seq d) (gd_tenant d) (gd_project d) (gd_evaluation d)
        (gd_evaluation_digest d) (gd_binding_digest d) (gd_status d) (gd_truth_tier d) (gd_scope_digest d)
        (gd_created_at d) (gd_prev_hash d) \<and>
      chain_ok sha (Some (gd_id d)) (Some (gd_entry_hash d)) ds)"

definition verify_decision_chain :: "(string \<Rightarrow> string) \<Rightarrow> uuid \<Rightarrow> loop_store \<Rightarrow> bool" where
  "verify_decision_chain sha project s =
     chain_ok sha None None (sort_key gd_seq (filter (\<lambda>d. gd_project d = project) (ls_decisions s)))"

section \<open>Lemmas: the policy check\<close>

lemma sql_actions_are_matrix: "a \<in> set sql_policy_actions \<longleftrightarrow> map_of MATRIX a \<noteq> None"
proof -
  have eq: "map fst MATRIX = sql_policy_actions" by (simp add: sql_policy_actions_def MATRIX_def)
  show ?thesis unfolding map_of_eq_None_iff eq [symmetric] by simp
qed

lemma sql_min_level_is_matrix: "map_of MATRIX a = Some base \<Longrightarrow> sql_min_level a = rule_min_level base \<and> 0 \<le> rule_min_level base"
proof -
  have "list_all (\<lambda>(a, base). sql_min_level a = rule_min_level base \<and> 0 \<le> rule_min_level base) MATRIX"
    by (simp add: MATRIX_def mk_rule_def sql_min_level_def)
  then show "map_of MATRIX a = Some base \<Longrightarrow> sql_min_level a = rule_min_level base \<and> 0 \<le> rule_min_level base"
    by (auto simp: list_all_iff dest!: map_of_SomeD)
qed

lemma sql_override_good_iff:
  "\<not> sql_override_bad (a, v) \<longleftrightarrow>
     v \<noteq> PNone \<and> (case map_of MATRIX a of None \<Rightarrow> False | Some base \<Rightarrow> tightening base v)"
proof (cases "map_of MATRIX a")
  case None
  then show ?thesis by (simp add: sql_override_bad_def sql_actions_are_matrix)
next
  case (Some base)
  note lv = sql_min_level_is_matrix [OF Some]
  have digit: "(case sql_level_digit x of None \<Rightarrow> True | Some n \<Rightarrow> n < sql_min_level a) \<longleftrightarrow>
      \<not> (case x of PInt m \<Rightarrow> rule_min_level base \<le> m \<and> m \<le> 5 | _ \<Rightarrow> False)" for x
    using lv by (cases x) (auto simp: sql_level_digit_def)
  show ?thesis
  proof (cases v)
    case (PDict e)
    have keys: "list_ex (\<lambda>k. k \<notin> {''min_level'', ''requires_approval'', ''allow''}) (map fst e) \<longleftrightarrow>
        \<not> (\<forall>(k, v)\<in>set e. k \<in> {''min_level'', ''requires_approval'', ''allow''})"
      by (fastforce simp: list_ex_iff)
    have act: "a \<in> set sql_policy_actions" by (simp add: sql_actions_are_matrix Some)
    show ?thesis
      unfolding sql_override_bad_def prod.case PDict pyval.case keys digit tightening_def Some option.case
      using act by simp
  qed (simp_all add: sql_override_bad_def tightening_def sql_actions_are_matrix Some)
qed

text \<open>An override map without \<open>null\<close> entries.\<close>

definition null_free :: "pyval \<Rightarrow> bool" where
  "null_free v = (case v of PDict ov \<Rightarrow> list_all (\<lambda>(a, x). x \<noteq> PNone) ov | _ \<Rightarrow> False)"

lemma sql_overrides_good_iff:
  "\<not> list_ex sql_override_bad ov \<longleftrightarrow> null_free (PDict ov) \<and> tightening_map (PDict ov)"
  using sql_override_good_iff
  by (fastforce simp: null_free_def tightening_map_def list_ex_iff list_all_iff)

lemma deploy_production_rule: "map_of MATRIX ''deploy_production'' = Some (mk_rule A4 True True)"
  by (simp add: MATRIX_def)

lemma needs_approval_of_entry:
  assumes "apply_overrides (mk_rule A4 True True) (PDict e) = Inr r"
  shows "rule_decision r l = NEEDS_APPROVAL \<longleftrightarrow>
    4 \<le> l \<and> \<not> dhas e ''allow'' \<and> (\<forall>m. dget e ''min_level'' = PInt m \<longrightarrow> m \<le> l)"
  using apply_overrides_entry(1) [OF assms] apply_overrides_entry(2) [OF assms] apply_overrides_entry(3) [OF assms, where l = l] by (auto simp: rule_decision_def mk_rule_def)

lemma sql_policy_agrees_row:
  assumes "pol_overrides p = PDict ov" "null_free (PDict ov)" "tightening_map (PDict ov)"
  shows "validated_decision p ''deploy_production'' = Inr NEEDS_APPROVAL \<longleftrightarrow>
    4 \<le> pol_level p \<and> sql_path ov ''deploy_production'' ''allow'' \<noteq> PBool False \<and>
    (case sql_path ov ''deploy_production'' ''min_level'' of PInt n \<Rightarrow> n | _ \<Rightarrow> 4) \<le> pol_level p"
proof -
  let ?a = "''deploy_production''"
  let ?base = "mk_rule A4 True True"
  have val: "validated_decision p ?a = bindE (apply_overrides ?base (dget ov ?a)) (\<lambda>rule. Inr (rule_decision rule (pol_level p)))"
    using assms by (simp add: validated_decision_def tightening_map_iff check_authority_def
        deploy_production_rule override_for_validated)
  show ?thesis
  proof (cases "dhas ov ?a")
    case False
    then have "dget ov ?a = PNone" using dhas_dget_cases by blast
    with val False show ?thesis
      by (simp add: apply_overrides_def rule_decision_def sql_path_def mk_rule_def)
  next
    case True
    then have mem: "(?a, dget ov ?a) \<in> set ov" by (rule dget_mem)
    with assms(2,3) have t: "tightening ?base (dget ov ?a)" "dget ov ?a \<noteq> PNone"
      by (fastforce simp: tightening_map_def null_free_def list_all_iff deploy_production_rule)+
    then obtain e where e: "dget ov ?a = PDict e" by (cases "dget ov ?a") (simp_all add: tightening_def)
    obtain r where r: "apply_overrides ?base (PDict e) = Inr r" using t(1) e by (auto simp: tightening_iff)
    from t(1) have te: "dhas e ''allow'' \<longrightarrow> dget e ''allow'' = PBool False"
      "dhas e ''min_level'' \<longrightarrow> (\<exists>m. dget e ''min_level'' = PInt m)"
      by (auto simp: e tightening_def split: pyval.splits)
    have "\<not> dhas e k \<Longrightarrow> dget e k = PNone" for k using dhas_dget_cases by blast
    then show ?thesis
      using val True e r te needs_approval_of_entry [OF r] by (auto simp: sql_path_def)
  qed
qed

lemma policy_rule:
  assumes "policy_get_for_project ctx project d = Inr (Some p)" "distinct (map pol_id (autonomy_policies d))"
  shows "sql_policy_permits (pol_id p) d \<longleftrightarrow>
    decision_for ctx project ''deploy_production'' d = Inr NEEDS_APPROVAL \<and> null_free (pol_overrides p)"
proof -
  have "filter (\<lambda>r. pol_project r = project \<and> pol_tenant r = ctx_tenant ctx) (autonomy_policies d) = [p]"
    using assms(1) by (simp add: policy_get_for_project_def scalar_one_or_none_iff)
  then have p: "p \<in> set (autonomy_policies d)"
    by (metis filter_is_subset list.set_intros(1) subsetD)
  from find_by_id [OF assms(2) p] have f: "List.find (\<lambda>a. pol_id a = pol_id p) (autonomy_policies d) = Some p" .
  have dec: "decision_for ctx project a d = Inr NEEDS_APPROVAL \<longleftrightarrow> validated_decision p a = Inr NEEDS_APPROVAL" for a
    using assms(1) by (auto simp: decision_for_def split: sum.splits policy_error.splits)
  show ?thesis
  proof (cases "\<exists>ov. pol_overrides p = PDict ov \<and> null_free (PDict ov) \<and> tightening_map (PDict ov)")
    case True
    then obtain ov where ov: "pol_overrides p = PDict ov" "null_free (PDict ov)" "tightening_map (PDict ov)" by blast
    show ?thesis
      unfolding dec sql_policy_agrees_row [OF ov]
      using ov by (auto simp: sql_policy_permits_def f sql_overrides_good_iff)
  next
    case False
    then show ?thesis unfolding dec
      by (cases "pol_overrides p")
        (auto simp: sql_policy_permits_def f sql_overrides_good_iff validated_decision_def tightening_map_iff null_free_def)
  qed
qed

section \<open>Lemmas: the event guard\<close>

lemma sql_stage_outcome_iff:
  "sql_stage_outcome st oc \<longleftrightarrow> (\<exists>al. map_of ALLOWED_STAGE_OUTCOMES st = Some al \<and> oc \<in> set al)"
  unfolding sql_stage_outcome_def ALLOWED_STAGE_OUTCOMES_def GUARD_OUTCOMES_def Let_def
  by simp

lemma sql_successors_iff:
  "(p, st) \<in> set sql_stage_successors \<longleftrightarrow> next_in p CONTROL_LOOP_STAGE_SEQUENCE = Some st"
proof -
  have "distinct (map fst sql_stage_successors)" by (simp add: sql_stage_successors_def)
  moreover have "map_of sql_stage_successors p = next_in p CONTROL_LOOP_STAGE_SEQUENCE"
    by (simp add: sql_stage_successors_def CONTROL_LOOP_STAGE_SEQUENCE_def)
  ultimately show ?thesis by (metis map_of_eq_Some_iff)
qed

lemma event_guard_rule:
  "sql_stage_outcome stage outcome \<and> sql_event_transition previous stage \<longleftrightarrow>
     validate_event_transition (map_option fst previous) (map_option snd previous) stage outcome = Inr ()"
proof (cases previous)
  case None
  then show ?thesis
    by (auto simp: validate_iff sql_stage_outcome_iff sql_event_transition_def expected_stage_def CONTROL_LOOP_STAGE_SEQUENCE_def)
next
  case (Some p)
  obtain ps po where p: "p = (ps, po)" by (cases p)
  have g: "Some po \<in> Some ` set GUARD_OUTCOMES \<longleftrightarrow> po \<in> {''paused_emergency_stop'', ''paused_cost_stop''}"
    "Some po \<in> Some ` set TERMINAL_OUTCOMES \<longleftrightarrow>
       po \<in> {''failed_infrastructure'', ''decision_recorded'', ''blocked_evidence_or_authority''} \<or>
       po \<in> {''paused_emergency_stop'', ''paused_cost_stop''}"
    by (auto simp: GUARD_OUTCOMES_def TERMINAL_OUTCOMES_def)
  show ?thesis
    unfolding Some p option.map fst_conv snd_conv validate_iff g
    by (auto simp: sql_event_transition_def sql_stage_outcome_iff sql_successors_iff expected_stage_def)
qed

section \<open>Lemmas: stored evaluations\<close>

lemma utf8_append: "utf8 (a @ b) = utf8 a @ utf8 b"
  by (simp add: utf8_def)

lemma utf8_join: "utf8 (join sep xs) = join (utf8 sep) (map utf8 xs)"
  by (induction sep xs rule: join.induct) (simp_all add: utf8_append, simp add: utf8_def)

lemma utf8_separators: "utf8 '':'' = '':''" "utf8 [CHR 0x0A] = [CHR 0x0A]"
  by (simp_all add: utf8_def utf8_char_def)

lemma utf8_colon: "utf8 (CHR '':'' # t) = CHR '':'' # utf8 t"
  using utf8_append [of "'':''" t] utf8_separators(1) by simp

lemma sql_gate_text_utf8:
  assumes "gg_number r = gs_number g" "gg_name r = gs_name g" "gg_status r = gs_status g"
    "gg_reason r = gs_reason g" "gg_digest r = gs_digest g"
  shows "utf8 (sql_gate_text r) = gate_row g"
  by (simp add: sql_gate_text_def gate_row_def assms utf8_append utf8_colon)

lemma gate_rows_of_texts: "map (\<lambda>r. utf8 (sql_gate_text r)) (gate_rows_of e snaps) = map gate_row snaps"
  by (simp add: gate_rows_of_def sql_gate_text_utf8)

text \<open>The stored digest is the one computed before storing.\<close>

lemma stored_gate_digest:
  assumes "gate_result_digest sha snaps = Inr gd" "gate_rows i s = gate_rows_of e snaps"
  shows "map gs_number snaps = [1 .. 13] \<and> sql_gate_digest sha i s = gd"
proof -
  have n: "map gs_number snaps = map int [1..<14]" and gd: "gd = sha256_text sha (join [CHR 0x0A] (map gate_row snaps))"
    using assms(1)
    by (auto simp: gate_result_digest_def canonical_gate_digest_def gate_bytes_def validate_exact_gate_set_def
        split: if_splits)
  have n': "map gs_number snaps = [1 .. 13]" unfolding n by (simp add: upto.simps upt_rec)
  have "map gg_number (gate_rows_of e snaps) = [1 .. 13]" using n' by (simp add: gate_rows_of_def comp_def)
  then have "sort_key gg_number (gate_rows_of e snaps) = gate_rows_of e snaps"
    by (intro sort_key_id_if_sorted) (simp only: sorted_upto)
  then show ?thesis
    using n' by (simp add: sql_gate_digest_def assms(2) gd hash_text_def sha256_text_def HASH_PREFIX_def utf8_join
        utf8_separators gate_rows_of_texts comp_def)
qed

text \<open>Bindings in the form the repository gives them: identifiers and times print as they were read.\<close>

definition uuid_keys :: "string list" where
  "uuid_keys = [''release_candidate_id'', ''evidence_pack_id'', ''release_verdict_id'', ''preapproval_request_id'',
     ''preapproval_attestation_id'', ''autonomy_policy_id'', ''emergency_control_binding_id'', ''emergency_stop_event_id'']"

definition canonical_bindings :: "(string \<Rightarrow> timestamp option) \<Rightarrow> bindings \<Rightarrow> bool" where
  "canonical_bindings from_iso b \<longleftrightarrow>
     (\<forall>k\<in>set uuid_keys. \<forall>v. map_of b k = Some v \<longrightarrow> (\<exists>u<2 ^ 128. v = uuid_str u)) \<and>
     (\<forall>v. map_of b ''autonomy_policy_updated_at'' = Some v \<longrightarrow> (\<exists>t. v = iso_utc t \<and> from_iso v = Some t))"

definition binding_value :: "bindings \<Rightarrow> string \<Rightarrow> string" where
  "binding_value b k = (case map_of b k of None \<Rightarrow> [] | Some v \<Rightarrow> v)"

lemma canonical_uuid:
  assumes "canonical_bindings fi b" "k \<in> set uuid_keys" "uuid_or_none b k = Inr u"
  shows "sql_uuid u = binding_value b k"
proof (cases "map_of b k")
  case None
  with assms(3) show ?thesis by (simp add: uuid_or_none_def sql_uuid_def binding_value_def)
next
  case (Some v)
  with assms(1,2) obtain i where i: "i < 2 ^ 128" "v = uuid_str i" by (auto simp: canonical_bindings_def)
  then have "u = Some i" using Some assms(3) parse_uuid_str [OF i(1)] by (simp add: uuid_or_none_def)
  with Some i show ?thesis by (simp add: sql_uuid_def binding_value_def)
qed

lemma canonical_time:
  assumes "canonical_bindings fi b" "updated_at_of fi b = Inr t"
  shows "(case t of None \<Rightarrow> [] | Some t \<Rightarrow> iso_utc t) = binding_value b ''autonomy_policy_updated_at''"
proof (cases "map_of b ''autonomy_policy_updated_at''")
  case None
  with assms(2) show ?thesis by (simp add: updated_at_of_def binding_value_def)
next
  case (Some v)
  with assms(1) obtain u where u: "v = iso_utc u" "fi v = Some u" by (auto simp: canonical_bindings_def)
  then have "iso_utc u = [] \<and> t = None \<or> t = Some u"
    using Some assms(2) by (auto simp: updated_at_of_def split: if_splits)
  with Some u show ?thesis by (auto simp: binding_value_def)
qed

lemma evaluation_of_columns:
  assumes "evaluation_of sha fi i cyc snaps gd pre pol latch b ex at = Inr e"
  shows "uuid_or_none b ''release_candidate_id'' = Inr (el_release_candidate e)"
    "uuid_or_none b ''evidence_pack_id'' = Inr (el_evidence_pack e)"
    "uuid_or_none b ''release_verdict_id'' = Inr (el_verdict e)"
    "uuid_or_none b ''preapproval_request_id'' = Inr (el_request e)"
    "uuid_or_none b ''preapproval_attestation_id'' = Inr (el_attestation e)"
    "uuid_or_none b ''autonomy_policy_id'' = Inr (el_autonomy_policy e)"
    "uuid_or_none b ''emergency_control_binding_id'' = Inr (el_emergency_binding e)"
    "uuid_or_none b ''emergency_stop_event_id'' = Inr (el_stop_event e)"
    "updated_at_of fi b = Inr (el_autonomy_updated e)"
    "el_autonomy_digest e = map_of b ''autonomy_policy_digest''"
    "el_preapproval e = pre" "el_policy e = pol" "el_latch e = latch" "el_ruleset e = A5_RULESET_VERSION"
    "el_contract_version e = GO_LIVE_EVALUATION_CONTRACT_VERSION"
    "el_id e = i" "el_cycle e = cy_id cyc" "el_tenant e = cy_tenant cyc" "el_project e = cy_project cyc"
    "el_expires_at e = ex" "el_evaluated_at e = at"
  using assms by (auto simp: evaluation_of_def)

lemma stored_binding_digest:
  assumes "evaluation_of sha fi i cyc snaps gd pre pol latch b ex at = Inr e" "canonical_bindings fi b"
  shows "el_binding_digest e = sql_binding_digest sha e"
proof -
  note cols = evaluation_of_columns [OF assms(1)]
  have u: "sql_uuid (el_release_candidate e) = binding_value b ''release_candidate_id''"
    "sql_uuid (el_evidence_pack e) = binding_value b ''evidence_pack_id''"
    "sql_uuid (el_verdict e) = binding_value b ''release_verdict_id''"
    "sql_uuid (el_request e) = binding_value b ''preapproval_request_id''"
    "sql_uuid (el_attestation e) = binding_value b ''preapproval_attestation_id''"
    "sql_uuid (el_autonomy_policy e) = binding_value b ''autonomy_policy_id''"
    "sql_uuid (el_emergency_binding e) = binding_value b ''emergency_control_binding_id''"
    "sql_uuid (el_stop_event e) = binding_value b ''emergency_stop_event_id''"
    by (rule canonical_uuid [OF assms(2) _ cols(1)] canonical_uuid [OF assms(2) _ cols(2)]
        canonical_uuid [OF assms(2) _ cols(3)] canonical_uuid [OF assms(2) _ cols(4)]
        canonical_uuid [OF assms(2) _ cols(5)] canonical_uuid [OF assms(2) _ cols(6)]
        canonical_uuid [OF assms(2) _ cols(7)] canonical_uuid [OF assms(2) _ cols(8)], simp add: uuid_keys_def)+
  have "el_binding_digest e = evaluation_binding_digest sha b pre pol latch"
    using evaluation_of_fields [OF assms(1)] by simp
  also have "evaluation_binding_text b pre pol latch = join ''|''
      [binding_value b ''release_candidate_id'', binding_value b ''evidence_pack_id'',
       binding_value b ''release_verdict_id'', binding_value b ''preapproval_request_id'',
       binding_value b ''preapproval_attestation_id'', binding_value b ''autonomy_policy_id'',
       binding_value b ''autonomy_policy_digest'', binding_value b ''autonomy_policy_updated_at'',
       binding_value b ''emergency_control_binding_id'', binding_value b ''emergency_stop_event_id'',
       bool_str pre, pol, bool_str latch, A5_RULESET_VERSION, GO_LIVE_EVALUATION_CONTRACT_VERSION]"
    by (simp add: evaluation_binding_text_def binding_order_def binding_value_def)
  then have "evaluation_binding_digest sha b pre pol latch = sql_binding_digest sha e"
    unfolding evaluation_binding_digest_def sql_binding_digest_def u cols(10-15) canonical_time [OF assms(2) cols(9)]
    by (simp only: binding_value_def [of b "''autonomy_policy_digest''"])
  finally show ?thesis .
qed

lemma record_evaluation_stored:
  assumes "record_evaluation sha fi ctx c report pre pol latch b ex at clock s = Inr (e, s')"
  obtains snaps cyc where "snapshots_of sha (rep_gates report) = Inr snaps"
    "gate_result_digest sha snaps = Inr (el_gate_digest e)" "require_cycle ctx c s = Inr cyc"
    "evaluation_of sha fi (db_next_id (ls_db s)) cyc snaps (el_gate_digest e) pre pol latch b ex
       (case at of None \<Rightarrow> clock | Some t \<Rightarrow> t) = Inr e"
    "ls_evaluations s' = ls_evaluations s @ [e]" "ls_gate_results s' = ls_gate_results s @ gate_rows_of e snaps"
    "ls_cycles s' = ls_cycles s" "ls_events s' = ls_events s" "ls_decisions s' = ls_decisions s"
    "db_next_id (ls_db s') = Suc (db_next_id (ls_db s))"
proof -
  obtain snaps gd cyc where f: "snapshots_of sha (rep_gates report) = Inr snaps"
    "gate_result_digest sha snaps = Inr gd" "require_cycle ctx c s = Inr cyc"
    "evaluation_of sha fi (db_next_id (ls_db s)) cyc snaps gd pre pol latch b ex
       (case at of None \<Rightarrow> clock | Some t \<Rightarrow> t) = Inr e"
    "ls_evaluations s' = ls_evaluations s @ [e]" "ls_gate_results s' = ls_gate_results s @ gate_rows_of e snaps"
    "ls_cycles s' = ls_cycles s" "ls_events s' = ls_events s" "ls_decisions s' = ls_decisions s"
    "db_next_id (ls_db s') = Suc (db_next_id (ls_db s))"
    using assms unfolding record_evaluation_def by (auto split: if_splits)
  moreover from f(4) have "gd = el_gate_digest e" using evaluation_of_fields by metis
  ultimately show thesis using that by blast
qed

lemma recorded_evaluation_valid:
  assumes "record_evaluation sha fi ctx c report pre pol latch b ex at clock s = Inr (e, s')"
    and "\<forall>x\<in>set (ls_evaluations s). el_id x < db_next_id (ls_db s)"
    and "\<forall>g\<in>set (ls_gate_results s). gg_evaluation g < db_next_id (ls_db s)"
    and "canonical_bindings fi b"
  shows "validate_evaluation sha (el_id e) s' = Inr ()"
proof -
  from record_evaluation_stored [OF assms(1)] obtain snaps cyc where
    gd: "gate_result_digest sha snaps = Inr (el_gate_digest e)" and
    ev: "evaluation_of sha fi (db_next_id (ls_db s)) cyc snaps (el_gate_digest e) pre pol latch b ex
       (case at of None \<Rightarrow> clock | Some t \<Rightarrow> t) = Inr e" and
    st: "ls_evaluations s' = ls_evaluations s @ [e]" "ls_gate_results s' = ls_gate_results s @ gate_rows_of e snaps"
    by metis
  have i: "el_id e = db_next_id (ls_db s)" using evaluation_of_columns(16) [OF ev] .
  have find: "evaluation_by_id (el_id e) s' = Some e"
  proof -
    have "List.find (\<lambda>x. el_id x = el_id e) (ls_evaluations s) = None"
      using assms(2) by (auto simp: find_None_iff_bex i)
    then show ?thesis by (simp add: evaluation_by_id_def st(1) find_append_None)
  qed
  have rows: "gate_rows (el_id e) s' = gate_rows_of e snaps"
    using assms(3) by (auto simp: gate_rows_def st(2) i filter_empty_conv gate_rows_of_def filter_id_conv)
  note dg = stored_gate_digest [OF gd rows]
  then have len: "length snaps = 13" by (metis length_map length_upto diff_add_cancel nat_numeral numeral_eq_one_iff)
  have cnt: "length (filter (\<lambda>g. gg_status g = ''passed'') (gate_rows_of e snaps)) = el_passed_count e"
    using evaluation_of_fields [OF ev] by (simp add: gate_rows_of_def filter_map comp_def)
  have all: "el_all_passed e \<longleftrightarrow> el_passed_count e = 13"
  proof -
    have "(\<forall>g\<in>set snaps. gs_status g = ''passed'') \<longleftrightarrow>
        length (filter (\<lambda>g. gs_status g = ''passed'') snaps) = length snaps"
      using sum_length_filter_compl [of "\<lambda>g. gs_status g = ''passed''" snaps] by (auto simp: filter_empty_conv)
    with len evaluation_of_fields [OF ev] show ?thesis by simp
  qed
  have nums: "list_all (\<lambda>n. list_ex (\<lambda>g. gg_number g = n \<and> gg_ordinal g = n) (gate_rows_of e snaps)) [1 .. 13]"
  proof -
    have "\<exists>g\<in>set snaps. gs_number g = n" if "n \<in> set [1 .. 13]" for n
      using that unfolding dg [THEN conjunct1, symmetric] by auto
    then show ?thesis unfolding list_all_iff list_ex_iff by (force simp: gate_rows_of_def)
  qed
  have "length (gate_rows_of e snaps) = 13" using len by (simp add: gate_rows_of_def)
  then show ?thesis
    using nums cnt all dg [THEN conjunct2] stored_binding_digest [OF ev assms(4)]
    by (simp add: validate_evaluation_def find rows)
qed

text \<open>What the columns hold: identifiers of 128 bits, and times that \<open>fromisoformat\<close> reads back as printed.\<close>

definition store_typed :: "(string \<Rightarrow> timestamp option) \<Rightarrow> loop_store \<Rightarrow> bool" where
  "store_typed from_iso s \<longleftrightarrow>
     list_all (\<lambda>r. list_all (\<lambda>i. i < 2 ^ 128)
       [pq_id r, pq_release_candidate r, pq_evidence_pack r, pq_verdict r, pq_autonomy_policy r]) (ls_requests s) \<and>
     list_all (\<lambda>a. ta_id a < 2 ^ 128) (ls_attestations s) \<and>
     list_all (\<lambda>p. from_iso (iso_utc (pol_updated_at p)) = Some (pol_updated_at p)) (autonomy_policies (ls_db s))"

lemma snapshot_canonical:
  assumes "store_typed fi s" "pred_option (\<lambda>i. i < 2 ^ 128) eb" "pred_option (\<lambda>i. i < 2 ^ 128) ee"
  shows "canonical_bindings fi (fst (load_binding_snapshot ctx project rid aid eb ee s))"
proof (cases "fst (load_binding_snapshot ctx project rid aid eb ee s) = []")
  case True
  then show ?thesis by (simp add: canonical_bindings_def)
next
  case False
  then obtain r a p where rows: "r \<in> set (ls_requests s)" "a \<in> set (ls_attestations s)"
    "p \<in> set (autonomy_policies (ls_db s))" and b: "fst (load_binding_snapshot ctx project rid aid eb ee s) =
      [(''release_candidate_id'', uuid_str (pq_release_candidate r)), (''evidence_pack_id'', uuid_str (pq_evidence_pack r)),
       (''release_verdict_id'', uuid_str (pq_verdict r)), (''preapproval_request_id'', uuid_str (pq_id r)),
       (''preapproval_attestation_id'', uuid_str (ta_id a)), (''autonomy_policy_id'', uuid_str (pq_autonomy_policy r)),
       (''autonomy_policy_digest'', pq_autonomy_digest r), (''autonomy_policy_updated_at'', iso_utc (pol_updated_at p))] @
      (case eb of None \<Rightarrow> [] | Some b \<Rightarrow> [(''emergency_control_binding_id'', uuid_str b)]) @
      (case ee of None \<Rightarrow> [] | Some e \<Rightarrow> [(''emergency_stop_event_id'', uuid_str e)])"
    by (auto simp: load_binding_snapshot_def dest!: find_Some_mem split: option.splits prod.splits)
  from rows assms(1) have "pq_id r < 2 ^ 128" "pq_release_candidate r < 2 ^ 128" "pq_evidence_pack r < 2 ^ 128"
    "pq_verdict r < 2 ^ 128" "pq_autonomy_policy r < 2 ^ 128" "ta_id a < 2 ^ 128"
    "fi (iso_utc (pol_updated_at p)) = Some (pol_updated_at p)"
    by (auto simp: store_typed_def list_all_iff)
  with assms(2,3) show ?thesis
    unfolding b canonical_bindings_def uuid_keys_def
    by (cases eb; cases ee) (simp_all, blast+)
qed

section \<open>Properties\<close>

text \<open>Policies of a project at level 5: one tightened, one with an entry that is \<open>null\<close>.\<close>

definition policy_db :: "pyval \<Rightarrow> db" where
  "policy_db overrides = empty_db\<lparr>autonomy_policies :=
     [\<lparr>pol_id = 1, pol_tenant = 7, pol_project = 3, pol_level = 5, pol_overrides = overrides, pol_updated_at = 0\<rparr>]\<rparr>"

definition tight_overrides :: pyval where
  "tight_overrides = PDict [(''deploy_production'', PDict [(''min_level'', PInt 5)])]"

definition null_overrides :: pyval where
  "null_overrides = PDict [(''read_docs'', PNone)]"

lemma policy_db_get:
  "\<exists>p. policy_get_for_project \<lparr>ctx_tenant = 7, ctx_actor = None\<rparr> 3 (policy_db ov) = Inr (Some p) \<and>
     pol_id p = 1 \<and> pol_level p = 5 \<and> pol_overrides p = ov \<and> distinct (map pol_id (autonomy_policies (policy_db ov)))"
  by (simp add: policy_get_for_project_def policy_db_def empty_db_def)

text \<open>C34: The policy check of the database and the one of the repository answer the same: for the policy row of
  a project, the function the database calls before it writes a decision permits it exactly when
  \<open>decision_for\<close> answers that deploying to production needs an approval, for override maps whose entries
  are objects.  An entry that is \<open>null\<close>, which the repository reads as no override, is refused by the database.\<close>

theorem sql_policy_agrees:
  assumes "policy_get_for_project ctx project d = Inr (Some p)" "distinct (map pol_id (autonomy_policies d))"
  shows "sql_policy_permits (pol_id p) d \<longleftrightarrow>
    decision_for ctx project ''deploy_production'' d = Inr NEEDS_APPROVAL \<and> null_free (pol_overrides p)"
  using assms by (rule policy_rule)

lemma sql_policy_agrees_witness:
  "sql_policy_permits 1 (policy_db tight_overrides) \<and>
   decision_for \<lparr>ctx_tenant = 7, ctx_actor = None\<rparr> 3 ''deploy_production'' (policy_db tight_overrides) = Inr NEEDS_APPROVAL"
proof -
  obtain p where p: "policy_get_for_project \<lparr>ctx_tenant = 7, ctx_actor = None\<rparr> 3 (policy_db tight_overrides) = Inr (Some p)"
    "pol_id p = 1" "distinct (map pol_id (autonomy_policies (policy_db tight_overrides)))"
    using policy_db_get by blast
  have "sql_policy_permits 1 (policy_db tight_overrides)" by code_simp
  with sql_policy_agrees [OF p(1,3)] p(2) show ?thesis by simp
qed

text \<open>The two checks part on a \<open>null\<close> entry, which the repository stores and reads as no override.\<close>

lemma null_override_divides:
  "validate_overrides null_overrides = Inr () \<and>
   decision_for \<lparr>ctx_tenant = 7, ctx_actor = None\<rparr> 3 ''deploy_production'' (policy_db null_overrides) = Inr NEEDS_APPROVAL \<and>
   \<not> sql_policy_permits 1 (policy_db null_overrides)"
proof (intro conjI)
  show "validate_overrides null_overrides = Inr ()" by code_simp
  show "decision_for \<lparr>ctx_tenant = 7, ctx_actor = None\<rparr> 3 ''deploy_production'' (policy_db null_overrides) = Inr NEEDS_APPROVAL"
    by code_simp
  show "\<not> sql_policy_permits 1 (policy_db null_overrides)" by code_simp
qed

text \<open>C35: The database guards an event exactly as the repository does: for any previous event and any stage
  and outcome, its constraint on pairs and its transition rule hold exactly when
  \<open>validate_event_transition\<close> accepts the event.\<close>

theorem event_guard_agrees:
  "sql_stage_outcome stage outcome \<and> sql_event_transition previous stage \<longleftrightarrow>
     validate_event_transition (map_option fst previous) (map_option snd previous) stage outcome = Inr ()"
  by (rule event_guard_rule)

end
