(* ===== verification/Decision_Chain.thy ===== *)
theory Decision_Chain
  imports Finalization
begin

text \<open>
  The reachable states of the control-loop tables under the operations of
  \<open>app/repositories/go_live_decisions.py\<close> and the functions of migration \<open>0054\<close>, with whatever the rest of
  the program does to the other tables in between; the invariant \<open>loop_ok\<close>: every stored event and
  evaluation satisfies the guards of the database, every decision rests on an evaluation whose thirteen
  gates passed, and the chain of decisions verifies.
\<close>

section \<open>Reachable stores\<close>

text \<open>The tables only the control loop writes.\<close>

definition same_loop :: "loop_store \<Rightarrow> loop_store \<Rightarrow> bool" where
  "same_loop s s' \<longleftrightarrow>
     ls_cycles s' = ls_cycles s \<and> ls_events s' = ls_events s \<and> ls_evaluations s' = ls_evaluations s \<and>
     ls_gate_results s' = ls_gate_results s \<and> ls_decisions s' = ls_decisions s \<and>
     db_next_id (ls_db s) \<le> db_next_id (ls_db s')"

text \<open>
  \<open>own\<close> gives the tenant of each project: a cycle is started for a project of the tenant, which the
  foreign key of the cycle to its project enforces.
\<close>

inductive loop_reach :: "(string \<Rightarrow> string) \<Rightarrow> (string \<Rightarrow> timestamp option) \<Rightarrow> (uuid \<Rightarrow> uuid) \<Rightarrow> loop_store \<Rightarrow> bool"
  for sha fi own where
  empty: "ls_cycles s = [] \<Longrightarrow> ls_events s = [] \<Longrightarrow> ls_evaluations s = [] \<Longrightarrow> ls_gate_results s = [] \<Longrightarrow>
    ls_decisions s = [] \<Longrightarrow> loop_reach sha fi own s"
| cycle: "loop_reach sha fi own s \<Longrightarrow> own project = ctx_tenant ctx \<Longrightarrow>
    start_cycle sha ctx project run key clock s = Inr (c, s') \<Longrightarrow> loop_reach sha fi own s'"
| event: "loop_reach sha fi own s \<Longrightarrow> append_event ctx c stage outcome evidence s = Inr (e, s') \<Longrightarrow>
    loop_reach sha fi own s'"
| evaluation: "loop_reach sha fi own s \<Longrightarrow>
    record_checked_evaluation sha fi ctx c report pre pol latch b ex at clock s = Inr (e, s') \<Longrightarrow>
    loop_reach sha fi own s'"
| decision: "loop_reach sha fi own s \<Longrightarrow> finalize_decision sha ctx evaluation now s = Inr (d, s') \<Longrightarrow>
    loop_reach sha fi own s'"
| elsewhere: "loop_reach sha fi own s \<Longrightarrow> same_loop s s' \<Longrightarrow> loop_reach sha fi own s'"

section \<open>The invariant\<close>

definition backed :: "loop_store \<Rightarrow> decision_row \<Rightarrow> bool" where
  "backed s d \<longleftrightarrow>
     (\<exists>e\<in>set (ls_evaluations s).
        el_id e = gd_evaluation d \<and> el_tenant e = gd_tenant d \<and> el_project e = gd_project d \<and> el_cycle e = gd_cycle d \<and>
        el_all_passed e \<and> el_preapproval e \<and> el_policy e = ''needs_approval'' \<and> \<not> el_latch e \<and>
        gd_evaluation_digest d = el_gate_digest e \<and> gd_binding_digest d = el_binding_digest e) \<and>
     gd_status d = ''decided_not_executed'' \<and> \<not> gd_executed d \<and> \<not> gd_can_go_live d"

definition fresh_ids :: "loop_store \<Rightarrow> bool" where
  "fresh_ids s \<longleftrightarrow>
     (\<forall>i\<in>set (map cy_id (ls_cycles s) @ map le_id (ls_events s) @ map el_id (ls_evaluations s) @
              map gg_evaluation (ls_gate_results s) @ map gd_id (ls_decisions s)). i < db_next_id (ls_db s)) \<and>
     distinct (map le_id (ls_events s)) \<and> distinct (map el_id (ls_evaluations s)) \<and>
     distinct (map gd_id (ls_decisions s))"

definition owned :: "(uuid \<Rightarrow> uuid) \<Rightarrow> loop_store \<Rightarrow> bool" where
  "owned own s \<longleftrightarrow>
     (\<forall>c\<in>set (ls_cycles s). own (cy_project c) = cy_tenant c) \<and>
     (\<forall>e\<in>set (ls_evaluations s). own (el_project e) = el_tenant e) \<and>
     (\<forall>d\<in>set (ls_decisions s). own (gd_project d) = gd_tenant d)"

definition guarded :: "(string \<Rightarrow> string) \<Rightarrow> loop_store \<Rightarrow> bool" where
  "guarded sha s \<longleftrightarrow>
     (\<forall>e\<in>set (ls_events s). validate_event s e = Inr ()) \<and>
     (\<forall>e\<in>set (ls_evaluations s). validate_evaluation sha (el_id e) s = Inr ())"

definition chained :: "(string \<Rightarrow> string) \<Rightarrow> loop_store \<Rightarrow> bool" where
  "chained sha s \<longleftrightarrow>
     sorted_wrt (<) (map gd_seq (ls_decisions s)) \<and> (\<forall>d\<in>set (ls_decisions s). backed s d) \<and>
     (\<forall>p. verify_decision_chain sha p s)"

definition loop_ok :: "(string \<Rightarrow> string) \<Rightarrow> (uuid \<Rightarrow> uuid) \<Rightarrow> loop_store \<Rightarrow> bool" where
  "loop_ok sha own s \<longleftrightarrow> loop_wf s \<and> fresh_ids s \<and> owned own s \<and> guarded sha s \<and> chained sha s"

section \<open>Frames\<close>

lemma loop_wf_events: "ls_events s' = ls_events s \<Longrightarrow> loop_wf s' = loop_wf s"
  by (simp add: loop_wf_def cycle_events_def event_log_def)

lemma validate_event_events:
  assumes "ls_events s' = ls_events s"
  shows "validate_event s' e = validate_event s e"
  unfolding validate_event_def assms ..

lemma validate_evaluation_rows:
  "evaluation_by_id i s' = evaluation_by_id i s \<Longrightarrow> gate_rows i s' = gate_rows i s \<Longrightarrow>
     validate_evaluation sha i s' = validate_evaluation sha i s"
  by (auto simp: validate_evaluation_def evaluation_by_id_def sql_gate_digest_def Let_def dest!: find_Some_mem
      split: option.split)

lemma guarded_frame:
  "ls_events s' = ls_events s \<Longrightarrow> ls_evaluations s' = ls_evaluations s \<Longrightarrow> ls_gate_results s' = ls_gate_results s \<Longrightarrow>
     guarded sha s' = guarded sha s"
proof -
  assume h: "ls_events s' = ls_events s" "ls_evaluations s' = ls_evaluations s" "ls_gate_results s' = ls_gate_results s"
  then have "validate_evaluation sha i s' = validate_evaluation sha i s" for i
    by (intro validate_evaluation_rows) (simp_all add: evaluation_by_id_def gate_rows_def)
  with h validate_event_events [OF h(1)] show ?thesis by (simp add: guarded_def)
qed

lemma chained_frame:
  "ls_evaluations s' = ls_evaluations s \<Longrightarrow> ls_decisions s' = ls_decisions s \<Longrightarrow> chained sha s' = chained sha s"
  by (simp add: chained_def backed_def verify_decision_chain_def)

lemma fresh_ids_frame:
  assumes "fresh_ids s" "same_loop s s'"
  shows "fresh_ids s'"
  using assms less_le_trans unfolding fresh_ids_def same_loop_def by metis

lemma loop_ok_frame:
  assumes "loop_ok sha own s" "same_loop s s'"
  shows "loop_ok sha own s'"
  using assms guarded_frame [of s' s sha] chained_frame [of s' s sha] loop_wf_events [of s' s] fresh_ids_frame [OF _ assms(2)]
  by (simp add: loop_ok_def same_loop_def owned_def)

section \<open>Every operation keeps the invariant\<close>

lemma start_cycle_effect:
  assumes "start_cycle sha ctx project run key clock s = Inr (c, s')"
  shows "s' = s \<or> (ls_cycles s' = ls_cycles s @ [c] \<and> cy_id c = db_next_id (ls_db s) \<and> cy_project c = project \<and>
    cy_tenant c = ctx_tenant ctx \<and> ls_events s' = ls_events s \<and> ls_evaluations s' = ls_evaluations s \<and>
    ls_gate_results s' = ls_gate_results s \<and> ls_decisions s' = ls_decisions s \<and>
    db_next_id (ls_db s') = Suc (db_next_id (ls_db s)))"
  using assms by (auto simp: start_cycle_def Let_def split: if_splits option.splits)

lemma start_cycle_ok:
  assumes "loop_ok sha own s" "own project = ctx_tenant ctx" "start_cycle sha ctx project run key clock s = Inr (c, s')"
  shows "loop_ok sha own s'"
  using start_cycle_effect [OF assms(3)]
proof
  assume h: "ls_cycles s' = ls_cycles s @ [c] \<and> cy_id c = db_next_id (ls_db s) \<and> cy_project c = project \<and>
    cy_tenant c = ctx_tenant ctx \<and> ls_events s' = ls_events s \<and> ls_evaluations s' = ls_evaluations s \<and>
    ls_gate_results s' = ls_gate_results s \<and> ls_decisions s' = ls_decisions s \<and>
    db_next_id (ls_db s') = Suc (db_next_id (ls_db s))"
  then show ?thesis
    using assms(1,2) guarded_frame [of s' s sha] chained_frame [of s' s sha] loop_wf_events [of s' s]
    by (auto simp: loop_ok_def fresh_ids_def owned_def less_Suc_eq)
qed (use assms(1) in simp)

text \<open>The row an appended event hangs on.\<close>

lemma append_event_row:
  assumes "append_event ctx c stage outcome evidence s = Inr (e, s')"
    and prior_def: "prior = latest_by le_ordinal (cycle_events (ctx_tenant ctx) c s)"
  shows "le_id e = db_next_id (ls_db s)" "le_cycle e = c" "le_stage e = stage" "le_outcome e = outcome"
    "le_previous e = map_option le_id prior" "le_ordinal e = (case prior of None \<Rightarrow> 1 | Some p \<Rightarrow> le_ordinal p + 1)"
    "le_ordinal e \<le> 64"
    "validate_event_transition (map_option le_stage prior) (map_option le_outcome prior) stage outcome = Inr ()"
    "ls_events s' = ls_events s @ [e]" "ls_cycles s' = ls_cycles s" "ls_evaluations s' = ls_evaluations s"
    "ls_gate_results s' = ls_gate_results s" "ls_decisions s' = ls_decisions s"
    "db_next_id (ls_db s') = Suc (db_next_id (ls_db s))"
proof -
  obtain cyc where cyc: "require_cycle ctx c s = Inr cyc" "cy_id cyc = c"
    using assms(1) by (auto simp: append_event_def require_cycle_def dest!: find_Some_mem split: option.splits)
  define event where "event = \<lparr>le_id = db_next_id (ls_db s), le_tenant = ctx_tenant ctx, le_project = cy_project cyc,
    le_cycle = c, le_ordinal = (case prior of None \<Rightarrow> 1 | Some p \<Rightarrow> le_ordinal p + 1),
    le_previous = map_option le_id prior, le_stage = stage, le_outcome = outcome, le_evidence = evidence\<rparr>"
  have a: "append_event ctx c stage outcome evidence s =
    (case lock_project_row ctx (cy_project cyc) (ls_db s) of
       Inl x \<Rightarrow> Inl (ProjectLock x)
     | Inr _ \<Rightarrow> (case validate_event_transition (map_option le_stage prior) (map_option le_outcome prior) stage outcome of
           Inl _ \<Rightarrow> Inl (LoopError ''control_loop_event_transition_invalid'')
         | Inr _ \<Rightarrow> if le_ordinal event > 64 then Inl (LoopError ''control_loop_event_limit'')
                    else if \<not> evidence_reference_ok evidence then Inl (Database ''ck_control_loop_events_digest'')
                    else Inr (event, s\<lparr>ls_events := ls_events s @ [event],
                           ls_db := (ls_db s)\<lparr>db_next_id := db_next_id (ls_db s) + 1\<rparr>\<rparr>)))"
    by (simp only: append_event_def cyc bindE_simps Let_def prior_def event_def loop_event_row.simps)
  have b: "validate_event_transition (map_option le_stage prior) (map_option le_outcome prior) stage outcome = Inr ()"
    "le_ordinal event \<le> 64" "e = event"
    "s' = s\<lparr>ls_events := ls_events s @ [event], ls_db := (ls_db s)\<lparr>db_next_id := db_next_id (ls_db s) + 1\<rparr>\<rparr>"
    using assms(1) unfolding a by (auto split: sum.splits if_splits)
  then show "le_id e = db_next_id (ls_db s)" "le_cycle e = c" "le_stage e = stage" "le_outcome e = outcome"
    "le_previous e = map_option le_id prior" "le_ordinal e = (case prior of None \<Rightarrow> 1 | Some p \<Rightarrow> le_ordinal p + 1)"
    "le_ordinal e \<le> 64"
    "validate_event_transition (map_option le_stage prior) (map_option le_outcome prior) stage outcome = Inr ()"
    "ls_events s' = ls_events s @ [e]" "ls_cycles s' = ls_cycles s" "ls_evaluations s' = ls_evaluations s"
    "ls_gate_results s' = ls_gate_results s" "ls_decisions s' = ls_decisions s"
    "db_next_id (ls_db s') = Suc (db_next_id (ls_db s))"
    by (simp_all add: event_def)
qed

lemma appended_event_valid:
  assumes "append_event ctx c stage outcome evidence s = Inr (e, s')" "fresh_ids s"
  shows "validate_event s' e = Inr ()"
proof -
  define prior where "prior = latest_by le_ordinal (cycle_events (ctx_tenant ctx) c s)"
  note row = append_event_row [OF assms(1) prior_def]
  define q where "q = map_option (\<lambda>p. (le_stage p, le_outcome p)) prior"
  have "validate_event_transition (map_option fst q) (map_option snd q) stage outcome = Inr ()"
    using row(8) by (simp add: q_def option.map_comp comp_def)
  then have g: "sql_stage_outcome stage outcome" "sql_event_transition q stage"
    using event_guard_rule by blast+
  show ?thesis
  proof (cases prior)
    case None
    with row(1-7) g show ?thesis by (simp add: validate_event_def q_def)
  next
    case (Some r)
    then have r: "r \<in> set (ls_events s)" "le_cycle r = c"
      using prior_def [symmetric] by (auto simp: cycle_events_def dest!: latest_by_mem)
    have "List.find (\<lambda>x. le_id x = le_id r) (ls_events s) = Some r"
      using assms(2) r(1) by (intro find_by_id) (simp_all add: fresh_ids_def)
    then have "List.find (\<lambda>x. le_id x = le_id r) (ls_events s') = Some r"
      unfolding row(9) by (rule find_append_Some)
    with Some row(1-7) g r show ?thesis by (simp add: validate_event_def q_def)
  qed
qed

lemma validate_event_mono:
  assumes "validate_event s x = Inr ()" "ls_events s' = ls_events s @ es"
  shows "validate_event s' x = Inr ()"
proof (cases "le_previous x")
  case (Some i)
  with assms(1) obtain p where "List.find (\<lambda>p. le_id p = i) (ls_events s) = Some p"
    by (auto simp: validate_event_def split: option.splits)
  moreover from this have "List.find (\<lambda>p. le_id p = i) (ls_events s') = Some p"
    unfolding assms(2) by (rule find_append_Some)
  ultimately show ?thesis using assms(1) Some by (simp add: validate_event_def)
qed (use assms(1) in \<open>simp add: validate_event_def\<close>)

lemma append_event_ok:
  assumes "loop_ok sha own s" "append_event ctx c stage outcome evidence s = Inr (e, s')"
  shows "loop_ok sha own s'"
proof -
  note row = append_event_row [OF assms(2) refl]
  note s' = row(9-14) row(1)
  have ok: "loop_wf s" "fresh_ids s" "owned own s" "guarded sha s" "chained sha s"
    using assms(1) by (simp_all add: loop_ok_def)
  have "validate_evaluation sha i s' = validate_evaluation sha i s" for i
    by (rule validate_evaluation_rows) (simp_all add: evaluation_by_id_def gate_rows_def s')
  then have "guarded sha s'"
    using ok(4) appended_event_valid [OF assms(2) ok(2)] validate_event_mono [OF _ s'(1)]
    by (auto simp: guarded_def s')
  moreover have "fresh_ids s'" using ok(2) by (auto simp: fresh_ids_def s' less_Suc_eq)
  moreover have "owned own s'" using ok(3) by (simp add: owned_def s')
  moreover have "chained sha s'" using ok(5) chained_frame [of s' s sha] s' by simp
  ultimately show ?thesis
    using loop_wf_append_event [OF ok(1) assms(2)] by (simp add: loop_ok_def)
qed

lemma checked_evaluation_record:
  assumes "record_checked_evaluation sha fi ctx c report pre pol latch b ex at clock s = Inr (e, s')"
  shows "record_evaluation sha fi ctx c report pre pol latch b ex at clock s = Inr (e, s')"
    and "validate_evaluation sha (el_id e) s' = Inr ()"
    and "\<forall>x\<in>set (ls_evaluations s). el_cycle x \<noteq> c"
  using assms
  by (auto simp: record_checked_evaluation_def list_ex_iff split: if_splits sum.splits)

lemma record_evaluation_ok:
  assumes "loop_ok sha own s"
    and "record_checked_evaluation sha fi ctx c report pre pol latch b ex at clock s = Inr (e, s')"
  shows "loop_ok sha own s'"
proof -
  note rec = checked_evaluation_record [OF assms(2)]
  from record_evaluation_stored [OF rec(1)] obtain snaps cyc where
    cyc: "require_cycle ctx c s = Inr cyc" and
    ev: "evaluation_of sha fi (db_next_id (ls_db s)) cyc snaps (el_gate_digest e) pre pol latch b ex
       (case at of None \<Rightarrow> clock | Some t \<Rightarrow> t) = Inr e" and
    st: "ls_evaluations s' = ls_evaluations s @ [e]" "ls_gate_results s' = ls_gate_results s @ gate_rows_of e snaps"
      "ls_cycles s' = ls_cycles s" "ls_events s' = ls_events s" "ls_decisions s' = ls_decisions s"
      "db_next_id (ls_db s') = Suc (db_next_id (ls_db s))" by metis
  note cols = evaluation_of_columns [OF ev]
  have ok: "loop_wf s" "fresh_ids s" "owned own s" "guarded sha s" "chained sha s"
    using assms(1) by (simp_all add: loop_ok_def)
  have rows: "gg_evaluation g = el_id e" if "g \<in> set (gate_rows_of e snaps)" for g
    using that by (auto simp: gate_rows_of_def)
  have "validate_evaluation sha (el_id x) s' = Inr ()" if x: "x \<in> set (ls_evaluations s)" for x
  proof -
    have lt: "el_id x < el_id e" using ok(2) x cols(16) by (simp add: fresh_ids_def)
    then have "gate_rows (el_id x) s' = gate_rows (el_id x) s"
      using rows by (auto simp: gate_rows_def st(2) filter_empty_conv)
    moreover have "List.find (\<lambda>y. el_id y = el_id x) (ls_evaluations s) = Some x"
      using ok(2) x by (intro find_by_id) (simp_all add: fresh_ids_def)
    then have "evaluation_by_id (el_id x) s' = evaluation_by_id (el_id x) s"
      by (simp add: evaluation_by_id_def st(1) find_append_Some)
    ultimately have "validate_evaluation sha (el_id x) s' = validate_evaluation sha (el_id x) s"
      by (intro validate_evaluation_rows)
    with ok(4) x show ?thesis by (simp add: guarded_def)
  qed
  then have "guarded sha s'"
    using ok(4) rec(2) by (auto simp: guarded_def st validate_event_events [OF st(4)])
  moreover have "fresh_ids s'"
    using ok(2) rows cols(16) by (auto simp: fresh_ids_def st less_Suc_eq)
  moreover have "owned own s'"
    using ok(3) cyc cols(18,19)
    by (auto simp: owned_def st require_cycle_def dest!: find_Some_mem split: option.splits)
  moreover have "backed s' d" if "backed s d" for d
    using that unfolding backed_def st(1) by (metis Un_iff set_append)
  then have "chained sha s'"
    using ok(5) by (simp add: chained_def st verify_decision_chain_def)
  ultimately show ?thesis using ok(1) loop_wf_events [OF st(4)] by (simp add: loop_ok_def)
qed

section \<open>The chain grows at its end\<close>

lemma chain_ok_snoc:
  "chain_ok sha pid ph (ds @ [d]) \<longleftrightarrow>
     chain_ok sha pid ph ds \<and>
     chain_ok sha (if ds = [] then pid else Some (gd_id (last ds))) (if ds = [] then ph else Some (gd_entry_hash (last ds))) [d]"
  by (induction ds arbitrary: pid ph) auto

lemma seq_less_next: "d \<in> set ds \<Longrightarrow> gd_seq d < next_seq ds"
proof (unfold next_seq_def less_Suc_eq_le, induction ds)
  case (Cons a ds)
  then show ?case by (cases "d = a") (auto simp: le_max_iff_disj)
qed simp

lemma project_decisions_sorted:
  assumes "sorted_wrt (<) (map gd_seq ds)"
  shows "sort_key gd_seq (filter P ds) = filter P ds"
proof (rule sort_key_id_if_sorted)
  have "sorted_wrt (\<lambda>a b. gd_seq a < gd_seq b) (filter P ds)"
    using assms by (intro sorted_wrt_filter) (simp add: sorted_wrt_map)
  then show "sorted (map gd_seq (filter P ds))"
    by (simp add: sorted_wrt_map sorted_wrt_mono_rel [of _ "\<lambda>a b. gd_seq a < gd_seq b"] less_imp_le)
qed

lemma prior_is_last:
  assumes "owned own s" "sorted_wrt (<) (map gd_seq (ls_decisions s))" "own (el_project e) = el_tenant e"
  defines "ds \<equiv> filter (\<lambda>d. gd_project d = el_project e) (ls_decisions s)"
  shows "prior_decision e s = (if ds = [] then None else Some (last ds))"
proof -
  have "filter (\<lambda>d. gd_tenant d = el_tenant e \<and> gd_project d = el_project e) (ls_decisions s) = ds"
    unfolding ds_def using assms(1,3) by (intro filter_cong refl) (auto simp: owned_def)
  moreover have "sorted_wrt (\<lambda>a b. gd_seq a < gd_seq b) ds"
    unfolding ds_def using assms(2) by (intro sorted_wrt_filter) (simp add: sorted_wrt_map)
  ultimately show ?thesis using latest_by_sorted [of gd_seq ds] by (simp add: prior_decision_def)
qed

text \<open>What a finalised decision rests on.\<close>

definition finalizable :: "(string \<Rightarrow> string) \<Rightarrow> evaluation_row \<Rightarrow> timestamp \<Rightarrow> loop_store \<Rightarrow> bool" where
  "finalizable sha e now s \<longleftrightarrow>
     validate_evaluation sha (el_id e) s = Inr () \<and>
     el_all_passed e \<and> el_preapproval e \<and> el_policy e = ''needs_approval'' \<and> \<not> el_latch e \<and>
     now < the (el_expires_at e) \<and> preapproval_current e now s \<and> policy_binding_valid e (ls_db s) \<and>
     emergency_binding_current e s \<and> decision_unique (decision_of sha e now s) (ls_decisions s)"

lemma sql_finalize_facts:
  assumes "sql_finalize_decision sha ctx ev now s = Inr (i, s')"
  obtains e where "e \<in> set (ls_evaluations s)" "el_id e = ev" "el_tenant e = ctx_tenant ctx" "finalizable sha e now s"
    "i = db_next_id (ls_db s)" "ls_decisions s' = ls_decisions s @ [decision_of sha e now s]"
    "ls_cycles s' = ls_cycles s" "ls_events s' = ls_events s" "ls_evaluations s' = ls_evaluations s"
    "ls_gate_results s' = ls_gate_results s" "db_next_id (ls_db s') = Suc (db_next_id (ls_db s))"
proof -
  obtain e where e: "List.find (\<lambda>r. el_id r = ev \<and> el_tenant r = ctx_tenant ctx) (ls_evaluations s) = Some e"
    using assms by (auto simp: sql_finalize_decision_def split: option.splits)
  note mem = find_Some_mem [OF this]
  have fin: "finalizable sha e now s"
    using assms by (auto simp: sql_finalize_decision_def e Let_def finalizable_def)
  show thesis
    by (rule that [OF _ _ _ fin]) (use mem assms in \<open>auto simp: sql_finalize_decision_def e Let_def decision_of_def\<close>)
qed

lemma finalize_facts:
  assumes "finalize_decision sha ctx ev now s = Inr (d, s')"
  obtains e where "e \<in> set (ls_evaluations s)" "el_id e = ev" "el_tenant e = ctx_tenant ctx" "finalizable sha e now s"
    "d = decision_of sha e now s" "ls_decisions s' = ls_decisions s @ [d]"
    "ls_cycles s' = ls_cycles s" "ls_events s' = ls_events s" "ls_evaluations s' = ls_evaluations s"
    "ls_gate_results s' = ls_gate_results s" "db_next_id (ls_db s') = Suc (db_next_id (ls_db s))"
proof -
  obtain i where i: "sql_finalize_decision sha ctx ev now s = Inr (i, s')"
    and row: "filter (\<lambda>d. gd_id d = i \<and> gd_tenant d = ctx_tenant ctx) (ls_decisions s') = [d]"
    using assms by (auto simp: finalize_decision_def split: sum.splits list.splits)
  from sql_finalize_facts [OF i] obtain e where e: "e \<in> set (ls_evaluations s)" "el_id e = ev" "el_tenant e = ctx_tenant ctx"
    "finalizable sha e now s" "i = db_next_id (ls_db s)" "ls_decisions s' = ls_decisions s @ [decision_of sha e now s]"
    "ls_cycles s' = ls_cycles s" "ls_events s' = ls_events s" "ls_evaluations s' = ls_evaluations s"
    "ls_gate_results s' = ls_gate_results s" "db_next_id (ls_db s') = Suc (db_next_id (ls_db s))" by metis
  have "decision_of sha e now s \<in> set (filter (\<lambda>d. gd_id d = i \<and> gd_tenant d = ctx_tenant ctx) (ls_decisions s'))"
    by (simp add: e decision_of_def Let_def)
  then have "d = decision_of sha e now s" unfolding row by simp
  with e that show thesis by metis
qed

lemma decision_of_fields:
  "gd_id (decision_of sha e now s) = db_next_id (ls_db s)" "gd_seq (decision_of sha e now s) = next_seq (ls_decisions s)"
  "gd_tenant (decision_of sha e now s) = el_tenant e" "gd_project (decision_of sha e now s) = el_project e"
  by (simp_all add: decision_of_def Let_def)

lemma decision_of_chained:
  "chain_ok sha (map_option gd_id (prior_decision e s)) (map_option gd_entry_hash (prior_decision e s))
     [decision_of sha e now s]"
  by (simp add: decision_of_def Let_def)

lemma decision_of_backed:
  assumes "e \<in> set (ls_evaluations s)" "finalizable sha e now s"
  shows "backed s (decision_of sha e now s)"
  unfolding backed_def
  by (intro conjI bexI [OF _ assms(1)]) (use assms(2) in \<open>simp_all add: decision_of_def Let_def finalizable_def\<close>)

lemma finalize_ok:
  assumes "loop_ok sha own s" "finalize_decision sha ctx ev now s = Inr (d, s')"
  shows "loop_ok sha own s'"
proof -
  from finalize_facts [OF assms(2)] obtain e where e: "e \<in> set (ls_evaluations s)" "finalizable sha e now s"
    "d = decision_of sha e now s" "ls_decisions s' = ls_decisions s @ [d]"
    and s': "ls_cycles s' = ls_cycles s" "ls_events s' = ls_events s" "ls_evaluations s' = ls_evaluations s"
    "ls_gate_results s' = ls_gate_results s" "db_next_id (ls_db s') = Suc (db_next_id (ls_db s))" by metis
  have ok: "loop_wf s" "fresh_ids s" "owned own s" "guarded sha s" "chained sha s"
    using assms(1) by (simp_all add: loop_ok_def)
  have own: "own (el_project e) = el_tenant e" using ok(3) e(1) by (simp add: owned_def)
  have sorted: "sorted_wrt (<) (map gd_seq (ls_decisions s))" using ok(5) by (simp add: chained_def)
  have sorted': "sorted_wrt (<) (map gd_seq (ls_decisions s'))"
    using sorted seq_less_next by (auto simp: e(3,4) decision_of_fields sorted_wrt_append)
  have "verify_decision_chain sha p s'" for p
  proof (cases "p = el_project e")
    case True
    let ?ds = "filter (\<lambda>d. gd_project d = p) (ls_decisions s)"
    have "chain_ok sha None None ?ds"
      using ok(5) project_decisions_sorted [OF sorted] by (simp add: chained_def verify_decision_chain_def)
    moreover have "filter (\<lambda>d. gd_project d = p) (ls_decisions s') = ?ds @ [d]"
      using True by (simp add: e(3,4) decision_of_fields)
    moreover have "prior_decision e s = (if ?ds = [] then None else Some (last ?ds))"
      unfolding True by (rule prior_is_last [OF ok(3) sorted own])
    ultimately show ?thesis
      using decision_of_chained [of sha e s now]
      unfolding verify_decision_chain_def project_decisions_sorted [OF sorted']
      by (simp only: chain_ok_snoc e(3)) (simp split: if_splits)
  next
    case False
    then have "filter (\<lambda>d. gd_project d = p) (ls_decisions s') = filter (\<lambda>d. gd_project d = p) (ls_decisions s)"
      by (simp add: e(3,4) decision_of_fields)
    with ok(5) show ?thesis by (simp add: chained_def verify_decision_chain_def)
  qed
  moreover have "backed s' x" if "x \<in> set (ls_decisions s')" for x
  proof -
    have "backed s x" using that ok(5) decision_of_backed [OF e(1,2)] by (auto simp: e(3,4) chained_def)
    then show ?thesis by (simp add: backed_def s')
  qed
  ultimately have "chained sha s'" using sorted' by (simp add: chained_def)
  moreover have "fresh_ids s'"
    using ok(2) by (auto simp: fresh_ids_def s' e(3,4) decision_of_fields less_Suc_eq)
  moreover have "owned own s'" using ok(3) own by (auto simp: owned_def s' e(3,4) decision_of_fields)
  moreover have "guarded sha s'" using ok(4) guarded_frame [OF s'(2-4)] by simp
  ultimately show ?thesis using ok(1) loop_wf_events [OF s'(2)] by (simp add: loop_ok_def)
qed

section \<open>Reachable stores satisfy the invariant\<close>

lemma loop_reach_ok: "loop_reach sha fi own s \<Longrightarrow> loop_ok sha own s"
proof (induction rule: loop_reach.induct)
  case (empty s)
  then show ?case
    by (simp add: loop_ok_def loop_wf_def cycle_events_def event_log_def fresh_ids_def owned_def guarded_def chained_def
        verify_decision_chain_def)
next
  case (cycle s project ctx run key clock c s')
  then show ?case using start_cycle_ok by blast
next
  case (event s ctx c stage outcome evidence e s')
  then show ?case using append_event_ok by blast
next
  case (evaluation s ctx c report pre pol latch b ex at clock e s')
  then show ?case using record_evaluation_ok by blast
next
  case (decision s ctx evaluation now d s')
  then show ?case using finalize_ok by blast
next
  case (elsewhere s s')
  then show ?case using loop_ok_frame by blast
qed

section \<open>Lemmas: what a decision is bound to\<close>

lemma filter_unique:
  assumes "distinct (map f xs)" "x \<in> set xs"
  shows "filter (\<lambda>y. f y = f x) xs = [x]"
  using assms
proof (induction xs)
  case (Cons a xs)
  show ?case
  proof (cases "x = a")
    case True
    then have "filter (\<lambda>y. f y = f x) xs = []" using Cons.prems(1) by (auto simp: filter_empty_conv image_iff)
    with True show ?thesis by simp
  next
    case False
    with Cons have "x \<in> set xs" "f a \<noteq> f x" by auto
    with Cons show ?thesis by simp
  qed
qed simp

lemma policy_binding_decision:
  assumes "policy_binding_valid e d" "el_tenant e = ctx_tenant ctx"
    and "distinct (map pol_id (autonomy_policies d))"
    and "distinct (map (\<lambda>p. (pol_tenant p, pol_project p)) (autonomy_policies d))"
  obtains p where "policy_get_for_project ctx (el_project e) d = Inr (Some p)"
    "filter (\<lambda>r. pol_tenant r = ctx_tenant ctx \<and> pol_project r = el_project e) (autonomy_policies d) = [p]"
    "el_autonomy_policy e = Some (pol_id p)" "el_autonomy_updated e = Some (pol_updated_at p)"
    "decision_for ctx (el_project e) ''deploy_production'' d = Inr NEEDS_APPROVAL"
proof -
  from assms(1) obtain p where p: "p \<in> set (autonomy_policies d)" "Some (pol_id p) = el_autonomy_policy e"
    "pol_project p = el_project e" "pol_tenant p = el_tenant e" "Some (pol_updated_at p) = el_autonomy_updated e"
    "sql_policy_permits (pol_id p) d" by (auto simp: policy_binding_valid_def list_ex_iff)
  have f: "filter (\<lambda>r. pol_tenant r = ctx_tenant ctx \<and> pol_project r = el_project e) (autonomy_policies d) = [p]"
    using filter_unique [OF assms(4) p(1)] p(3,4) assms(2) by simp
  then have get: "policy_get_for_project ctx (el_project e) d = Inr (Some p)"
    by (simp add: policy_get_for_project_def conj_commute)
  with policy_rule [OF get assms(3)] p(6) have "decision_for ctx (el_project e) ''deploy_production'' d = Inr NEEDS_APPROVAL" by blast
  with that [OF get f] p show thesis by simp
qed

lemma loop_ok_evaluation_row:
  assumes "loop_ok sha own s" "e \<in> set (ls_evaluations s)"
  shows "filter (\<lambda>r. el_id r = el_id e \<and> el_tenant r = el_tenant e) (ls_evaluations s) = [e]"
proof -
  have "filter (\<lambda>r. el_id r = el_id e) (ls_evaluations s) = [e]"
    using assms by (intro filter_unique) (simp_all add: loop_ok_def fresh_ids_def)
  then have "filter (\<lambda>r. el_tenant r = el_tenant e) (filter (\<lambda>r. el_id r = el_id e) (ls_evaluations s)) = [e]" by simp
  then show ?thesis by (simp add: filter_filter conj_commute)
qed

lemma latest_decision_appended:
  assumes "loop_ok sha own s'" "ls_decisions s' = ls_decisions s @ [d]" "gd_tenant d = ctx_tenant ctx"
  shows "latest_decision ctx (gd_project d) s' = Some d"
proof -
  let ?f = "\<lambda>r. gd_tenant r = ctx_tenant ctx \<and> gd_project r = gd_project d"
  have "sorted_wrt (\<lambda>a b. gd_seq a < gd_seq b) (filter ?f (ls_decisions s'))"
    using assms(1) by (intro sorted_wrt_filter) (simp add: loop_ok_def chained_def sorted_wrt_map)
  from latest_by_sorted [of gd_seq, OF this] show ?thesis
    using assms(3) by (simp add: latest_decision_def assms(2))
qed

lemma emergency_binding_latest:
  assumes "emergency_binding_current e s" "distinct (map se_id (stop_events (ls_db s)))" "el_tenant e = ctx_tenant ctx"
  obtains v where "latest_stop_event ctx (el_project e) (ls_db s) = Some v" "state_after (se_event v) = Armed"
    "el_stop_event e = Some (se_id v)"
proof -
  let ?l = "latest_stop_event ctx (el_project e) (ls_db s)"
  have l: "latest_by (\<lambda>x. (se_created_at x, se_id x))
      (filter (\<lambda>x. se_project x = el_project e \<and> se_tenant x = el_tenant e) (stop_events (ls_db s))) = ?l"
    by (simp add: latest_stop_event_def assms(3) conj_commute)
  from assms(1) obtain v where v: "v \<in> set (stop_events (ls_db s))" "Some (se_id v) = el_stop_event e"
    "state_after (se_event v) = Armed" "map_option se_id ?l = Some (se_id v)"
    unfolding emergency_binding_current_def l by (auto simp: list_ex_iff)
  from v(4) obtain h where h: "?l = Some h" "se_id h = se_id v" by auto
  then have "h \<in> set (stop_events (ls_db s))" by (auto simp: latest_stop_event_def dest!: latest_by_mem)
  with h(2) v(1) assms(2) have "h = v" by (auto simp: distinct_map dest: inj_onD)
  with h that v show thesis by simp
qed

lemma preapproval_current_rows:
  assumes "preapproval_current e now s" "el_tenant e = ctx_tenant ctx"
  obtains r a where "r \<in> set (ls_requests s)" "el_request e = Some (pq_id r)" "el_autonomy_digest e = Some (pq_autonomy_digest r)"
    "map_option pq_id (latest_by (\<lambda>lr. (pq_created_at lr, pq_id lr))
       (filter (\<lambda>lr. pq_tenant lr = ctx_tenant ctx \<and> pq_project lr = el_project e) (ls_requests s))) = Some (pq_id r)"
    "a \<in> set (ls_attestations s)" "ta_request a = pq_id r" "gate_eligible_at_creation a"
    "el_expires_at e = Some (ta_expires_at a)" "now < ta_expires_at a"
    "\<not> (\<exists>l\<in>set (ls_preapproval_events s). pv_attestation l = ta_id a \<and> pv_type l \<in> {''revoked'', ''superseded''})"
proof -
  obtain r where r: "r \<in> set (ls_requests s)" "Some (pq_id r) = el_request e" "Some (pq_autonomy_digest r) = el_autonomy_digest e"
    "map_option pq_id (latest_by (\<lambda>lr. (pq_created_at lr, pq_id lr))
       (filter (\<lambda>lr. pq_project lr = el_project e \<and> pq_tenant lr = el_tenant e) (ls_requests s))) = Some (pq_id r)"
    and ax: "list_ex (\<lambda>a. Some (ta_id a) = el_attestation e \<and> ta_request a = pq_id r \<and> ta_project a = pq_project r \<and>
         ta_tenant a = pq_tenant r \<and> gate_eligible_at_creation a \<and> Some (ta_expires_at a) = el_expires_at e \<and>
         ta_expires_at a > now \<and>
         \<not> list_ex (\<lambda>l. pv_attestation l = ta_id a \<and> pv_type l \<in> {''revoked'', ''superseded''})
             (ls_preapproval_events s)) (ls_attestations s)"
    using assms(1) unfolding preapproval_current_def list_ex_iff [of _ "ls_requests s"] by blast
  from ax obtain a where "a \<in> set (ls_attestations s)" "ta_request a = pq_id r" "gate_eligible_at_creation a"
    "el_expires_at e = Some (ta_expires_at a)" "now < ta_expires_at a"
    "\<not> (\<exists>l\<in>set (ls_preapproval_events s). pv_attestation l = ta_id a \<and> pv_type l \<in> {''revoked'', ''superseded''})"
    unfolding list_ex_iff by metis
  with r that show thesis by (simp add: assms(2) conj_commute)
qed

lemma finalize_frame:
  assumes "finalize_decision sha ctx ev now s = Inr (d, s')"
  shows "ls_requests s' = ls_requests s \<and> autonomy_policies (ls_db s') = autonomy_policies (ls_db s) \<and>
    stop_events (ls_db s') = stop_events (ls_db s)"
proof -
  obtain i where "sql_finalize_decision sha ctx ev now s = Inr (i, s')"
    using assms by (auto simp: finalize_decision_def split: sum.splits list.splits)
  then show ?thesis by (auto simp: sql_finalize_decision_def Let_def split: option.splits)
qed

lemma finalizable_bound:
  assumes "finalizable sha e now s"
  shows "el_release_candidate e \<noteq> None \<and> el_evidence_pack e \<noteq> None \<and> el_verdict e \<noteq> None \<and> el_request e \<noteq> None \<and>
    el_attestation e \<noteq> None \<and> el_autonomy_policy e \<noteq> None \<and> el_autonomy_digest e \<noteq> None \<and>
    el_autonomy_updated e \<noteq> None \<and> el_emergency_binding e \<noteq> None \<and> el_stop_event e \<noteq> None \<and> el_expires_at e \<noteq> None"
proof -
  have b: "preapproval_current e now s" "policy_binding_valid e (ls_db s)" "emergency_binding_current e s"
    using assms by (simp_all add: finalizable_def)
  have some: "Some x = y \<Longrightarrow> y \<noteq> None" for x :: 'x and y by auto
  from b(1) have "el_release_candidate e \<noteq> None \<and> el_evidence_pack e \<noteq> None \<and> el_verdict e \<noteq> None \<and> el_request e \<noteq> None \<and>
      el_autonomy_policy e \<noteq> None \<and> el_autonomy_digest e \<noteq> None \<and> el_attestation e \<noteq> None \<and> el_expires_at e \<noteq> None"
    unfolding preapproval_current_def list_ex_iff by (metis some)
  moreover from b(2) have "el_autonomy_updated e \<noteq> None"
    unfolding policy_binding_valid_def list_ex_iff by (metis some)
  moreover from b(3) have "el_emergency_binding e \<noteq> None \<and> el_stop_event e \<noteq> None"
    unfolding emergency_binding_current_def list_ex_iff by (metis some)
  ultimately show ?thesis by blast
qed

lemma sql_finalize_succeeds:
  assumes "List.find (\<lambda>r. el_id r = ev \<and> el_tenant r = ctx_tenant ctx) (ls_evaluations s) = Some e" "finalizable sha e now s"
  shows "\<exists>s'. sql_finalize_decision sha ctx ev now s = Inr (db_next_id (ls_db s), s') \<and>
    ls_decisions s' = ls_decisions s @ [decision_of sha e now s]"
  using finalizable_bound [OF assms(2)] assms
  by (simp add: sql_finalize_decision_def finalizable_def decision_of_fields)

lemma finalize_succeeds:
  assumes "List.find (\<lambda>r. el_id r = ev \<and> el_tenant r = ctx_tenant ctx) (ls_evaluations s) = Some e" "finalizable sha e now s"
    and "require_serializable s = Inr ()" "\<forall>d\<in>set (ls_decisions s). gd_id d < db_next_id (ls_db s)"
  shows "\<exists>s'. finalize_decision sha ctx ev now s = Inr (decision_of sha e now s, s')"
proof -
  from sql_finalize_succeeds [OF assms(1,2)] obtain s' where s': "sql_finalize_decision sha ctx ev now s = Inr (db_next_id (ls_db s), s')"
    "ls_decisions s' = ls_decisions s @ [decision_of sha e now s]" by blast
  have "filter (\<lambda>d. gd_id d = db_next_id (ls_db s) \<and> gd_tenant d = ctx_tenant ctx) (ls_decisions s) = []"
    using assms(4) by (auto simp: filter_empty_conv)
  moreover have "el_tenant e = ctx_tenant ctx" using find_Some_mem [OF assms(1)] by simp
  ultimately show ?thesis
    using s' assms(3) by (simp add: finalize_decision_def decision_of_fields)
qed

section \<open>A concrete decision\<close>

definition loop_ctx :: tenant_context where
  "loop_ctx = \<lparr>ctx_tenant = 1, ctx_actor = None\<rparr>"

definition ready_store :: loop_store where
  "ready_store = \<lparr>ls_db = empty_db\<lparr>
       projects := [\<lparr>pr_id = 2, pr_tenant = 1\<rparr>],
       autonomy_policies := [\<lparr>pol_id = 11, pol_tenant = 1, pol_project = 2, pol_level = 4, pol_overrides = PDict [], pol_updated_at = 0\<rparr>],
       stop_events := [\<lparr>se_id = 13, se_tenant = 1, se_project = 2, se_binding = 12, se_previous = None, se_event = ArmedAnchor,
         se_member = 14, se_actor_hash = [], se_actor_type = ''human'', se_actor_prov = [], se_reason = [], se_key_hash = [],
         se_created_at = 0\<rparr>]\<rparr>,
     ls_isolation = ''serializable'', ls_cycles = [], ls_events = [], ls_evaluations = [], ls_gate_results = [],
     ls_decisions = [],
     ls_requests = [\<lparr>pq_id = 21, pq_tenant = 1, pq_project = 2, pq_release_candidate = 31, pq_evidence_pack = 32,
       pq_verdict = 33, pq_policy_version = 34, pq_autonomy_policy = 11, pq_approval = 35, pq_notification = 36,
       pq_contract_version = [], pq_condition_version = [], pq_condition_hash = [], pq_release_binding_digest = [],
       pq_core_hash = [], pq_issue_digest = [], pq_source_digest = [], pq_traceability_digest = [],
       pq_verdict_input_digest = [], pq_verdict_contract_hash = [], pq_autonomy_digest = ''d'', pq_requester_hash = ''q'',
       pq_requester_type = ''service'', pq_requester_prov = ''request_authenticated'', pq_key_hash = [],
       pq_requested_at = 0, pq_created_at = 0\<rparr>],
     ls_attestations = [\<lparr>ta_id = 22, ta_tenant = 1, ta_project = 2, ta_request = 21, ta_approval = 35, ta_policy_version = 34,
       ta_release_candidate = 31, ta_evidence_pack = 32, ta_verdict = 33, ta_requester_hash = ''q'',
       ta_requester_type = ''service'', ta_requester_prov = ''request_authenticated'', ta_approver_hash = ''a'', ta_approver_type = ''human'',
       ta_approver_prov = ''request_authenticated'', ta_key_hash = [], ta_approved_at = 0, ta_valid_from = 0,
       ta_expires_at = 90, ta_membership_ok = True, ta_created_at = 0\<rparr>],
     ls_preapproval_events = [], ls_controls = [\<lparr>eb_id = 12, eb_tenant = 1, eb_project = 2, eb_created_at = 0\<rparr>]\<rparr>"

definition cycle_store :: loop_store where
  "cycle_store = (case start_cycle sample_sha loop_ctx 2 3 ''k'' 0 ready_store of Inr (c, s) \<Rightarrow> s | Inl _ \<Rightarrow> ready_store)"

lemma cycle_store_started: "\<exists>c. start_cycle sample_sha loop_ctx 2 3 ''k'' 0 ready_store = Inr (c, cycle_store)"
  by (simp add: cycle_store_def start_cycle_def find_cycle_def ready_store_def Let_def utf8_len_def)

definition ready_bindings :: bindings where
  "ready_bindings = fst (load_binding_snapshot loop_ctx 2 (Some 21) (Some 22) (Some 12) (Some 13) cycle_store)"

lemma ready_bindings_eq:
  "load_binding_snapshot loop_ctx 2 (Some 21) (Some 22) (Some 12) (Some 13) cycle_store = (ready_bindings, Some 90)"
  "ready_bindings =
     [(''release_candidate_id'', uuid_str 31), (''evidence_pack_id'', uuid_str 32), (''release_verdict_id'', uuid_str 33),
      (''preapproval_request_id'', uuid_str 21), (''preapproval_attestation_id'', uuid_str 22),
      (''autonomy_policy_id'', uuid_str 11), (''autonomy_policy_digest'', ''d''), (''autonomy_policy_updated_at'', iso_utc 0),
      (''emergency_control_binding_id'', uuid_str 12), (''emergency_stop_event_id'', uuid_str 13)]"
  by (simp_all add: ready_bindings_def load_binding_snapshot_def cycle_store_def start_cycle_def find_cycle_def
      ready_store_def Let_def utf8_len_def loop_ctx_def)

lemmas cycle_store_defs = cycle_store_def start_cycle_def find_cycle_def ready_store_def loop_ctx_def

lemma sample_uuid: "n < 2 ^ 128 \<Longrightarrow> map_of b k = Some (uuid_str n) \<Longrightarrow> uuid_or_none b k = Inr (Some n)"
  by (simp add: uuid_or_none_def parse_uuid_str)

lemma ready_columns:
  "uuid_or_none ready_bindings ''release_candidate_id'' = Inr (Some 31)"
  "uuid_or_none ready_bindings ''evidence_pack_id'' = Inr (Some 32)"
  "uuid_or_none ready_bindings ''release_verdict_id'' = Inr (Some 33)"
  "uuid_or_none ready_bindings ''preapproval_request_id'' = Inr (Some 21)"
  "uuid_or_none ready_bindings ''preapproval_attestation_id'' = Inr (Some 22)"
  "uuid_or_none ready_bindings ''autonomy_policy_id'' = Inr (Some 11)"
  "uuid_or_none ready_bindings ''emergency_control_binding_id'' = Inr (Some 12)"
  "uuid_or_none ready_bindings ''emergency_stop_event_id'' = Inr (Some 13)"
  "updated_at_of (\<lambda>_. Some 0) ready_bindings = Inr (Some 0)"
proof -
  have "iso_utc 0 \<noteq> []" by code_simp
  then show "updated_at_of (\<lambda>_. Some 0) ready_bindings = Inr (Some 0)"
    by (simp add: updated_at_of_def ready_bindings_eq(2))
qed (rule sample_uuid; simp add: ready_bindings_eq(2))+

lemma ready_evaluation_of:
  "\<exists>e. evaluation_of sample_sha (\<lambda>_. Some 0) i cyc snaps gd True ''needs_approval'' False ready_bindings (Some 90) 4 = Inr e"
  by (simp add: evaluation_of_def ready_columns)

abbreviation full_report :: autonomy_report where
  "full_report \<equiv> evaluate_production_autonomy (uuid_str 2) full_evidence"

lemma ready_recorded:
  "\<exists>e s p. record_evaluation sample_sha (\<lambda>_. Some 0) loop_ctx 100 full_report True ''needs_approval'' False ready_bindings
      (Some 90) (Some 4) 4 cycle_store = Inr (e, s) \<and>
      ls_db s = audit_record loop_ctx ''control_loop.a5_evaluated'' ''control_loop_runtime'' (Some ''go_live_evaluation'') p ((ls_db cycle_store)\<lparr>db_next_id := 102\<rparr>) \<and>
      ls_isolation s = ls_isolation cycle_store \<and> ls_requests s = ls_requests cycle_store \<and>
      ls_attestations s = ls_attestations cycle_store \<and> ls_preapproval_events s = [] \<and>
      ls_controls s = ls_controls cycle_store"
proof -
  obtain snaps gd where sn: "snapshots_of sample_sha (a5_gates full_evidence) = Inr snaps"
    "gate_result_digest sample_sha snaps = Inr gd" using sample_report_frozen by blast
  obtain cyc where cyc: "require_cycle loop_ctx 100 cycle_store = Inr cyc" "cy_project cyc = 2"
    by (simp add: require_cycle_def cycle_store_defs Let_def utf8_len_def empty_db_def)
  obtain e where e: "evaluation_of sample_sha (\<lambda>_. Some 0) 101 cyc snaps gd True ''needs_approval'' False ready_bindings
      (Some 90) 4 = Inr e" using ready_evaluation_of by blast
  have "rep_project full_report = uuid_str 2" "rep_gates full_report = a5_gates full_evidence"
    by (simp add: evaluate_production_autonomy_def) (rule a5_gates_sorted)
  moreover have "db_next_id (ls_db cycle_store) = 101" "ls_isolation cycle_store = ''serializable''" "ls_preapproval_events cycle_store = []"
    by (simp_all add: cycle_store_defs Let_def utf8_len_def empty_db_def)
  ultimately show ?thesis
    using sn e cyc by (simp add: record_evaluation_def require_serializable_def) blast
qed

lemma cycle_store_parts:
  "ls_evaluations cycle_store = []" "ls_gate_results cycle_store = []" "ls_decisions cycle_store = []"
  "db_next_id (ls_db cycle_store) = 101" "ls_isolation cycle_store = ''serializable''"
  "ls_requests cycle_store = ls_requests ready_store" "ls_attestations cycle_store = ls_attestations ready_store"
  "ls_controls cycle_store = ls_controls ready_store"
  "autonomy_policies (ls_db cycle_store) = autonomy_policies (ls_db ready_store)"
  "stop_events (ls_db cycle_store) = stop_events (ls_db ready_store)"
  "\<exists>cyc. require_cycle loop_ctx 100 cycle_store = Inr cyc \<and> cy_tenant cyc = 1 \<and> cy_project cyc = 2 \<and> cy_id cyc = 100"
  "ls_cycles cycle_store = [c] \<Longrightarrow> cy_id c = 100 \<and> cy_tenant c = 1 \<and> cy_project c = 2"
  by (auto simp: cycle_store_defs Let_def utf8_len_def empty_db_def require_cycle_def)

lemma ready_evaluated:
  "\<exists>e s. record_checked_evaluation sample_sha (\<lambda>_. Some 0) loop_ctx 100 full_report True ''needs_approval'' False ready_bindings
      (Some 90) (Some 4) 4 cycle_store = Inr (e, s) \<and> finalizable sample_sha e 5 s \<and> ls_evaluations s = [e] \<and>
      el_id e = 101 \<and> el_tenant e = 1 \<and> el_project e = 2 \<and> el_cycle e = 100 \<and> ls_isolation s = ''serializable'' \<and> ls_decisions s = [] \<and>
      ls_cycles s = ls_cycles cycle_store \<and>
      autonomy_policies (ls_db s) = autonomy_policies (ls_db ready_store) \<and> stop_events (ls_db s) = stop_events (ls_db ready_store)"
proof -
  obtain e s p where rec: "record_evaluation sample_sha (\<lambda>_. Some 0) loop_ctx 100 full_report True ''needs_approval'' False
      ready_bindings (Some 90) (Some 4) 4 cycle_store = Inr (e, s)" and
    db: "ls_db s = audit_record loop_ctx ''control_loop.a5_evaluated'' ''control_loop_runtime'' (Some ''go_live_evaluation'') p ((ls_db cycle_store)\<lparr>db_next_id := 102\<rparr>)" and
    fr: "ls_isolation s = ls_isolation cycle_store" "ls_requests s = ls_requests cycle_store"
      "ls_attestations s = ls_attestations cycle_store" "ls_preapproval_events s = []" "ls_controls s = ls_controls cycle_store"
    using ready_recorded by blast
  obtain snaps cyc where "snapshots_of sample_sha (rep_gates full_report) = Inr snaps"
    "gate_result_digest sample_sha snaps = Inr (el_gate_digest e)" and
    cyc: "require_cycle loop_ctx 100 cycle_store = Inr cyc" and
    ev': "evaluation_of sample_sha (\<lambda>_. Some 0) (db_next_id (ls_db cycle_store)) cyc snaps (el_gate_digest e) True
       ''needs_approval'' False ready_bindings (Some 90) (case Some 4 of None \<Rightarrow> 4 | Some t \<Rightarrow> t) = Inr e" and
    st: "ls_evaluations s = ls_evaluations cycle_store @ [e]" and
      "ls_gate_results s = ls_gate_results cycle_store @ gate_rows_of e snaps" and
    st': "ls_cycles s = ls_cycles cycle_store" and "ls_events s = ls_events cycle_store" and
    st'': "ls_decisions s = ls_decisions cycle_store" and "db_next_id (ls_db s) = Suc (db_next_id (ls_db cycle_store))"
    using rec by (rule record_evaluation_stored)
  note st = st st' st''
  note ev = ev' [unfolded cycle_store_parts(4) option.case]
  note cols = evaluation_of_columns [OF ev]
  have tables: "autonomy_policies (ls_db s) = autonomy_policies (ls_db ready_store)" "stop_events (ls_db s) = stop_events (ls_db ready_store)"
    unfolding db by (simp_all add: cycle_store_parts)
  have cycle: "cy_tenant cyc = 1" "cy_project cyc = 2" "cy_id cyc = 100" using cyc cycle_store_parts(11) by auto
  have ids: "el_release_candidate e = Some 31" "el_evidence_pack e = Some 32" "el_verdict e = Some 33" "el_request e = Some 21"
    "el_attestation e = Some 22" "el_autonomy_policy e = Some 11" "el_emergency_binding e = Some 12" "el_stop_event e = Some 13"
    "el_autonomy_updated e = Some 0"
    using cols(1-9) by (simp_all add: ready_columns)
  have typed: "store_typed (\<lambda>_. Some 0) cycle_store"
    by (simp add: store_typed_def cycle_store_parts ready_store_def)
  have can: "canonical_bindings (\<lambda>_. Some 0) ready_bindings"
    using snapshot_canonical [OF typed, of "Some 12" "Some 13" loop_ctx 2 "Some 21" "Some 22"] by (simp add: ready_bindings_eq(1))
  have valid: "validate_evaluation sample_sha (el_id e) s = Inr ()"
    by (rule recorded_evaluation_valid [OF rec _ _ can]) (simp_all add: cycle_store_parts)
  have all: "el_all_passed e" using recorded_evaluation_is_the_report [OF rec] full_evidence_sound by simp
  have "preapproval_current e 5 s"
    using ids cols(10,18,19,20) cycle
    by (simp add: preapproval_current_def fr cycle_store_parts ready_store_def gate_eligible_at_creation_def ready_bindings_eq(2))
  moreover have "policy_binding_valid e (ls_db s)"
  proof -
    have "sql_policy_permits 11 (ls_db s)" unfolding sql_policy_permits_def tables by (simp add: ready_store_def sql_path_def)
    with ids cols(18,19) cycle show ?thesis unfolding policy_binding_valid_def tables by (simp add: ready_store_def)
  qed
  moreover have "emergency_binding_current e s"
    using ids cols(18,19) cycle
    by (simp add: emergency_binding_current_def fr cycle_store_parts tables) (simp add: ready_store_def)
  ultimately have "finalizable sample_sha e 5 s"
    using valid all cols by (simp add: finalizable_def st cycle_store_parts decision_unique_def)
  moreover have "record_checked_evaluation sample_sha (\<lambda>_. Some 0) loop_ctx 100 full_report True ''needs_approval'' False
      ready_bindings (Some 90) (Some 4) 4 cycle_store = Inr (e, s)"
    using valid by (simp add: record_checked_evaluation_def rec cycle_store_parts)
  ultimately show ?thesis
    using cols cycle tables by (simp add: st fr cycle_store_parts)
qed

lemma cycle_store_reach: "loop_reach sample_sha (\<lambda>_. Some 0) (\<lambda>_. 1) cycle_store"
proof -
  obtain c where c: "start_cycle sample_sha loop_ctx 2 3 ''k'' 0 ready_store = Inr (c, cycle_store)"
    using cycle_store_started by blast
  have "loop_reach sample_sha (\<lambda>_. Some 0) (\<lambda>_. 1) ready_store"
    by (rule loop_reach.empty) (simp_all add: ready_store_def)
  then show ?thesis by (rule loop_reach.cycle [OF _ _ c]) (simp add: loop_ctx_def)
qed

lemma ready_reachable:
  "\<exists>e s d s'. loop_reach sample_sha (\<lambda>_. Some 0) (\<lambda>_. 1) s \<and>
     finalize_decision sample_sha loop_ctx 101 5 s = Inr (d, s') \<and> d = decision_of sample_sha e 5 s \<and>
     el_project e = 2 \<and> ls_decisions s = [] \<and> distinct (map pol_id (autonomy_policies (ls_db s))) \<and>
     distinct (map (\<lambda>p. (pol_tenant p, pol_project p)) (autonomy_policies (ls_db s))) \<and>
     distinct (map se_id (stop_events (ls_db s)))"
proof -
  obtain e s where e: "record_checked_evaluation sample_sha (\<lambda>_. Some 0) loop_ctx 100 full_report True ''needs_approval'' False
      ready_bindings (Some 90) (Some 4) 4 cycle_store = Inr (e, s)" "finalizable sample_sha e 5 s" "ls_evaluations s = [e]"
    "el_id e = 101" "el_tenant e = 1" "el_project e = 2" "ls_isolation s = ''serializable''" "ls_decisions s = []"
    "autonomy_policies (ls_db s) = autonomy_policies (ls_db ready_store)" "stop_events (ls_db s) = stop_events (ls_db ready_store)"
    using ready_evaluated by blast
  have reach: "loop_reach sample_sha (\<lambda>_. Some 0) (\<lambda>_. 1) s"
    by (rule loop_reach.evaluation [OF cycle_store_reach e(1)])
  obtain s' where "finalize_decision sample_sha loop_ctx 101 5 s = Inr (decision_of sample_sha e 5 s, s')"
    using finalize_succeeds [of 101 loop_ctx s e sample_sha 5] e by (auto simp: loop_ctx_def require_serializable_def)
  moreover have "distinct (map pol_id (autonomy_policies (ls_db s)))"
    "distinct (map (\<lambda>p. (pol_tenant p, pol_project p)) (autonomy_policies (ls_db s)))"
    "distinct (map se_id (stop_events (ls_db s)))"
    unfolding e(9,10) by (simp_all add: ready_store_def)
  ultimately show ?thesis using reach e(6,8) by blast
qed

text \<open>
  Nothing follows an event that ends the loop.  A decision row is another matter: finalising reads no
  event, so \<open>ready_reachable\<close> records its decision after a cycle and an evaluation alone, as the tests
  of the repository do, and it is the caller who appends the event of the eighth stage, afterwards.
\<close>

lemma decision_event_last:
  assumes "loop_wf s" "e \<in> set (ls_events s)" "le_outcome e \<in> set TERMINAL_OUTCOMES - set GUARD_OUTCOMES"
  shows "last (cycle_events (le_tenant e) (le_cycle e) s) = e"
proof -
  let ?es = "cycle_events (le_tenant e) (le_cycle e) s"
  have "e \<in> set ?es" using assms(2) by (simp add: cycle_events_def)
  from split_list [OF this] obtain xs ys where split: "?es = xs @ e # ys" by blast
  have ok: "log_ok None None (event_log (le_tenant e) (le_cycle e) s)" using assms(1) by (simp add: loop_wf_def)
  show ?thesis
  proof (cases ys)
    case (Cons y zs)
    let ?l = "map (\<lambda>r. (le_stage r, le_outcome r))"
    have "log_ok None None (?l (xs @ [e]) @ [(le_stage y, le_outcome y)])"
      using ok log_ok_prefix [of None None "?l (xs @ [e]) @ [(le_stage y, le_outcome y)]" "?l zs"]
      by (simp add: event_log_def split Cons)
    then have "validate_event_transition (Some (le_stage e)) (Some (le_outcome e)) (le_stage y) (le_outcome y) = Inr ()"
      unfolding log_ok_snoc by simp
    then show ?thesis using assms(3) by (auto simp: validate_iff split: if_splits)
  qed (simp add: split)
qed

lemma append_events_reach:
  "append_events ctx c es s = Inr s' \<Longrightarrow> loop_reach sha fi own s \<Longrightarrow> loop_reach sha fi own s'"
proof (induction es arbitrary: s)
  case (Cons x es)
  obtain st oc evd where x: "x = (st, oc, evd)" by (cases x)
  obtain e s1 where s1: "append_event ctx c st oc evd s = Inr (e, s1)" "append_events ctx c es s1 = Inr s'"
    using Cons.prems(1) by (auto simp: x bindE_def split: sum.splits)
  from loop_reach.event [OF Cons.prems(2) s1(1)] show ?case by (rule Cons.IH [OF s1(2)])
qed simp

text \<open>The cycle of \<open>cycle_store\<close> taken through its eight stages.\<close>

lemma completed_cycle:
  "\<exists>s. loop_reach sample_sha (\<lambda>_. Some 0) (\<lambda>_. 1) s \<and> event_log 1 100 s = completion"
proof -
  have start: "loop_wf cycle_store" using loop_reach_ok [OF cycle_store_reach] by (simp add: loop_ok_def)
  have cyc: "require_cycle loop_ctx 100 cycle_store = Inr (hd (ls_cycles cycle_store))"
    and lock: "lock_project_row loop_ctx (cy_project (hd (ls_cycles cycle_store))) (ls_db cycle_store)
      = Inr \<lparr>pr_id = 2, pr_tenant = 1\<rparr>" and log: "event_log (ctx_tenant loop_ctx) 100 cycle_store = []"
    by (simp_all add: cycle_store_defs Let_def utf8_len_def require_cycle_def lock_project_row_def event_log_def
        cycle_events_def empty_db_def)
  have "log_ok None None completion" using open_log_completes [of "[]"] by (simp add: work_events_def)
  then obtain s where s: "append_events loop_ctx 100 (unreferenced completion) cycle_store = Inr s"
    using append_events_succeed [OF start cyc lock, of completion] log by (auto simp: completion_def)
  have "map (\<lambda>(st, oc, _). (st, oc)) (unreferenced completion) = completion" by (simp add: comp_def case_prod_unfold)
  then have "event_log (ctx_tenant loop_ctx) 100 s = completion"
    using append_events_log [OF s start] log by simp
  with append_events_reach [OF s cycle_store_reach] show ?thesis by (auto simp: loop_ctx_def)
qed

section \<open>Properties\<close>

text \<open>C26: In the event log of any cycle of a reachable store, an event that records or refuses a go-live
  decision is the last of its cycle and the eight stages were completed up to it, each once and in
  order.  This is about the stored events; a decision row is not tied to them.\<close>

theorem decision_event_after_all_stages:
  assumes "loop_reach sha fi own s" "e \<in> set (ls_events s)"
    and "le_outcome e \<in> {''decision_recorded'', ''blocked_evidence_or_authority''}"
  shows "map fst (work_events (event_log (le_tenant e) (le_cycle e) s)) = CONTROL_LOOP_STAGE_SEQUENCE \<and>
    le_stage e = ''finalize_go_live_decision'' \<and> last (cycle_events (le_tenant e) (le_cycle e) s) = e"
proof -
  let ?t = "le_tenant e" and ?c = "le_cycle e"
  have wf: "loop_wf s" using loop_reach_ok [OF assms(1)] by (simp add: loop_ok_def)
  have mem: "e \<in> set (cycle_events ?t ?c s)" using assms(2) by (simp add: cycle_events_def)
  then have log: "log_ok None None (event_log ?t ?c s)" "(le_stage e, le_outcome e) \<in> set (event_log ?t ?c s)"
    using wf by (auto simp: loop_wf_def event_log_def)
  have last: "last (cycle_events ?t ?c s) = e"
    by (rule decision_event_last [OF wf assms(2)]) (use assms(3) in \<open>auto simp: TERMINAL_OUTCOMES_def GUARD_OUTCOMES_def\<close>)
  have "cycle_events ?t ?c s \<noteq> []" using mem by auto
  then have "last (event_log ?t ?c s) = (le_stage e, le_outcome e)" by (simp add: event_log_def last_map last)
  with log_decision_after_stages [OF log assms(3)] last show ?thesis by simp
qed

text \<open>C32: In every store the control loop can reach, a recorded go-live decision was not executed and grants
  nothing by itself, and it rests on exactly thirteen stored gate results, all passed, whose digest the
  decision carries; every stored event satisfies the guards of the database; and the hash chain of the
  decisions of any project verifies.\<close>

theorem decisions_rest_on_gates:
  assumes "loop_reach sha fi own s"
  shows "list_all (\<lambda>d. gd_status d = ''decided_not_executed'' \<and> \<not> gd_executed d \<and> \<not> gd_can_go_live d \<and>
      length (gate_rows (gd_evaluation d) s) = 13 \<and>
      list_all (\<lambda>g. gg_status g = ''passed'') (gate_rows (gd_evaluation d) s) \<and>
      gd_evaluation_digest d = sql_gate_digest sha (gd_evaluation d) s) (ls_decisions s) \<and>
    list_all (\<lambda>e. validate_event s e = Inr ()) (ls_events s) \<and>
    verify_decision_chain sha project s"
proof -
  have ok: "loop_ok sha own s" using assms by (rule loop_reach_ok)
  have row: "length (gate_rows (gd_evaluation d) s) = 13 \<and>
      list_all (\<lambda>g. gg_status g = ''passed'') (gate_rows (gd_evaluation d) s) \<and>
      gd_evaluation_digest d = sql_gate_digest sha (gd_evaluation d) s" if d: "backed s d" for d
  proof -
    from d obtain e where e: "e \<in> set (ls_evaluations s)" "el_id e = gd_evaluation d" "el_all_passed e"
      "gd_evaluation_digest d = el_gate_digest e" by (auto simp: backed_def)
    have v: "validate_evaluation sha (el_id e) s = Inr ()" using ok e(1) by (simp add: loop_ok_def guarded_def)
    have "evaluation_by_id (el_id e) s = Some e"
      unfolding evaluation_by_id_def using ok e(1) by (intro find_by_id) (simp_all add: loop_ok_def fresh_ids_def)
    with v e show ?thesis
      using sum_length_filter_compl [of "\<lambda>g. gg_status g = ''passed''" "gate_rows (el_id e) s"]
      by (simp add: validate_evaluation_def Let_def filter_empty_conv list_all_iff)
  qed
  have truth: "gd_status d = ''decided_not_executed'' \<and> \<not> gd_executed d \<and> \<not> gd_can_go_live d" if "backed s d" for d
    using that by (simp add: backed_def)
  have "\<forall>d\<in>set (ls_decisions s). backed s d" "\<forall>e\<in>set (ls_events s). validate_event s e = Inr ()"
    "verify_decision_chain sha project s" using ok by (simp_all add: loop_ok_def chained_def guarded_def)
  with row truth show ?thesis
    unfolding list_all_iff [of _ "ls_decisions s"] list_all_iff [of _ "ls_events s"] by blast
qed

text \<open>C33: A decision that is finalised is current: at that moment the stored policy answers that deploying to
  production needs an approval, the emergency stop is armed, the preapproval is attested by a human other
  than its requester, unexpired and not ended, and \<open>current_decision\<close> returns the decision exactly when its
  cycle is the latest of the project.\<close>

theorem finalized_decision_is_current:
  assumes "loop_reach sha fi own s" "finalize_decision sha ctx ev now s = Inr (d, s')"
    and "distinct (map pol_id (autonomy_policies (ls_db s)))"
    and "distinct (map (\<lambda>p. (pol_tenant p, pol_project p)) (autonomy_policies (ls_db s)))"
    and "distinct (map se_id (stop_events (ls_db s)))"
  shows "decision_for ctx (gd_project d) ''deploy_production'' (ls_db s) = Inr NEEDS_APPROVAL \<and>
    (\<exists>v. latest_stop_event ctx (gd_project d) (ls_db s) = Some v \<and> state_after (se_event v) = Armed) \<and>
    (\<exists>r\<in>set (ls_requests s). \<exists>a\<in>set (ls_attestations s).
       pq_id r = gd_request d \<and> ta_request a = pq_id r \<and> now < ta_expires_at a \<and>
       ta_approver_type a = ''human'' \<and> ta_requester_hash a \<noteq> ta_approver_hash a \<and>
       \<not> (\<exists>l\<in>set (ls_preapproval_events s). pv_attestation l = ta_id a \<and> pv_type l \<in> {''revoked'', ''superseded''})) \<and>
    current_decision ctx (gd_project d) (Some now) clock s' =
      Inr (if map_option cy_id (latest_by (\<lambda>r. (cy_created_at r, cy_id r))
              (filter (\<lambda>r. cy_tenant r = ctx_tenant ctx \<and> cy_project r = gd_project d) (ls_cycles s))) = Some (gd_cycle d)
           then Some d else None)"
proof -
  from finalize_facts [OF assms(2)] obtain e where e: "e \<in> set (ls_evaluations s)" "el_id e = ev" "el_tenant e = ctx_tenant ctx"
    "finalizable sha e now s" "d = decision_of sha e now s" "ls_decisions s' = ls_decisions s @ [d]"
    and s': "ls_cycles s' = ls_cycles s" "ls_evaluations s' = ls_evaluations s" by metis
  have d: "gd_project d = el_project e" "gd_tenant d = ctx_tenant ctx" "gd_cycle d = el_cycle e" "gd_evaluation d = el_id e"
    "gd_request d = the (el_request e)" "gd_autonomy_policy d = the (el_autonomy_policy e)"
    "gd_autonomy_digest d = the (el_autonomy_digest e)" "gd_stop_event d = the (el_stop_event e)"
    by (simp_all add: e(3,5) decision_of_def Let_def)
  have ok: "loop_ok sha own s'" using assms(1,2) loop_reach.decision loop_reach_ok by blast
  from e(4) have bound: "policy_binding_valid e (ls_db s)" "emergency_binding_current e s" "preapproval_current e now s"
    by (simp_all add: finalizable_def)
  obtain p where p: "filter (\<lambda>r. pol_tenant r = ctx_tenant ctx \<and> pol_project r = el_project e) (autonomy_policies (ls_db s)) = [p]"
    "el_autonomy_policy e = Some (pol_id p)" "el_autonomy_updated e = Some (pol_updated_at p)"
    "decision_for ctx (el_project e) ''deploy_production'' (ls_db s) = Inr NEEDS_APPROVAL"
    by (rule policy_binding_decision [OF bound(1) e(3) assms(3,4)])
  obtain v where v: "latest_stop_event ctx (el_project e) (ls_db s) = Some v" "state_after (se_event v) = Armed"
    "el_stop_event e = Some (se_id v)"
    using bound(2) assms(5) e(3) by (rule emergency_binding_latest)
  obtain r a where r: "r \<in> set (ls_requests s)" "el_request e = Some (pq_id r)" "el_autonomy_digest e = Some (pq_autonomy_digest r)"
    "map_option pq_id (latest_by (\<lambda>lr. (pq_created_at lr, pq_id lr))
       (filter (\<lambda>lr. pq_tenant lr = ctx_tenant ctx \<and> pq_project lr = el_project e) (ls_requests s))) = Some (pq_id r)"
    and a: "a \<in> set (ls_attestations s)" "ta_request a = pq_id r" "gate_eligible_at_creation a"
    "el_expires_at e = Some (ta_expires_at a)" "now < ta_expires_at a"
    "\<not> (\<exists>l\<in>set (ls_preapproval_events s). pv_attestation l = ta_id a \<and> pv_type l \<in> {''revoked'', ''superseded''})"
    using bound(3) e(3) by (rule preapproval_current_rows)
  have frame: "ls_requests s' = ls_requests s" "autonomy_policies (ls_db s') = autonomy_policies (ls_db s)"
    "stop_events (ls_db s') = stop_events (ls_db s)"
    using finalize_frame [OF assms(2)] by simp_all
  have cur: "current_decision ctx (gd_project d) (Some now) clock s' =
      Inr (if map_option cy_id (latest_by (\<lambda>r. (cy_created_at r, cy_id r))
              (filter (\<lambda>r. cy_tenant r = ctx_tenant ctx \<and> cy_project r = gd_project d) (ls_cycles s))) = Some (gd_cycle d)
           then Some d else None)"
    unfolding current_decision_def s' latest_decision_appended [OF ok e(6) d(2)] frame
    using loop_ok_evaluation_row [OF ok, of e] e(1,3) s'(2) d p v r a
    by (simp add: Let_def latest_stop_event_def frame split: option.split)
  show ?thesis
    unfolding d(1,5) using cur [unfolded d(1)] p(4) v(1,2) r(1,2) a by (auto simp: gate_eligible_at_creation_def)
qed

text \<open>C36: An evaluation recorded with the bindings the repository loads is never refused by the guards of the
  database: when the cycle has none yet, the method with its constraints returns what it inserted.\<close>

theorem snapshot_evaluation_accepted:
  assumes "loop_reach sha fi own s" "store_typed fi s"
    and "pred_option (\<lambda>i. i < 2 ^ 128) eb" "pred_option (\<lambda>i. i < 2 ^ 128) ee"
    and "load_binding_snapshot ctx project rid aid eb ee s = (b, ex)"
    and "list_all (\<lambda>x. el_cycle x \<noteq> c) (ls_evaluations s)"
    and "record_evaluation sha fi ctx c report pre pol latch b ex at clock s = Inr (e, s')"
  shows "record_checked_evaluation sha fi ctx c report pre pol latch b ex at clock s = Inr (e, s')"
proof -
  have ok: "fresh_ids s" using loop_reach_ok [OF assms(1)] by (simp add: loop_ok_def)
  have "validate_evaluation sha (el_id e) s' = Inr ()"
    by (rule recorded_evaluation_valid [OF assms(7)])
      (use ok snapshot_canonical [OF assms(2-4), of ctx project rid aid] assms(5) in \<open>auto simp: fresh_ids_def\<close>)
  with assms(6,7) show ?thesis
    by (auto simp: record_checked_evaluation_def list_ex_iff list_all_iff)
qed

lemma decision_event_after_all_stages_witness:
  "\<exists>s e. e \<in> set (ls_events s) \<and> le_outcome e = ''decision_recorded'' \<and>
     map fst (work_events (event_log 1 100 s)) = CONTROL_LOOP_STAGE_SEQUENCE \<and> last (cycle_events 1 100 s) = e"
proof -
  obtain s where s: "loop_reach sample_sha (\<lambda>_. Some 0) (\<lambda>_. 1) s" "event_log 1 100 s = completion"
    using completed_cycle by blast
  have "(''finalize_go_live_decision'', ''decision_recorded'') \<in> set (event_log 1 100 s)"
    unfolding s(2) by (simp add: completion_def)
  then obtain e where "e \<in> set (ls_events s)" "le_tenant e = 1" "le_cycle e = 100" "le_outcome e = ''decision_recorded''"
    by (auto simp: event_log_def cycle_events_def)
  with decision_event_after_all_stages [OF s(1) this(1)] show ?thesis by auto
qed

lemma decisions_rest_on_gates_witness:
  "\<exists>s d. ls_decisions s = [d] \<and> length (gate_rows (gd_evaluation d) s) = 13 \<and> verify_decision_chain sample_sha 2 s"
proof -
  obtain e s d s' where r: "loop_reach sample_sha (\<lambda>_. Some 0) (\<lambda>_. 1) s"
    "finalize_decision sample_sha loop_ctx 101 5 s = Inr (d, s')" "ls_decisions s = []" using ready_reachable by blast
  have "ls_decisions s' = [d]" using finalize_facts [OF r(2)] r(3) by (metis append_Nil)
  moreover from loop_reach.decision [OF r(1,2)] have "loop_reach sample_sha (\<lambda>_. Some 0) (\<lambda>_. 1) s'" .
  note decisions_rest_on_gates [OF this, of 2]
  ultimately show ?thesis by auto
qed

lemma finalized_decision_is_current_witness:
  "\<exists>s d s'. finalize_decision sample_sha loop_ctx 101 5 s = Inr (d, s') \<and>
     decision_for loop_ctx 2 ''deploy_production'' (ls_db s) = Inr NEEDS_APPROVAL"
proof -
  obtain e s d s' where r: "loop_reach sample_sha (\<lambda>_. Some 0) (\<lambda>_. 1) s"
    "finalize_decision sample_sha loop_ctx 101 5 s = Inr (d, s')" "d = decision_of sample_sha e 5 s" "el_project e = 2"
    "distinct (map pol_id (autonomy_policies (ls_db s)))"
    "distinct (map (\<lambda>p. (pol_tenant p, pol_project p)) (autonomy_policies (ls_db s)))"
    "distinct (map se_id (stop_events (ls_db s)))"
    using ready_reachable by blast
  have "gd_project d = 2" using r(3,4) by (simp add: decision_of_fields)
  with finalized_decision_is_current [OF r(1,2,5-7)] r(2) show ?thesis by auto
qed

lemma snapshot_evaluation_accepted_witness:
  "\<exists>e s. record_checked_evaluation sample_sha (\<lambda>_. Some 0) loop_ctx 100 full_report True ''needs_approval'' False
     ready_bindings (Some 90) (Some 4) 4 cycle_store = Inr (e, s)"
proof -
  obtain e s where rec: "record_evaluation sample_sha (\<lambda>_. Some 0) loop_ctx 100 full_report True ''needs_approval'' False
      ready_bindings (Some 90) (Some 4) 4 cycle_store = Inr (e, s)" using ready_recorded by blast
  show ?thesis
    by (intro exI, rule snapshot_evaluation_accepted [OF cycle_store_reach _ _ _ ready_bindings_eq(1) _ rec])
      (simp_all add: store_typed_def cycle_store_parts ready_store_def)
qed

end
