(* ===== verification/Preapproval_Contract.thy ===== *)
theory Preapproval_Contract
  imports Finalization Gate_Evidence
begin

text \<open>
  The pure contract of a production preapproval (\<open>app/release/production_approval.py\<close>): the recorded
  approval policy of a project and the principals it names, the digests that bind a preapproval to one
  release, and the evidence about the two actors.  \<open>hashlib.sha256\<close> is the argument \<open>sha\<close>.
\<close>

section \<open>Digests\<close>

datatype preapproval_error = ProductionApprovalContractError

definition POLICY_CONTRACT_VERSION :: string where
  "POLICY_CONTRACT_VERSION = ''slice53.production_approval_policy.v1''"

definition CONDITIONS_CONTRACT_VERSION :: string where
  "CONDITIONS_CONTRACT_VERSION = ''slice53.production_preapproval_conditions.v1''"

definition PREAPPROVAL_CONTRACT_VERSION :: string where
  "PREAPPROVAL_CONTRACT_VERSION = ''slice53.production_preapproval.v1''"

definition POLICY_SOURCE_PROVENANCE :: string where
  "POLICY_SOURCE_PROVENANCE = ''caller_supplied_unverified_structured_approval_policy''"

definition MAX_APPROVERS :: nat where
  "MAX_APPROVERS = 100"

definition MAX_SUBJECT_BYTES :: nat where
  "MAX_SUBJECT_BYTES = 255"

definition canonical_digest :: "(string \<Rightarrow> string) \<Rightarrow> pyval \<Rightarrow> preapproval_error
    + string" where
  "canonical_digest sha v =
     (case canonical_json False v of
        None \<Rightarrow> Inl ProductionApprovalContractError
      | Some b \<Rightarrow> Inr (''sha256:'' @ sha b))"

definition ordered_value_digest :: "(string \<Rightarrow> string) \<Rightarrow> string list \<Rightarrow>
    preapproval_error + string" where
  "ordered_value_digest sha vals =
     bindE (check (list_all (\<lambda>v. v \<noteq> []) vals) ProductionApprovalContractError) (\<lambda>_.
       Inr (hash_text sha (join [CHR 0x1F] vals)))"

definition subject_digest :: "(string \<Rightarrow> string) \<Rightarrow> string \<Rightarrow> preapproval_error +
    string" where
  "subject_digest sha subject =
     bindE (check (py_strip subject \<noteq> []) ProductionApprovalContractError) (\<lambda>_.
     bindE (check (utf8_len subject \<le> MAX_SUBJECT_BYTES) ProductionApprovalContractError) (\<lambda>_.
       canonical_digest sha (PDict [(''principal_subject'', PStr subject)])))"

definition idempotency_digest :: "(string \<Rightarrow> string) \<Rightarrow> string \<Rightarrow>
    preapproval_error + string" where
  "idempotency_digest sha key =
     bindE (check (\<not> (py_strip key = [] \<or> utf8_len key > 128)) ProductionApprovalContractError)
         (\<lambda>_.
       canonical_digest sha (PDict [(''idempotency_key'', PStr key)]))"

text \<open>\<open>isoformat().replace("+00:00", "Z")\<close> of a UTC time: the microseconds only when there are
    any.\<close>

definition isoformat_utc :: "timestamp \<Rightarrow> string" where
  "isoformat_utc t =
     (let (y, m, d) = civil_of_days (date_of t);
          rest = t - day_start (date_of t);
          secs = rest div 1000000
      in padded 4 y @ ''-'' @ padded 2 m @ ''-'' @ padded 2 d @ ''T'' @
         padded 2 (secs div 3600) @ '':'' @ padded 2 (secs div 60 mod 60) @ '':'' @ padded 2 (secs mod 60) @
         (if rest mod 1000000 = 0 then [] else ''.'' @ padded 6 (rest mod 1000000)) @ ''Z'')"

definition autonomy_policy_digest ::
  "(string \<Rightarrow> string) \<Rightarrow> uuid \<Rightarrow> int \<Rightarrow> pydict \<Rightarrow> timestamp
      \<Rightarrow> preapproval_error + string" where
  "autonomy_policy_digest sha policy_id level ov updated_at =
     canonical_digest sha (PDict
       [(''policy_id'', PStr (uuid_str policy_id)), (''autonomy_level'', PInt level),
        (''overrides'', PDict ov), (''updated_at'', PStr (isoformat_utc updated_at))])"

section \<open>The recorded policy\<close>

definition POLICY_KEYS :: "string list" where
  "POLICY_KEYS =
     [''approval_channel'', ''daily_digest_time'', ''batch_low_risk_questions'', ''realtime_for'',
      ''non_response_policy'', ''approvers'']"

definition REALTIME_FOR :: "string list" where
  "REALTIME_FOR =
     [''production_deployment'', ''security_exception'', ''cost_overrun'', ''data_access'',
      ''legal_or_regulatory_decision'']"

definition NON_RESPONSE :: "(string \<times> string) list" where
  "NON_RESPONSE =
     [(''low_risk'', ''proceed_with_safe_assumption_after_24h''), (''medium_risk'',
         ''pause_affected_work_after_24h''),
      (''high_risk'', ''block_until_approval''), (''production'', ''block_until_approval'')]"

definition CHECKLIST_KEYS :: "string list" where
  "CHECKLIST_KEYS = [''product'', ''engineering'', ''ai_and_data'', ''security'', ''operations'', ''governance'']"

definition GOVERNANCE :: "(string \<times> string) list" where
  "GOVERNANCE =
     [(''evidence_pack_complete'', ''required''), (''approval_events_recorded'', ''required''),
      (''separation_of_duties_confirmed'', ''required''),
      (''open_issues_have_risk_acceptance'', ''required_if_any_open_issues'')]"

definition TRUTH_KEYS :: "string list" where
  "TRUTH_KEYS =
     [''approved'', ''verified'', ''trusted'', ''eligible'', ''current'', ''passed'', ''gate'', ''authority'',
      ''human_signed'']"

text \<open>The regular expression of a time of day, matched in full.\<close>

definition is_time :: "string \<Rightarrow> bool" where
  "is_time s =
     (case s of
        [a, b, c, d, e] \<Rightarrow>
          ((a = CHR ''0'' \<or> a = CHR ''1'') \<and> b \<in> set ''0123456789'' \<or>
           a = CHR ''2'' \<and> b \<in> set ''0123'') \<and>
          c = CHR '':'' \<and> d \<in> set ''012345'' \<and> e \<in> set ''0123456789''
      | _ \<Rightarrow> False)"

fun reject_truth_fields :: "pyval \<Rightarrow> preapproval_error + unit" where
  "reject_truth_fields (PDict d) =
     for_each (\<lambda>kv. bindE (check (py_lower (fst kv) \<notin> set TRUTH_KEYS)
         ProductionApprovalContractError)
       (\<lambda>_. reject_truth_fields (snd kv))) d"
| "reject_truth_fields (PList xs) = for_each reject_truth_fields xs"
| "reject_truth_fields v = Inr ()"

definition exact_keys :: "pyval \<Rightarrow> string list \<Rightarrow> preapproval_error + pydict" where
  "exact_keys v required =
     (case v of
        PDict d \<Rightarrow> if set (map fst d) = set required then Inr d else Inl ProductionApprovalContractError
      | _ \<Rightarrow> Inl ProductionApprovalContractError)"

text \<open>Equality of a dictionary with one of strings.\<close>

definition equals_codes :: "pyval \<Rightarrow> (string \<times> string) list \<Rightarrow> bool" where
  "equals_codes v codes =
     (case v of
        PDict d \<Rightarrow> set (map fst d) = set (map fst codes) \<and> list_all (\<lambda>(k, c). dget d k =
            PStr c) codes
      | _ \<Rightarrow> False)"

definition codes_dict :: "(string \<times> string) list \<Rightarrow> pyval" where
  "codes_dict codes = PDict (map (\<lambda>(k, c). (k, PStr c)) codes)"

record recorded_policy =
  rp_contract_version :: string
  rp_source_provenance :: string
  rp_policy_digest :: string
  rp_checklist_digest :: string
  rp_approval_channel :: string
  rp_production_realtime :: bool
  rp_nonresponse_code :: string
  rp_governance_digest :: string
  rp_approver_hashes :: "string list"

definition approver_count :: "recorded_policy \<Rightarrow> nat" where
  "approver_count p = length (rp_approver_hashes p)"

definition unsupported_approver :: "string \<Rightarrow> bool" where
  "unsupported_approver subject =
     (let lowered = py_lower (py_strip subject) in
      lowered \<in> {''*'', ''all'', ''any'', ''any admin''} \<or>
      starts_with ''role:'' lowered \<or> starts_with ''group:'' lowered \<or>
      CHR ''|'' \<in> set subject \<or> CHR ''*'' \<in> set subject)"

fun approver_hashes :: "(string \<Rightarrow> string) \<Rightarrow> pyval list \<Rightarrow> preapproval_error +
    string list" where
  "approver_hashes sha [] = Inr []"
| "approver_hashes sha (v # vs) =
     (case v of
        PStr subject \<Rightarrow>
          bindE (check (\<not> unsupported_approver subject) ProductionApprovalContractError) (\<lambda>_.
          bindE (subject_digest sha subject) (\<lambda>h.
          bindE (approver_hashes sha vs) (\<lambda>hs. Inr (h # hs))))
      | _ \<Rightarrow> Inl ProductionApprovalContractError)"

definition approver_list :: "pyval \<Rightarrow> preapproval_error + pyval list" where
  "approver_list v =
     (case v of
        PList xs \<Rightarrow> if 1 \<le> length xs \<and> length xs \<le> MAX_APPROVERS then Inr xs
                    else Inl ProductionApprovalContractError
      | _ \<Rightarrow> Inl ProductionApprovalContractError)"

definition parse_recorded_policy ::
  "(string \<Rightarrow> string) \<Rightarrow> pyval \<Rightarrow> pyval \<Rightarrow> preapproval_error +
      recorded_policy" where
  "parse_recorded_policy sha policy checklist =
     (let err = ProductionApprovalContractError in
      bindE (reject_truth_fields policy) (\<lambda>_.
      bindE (reject_truth_fields checklist) (\<lambda>_.
      bindE (exact_keys policy POLICY_KEYS) (\<lambda>p.
      bindE (exact_keys checklist CHECKLIST_KEYS) (\<lambda>c.
      bindE (check (dget p ''approval_channel'' = PStr ''dashboard'') err) (\<lambda>_.
      bindE (check (case dget p ''daily_digest_time'' of PStr t \<Rightarrow> is_time t | _ \<Rightarrow> False)
          err) (\<lambda>_.
      bindE (check (dget p ''batch_low_risk_questions'' = PBool True) err) (\<lambda>_.
      bindE (check (dget p ''realtime_for'' = str_list REALTIME_FOR) err) (\<lambda>_.
      bindE (check (equals_codes (dget p ''non_response_policy'') NON_RESPONSE) err) (\<lambda>_.
      bindE (approver_list (dget p ''approvers'')) (\<lambda>approvers.
      bindE (approver_hashes sha approvers) (\<lambda>hashes.
      bindE (check (distinct hashes) err) (\<lambda>_.
      bindE (check (list_all (\<lambda>k. dget c k = PDict [])
               [''product'', ''engineering'', ''ai_and_data'', ''security'', ''operations'']) err) (\<lambda>_.
      bindE (exact_keys (dget c ''governance'') (map fst GOVERNANCE)) (\<lambda>governance.
      bindE (check (equals_codes (PDict governance) GOVERNANCE) err) (\<lambda>_.
      bindE (canonical_digest sha (PDict p)) (\<lambda>policy_digest.
      bindE (canonical_digest sha (PDict c)) (\<lambda>checklist_digest.
      bindE (canonical_digest sha (codes_dict GOVERNANCE)) (\<lambda>governance_digest.
        Inr \<lparr>rp_contract_version = POLICY_CONTRACT_VERSION, rp_source_provenance = POLICY_SOURCE_PROVENANCE,
             rp_policy_digest = policy_digest, rp_checklist_digest = checklist_digest,
             rp_approval_channel = ''dashboard'', rp_production_realtime = True,
             rp_nonresponse_code = ''block_until_approval'', rp_governance_digest = governance_digest,
             rp_approver_hashes = hashes\<rparr>)))))))))))))))))))"

section \<open>The binding of a preapproval to a release\<close>

definition FIXED_CONDITIONS :: "string list" where
  "FIXED_CONDITIONS =
     [''binding_must_be_current_at_use'', ''all_thirteen_a5_gates_must_pass_at_use'',
      ''preapproval_must_be_current_at_use'', ''autonomy_policy_must_permit_at_use'',
      ''slice55_must_authorize_transition'', ''production_forbidden_by_this_contract'']"

definition fixed_conditions_digest :: "(string \<Rightarrow> string) \<Rightarrow> preapproval_error + string" where
  "fixed_conditions_digest sha =
     canonical_digest sha (PDict
       [(''contract_version'', PStr CONDITIONS_CONTRACT_VERSION),
        (''conditions'', PDict (map (\<lambda>k. (k, PBool True)) FIXED_CONDITIONS))])"

definition BINDING_KEYS :: "string list" where
  "BINDING_KEYS =
     [''release_candidate_id'', ''evidence_pack_id'', ''release_verdict_id'', ''core_content_hash'',
      ''issue_binding_digest'', ''source_set_digest'', ''traceability_digest'', ''verdict_input_digest'',
      ''verdict_contract_hash'', ''autonomy_policy_digest'', ''policy_digest'', ''checklist_digest'',
      ''condition_contract_hash'']"

text \<open>The keyword arguments are the association list \<open>components\<close>.\<close>

definition component :: "(string \<times> string) list \<Rightarrow> string \<Rightarrow> string" where
  "component components key = (case map_of components key of None \<Rightarrow> [] | Some v \<Rightarrow> v)"

definition release_binding_digest :: "(string \<Rightarrow> string) \<Rightarrow> (string \<times> string) list
    \<Rightarrow> preapproval_error + string" where
  "release_binding_digest sha components =
     bindE (check (set (map fst components) = set BINDING_KEYS) ProductionApprovalContractError) (\<lambda>_.
     bindE (check (list_all (\<lambda>(k, v). py_strip v \<noteq> []) components) ProductionApprovalContractError)
         (\<lambda>_.
       ordered_value_digest sha (PREAPPROVAL_CONTRACT_VERSION # map (component components) BINDING_KEYS)))"

section \<open>Evidence about the actors\<close>

record actor_evidence =
  ae_requester_authenticated :: bool
  ae_approver_authenticated :: bool
  ae_approver_in_policy :: bool
  ae_separation_ok :: bool
  ae_requester_type :: "string option"
  ae_approver_type :: "string option"

definition actor_gate_eligible :: "actor_evidence \<Rightarrow> bool" where
  "actor_gate_eligible e =
     (ae_requester_authenticated e \<and> ae_approver_authenticated e \<and> ae_approver_in_policy e \<and>
         ae_separation_ok e \<and>
      ae_requester_type e \<in> {Some ''human'', Some ''service''} \<and> ae_approver_type e = Some ''human'')"

definition optional_digest :: "(string \<Rightarrow> string) \<Rightarrow> authenticated_actor option
    \<Rightarrow> preapproval_error + string option" where
  "optional_digest sha actor =
     (case actor of None \<Rightarrow> Inr None | Some a \<Rightarrow> bindE (subject_digest sha (actor_subject
         a)) (\<lambda>h. Inr (Some h)))"

text \<open>The provenance of an \<open>AuthenticatedActor\<close> is always the verified tier; a digest is never
    empty.\<close>

definition actor_evidence_of ::
  "(string \<Rightarrow> string) \<Rightarrow> authenticated_actor option \<Rightarrow> authenticated_actor option
      \<Rightarrow> string list \<Rightarrow>
     preapproval_error + actor_evidence" where
  "actor_evidence_of sha requester approver members =
     bindE (optional_digest sha requester) (\<lambda>requester_hash.
     bindE (optional_digest sha approver) (\<lambda>approver_hash.
       Inr \<lparr>ae_requester_authenticated = (requester \<noteq> None), ae_approver_authenticated = (approver
           \<noteq> None),
            ae_approver_in_policy = (case approver_hash of None \<Rightarrow> False | Some h \<Rightarrow> h \<in>
                set members),
            ae_separation_ok = (case (requester_hash, approver_hash) of (Some r, Some a) \<Rightarrow> r \<noteq>
                a | _ \<Rightarrow> False),
            ae_requester_type = map_option actor_type requester,
            ae_approver_type = map_option actor_type approver\<rparr>))"

definition preapproval_is_expired :: "timestamp \<Rightarrow> timestamp \<Rightarrow> bool" where
  "preapproval_is_expired expires_at now = (now \<ge> expires_at)"

section \<open>Lemmas\<close>

definition subject_text :: "string \<Rightarrow> string" where
  "subject_text subject = utf8 (json_text False (PDict [(''principal_subject'', PStr subject)]))"

lemma subject_digest_iff:
  "subject_digest sha s = Inr h \<longleftrightarrow>
     py_strip s \<noteq> [] \<and> utf8_len s \<le> MAX_SUBJECT_BYTES \<and> h = ''sha256:'' @ sha (subject_text s)"
  by (auto simp: subject_digest_def canonical_digest_def canonical_json_def subject_text_def)

lemma subject_text_inj: "subject_text s = subject_text t \<Longrightarrow> s = t"
  using json_text_inj [of "PDict [(''principal_subject'', PStr s)]" "PDict [(''principal_subject'', PStr t)]" False]
  by (auto simp: subject_text_def)

lemma exact_keys_iff [simp]: "exact_keys v ks = Inr d \<longleftrightarrow> v = PDict d \<and> set (map fst d) =
    set ks"
  by (cases v) (auto simp: exact_keys_def)

lemma approver_list_iff [simp]:
  "approver_list v = Inr xs \<longleftrightarrow> v = PList xs \<and> 1 \<le> length xs \<and> length xs \<le>
      MAX_APPROVERS"
  by (cases v) (auto simp: approver_list_def)

lemma approver_hashes_Inr:
  "approver_hashes sha vs = Inr hs \<Longrightarrow>
     \<exists>names. vs = map PStr names \<and> hs = map (\<lambda>n. ''sha256:'' @ sha (subject_text n)) names
         \<and>
       (\<forall>n\<in>set names. \<not> unsupported_approver n \<and> py_strip n \<noteq> [] \<and> utf8_len n
           \<le> MAX_SUBJECT_BYTES)"
proof (induction vs arbitrary: hs)
  case (Cons v vs)
  then obtain n rest where v: "v = PStr n" "\<not> unsupported_approver n" "py_strip n \<noteq> []" "utf8_len n
      \<le> MAX_SUBJECT_BYTES"
    and rest: "approver_hashes sha vs = Inr rest" "hs = (''sha256:'' @ sha (subject_text n)) # rest"
    by (cases v) (auto simp: subject_digest_iff)
  from Cons.IH [OF rest(1)] obtain names where
    "vs = map PStr names" "rest = map (\<lambda>n. ''sha256:'' @ sha (subject_text n)) names"
    "\<forall>n\<in>set names. \<not> unsupported_approver n \<and> py_strip n \<noteq> [] \<and> utf8_len n \<le>
        MAX_SUBJECT_BYTES" by blast
  with v rest(2) show ?case by (intro exI [of _ "n # names"]) simp
qed simp

text \<open>What an accepted policy is.\<close>

lemma recorded_policy_facts:
  assumes "parse_recorded_policy sha policy checklist = Inr r"
  obtains names p where
    "policy = PDict p" "dget p ''approvers'' = PList (map PStr names)"
    "1 \<le> length names" "length names \<le> MAX_APPROVERS" "distinct names"
    "\<forall>n\<in>set names. \<not> unsupported_approver n \<and> py_strip n \<noteq> [] \<and> utf8_len n \<le>
        MAX_SUBJECT_BYTES"
    "rp_approver_hashes r = map (\<lambda>n. ''sha256:'' @ sha (subject_text n)) names"
    "distinct (rp_approver_hashes r)"
    "dget p ''approval_channel'' = PStr ''dashboard''"
    "dget p ''realtime_for'' = str_list REALTIME_FOR"
    "equals_codes (dget p ''non_response_policy'') NON_RESPONSE"
    "rp_contract_version r = POLICY_CONTRACT_VERSION"
proof -
  from assms obtain p approvers hashes where p: "policy = PDict p" "dget p ''approvers'' = PList approvers"
    "1 \<le> length approvers" "length approvers \<le> MAX_APPROVERS"
    "dget p ''approval_channel'' = PStr ''dashboard''" "dget p ''realtime_for'' = str_list REALTIME_FOR"
    "equals_codes (dget p ''non_response_policy'') NON_RESPONSE"
    "approver_hashes sha approvers = Inr hashes" "distinct hashes" "rp_approver_hashes r = hashes"
    "rp_contract_version r = POLICY_CONTRACT_VERSION"
    by (auto simp: parse_recorded_policy_def Let_def)
  from approver_hashes_Inr [OF p(8)] obtain names where n: "approvers = map PStr names"
    "hashes = map (\<lambda>n. ''sha256:'' @ sha (subject_text n)) names"
    "\<forall>n\<in>set names. \<not> unsupported_approver n \<and> py_strip n \<noteq> [] \<and> utf8_len n \<le>
        MAX_SUBJECT_BYTES" by blast
  have "distinct names" using p(9) unfolding n(2) by (simp add: distinct_map)
  with p n show thesis by (intro that [of p names]) simp_all
qed

lemma unsupported_approver_cases:
  "unsupported_approver s \<longleftrightarrow>
     py_lower (py_strip s) \<in> {''*'', ''all'', ''any'', ''any admin''} \<or>
     starts_with ''role:'' (py_lower (py_strip s)) \<or> starts_with ''group:'' (py_lower (py_strip s)) \<or>
     CHR ''|'' \<in> set s \<or> CHR ''*'' \<in> set s"
  by (simp add: unsupported_approver_def Let_def)

text \<open>Texts joined by a character none of them holds can be told apart.\<close>

lemma append_sep_inj:
  "c \<notin> set x \<Longrightarrow> c \<notin> set y \<Longrightarrow> x @ c # r = y @ c # s \<Longrightarrow> x
      = y \<and> r = s"
  by (induction x arbitrary: y) (auto simp: append_eq_Cons_conv Cons_eq_append_conv)

lemma join_sep_inj:
  assumes "length xs = length ys" "\<forall>x\<in>set xs. c \<notin> set x" "\<forall>y\<in>set ys. c \<notin> set
      y" "join [c] xs = join [c] ys"
  shows "xs = ys"
  using assms
proof (induction xs ys rule: list_induct2)
  case (Cons x xs y ys)
  show ?case
  proof (cases xs)
    case Nil
    with Cons show ?thesis by simp
  next
    case (Cons x' xs')
    then obtain y' ys' where ys: "ys = y' # ys'" using Cons.hyps by (cases ys) auto
    have "x @ c # join [c] xs = y @ c # join [c] ys" using Cons.prems(3) Cons ys by simp
    then have "x = y \<and> join [c] xs = join [c] ys" using Cons.prems(1,2) by (intro append_sep_inj) auto
    then show ?thesis using Cons.IH Cons.prems(1,2) by simp
  qed
qed simp

text \<open>The text whose digest binds a preapproval.\<close>

definition binding_text :: "(string \<times> string) list \<Rightarrow> string" where
  "binding_text components =
     utf8 (join [CHR 0x1F] (PREAPPROVAL_CONTRACT_VERSION # map (component components) BINDING_KEYS))"

lemma release_binding_digest_Inr:
  "release_binding_digest sha c = Inr d \<Longrightarrow>
     set (map fst c) = set BINDING_KEYS \<and> d = ''sha256:'' @ sha (binding_text c)"
  by (simp add: release_binding_digest_def ordered_value_digest_def hash_text_def binding_text_def)

lemma binding_text_inj:
  assumes "binding_text c = binding_text c'"
    "\<forall>v\<in>snd ` set c \<union> snd ` set c'. CHR 0x1F \<notin> set v"
  shows "map (component c) BINDING_KEYS = map (component c') BINDING_KEYS"
proof -
  have free: "CHR 0x1F \<notin> set (component d k)" if "\<forall>v\<in>snd ` set d. CHR 0x1F \<notin> set v" for
      d k
  proof (cases "map_of d k")
    case (Some v)
    then have "v \<in> snd ` set d" by (metis image_eqI map_of_SomeD snd_conv)
    with that have "CHR 0x1F \<notin> set v" by blast
    with Some show ?thesis by (simp add: component_def)
  qed (simp add: component_def)
  have "PREAPPROVAL_CONTRACT_VERSION # map (component c) BINDING_KEYS =
      PREAPPROVAL_CONTRACT_VERSION # map (component c') BINDING_KEYS"
  proof (rule join_sep_inj [where c = "CHR 0x1F"])
    show "join [CHR 0x1F] (PREAPPROVAL_CONTRACT_VERSION # map (component c) BINDING_KEYS) =
        join [CHR 0x1F] (PREAPPROVAL_CONTRACT_VERSION # map (component c') BINDING_KEYS)"
      using assms(1) by (simp only: binding_text_def utf8_inj)
  qed (use assms(2) free in \<open>auto simp: PREAPPROVAL_CONTRACT_VERSION_def\<close>)
  then show ?thesis by simp
qed

text \<open>Equal binding digests mean that all thirteen parts agree, unless the hash collides.\<close>

lemma release_binding_binds:
  assumes "release_binding_digest sha c = Inr d" "release_binding_digest sha c' = Inr d"
    and "\<forall>v\<in>snd ` set c \<union> snd ` set c'. CHR 0x1F \<notin> set v"
  shows "map (component c) BINDING_KEYS = map (component c') BINDING_KEYS \<or>
    (binding_text c \<noteq> binding_text c' \<and> sha (binding_text c) = sha (binding_text c'))"
proof -
  have "sha (binding_text c) = sha (binding_text c')"
    using release_binding_digest_Inr [OF assms(1)] release_binding_digest_Inr [OF assms(2)] by simp
  then show ?thesis using binding_text_inj [OF _ assms(3)] by blast
qed

end
