(* ===== verification/Notifications.thy ===== *)
theory Notifications
  imports Approvals
begin

text \<open>
  Notifications of approvals (\<open>app/approvals/channels\<close>,
      \<open>app/repositories/approval_notifications.py\<close>): the
  routing by risk tier, the validation of a notification, its append-only log, and the surface that
  requests an approval and notifies it in one transaction.
\<close>

section \<open>Routing\<close>

datatype notification_error =
    UnknownTier
  | InvalidNotification
  | ChannelRaised
  | RequestRefused approval_error
  | WrongColumnType

definition ROUTING_MODES :: "string list" where
  "ROUTING_MODES = [''digest'', ''realtime'']"

definition WRITABLE_CHANNELS :: "string list" where
  "WRITABLE_CHANNELS = [''dashboard'']"

definition NOTIFICATION_STATUSES :: "string list" where
  "NOTIFICATION_STATUSES = [''delivered'', ''failed'', ''skipped'']"

definition REQUIRED_FIELDS :: "string list" where
  "REQUIRED_FIELDS = [''approval_id'', ''project_id'', ''risk_tier'', ''routing_mode'', ''channel'', ''status'']"

definition REALTIME_TIERS :: "risk_tier list" where
  "REALTIME_TIERS = [HIGH, PRODUCTION]"

definition route :: "string \<Rightarrow> notification_error + string" where
  "route tier =
     (case parse_risk_tier tier of
        None \<Rightarrow> Inl UnknownTier
      | Some t \<Rightarrow> Inr (if t \<in> set REALTIME_TIERS then ''realtime'' else ''digest''))"

definition validate_notification :: "pydict \<Rightarrow> notification_error + unit" where
  "validate_notification r =
     bindE (for_each (\<lambda>field. check (dget r field \<noteq> PNone) InvalidNotification) REQUIRED_FIELDS)
         (\<lambda>_.
     bindE (check (case dget r ''risk_tier'' of PStr t \<Rightarrow> parse_risk_tier t \<noteq> None | _
         \<Rightarrow> False) InvalidNotification) (\<lambda>_.
     bindE (check (str_in (dget r ''routing_mode'') ROUTING_MODES) InvalidNotification) (\<lambda>_.
     bindE (check (str_in (dget r ''channel'') WRITABLE_CHANNELS) InvalidNotification) (\<lambda>_.
       check (str_in (dget r ''status'') NOTIFICATION_STATUSES) InvalidNotification))))"

section \<open>The log\<close>

record notification_row =
  nt_id :: uuid
  nt_tenant :: uuid
  nt_project :: uuid
  nt_approval :: uuid
  nt_risk_tier :: string
  nt_routing :: string
  nt_channel :: string
  nt_status :: string
  nt_created_at :: timestamp

definition notification_audit :: "tenant_context \<Rightarrow> notification_row \<Rightarrow> string \<Rightarrow>
    db \<Rightarrow> db" where
  "notification_audit ctx r actor d =
     audit_record ctx ''approval.notification_recorded'' actor
       (Some (''approval_notification:'' @ uuid_str (nt_id r)))
       [(''approval_notification_id'', PStr (uuid_str (nt_id r))),
        (''project_id'', PStr (uuid_str (nt_project r))),
        (''approval_id'', PStr (uuid_str (nt_approval r))),
        (''risk_tier'', PStr (nt_risk_tier r)),
        (''routing_mode'', PStr (nt_routing r)),
        (''channel'', PStr (nt_channel r)),
        (''status'', PStr (nt_status r))] d"

text \<open>The columns are typed: identifiers and text.\<close>

definition record_notification ::
  "tenant_context \<Rightarrow> pydict \<Rightarrow> string \<Rightarrow> timestamp \<Rightarrow> notification_row
      list \<times> db \<Rightarrow>
     notification_error + (notification_row \<times> notification_row list \<times> db)" where
  "record_notification ctx payload actor clock st =
     (case st of (ns, d) \<Rightarrow>
        bindE (validate_notification payload) (\<lambda>_.
          case (dget payload ''project_id'', dget payload ''approval_id'', dget payload ''risk_tier'',
                dget payload ''routing_mode'', dget payload ''channel'', dget payload ''status'') of
            (PUuid project, PUuid approval, PStr tier, PStr mode, PStr channel, PStr status) \<Rightarrow>
              let r = \<lparr>nt_id = db_next_id d, nt_tenant = ctx_tenant ctx, nt_project = project,
                       nt_approval = approval, nt_risk_tier = tier, nt_routing = mode, nt_channel = channel,
                       nt_status = status, nt_created_at = clock\<rparr>
              in Inr (r, ns @ [r], notification_audit ctx r actor (d\<lparr>db_next_id := db_next_id d + 1\<rparr>))
          | _ \<Rightarrow> Inl WrongColumnType))"

definition latest_for_approval :: "tenant_context \<Rightarrow> uuid \<Rightarrow> notification_row list
    \<Rightarrow> notification_row option" where
  "latest_for_approval ctx approval ns =
     latest_by (\<lambda>r. (nt_created_at r, nt_id r))
       (filter (\<lambda>r. nt_tenant r = ctx_tenant ctx \<and> nt_approval r = approval) ns)"

definition list_for_project :: "tenant_context \<Rightarrow> uuid \<Rightarrow> notification_row list
    \<Rightarrow> notification_row list" where
  "list_for_project ctx project ns =
     rev (sort_key (\<lambda>r. (nt_created_at r, nt_id r))
       (filter (\<lambda>r. nt_tenant r = ctx_tenant ctx \<and> nt_project r = project) ns))"

section \<open>Channels and the notifying service\<close>

text \<open>A channel delivers the routing facts and answers a status, or raises.\<close>

record channel =
  ch_name :: string
  ch_deliver :: "pydict \<Rightarrow> string option"

definition DashboardChannel :: channel where
  "DashboardChannel = \<lparr>ch_name = ''dashboard'', ch_deliver = \<lambda>_. Some ''delivered''\<rparr>"

definition FakeChannel :: "string \<Rightarrow> string option \<Rightarrow> channel" where
  "FakeChannel name status = \<lparr>ch_name = name, ch_deliver = \<lambda>_. status\<rparr>"

definition routing_facts :: "approval_row \<Rightarrow> string \<Rightarrow> channel \<Rightarrow> pydict" where
  "routing_facts a mode ch =
     [(''approval_id'', PUuid (ap_id a)), (''project_id'', PUuid (ap_project a)),
      (''risk_tier'', PStr (risk_tier_value (ap_risk_tier a))), (''routing_mode'', PStr mode),
      (''channel'', PStr (ch_name ch))]"

definition notify_for_approval ::
  "tenant_context \<Rightarrow> approval_row \<Rightarrow> string \<Rightarrow> channel \<Rightarrow> timestamp
      \<Rightarrow> notification_row list \<times> db \<Rightarrow>
     notification_error + (notification_row \<times> notification_row list \<times> db)" where
  "notify_for_approval ctx a actor ch clock st =
     bindE (route (risk_tier_value (ap_risk_tier a))) (\<lambda>mode.
       let notification = routing_facts a mode ch in
       (case ch_deliver ch notification of
          None \<Rightarrow> Inl ChannelRaised
        | Some status \<Rightarrow> record_notification ctx (notification @ [(''status'', PStr status)]) actor
            clock st))"

text \<open>\<open>audit_actor or actor\<close> names the actor of the notification.\<close>

definition request_and_notify_approval ::
  "tenant_context \<Rightarrow> approval_request_args \<Rightarrow> string \<Rightarrow> channel \<Rightarrow>
      timestamp \<Rightarrow> timestamp \<Rightarrow>
     notification_row list \<times> db \<Rightarrow>
     notification_error + (approval_row \<times> notification_row \<times> notification_row list \<times> db)" where
  "request_and_notify_approval ctx q actor ch now clock st =
     (case st of (ns, d) \<Rightarrow>
        (case approval_request ctx q now d of
           Inl e \<Rightarrow> Inl (RequestRefused e)
         | Inr (a, d1) \<Rightarrow>
             bindE (notify_for_approval ctx a (str_or (rq_audit_actor q) actor) ch clock (ns, d1)) (\<lambda>(n,
                 st').
               Inr (a, n, st'))))"

section \<open>Lemmas\<close>

lemma parse_risk_tier_value [simp]: "parse_risk_tier (risk_tier_value t) = Some t"
  by (cases t) (simp_all add: parse_risk_tier_def)

lemma routing_mode_cases:
  "route (risk_tier_value t) = Inr (if t \<in> {HIGH, PRODUCTION} then ''realtime'' else ''digest'')"
  by (simp add: route_def REALTIME_TIERS_def)

text \<open>What a recorded notification holds.\<close>

lemma notify_for_approval_row:
  assumes "notify_for_approval ctx a actor ch clock (ns, d) = Inr (n, ns', d')"
  obtains status where "ch_deliver ch (routing_facts a (if ap_risk_tier a \<in> {HIGH, PRODUCTION} then
      ''realtime'' else ''digest'') ch) = Some status"
    "status \<in> set NOTIFICATION_STATUSES" "ch_name ch = ''dashboard''"
    "n = \<lparr>nt_id = db_next_id d, nt_tenant = ctx_tenant ctx, nt_project = ap_project a, nt_approval = ap_id a,
          nt_risk_tier = risk_tier_value (ap_risk_tier a),
          nt_routing = (if ap_risk_tier a \<in> {HIGH, PRODUCTION} then ''realtime'' else ''digest''),
          nt_channel = ''dashboard'', nt_status = status, nt_created_at = clock\<rparr>"
    "ns' = ns @ [n]" "d' = notification_audit ctx n actor (d\<lparr>db_next_id := db_next_id d + 1\<rparr>)"
  using assms
  by (auto simp: notify_for_approval_def routing_mode_cases record_notification_def validate_notification_def
      routing_facts_def str_in_def WRITABLE_CHANNELS_def Let_def split: option.splits)

lemma notification_audit_frame [simp]:
  "approvals (notification_audit ctx r actor d) = approvals d"
  "approval_events (notification_audit ctx r actor d) = approval_events d"
  "autonomy_policies (notification_audit ctx r actor d) = autonomy_policies d"
  "projects (notification_audit ctx r actor d) = projects d"
  "stop_events (notification_audit ctx r actor d) = stop_events d"
  "db_next_id (notification_audit ctx r actor d) = db_next_id d"
  by (simp_all add: notification_audit_def)

end
