(* ===== verification/Preapprovals.thy ===== *)
theory Preapprovals
  imports Preapproval_Contract Notifications Intake
begin

text \<open>
  Production preapprovals: the repository (\<open>app/repositories/production_preapprovals.py\<close>), which
      reads the
  current sources of a release, appends the recorded policy, requests, attestations and lifecycle events,
  and computes the coverage gate 12 is given.  \<open>EvidencePackRepository.audit_pack\<close> is the argument
  \<open>reaudits\<close>: whether re-auditing a pack succeeds.
\<close>

section \<open>Rows\<close>

record release_row =
  rl_id :: uuid
  rl_tenant :: uuid
  rl_project :: uuid
  rl_status :: string
  rl_frozen_at :: timestamp

record pack_run_row =
  er_id :: uuid
  er_tenant :: uuid
  er_candidate :: uuid
  er_created_at :: timestamp

record pack_row =
  ep_id :: uuid
  ep_tenant :: uuid
  ep_run :: uuid
  ep_candidate :: uuid
  ep_assembly_status :: string
  ep_core_hash :: string
  ep_issue_digest :: string
  ep_source_digest :: string
  ep_traceability_digest :: string

record verdict_run_row =
  vr_id :: uuid
  vr_tenant :: uuid
  vr_candidate :: uuid
  vr_pack :: "uuid option"
  vr_execution_status :: string
  vr_created_at :: timestamp

record verdict_row =
  ve_id :: uuid
  ve_tenant :: uuid
  ve_run :: uuid
  ve_candidate :: uuid
  ve_pack :: uuid
  ve_gate_eligible :: bool
  ve_input_digest :: string
  ve_contract_hash :: string

record policy_version_row =
  pp_id :: uuid
  pp_tenant :: uuid
  pp_project :: uuid
  pp_policy_category :: uuid
  pp_checklist_category :: uuid
  pp_contract_version :: string
  pp_source_provenance :: string
  pp_policy_digest :: string
  pp_checklist_digest :: string
  pp_channel :: string
  pp_realtime :: bool
  pp_nonresponse :: string
  pp_governance_digest :: string
  pp_approver_count :: nat
  pp_approver_set_digest :: string

record policy_approver_row =
  pa_tenant :: uuid
  pa_project :: uuid
  pa_version :: uuid
  pa_ordinal :: nat
  pa_hash :: string

text \<open>The tables: requests, attestations, lifecycle events and approvals are in \<open>w_loop\<close>.\<close>

record release_world =
  w_loop :: loop_store
  w_releases :: "release_row list"
  w_pack_runs :: "pack_run_row list"
  w_packs :: "pack_row list"
  w_verdict_runs :: "verdict_run_row list"
  w_verdicts :: "verdict_row list"
  w_categories :: "category_row list"
  w_versions :: "policy_version_row list"
  w_approvers :: "policy_approver_row list"
  w_notifications :: "notification_row list"

abbreviation w_db :: "release_world \<Rightarrow> db" where
  "w_db w \<equiv> ls_db (w_loop w)"

definition set_db :: "db \<Rightarrow> release_world \<Rightarrow> release_world" where
  "set_db d w = w\<lparr>w_loop := (w_loop w)\<lparr>ls_db := d\<rparr>\<rparr>"

definition bump :: "release_world \<Rightarrow> release_world" where
  "bump w = set_db ((w_db w)\<lparr>db_next_id := db_next_id (w_db w) + 1\<rparr>) w"

text \<open>The intake repository reads the categories only.\<close>

definition intake_of :: "release_world \<Rightarrow> intake_db" where
  "intake_of w = \<lparr>core = w_db w, documents = [], artifacts = [], intake_categories = w_categories w,
     readiness_reports = []\<rparr>"

text \<open>
  The exceptions: the code's own classes carry their message code; those of the components it calls
  are wrapped; \<open>NotAMapping\<close> is the \<open>TypeError\<close> of \<open>dict(value)\<close>;
      \<open>GuardRaised\<close> an exception of the database.
\<close>

datatype preapproval_failure =
    RepositoryRefused string
  | PreapprovalNotFound string
  | PreapprovalConflict string
  | ContractRefused preapproval_error
  | PolicyUnreadable policy_error
  | IntakeUnreadable intake_error
  | ApprovalRefused approval_error
  | NotificationRefused notification_error
  | ProjectUnavailable run_error
  | NotAMapping
  | GuardRaised string

section \<open>Reading the current sources\<close>

record current_sources =
  cs_candidate :: "release_row option"
  cs_core :: "pack_row option"
  cs_core_reaudited :: bool
  cs_verdict :: "verdict_row option"
  cs_policy_category :: "category_row option"
  cs_checklist_category :: "category_row option"
  cs_parsed_policy :: "recorded_policy option"
  cs_autonomy_policy :: "policy_row option"
  cs_autonomy_eligible :: bool

definition no_sources :: current_sources where
  "no_sources = \<lparr>cs_candidate = None, cs_core = None, cs_core_reaudited = False, cs_verdict = None,
     cs_policy_category = None, cs_checklist_category = None, cs_parsed_policy = None,
     cs_autonomy_policy = None, cs_autonomy_eligible = False\<rparr>"

definition latest_candidate :: "tenant_context \<Rightarrow> uuid \<Rightarrow> release_world \<Rightarrow>
    release_row option" where
  "latest_candidate ctx project w =
     latest_by (\<lambda>r. (rl_frozen_at r, rl_id r))
       (filter (\<lambda>r. rl_tenant r = ctx_tenant ctx \<and> rl_project r = project \<and> rl_status r =
           ''frozen'')
         (w_releases w))"

definition latest_core :: "tenant_context \<Rightarrow> uuid \<Rightarrow> release_world \<Rightarrow> pack_row
    option" where
  "latest_core ctx candidate w =
     (case latest_by (\<lambda>r. (er_created_at r, er_id r))
             (filter (\<lambda>r. er_tenant r = ctx_tenant ctx \<and> er_candidate r = candidate) (w_pack_runs w))
                 of
        None \<Rightarrow> None
      | Some run \<Rightarrow> List.find (\<lambda>p. ep_tenant p = ctx_tenant ctx \<and> ep_run p = er_id run)
          (w_packs w))"

definition latest_verdict :: "tenant_context \<Rightarrow> uuid \<Rightarrow> uuid \<Rightarrow> release_world
    \<Rightarrow> verdict_row option" where
  "latest_verdict ctx candidate pack w =
     (case latest_by (\<lambda>r. (vr_created_at r, vr_id r))
             (filter (\<lambda>r. vr_tenant r = ctx_tenant ctx \<and> vr_candidate r = candidate) (w_verdict_runs
                 w)) of
        None \<Rightarrow> None
      | Some run \<Rightarrow>
          if vr_execution_status run \<noteq> ''succeeded'' \<or> vr_pack run \<noteq> Some pack then None
          else List.find (\<lambda>v. ve_tenant v = ctx_tenant ctx \<and> ve_run v = vr_id run) (w_verdicts w))"

definition parsed_policy ::
  "(string \<Rightarrow> string) \<Rightarrow> category_row option \<Rightarrow> category_row option \<Rightarrow>
      recorded_policy option" where
  "parsed_policy sha policy checklist =
     (case (policy, checklist) of
        (Some p, Some c) \<Rightarrow>
          if ic_status p = ''declared'' \<and> ic_status c = ''declared''
          then (case parse_recorded_policy sha (ic_data p) (ic_data c) of Inl _ \<Rightarrow> None | Inr r
              \<Rightarrow> Some r)
          else None
      | _ \<Rightarrow> None)"

definition current_sources_of ::
  "(string \<Rightarrow> string) \<Rightarrow> (release_world \<Rightarrow> uuid \<Rightarrow> bool) \<Rightarrow>
      tenant_context \<Rightarrow> uuid \<Rightarrow> release_world \<Rightarrow>
     preapproval_failure + current_sources" where
  "current_sources_of sha reaudits ctx project w =
     (case latest_candidate ctx project w of
        None \<Rightarrow> Inr no_sources
      | Some candidate \<Rightarrow>
          let pack = latest_core ctx (rl_id candidate) w in
          bindE (lift_error IntakeUnreadable (get_category ctx project ''human_approval_policy'' (intake_of w)))
            (\<lambda>policy_category.
          bindE (lift_error IntakeUnreadable (get_category ctx project ''go_live_checklist'' (intake_of w)))
            (\<lambda>checklist_category.
          bindE (lift_error PolicyUnreadable (policy_get_for_project ctx project (w_db w))) (\<lambda>autonomy.
          bindE (if autonomy = None then Inr DENY
                 else lift_error PolicyUnreadable (decision_for ctx project ''deploy_production'' (w_db w)))
            (\<lambda>decision.
            Inr \<lparr>cs_candidate = Some candidate, cs_core = pack,
                 cs_core_reaudited =
                   (case pack of None \<Rightarrow> False
                    | Some p \<Rightarrow> ep_assembly_status p = ''complete'' \<and> reaudits w (ep_id p)),
                 cs_verdict =
                   (case pack of None \<Rightarrow> None | Some p \<Rightarrow> latest_verdict ctx (rl_id
                       candidate) (ep_id p) w),
                 cs_policy_category = policy_category, cs_checklist_category = checklist_category,
                 cs_parsed_policy = parsed_policy sha policy_category checklist_category,
                 cs_autonomy_policy = autonomy,
                 cs_autonomy_eligible = (autonomy \<noteq> None \<and> decision = NEEDS_APPROVAL)\<rparr>)))))"

definition require_current_sources ::
  "(string \<Rightarrow> string) \<Rightarrow> (release_world \<Rightarrow> uuid \<Rightarrow> bool) \<Rightarrow>
      tenant_context \<Rightarrow> uuid \<Rightarrow> release_world \<Rightarrow>
     preapproval_failure + current_sources" where
  "require_current_sources sha reaudits ctx project w =
     bindE (current_sources_of sha reaudits ctx project w) (\<lambda>cs.
     bindE (check (cs_candidate cs \<noteq> None) (RepositoryRefused ''no_current_frozen_release_candidate''))
         (\<lambda>_.
     bindE (check (cs_core cs \<noteq> None) (RepositoryRefused ''no_complete_reauditable_evidence_core''))
         (\<lambda>_.
     bindE (check (cs_core_reaudited cs) (RepositoryRefused ''release_core_reaudit_failed'')) (\<lambda>_.
     bindE (check (case cs_verdict cs of None \<Rightarrow> False | Some v \<Rightarrow> ve_gate_eligible v)
              (RepositoryRefused ''no_current_gate_eligible_release_verdict'')) (\<lambda>_.
     bindE (check (cs_parsed_policy cs \<noteq> None)
              (RepositoryRefused ''release_approval_policy_missing_or_invalid'')) (\<lambda>_.
     bindE (check (cs_autonomy_eligible cs \<and> cs_autonomy_policy cs \<noteq> None)
              (RepositoryRefused ''a5_autonomy_policy_missing_or_ineligible'')) (\<lambda>_.
       Inr cs)))))))"

section \<open>Appending\<close>

definition append_policy_snapshot ::
  "(string \<Rightarrow> string) \<Rightarrow> tenant_context \<Rightarrow> uuid \<Rightarrow> current_sources
      \<Rightarrow> release_world \<Rightarrow>
     preapproval_failure + (policy_version_row \<times> release_world)" where
  "append_policy_snapshot sha ctx project cs w =
     (case (cs_parsed_policy cs, cs_policy_category cs, cs_checklist_category cs) of
        (Some parsed, Some pc, Some cc) \<Rightarrow>
          bindE (lift_error ContractRefused (ordered_value_digest sha (rp_approver_hashes parsed)))
              (\<lambda>set_digest.
            let row = \<lparr>pp_id = db_next_id (w_db w), pp_tenant = ctx_tenant ctx, pp_project = project,
                       pp_policy_category = ic_id pc, pp_checklist_category = ic_id cc,
                       pp_contract_version = POLICY_CONTRACT_VERSION,
                       pp_source_provenance = POLICY_SOURCE_PROVENANCE,
                       pp_policy_digest = rp_policy_digest parsed, pp_checklist_digest = rp_checklist_digest parsed,
                       pp_channel = rp_approval_channel parsed, pp_realtime = rp_production_realtime parsed,
                       pp_nonresponse = rp_nonresponse_code parsed,
                       pp_governance_digest = rp_governance_digest parsed,
                       pp_approver_count = approver_count parsed, pp_approver_set_digest = set_digest\<rparr>;
                members = map (\<lambda>(i, h). \<lparr>pa_tenant = ctx_tenant ctx, pa_project = project,
                    pa_version = pp_id row,
                                        pa_ordinal = i, pa_hash = h\<rparr>)
                            (zip [1..<Suc (approver_count parsed)] (rp_approver_hashes parsed))
            in Inr (row, (bump w)\<lparr>w_versions := w_versions w @ [row], w_approvers := w_approvers w @
                members\<rparr>))
      | _ \<Rightarrow> Inl (RepositoryRefused ''release_approval_policy_missing_or_invalid''))"

text \<open>The components of the binding, from the sources and the recorded digests of the policy.\<close>

definition binding_components ::
  "release_row \<Rightarrow> pack_row \<Rightarrow> verdict_row \<Rightarrow> string \<Rightarrow> string
      \<Rightarrow> string \<Rightarrow> string \<Rightarrow> (string \<times> string) list" where
  "binding_components candidate pack verdict autonomy_digest policy_digest checklist_digest condition_hash =
     [(''release_candidate_id'', uuid_str (rl_id candidate)), (''evidence_pack_id'', uuid_str (ep_id pack)),
      (''release_verdict_id'', uuid_str (ve_id verdict)), (''core_content_hash'', ep_core_hash pack),
      (''issue_binding_digest'', ep_issue_digest pack), (''source_set_digest'', ep_source_digest pack),
      (''traceability_digest'', ep_traceability_digest pack), (''verdict_input_digest'', ve_input_digest verdict),
      (''verdict_contract_hash'', ve_contract_hash verdict), (''autonomy_policy_digest'', autonomy_digest),
      (''policy_digest'', policy_digest), (''checklist_digest'', checklist_digest),
      (''condition_contract_hash'', condition_hash)]"

text \<open>\<open>dict(overrides)\<close>; a list of pairs, which \<open>dict\<close> would also take, counts as
    no mapping.\<close>

definition digest_of_policy_row :: "(string \<Rightarrow> string) \<Rightarrow> policy_row \<Rightarrow>
    preapproval_failure + string" where
  "digest_of_policy_row sha autonomy =
     bindE (case pol_overrides autonomy of PDict ov \<Rightarrow> Inr ov | PList [] \<Rightarrow> Inr [] | PStr []
         \<Rightarrow> Inr []
             | _ \<Rightarrow> Inl NotAMapping) (\<lambda>ov.
       lift_error ContractRefused
         (autonomy_policy_digest sha (pol_id autonomy) (pol_level autonomy) ov (pol_updated_at autonomy)))"

text \<open>The check and unique constraints a row meets when it is flushed.\<close>

definition request_constraints :: "request_row \<Rightarrow> request_row list \<Rightarrow> bool" where
  "request_constraints r rs =
     (pq_requester_type r \<in> {''human'', ''service''} \<and> pq_requester_prov r = ''request_authenticated''
         \<and>
      list_all (\<lambda>q. pq_approval q \<noteq> pq_approval r \<and>
        \<not> (pq_tenant q = pq_tenant r \<and> pq_project q = pq_project r \<and> pq_key_hash q = pq_key_hash
            r)) rs)"

definition attestation_constraints :: "attestation_row \<Rightarrow> attestation_row list \<Rightarrow> bool" where
  "attestation_constraints t ts =
     (ta_requester_type t \<in> {''human'', ''service''} \<and> ta_approver_type t = ''human'' \<and>
      ta_requester_prov t = ''request_authenticated'' \<and> ta_approver_prov t = ''request_authenticated'' \<and>
      ta_valid_from t = ta_approved_at t \<and> ta_expires_at t > ta_approved_at t \<and>
      ta_expires_at t \<le> ta_approved_at t + hours 24 \<and>
      list_all (\<lambda>q. ta_request q \<noteq> ta_request t \<and>
        \<not> (ta_tenant q = ta_tenant t \<and> ta_project q = ta_project t \<and> ta_key_hash q = ta_key_hash
            t)) ts)"

definition event_constraints :: "preapproval_event_row \<Rightarrow> preapproval_event_row list \<Rightarrow>
    bool" where
  "event_constraints v vs =
     (pv_type v \<in> {''approved_anchor'', ''revoked'', ''superseded''} \<and> pv_actor_type v \<in> {''human'',
         ''service''} \<and>
      (pv_type v = ''approved_anchor'' \<longleftrightarrow> pv_previous v = None) \<and>
      list_all (\<lambda>q. \<not> (pv_attestation q = pv_attestation v \<and> pv_type q = pv_type v) \<and>
        (pv_previous v = None \<or> pv_previous q \<noteq> pv_previous v) \<and>
        \<not> (pv_tenant q = pv_tenant v \<and> pv_project q = pv_project v \<and> pv_key_hash q = pv_key_hash
            v)) vs)"

definition append_request ::
  "(string \<Rightarrow> string) \<Rightarrow> tenant_context \<Rightarrow> uuid \<Rightarrow> uuid \<Rightarrow>
      current_sources \<Rightarrow> policy_version_row \<Rightarrow> approval_row \<Rightarrow>
     notification_row \<Rightarrow> string \<Rightarrow> string \<Rightarrow> string \<Rightarrow> timestamp
         \<Rightarrow> release_world \<Rightarrow>
     preapproval_failure + (request_row \<times> release_world)" where
  "append_request sha ctx project request_id cs version approval notification requester_hash requester_type key_hash
     clock w =
     (case (cs_candidate cs, cs_core cs, cs_verdict cs, cs_autonomy_policy cs) of
        (Some candidate, Some pack, Some verdict, Some autonomy) \<Rightarrow>
          bindE (digest_of_policy_row sha autonomy) (\<lambda>autonomy_digest.
          bindE (lift_error ContractRefused (fixed_conditions_digest sha)) (\<lambda>condition_hash.
          bindE (lift_error ContractRefused (release_binding_digest sha
                   (binding_components candidate pack verdict autonomy_digest (pp_policy_digest version)
                     (pp_checklist_digest version) condition_hash))) (\<lambda>binding.
            let row = \<lparr>pq_id = request_id, pq_tenant = ctx_tenant ctx, pq_project = project,
                       pq_release_candidate = rl_id candidate, pq_evidence_pack = ep_id pack,
                       pq_verdict = ve_id verdict, pq_policy_version = pp_id version,
                       pq_autonomy_policy = pol_id autonomy, pq_approval = ap_id approval,
                       pq_notification = nt_id notification,
                       pq_contract_version = PREAPPROVAL_CONTRACT_VERSION,
                       pq_condition_version = CONDITIONS_CONTRACT_VERSION, pq_condition_hash = condition_hash,
                       pq_release_binding_digest = binding, pq_core_hash = ep_core_hash pack,
                       pq_issue_digest = ep_issue_digest pack, pq_source_digest = ep_source_digest pack,
                       pq_traceability_digest = ep_traceability_digest pack,
                       pq_verdict_input_digest = ve_input_digest verdict,
                       pq_verdict_contract_hash = ve_contract_hash verdict, pq_autonomy_digest = autonomy_digest,
                       pq_requester_hash = requester_hash, pq_requester_type = requester_type,
                       pq_requester_prov = ''request_authenticated'', pq_key_hash = key_hash,
                       pq_requested_at = ap_requested_at approval, pq_created_at = clock\<rparr>
            in bindE (check (request_constraints row (ls_requests (w_loop w))) (GuardRaised ''constraint''))
                (\<lambda>_.
                 Inr (row, w\<lparr>w_loop := (w_loop w)\<lparr>ls_requests := ls_requests (w_loop w) @
                     [row]\<rparr>\<rparr>)))))
      | _ \<Rightarrow> Inl (RepositoryRefused ''current_release_binding_incomplete''))"

definition append_attestation ::
  "tenant_context \<Rightarrow> request_row \<Rightarrow> approval_row \<Rightarrow> string \<Rightarrow> string
      \<Rightarrow> string \<Rightarrow> timestamp \<Rightarrow> timestamp \<Rightarrow> release_world \<Rightarrow>
     preapproval_failure + (attestation_row \<times> release_world)" where
  "append_attestation ctx request approval approver_hash approver_type key_hash expires_at clock w =
     (case ap_resolved_at approval of
        None \<Rightarrow> Inl (RepositoryRefused ''approved_resolution_timestamp_missing'')
      | Some resolved \<Rightarrow>
          let row = \<lparr>ta_id = db_next_id (w_db w), ta_tenant = ctx_tenant ctx, ta_project = pq_project
              request,
                     ta_request = pq_id request, ta_approval = pq_approval request,
                     ta_policy_version = pq_policy_version request,
                     ta_release_candidate = pq_release_candidate request, ta_evidence_pack = pq_evidence_pack
                         request,
                     ta_verdict = pq_verdict request, ta_requester_hash = pq_requester_hash request,
                     ta_requester_type = pq_requester_type request, ta_requester_prov = pq_requester_prov request,
                     ta_approver_hash = approver_hash, ta_approver_type = approver_type,
                     ta_approver_prov = ''request_authenticated'', ta_key_hash = key_hash,
                     ta_approved_at = resolved, ta_valid_from = resolved, ta_expires_at = expires_at,
                     ta_membership_ok = True, ta_created_at = clock\<rparr>;
              w1 = bump w
          in bindE (check (attestation_constraints row (ls_attestations (w_loop w))) (GuardRaised ''constraint''))
              (\<lambda>_.
               Inr (row, w1\<lparr>w_loop := (w_loop w1)\<lparr>ls_attestations := ls_attestations (w_loop w1) @
                   [row]\<rparr>\<rparr>)))"

definition append_lifecycle_event ::
  "tenant_context \<Rightarrow> attestation_row \<Rightarrow> uuid option \<Rightarrow> string \<Rightarrow>
      string \<Rightarrow> string \<Rightarrow> string \<Rightarrow> string \<Rightarrow> timestamp \<Rightarrow>
     release_world \<Rightarrow> preapproval_failure + (preapproval_event_row \<times> release_world)" where
  "append_lifecycle_event ctx attestation previous event_type actor_hash atype reason key_hash clock w =
     (let row = \<lparr>pv_id = db_next_id (w_db w), pv_tenant = ctx_tenant ctx, pv_project = ta_project
         attestation,
                 pv_attestation = ta_id attestation, pv_previous = previous, pv_type = event_type,
                 pv_actor_hash = actor_hash, pv_actor_type = atype, pv_actor_prov = ''request_authenticated'',
                 pv_reason = reason, pv_key_hash = key_hash, pv_created_at = clock\<rparr>;
          w1 = bump w
      in bindE (check (event_constraints row (ls_preapproval_events (w_loop w))) (GuardRaised ''constraint''))
          (\<lambda>_.
           Inr (row, w1\<lparr>w_loop := (w_loop w1)\<lparr>ls_preapproval_events :=
                  ls_preapproval_events (w_loop w1) @ [row]\<rparr>\<rparr>)))"

definition preapproval_audit ::
  "tenant_context \<Rightarrow> string \<Rightarrow> uuid \<Rightarrow> uuid \<Rightarrow> string \<Rightarrow>
      string \<Rightarrow> uuid option \<Rightarrow> release_world \<Rightarrow> release_world" where
  "preapproval_audit ctx action project target actor status request_id w =
     set_db (audit_record ctx action actor (Some (uuid_str target))
       [(''project_id'', PStr (uuid_str project)), (''request_id'', opt_str (map_option uuid_str request_id)),
        (''status_code'', PStr status), (''identity_provenance'', PStr ''request_authenticated''),
        (''identity_claim'', PStr ''key_custody_under_recorded_policy''),
        (''preapproval_contract_version'', PStr PREAPPROVAL_CONTRACT_VERSION)] (w_db w)) w"

section \<open>Reading preapprovals\<close>

definition find_request_by_idempotency ::
  "tenant_context \<Rightarrow> uuid \<Rightarrow> string \<Rightarrow> release_world \<Rightarrow> request_row
      option" where
  "find_request_by_idempotency ctx project key_hash w =
     List.find (\<lambda>r. pq_tenant r = ctx_tenant ctx \<and> pq_project r = project \<and> pq_key_hash r =
         key_hash)
       (ls_requests (w_loop w))"

definition get_request :: "tenant_context \<Rightarrow> uuid \<Rightarrow> uuid \<Rightarrow> release_world
    \<Rightarrow> request_row option" where
  "get_request ctx project i w =
     List.find (\<lambda>r. pq_tenant r = ctx_tenant ctx \<and> pq_project r = project \<and> pq_id r = i)
         (ls_requests (w_loop w))"

definition latest_request :: "tenant_context \<Rightarrow> uuid \<Rightarrow> release_world \<Rightarrow>
    request_row option" where
  "latest_request ctx project w =
     latest_by (\<lambda>r. (pq_created_at r, pq_id r))
       (filter (\<lambda>r. pq_tenant r = ctx_tenant ctx \<and> pq_project r = project) (ls_requests (w_loop w)))"

definition policy_has_member :: "tenant_context \<Rightarrow> uuid \<Rightarrow> string \<Rightarrow>
    release_world \<Rightarrow> bool" where
  "policy_has_member ctx version member_hash w =
     list_ex (\<lambda>m. pa_tenant m = ctx_tenant ctx \<and> pa_version m = version \<and> pa_hash m =
         member_hash) (w_approvers w)"

definition get_attestation :: "tenant_context \<Rightarrow> uuid \<Rightarrow> uuid \<Rightarrow> release_world
    \<Rightarrow> attestation_row option" where
  "get_attestation ctx project i w =
     List.find (\<lambda>a. ta_tenant a = ctx_tenant ctx \<and> ta_project a = project \<and> ta_id a = i)
       (ls_attestations (w_loop w))"

definition attestation_for_request :: "tenant_context \<Rightarrow> uuid \<Rightarrow> release_world \<Rightarrow>
    attestation_row option" where
  "attestation_for_request ctx request w =
     List.find (\<lambda>a. ta_tenant a = ctx_tenant ctx \<and> ta_request a = request) (ls_attestations (w_loop
         w))"

definition latest_lifecycle :: "tenant_context \<Rightarrow> uuid \<Rightarrow> release_world \<Rightarrow>
    preapproval_event_row option" where
  "latest_lifecycle ctx attestation w =
     latest_by (\<lambda>v. (pv_created_at v, pv_id v))
       (filter (\<lambda>v. pv_tenant v = ctx_tenant ctx \<and> pv_attestation v = attestation)
         (ls_preapproval_events (w_loop w)))"

section \<open>Coverage\<close>

text \<open>\<open>ProductionPreapprovalCoverage\<close>: its evidence for gate 12, and the rows it is
    about.\<close>

record preapproval_coverage = preapproval_evidence +
  cov_request_id :: "uuid option"
  cov_attestation_id :: "uuid option"

definition gate_kwargs :: "preapproval_coverage \<Rightarrow> preapproval_evidence" where
  "gate_kwargs c = preapproval_evidence.truncate c"

definition base_coverage :: "current_sources \<Rightarrow> preapproval_coverage" where
  "base_coverage cs = preapproval_evidence.extend
     (default_preapproval_evidence\<lparr>
        preapproval_candidate_present := cs_candidate cs \<noteq> None,
        preapproval_core_present := cs_core cs \<noteq> None,
        preapproval_core_reaudited := cs_core_reaudited cs,
        preapproval_verdict_present := cs_verdict cs \<noteq> None,
        preapproval_verdict_gate_eligible := (case cs_verdict cs of None \<Rightarrow> False | Some v
            \<Rightarrow> ve_gate_eligible v),
        preapproval_policy_present := cs_policy_category cs \<noteq> None \<and> cs_checklist_category cs \<noteq>
            None,
        preapproval_policy_valid := cs_parsed_policy cs \<noteq> None,
        preapproval_approver_count := (case cs_parsed_policy cs of None \<Rightarrow> 0 | Some p \<Rightarrow> int
            (approver_count p)),
        preapproval_autonomy_policy_eligible := cs_autonomy_eligible cs,
        preapproval_policy_contract_version := map_option (\<lambda>_. POLICY_CONTRACT_VERSION) (cs_parsed_policy
            cs),
        preapproval_condition_contract_version := Some CONDITIONS_CONTRACT_VERSION,
        preapproval_contract_version := Some PREAPPROVAL_CONTRACT_VERSION\<rparr>)
     (preapproval_coverage.fields None None)"

definition expected_binding :: "(string \<Rightarrow> string) \<Rightarrow> current_sources \<Rightarrow>
    preapproval_failure + string option" where
  "expected_binding sha cs =
     (case (cs_candidate cs, cs_core cs, cs_verdict cs, cs_parsed_policy cs, cs_autonomy_policy cs) of
        (Some candidate, Some pack, Some verdict, Some parsed, Some autonomy) \<Rightarrow>
          bindE (digest_of_policy_row sha autonomy) (\<lambda>autonomy_digest.
          bindE (lift_error ContractRefused (fixed_conditions_digest sha)) (\<lambda>condition_hash.
          bindE (lift_error ContractRefused (release_binding_digest sha
                   (binding_components candidate pack verdict autonomy_digest (rp_policy_digest parsed)
                     (rp_checklist_digest parsed) condition_hash))) (\<lambda>binding.
            Inr (Some binding))))
      | _ \<Rightarrow> Inr None)"

definition binding_is_current :: "current_sources \<Rightarrow> string option \<Rightarrow> request_row
    \<Rightarrow> bool" where
  "binding_is_current cs expected request =
     (case (expected, cs_candidate cs, cs_core cs, cs_verdict cs, cs_autonomy_policy cs) of
        (Some b, Some candidate, Some pack, Some verdict, Some autonomy) \<Rightarrow>
          pq_release_binding_digest request = b \<and> pq_release_candidate request = rl_id candidate \<and>
          pq_evidence_pack request = ep_id pack \<and> pq_verdict request = ve_id verdict \<and>
          pq_autonomy_policy request = pol_id autonomy
      | _ \<Rightarrow> False)"

definition notification_of :: "tenant_context \<Rightarrow> request_row \<Rightarrow> release_world \<Rightarrow>
    notification_row option" where
  "notification_of ctx request w =
     List.find (\<lambda>n. nt_tenant n = ctx_tenant ctx \<and> nt_id n = pq_notification request)
         (w_notifications w)"

definition notification_is_valid :: "request_row \<Rightarrow> notification_row option \<Rightarrow> bool" where
  "notification_is_valid request notification =
     (case notification of
        None \<Rightarrow> False
      | Some n \<Rightarrow> nt_approval n = pq_approval request \<and> nt_risk_tier n = ''production'' \<and>
                  nt_routing n = ''realtime'' \<and> nt_channel n = ''dashboard'' \<and> nt_status n =
                      ''delivered'')"

definition evidence_is_consistent ::
  "request_row \<Rightarrow> approval_row option \<Rightarrow> bool \<Rightarrow> attestation_row option
      \<Rightarrow> preapproval_event_row option \<Rightarrow> bool" where
  "evidence_is_consistent request approval notification_valid attestation head =
     (case (approval, attestation, head) of
        (Some a, Some t, Some _) \<Rightarrow>
          ap_action a = ''deploy_production'' \<and> ap_risk_tier a = PRODUCTION \<and> ap_explicit a \<and>
          ap_requested_by a = pq_requester_hash request \<and> ap_requested_prov a = ''request_authenticated''
              \<and>
          notification_valid \<and> ta_approval t = ap_id a \<and> ta_policy_version t = pq_policy_version request
              \<and>
          ta_release_candidate t = pq_release_candidate request \<and> ta_evidence_pack t = pq_evidence_pack
              request \<and>
          ta_verdict t = pq_verdict request \<and> identity_separation_ok t \<and> ta_membership_ok t \<and>
          gate_eligible_at_creation t
      | _ \<Rightarrow> False)"

definition approver_hash_of :: "approval_row option \<Rightarrow> attestation_row option \<Rightarrow> string
    option" where
  "approver_hash_of approval attestation =
     (case attestation of
        Some t \<Rightarrow> Some (ta_approver_hash t)
      | None \<Rightarrow> (case approval of Some a \<Rightarrow> ap_resolved_by a | None \<Rightarrow> None))"

text \<open>\<open>bool(text)\<close>.\<close>

definition some_text :: "string option \<Rightarrow> bool" where
  "some_text s = (case s of None \<Rightarrow> False | Some t \<Rightarrow> t \<noteq> [])"

definition request_coverage ::
  "tenant_context \<Rightarrow> timestamp \<Rightarrow> current_sources \<Rightarrow> string option \<Rightarrow>
      request_row \<Rightarrow> release_world \<Rightarrow> preapproval_coverage" where
  "request_coverage ctx now cs expected request w =
     (let approval = approval_get ctx (pq_approval request) (w_db w);
          notification = notification_of ctx request w;
          attestation = attestation_for_request ctx (pq_id request) w;
          head = (case attestation of None \<Rightarrow> None | Some t \<Rightarrow> latest_lifecycle ctx (ta_id
              t) w);
          binding_current = binding_is_current cs expected request;
          approver_hash = approver_hash_of approval attestation;
          approved = (case approval of None \<Rightarrow> False | Some a \<Rightarrow> ap_status a = APPROVED);
          approver_authenticated =
            (approved \<and> map_option ap_approver_prov approval = Some ''request_authenticated'' \<and>
                some_text approver_hash);
          in_policy = (some_text approver_hash \<and> policy_has_member ctx (pq_policy_version request) (the
              approver_hash) w);
          separation = (some_text approver_hash \<and> pq_requester_hash request \<noteq> the approver_hash);
          notification_valid = notification_is_valid request notification;
          expired = (case attestation of None \<Rightarrow> False | Some t \<Rightarrow> preapproval_is_expired
              (ta_expires_at t) now);
          consistent = evidence_is_consistent request approval notification_valid attestation head;
          eligible = (consistent \<and> binding_current \<and> map_option pv_type head = Some ''approved_anchor''
              \<and>
                      \<not> expired \<and> approved)
      in (base_coverage cs)\<lparr>
           preapproval_request_present := True,
           preapproval_binding_current := binding_current,
           preapproval_requester_authenticated := pq_requester_prov request = ''request_authenticated'',
           preapproval_notification_valid := notification_valid,
           preapproval_request_status := map_option (\<lambda>a. status_value (ap_status a)) approval,
           preapproval_attestation_present := attestation \<noteq> None,
           preapproval_approver_authenticated := approver_authenticated,
           preapproval_approver_in_policy := in_policy,
           preapproval_separation_ok := separation,
           preapproval_lifecycle_status := map_option pv_type head,
           preapproval_expired := expired,
           preapproval_evidence_consistent := consistent,
           preapproval_gate_eligible := eligible,
           preapproval_requester_actor_type := Some (pq_requester_type request),
           preapproval_approver_actor_type := map_option ta_approver_type attestation,
           cov_request_id := Some (pq_id request),
           cov_attestation_id := map_option ta_id attestation\<rparr>)"

definition coverage_for_project ::
  "(string \<Rightarrow> string) \<Rightarrow> (release_world \<Rightarrow> uuid \<Rightarrow> bool) \<Rightarrow>
      tenant_context \<Rightarrow> uuid \<Rightarrow> timestamp \<Rightarrow> release_world \<Rightarrow>
     preapproval_failure + preapproval_coverage" where
  "coverage_for_project sha reaudits ctx project now w =
     bindE (current_sources_of sha reaudits ctx project w) (\<lambda>cs.
       case latest_request ctx project w of
         None \<Rightarrow> Inr (base_coverage cs)
       | Some request \<Rightarrow>
           bindE (expected_binding sha cs) (\<lambda>expected. Inr (request_coverage ctx now cs expected request
               w)))"

end
