(* ===== verification/Preapproval_Service.thy ===== *)
theory Preapproval_Service
  imports Preapprovals
begin

text \<open>
  The workflow of a production preapproval (\<open>app/release/production_approval_service.py\<close>): request,
  approve, reject, cancel, revoke and read.  Each operation is the change of one transaction; the guards of the
  database that run when it commits are in \<^theory_text>\<open>Preapproval_Guard\<close>.
\<close>

section \<open>The workflow\<close>

record preapproval_result =
  ps_request_id :: uuid
  ps_attestation_id :: "uuid option"
  ps_status :: string
  ps_reason :: string

definition require_actor :: "tenant_context \<Rightarrow> preapproval_failure + authenticated_actor" where
  "require_actor ctx =
     (case ctx_actor ctx of
        None \<Rightarrow> Inl (PreapprovalConflict ''request_authentication_required'')
      | Some a \<Rightarrow> Inr a)"

definition REQUESTER :: string where
  "REQUESTER = ''request_authenticated_requester''"

definition APPROVER :: string where
  "APPROVER = ''request_authenticated_approver''"

definition preapproval_args :: "uuid \<Rightarrow> uuid \<Rightarrow> string \<Rightarrow> approval_request_args"
    where
  "preapproval_args project request_id requester_hash =
     \<lparr>rq_project = project, rq_action = ''deploy_production'', rq_risk_tier = ''production'',
      rq_requested_by = REQUESTER, rq_explicit = Some True,
      rq_subject_ref = Some (''production_preapproval:'' @ uuid_str request_id), rq_payload = Some [],
      rq_storage_subject = Some requester_hash, rq_audit_actor = Some REQUESTER\<rparr>"

definition preapproval_request ::
  "(string \<Rightarrow> string) \<Rightarrow> (release_world \<Rightarrow> uuid \<Rightarrow> bool) \<Rightarrow>
      tenant_context \<Rightarrow> uuid \<Rightarrow> string \<Rightarrow> timestamp \<Rightarrow> timestamp
      \<Rightarrow>
     release_world \<Rightarrow> preapproval_failure + (preapproval_result \<times> release_world)" where
  "preapproval_request sha reaudits ctx project key now clock w =
     bindE (require_actor ctx) (\<lambda>actor.
     bindE (lift_error ContractRefused (idempotency_digest sha key)) (\<lambda>key_hash.
       case find_request_by_idempotency ctx project key_hash w of
         Some existing \<Rightarrow>
           Inr (\<lparr>ps_request_id = pq_id existing, ps_attestation_id = None,
                 ps_status = (case approval_get ctx (pq_approval existing) (w_db w) of
                                None \<Rightarrow> ''inconsistent'' | Some a \<Rightarrow> status_value (ap_status
                                    a)),
                 ps_reason = ''idempotent_replay''\<rparr>, w)
       | None \<Rightarrow>
           bindE (require_current_sources sha reaudits ctx project w) (\<lambda>cs.
           bindE (append_policy_snapshot sha ctx project cs w) (\<lambda>(version, w1).
             let request_id = db_next_id (w_db w1); w2 = bump w1 in
           bindE (lift_error ContractRefused (subject_digest sha (actor_subject actor))) (\<lambda>requester_hash.
           bindE (lift_error NotificationRefused
                   (request_and_notify_approval ctx (preapproval_args project request_id requester_hash) REQUESTER
                      DashboardChannel now clock (w_notifications w2, w_db w2))) (\<lambda>(approval,
                          notification, ns, d).
           bindE (append_request sha ctx project request_id cs version approval notification requester_hash
                   (actor_type actor) key_hash clock ((set_db d w2)\<lparr>w_notifications := ns\<rparr>))
                       (\<lambda>(request, w3).
             Inr (\<lparr>ps_request_id = pq_id request, ps_attestation_id = None, ps_status = ''pending'',
                   ps_reason = ''request_recorded''\<rparr>,
                  preapproval_audit ctx ''production_preapproval.requested'' project (pq_id request) REQUESTER
                    ''pending'' (Some (pq_id request)) w3))))))))"

definition request_and_approval ::
  "tenant_context \<Rightarrow> uuid \<Rightarrow> uuid \<Rightarrow> release_world \<Rightarrow>
      preapproval_failure + (request_row \<times> approval_row)" where
  "request_and_approval ctx project request_id w =
     (case get_request ctx project request_id w of
        None \<Rightarrow> Inl (PreapprovalNotFound ''production_preapproval_not_found'')
      | Some r \<Rightarrow>
          (case approval_get ctx (pq_approval r) (w_db w) of
             None \<Rightarrow> Inl (PreapprovalConflict ''production_preapproval_inconsistent'')
           | Some a \<Rightarrow> Inr (r, a)))"

definition require_current_request ::
  "(string \<Rightarrow> string) \<Rightarrow> (release_world \<Rightarrow> uuid \<Rightarrow> bool) \<Rightarrow>
      tenant_context \<Rightarrow> uuid \<Rightarrow> uuid \<Rightarrow> timestamp \<Rightarrow>
     release_world \<Rightarrow> preapproval_failure + unit" where
  "require_current_request sha reaudits ctx project request_id now w =
     bindE (coverage_for_project sha reaudits ctx project now w) (\<lambda>c.
       check (cov_request_id c = Some request_id \<and> preapproval_binding_current c)
         (PreapprovalConflict ''production_preapproval_not_current''))"

definition require_policy_approver ::
  "(string \<Rightarrow> string) \<Rightarrow> tenant_context \<Rightarrow> request_row \<Rightarrow> bool
      \<Rightarrow> release_world \<Rightarrow> preapproval_failure + string" where
  "require_policy_approver sha ctx request require_separation w =
     bindE (require_actor ctx) (\<lambda>actor.
     bindE (lift_error ContractRefused (subject_digest sha (actor_subject actor))) (\<lambda>actor_hash.
     bindE (check (actor_type actor = ''human'' \<and> policy_has_member ctx (pq_policy_version request)
         actor_hash w)
              (PreapprovalConflict ''approver_not_in_recorded_policy'')) (\<lambda>_.
     bindE (lift_error ContractRefused (actor_evidence_of sha None (Some actor) [actor_hash])) (\<lambda>evidence.
     bindE (check (ae_approver_authenticated evidence)
              (PreapprovalConflict ''approver_not_request_authenticated'')) (\<lambda>_.
     bindE (check (\<not> (require_separation \<and> pq_requester_hash request = actor_hash))
              (PreapprovalConflict ''separation_of_duties_failed'')) (\<lambda>_.
       Inr actor_hash))))))"

definition resolution_args :: "uuid \<Rightarrow> string \<Rightarrow> string \<Rightarrow> resolve_args" where
  "resolution_args approval label subject_hash =
     \<lparr>rv_approval = approval, rv_actor = label, rv_note = None, rv_storage_subject = Some subject_hash,
      rv_audit_actor = Some label\<rparr>"

definition supersede_prior ::
  "(string \<Rightarrow> string) \<Rightarrow> tenant_context \<Rightarrow> uuid \<Rightarrow> attestation_row
      \<Rightarrow> string \<Rightarrow> string \<Rightarrow> string \<Rightarrow> timestamp \<Rightarrow>
     release_world \<Rightarrow> preapproval_failure + release_world" where
  "supersede_prior sha ctx project current actor_hash atype key_hash clock w =
     bindE (lift_error ProjectUnavailable (lock_project_row ctx project (w_db w))) (\<lambda>_.
       case latest_by (\<lambda>t. (ta_created_at t, ta_id t))
              (filter (\<lambda>t. ta_tenant t = ctx_tenant ctx \<and> ta_project t = project \<and> ta_id t
                  \<noteq> ta_id current)
                (ls_attestations (w_loop w))) of
         None \<Rightarrow> Inr w
       | Some prior \<Rightarrow>
           (case latest_lifecycle ctx (ta_id prior) w of
              None \<Rightarrow> Inr w
            | Some head \<Rightarrow>
                if pv_type head \<noteq> ''approved_anchor'' then Inr w
                else bindE (lift_error ContractRefused (canonical_digest sha (PDict
                              [(''event'', PStr ''superseded''), (''prior_attestation'', PStr (uuid_str (ta_id
                                  prior))),
                               (''resolution_key_hash'', PStr key_hash)]))) (\<lambda>event_key.
                     bindE (append_lifecycle_event ctx prior (Some (pv_id head)) ''superseded'' actor_hash atype
                              ''newer_current_binding_preapproval_approved'' event_key clock w) (\<lambda>(_, w1).
                                  Inr w1))))"

text \<open>The handler turns a refused or lost transition into a conflict.\<close>

definition approve_generic ::
  "tenant_context \<Rightarrow> uuid \<Rightarrow> string \<Rightarrow> release_world \<Rightarrow>
      preapproval_failure + (approval_row \<times> release_world)" where
  "approve_generic ctx approval subject_hash w =
     (case Approvals.approve ctx (resolution_args approval APPROVER subject_hash) (w_db w) of
        Inl InvalidApprovalRequest \<Rightarrow> Inl (PreapprovalConflict
            ''production_preapproval_resolution_conflict'')
      | Inl InvalidApprovalTransition \<Rightarrow> Inl (PreapprovalConflict
          ''production_preapproval_resolution_conflict'')
      | Inl e \<Rightarrow> Inl (ApprovalRefused e)
      | Inr (a, d) \<Rightarrow> Inr (a, set_db d w))"

definition preapproval_approve ::
  "(string \<Rightarrow> string) \<Rightarrow> (release_world \<Rightarrow> uuid \<Rightarrow> bool) \<Rightarrow>
      tenant_context \<Rightarrow> uuid \<Rightarrow> uuid \<Rightarrow> string \<Rightarrow> timestamp
      \<Rightarrow>
     timestamp \<Rightarrow> release_world \<Rightarrow> preapproval_failure + (preapproval_result \<times>
         release_world)" where
  "preapproval_approve sha reaudits ctx project request_id key now clock w =
     bindE (request_and_approval ctx project request_id w) (\<lambda>(request, approval).
       case (ap_status approval = APPROVED, attestation_for_request ctx (pq_id request) w) of
         (True, Some existing) \<Rightarrow>
           Inr (\<lparr>ps_request_id = pq_id request, ps_attestation_id = Some (ta_id existing), ps_status =
               ''approved'',
                 ps_reason = ''idempotent_replay''\<rparr>, w)
       | _ \<Rightarrow>
           bindE (check (ap_status approval = PENDING)
                    (PreapprovalConflict ''production_preapproval_already_resolved'')) (\<lambda>_.
           bindE (require_current_request sha reaudits ctx project request_id now w) (\<lambda>_.
           bindE (require_actor ctx) (\<lambda>actor.
           bindE (require_policy_approver sha ctx request True w) (\<lambda>approver_hash.
           bindE (approve_generic ctx (ap_id approval) approver_hash w) (\<lambda>(approved, w1).
             case ap_resolved_at approved of
               None \<Rightarrow> Inl (PreapprovalConflict ''production_preapproval_resolution_inconsistent'')
             | Some resolved \<Rightarrow>
                 bindE (lift_error ContractRefused (idempotency_digest sha key)) (\<lambda>resolution_hash.
                 bindE (append_attestation ctx request approved approver_hash (actor_type actor) resolution_hash
                          (resolved + hours 24) clock w1) (\<lambda>(attestation, w2).
                 bindE (lift_error ContractRefused (canonical_digest sha (PDict
                          [(''event'', PStr ''approved_anchor''), (''resolution_key_hash'', PStr
                              resolution_hash)])))
                   (\<lambda>anchor_key.
                 bindE (append_lifecycle_event ctx attestation None ''approved_anchor'' approver_hash (actor_type
                     actor)
                          ''request_authenticated_preapproval_recorded'' anchor_key clock w2) (\<lambda>(_, w3).
                 bindE (supersede_prior sha ctx project attestation approver_hash (actor_type actor) resolution_hash
                          clock w3) (\<lambda>w4.
                   Inr (\<lparr>ps_request_id = pq_id request, ps_attestation_id = Some (ta_id attestation),
                         ps_status = ''approved'', ps_reason =
                             ''request_authenticated_preapproval_recorded''\<rparr>,
                        preapproval_audit ctx ''production_preapproval.approved'' project (ta_id attestation)
                            APPROVER
                          ''approved_key_custody_under_recorded_policy'' (Some (pq_id request)) w4))))))))))))"

definition preapproval_reject ::
  "(string \<Rightarrow> string) \<Rightarrow> (release_world \<Rightarrow> uuid \<Rightarrow> bool) \<Rightarrow>
      tenant_context \<Rightarrow> uuid \<Rightarrow> uuid \<Rightarrow> string \<Rightarrow> timestamp
      \<Rightarrow>
     release_world \<Rightarrow> preapproval_failure + (preapproval_result \<times> release_world)" where
  "preapproval_reject sha reaudits ctx project request_id key now w =
     bindE (request_and_approval ctx project request_id w) (\<lambda>(request, approval).
       if ap_status approval = REJECTED
       then Inr (\<lparr>ps_request_id = pq_id request, ps_attestation_id = None, ps_status = ''rejected'',
                  ps_reason = ''idempotent_replay''\<rparr>, w)
       else
         bindE (check (ap_status approval = PENDING)
                  (PreapprovalConflict ''production_preapproval_already_resolved'')) (\<lambda>_.
         bindE (require_current_request sha reaudits ctx project request_id now w) (\<lambda>_.
         bindE (require_policy_approver sha ctx request True w) (\<lambda>approver_hash.
         bindE (lift_error ContractRefused (idempotency_digest sha key)) (\<lambda>_.
         bindE (lift_error ApprovalRefused
                  (Approvals.reject ctx (resolution_args (ap_id approval) APPROVER approver_hash) (w_db w)))
                      (\<lambda>(_, d).
           Inr (\<lparr>ps_request_id = pq_id request, ps_attestation_id = None, ps_status = ''rejected'',
                 ps_reason = ''request_rejected''\<rparr>,
                preapproval_audit ctx ''production_preapproval.rejected'' project (pq_id request) APPROVER
                  ''rejected'' (Some (pq_id request)) (set_db d w))))))))"

definition preapproval_cancel ::
  "(string \<Rightarrow> string) \<Rightarrow> tenant_context \<Rightarrow> uuid \<Rightarrow> uuid \<Rightarrow>
      string \<Rightarrow> release_world \<Rightarrow>
     preapproval_failure + (preapproval_result \<times> release_world)" where
  "preapproval_cancel sha ctx project request_id key w =
     bindE (request_and_approval ctx project request_id w) (\<lambda>(request, approval).
     bindE (require_actor ctx) (\<lambda>actor.
     bindE (lift_error ContractRefused (subject_digest sha (actor_subject actor))) (\<lambda>actor_hash.
     bindE (check (actor_hash = pq_requester_hash request) (PreapprovalConflict ''only_requester_may_cancel''))
         (\<lambda>_.
       if ap_status approval = CANCELLED
       then Inr (\<lparr>ps_request_id = pq_id request, ps_attestation_id = None, ps_status = ''cancelled'',
                  ps_reason = ''idempotent_replay''\<rparr>, w)
       else
         bindE (check (ap_status approval = PENDING)
                  (PreapprovalConflict ''production_preapproval_already_resolved'')) (\<lambda>_.
         bindE (lift_error ContractRefused (idempotency_digest sha key)) (\<lambda>_.
         bindE (lift_error ApprovalRefused
                  (Approvals.cancel ctx (resolution_args (ap_id approval) REQUESTER actor_hash) (w_db w)))
                      (\<lambda>(_, d).
           Inr (\<lparr>ps_request_id = pq_id request, ps_attestation_id = None, ps_status = ''cancelled'',
                 ps_reason = ''request_cancelled''\<rparr>,
                preapproval_audit ctx ''production_preapproval.cancelled'' project (pq_id request) REQUESTER
                  ''cancelled'' (Some (pq_id request)) (set_db d w)))))))))"

definition preapproval_revoke ::
  "(string \<Rightarrow> string) \<Rightarrow> tenant_context \<Rightarrow> uuid \<Rightarrow> uuid \<Rightarrow>
      string \<Rightarrow> timestamp \<Rightarrow> release_world \<Rightarrow>
     preapproval_failure + (preapproval_result \<times> release_world)" where
  "preapproval_revoke sha ctx project attestation_id key clock w =
     bindE (lift_error ProjectUnavailable (lock_project_row ctx project (w_db w))) (\<lambda>_.
       case get_attestation ctx project attestation_id w of
         None \<Rightarrow> Inl (PreapprovalNotFound ''production_preapproval_not_found'')
       | Some attestation \<Rightarrow>
           (case get_request ctx project (ta_request attestation) w of
              None \<Rightarrow> Inl (PreapprovalConflict ''production_preapproval_inconsistent'')
            | Some request \<Rightarrow>
                bindE (require_actor ctx) (\<lambda>actor.
                bindE (require_policy_approver sha ctx request False w) (\<lambda>actor_hash.
                  case latest_lifecycle ctx (ta_id attestation) w of
                    None \<Rightarrow> Inl (PreapprovalConflict ''production_preapproval_not_revocable'')
                  | Some head \<Rightarrow>
                      if pv_type head = ''revoked''
                      then Inr (\<lparr>ps_request_id = pq_id request, ps_attestation_id = Some (ta_id attestation),
                                 ps_status = ''revoked'', ps_reason = ''idempotent_replay''\<rparr>, w)
                      else
                        bindE (check (pv_type head = ''approved_anchor'')
                                 (PreapprovalConflict ''production_preapproval_not_revocable'')) (\<lambda>_.
                        bindE (lift_error ContractRefused (idempotency_digest sha key)) (\<lambda>key_hash.
                        bindE (append_lifecycle_event ctx attestation (Some (pv_id head)) ''revoked'' actor_hash
                                 (actor_type actor) ''request_authenticated_preapproval_revoked'' key_hash clock w)
                          (\<lambda>(event, w1).
                          Inr (\<lparr>ps_request_id = pq_id request, ps_attestation_id = Some (ta_id attestation),
                                ps_status = ''revoked'', ps_reason = ''revoked''\<rparr>,
                               preapproval_audit ctx ''production_preapproval.revoked'' project (pv_id event)
                                   APPROVER
                                 ''revoked'' (Some (pq_id request)) w1))))))))"

definition preapproval_current_status ::
  "(string \<Rightarrow> string) \<Rightarrow> (release_world \<Rightarrow> uuid \<Rightarrow> bool) \<Rightarrow>
      tenant_context \<Rightarrow> uuid \<Rightarrow> timestamp \<Rightarrow> release_world \<Rightarrow>
     preapproval_failure + preapproval_result" where
  "preapproval_current_status sha reaudits ctx project now w =
     bindE (coverage_for_project sha reaudits ctx project now w) (\<lambda>c.
       case cov_request_id c of
         None \<Rightarrow> Inl (PreapprovalNotFound ''production_preapproval_not_found'')
       | Some i \<Rightarrow>
           let status = (case preapproval_request_status c of
                           None \<Rightarrow> ''inconsistent'' | Some s \<Rightarrow> if s = [] then
                               ''inconsistent'' else s);
               status' = (case preapproval_lifecycle_status c of
                            Some l \<Rightarrow> if l \<in> {''revoked'', ''superseded''} then l
                                     else if preapproval_expired c then ''expired'' else status
                          | None \<Rightarrow> if preapproval_expired c then ''expired'' else status)
           in Inr \<lparr>ps_request_id = i, ps_attestation_id = cov_attestation_id c, ps_status = status',
                  ps_reason = (if preapproval_gate_eligible c then ''current'' else ''not_gate_eligible'')\<rparr>)"

end
