(* ===== verification/Preapproval_Guard.thy ===== *)
theory Preapproval_Guard
  imports Preapproval_Service
begin

text \<open>
  What the database checks of a preapproval when a transaction commits (\<open>slice53_validate_policy\<close>,
  \<open>slice53_validate_request\<close> and \<open>slice53_graph_guard\<close> of migration
      \<open>0052\<close>), and what a request that passed
  satisfies.  A comparison with a \<open>NULL\<close> raises nothing; a row a foreign key names exists.
\<close>

section \<open>The recorded policy\<close>

text \<open>\<open>value -> 'key'\<close>, and the text \<open>->>\<close> gives (\<open>null\<close> has none;
    what is no string never equals a code).\<close>

definition json_at :: "pyval \<Rightarrow> string \<Rightarrow> pyval option" where
  "json_at v k = (case v of PDict d \<Rightarrow> if dhas d k then Some (dget d k) else None | _ \<Rightarrow>
      None)"

definition sql_text :: "pyval \<Rightarrow> string option" where
  "sql_text v = (case v of PNone \<Rightarrow> None | PStr s \<Rightarrow> Some s | _ \<Rightarrow> Some
      (json_text False v))"

definition text_at :: "pyval option \<Rightarrow> string \<Rightarrow> string option" where
  "text_at v k = Option.bind (Option.bind v (\<lambda>x. json_at x k)) sql_text"

text \<open>\<open>x <> y\<close> is true.\<close>

definition differs :: "'a option \<Rightarrow> 'a \<Rightarrow> bool" where
  "differs x y = (case x of None \<Rightarrow> False | Some a \<Rightarrow> a \<noteq> y)"

text \<open>\<open>value ? 'text'\<close>.\<close>

definition json_has :: "pyval \<Rightarrow> string \<Rightarrow> bool" where
  "json_has v t =
     (case v of PList xs \<Rightarrow> PStr t \<in> set xs | PDict d \<Rightarrow> dhas d t | PStr s \<Rightarrow>
         s = t | _ \<Rightarrow> False)"

definition declared_data :: "policy_version_row \<Rightarrow> uuid \<Rightarrow> string \<Rightarrow>
    release_world \<Rightarrow> pyval option" where
  "declared_data p category_id name w =
     map_option ic_data (List.find (\<lambda>c. ic_id c = category_id \<and> ic_project c = pp_project p \<and>
         ic_tenant c = pp_tenant p \<and>
       ic_category c = name \<and> ic_status c = ''declared'') (w_categories w))"

definition policy_members :: "policy_version_row \<Rightarrow> release_world \<Rightarrow> policy_approver_row
    list" where
  "policy_members p w = sort_key pa_ordinal (filter (\<lambda>m. pa_version m = pp_id p) (w_approvers w))"

definition source_mismatch :: "pyval \<Rightarrow> pyval \<Rightarrow> bool" where
  "source_mismatch hp gc =
     (differs (text_at (Some hp) ''approval_channel'') ''dashboard'' \<or>
      (case json_at hp ''realtime_for'' of None \<Rightarrow> True | Some v \<Rightarrow> \<not> json_has v
          ''production_deployment'') \<or>
      differs (text_at (json_at hp ''non_response_policy'') ''production'') ''block_until_approval'' \<or>
      (case json_at gc ''governance'' of None \<Rightarrow> False | Some v \<Rightarrow> \<not> equals_codes v
          GOVERNANCE))"

definition principal_matches :: "(string \<Rightarrow> string) \<Rightarrow> pyval \<Rightarrow>
    policy_approver_row \<Rightarrow> bool" where
  "principal_matches sha x m =
     (case sql_text x of None \<Rightarrow> False | Some t \<Rightarrow> pa_hash m = ''sha256:'' @ sha
         (subject_text t))"

text \<open>The full join of the principals and the members by ordinal has no bad row.\<close>

definition principals_match :: "(string \<Rightarrow> string) \<Rightarrow> pyval list \<Rightarrow>
    policy_approver_row list \<Rightarrow> bool" where
  "principals_match sha xs members =
     (list_all (\<lambda>(i, x). list_ex (\<lambda>m. pa_ordinal m = i) members \<and>
                  list_all (\<lambda>m. pa_ordinal m \<noteq> i \<or> principal_matches sha x m) members)
        (zip [1..<Suc (length xs)] xs) \<and>
      list_all (\<lambda>m. 1 \<le> pa_ordinal m \<and> pa_ordinal m \<le> length xs) members)"

definition validate_policy :: "(string \<Rightarrow> string) \<Rightarrow> uuid \<Rightarrow> release_world
    \<Rightarrow> string + unit" where
  "validate_policy sha i w =
     (case List.find (\<lambda>p. pp_id p = i) (w_versions w) of
        None \<Rightarrow> Inr ()
      | Some p \<Rightarrow>
          let members = policy_members p w in
          bindE (check (length members = pp_approver_count p \<and>
                   (members = [] \<or> hash_text sha (join [CHR 0x1F] (map pa_hash members)) =
                       pp_approver_set_digest p))
                   ''production approval policy member set mismatch'') (\<lambda>_.
            case (declared_data p (pp_policy_category p) ''human_approval_policy'' w,
                  declared_data p (pp_checklist_category p) ''go_live_checklist'' w) of
              (Some hp, Some gc) \<Rightarrow>
                bindE (check (\<not> source_mismatch hp gc)
                    ''production approval policy source projection mismatch'') (\<lambda>_.
                  case json_at hp ''approvers'' of
                    Some (PList xs) \<Rightarrow>
                      check (principals_match sha xs members \<and> length xs = pp_approver_count p)
                        ''production approval policy exact principals mismatch''
                  | _ \<Rightarrow> Inl ''production approval policy exact principals mismatch'')
            | _ \<Rightarrow> Inl ''production approval policy source projection mismatch''))"

section \<open>The graph of a request\<close>

definition row_by :: "('r \<Rightarrow> uuid) \<Rightarrow> uuid \<Rightarrow> 'r list \<Rightarrow> string + 'r"
    where
  "row_by f i rows = (case List.find (\<lambda>r. f r = i) rows of None \<Rightarrow> Inl ''foreign key'' | Some r
      \<Rightarrow> Inr r)"

text \<open>The literal of the migration, the digest of the fixed conditions.\<close>

definition CONDITION_HASH :: string where
  "CONDITION_HASH = ''sha256:770c4b591c7e3a7b0070eb4e14aa817aeb2cc43bbcf426f96256a85ddd1a6022''"

definition sql_binding :: "(string \<Rightarrow> string) \<Rightarrow> request_row \<Rightarrow> release_row
    \<Rightarrow> pack_row \<Rightarrow> verdict_row \<Rightarrow> policy_version_row \<Rightarrow> string" where
  "sql_binding sha r c e v p =
     hash_text sha (join [CHR 0x1F]
       [pq_contract_version r, uuid_str (rl_id c), uuid_str (ep_id e), uuid_str (ve_id v), ep_core_hash e,
        ep_issue_digest e, ep_source_digest e, ep_traceability_digest e, ve_input_digest v, ve_contract_hash v,
        pq_autonomy_digest r, pp_policy_digest p, pp_checklist_digest p, pq_condition_hash r])"

definition approval_shape :: "request_row \<Rightarrow> approval_row \<Rightarrow> bool" where
  "approval_shape r a =
     (ap_project a = pq_project r \<and> ap_tenant a = pq_tenant r \<and> ap_action a = ''deploy_production'' \<and>
      \<not> differs (ap_subject_ref a) (''production_preapproval:'' @ uuid_str (pq_id r)) \<and>
      ap_risk_tier a = PRODUCTION \<and> ap_explicit a \<and> ap_requested_by a = pq_requester_hash r \<and>
      ap_requested_prov a = ''request_authenticated'' \<and> ap_payload a = [] \<and>
      ap_status a \<in> {PENDING, APPROVED, REJECTED, CANCELLED})"

definition attestation_graph ::
  "request_row \<Rightarrow> approval_row \<Rightarrow> policy_version_row \<Rightarrow> attestation_row
      \<Rightarrow> release_world \<Rightarrow> bool" where
  "attestation_graph r a p t w =
     (ta_approval t = ap_id a \<and> ta_policy_version t = pp_id p \<and> ta_release_candidate t =
         pq_release_candidate r \<and>
      ta_evidence_pack t = pq_evidence_pack r \<and> ta_verdict t = pq_verdict r \<and>
      ta_requester_hash t = pq_requester_hash r \<and> ta_requester_type t = pq_requester_type r \<and>
      ta_requester_prov t = pq_requester_prov r \<and> \<not> differs (ap_resolved_by a) (ta_approver_hash t) \<and>
      ap_approver_prov a = ''request_authenticated'' \<and> ap_resolved_at a = Some (ta_approved_at t) \<and>
      identity_separation_ok t \<and> ta_membership_ok t \<and> gate_eligible_at_creation t \<and>
      list_ex (\<lambda>m. pa_version m = pp_id p \<and> pa_hash m = ta_approver_hash t) (w_approvers w))"

text \<open>The recursive query: an anchor, or a successor of a row already found.\<close>

fun linked :: "nat \<Rightarrow> preapproval_event_row list \<Rightarrow> preapproval_event_row \<Rightarrow>
    bool" where
  "linked 0 evs v = (pv_type v = ''approved_anchor'' \<and> pv_previous v = None)"
| "linked (Suc n) evs v =
     (pv_type v = ''approved_anchor'' \<and> pv_previous v = None \<or>
      list_ex (\<lambda>q. pv_previous v = Some (pv_id q) \<and> linked n evs q) evs)"

definition events_of :: "uuid \<Rightarrow> release_world \<Rightarrow> preapproval_event_row list" where
  "events_of attestation w = filter (\<lambda>v. pv_attestation v = attestation) (ls_preapproval_events (w_loop w))"

definition lifecycle_linear :: "preapproval_event_row list \<Rightarrow> bool" where
  "lifecycle_linear evs =
     (length (filter (\<lambda>v. pv_type v = ''approved_anchor'') evs) = 1 \<and> list_all (linked (length evs)
         evs) evs)"

definition lifecycle_ordered :: "preapproval_event_row list \<Rightarrow> preapproval_event_row list \<Rightarrow>
    bool" where
  "lifecycle_ordered evs all_events =
     (\<not> list_ex (\<lambda>x. list_ex (\<lambda>q. pv_previous x = Some (pv_id q) \<and> pv_created_at x \<le>
         pv_created_at q) all_events) evs)"

definition lifecycle_actors :: "policy_version_row \<Rightarrow> preapproval_event_row list \<Rightarrow>
    release_world \<Rightarrow> bool" where
  "lifecycle_actors p evs w =
     list_all (\<lambda>x. pv_type x = ''approved_anchor'' \<or>
       list_ex (\<lambda>m. pa_version m = pp_id p \<and> pa_hash m = pv_actor_hash x) (w_approvers w)) evs"

definition validate_attested ::
  "request_row \<Rightarrow> approval_row \<Rightarrow> policy_version_row \<Rightarrow> release_world
      \<Rightarrow> string + unit" where
  "validate_attested r a p w =
     (let ats = filter (\<lambda>t. ta_request t = pq_id r) (ls_attestations (w_loop w)) in
      if ap_status a = APPROVED \<and> length ats \<noteq> 1
      then Inl ''approved production request requires exactly one attestation''
      else if ap_status a \<noteq> APPROVED \<and> length ats \<noteq> 0
      then Inl ''non-approved production request cannot have an attestation''
      else (case ats of
              [t] \<Rightarrow>
                let evs = events_of (ta_id t) w in
                bindE (check (attestation_graph r a p t w) ''production preapproval attestation graph mismatch'')
                    (\<lambda>_.
                bindE (check (lifecycle_linear evs) ''production preapproval lifecycle is not one linear chain'')
                    (\<lambda>_.
                bindE (check (lifecycle_ordered evs (ls_preapproval_events (w_loop w)))
                         ''production preapproval lifecycle time order mismatch'') (\<lambda>_.
                  check (lifecycle_actors p evs w)
                    ''production preapproval lifecycle actor not in recorded policy'')))
            | _ \<Rightarrow> Inr ()))"

definition validate_request :: "(string \<Rightarrow> string) \<Rightarrow> uuid \<Rightarrow> release_world
    \<Rightarrow> string + unit" where
  "validate_request sha i w =
     (case List.find (\<lambda>r. pq_id r = i) (ls_requests (w_loop w)) of
        None \<Rightarrow> Inr ()
      | Some r \<Rightarrow>
          bindE (validate_policy sha (pq_policy_version r) w) (\<lambda>_.
          bindE (row_by pp_id (pq_policy_version r) (w_versions w)) (\<lambda>p.
          bindE (row_by rl_id (pq_release_candidate r) (w_releases w)) (\<lambda>c.
          bindE (row_by ep_id (pq_evidence_pack r) (w_packs w)) (\<lambda>e.
          bindE (row_by ve_id (pq_verdict r) (w_verdicts w)) (\<lambda>v.
          bindE (row_by pol_id (pq_autonomy_policy r) (autonomy_policies (w_db w))) (\<lambda>au.
          bindE (row_by ap_id (pq_approval r) (approvals (w_db w))) (\<lambda>a.
          bindE (row_by nt_id (pq_notification r) (w_notifications w)) (\<lambda>n.
          bindE (check (rl_status c = ''frozen'' \<and> ep_assembly_status e = ''complete'' \<and> ep_candidate e
              = rl_id c \<and>
                        ve_candidate v = rl_id c \<and> ve_pack v = ep_id e \<and> ve_gate_eligible v \<and>
                        pp_project p = pq_project r \<and> pol_project au = pq_project r)
                   ''production preapproval release graph mismatch'') (\<lambda>_.
          bindE (check (pq_core_hash r = ep_core_hash e \<and> pq_issue_digest r = ep_issue_digest e \<and>
                        pq_source_digest r = ep_source_digest e \<and> pq_traceability_digest r =
                            ep_traceability_digest e \<and>
                        pq_verdict_input_digest r = ve_input_digest v \<and>
                        pq_verdict_contract_hash r = ve_contract_hash v \<and> pq_condition_hash r = CONDITION_HASH)
                   ''production preapproval bound digest mismatch'') (\<lambda>_.
          bindE (check (pq_release_binding_digest r = sql_binding sha r c e v p)
                   ''production preapproval release binding digest mismatch'') (\<lambda>_.
          bindE (check (approval_shape r a) ''production-specific generic approval shape mismatch'') (\<lambda>_.
          bindE (check (nt_approval n = ap_id a \<and> nt_project n = pq_project r \<and> nt_tenant n = pq_tenant
              r \<and>
                        nt_risk_tier n = ''production'' \<and> nt_routing n = ''realtime'' \<and> nt_channel n =
                            ''dashboard'')
                   ''production approval notification graph mismatch'') (\<lambda>_.
            validate_attested r a p w))))))))))))))"

section \<open>Committing\<close>

text \<open>The tables are append-only: the inserted rows are those beyond the old length.\<close>

definition inserted :: "'r list \<Rightarrow> 'r list \<Rightarrow> 'r list" where
  "inserted old new = drop (length old) new"

definition updated_approvals :: "db \<Rightarrow> db \<Rightarrow> approval_row list" where
  "updated_approvals d d' = filter (\<lambda>a. \<exists>b\<in>set (approvals d). ap_id b = ap_id a \<and> b
      \<noteq> a) (approvals d')"

definition guarded_policies :: "release_world \<Rightarrow> release_world \<Rightarrow> uuid list" where
  "guarded_policies w w' =
     map pp_id (inserted (w_versions w) (w_versions w')) @ map pa_version (inserted (w_approvers w) (w_approvers
         w'))"

definition guarded_requests :: "release_world \<Rightarrow> release_world \<Rightarrow> uuid list" where
  "guarded_requests w w' =
     (let l = w_loop w; l' = w_loop w' in
      map pq_id (inserted (ls_requests l) (ls_requests l')) @
      map ta_request (inserted (ls_attestations l) (ls_attestations l')) @
      List.map_filter (\<lambda>v. map_option ta_request (List.find (\<lambda>t. ta_id t = pv_attestation v)
          (ls_attestations l')))
        (inserted (ls_preapproval_events l) (ls_preapproval_events l')) @
      List.map_filter (\<lambda>a. map_option pq_id (List.find (\<lambda>r. pq_approval r = ap_id a) (ls_requests
          l')))
        (updated_approvals (ls_db l) (ls_db l')))"

definition commit :: "(string \<Rightarrow> string) \<Rightarrow> release_world \<Rightarrow> release_world
    \<Rightarrow> string + unit" where
  "commit sha w w' =
     bindE (for_each (\<lambda>i. validate_policy sha i w') (guarded_policies w w')) (\<lambda>_.
       for_each (\<lambda>i. validate_request sha i w') (guarded_requests w w'))"

text \<open>An operation of the workflow as its transaction.\<close>

definition committed ::
  "(string \<Rightarrow> string) \<Rightarrow> release_world \<Rightarrow> preapproval_failure + ('a \<times>
      release_world) \<Rightarrow>
     preapproval_failure + ('a \<times> release_world)" where
  "committed sha w outcome =
     bindE outcome (\<lambda>(r, w'). bindE (lift_error GuardRaised (commit sha w w')) (\<lambda>_. Inr (r, w')))"

end
