(* ===== verification/Preapproval_Invariant.thy ===== *)
theory Preapproval_Invariant
  imports Preapproval_Guard
begin

text \<open>
  The reachable states of production preapprovals: the transactions of the workflow and every operation
  on approvals, as far as the guards of the database let them commit, with whatever the rest of the
  program does in between; the invariant \<open>preapproval_ok\<close> of those states.
\<close>

section \<open>Reachable worlds\<close>

text \<open>The clock of the database moves on between transactions that write attestations and events.\<close>

definition later :: "timestamp \<Rightarrow> release_world \<Rightarrow> bool" where
  "later clock w \<longleftrightarrow>
     (\<forall>t\<in>set (ls_attestations (w_loop w)). ta_created_at t < clock) \<and>
     (\<forall>v\<in>set (ls_preapproval_events (w_loop w)). pv_created_at v < clock)"

definition same_preapprovals :: "release_world \<Rightarrow> release_world \<Rightarrow> bool" where
  "same_preapprovals w w' \<longleftrightarrow>
     ls_requests (w_loop w') = ls_requests (w_loop w) \<and> ls_attestations (w_loop w') = ls_attestations (w_loop
         w) \<and>
     ls_preapproval_events (w_loop w') = ls_preapproval_events (w_loop w) \<and> w_approvers w' = w_approvers w
         \<and>
     w_versions w' = w_versions w \<and> approvals (w_db w') = approvals (w_db w) \<and>
     approval_events (w_db w') = approval_events (w_db w) \<and> db_next_id (w_db w) \<le> db_next_id (w_db w')"

inductive preapproval_reach ::
  "(string \<Rightarrow> string) \<Rightarrow> (release_world \<Rightarrow> uuid \<Rightarrow> bool) \<Rightarrow>
      release_world \<Rightarrow> bool" for sha reaudits where
  empty: "ls_requests (w_loop w) = [] \<Longrightarrow> ls_attestations (w_loop w) = [] \<Longrightarrow>
      ls_preapproval_events (w_loop w) = [] \<Longrightarrow>
    w_approvers w = [] \<Longrightarrow> w_versions w = [] \<Longrightarrow> approvals_wf (w_db w)
        \<Longrightarrow> preapproval_reach sha reaudits w"
| requested: "preapproval_reach sha reaudits w \<Longrightarrow>
    committed sha w (preapproval_request sha reaudits ctx project key now clock w) = Inr (r, w') \<Longrightarrow>
    preapproval_reach sha reaudits w'"
| approved: "preapproval_reach sha reaudits w \<Longrightarrow> later clock w \<Longrightarrow>
    committed sha w (preapproval_approve sha reaudits ctx project request key now clock w) = Inr (r, w')
        \<Longrightarrow>
    preapproval_reach sha reaudits w'"
| rejected: "preapproval_reach sha reaudits w \<Longrightarrow>
    committed sha w (preapproval_reject sha reaudits ctx project request key now w) = Inr (r, w') \<Longrightarrow>
    preapproval_reach sha reaudits w'"
| cancelled: "preapproval_reach sha reaudits w \<Longrightarrow>
    committed sha w (preapproval_cancel sha ctx project request key w) = Inr (r, w') \<Longrightarrow>
    preapproval_reach sha reaudits w'"
| revoked: "preapproval_reach sha reaudits w \<Longrightarrow> later clock w \<Longrightarrow>
    committed sha w (preapproval_revoke sha ctx project attestation key clock w) = Inr (r, w') \<Longrightarrow>
    preapproval_reach sha reaudits w'"
| approvals: "preapproval_reach sha reaudits w \<Longrightarrow> approval_step (w_db w) d \<Longrightarrow>
    commit sha w (set_db d w) = Inr () \<Longrightarrow> preapproval_reach sha reaudits (set_db d w)"
| elsewhere: "preapproval_reach sha reaudits w \<Longrightarrow> same_preapprovals w w' \<Longrightarrow>
    preapproval_reach sha reaudits w'"

section \<open>The invariant\<close>

definition lifecycle_ok :: "preapproval_event_row list \<Rightarrow> bool" where
  "lifecycle_ok evs \<longleftrightarrow> lifecycle_linear evs \<and> lifecycle_ordered evs evs"

definition attested :: "request_row \<Rightarrow> approval_row \<Rightarrow> attestation_row \<Rightarrow> bool"
    where
  "attested r a t \<longleftrightarrow>
     ta_approval t = ap_id a \<and> ta_policy_version t = pq_policy_version r \<and>
     ta_release_candidate t = pq_release_candidate r \<and> ta_evidence_pack t = pq_evidence_pack r \<and>
     ta_verdict t = pq_verdict r \<and> ta_requester_hash t = pq_requester_hash r \<and>
     \<not> differs (ap_resolved_by a) (ta_approver_hash t) \<and> ap_approver_prov a = ''request_authenticated''
         \<and>
     ap_resolved_at a = Some (ta_approved_at t) \<and> gate_eligible_at_creation t"

definition member_of :: "release_world \<Rightarrow> uuid \<Rightarrow> string \<Rightarrow> bool" where
  "member_of w version h \<longleftrightarrow> (\<exists>m\<in>set (w_approvers w). pa_version m = version \<and>
      pa_hash m = h)"

definition request_ok :: "release_world \<Rightarrow> request_row \<Rightarrow> bool" where
  "request_ok w r \<longleftrightarrow>
     (\<exists>a. List.find (\<lambda>a. ap_id a = pq_approval r) (approvals (w_db w)) = Some a \<and>
         approval_shape r a \<and>
        (let ats = filter (\<lambda>t. ta_request t = pq_id r) (ls_attestations (w_loop w)) in
          length ats = (if ap_status a = APPROVED then 1 else 0) \<and>
          (\<forall>t\<in>set ats. attested r a t \<and> member_of w (pq_policy_version r) (ta_approver_hash t)
              \<and>
             lifecycle_ok (events_of (ta_id t) w))))"

definition live :: "release_world \<Rightarrow> attestation_row \<Rightarrow> bool" where
  "live w t \<longleftrightarrow> (\<forall>v\<in>set (ls_preapproval_events (w_loop w)). pv_attestation v = ta_id
      t \<longrightarrow>
     pv_type v \<notin> {''revoked'', ''superseded''})"

definition ids_ok :: "release_world \<Rightarrow> bool" where
  "ids_ok w \<longleftrightarrow>
     approvals_wf (w_db w) \<and> distinct (map pq_id (ls_requests (w_loop w))) \<and>
     distinct (map pq_approval (ls_requests (w_loop w))) \<and> distinct (map ta_id (ls_attestations (w_loop w)))
         \<and>
     (\<forall>i\<in>set (map pq_id (ls_requests (w_loop w)) @ map pq_policy_version (ls_requests (w_loop w)) @
              map ta_id (ls_attestations (w_loop w)) @ map pa_version (w_approvers w)). i < db_next_id (w_db w))"

definition rows_ok :: "release_world \<Rightarrow> bool" where
  "rows_ok w \<longleftrightarrow>
     (\<forall>r\<in>set (ls_requests (w_loop w)). pq_requester_type r \<in> {''human'', ''service''} \<and>
        pq_requester_prov r = ''request_authenticated'' \<and>
        (\<forall>m\<in>set (w_approvers w). pa_version m = pq_policy_version r \<longrightarrow> pa_tenant m =
            pq_tenant r)) \<and>
     (\<forall>t\<in>set (ls_attestations (w_loop w)). ta_approver_type t = ''human'' \<and>
        ta_expires_at t \<le> ta_approved_at t + hours 24 \<and>
        (\<exists>r\<in>set (ls_requests (w_loop w)). pq_id r = ta_request t \<and> pq_tenant r = ta_tenant t \<and>
           pq_project r = ta_project t)) \<and>
     (\<forall>v\<in>set (ls_preapproval_events (w_loop w)).
        pv_type v \<in> {''approved_anchor'', ''revoked'', ''superseded''} \<and>
        (\<exists>t\<in>set (ls_attestations (w_loop w)). ta_id t = pv_attestation v \<and> ta_tenant t =
            pv_tenant v)) \<and>
     (\<forall>m\<in>set (w_approvers w). pa_hash m \<noteq> [])"

definition one_live :: "release_world \<Rightarrow> bool" where
  "one_live w \<longleftrightarrow>
     sorted_wrt (<) (map ta_created_at (ls_attestations (w_loop w))) \<and>
     (\<forall>t\<in>set (ls_attestations (w_loop w)). \<forall>u\<in>set (ls_attestations (w_loop w)).
        live w t \<and> ta_tenant u = ta_tenant t \<and> ta_project u = ta_project t \<longrightarrow>
            ta_created_at u \<le> ta_created_at t)"

definition preapproval_ok :: "release_world \<Rightarrow> bool" where
  "preapproval_ok w \<longleftrightarrow>
     ids_ok w \<and> rows_ok w \<and> (\<forall>r\<in>set (ls_requests (w_loop w)). request_ok w r) \<and>
         one_live w"

section \<open>What the guard establishes, and what leaves it\<close>

lemma row_by_Inr [simp]: "row_by f i rows = Inr r \<longleftrightarrow> List.find (\<lambda>r. f r = i) rows =
    Some r"
  by (simp add: row_by_def split: option.split)

lemma lifecycle_ordered_subset:
  "lifecycle_ordered evs all_events \<Longrightarrow> set evs \<subseteq> set all_events \<Longrightarrow>
      lifecycle_ordered evs evs"
  unfolding lifecycle_ordered_def list_ex_iff by blast

lemma validate_attested_ok:
  assumes "validate_attested r a p w = Inr ()" "pp_id p = pq_policy_version r"
  defines "ats \<equiv> filter (\<lambda>t. ta_request t = pq_id r) (ls_attestations (w_loop w))"
  shows "length ats = (if ap_status a = APPROVED then 1 else 0)"
    "\<forall>t\<in>set ats. attested r a t \<and> member_of w (pq_policy_version r) (ta_approver_hash t) \<and>
       lifecycle_ok (events_of (ta_id t) w)"
proof -
  show len: "length ats = (if ap_status a = APPROVED then 1 else 0)"
    using assms(1) unfolding validate_attested_def Let_def ats_def by (auto split: if_splits)
  show "\<forall>t\<in>set ats. attested r a t \<and> member_of w (pq_policy_version r) (ta_approver_hash t) \<and>
       lifecycle_ok (events_of (ta_id t) w)"
  proof (cases ats)
    case (Cons t ts)
    then have one: "ats = [t]" using len by (auto split: if_splits)
    then have "attestation_graph r a p t w" "lifecycle_linear (events_of (ta_id t) w)"
      "lifecycle_ordered (events_of (ta_id t) w) (ls_preapproval_events (w_loop w))"
      using assms(1) len unfolding validate_attested_def Let_def ats_def [symmetric] by (auto split: if_splits)
    moreover have "set (events_of (ta_id t) w) \<subseteq> set (ls_preapproval_events (w_loop w))"
      by (auto simp: events_of_def)
    ultimately show ?thesis
      using one assms(2) lifecycle_ordered_subset
      by (auto simp: attestation_graph_def attested_def member_of_def lifecycle_ok_def list_ex_iff)
  qed simp
qed

lemma validated_request_ok:
  assumes "validate_request sha (pq_id r) w = Inr ()" "r \<in> set (ls_requests (w_loop w))"
    "distinct (map pq_id (ls_requests (w_loop w)))"
  shows "request_ok w r"
proof -
  have "List.find (\<lambda>q. pq_id q = pq_id r) (ls_requests (w_loop w)) = Some r"
    using assms(3,2) by (rule find_by_id)
  then obtain a p where "List.find (\<lambda>a. ap_id a = pq_approval r) (approvals (w_db w)) = Some a"
    "approval_shape r a" "List.find (\<lambda>p. pp_id p = pq_policy_version r) (w_versions w) = Some p"
    "validate_attested r a p w = Inr ()"
    using assms(1) by (auto simp: validate_request_def)
  moreover from this(3) have "pp_id p = pq_policy_version r" by (auto dest: find_Some_mem)
  ultimately show ?thesis
    using validate_attested_ok [of r a p w] unfolding request_ok_def Let_def by blast
qed

text \<open>How a transaction changes the tables of preapprovals.\<close>

definition grows ::
  "release_world \<Rightarrow> release_world \<Rightarrow> request_row list \<Rightarrow> attestation_row list
      \<Rightarrow> preapproval_event_row list \<Rightarrow>
     policy_approver_row list \<Rightarrow> bool" where
  "grows w w' rs ts vs ms \<longleftrightarrow>
     ls_requests (w_loop w') = ls_requests (w_loop w) @ rs \<and>
     ls_attestations (w_loop w') = ls_attestations (w_loop w) @ ts \<and>
     ls_preapproval_events (w_loop w') = ls_preapproval_events (w_loop w) @ vs \<and>
     w_approvers w' = w_approvers w @ ms \<and> approvals_wf (w_db w') \<and>
     ap_id ` set (approvals (w_db w)) \<subseteq> ap_id ` set (approvals (w_db w')) \<and>
     db_next_id (w_db w) \<le> db_next_id (w_db w')"

lemma find_by_id_iff:
  assumes "distinct (map f rows)"
  shows "List.find (\<lambda>r. f r = i) rows = Some r \<longleftrightarrow> r \<in> set rows \<and> f r = i"
  using find_by_id [OF assms, of r] by (auto dest: find_Some_mem)

lemma in_map_filter: "x \<in> set xs \<Longrightarrow> f x = Some y \<Longrightarrow> y \<in> set (List.map_filter
    f xs)"
  by (force simp: map_filter_def)

lemma guarded_intros:
  assumes "grows w w' rs ts vs ms"
  shows "r \<in> set rs \<Longrightarrow> pq_id r \<in> set (guarded_requests w w')"
    "t \<in> set ts \<Longrightarrow> ta_request t \<in> set (guarded_requests w w')"
    "v \<in> set vs \<Longrightarrow> List.find (\<lambda>t. ta_id t = pv_attestation v) (ls_attestations (w_loop
        w')) = Some u \<Longrightarrow>
       ta_request u \<in> set (guarded_requests w w')"
    "a \<in> set (approvals (w_db w')) \<Longrightarrow> b \<in> set (approvals (w_db w)) \<Longrightarrow> ap_id
        b = ap_id a \<Longrightarrow> b \<noteq> a \<Longrightarrow>
       List.find (\<lambda>r. pq_approval r = ap_id a) (ls_requests (w_loop w')) = Some q \<Longrightarrow>
       pq_id q \<in> set (guarded_requests w w')"
proof -
  have new: "inserted (ls_requests (w_loop w)) (ls_requests (w_loop w')) = rs"
    "inserted (ls_attestations (w_loop w)) (ls_attestations (w_loop w')) = ts"
    "inserted (ls_preapproval_events (w_loop w)) (ls_preapproval_events (w_loop w')) = vs"
    using assms by (simp_all add: grows_def inserted_def)
  note g = guarded_requests_def Let_def new set_append Un_iff
  show "r \<in> set rs \<Longrightarrow> pq_id r \<in> set (guarded_requests w w')"
    "t \<in> set ts \<Longrightarrow> ta_request t \<in> set (guarded_requests w w')"
    unfolding g by simp_all
  show "v \<in> set vs \<Longrightarrow> List.find (\<lambda>t. ta_id t = pv_attestation v) (ls_attestations
      (w_loop w')) = Some u \<Longrightarrow>
       ta_request u \<in> set (guarded_requests w w')"
    unfolding g by (rule disjI2, rule disjI2, rule disjI1, rule in_map_filter [of v]) simp_all
  assume "a \<in> set (approvals (w_db w'))" "b \<in> set (approvals (w_db w))" "ap_id b = ap_id a" "b \<noteq> a"
  then have "a \<in> set (updated_approvals (w_db w) (w_db w'))" by (auto simp: updated_approvals_def)
  moreover assume "List.find (\<lambda>r. pq_approval r = ap_id a) (ls_requests (w_loop w')) = Some q"
  ultimately show "pq_id q \<in> set (guarded_requests w w')"
    unfolding g by - (rule disjI2, rule disjI2, rule disjI2, rule in_map_filter [of a], simp_all)
qed

lemma request_ok_frame:
  assumes ok: "request_ok w r" "r \<in> set (ls_requests (w_loop w))" "ids_ok w"
    and g: "grows w w' rs ts vs ms" and ids: "ids_ok w'"
    and un: "pq_id r \<notin> set (guarded_requests w w')"
  shows "request_ok w' r"
proof -
  note guards = guarded_intros [OF g]
  obtain a where a: "List.find (\<lambda>a. ap_id a = pq_approval r) (approvals (w_db w)) = Some a"
      "approval_shape r a"
    "length (filter (\<lambda>t. ta_request t = pq_id r) (ls_attestations (w_loop w))) = (if ap_status a =
        APPROVED then 1 else 0)"
    "\<forall>t\<in>set (filter (\<lambda>t. ta_request t = pq_id r) (ls_attestations (w_loop w))).
       attested r a t \<and> member_of w (pq_policy_version r) (ta_approver_hash t) \<and> lifecycle_ok (events_of
           (ta_id t) w)"
    using ok(1) unfolding request_ok_def Let_def by blast
  have reqs: "ls_requests (w_loop w') = ls_requests (w_loop w) @ rs"
    and ats: "ls_attestations (w_loop w') = ls_attestations (w_loop w) @ ts"
    and evs: "ls_preapproval_events (w_loop w') = ls_preapproval_events (w_loop w) @ vs"
    and mem: "w_approvers w' = w_approvers w @ ms"
    using g by (simp_all add: grows_def)
  have dist: "distinct (map ap_id (approvals (w_db w')))" "distinct (map pq_approval (ls_requests (w_loop w')))"
    "distinct (map ta_id (ls_attestations (w_loop w')))"
    using ids by (simp_all add: ids_ok_def approvals_wf_def)
  from a(1) have am: "a \<in> set (approvals (w_db w))" "ap_id a = pq_approval r" by (auto dest: find_Some_mem)
  then have "pq_approval r \<in> ap_id ` set (approvals (w_db w'))" using g unfolding grows_def by (metis
      image_eqI subsetD)
  then obtain a' where a': "a' \<in> set (approvals (w_db w'))" "ap_id a' = pq_approval r" by auto
  have fr: "List.find (\<lambda>q. pq_approval q = ap_id a') (ls_requests (w_loop w')) = Some r"
    unfolding find_by_id_iff [OF dist(2)] using ok(2) reqs a'(2) by simp
  have "a' = a"
    using guards(4) [OF a'(1) am(1) _ _ fr] am(2) a'(2) un by fastforce
  with a' have fa: "List.find (\<lambda>a. ap_id a = pq_approval r) (approvals (w_db w')) = Some a"
    unfolding find_by_id_iff [OF dist(1)] by simp
  have fil: "filter (\<lambda>t. ta_request t = pq_id r) (ls_attestations (w_loop w')) =
      filter (\<lambda>t. ta_request t = pq_id r) (ls_attestations (w_loop w))"
    using un guards(2) unfolding ats by (fastforce simp: filter_empty_conv)
  have ev: "events_of (ta_id t) w' = events_of (ta_id t) w"
    if t: "t \<in> set (filter (\<lambda>t. ta_request t = pq_id r) (ls_attestations (w_loop w)))" for t
  proof -
    have "List.find (\<lambda>u. ta_id u = ta_id t) (ls_attestations (w_loop w')) = Some t"
      unfolding find_by_id_iff [OF dist(3)] using t ats by simp
    then have "pv_attestation v \<noteq> ta_id t" if "v \<in> set vs" for v
      using un guards(3) [OF that, of t] t by fastforce
    then show ?thesis unfolding events_of_def evs by (auto simp: filter_empty_conv)
  qed
  have "member_of w' v h" if "member_of w v h" for v h
    using that by (auto simp: member_of_def mem)
  with a(2-) fa ev show ?thesis
    unfolding request_ok_def Let_def fil by (intro exI [of _ a]) auto
qed

text \<open>A committed transaction keeps every request in order.\<close>

lemma committed_requests_ok:
  assumes "\<forall>r\<in>set (ls_requests (w_loop w)). request_ok w r" "ids_ok w" "grows w w' rs ts vs ms"
      "ids_ok w'"
    "commit sha w w' = Inr ()"
  shows "\<forall>r\<in>set (ls_requests (w_loop w')). request_ok w' r"
proof
  fix r assume r: "r \<in> set (ls_requests (w_loop w'))"
  have dist: "distinct (map pq_id (ls_requests (w_loop w')))" using assms(4) by (simp add: ids_ok_def)
  show "request_ok w' r"
  proof (cases "pq_id r \<in> set (guarded_requests w w')")
    case True
    then have "validate_request sha (pq_id r) w' = Inr ()" using assms(5) by (simp add: commit_def)
    then show ?thesis using r dist by (rule validated_request_ok)
  next
    case False
    then have "r \<notin> set rs" using guarded_intros(1) [OF assms(3)] by blast
    then have "r \<in> set (ls_requests (w_loop w))" using r assms(3) by (auto simp: grows_def)
    with assms(1) show ?thesis by (intro request_ok_frame [OF _ _ assms(2-4) False]) auto
  qed
qed

section \<open>The effects of the workflow\<close>

lemma set_db_simps [simp]:
  "w_db (set_db d w) = d" "ls_requests (w_loop (set_db d w)) = ls_requests (w_loop w)"
  "ls_attestations (w_loop (set_db d w)) = ls_attestations (w_loop w)"
  "ls_preapproval_events (w_loop (set_db d w)) = ls_preapproval_events (w_loop w)"
  "w_approvers (set_db d w) = w_approvers w" "w_versions (set_db d w) = w_versions w"
  "w_notifications (set_db d w) = w_notifications w" "set_db d (set_db e w) = set_db d w"
  by (simp_all add: set_db_def)

lemma bump_simps [simp]:
  "w_db (bump w) = (w_db w)\<lparr>db_next_id := db_next_id (w_db w) + 1\<rparr>"
  "ls_requests (w_loop (bump w)) = ls_requests (w_loop w)"
  "ls_attestations (w_loop (bump w)) = ls_attestations (w_loop w)"
  "ls_preapproval_events (w_loop (bump w)) = ls_preapproval_events (w_loop w)"
  "w_approvers (bump w) = w_approvers w" "w_versions (bump w) = w_versions w"
  "w_notifications (bump w) = w_notifications w"
  by (simp_all add: bump_def)

lemma preapproval_audit_simps [simp]:
  "ls_requests (w_loop (preapproval_audit ctx a p t u st r w)) = ls_requests (w_loop w)"
  "ls_attestations (w_loop (preapproval_audit ctx a p t u st r w)) = ls_attestations (w_loop w)"
  "ls_preapproval_events (w_loop (preapproval_audit ctx a p t u st r w)) = ls_preapproval_events (w_loop w)"
  "w_approvers (preapproval_audit ctx a p t u st r w) = w_approvers w"
  "approvals (w_db (preapproval_audit ctx a p t u st r w)) = approvals (w_db w)"
  "approval_events (w_db (preapproval_audit ctx a p t u st r w)) = approval_events (w_db w)"
  "db_next_id (w_db (preapproval_audit ctx a p t u st r w)) = db_next_id (w_db w)"
  by (simp_all add: preapproval_audit_def)

lemma approvals_wf_mono:
  assumes "approvals_wf d" "approvals d' = approvals d" "approval_events d' = approval_events d"
    "db_next_id d \<le> db_next_id d'"
  shows "approvals_wf d'"
  using assms by (fastforce simp: approvals_wf_def approval_history_def)

lemma append_policy_snapshot_effect:
  assumes "append_policy_snapshot sha ctx project cs w = Inr (p, w')"
  obtains ms where "w' = (bump w)\<lparr>w_versions := w_versions w @ [p], w_approvers := w_approvers w @
      ms\<rparr>"
    "pp_id p = db_next_id (w_db w)"
    "\<forall>m\<in>set ms. pa_version m = db_next_id (w_db w) \<and> pa_tenant m = ctx_tenant ctx \<and> pa_hash
        m \<noteq> []"
proof -
  obtain parsed pc cc where some: "cs_parsed_policy cs = Some parsed" "cs_policy_category cs = Some pc"
    "cs_checklist_category cs = Some cc"
    using assms by (auto simp: append_policy_snapshot_def split: option.splits)
  have ne: "h \<noteq> []" if "h \<in> set (rp_approver_hashes parsed)" for h
    using assms that by (auto simp: append_policy_snapshot_def some ordered_value_digest_def list_all_iff)
  show thesis
    using assms ne by (auto simp: append_policy_snapshot_def some Let_def intro!: that dest!: set_zip_rightD)
qed

lemma request_and_notify_effect:
  assumes "request_and_notify_approval ctx q actor ch now clock (ns, d) = Inr (a, n, ns', d')" "approvals_wf d"
  shows "ap_id a = db_next_id d" "approvals d' = approvals d @ [a]" "approvals_wf d'" "db_next_id d \<le>
      db_next_id d'"
    "ns' = ns @ [n]" "nt_approval n = ap_id a"
proof -
  obtain d1 where r: "approval_request ctx q now d = Inr (a, d1)"
    and n: "notify_for_approval ctx a (str_or (rq_audit_actor q) actor) ch clock (ns, d1) = Inr (n, ns', d')"
    using assms(1) by (auto simp: request_and_notify_approval_def split: sum.splits)
  have d1: "approvals d1 = approvals d @ [a]" "ap_id a = db_next_id d" "db_next_id d1 = Suc (db_next_id d)"
    by (rule approval_request_cases [OF r]; simp)+
  note wf = approval_request_wf [OF assms(2) r]
  show "ap_id a = db_next_id d" by (rule d1(2))
  show "approvals d' = approvals d @ [a]" "approvals_wf d'" "db_next_id d \<le> db_next_id d'" "ns' = ns @ [n]"
    "nt_approval n = ap_id a"
    by (rule notify_for_approval_row [OF n]; use d1 in \<open>simp add: approvals_wf_mono [OF wf]\<close>)+
qed

lemma append_request_effect:
  assumes "append_request sha ctx project i cs version a n h ty key clock w = Inr (r, w')"
  shows "w' = w\<lparr>w_loop := (w_loop w)\<lparr>ls_requests := ls_requests (w_loop w) @ [r]\<rparr>\<rparr>"
    "pq_id r = i" "pq_tenant r = ctx_tenant ctx" "pq_project r = project" "pq_policy_version r = pp_id version"
    "pq_approval r = ap_id a" "request_constraints r (ls_requests (w_loop w))"
  using assms by (auto simp: append_request_def Let_def split: option.splits)

lemma preapproval_request_effect:
  assumes "preapproval_request sha reaudits ctx project key now clock w = Inr (res, w')" "approvals_wf (w_db w)"
  shows "w' = w \<or>
    (\<exists>r ms. grows w w' [r] [] [] ms \<and> pq_id r = Suc (db_next_id (w_db w)) \<and> pq_id r < db_next_id
        (w_db w') \<and>
      pq_policy_version r = db_next_id (w_db w) \<and> pq_tenant r = ctx_tenant ctx \<and>
      request_constraints r (ls_requests (w_loop w)) \<and>
      (\<forall>m\<in>set ms. pa_version m = db_next_id (w_db w) \<and> pa_tenant m = ctx_tenant ctx \<and>
          pa_hash m \<noteq> []))"
proof -
  obtain actor key_hash where pre: "require_actor ctx = Inr actor" "idempotency_digest sha key = Inr key_hash"
    using assms(1) unfolding preapproval_request_def by auto
  note run = assms(1) [unfolded preapproval_request_def pre lift_error_simps bindE_simps]
  show ?thesis
  proof (cases "find_request_by_idempotency ctx project key_hash w")
    case (Some existing)
    then show ?thesis using run by simp
  next
    case None
    obtain cs version w1 h a n ns d r w3 where new:
      "append_policy_snapshot sha ctx project cs w = Inr (version, w1)"
      "request_and_notify_approval ctx (preapproval_args project (db_next_id (w_db w1)) h) REQUESTER
          DashboardChannel
         now clock (w_notifications (bump w1), w_db (bump w1)) = Inr (a, n, ns, d)"
      "append_request sha ctx project (db_next_id (w_db w1)) cs version a n h (actor_type actor) key_hash clock
         ((set_db d (bump w1))\<lparr>w_notifications := ns\<rparr>) = Inr (r, w3)"
      "w' = preapproval_audit ctx ''production_preapproval.requested'' project (pq_id r) REQUESTER ''pending''
         (Some (pq_id r)) w3"
      using run unfolding None Let_def option.case by (auto simp del: bump_simps)
    from append_policy_snapshot_effect [OF new(1)] obtain ms where w1:
      "w1 = (bump w)\<lparr>w_versions := w_versions w @ [version], w_approvers := w_approvers w @ ms\<rparr>"
      "pp_id version = db_next_id (w_db w)"
      "\<forall>m\<in>set ms. pa_version m = db_next_id (w_db w) \<and> pa_tenant m = ctx_tenant ctx \<and>
          pa_hash m \<noteq> []" by blast
    have wf: "approvals_wf (w_db (bump w1))"
      by (rule approvals_wf_mono [OF assms(2)]) (simp_all add: w1(1))
    note req = request_and_notify_effect [OF new(2) wf]
    note app = append_request_effect [OF new(3)]
    have "grows w w' [r] [] [] ms"
      using req unfolding grows_def new(4) app(1)
      by (auto simp: w1(1) intro: approvals_wf_mono [OF req(3)])
    moreover have "pq_id r < db_next_id (w_db w')"
      using req(1-4) app(2) unfolding new(4) app(1) by (simp add: w1(1) approvals_wf_def)
    ultimately show ?thesis
      using app(2-7) w1 by (intro disjI2 exI [of _ r] exI [of _ ms]) simp
  qed
qed

lemma resolution_effect:
  assumes "resolve_by_human ctx t q d = Inr (a, d')" "approvals_wf d" "t \<in> {APPROVED, REJECTED, CANCELLED}"
  shows "approvals_wf d'" "ap_id ` set (approvals d') = ap_id ` set (approvals d)" "db_next_id d' = db_next_id d"
proof -
  show "approvals_wf d'" using assms(2,1,3) by (rule resolve_by_human_wf)
  from assms(1) show "ap_id ` set (approvals d') = ap_id ` set (approvals d)" "db_next_id d' = db_next_id d"
    by (rule resolve_by_human_cases; use ap_transition_frame in \<open>force simp flip: set_map\<close>)+
qed

lemma append_attestation_effect:
  assumes "append_attestation ctx request a h ty key ex clock w = Inr (t, w')"
  shows "w' = (bump w)\<lparr>w_loop := (w_loop (bump w))\<lparr>ls_attestations := ls_attestations (w_loop w) @
      [t]\<rparr>\<rparr>"
    "ta_id t = db_next_id (w_db w)" "ta_tenant t = ctx_tenant ctx" "ta_project t = pq_project request"
    "ta_request t = pq_id request" "ta_created_at t = clock" "attestation_constraints t (ls_attestations (w_loop
        w))"
  using assms by (auto simp: append_attestation_def Let_def split: option.splits)

lemma append_lifecycle_event_effect:
  assumes "append_lifecycle_event ctx t prev ty h at reason key clock w = Inr (v, w')"
  shows "w' = (bump w)\<lparr>w_loop := (w_loop (bump w))\<lparr>ls_preapproval_events := ls_preapproval_events
      (w_loop w) @ [v]\<rparr>\<rparr>"
    "pv_tenant v = ctx_tenant ctx" "pv_attestation v = ta_id t" "pv_type v = ty" "pv_created_at v = clock"
    "event_constraints v (ls_preapproval_events (w_loop w))"
  using assms by (auto simp: append_lifecycle_event_def Let_def)

text \<open>The latest other attestation of a project, and the events that supersede it.\<close>

definition prior_attestation :: "uuid \<Rightarrow> uuid \<Rightarrow> uuid \<Rightarrow> release_world
    \<Rightarrow> attestation_row option" where
  "prior_attestation tenant project current w =
     latest_by (\<lambda>t. (ta_created_at t, ta_id t))
       (filter (\<lambda>t. ta_tenant t = tenant \<and> ta_project t = project \<and> ta_id t \<noteq> current)
           (ls_attestations (w_loop w)))"

definition supersedes :: "tenant_context \<Rightarrow> uuid \<Rightarrow> uuid \<Rightarrow> release_world
    \<Rightarrow> preapproval_event_row list \<Rightarrow> bool" where
  "supersedes ctx project current w vs \<longleftrightarrow>
     (case prior_attestation (ctx_tenant ctx) project current w of
        None \<Rightarrow> vs = []
      | Some prior \<Rightarrow>
          (if map_option pv_type (latest_lifecycle ctx (ta_id prior) w) = Some ''approved_anchor''
           then \<exists>v. vs = [v] \<and> pv_attestation v = ta_id prior \<and> pv_type v = ''superseded'' \<and>
                    pv_tenant v = ctx_tenant ctx
           else vs = []))"

lemma supersede_prior_effect:
  assumes "supersede_prior sha ctx project t h ty key clock w = Inr w'"
  obtains vs where "supersedes ctx project (ta_id t) w vs" "\<forall>v\<in>set vs. pv_created_at v = clock"
    "ls_preapproval_events (w_loop w') = ls_preapproval_events (w_loop w) @ vs"
    "ls_requests (w_loop w') = ls_requests (w_loop w)" "ls_attestations (w_loop w') = ls_attestations (w_loop w)"
    "w_approvers w' = w_approvers w" "approvals (w_db w') = approvals (w_db w)"
    "approval_events (w_db w') = approval_events (w_db w)" "db_next_id (w_db w) \<le> db_next_id (w_db w')"
proof -
  note run = assms [unfolded supersede_prior_def, folded prior_attestation_def]
  show thesis
  proof (cases "prior_attestation (ctx_tenant ctx) project (ta_id t) w")
    case None
    then show thesis using run by (intro that [of "[]"]) (auto simp: supersedes_def)
  next
    case (Some prior)
    show thesis
    proof (cases "map_option pv_type (latest_lifecycle ctx (ta_id prior) w) = Some ''approved_anchor''")
      case True
      then obtain head where head: "latest_lifecycle ctx (ta_id prior) w = Some head" "pv_type head =
          ''approved_anchor''"
        by auto
      with run Some obtain key' v where
        "append_lifecycle_event ctx prior (Some (pv_id head)) ''superseded'' h ty
           ''newer_current_binding_preapproval_approved'' key' clock w = Inr (v, w')" by auto
      note ev = append_lifecycle_event_effect [OF this]
      from ev head show thesis
        by (intro that [of "[v]"]) (simp_all add: supersedes_def Some)
    next
      case False
      with run Some show thesis
        by (intro that [of "[]"]) (auto simp: supersedes_def split: option.splits if_splits)
    qed
  qed
qed

lemma preapproval_approve_effect:
  assumes "preapproval_approve sha reaudits ctx project request_id key now clock w = Inr (res, w')"
    "approvals_wf (w_db w)"
  shows "w' = w \<or>
    (\<exists>r t anchor vs w3. r \<in> set (ls_requests (w_loop w)) \<and> pq_id r = ta_request t \<and>
        pq_tenant r = ctx_tenant ctx \<and>
       pq_project r = project \<and> grows w w' [] [t] (anchor # vs) [] \<and>
       ta_id t = db_next_id (w_db w) \<and> ta_id t < db_next_id (w_db w') \<and> ta_tenant t = ctx_tenant ctx
           \<and>
       ta_project t = project \<and> ta_created_at t = clock \<and>
       attestation_constraints t (ls_attestations (w_loop w)) \<and>
       pv_attestation anchor = ta_id t \<and> pv_type anchor = ''approved_anchor'' \<and> pv_tenant anchor =
           ctx_tenant ctx \<and>
       ls_attestations (w_loop w3) = ls_attestations (w_loop w) @ [t] \<and>
       ls_preapproval_events (w_loop w3) = ls_preapproval_events (w_loop w) @ [anchor] \<and>
       supersedes ctx project (ta_id t) w3 vs)"
proof -
  obtain request approval where ra: "request_and_approval ctx project request_id w = Inr (request, approval)"
    using assms(1) by (auto simp: preapproval_approve_def)
  then have r: "request \<in> set (ls_requests (w_loop w))" "pq_tenant request = ctx_tenant ctx" "pq_project
      request = project"
    by (auto simp: request_and_approval_def get_request_def dest!: find_Some_mem split: option.splits)
  note run = assms(1) [unfolded preapproval_approve_def ra bindE_simps prod.case]
  show ?thesis
  proof (cases "ap_status approval = APPROVED \<and> attestation_for_request ctx (pq_id request) w \<noteq> None")
    case True
    then show ?thesis using run by auto
  next
    case False
    have pending: "ap_status approval \<noteq> APPROVED"
    proof
      assume a: "ap_status approval = APPROVED"
      with False have "attestation_for_request ctx (pq_id request) w = None" by simp
      with run a show False by simp
    qed
    obtain actor :: authenticated_actor and h approved w1 resolved kh t w2 ak anchor w3 w4 where new:
      "approve_generic ctx (ap_id approval) h w = Inr (approved, w1)" "ap_resolved_at approved = Some resolved"
      "append_attestation ctx request approved h (actor_type actor) kh (resolved + hours 24) clock w1 = Inr (t, w2)"
      "append_lifecycle_event ctx t None ''approved_anchor'' h (actor_type actor)
         ''request_authenticated_preapproval_recorded'' ak clock w2 = Inr (anchor, w3)"
      "supersede_prior sha ctx project t h (actor_type actor) kh clock w3 = Inr w4"
      "w' = preapproval_audit ctx ''production_preapproval.approved'' project (ta_id t) APPROVER
         ''approved_key_custody_under_recorded_policy'' (Some (pq_id request)) w4"
      using run pending by (auto split: option.splits)
    from new(1) obtain d where d: "Approvals.approve ctx (resolution_args (ap_id approval) APPROVER h) (w_db w) =
        Inr (approved, d)"
      "w1 = set_db d w"
      by (auto simp: approve_generic_def split: sum.splits approval_error.splits)
    note res = resolution_effect [OF d(1) [unfolded approve_def] assms(2)]
    note att = append_attestation_effect [OF new(3)]
    note anc = append_lifecycle_event_effect [OF new(4)]
    obtain vs where vs: "supersedes ctx project (ta_id t) w3 vs"
      "ls_preapproval_events (w_loop w4) = ls_preapproval_events (w_loop w3) @ vs"
      "ls_requests (w_loop w4) = ls_requests (w_loop w3)" "ls_attestations (w_loop w4) = ls_attestations (w_loop
          w3)"
      "w_approvers w4 = w_approvers w3" "approvals (w_db w4) = approvals (w_db w3)"
      "approval_events (w_db w4) = approval_events (w_db w3)" "db_next_id (w_db w3) \<le> db_next_id (w_db w4)"
      using supersede_prior_effect [OF new(5)] by metis
    have w3: "ls_attestations (w_loop w3) = ls_attestations (w_loop w) @ [t]"
      "ls_preapproval_events (w_loop w3) = ls_preapproval_events (w_loop w) @ [anchor]"
      "ls_requests (w_loop w3) = ls_requests (w_loop w)" "w_approvers w3 = w_approvers w"
      "approvals (w_db w3) = approvals d" "approval_events (w_db w3) = approval_events d"
      "db_next_id (w_db w3) = db_next_id d + 2"
      by (simp_all add: anc(1) att(1) d(2))
    have wf: "approvals_wf (w_db w')"
      by (rule approvals_wf_mono [OF res(1)]) (use w3 vs in \<open>simp_all add: new(6)\<close>)
    have "grows w w' [] [t] (anchor # vs) []"
      using wf w3 vs res(2,3) unfolding grows_def by (simp add: new(6))
    moreover have "ta_id t = db_next_id (w_db w)" "ta_id t < db_next_id (w_db w')"
      using att(2) w3 vs(8) res(3) by (simp_all add: d(2) new(6))
    moreover have "attestation_constraints t (ls_attestations (w_loop w))" using att(7) by (simp add: d(2))
    ultimately show ?thesis
      using r att anc w3(1,2) vs(1)
      by (intro disjI2 exI [of _ request] exI [of _ t] exI [of _ anchor] exI [of _ vs] exI [of _ w3]) simp
  qed
qed

lemma resolution_grows:
  assumes "resolve_by_human ctx t q (w_db w) = Inr (a, d)" "approvals_wf (w_db w)" "t \<in> {REJECTED, CANCELLED}"
  shows "grows w (preapproval_audit ctx act p i u st j (set_db d w)) [] [] [] []"
proof -
  have t: "t \<in> {APPROVED, REJECTED, CANCELLED}" using assms(3) by blast
  note res = resolution_effect [OF assms(1,2) t]
  have "approvals_wf (w_db (preapproval_audit ctx act p i u st j (set_db d w)))"
    by (rule approvals_wf_mono [OF res(1)]) simp_all
  then show ?thesis using res(2,3) by (simp add: grows_def)
qed

lemma preapproval_reject_effect:
  assumes "preapproval_reject sha reaudits ctx project request_id key now w = Inr (res, w')" "approvals_wf (w_db w)"
  shows "w' = w \<or> grows w w' [] [] [] []"
proof -
  obtain request approval where ra: "request_and_approval ctx project request_id w = Inr (request, approval)"
    using assms(1) by (auto simp: preapproval_reject_def)
  note run = assms(1) [unfolded preapproval_reject_def ra bindE_simps prod.case]
  show ?thesis
  proof (cases "ap_status approval = REJECTED")
    case False
    then obtain h x d where d: "Approvals.reject ctx (resolution_args (ap_id approval) APPROVER h) (w_db w) = Inr
        (x, d)"
      "w' = preapproval_audit ctx ''production_preapproval.rejected'' project (pq_id request) APPROVER ''rejected''
         (Some (pq_id request)) (set_db d w)"
      using run by auto
    show ?thesis unfolding d(2) using resolution_grows [OF d(1) [unfolded reject_def] assms(2)] by simp
  qed (use run in simp)
qed

lemma preapproval_cancel_effect:
  assumes "preapproval_cancel sha ctx project request_id key w = Inr (res, w')" "approvals_wf (w_db w)"
  shows "w' = w \<or> grows w w' [] [] [] []"
proof -
  obtain request approval where ra: "request_and_approval ctx project request_id w = Inr (request, approval)"
    using assms(1) by (auto simp: preapproval_cancel_def)
  note run = assms(1) [unfolded preapproval_cancel_def ra bindE_simps prod.case]
  show ?thesis
  proof (cases "ap_status approval = CANCELLED")
    case True
    then show ?thesis using run by auto
  next
    case False
    then obtain h x d where d: "Approvals.cancel ctx (resolution_args (ap_id approval) REQUESTER h) (w_db w) = Inr
        (x, d)"
      "w' = preapproval_audit ctx ''production_preapproval.cancelled'' project (pq_id request) REQUESTER
          ''cancelled''
         (Some (pq_id request)) (set_db d w)"
      using run by auto
    show ?thesis unfolding d(2) using resolution_grows [OF d(1) [unfolded cancel_def] assms(2)] by simp
  qed
qed

lemma preapproval_revoke_effect:
  assumes "preapproval_revoke sha ctx project attestation_id key clock w = Inr (res, w')" "approvals_wf (w_db w)"
  shows "w' = w \<or>
    (\<exists>t v. t \<in> set (ls_attestations (w_loop w)) \<and> ta_id t = attestation_id \<and> ta_tenant t =
        ctx_tenant ctx \<and>
       grows w w' [] [] [v] [] \<and>
       pv_attestation v = ta_id t \<and> pv_type v = ''revoked'' \<and> pv_tenant v = ctx_tenant ctx)"
proof -
  obtain t request where t: "get_attestation ctx project attestation_id w = Some t"
    "get_request ctx project (ta_request t) w = Some request"
    using assms(1) by (auto simp: preapproval_revoke_def split: option.splits)
  then have tm: "t \<in> set (ls_attestations (w_loop w))" "ta_id t = attestation_id" "ta_tenant t = ctx_tenant ctx"
    by (auto simp: get_attestation_def dest!: find_Some_mem)
  obtain head where head: "latest_lifecycle ctx (ta_id t) w = Some head"
    using assms(1) t by (auto simp: preapproval_revoke_def split: option.splits)
  show ?thesis
  proof (cases "pv_type head = ''revoked''")
    case True
    then show ?thesis using assms(1) t head by (auto simp: preapproval_revoke_def)
  next
    case False
    then obtain h and actor :: authenticated_actor and kh v w1 where v:
      "append_lifecycle_event ctx t (Some (pv_id head)) ''revoked'' h (actor_type actor)
         ''request_authenticated_preapproval_revoked'' kh clock w = Inr (v, w1)"
      "w' = preapproval_audit ctx ''production_preapproval.revoked'' project (pv_id v) APPROVER ''revoked''
         (Some (pq_id request)) w1"
      using assms(1) t head by (auto simp: preapproval_revoke_def)
    note ev = append_lifecycle_event_effect [OF v(1)]
    have "approvals_wf (w_db w')"
      by (rule approvals_wf_mono [OF assms(2)]) (simp_all add: v(2) ev(1))
    then have "grows w w' [] [] [v] []" by (simp add: grows_def v(2) ev(1))
    with tm ev show ?thesis by blast
  qed
qed

lemma approval_step_next: "approval_step d d' \<Longrightarrow> db_next_id d \<le> db_next_id d'"
proof (induction rule: approval_step.induct)
  case (step_request ctx q now d a d')
  then show ?case by (rule approval_request_cases) simp
next
  case (step_expire ctx i now clock d r d')
  then show ?case
  proof (cases rule: expire_cases)
    case (lapsed x t d1 a1)
    then show ?thesis using ap_transition_frame(2) by fastforce
  qed simp
qed (auto simp: approve_def reject_def cancel_def elim!: resolve_by_human_cases dest: ap_transition_frame(2))

lemma approval_step_grows:
  assumes "approval_step (w_db w) d" "approvals_wf (w_db w)"
  shows "grows w (set_db d w) [] [] [] []"
  using approval_step_wf [OF assms] approval_step_next [OF assms(1)] approval_step_moves [OF assms]
  by (auto simp: grows_def) (metis image_eqI)

section \<open>Every step keeps the invariant\<close>

lemma distinct_grown:
  "distinct (map f xs) \<Longrightarrow> distinct (map f ys) \<Longrightarrow> (\<forall>y\<in>set ys.
      \<forall>x\<in>set xs. f x \<noteq> f y) \<Longrightarrow> distinct (map f (xs @ ys))"
  by auto

lemma grown_ok:
  assumes ok: "preapproval_ok w" and g: "grows w w' rs ts vs ms" and c: "commit sha w w' = Inr ()"
    and rs: "rs = [] \<and> ms = [] \<or> (\<exists>r. rs = [r] \<and> pq_id r = Suc (db_next_id (w_db w)) \<and>
        pq_id r < db_next_id (w_db w') \<and>
      pq_policy_version r = db_next_id (w_db w) \<and> request_constraints r (ls_requests (w_loop w)) \<and>
      (\<forall>m\<in>set ms. pa_version m = db_next_id (w_db w) \<and> pa_tenant m = pq_tenant r \<and> pa_hash m
          \<noteq> []))"
    and ts: "ts = [] \<or> (\<exists>t r. ts = [t] \<and> ta_id t = db_next_id (w_db w) \<and> ta_id t <
        db_next_id (w_db w') \<and>
      attestation_constraints t (ls_attestations (w_loop w)) \<and> r \<in> set (ls_requests (w_loop w)) \<and>
      pq_id r = ta_request t \<and> pq_tenant r = ta_tenant t \<and> pq_project r = ta_project t)"
    and vs: "\<forall>v\<in>set vs. pv_type v \<in> {''approved_anchor'', ''revoked'', ''superseded''} \<and>
      (\<exists>t\<in>set (ls_attestations (w_loop w')). ta_id t = pv_attestation v \<and> ta_tenant t = pv_tenant
          v)"
    and live: "one_live w'"
  shows "preapproval_ok w'"
proof -
  have w': "ls_requests (w_loop w') = ls_requests (w_loop w) @ rs"
    "ls_attestations (w_loop w') = ls_attestations (w_loop w) @ ts"
    "ls_preapproval_events (w_loop w') = ls_preapproval_events (w_loop w) @ vs"
    "w_approvers w' = w_approvers w @ ms" "approvals_wf (w_db w')" "db_next_id (w_db w) \<le> db_next_id (w_db w')"
    using g by (simp_all add: grows_def)
  have i: "ids_ok w" and r: "rows_ok w" and q: "\<forall>r\<in>set (ls_requests (w_loop w)). request_ok w r"
    using ok by (simp_all add: preapproval_ok_def)
  have n: "x < db_next_id (w_db w')" if "x < db_next_id (w_db w)" for x using that w'(6) by simp
  note old = i [unfolded ids_ok_def]
  have R: "distinct (map pq_id rs) \<and> distinct (map pq_approval rs) \<and>
      (\<forall>r\<in>set rs. pq_id r < db_next_id (w_db w') \<and> pq_policy_version r < db_next_id (w_db w')
          \<and>
         pq_requester_type r \<in> {''human'', ''service''} \<and> pq_requester_prov r = ''request_authenticated''
             \<and>
         (\<forall>q\<in>set (ls_requests (w_loop w)). pq_id q \<noteq> pq_id r \<and> pq_approval q \<noteq>
             pq_approval r) \<and>
         (\<forall>m\<in>set (w_approvers w @ ms). pa_version m = pq_policy_version r \<longrightarrow> pa_tenant
             m = pq_tenant r))"
    using rs
  proof
    assume "\<exists>r. rs = [r] \<and> pq_id r = Suc (db_next_id (w_db w)) \<and> pq_id r < db_next_id (w_db w')
        \<and>
      pq_policy_version r = db_next_id (w_db w) \<and> request_constraints r (ls_requests (w_loop w)) \<and>
      (\<forall>m\<in>set ms. pa_version m = db_next_id (w_db w) \<and> pa_tenant m = pq_tenant r \<and> pa_hash m
          \<noteq> [])"
    then obtain r where x: "rs = [r]" "pq_id r = Suc (db_next_id (w_db w))" "pq_id r < db_next_id (w_db w')"
      "pq_policy_version r = db_next_id (w_db w)" "request_constraints r (ls_requests (w_loop w))"
      "\<forall>m\<in>set ms. pa_tenant m = pq_tenant r" by blast
    have "pq_id q < Suc (db_next_id (w_db w))" if "q \<in> set (ls_requests (w_loop w))" for q
      using old that by (simp add: ball_Un less_SucI)
    then have "\<forall>q\<in>set (ls_requests (w_loop w)). pq_id q \<noteq> pq_id r" using x(2) by (metis
        less_irrefl)
    moreover have "\<forall>m\<in>set (w_approvers w). pa_version m < db_next_id (w_db w)" using old by (simp add:
        ball_Un)
    moreover have "\<forall>q\<in>set (ls_requests (w_loop w)). pq_approval q \<noteq> pq_approval r"
      "pq_requester_type r \<in> {''human'', ''service''}" "pq_requester_prov r = ''request_authenticated''"
      using x(5) by (simp_all add: request_constraints_def list_all_iff)
    ultimately show ?thesis using x by auto
  qed simp
  have M: "\<forall>m\<in>set ms. pa_version m = db_next_id (w_db w) \<and> db_next_id (w_db w) < db_next_id (w_db
      w') \<and> pa_hash m \<noteq> []"
    using rs by auto
  have T: "distinct (map ta_id ts) \<and>
      (\<forall>t\<in>set ts. ta_id t < db_next_id (w_db w') \<and> (\<forall>u\<in>set (ls_attestations (w_loop
          w)). ta_id u \<noteq> ta_id t) \<and>
         ta_approver_type t = ''human'' \<and> ta_expires_at t \<le> ta_approved_at t + hours 24 \<and>
         (\<exists>r\<in>set (ls_requests (w_loop w)). pq_id r = ta_request t \<and> pq_tenant r = ta_tenant t
             \<and> pq_project r = ta_project t))"
    using ts
  proof
    assume "\<exists>t r. ts = [t] \<and> ta_id t = db_next_id (w_db w) \<and> ta_id t < db_next_id (w_db w') \<and>
      attestation_constraints t (ls_attestations (w_loop w)) \<and> r \<in> set (ls_requests (w_loop w)) \<and>
      pq_id r = ta_request t \<and> pq_tenant r = ta_tenant t \<and> pq_project r = ta_project t"
    then obtain t where x: "ts = [t]" "ta_id t = db_next_id (w_db w)" "ta_id t < db_next_id (w_db w')"
      "attestation_constraints t (ls_attestations (w_loop w))"
      "\<exists>r\<in>set (ls_requests (w_loop w)). pq_id r = ta_request t \<and> pq_tenant r = ta_tenant t \<and>
          pq_project r = ta_project t"
      by blast
    have "\<forall>u\<in>set (ls_attestations (w_loop w)). ta_id u < db_next_id (w_db w)" using old by (simp add:
        ball_Un)
    then show ?thesis using x by (auto simp: attestation_constraints_def)
  qed simp
  note R1 = R [THEN conjunct1] and R2 = R [THEN conjunct2, THEN conjunct1] and R3 = R [THEN conjunct2, THEN
      conjunct2]
  note T1 = T [THEN conjunct1] and T2 = T [THEN conjunct2]
  have below: "\<forall>q\<in>set (ls_requests (w_loop w)). pq_id q < db_next_id (w_db w) \<and> pq_policy_version
      q < db_next_id (w_db w)"
    "\<forall>t\<in>set (ls_attestations (w_loop w)). ta_id t < db_next_id (w_db w)"
    "\<forall>m\<in>set (w_approvers w). pa_version m < db_next_id (w_db w)"
    using old by (simp_all add: ball_Un)
  have "distinct (map pq_id (ls_requests (w_loop w) @ rs))"
    using old R1 R3 by (intro distinct_grown) blast+
  moreover have "distinct (map pq_approval (ls_requests (w_loop w) @ rs))"
    using old R2 R3 by (intro distinct_grown) blast+
  moreover have "distinct (map ta_id (ls_attestations (w_loop w) @ ts))"
    using old T1 T2 by (intro distinct_grown) blast+
  moreover have "\<forall>q\<in>set (ls_requests (w_loop w) @ rs). pq_id q < db_next_id (w_db w') \<and>
      pq_policy_version q < db_next_id (w_db w')"
    using below(1) n R3 by (simp add: ball_Un)
  moreover have "\<forall>t\<in>set (ls_attestations (w_loop w) @ ts). ta_id t < db_next_id (w_db w')"
    using below(2) n T2 by (simp add: ball_Un)
  moreover have "\<forall>m\<in>set (w_approvers w @ ms). pa_version m < db_next_id (w_db w')"
    using below(3) n M by (simp add: ball_Un)
  ultimately have ids: "ids_ok w'" unfolding ids_ok_def w' using w'(5) by (simp add: ball_Un)
  note r1 = r [unfolded rows_ok_def, THEN conjunct1]
    and r2 = r [unfolded rows_ok_def, THEN conjunct2, THEN conjunct1]
    and r3 = r [unfolded rows_ok_def, THEN conjunct2, THEN conjunct2, THEN conjunct1]
    and r4 = r [unfolded rows_ok_def, THEN conjunct2, THEN conjunct2, THEN conjunct2]
  have fresh: "pa_version m \<noteq> pq_policy_version q" if "q \<in> set (ls_requests (w_loop w))" "m \<in> set
      ms" for q m
    using that M below(1) by (metis less_irrefl)
  have "\<forall>q\<in>set (ls_requests (w_loop w) @ rs). pq_requester_type q \<in> {''human'', ''service''} \<and>
      pq_requester_prov q = ''request_authenticated'' \<and>
      (\<forall>m\<in>set (w_approvers w @ ms). pa_version m = pq_policy_version q \<longrightarrow> pa_tenant m =
          pq_tenant q)"
    using r1 R3 fresh unfolding set_append ball_Un by blast
  moreover have "\<forall>t\<in>set (ls_attestations (w_loop w) @ ts). ta_approver_type t = ''human'' \<and>
      ta_expires_at t \<le> ta_approved_at t + hours 24 \<and>
      (\<exists>r\<in>set (ls_requests (w_loop w) @ rs). pq_id r = ta_request t \<and> pq_tenant r = ta_tenant t
          \<and> pq_project r = ta_project t)"
    using r2 T2 unfolding set_append ball_Un bex_Un by blast
  moreover have "\<forall>v\<in>set (ls_preapproval_events (w_loop w) @ vs).
      pv_type v \<in> {''approved_anchor'', ''revoked'', ''superseded''} \<and>
      (\<exists>t\<in>set (ls_attestations (w_loop w) @ ts). ta_id t = pv_attestation v \<and> ta_tenant t =
          pv_tenant v)"
    using r3 vs unfolding w' set_append ball_Un bex_Un by blast
  ultimately have rows: "rows_ok w'"
    unfolding rows_ok_def w' using r4 M by (simp add: ball_Un)
  show ?thesis
    using ids rows live committed_requests_ok [OF q i g ids c] by (simp add: preapproval_ok_def)
qed

text \<open>The lifecycle of an attestation.\<close>

lemma attestation_lifecycle:
  assumes "preapproval_ok w" "t \<in> set (ls_attestations (w_loop w))"
  shows "lifecycle_ok (events_of (ta_id t) w)"
    "filter (\<lambda>v. pv_tenant v = ta_tenant t \<and> pv_attestation v = ta_id t) (ls_preapproval_events
        (w_loop w)) =
       events_of (ta_id t) w"
    "\<forall>v\<in>set (events_of (ta_id t) w). pv_type v \<in> {''approved_anchor'', ''revoked'', ''superseded''}"
    "events_of (ta_id t) w \<noteq> []"
proof -
  have ids: "ids_ok w" and rows: "rows_ok w" and reqs: "\<forall>r\<in>set (ls_requests (w_loop w)). request_ok w r"
    using assms(1) by (simp_all add: preapproval_ok_def)
  obtain r where r: "r \<in> set (ls_requests (w_loop w))" "pq_id r = ta_request t"
    using rows assms(2) unfolding rows_ok_def by blast
  then have "t \<in> set (filter (\<lambda>t. ta_request t = pq_id r) (ls_attestations (w_loop w)))" using
      assms(2) by simp
  with reqs r(1) show ok: "lifecycle_ok (events_of (ta_id t) w)" unfolding request_ok_def Let_def by blast
  then show "events_of (ta_id t) w \<noteq> []" by (auto simp: lifecycle_ok_def lifecycle_linear_def)
  have "pv_tenant v = ta_tenant t"
    if v: "v \<in> set (ls_preapproval_events (w_loop w))" "pv_attestation v = ta_id t" for v
  proof -
    obtain u where u: "u \<in> set (ls_attestations (w_loop w))" "ta_id u = pv_attestation v" "ta_tenant u =
        pv_tenant v"
      using rows v(1) unfolding rows_ok_def by blast
    have "distinct (map ta_id (ls_attestations (w_loop w)))" using ids by (simp add: ids_ok_def)
    then have "u = t" using u v(2) assms(2) by (metis find_by_id option.inject)
    with u show ?thesis by simp
  qed
  then show "filter (\<lambda>v. pv_tenant v = ta_tenant t \<and> pv_attestation v = ta_id t)
      (ls_preapproval_events (w_loop w)) =
      events_of (ta_id t) w"
    unfolding events_of_def by (intro filter_cong refl) blast
  show "\<forall>v\<in>set (events_of (ta_id t) w). pv_type v \<in> {''approved_anchor'', ''revoked'',
      ''superseded''}"
    using rows unfolding rows_ok_def events_of_def by auto
qed

lemma latest_by_ex: "rs \<noteq> [] \<Longrightarrow> \<exists>r. latest_by key rs = Some r"
  by (cases "latest_by key rs") simp_all

lemma one_live_events:
  assumes "one_live w" "grows w w' rs [] vs ms"
  shows "one_live w'"
proof -
  have "live w t" if "live w' t" for t using that assms(2) by (auto simp: live_def grows_def)
  with assms show ?thesis by (simp add: one_live_def grows_def)
qed

lemma sorted_wrt_less_inj:
  "sorted_wrt (<) (map f xs) \<Longrightarrow> x \<in> set xs \<Longrightarrow> y \<in> set xs \<Longrightarrow> f
      x = (f y :: 'a::linorder) \<Longrightarrow> x = y"
  by (induction xs) (auto simp: less_le)

text \<open>The preapproval in force is the one a newer approval supersedes.\<close>

lemma live_is_superseded:
  assumes ok: "preapproval_ok w"
    and w3: "ls_attestations (w_loop w3) = ls_attestations (w_loop w) @ [t]"
      "ls_preapproval_events (w_loop w3) = ls_preapproval_events (w_loop w) @ [anchor]"
    and t: "ta_id t = db_next_id (w_db w)" "pv_attestation anchor = ta_id t"
    and sup: "supersedes ctx project (ta_id t) w3 vs"
    and u: "u \<in> set (ls_attestations (w_loop w))" "live w u" "ta_tenant u = ctx_tenant ctx" "ta_project u =
        project"
  shows "\<exists>v\<in>set vs. pv_attestation v = ta_id u \<and> pv_type v = ''superseded''"
proof -
  have live: "one_live w" and ids: "ids_ok w" using ok by (simp_all add: preapproval_ok_def)
  have old: "x \<in> set (ls_attestations (w_loop w)) \<Longrightarrow> ta_id x \<noteq> ta_id t" for x
    using ids t(1) by (auto simp: ids_ok_def ball_Un)
  let ?P = "\<lambda>t. ta_tenant t = ctx_tenant ctx \<and> ta_project t = project"
  have "filter (\<lambda>x. ta_tenant x = ctx_tenant ctx \<and> ta_project x = project \<and> ta_id x \<noteq>
      ta_id t)
      (ls_attestations (w_loop w)) = filter ?P (ls_attestations (w_loop w))"
    by (rule filter_cong) (simp_all add: old)
  then have prior: "prior_attestation (ctx_tenant ctx) project (ta_id t) w3 =
      latest_by (\<lambda>t. (ta_created_at t, ta_id t)) (filter ?P (ls_attestations (w_loop w)))"
    by (simp add: prior_attestation_def w3(1))
  have "filter ?P (ls_attestations (w_loop w)) \<noteq> []" using u by (auto simp: filter_empty_conv)
  then obtain p where p: "latest_by (\<lambda>t. (ta_created_at t, ta_id t)) (filter ?P (ls_attestations (w_loop
      w))) = Some p"
    using latest_by_ex by blast
  have "p \<in> set (filter ?P (ls_attestations (w_loop w)))" using p by (rule latest_by_mem)
  then have pm: "p \<in> set (ls_attestations (w_loop w))" "?P p" by simp_all
  have "u \<in> set (filter ?P (ls_attestations (w_loop w)))" using u by simp
  then have "ta_created_at u \<le> ta_created_at p"
    using latest_by_max [OF p, of u] by (auto simp: less_eq_prod_def)
  moreover have "ta_tenant p = ta_tenant u" "ta_project p = ta_project u" using u pm by simp_all
  then have "ta_created_at p \<le> ta_created_at u" using live u(1,2) pm(1) unfolding one_live_def by blast
  ultimately have "u = p"
    using live u(1) pm(1) unfolding one_live_def by (metis order_antisym sorted_wrt_less_inj)
  note life = attestation_lifecycle [OF ok u(1)]
  have "pv_attestation anchor \<noteq> ta_id u" using old [OF u(1)] t(2) by simp
  then have "latest_lifecycle ctx (ta_id u) w3 = latest_by (\<lambda>v. (pv_created_at v, pv_id v)) (events_of
      (ta_id u) w)"
    unfolding latest_lifecycle_def w3(2) using life(2) u(3) by simp
  moreover obtain head where head: "latest_by (\<lambda>v. (pv_created_at v, pv_id v)) (events_of (ta_id u) w) =
      Some head"
    using latest_by_ex [OF life(4)] by blast
  ultimately have ll: "latest_lifecycle ctx (ta_id p) w3 = Some head" using \<open>u = p\<close> by simp
  have hm: "head \<in> set (events_of (ta_id u) w)" using latest_by_mem [OF head] .
  then have "head \<in> set (ls_preapproval_events (w_loop w))" "pv_attestation head = ta_id u"
    by (auto simp: events_of_def)
  then have "pv_type head \<notin> {''revoked'', ''superseded''}" using u(2) unfolding live_def by blast
  then have "pv_type head = ''approved_anchor''" using life(3) hm by blast
  with sup ll prior p \<open>u = p\<close> show ?thesis by (auto simp: supersedes_def)
qed

lemma one_live_approved:
  assumes ok: "preapproval_ok w" and g: "grows w w' rs [t] (anchor # vs) ms" and late: "later clock w"
    and t: "ta_created_at t = clock" "ta_tenant t = ctx_tenant ctx" "ta_project t = project"
      "ta_id t = db_next_id (w_db w)" "pv_attestation anchor = ta_id t"
    and w3: "ls_attestations (w_loop w3) = ls_attestations (w_loop w) @ [t]"
      "ls_preapproval_events (w_loop w3) = ls_preapproval_events (w_loop w) @ [anchor]"
    and sup: "supersedes ctx project (ta_id t) w3 vs"
  shows "one_live w'"
proof -
  have live: "one_live w" and ids: "ids_ok w" using ok by (simp_all add: preapproval_ok_def)
  have ats: "ls_attestations (w_loop w') = ls_attestations (w_loop w) @ [t]"
    and evs: "ls_preapproval_events (w_loop w') = ls_preapproval_events (w_loop w) @ anchor # vs"
    using g by (simp_all add: grows_def)
  have old: "u \<in> set (ls_attestations (w_loop w)) \<Longrightarrow> ta_created_at u < clock \<and> ta_id u
      \<noteq> ta_id t" for u
    using late ids t(4) by (auto simp: later_def ids_ok_def ball_Un)
  have dead: False
    if u: "u \<in> set (ls_attestations (w_loop w))" "live w' u" "ta_tenant u = ctx_tenant ctx" "ta_project u =
        project" for u
  proof -
    have lu: "live w u" using u(2) evs by (auto simp: live_def)
    obtain v where "v \<in> set vs" "pv_attestation v = ta_id u" "pv_type v = ''superseded''"
      using live_is_superseded [OF ok w3 t(4,5) sup u(1) lu u(3,4)] by blast
    with u(2) evs show False by (auto simp: live_def)
  qed
  have "sorted_wrt (<) (map ta_created_at (ls_attestations (w_loop w')))"
    using live old t(1) by (auto simp: ats one_live_def sorted_wrt_append)
  moreover have "ta_created_at x \<le> ta_created_at u"
    if h: "u \<in> set (ls_attestations (w_loop w'))" "x \<in> set (ls_attestations (w_loop w'))" "live w' u"
      "ta_tenant x = ta_tenant u" "ta_project x = ta_project u" for u x
  proof (cases "u = t")
    case True
    then show ?thesis using h(2) old [of x] t(1) by (auto simp: ats)
  next
    case False
    then have u: "u \<in> set (ls_attestations (w_loop w))" using h(1) by (simp add: ats)
    have "x \<noteq> t" using dead [OF u h(3)] h(4,5) t(2,3) by auto
    then have "x \<in> set (ls_attestations (w_loop w))" using h(2) by (simp add: ats)
    moreover have "live w u" using h(3) evs by (auto simp: live_def)
    ultimately show ?thesis using live u h(4,5) unfolding one_live_def by blast
  qed
  ultimately show ?thesis unfolding one_live_def by blast
qed

lemma same_preapprovals_ok:
  assumes "preapproval_ok w" "same_preapprovals w w'"
  shows "preapproval_ok w'"
proof -
  have s: "ls_requests (w_loop w') = ls_requests (w_loop w)" "ls_attestations (w_loop w') = ls_attestations
      (w_loop w)"
    "ls_preapproval_events (w_loop w') = ls_preapproval_events (w_loop w)" "w_approvers w' = w_approvers w"
    "approvals (w_db w') = approvals (w_db w)" "approval_events (w_db w') = approval_events (w_db w)"
    "db_next_id (w_db w) \<le> db_next_id (w_db w')"
    using assms(2) by (simp_all add: same_preapprovals_def)
  have "approvals_wf (w_db w')"
    using assms(1) approvals_wf_mono [OF _ s(5-7)] by (simp add: preapproval_ok_def ids_ok_def)
  moreover have "i < db_next_id (w_db w')" if "i < db_next_id (w_db w)" for i using that s(7) by simp
  ultimately have "ids_ok w'" using assms(1) unfolding preapproval_ok_def ids_ok_def s by blast
  moreover have "events_of t w' = events_of t w" "member_of w' v h = member_of w v h" for t v h
    by (simp_all add: events_of_def member_of_def s)
  ultimately show ?thesis
    using assms(1) unfolding preapproval_ok_def rows_ok_def request_ok_def one_live_def live_def s by simp
qed

lemma committed_Inr [simp]:
  "committed sha w x = Inr (r, w') \<longleftrightarrow> x = Inr (r, w') \<and> commit sha w w' = Inr ()"
  by (cases x) (auto simp: committed_def)

lemma requested_ok:
  assumes ok: "preapproval_ok w" and run: "preapproval_request sha reaudits ctx project key now clock w = Inr
      (res, w')"
    and c: "commit sha w w' = Inr ()"
  shows "preapproval_ok w'"
proof -
  have live: "one_live w" and wf: "approvals_wf (w_db w)" using ok by (simp_all add: preapproval_ok_def ids_ok_def)
  from preapproval_request_effect [OF run wf] show ?thesis
  proof
    assume "\<exists>r ms. grows w w' [r] [] [] ms \<and> pq_id r = Suc (db_next_id (w_db w)) \<and> pq_id r <
        db_next_id (w_db w') \<and>
      pq_policy_version r = db_next_id (w_db w) \<and> pq_tenant r = ctx_tenant ctx \<and>
      request_constraints r (ls_requests (w_loop w)) \<and>
      (\<forall>m\<in>set ms. pa_version m = db_next_id (w_db w) \<and> pa_tenant m = ctx_tenant ctx \<and>
          pa_hash m \<noteq> [])"
    then obtain r ms where g: "grows w w' [r] [] [] ms" and r: "pq_id r = Suc (db_next_id (w_db w))"
      "pq_id r < db_next_id (w_db w')" "pq_policy_version r = db_next_id (w_db w)" "pq_tenant r = ctx_tenant ctx"
      "request_constraints r (ls_requests (w_loop w))"
      "\<forall>m\<in>set ms. pa_version m = db_next_id (w_db w) \<and> pa_tenant m = ctx_tenant ctx \<and>
          pa_hash m \<noteq> []" by blast
    show ?thesis
      by (rule grown_ok [OF ok g c _ _ _ one_live_events [OF live g]]) (use r in simp_all)
  qed (use ok in simp)
qed

lemma approved_ok:
  assumes ok: "preapproval_ok w" and late: "later clock w"
    and run: "preapproval_approve sha reaudits ctx project request key now clock w = Inr (res, w')"
    and c: "commit sha w w' = Inr ()"
  shows "preapproval_ok w'"
proof -
  have wf: "approvals_wf (w_db w)" using ok by (simp add: preapproval_ok_def ids_ok_def)
  from preapproval_approve_effect [OF run wf] show ?thesis
  proof
    assume "\<exists>r t anchor vs w3. r \<in> set (ls_requests (w_loop w)) \<and> pq_id r = ta_request t \<and>
        pq_tenant r = ctx_tenant ctx \<and>
       pq_project r = project \<and> grows w w' [] [t] (anchor # vs) [] \<and>
       ta_id t = db_next_id (w_db w) \<and> ta_id t < db_next_id (w_db w') \<and> ta_tenant t = ctx_tenant ctx
           \<and>
       ta_project t = project \<and> ta_created_at t = clock \<and>
       attestation_constraints t (ls_attestations (w_loop w)) \<and>
       pv_attestation anchor = ta_id t \<and> pv_type anchor = ''approved_anchor'' \<and> pv_tenant anchor =
           ctx_tenant ctx \<and>
       ls_attestations (w_loop w3) = ls_attestations (w_loop w) @ [t] \<and>
       ls_preapproval_events (w_loop w3) = ls_preapproval_events (w_loop w) @ [anchor] \<and>
       supersedes ctx project (ta_id t) w3 vs"
    then obtain r t anchor vs w3 where r: "r \<in> set (ls_requests (w_loop w))" "pq_id r = ta_request t"
      "pq_tenant r = ctx_tenant ctx" "pq_project r = project" and g: "grows w w' [] [t] (anchor # vs) []"
      and t: "ta_id t = db_next_id (w_db w)" "ta_id t < db_next_id (w_db w')" "ta_tenant t = ctx_tenant ctx"
        "ta_project t = project" "ta_created_at t = clock" "attestation_constraints t (ls_attestations (w_loop w))"
      and a: "pv_attestation anchor = ta_id t" "pv_type anchor = ''approved_anchor''" "pv_tenant anchor =
          ctx_tenant ctx"
      and w3: "ls_attestations (w_loop w3) = ls_attestations (w_loop w) @ [t]"
        "ls_preapproval_events (w_loop w3) = ls_preapproval_events (w_loop w) @ [anchor]"
      and sup: "supersedes ctx project (ta_id t) w3 vs" by blast
    have live: "one_live w'"
      by (rule one_live_approved [OF ok g late t(5,3,4,1) a(1) w3 sup])
    have "\<exists>p\<in>set (ls_attestations (w_loop w')). ta_id p = pv_attestation v \<and> ta_tenant p =
        pv_tenant v"
      "pv_type v = ''superseded''" if v: "v \<in> set vs" for v
    proof -
      from sup v obtain p where p: "prior_attestation (ctx_tenant ctx) project (ta_id t) w3 = Some p"
        "pv_attestation v = ta_id p" "pv_type v = ''superseded''" "pv_tenant v = ctx_tenant ctx"
        by (auto simp: supersedes_def split: option.splits if_splits)
      from p(1) have "p \<in> set (ls_attestations (w_loop w3))" "ta_tenant p = ctx_tenant ctx"
        by (auto simp: prior_attestation_def dest!: latest_by_mem)
      with p g w3(1) show "\<exists>p\<in>set (ls_attestations (w_loop w')). ta_id p = pv_attestation v \<and>
          ta_tenant p = pv_tenant v"
        "pv_type v = ''superseded''" by (auto simp: grows_def)
    qed
    then have kinds: "\<forall>v\<in>set (anchor # vs). pv_type v \<in> {''approved_anchor'', ''revoked'',
        ''superseded''} \<and>
        (\<exists>p\<in>set (ls_attestations (w_loop w')). ta_id p = pv_attestation v \<and> ta_tenant p =
            pv_tenant v)"
      using a t(3) g by (auto simp: grows_def)
    show ?thesis
      by (rule grown_ok [OF ok g c _ _ kinds live]) (use r t in auto)
  qed (use ok in simp)
qed

lemma revoked_ok:
  assumes ok: "preapproval_ok w" and run: "preapproval_revoke sha ctx project attestation key clock w = Inr (res,
      w')"
    and c: "commit sha w w' = Inr ()"
  shows "preapproval_ok w'"
proof -
  have live: "one_live w" and wf: "approvals_wf (w_db w)" using ok by (simp_all add: preapproval_ok_def ids_ok_def)
  from preapproval_revoke_effect [OF run wf] show ?thesis
  proof
    assume "\<exists>t v. t \<in> set (ls_attestations (w_loop w)) \<and> ta_id t = attestation \<and> ta_tenant t
        = ctx_tenant ctx \<and>
      grows w w' [] [] [v] [] \<and> pv_attestation v = ta_id t \<and> pv_type v = ''revoked'' \<and> pv_tenant v
          = ctx_tenant ctx"
    then obtain t v where t: "t \<in> set (ls_attestations (w_loop w))" "ta_tenant t = ctx_tenant ctx"
      and g: "grows w w' [] [] [v] []"
      and v: "pv_attestation v = ta_id t" "pv_type v = ''revoked''" "pv_tenant v = ctx_tenant ctx" by blast
    show ?thesis
      by (rule grown_ok [OF ok g c _ _ _ one_live_events [OF live g]]) (use t v g in \<open>auto simp:
          grows_def\<close>)
  qed (use ok in simp)
qed

lemma unchanged_ok:
  assumes ok: "preapproval_ok w" and g: "grows w w' [] [] [] []" and c: "commit sha w w' = Inr ()"
  shows "preapproval_ok w'"
  using ok by (intro grown_ok [OF ok g c _ _ _ one_live_events [OF _ g]]) (simp_all add: preapproval_ok_def)

lemma preapproval_reach_ok: "preapproval_reach sha reaudits w \<Longrightarrow> preapproval_ok w"
proof (induction rule: preapproval_reach.induct)
  case (empty w)
  then show ?case by (simp add: preapproval_ok_def ids_ok_def rows_ok_def one_live_def)
next
  case (requested w ctx project key now clock r w')
  then show ?case using requested_ok [OF requested.IH] unfolding committed_Inr by blast
next
  case (approved w clock ctx project request key now r w')
  then show ?case using approved_ok [OF approved.IH approved.hyps(2)] unfolding committed_Inr by blast
next
  case (rejected w ctx project request key now r w')
  then have run: "preapproval_reject sha reaudits ctx project request key now w = Inr (r, w')" and c: "commit sha
      w w' = Inr ()"
    by simp_all
  have "approvals_wf (w_db w)" using rejected.IH by (simp add: preapproval_ok_def ids_ok_def)
  from preapproval_reject_effect [OF run this] show ?case using rejected.IH unchanged_ok [OF rejected.IH _ c] by
      auto
next
  case (cancelled w ctx project request key r w')
  then have run: "preapproval_cancel sha ctx project request key w = Inr (r, w')" and c: "commit sha w w' = Inr ()"
    by simp_all
  have "approvals_wf (w_db w)" using cancelled.IH by (simp add: preapproval_ok_def ids_ok_def)
  from preapproval_cancel_effect [OF run this] show ?case using cancelled.IH unchanged_ok [OF cancelled.IH _ c] by
      auto
next
  case (revoked w clock ctx project attestation key r w')
  then show ?case using revoked_ok [OF revoked.IH] unfolding committed_Inr by blast
next
  case (approvals w d)
  have "approvals_wf (w_db w)" using approvals.IH by (simp add: preapproval_ok_def ids_ok_def)
  note g = approval_step_grows [OF approvals.hyps(2) this]
  show ?case by (rule unchanged_ok [OF approvals.IH g approvals.hyps(3)])
next
  case (elsewhere w w')
  then show ?case using same_preapprovals_ok by blast
qed

end
