(* ===== verification/Preapproval_Example.thy ===== *)
theory Preapproval_Example
  imports Preapproval_Invariant
begin

text \<open>
  The concrete instance the witnesses about preapprovals share: project 3 of tenant 7 with a frozen candidate,
  its evidence pack and verdict, and a recorded policy naming one approver; \<open>svc\<close> asks and
      \<open>owner\<close> approves,
  and both transactions pass the guards of the database.
\<close>

section \<open>The start\<close>

definition conditions_value :: pyval where
  "conditions_value = PDict
     [(''contract_version'', PStr CONDITIONS_CONTRACT_VERSION),
      (''conditions'', PDict (map (\<lambda>k. (k, PBool True)) FIXED_CONDITIONS))]"

text \<open>A hash that tells the fixed conditions, one subject and one key from every other text.\<close>

definition revoke_key :: string where
  "revoke_key = utf8 (json_text False (PDict [(''idempotency_key'', PStr ''k3'')]))"

definition example_sha :: "string \<Rightarrow> string" where
  "example_sha s =
     (if s = utf8 (json_text False conditions_value) then drop 7 CONDITION_HASH
      else if s = subject_text ''owner'' then replicate 64 (CHR ''a'')
      else if s = revoke_key then replicate 64 (CHR ''c'') else replicate 64 (CHR ''b''))"

definition owner_hash :: string where
  "owner_hash = ''sha256:'' @ replicate 64 (CHR ''a'')"

definition svc_hash :: string where
  "svc_hash = ''sha256:'' @ replicate 64 (CHR ''b'')"

lemma example_hashes [simp]: "owner_hash \<noteq> []" "owner_hash \<noteq> svc_hash" "svc_hash \<noteq>
    owner_hash" "svc_hash \<noteq> []"
   "is_pseudonym owner_hash" "is_pseudonym svc_hash"
  by (simp_all add: owner_hash_def svc_hash_def) code_simp+

definition example_digest :: "pyval \<Rightarrow> string" where
  "example_digest v = ''sha256:'' @ example_sha (utf8 (json_text False v))"

definition example_policy_items :: pydict where
  "example_policy_items =
     [(''approval_channel'', PStr ''dashboard''), (''daily_digest_time'', PStr ''09:00''),
      (''batch_low_risk_questions'', PBool True), (''realtime_for'', str_list REALTIME_FOR),
      (''non_response_policy'', codes_dict NON_RESPONSE), (''approvers'', PList [PStr ''owner''])]"

definition example_checklist_items :: pydict where
  "example_checklist_items =
     [(''product'', PDict []), (''engineering'', PDict []), (''ai_and_data'', PDict []), (''security'', PDict []),
      (''operations'', PDict []), (''governance'', codes_dict GOVERNANCE)]"

definition example_category :: "uuid \<Rightarrow> string \<Rightarrow> pyval \<Rightarrow> category_row" where
  "example_category i name data = \<lparr>ic_id = i, ic_tenant = 7, ic_project = 3, ic_category = name, ic_status
      = ''declared'',
     ic_summary = None, ic_data = data, ic_document = None, ic_locator = None, ic_origin = None\<rparr>"

definition example_world :: release_world where
  "example_world =
     \<lparr>w_loop = \<lparr>ls_db = empty_db\<lparr>projects := [\<lparr>pr_id = 3, pr_tenant = 7\<rparr>],
                  autonomy_policies := [\<lparr>pol_id = 4, pol_tenant = 7, pol_project = 3, pol_level = 5,
                                          pol_overrides = PDict [], pol_updated_at = 0\<rparr>]\<rparr>,
                ls_isolation = ''serializable'', ls_cycles = [], ls_events = [], ls_evaluations = [],
                ls_gate_results = [], ls_decisions = [], ls_requests = [], ls_attestations = [],
                ls_preapproval_events = [], ls_controls = []\<rparr>,
      w_releases = [\<lparr>rl_id = 10, rl_tenant = 7, rl_project = 3, rl_status = ''frozen'', rl_frozen_at =
          1\<rparr>],
      w_pack_runs = [\<lparr>er_id = 11, er_tenant = 7, er_candidate = 10, er_created_at = 2\<rparr>],
      w_packs = [\<lparr>ep_id = 12, ep_tenant = 7, ep_run = 11, ep_candidate = 10, ep_assembly_status =
          ''complete'',
                  ep_core_hash = ''sha256:c'', ep_issue_digest = ''sha256:i'', ep_source_digest = ''sha256:s'',
                  ep_traceability_digest = ''sha256:t''\<rparr>],
      w_verdict_runs = [\<lparr>vr_id = 13, vr_tenant = 7, vr_candidate = 10, vr_pack = Some 12,
                         vr_execution_status = ''succeeded'', vr_created_at = 3\<rparr>],
      w_verdicts = [\<lparr>ve_id = 14, ve_tenant = 7, ve_run = 13, ve_candidate = 10, ve_pack = 12,
          ve_gate_eligible = True,
                     ve_input_digest = ''sha256:v'', ve_contract_hash = ''sha256:k''\<rparr>],
      w_categories = [example_category 15 ''human_approval_policy'' (PDict example_policy_items),
                      example_category 16 ''go_live_checklist'' (PDict example_checklist_items)],
      w_versions = [], w_approvers = [], w_notifications = []\<rparr>"


lemma canonical_example: "json_plain v \<Longrightarrow> canonical_digest example_sha v = Inr (example_digest v)"
  by (simp add: canonical_digest_def canonical_json_def example_digest_def)

lemma CONDITION_HASH_prefix: "''sha256:'' @ drop 7 CONDITION_HASH = CONDITION_HASH"
  by (simp add: CONDITION_HASH_def)

lemma example_sha_conditions: "example_sha (utf8 (json_text False conditions_value)) = drop 7 CONDITION_HASH"
  by (simp add: example_sha_def)

lemma example_conditions: "fixed_conditions_digest example_sha = Inr CONDITION_HASH"
proof -
  have "fixed_conditions_digest example_sha = canonical_digest example_sha conditions_value"
    by (simp only: fixed_conditions_digest_def conditions_value_def)
  moreover have "json_plain conditions_value" by (simp add: conditions_value_def FIXED_CONDITIONS_def)
  ultimately show ?thesis
    by (simp only: canonical_example example_digest_def example_sha_conditions CONDITION_HASH_prefix)
qed

lemma json_object_length:
  assumes "json_data (PDict d)" "json_data (PDict e)" "json_text False (PDict d) = json_text False (PDict e)"
  shows "length d = length e"
proof -
  have "sort_key fst (map (\<lambda>(k, v). (k, json_norm v)) d) = sort_key fst (map (\<lambda>(k, v). (k,
      json_norm v)) e)"
    using json_text_inj [OF assms] by (simp only: json_norm.simps pyval.inject)
  then have "length (sort_key fst (map (\<lambda>(k, v). (k, json_norm v)) d)) =
      length (sort_key fst (map (\<lambda>(k, v). (k, json_norm v)) e))" by (rule arg_cong)
  then show ?thesis by simp
qed

lemma single_entry_inj: "json_text False (PDict [(k, PStr s)]) = json_text False (PDict [(l, PStr t)])
    \<longleftrightarrow> k = l \<and> s = t"
  using json_text_inj [of "PDict [(k, PStr s)]" "PDict [(l, PStr t)]" False] by auto

lemma conditions_not_single: "json_text False conditions_value \<noteq> json_text False (PDict [(k, PStr s)])"
proof
  assume h: "json_text False conditions_value = json_text False (PDict [(k, PStr s)])"
  have "json_data conditions_value" "json_data (PDict [(k, PStr s)])"
    by (simp_all add: conditions_value_def FIXED_CONDITIONS_def)
  from json_object_length [OF this [unfolded conditions_value_def] h [unfolded conditions_value_def]] show False
      by simp
qed

lemma example_sha_subject:
  "example_sha (subject_text s) = (if s = ''owner'' then replicate 64 (CHR ''a'') else replicate 64 (CHR ''b''))"
proof -
  have "subject_text s \<noteq> revoke_key"
    unfolding subject_text_def revoke_key_def utf8_inj single_entry_inj by simp
  then show ?thesis
    using conditions_not_single [of "''principal_subject''" s] subject_text_inj [of s "''owner''"]
    by (auto simp: example_sha_def subject_text_def)
qed

lemma example_subjects:
   "subject_digest example_sha ''owner'' = Inr owner_hash" "subject_digest example_sha ''svc'' = Inr svc_hash"
  by (simp_all add: subject_digest_iff example_sha_subject MAX_SUBJECT_BYTES_def utf8_len_def py_strip_def
      py_space_def
      owner_hash_def svc_hash_def)

lemma example_parsed:
  "parse_recorded_policy example_sha (PDict example_policy_items) (PDict example_checklist_items) = Inr
      \<lparr>rp_contract_version = POLICY_CONTRACT_VERSION, rp_source_provenance = POLICY_SOURCE_PROVENANCE,
             rp_policy_digest = example_digest (PDict example_policy_items), rp_checklist_digest = example_digest
                 (PDict example_checklist_items),
             rp_approval_channel = ''dashboard'', rp_production_realtime = True,
             rp_nonresponse_code = ''block_until_approval'', rp_governance_digest = example_digest (codes_dict
                 GOVERNANCE),
             rp_approver_hashes = [owner_hash]\<rparr>"
proof -
  have 1: "reject_truth_fields (PDict example_policy_items) = Inr ()" "reject_truth_fields (PDict
      example_checklist_items) = Inr ()"
    by (simp_all add: example_policy_items_def example_checklist_items_def py_lower_def lower_char_def
        TRUTH_KEYS_def REALTIME_FOR_def
       NON_RESPONSE_def GOVERNANCE_def str_list_def codes_dict_def)
  have 2: "approver_hashes example_sha [PStr ''owner''] = Inr [owner_hash]"
    by (simp add: example_subjects unsupported_approver_def py_lower_def lower_char_def py_strip_def py_space_def)
  have 3: "json_plain (PDict example_policy_items)" "json_plain (PDict example_checklist_items)" "json_plain
      (codes_dict GOVERNANCE)"
    by (simp_all add: example_policy_items_def example_checklist_items_def REALTIME_FOR_def
       NON_RESPONSE_def GOVERNANCE_def str_list_def codes_dict_def)
  have p: "set (map fst example_policy_items) = set POLICY_KEYS" "dget example_policy_items ''approval_channel'' =
      PStr ''dashboard''"
    "dget example_policy_items ''daily_digest_time'' = PStr ''09:00''" "dget example_policy_items
        ''batch_low_risk_questions'' = PBool True"
    "dget example_policy_items ''realtime_for'' = str_list REALTIME_FOR"
    "equals_codes (dget example_policy_items ''non_response_policy'') NON_RESPONSE"
    "dget example_policy_items ''approvers'' = PList [PStr ''owner'']"
    by (simp_all add: example_policy_items_def POLICY_KEYS_def equals_codes_def codes_dict_def NON_RESPONSE_def)
  have c: "set (map fst example_checklist_items) = set CHECKLIST_KEYS" "dget example_checklist_items
      ''governance'' = codes_dict GOVERNANCE"
    "dget example_checklist_items ''product'' = PDict []" "dget example_checklist_items ''engineering'' = PDict []"
    "dget example_checklist_items ''ai_and_data'' = PDict []" "dget example_checklist_items ''security'' = PDict []"
    "dget example_checklist_items ''operations'' = PDict []"
    by (simp_all add: example_checklist_items_def CHECKLIST_KEYS_def insert_commute)
  have g: "exact_keys (codes_dict GOVERNANCE) (map fst GOVERNANCE) = Inr (map (\<lambda>(k, v). (k, PStr v))
      GOVERNANCE)"
    "equals_codes (PDict (map (\<lambda>(k, v). (k, PStr v)) GOVERNANCE)) GOVERNANCE"
    by (simp_all add: codes_dict_def GOVERNANCE_def equals_codes_def)
  have k: "exact_keys (PDict example_policy_items) POLICY_KEYS = Inr example_policy_items"
    "exact_keys (PDict example_checklist_items) CHECKLIST_KEYS = Inr example_checklist_items"
    using p(1) c(1) by (simp_all only: exact_keys_iff simp_thms)
  have a: "approver_list (PList [PStr ''owner'']) = Inr [PStr ''owner'']" "is_time ''09:00''" "distinct
      [owner_hash]"
    "list_all (\<lambda>k. dget example_checklist_items k = PDict [])
               [''product'', ''engineering'', ''ai_and_data'', ''security'', ''operations'']"
    by (simp_all add: c MAX_APPROVERS_def is_time_def)
  have g2: "canonical_digest example_sha (codes_dict GOVERNANCE) = Inr (example_digest (codes_dict GOVERNANCE))"
     "canonical_digest example_sha (PDict example_policy_items) = Inr (example_digest (PDict example_policy_items))"
     "canonical_digest example_sha (PDict example_checklist_items) = Inr (example_digest (PDict
         example_checklist_items))"
    using 3 by (simp_all only: canonical_example)
  show ?thesis
    by (simp only: parse_recorded_policy_def Let_def 1 k p(2-) c(2) a 2 g g2 bindE_simps check_simps pyval.case
        simp_thms list.case)
qed

definition example_recorded :: recorded_policy where
  "example_recorded = \<lparr>rp_contract_version = POLICY_CONTRACT_VERSION, rp_source_provenance =
      POLICY_SOURCE_PROVENANCE,
             rp_policy_digest = example_digest (PDict example_policy_items), rp_checklist_digest = example_digest
                 (PDict example_checklist_items),
             rp_approval_channel = ''dashboard'', rp_production_realtime = True,
             rp_nonresponse_code = ''block_until_approval'', rp_governance_digest = example_digest (codes_dict
                 GOVERNANCE),
             rp_approver_hashes = [owner_hash]\<rparr>"

definition example_sources :: "release_world \<Rightarrow> current_sources" where
  "example_sources w = \<lparr>cs_candidate = Some (hd (w_releases w)), cs_core = Some (hd (w_packs w)),
      cs_core_reaudited = True,
     cs_verdict = Some (hd (w_verdicts w)),
     cs_policy_category = Some (hd (w_categories w)), cs_checklist_category = Some (hd (tl (w_categories w))),
     cs_parsed_policy = Some example_recorded,
     cs_autonomy_policy = Some (hd (autonomy_policies (w_db w))), cs_autonomy_eligible = True\<rparr>"

lemma example_decision:
  "validated_decision \<lparr>pol_id = 4, pol_tenant = 7, pol_project = 3, pol_level = 5, pol_overrides = PDict
      [], pol_updated_at = 0\<rparr>
     ''deploy_production'' = Inr NEEDS_APPROVAL"
  by code_simp

lemma example_sources_of:
  assumes "w_releases w = w_releases example_world" "w_pack_runs w = w_pack_runs example_world" "w_packs w =
      w_packs example_world"
    "w_verdict_runs w = w_verdict_runs example_world" "w_verdicts w = w_verdicts example_world" "w_categories w =
        w_categories example_world"
    "autonomy_policies (w_db w) = autonomy_policies (w_db example_world)" "ctx_tenant ctx = 7"
  shows "current_sources_of example_sha (\<lambda>_ _. True) ctx 3 w = Inr (example_sources example_world)"
proof -
  have "latest_candidate ctx 3 w = Some (hd (w_releases example_world))"
    by (simp add: latest_candidate_def assms example_world_def)
  moreover have "latest_core ctx 10 w = Some (hd (w_packs example_world))" "latest_verdict ctx 10 12 w = Some (hd
      (w_verdicts example_world))"
    by (simp_all add: latest_core_def latest_verdict_def assms example_world_def)
  moreover have "get_category ctx 3 ''human_approval_policy'' (intake_of w) = Inr (Some (hd (w_categories
      example_world)))"
    "get_category ctx 3 ''go_live_checklist'' (intake_of w) = Inr (Some (hd (tl (w_categories example_world))))"
    by (simp_all add: get_category_def category_rows_def intake_of_def scalar_one_or_none_def assms
        example_world_def example_category_def)
  moreover have "policy_get_for_project ctx 3 (w_db w) = Inr (Some (hd (autonomy_policies (w_db example_world))))"
    "decision_for ctx 3 ''deploy_production'' (w_db w) = Inr NEEDS_APPROVAL"
    using example_decision by (simp_all add: policy_get_for_project_def decision_for_def scalar_one_or_none_def
        assms example_world_def empty_db_def)
  ultimately show ?thesis
    by (simp add: current_sources_of_def example_sources_def parsed_policy_def example_parsed example_recorded_def
        example_world_def example_category_def Let_def)
qed

lemma example_subject_lists: "ordered_value_digest example_sha [owner_hash] = Inr (hash_text example_sha (join
    [CHR 0x1F] [owner_hash]))"
  by (simp add: ordered_value_digest_def)

definition example_version :: policy_version_row where
  "example_version = \<lparr>pp_id = 100, pp_tenant = 7, pp_project = 3, pp_policy_category = 15,
      pp_checklist_category = 16,
     pp_contract_version = POLICY_CONTRACT_VERSION, pp_source_provenance = POLICY_SOURCE_PROVENANCE,
     pp_policy_digest = rp_policy_digest example_recorded, pp_checklist_digest = rp_checklist_digest
         example_recorded,
     pp_channel = ''dashboard'', pp_realtime = True, pp_nonresponse = ''block_until_approval'',
     pp_governance_digest = rp_governance_digest example_recorded, pp_approver_count = 1,
     pp_approver_set_digest = hash_text example_sha (join [CHR 0x1F] [owner_hash])\<rparr>"

definition example_member :: policy_approver_row where
  "example_member = \<lparr>pa_tenant = 7, pa_project = 3, pa_version = 100, pa_ordinal = 1, pa_hash =
      owner_hash\<rparr>"

definition example_asked :: approval_row where
  "example_asked = \<lparr>ap_id = 102, ap_tenant = 7, ap_project = 3, ap_action = ''deploy_production'',
     ap_subject_ref = Some (''production_preapproval:'' @ uuid_str 101), ap_risk_tier = PRODUCTION, ap_explicit =
         True,
     ap_status = PENDING, ap_requested_by = svc_hash, ap_requested_prov = REQUEST_AUTHENTICATED,
     ap_requested_at = 5, ap_deadline_at = None, ap_resolved_by = None, ap_resolved_at = None,
     ap_approver_prov = CALLER_SUPPLIED_UNVERIFIED, ap_payload = []\<rparr>"

definition example_notified :: notification_row where
  "example_notified = \<lparr>nt_id = 103, nt_tenant = 7, nt_project = 3, nt_approval = 102, nt_risk_tier =
      ''production'',
     nt_routing = ''realtime'', nt_channel = ''dashboard'', nt_status = ''delivered'', nt_created_at = 6\<rparr>"

definition world_snapshot :: release_world where
  "world_snapshot = (bump (example_world))\<lparr>w_versions := [example_version], w_approvers :=
      [example_member]\<rparr>"
definition db_asked :: db where
  "db_asked =
  (let d = ap_record example_requester example_asked ''requested'' REQUESTER None None
     ((w_db example_world)\<lparr>approvals := [example_asked], db_next_id := 103\<rparr>)
   in notification_audit example_requester example_notified REQUESTER (d\<lparr>db_next_id := 104\<rparr>))"

section \<open>The request\<close>

lemma example_append_snapshot: "append_policy_snapshot example_sha example_requester 3 (example_sources
    example_world) example_world =
   Inr (example_version, world_snapshot)"
  by (simp add: append_policy_snapshot_def example_sources_def example_recorded_def example_subject_lists
      example_world_def world_snapshot_def
     example_version_def example_member_def approver_count_def example_category_def Let_def example_requester_def
         bump_def set_db_def empty_db_def)

lemma example_request_and_notify: "request_and_notify_approval example_requester (preapproval_args 3 101 svc_hash)
    REQUESTER
                      DashboardChannel 5 6 (w_notifications (bump world_snapshot), w_db (bump world_snapshot)) =
                          Inr (example_asked, example_notified, [example_notified], db_asked)"
  by (simp add: request_and_notify_approval_def notify_for_approval_def approval_request_def preapproval_args_def
      example_requester_def
     world_snapshot_def bump_def set_db_def example_world_def empty_db_def parse_risk_tier_def
         is_mandatory_action_def
         MATRIX_def mk_rule_def
      storage_actor_def actor_fields_def compute_deadline_def str_or_def Let_def)
    (simp add: routing_mode_cases record_notification_def validate_notification_def
      routing_facts_def str_in_def WRITABLE_CHANNELS_def DashboardChannel_def NOTIFICATION_STATUSES_def
          ROUTING_MODES_def REQUIRED_FIELDS_def parse_risk_tier_def
      example_asked_def example_notified_def db_asked_def ap_record_def audit_record_def Let_def example_world_def
          empty_db_def example_requester_def REQUESTER_def route_def REALTIME_TIERS_def)

definition example_autonomy_digest :: string where
  "example_autonomy_digest = example_digest (PDict
       [(''policy_id'', PStr (uuid_str 4)), (''autonomy_level'', PInt 5),
        (''overrides'', PDict []), (''updated_at'', PStr (isoformat_utc 0))])"

lemma db_asked_simps [simp]: "approvals db_asked = [example_asked]" "autonomy_policies db_asked =
    autonomy_policies (w_db example_world)"
  "projects db_asked = projects (w_db example_world)" "db_next_id db_asked = 104" "db_now db_asked = 0"
  by (simp_all add: db_asked_def ap_record_def notification_audit_def audit_record_def example_world_def
      empty_db_def
      Let_def)

lemma example_digest_of_policy: "digest_of_policy_row example_sha (hd (autonomy_policies (w_db example_world))) =
    Inr example_autonomy_digest"
proof -
  have "json_plain (PDict
       [(''policy_id'', PStr (uuid_str 4)), (''autonomy_level'', PInt 5),
        (''overrides'', PDict []), (''updated_at'', PStr (isoformat_utc 0))])" by simp code_simp
  from canonical_example [OF this] show ?thesis
  by (simp add: digest_of_policy_row_def example_world_def empty_db_def autonomy_policy_digest_def
      example_autonomy_digest_def)
qed

definition example_binding :: string where
  "example_binding = hash_text example_sha (join [CHR 0x1F] (PREAPPROVAL_CONTRACT_VERSION # map (component
      (binding_components
     (hd (w_releases example_world)) (hd (w_packs example_world)) (hd (w_verdicts example_world))
         example_autonomy_digest
       (rp_policy_digest example_recorded) (rp_checklist_digest example_recorded) CONDITION_HASH)) BINDING_KEYS))"

lemma strip_nonempty: "\<not> py_space c \<Longrightarrow> py_strip (c # s) \<noteq> []"
proof -
  assume "\<not> py_space c"
  then have "c \<in> set (dropWhile py_space (rev (c # s)))"
   by (simp add: dropWhile_append)
  then show ?thesis using \<open>\<not> py_space c\<close> by (auto simp: py_strip_def)
qed

lemma example_release_binding: "release_binding_digest example_sha (binding_components
     (hd (w_releases example_world)) (hd (w_packs example_world)) (hd (w_verdicts example_world))
         example_autonomy_digest
       (rp_policy_digest example_recorded) (rp_checklist_digest example_recorded) CONDITION_HASH) = Inr
           example_binding"
proof -
  let ?c = "binding_components
     (hd (w_releases example_world)) (hd (w_packs example_world)) (hd (w_verdicts example_world))
         example_autonomy_digest
       (rp_policy_digest example_recorded) (rp_checklist_digest example_recorded) CONDITION_HASH"
  have a: "map fst ?c = BINDING_KEYS" by (simp add: binding_components_def BINDING_KEYS_def)
  have d: "py_strip (uuid_str 10) \<noteq> []" "py_strip (uuid_str 12) \<noteq> []" "py_strip (uuid_str 14)
      \<noteq> []" by code_simp+
  have b: "list_all (\<lambda>(k, v). py_strip v \<noteq> []) ?c"
    by (simp add: binding_components_def d example_world_def example_recorded_def example_autonomy_digest_def
        example_digest_def CONDITION_HASH_def strip_nonempty py_space_def)
  have "component ?c k \<noteq> []" if "k \<in> set BINDING_KEYS" for k
  proof -
    have "k \<in> set (map fst ?c)" using that a by simp
    then obtain v where "map_of ?c k = Some v" by (metis in_set_conv_nth map_of_eq_None_iff list.set_map
        not_None_eq)
    then show ?thesis using b map_of_SomeD [of ?c k v] py_strip_Nil by (fastforce simp: component_def list_all_iff)
  qed
  then have "list_all (\<lambda>v. v \<noteq> []) (PREAPPROVAL_CONTRACT_VERSION # map (component ?c) BINDING_KEYS)"
    by (simp add: list_all_iff PREAPPROVAL_CONTRACT_VERSION_def)
  then show ?thesis
    using b by (simp only: release_binding_digest_def ordered_value_digest_def example_binding_def a check_simps
        bindE_simps simp_thms)
qed

definition example_row :: request_row where
  "example_row = \<lparr>pq_id = 101, pq_tenant = 7, pq_project = 3, pq_release_candidate = 10, pq_evidence_pack =
      12, pq_verdict = 14,
     pq_policy_version = 100, pq_autonomy_policy = 4, pq_approval = 102, pq_notification = 103,
     pq_contract_version = PREAPPROVAL_CONTRACT_VERSION, pq_condition_version = CONDITIONS_CONTRACT_VERSION,
     pq_condition_hash = CONDITION_HASH, pq_release_binding_digest = example_binding, pq_core_hash = ''sha256:c'',
     pq_issue_digest = ''sha256:i'', pq_source_digest = ''sha256:s'', pq_traceability_digest = ''sha256:t'',
     pq_verdict_input_digest = ''sha256:v'', pq_verdict_contract_hash = ''sha256:k'',
     pq_autonomy_digest = example_autonomy_digest, pq_requester_hash = svc_hash, pq_requester_type = ''service'',
     pq_requester_prov = ''request_authenticated'', pq_key_hash = example_digest (PDict [(''idempotency_key'',
         PStr ''k1'')]),
     pq_requested_at = 5, pq_created_at = 6\<rparr>"

definition world_asked :: release_world where
  "world_asked = (let w = (set_db db_asked (bump world_snapshot))\<lparr>w_notifications :=
      [example_notified]\<rparr> in
    w\<lparr>w_loop := (w_loop w)\<lparr>ls_requests := [example_row]\<rparr>\<rparr>)"

lemma example_versions: "pp_policy_digest example_version = rp_policy_digest example_recorded"
  "pp_checklist_digest example_version = rp_checklist_digest example_recorded"
  by (simp_all add: example_version_def)

lemma example_append_request: "append_request example_sha example_requester 3 101 (example_sources example_world)
    example_version example_asked example_notified svc_hash ''service''
  (example_digest (PDict [(''idempotency_key'', PStr ''k1'')])) 6 ((set_db db_asked (bump
      world_snapshot))\<lparr>w_notifications := [example_notified]\<rparr>) = Inr (example_row, world_asked)"
proof -
  note e = example_digest_of_policy example_release_binding example_conditions example_versions
  have c: "cs_candidate (example_sources example_world) = Some (hd (w_releases example_world))"
    "cs_core (example_sources example_world) = Some (hd (w_packs example_world))"
    "cs_verdict (example_sources example_world) = Some (hd (w_verdicts example_world))"
    "cs_autonomy_policy (example_sources example_world) = Some (hd (autonomy_policies (w_db example_world)))"
    by (simp_all add: example_sources_def)
  show ?thesis
   unfolding append_request_def c prod.case option.case e bindE_simps lift_error_simps Let_def
   by (simp add: request_constraints_def world_asked_def world_snapshot_def bump_def set_db_def Let_def
       example_row_def
       example_world_def example_version_def example_asked_def example_notified_def
     example_requester_def empty_db_def)
qed

lemma example_idempotency:
  assumes "py_strip k \<noteq> []" "utf8_len k \<le> 128"
  shows "idempotency_digest example_sha k = Inr (example_digest (PDict [(''idempotency_key'', PStr k)]))"
proof -
  have "json_plain (PDict [(''idempotency_key'', PStr k)])" by simp
  from canonical_example [OF this] assms show ?thesis by (simp add: idempotency_digest_def)
qed

lemma example_keys: "idempotency_digest example_sha ''k1'' = Inr (example_digest (PDict [(''idempotency_key'',
    PStr ''k1'')]))"
  "idempotency_digest example_sha ''k3'' = Inr (example_digest (PDict [(''idempotency_key'', PStr ''k3'')]))"
  "idempotency_digest example_sha ''k2'' = Inr (example_digest (PDict [(''idempotency_key'', PStr ''k2'')]))"
  by (rule example_idempotency; simp add: strip_nonempty py_space_def utf8_len_def)+

lemma example_require_sources: "require_current_sources example_sha (\<lambda>_ _. True) example_requester 3
    example_world = Inr (example_sources example_world)"
  by (simp add: require_current_sources_def example_sources_of example_requester_def) (simp add:
      example_sources_def example_world_def)

definition world_requested :: release_world where
  "world_requested = preapproval_audit example_requester ''production_preapproval.requested'' 3 101 REQUESTER
                    ''pending'' (Some 101) world_asked"

lemma example_preapproval_request: "preapproval_request example_sha (\<lambda>_ _. True) example_requester 3
    ''k1'' 5 6 example_world =
   Inr (\<lparr>ps_request_id = 101, ps_attestation_id = None, ps_status = ''pending'', ps_reason =
       ''request_recorded''\<rparr>, world_requested)"
proof -
  have a: "require_actor example_requester = Inr \<lparr>actor_subject = ''svc'', actor_type =
      ''service''\<rparr>" by (simp add: require_actor_def example_requester_def)
  have f: "find_request_by_idempotency example_requester 3 h example_world = None" for h by (simp add:
      find_request_by_idempotency_def example_world_def)
  have i: "db_next_id (w_db world_snapshot) = 101" by (simp add: world_snapshot_def bump_def set_db_def
      example_world_def
      empty_db_def)
  have r: "pq_id example_row = 101" by (simp add: example_row_def)
  show ?thesis
    by (simp add: preapproval_request_def a f i r example_append_snapshot example_request_and_notify
        example_append_request example_keys example_require_sources example_subjects world_requested_def del:
            bump_simps)
qed

lemma world_requested_simps [simp]:
  "w_versions world_requested = [example_version]" "w_approvers world_requested = [example_member]" "w_categories
      world_requested = w_categories example_world"
  "ls_requests (w_loop world_requested) = [example_row]" "ls_attestations (w_loop world_requested) = []"
      "ls_preapproval_events (w_loop world_requested) = []"
  "w_releases world_requested = w_releases example_world" "w_packs world_requested = w_packs example_world"
      "w_verdicts world_requested = w_verdicts example_world"
  "w_pack_runs world_requested = w_pack_runs example_world" "w_verdict_runs world_requested = w_verdict_runs
      example_world"
  "approvals (w_db world_requested) = [example_asked]" "autonomy_policies (w_db world_requested) =
      autonomy_policies (w_db example_world)"
  "w_notifications world_requested = [example_notified]" "projects (w_db world_requested) = projects (w_db
      example_world)" "db_next_id (w_db world_requested) = 104" "db_now (w_db world_requested) = 0"
  by (simp_all add: world_requested_def world_asked_def world_snapshot_def bump_def set_db_def Let_def
      example_world_def preapproval_audit_def
      audit_record_def)

lemma example_validate_policy: "validate_policy example_sha 100 w = Inr ()" if "w_versions w = [example_version]"
    "w_approvers w = [example_member]" "w_categories w = w_categories example_world"
proof -
  have d: "declared_data example_version 15 ''human_approval_policy'' w = Some (PDict example_policy_items)"
    "declared_data example_version 16 ''go_live_checklist'' w = Some (PDict example_checklist_items)"
    by (simp_all add: declared_data_def that example_world_def example_category_def example_version_def)
  have m: "policy_members example_version w = [example_member]"
    by (simp add: policy_members_def that example_member_def example_version_def)
  have s: "\<not> source_mismatch (PDict example_policy_items) (PDict example_checklist_items)"
    by (simp add: source_mismatch_def json_at_def text_at_def sql_text_def json_has_def differs_def
        example_policy_items_def example_checklist_items_def
      codes_dict_def NON_RESPONSE_def str_list_def REALTIME_FOR_def equals_codes_def GOVERNANCE_def)
  have a: "json_at (PDict example_policy_items) ''approvers'' = Some (PList [PStr ''owner''])"
    by (simp add: json_at_def example_policy_items_def)
  have p: "principals_match example_sha [PStr ''owner''] [example_member]"
    by (simp add: principals_match_def principal_matches_def example_member_def sql_text_def example_sha_subject
        owner_hash_def)
  show ?thesis
    by (simp add: validate_policy_def that m d s a p example_version_def [THEN arg_cong, of pp_id]
        example_version_def [THEN arg_cong, of pp_policy_category]
       example_version_def [THEN arg_cong, of pp_checklist_category] example_version_def [THEN arg_cong, of
           pp_approver_count]
       example_version_def [THEN arg_cong, of pp_approver_set_digest] example_member_def [THEN arg_cong, of
           pa_hash])
qed

lemma example_sql_binding: "sql_binding example_sha example_row (hd (w_releases example_world)) (hd (w_packs
    example_world)) (hd (w_verdicts example_world)) example_version
   = example_binding"
proof -
  have "map (component (binding_components
     (hd (w_releases example_world)) (hd (w_packs example_world)) (hd (w_verdicts example_world))
         example_autonomy_digest
       (rp_policy_digest example_recorded) (rp_checklist_digest example_recorded) CONDITION_HASH)) BINDING_KEYS =
    [uuid_str 10, uuid_str 12, uuid_str 14, ''sha256:c'', ''sha256:i'', ''sha256:s'', ''sha256:t'', ''sha256:v'',
        ''sha256:k'',
      example_autonomy_digest, rp_policy_digest example_recorded, rp_checklist_digest example_recorded,
          CONDITION_HASH]"
    by (simp add: component_def BINDING_KEYS_def binding_components_def) (simp add: example_world_def)
  then show ?thesis
    by (simp add: sql_binding_def example_binding_def example_row_def example_world_def example_versions del:
        join.simps)
qed

lemma example_validate_request: "validate_request example_sha 101 w = validate_attested example_row a
    example_version w"
  if "ls_requests (w_loop w) = [example_row]" "w_versions w = [example_version]" "w_approvers w =
      [example_member]" "w_categories w = w_categories example_world"
   "w_releases w = w_releases example_world" "w_packs w = w_packs example_world" "w_verdicts w = w_verdicts
       example_world" "approvals (w_db w) = [a]"
   "autonomy_policies (w_db w) = autonomy_policies (w_db example_world)"  "w_notifications w = [example_notified]"
       "approval_shape example_row a" "ap_id a = 102"
proof -
  have r: "pq_id example_row = 101" "pq_policy_version example_row = 100" "pq_release_candidate example_row = 10"
      "pq_evidence_pack example_row = 12"
    "pq_verdict example_row = 14" "pq_autonomy_policy example_row = 4" "pq_approval example_row = 102"
        "pq_notification example_row = 103"
    "pq_release_binding_digest example_row = example_binding" "pp_id example_version = 100" by (simp_all add:
        example_row_def example_version_def)
  have w: "row_by pp_id 100 (w_versions w) = Inr example_version" "row_by rl_id 10 (w_releases w) = Inr (hd
      (w_releases example_world))"
    "row_by ep_id 12 (w_packs w) = Inr (hd (w_packs example_world))"
    "row_by ve_id 14 (w_verdicts w) = Inr (hd (w_verdicts example_world))"
    "row_by pol_id 4 (autonomy_policies (w_db w)) = Inr (hd (autonomy_policies (w_db example_world)))"
    "row_by ap_id 102 (approvals (w_db w)) = Inr a"
    "row_by nt_id 103 (w_notifications w) = Inr example_notified"
    by (simp_all add: that r) (simp_all add: example_world_def empty_db_def example_notified_def)
  show ?thesis
    unfolding validate_request_def that(1)
    by (simp only: find.simps r if_True example_validate_policy [OF that(2-4)] w bindE_simps option.case
        example_sql_binding check_simps that(11) refl simp_thms)
      (simp add: that(12) example_row_def [THEN arg_cong, of pq_project] example_row_def [THEN arg_cong, of
          pq_tenant],
       simp add: example_row_def example_version_def example_notified_def example_world_def empty_db_def)
qed

lemma approval_shape_asked: "approval_shape example_row example_asked"
  by (simp add: approval_shape_def example_row_def example_asked_def differs_def REQUEST_AUTHENTICATED_def)

lemma example_asked_simps [simp]: "ap_status example_asked = PENDING" "ap_id example_asked = 102"
  by (simp_all add: example_asked_def)

lemma example_preapproval_requested: "committed example_sha example_world (preapproval_request example_sha
    (\<lambda>_ _. True) example_requester 3 ''k1'' 5 6 example_world) =
   Inr (\<lparr>ps_request_id = 101, ps_attestation_id = None, ps_status = ''pending'', ps_reason =
       ''request_recorded''\<rparr>, world_requested)"
proof -
  have g: "guarded_policies example_world world_requested = [100, 100]"
    by (simp add: guarded_policies_def inserted_def) (simp add: example_world_def example_version_def
        example_member_def)
  have r: "guarded_requests example_world world_requested = [101]"
    by (simp add: guarded_requests_def inserted_def updated_approvals_def Let_def) (simp add: example_world_def
        empty_db_def example_row_def map_filter_simps)
  have "validate_request example_sha 101 world_requested = Inr ()"
    by (subst example_validate_request [where a = example_asked]) (simp_all add: validate_attested_def
        approval_shape_asked)
  then have "commit example_sha example_world world_requested = Inr ()"
    by (simp add: commit_def g r example_validate_policy)
  then show ?thesis by (simp add: committed_def example_preapproval_request del: committed_Inr)
qed

lemma example_reach_start: "preapproval_reach example_sha (\<lambda>_ _. True) example_world"
  by (rule preapproval_reach.empty) (simp_all add: example_world_def approvals_wf_def approval_history_def
      empty_db_def)

lemma example_reach_requested: "preapproval_reach example_sha (\<lambda>_ _. True) world_requested"
  by (rule preapproval_reach.requested [OF example_reach_start example_preapproval_requested])

section \<open>The approval\<close>

definition example_granted :: approval_row where
  "example_granted = resolved_row APPROVED (Some owner_hash) (Some REQUEST_AUTHENTICATED) 0 example_asked"

definition db_granted :: db where
  "db_granted = ap_record example_approver example_granted ''approved'' APPROVER (Some PENDING) None ((w_db
      world_requested)\<lparr>approvals := [example_granted]\<rparr>)"

lemma example_approve_generic: "approve_generic example_approver 102 owner_hash world_requested = Inr
    (example_granted, set_db db_granted world_requested)"
  by (simp add: approve_generic_def approve_def resolve_by_human_def resolution_args_def example_approver_def
      actor_fields_def storage_actor_def
       check_not_own_request_def approval_get_def ap_transition_def example_asked_def update_where_def
           example_granted_def db_granted_def str_or_def APPROVER_def
       resolved_row_def)

definition example_attestation :: attestation_row where
  "example_attestation = \<lparr>ta_id = 104, ta_tenant = 7, ta_project = 3, ta_request = 101, ta_approval = 102,
      ta_policy_version = 100,
     ta_release_candidate = 10, ta_evidence_pack = 12, ta_verdict = 14, ta_requester_hash = svc_hash,
         ta_requester_type = ''service'',
     ta_requester_prov = ''request_authenticated'', ta_approver_hash = owner_hash, ta_approver_type = ''human'',
     ta_approver_prov = ''request_authenticated'', ta_key_hash = example_digest (PDict [(''idempotency_key'', PStr
         ''k2'')]),
     ta_approved_at = 0, ta_valid_from = 0, ta_expires_at = hours 24, ta_membership_ok = True, ta_created_at =
         8\<rparr>"

lemma example_append_attestation: "append_attestation example_approver example_row example_granted owner_hash
    ''human'' (example_digest (PDict [(''idempotency_key'', PStr ''k2'')]))
   (0 + hours 24) 8 (set_db db_granted world_requested) =
   Inr (example_attestation, let w = bump (set_db db_granted world_requested) in w\<lparr>w_loop := (w_loop
       w)\<lparr>ls_attestations := [example_attestation]\<rparr>\<rparr>)"
proof -
  have "ap_resolved_at example_granted = Some 0" by (simp add: example_granted_def resolved_row_def)
  moreover have "db_next_id db_granted = 104" by (simp add: db_granted_def ap_record_def audit_record_def)
  ultimately show ?thesis
    by (simp add: append_attestation_def attestation_constraints_def example_attestation_def example_row_def
        Let_def hours_def example_approver_def)
qed

definition world_attested :: release_world where
  "world_attested = (let w = bump (set_db db_granted world_requested) in w\<lparr>w_loop := (w_loop
      w)\<lparr>ls_attestations := [example_attestation]\<rparr>\<rparr>)"

definition example_anchor :: preapproval_event_row where
  "example_anchor = \<lparr>pv_id = 105, pv_tenant = 7, pv_project = 3, pv_attestation = 104, pv_previous = None,
      pv_type = ''approved_anchor'',
     pv_actor_hash = owner_hash, pv_actor_type = ''human'', pv_actor_prov = ''request_authenticated'',
     pv_reason = ''request_authenticated_preapproval_recorded'',
     pv_key_hash = example_digest (PDict [(''event'', PStr ''approved_anchor''), (''resolution_key_hash'', PStr
         (example_digest (PDict [(''idempotency_key'', PStr ''k2'')])))]),
     pv_created_at = 8\<rparr>"

definition world_anchored :: release_world where
  "world_anchored = (let w = bump world_attested in w\<lparr>w_loop := (w_loop w)\<lparr>ls_preapproval_events :=
      [example_anchor]\<rparr>\<rparr>)"

lemma world_anchored_simps [simp]:
  "w_versions world_anchored = [example_version]" "w_approvers world_anchored = [example_member]" "w_categories
      world_anchored = w_categories example_world"
  "ls_requests (w_loop world_anchored) = [example_row]" "ls_attestations (w_loop world_anchored) =
      [example_attestation]" "ls_preapproval_events (w_loop world_anchored) = [example_anchor]"
  "w_releases world_anchored = w_releases example_world" "w_packs world_anchored = w_packs example_world"
      "w_verdicts world_anchored = w_verdicts example_world"
  "w_pack_runs world_anchored = w_pack_runs example_world" "w_verdict_runs world_anchored = w_verdict_runs
      example_world"
  "approvals (w_db world_anchored) = [example_granted]" "autonomy_policies (w_db world_anchored) =
      autonomy_policies (w_db example_world)"
  "w_notifications world_anchored = [example_notified]" "projects (w_db world_anchored) = projects (w_db
      example_world)" "db_next_id (w_db world_anchored) = 106" "db_now (w_db world_anchored) = 0"
  by (simp_all add: world_anchored_def world_attested_def bump_def set_db_def Let_def db_granted_def ap_record_def
      audit_record_def)

lemma example_append_anchor: "append_lifecycle_event example_approver example_attestation None ''approved_anchor''
    owner_hash ''human''
    ''request_authenticated_preapproval_recorded'' (example_digest (PDict [(''event'', PStr ''approved_anchor''),
        (''resolution_key_hash'', PStr (example_digest (PDict [(''idempotency_key'', PStr ''k2'')])))])) 8
        world_attested
   = Inr (example_anchor, world_anchored)"
proof -
  have "db_next_id (w_db world_attested) = 105" by (simp add: world_attested_def Let_def db_granted_def
      ap_record_def audit_record_def
      bump_def set_db_def)
  moreover have "ls_preapproval_events (w_loop world_attested) = []" by (simp add: world_attested_def Let_def)
  ultimately show ?thesis
  by (simp add: append_lifecycle_event_def event_constraints_def world_anchored_def example_anchor_def
      example_attestation_def
      Let_def example_approver_def)
qed

lemma example_supersede_nothing: "supersede_prior example_sha example_approver 3 example_attestation owner_hash
    ''human'' h 8 world_anchored = Inr world_anchored"
proof -
  have "lock_project_row example_approver 3 (w_db world_anchored) = Inr \<lparr>pr_id = 3, pr_tenant = 7\<rparr>"
    by (simp add: lock_project_row_def example_world_def example_approver_def)
  then show ?thesis by (simp add: supersede_prior_def)
qed

lemma example_coverage:
  assumes "w_releases w = w_releases example_world" "w_pack_runs w = w_pack_runs example_world"
    "w_packs w = w_packs example_world" "w_verdict_runs w = w_verdict_runs example_world"
    "w_verdicts w = w_verdicts example_world" "w_categories w = w_categories example_world"
    "autonomy_policies (w_db w) = autonomy_policies (w_db example_world)" "ls_requests (w_loop w) = [example_row]"
    "ctx_tenant ctx = 7"
  shows "coverage_for_project example_sha (\<lambda>_ _. True) ctx 3 now w =
    Inr (request_coverage ctx now (example_sources example_world) (Some example_binding) example_row w)"
proof -
  have "latest_request ctx 3 w = Some example_row"
    by (simp add: latest_request_def assms) (simp add: example_row_def)
  moreover have "current_sources_of example_sha (\<lambda>_ _. True) ctx 3 w = Inr (example_sources example_world)"
    by (rule example_sources_of) (simp_all add: assms)
  moreover have "expected_binding example_sha (example_sources example_world) = Inr (Some example_binding)"
  proof -
    have c: "cs_candidate (example_sources example_world) = Some (hd (w_releases example_world))"
      "cs_core (example_sources example_world) = Some (hd (w_packs example_world))"
      "cs_verdict (example_sources example_world) = Some (hd (w_verdicts example_world))"
      "cs_autonomy_policy (example_sources example_world) = Some (hd (autonomy_policies (w_db example_world)))"
      "cs_parsed_policy (example_sources example_world) = Some example_recorded"
      by (simp_all add: example_sources_def)
    show ?thesis unfolding expected_binding_def c prod.case option.case example_digest_of_policy
        example_conditions example_release_binding bindE_simps lift_error_simps ..
  qed
  ultimately show ?thesis by (simp add: coverage_for_project_def)
qed

lemma example_require_current: "require_current_request example_sha (\<lambda>_ _. True) example_approver 3 101 7
    world_requested = Inr ()"
  by (simp add: require_current_request_def example_coverage example_approver_def request_coverage_def Let_def
      binding_is_current_def)
   (simp add: example_sources_def example_row_def example_world_def empty_db_def)

lemma example_require_approver: "require_policy_approver example_sha example_approver example_row True
    world_requested = Inr owner_hash"
  by (simp add: require_policy_approver_def require_actor_def example_approver_def example_subjects
      policy_has_member_def actor_evidence_of_def optional_digest_def)
   (simp add: example_member_def example_row_def)

definition world_approved :: release_world where
  "world_approved = preapproval_audit example_approver ''production_preapproval.approved'' 3 104 APPROVER
                          ''approved_key_custody_under_recorded_policy'' (Some 101) world_anchored"

lemma example_preapproval_approve: "preapproval_approve example_sha (\<lambda>_ _. True) example_approver 3 101
    ''k2'' 7 8 world_requested =
   Inr (\<lparr>ps_request_id = 101, ps_attestation_id = Some 104, ps_status = ''approved'', ps_reason =
       ''request_authenticated_preapproval_recorded''\<rparr>, world_approved)"
proof -
  have r: "pq_id example_row = 101" "ta_id example_attestation = 104" by (simp_all add: example_row_def
      example_attestation_def)
  have a: "request_and_approval example_approver 3 101 world_requested = Inr (example_row, example_asked)"
    by (simp add: request_and_approval_def get_request_def approval_get_def) (simp add: example_row_def
        example_approver_def example_asked_def)
  have n: "attestation_for_request example_approver 101 world_requested = None" by (simp add:
      attestation_for_request_def)
  have q: "require_actor example_approver = Inr \<lparr>actor_subject = ''owner'', actor_type = ''human''\<rparr>"
      by (simp add: require_actor_def example_approver_def)
  have t: "ap_resolved_at example_granted = Some 0" by (simp add: example_granted_def resolved_row_def)
  have k: "idempotency_digest example_sha ''k2'' = Inr (example_digest (PDict [(''idempotency_key'', PStr
      ''k2'')]))"
    by (rule example_keys)
  have k2: "canonical_digest example_sha (PDict [(''event'', PStr ''approved_anchor''), (''resolution_key_hash'',
      PStr h)]) =
     Inr (example_digest (PDict [(''event'', PStr ''approved_anchor''), (''resolution_key_hash'', PStr h)]))" for h
    by (rule canonical_example) simp
  show ?thesis
    by (simp add: preapproval_approve_def a r n example_require_current q example_require_approver
        example_approve_generic t k example_append_attestation [simplified] k2 world_attested_def [symmetric]
        example_append_anchor example_supersede_nothing world_approved_def)
qed

lemma granted_shape: "approval_shape example_row example_granted"
  by (simp add: approval_shape_def example_row_def example_asked_def differs_def REQUEST_AUTHENTICATED_def
      example_granted_def resolved_row_def)

lemma example_preapproval_approved: "committed example_sha world_requested (preapproval_approve example_sha
    (\<lambda>_ _. True) example_approver 3 101 ''k2'' 7 8 world_requested) =
   Inr (\<lparr>ps_request_id = 101, ps_attestation_id = Some 104, ps_status = ''approved'', ps_reason =
       ''request_authenticated_preapproval_recorded''\<rparr>, world_approved)"
proof -
  have w: "ls_requests (w_loop world_approved) = [example_row]" "w_versions world_approved = [example_version]"
      "w_approvers world_approved = [example_member]" "w_categories world_approved = w_categories example_world"
   "w_releases world_approved = w_releases example_world" "w_packs world_approved = w_packs example_world"
       "w_verdicts world_approved = w_verdicts example_world" "approvals (w_db world_approved) = [example_granted]"
   "autonomy_policies (w_db world_approved) = autonomy_policies (w_db example_world)"  "w_notifications
       world_approved = [example_notified]" "ap_id example_granted = 102"
   "ls_attestations (w_loop world_approved) = [example_attestation]" "ls_preapproval_events (w_loop
       world_approved) = [example_anchor]"
   by (simp_all add: world_approved_def preapproval_audit_def set_db_def audit_record_def) (simp add:
       example_granted_def
       resolved_row_def)
  have g: "guarded_policies world_requested world_approved = []"
    by (simp add: guarded_policies_def inserted_def w)
  have d: "example_asked \<noteq> example_granted"
    by (simp add: example_granted_def resolved_row_def example_asked_def)
  have r: "set (guarded_requests world_requested world_approved) \<subseteq> {101}"
    by (simp add: guarded_requests_def inserted_def updated_approvals_def Let_def w map_filter_simps) (simp add:
        example_row_def example_attestation_def)
  have at: "validate_attested example_row example_granted example_version world_approved = Inr ()"
  proof -
    have "attestation_graph example_row example_granted example_version example_attestation world_approved"
      by (simp add: attestation_graph_def w) (simp add: example_row_def example_granted_def example_version_def
          example_attestation_def resolved_row_def
        example_asked_def differs_def identity_separation_ok_def gate_eligible_at_creation_def example_member_def
            REQUEST_AUTHENTICATED_def hours_def)
    moreover have "events_of 104 world_approved = [example_anchor]" by (simp add: events_of_def w) (simp add:
        example_anchor_def)
    moreover have "ta_request example_attestation = pq_id example_row" "ta_id example_attestation = 104"
      by (simp_all add: example_row_def example_attestation_def)
    moreover have "lifecycle_linear [example_anchor]" "lifecycle_ordered [example_anchor] [example_anchor]"
        "lifecycle_actors example_version [example_anchor] world_approved"
      by (simp_all add: lifecycle_linear_def lifecycle_ordered_def lifecycle_actors_def example_anchor_def)
    moreover have "ap_status example_granted = APPROVED" by (simp add: example_granted_def resolved_row_def)
    ultimately show ?thesis by (simp add: validate_attested_def w)
  qed
  have "validate_request example_sha 101 world_approved = Inr ()"
    by (subst example_validate_request [where a = example_granted]) (simp_all add: w at granted_shape)
  then have "commit example_sha world_requested world_approved = Inr ()"
    using r by (auto simp: commit_def g)
  then show ?thesis by (simp add: committed_def example_preapproval_approve del: committed_Inr)
qed
lemma example_reach_approved: "preapproval_reach example_sha (\<lambda>_ _. True) world_approved"
proof (rule preapproval_reach.approved [OF example_reach_requested _ example_preapproval_approved])
  show "later 8 world_requested" by (simp add: later_def)
qed

end
