(* ===== verification/Preapproval_Properties.thy ===== *)
theory Preapproval_Properties
  imports Preapproval_Example Decision_Chain
begin

text \<open>
  What the reachable states of production preapprovals guarantee: who an attestation comes from, that at
  most one is in force, what gate 12 asks of the coverage, and that an evaluation taken from a covered
  project finds its preapproval current when the decision is finalised.
\<close>

section \<open>The graph of an attestation\<close>

lemma attestation_request:
  assumes "preapproval_ok w" "t \<in> set (ls_attestations (w_loop w))"
  obtains r a where "r \<in> set (ls_requests (w_loop w))" "pq_id r = ta_request t" "pq_tenant r = ta_tenant t"
    "pq_project r = ta_project t" "List.find (\<lambda>a. ap_id a = pq_approval r) (approvals (w_db w)) = Some a"
    "approval_shape r a" "ap_status a = APPROVED" "attested r a t"
    "member_of w (pq_policy_version r) (ta_approver_hash t)"
proof -
  have rows: "rows_ok w" and reqs: "\<forall>r\<in>set (ls_requests (w_loop w)). request_ok w r"
    using assms(1) by (simp_all add: preapproval_ok_def)
  obtain r where r: "r \<in> set (ls_requests (w_loop w))" "pq_id r = ta_request t" "pq_tenant r = ta_tenant t"
    "pq_project r = ta_project t"
    using rows assms(2) unfolding rows_ok_def by blast
  have t: "t \<in> set (filter (\<lambda>t. ta_request t = pq_id r) (ls_attestations (w_loop w)))" using assms(2)
      r(2) by simp
  have "request_ok w r" using reqs r(1) by blast
  then obtain a where a: "List.find (\<lambda>a. ap_id a = pq_approval r) (approvals (w_db w)) = Some a"
      "approval_shape r a"
    "length (filter (\<lambda>t. ta_request t = pq_id r) (ls_attestations (w_loop w))) = (if ap_status a =
        APPROVED then 1 else 0)"
    "attested r a t" "member_of w (pq_policy_version r) (ta_approver_hash t)"
    using t unfolding request_ok_def Let_def by blast
  have "ap_status a = APPROVED" using a(3) t by (cases "ap_status a = APPROVED") auto
  then show thesis using that r a by blast
qed

lemma request_unique:
  assumes "preapproval_ok w" "q \<in> set (ls_requests (w_loop w))" "r \<in> set (ls_requests (w_loop w))" "pq_id
      q = pq_id r"
  shows "q = r"
proof -
  have "distinct (map pq_id (ls_requests (w_loop w)))" using assms(1) by (simp add: preapproval_ok_def ids_ok_def)
  then show ?thesis using assms(2-4) by (metis find_by_id option.inject)
qed

lemma attestation_unique:
  assumes "preapproval_ok w" "t \<in> set (ls_attestations (w_loop w))" "u \<in> set (ls_attestations (w_loop w))"
    "ta_id t = ta_id u"
  shows "t = u"
proof -
  have "distinct (map ta_id (ls_attestations (w_loop w)))" using assms(1) by (simp add: preapproval_ok_def
      ids_ok_def)
  then show ?thesis using assms(2-4) by (metis find_by_id option.inject)
qed

lemma find_by_id_and:
  assumes "distinct (map f rows)" "r \<in> set rows" "P r"
  shows "List.find (\<lambda>x. f x = f r \<and> P x) rows = Some r"
proof -
  have "x = r" if "x \<in> set rows" "f x = f r" for x using assms(1,2) that by (metis find_by_id option.inject)
  moreover have "List.find (\<lambda>x. f x = f r \<and> P x) rows \<noteq> None" using assms(2,3) by (auto simp:
      find_None_iff)
  ultimately show ?thesis using find_Some_mem by fast
qed

lemma policy_get_mem:
  assumes "policy_get_for_project ctx project d = Inr (Some p)"
  shows "p \<in> set (autonomy_policies d) \<and> pol_project p = project \<and> pol_tenant p = ctx_tenant ctx"
proof -
  have "filter (\<lambda>r. pol_project r = project \<and> pol_tenant r = ctx_tenant ctx) (autonomy_policies d) =
      [p]"
    using assms by (simp add: policy_get_for_project_def scalar_one_or_none_iff)
  then have "p \<in> set (filter (\<lambda>r. pol_project r = project \<and> pol_tenant r = ctx_tenant ctx)
      (autonomy_policies d))"
    by (simp only: list.set insert_iff simp_thms)
  then show ?thesis by simp
qed

section \<open>Lifecycles\<close>

text \<open>An event that ends a preapproval is later than its anchor.\<close>

lemma linked_after:
  assumes "linked n evs v" "lifecycle_ordered evs evs" "v \<in> set evs" "pv_type v \<noteq> ''approved_anchor''"
  shows "\<exists>a\<in>set evs. pv_type a = ''approved_anchor'' \<and> pv_created_at a < pv_created_at v"
  using assms
proof (induction n arbitrary: v)
  case (Suc n)
  then obtain q where q: "q \<in> set evs" "pv_previous v = Some (pv_id q)" "linked n evs q" by (auto simp:
      list_ex_iff)
  have "pv_created_at q < pv_created_at v"
    using Suc.prems(2,3) q(1,2) unfolding lifecycle_ordered_def list_ex_iff by (meson linorder_not_less)
  moreover have "pv_type q = ''approved_anchor'' \<or>
      (\<exists>a\<in>set evs. pv_type a = ''approved_anchor'' \<and> pv_created_at a < pv_created_at q)"
    using Suc.IH [OF q(3) Suc.prems(2) q(1)] by blast
  ultimately show ?case using q(1) by (meson less_trans)
qed simp

lemma one_member: "length (filter P xs) = 1 \<Longrightarrow> x \<in> set xs \<Longrightarrow> y \<in> set xs
    \<Longrightarrow> P x \<Longrightarrow> P y \<Longrightarrow> x = y"
  by (induction xs) (auto split: if_splits simp: filter_empty_conv)

lemma anchor_head_is_live:
  assumes ok: "preapproval_ok w" "t \<in> set (ls_attestations (w_loop w))" "ta_tenant t = ctx_tenant ctx"
    and head: "latest_lifecycle ctx (ta_id t) w = Some h" "pv_type h = ''approved_anchor''"
  shows "live w t"
  unfolding live_def
proof (intro ballI impI)
  note life = attestation_lifecycle [OF ok(1,2)]
  fix v assume v: "v \<in> set (ls_preapproval_events (w_loop w))" "pv_attestation v = ta_id t"
  then have ve: "v \<in> set (events_of (ta_id t) w)" by (simp add: events_of_def)
  have l: "latest_by (\<lambda>v. (pv_created_at v, pv_id v)) (events_of (ta_id t) w) = Some h"
    using head(1) life(2) ok(3) by (simp add: latest_lifecycle_def)
  show "pv_type v \<notin> {''revoked'', ''superseded''}"
  proof
    assume "pv_type v \<in> {''revoked'', ''superseded''}"
    then have "pv_type v \<noteq> ''approved_anchor''" by auto
    moreover have ok': "lifecycle_linear (events_of (ta_id t) w)" "lifecycle_ordered (events_of (ta_id t) w)
        (events_of (ta_id t) w)"
      using life(1) by (simp_all add: lifecycle_ok_def)
    moreover have "linked (length (events_of (ta_id t) w)) (events_of (ta_id t) w) v"
      using ok'(1) ve by (simp add: lifecycle_linear_def list_all_iff)
    ultimately obtain a where a: "a \<in> set (events_of (ta_id t) w)" "pv_type a = ''approved_anchor''"
      "pv_created_at a < pv_created_at v" using linked_after ve by blast
    have "a = h"
      by (rule one_member [of "\<lambda>v. pv_type v = ''approved_anchor''" "events_of (ta_id t) w"])
        (use ok'(1) a latest_by_mem [OF l] head(2) in \<open>simp_all add: lifecycle_linear_def\<close>)
    moreover have "pv_created_at v \<le> pv_created_at h" using latest_by_max [OF l ve] by (auto simp:
        less_eq_prod_def)
    ultimately show False using a(3) by simp
  qed
qed

section \<open>Coverage\<close>

lemma latest_request_row:
  assumes "latest_request ctx project w = Some r"
  shows "r \<in> set (ls_requests (w_loop w))" "pq_tenant r = ctx_tenant ctx" "pq_project r = project"
  using latest_by_mem [OF assms [unfolded latest_request_def]] by auto

lemma attestation_for_request_row:
  assumes "attestation_for_request ctx i w = Some t"
  shows "t \<in> set (ls_attestations (w_loop w))" "ta_tenant t = ctx_tenant ctx" "ta_request t = i"
  using assms by (auto simp: attestation_for_request_def dest!: find_Some_mem)

text \<open>A coverage that is eligible rests on the rows of the latest request.\<close>

lemma eligible_coverage:
  assumes "coverage_for_project sha reaudits ctx project now w = Inr c" "preapproval_gate_eligible c"
  obtains cs r b t h a where "current_sources_of sha reaudits ctx project w = Inr cs"
    "latest_request ctx project w = Some r" "expected_binding sha cs = Inr (Some b)"
    "c = request_coverage ctx now cs (Some b) r w" "binding_is_current cs (Some b) r"
    "attestation_for_request ctx (pq_id r) w = Some t" "latest_lifecycle ctx (ta_id t) w = Some h"
    "pv_type h = ''approved_anchor''" "\<not> preapproval_is_expired (ta_expires_at t) now"
    "approval_get ctx (pq_approval r) (w_db w) = Some a" "ap_status a = APPROVED"
    "evidence_is_consistent r (Some a) (notification_is_valid r (notification_of ctx r w)) (Some t) (Some h)"
proof -
  from assms(1) obtain cs where cs: "current_sources_of sha reaudits ctx project w = Inr cs"
    by (auto simp: coverage_for_project_def)
  have "\<not> preapproval_gate_eligible (base_coverage cs)"
    by (simp add: base_coverage_def preapproval_evidence.defs default_preapproval_evidence_def)
  then obtain r x where r: "latest_request ctx project w = Some r" "expected_binding sha cs = Inr x"
    and c: "c = request_coverage ctx now cs x r w"
    using assms cs by (auto simp: coverage_for_project_def split: option.splits)
  from assms(2) have e: "evidence_is_consistent r (approval_get ctx (pq_approval r) (w_db w))
      (notification_is_valid r (notification_of ctx r w)) (attestation_for_request ctx (pq_id r) w)
      (case attestation_for_request ctx (pq_id r) w of None \<Rightarrow> None | Some t \<Rightarrow>
          latest_lifecycle ctx (ta_id t) w)"
    "binding_is_current cs x r"
    "map_option pv_type (case attestation_for_request ctx (pq_id r) w of None \<Rightarrow> None | Some t
        \<Rightarrow> latest_lifecycle ctx (ta_id t) w) =
      Some ''approved_anchor''"
    "\<not> (case attestation_for_request ctx (pq_id r) w of None \<Rightarrow> False | Some t \<Rightarrow>
        preapproval_is_expired (ta_expires_at t) now)"
    "case approval_get ctx (pq_approval r) (w_db w) of None \<Rightarrow> False | Some a \<Rightarrow> ap_status a
        = APPROVED"
    unfolding c request_coverage_def Let_def by simp_all
  from e(2) obtain b where x: "x = Some b" by (auto simp: binding_is_current_def split: option.splits)
  from e(3) obtain t h where t: "attestation_for_request ctx (pq_id r) w = Some t" "latest_lifecycle ctx (ta_id t)
      w = Some h"
    "pv_type h = ''approved_anchor''" by (auto split: option.splits)
  from e(5) obtain a where a: "approval_get ctx (pq_approval r) (w_db w) = Some a" "ap_status a = APPROVED"
    by (auto split: option.splits)
  show thesis
    using that [OF cs r(1) _ _ _ t _ a] r(2) c e x t a by simp
qed

text \<open>The agreement of the two views of a request: what was committed, and what is read.\<close>

lemma covered_rows:
  assumes ok: "preapproval_ok w" and r: "latest_request ctx project w = Some r"
    and t: "attestation_for_request ctx (pq_id r) w = Some t"
    and a: "approval_get ctx (pq_approval r) (w_db w) = Some a"
  shows "attested r a t" "approval_shape r a" "member_of w (pq_policy_version r) (ta_approver_hash t)"
    "policy_has_member ctx (pq_policy_version r) (ta_approver_hash t) w" "ta_approver_hash t \<noteq> []"
    "pq_requester_prov r = ''request_authenticated''" "pq_requester_type r \<in> {''human'', ''service''}"
    "ta_approver_type t = ''human''"
proof -
  note lr = latest_request_row [OF r] and at = attestation_for_request_row [OF t]
  obtain q b where q: "q \<in> set (ls_requests (w_loop w))" "pq_id q = ta_request t"
    "List.find (\<lambda>a. ap_id a = pq_approval q) (approvals (w_db w)) = Some b" "approval_shape q b" "attested
        q b t"
    "member_of w (pq_policy_version q) (ta_approver_hash t)"
    using attestation_request [OF ok at(1)] by metis
  have qr: "q = r" using request_unique [OF ok q(1) lr(1)] q(2) at(3) by simp
  have wf: "approvals_wf (w_db w)" and rows: "rows_ok w" using ok by (simp_all add: preapproval_ok_def ids_ok_def)
  then have "distinct (map ap_id (approvals (w_db w)))" by (simp add: approvals_wf_def)
  moreover have "a \<in> set (approvals (w_db w))" "ap_id a = pq_approval r"
    using a by (auto simp: approval_get_def dest!: find_Some_mem)
  ultimately have "List.find (\<lambda>a. ap_id a = pq_approval r) (approvals (w_db w)) = Some a"
    by (simp add: find_by_id_iff)
  then have "b = a" using q(3) qr by simp
  with q qr show "attested r a t" "approval_shape r a" and mem: "member_of w (pq_policy_version r)
      (ta_approver_hash t)"
    by simp_all
  obtain m where m: "m \<in> set (w_approvers w)" "pa_version m = pq_policy_version r" "pa_hash m =
      ta_approver_hash t"
    using mem unfolding member_of_def by blast
  have "pa_tenant m = pq_tenant r" using rows lr(1) m(1,2) unfolding rows_ok_def by blast
  then show "policy_has_member ctx (pq_policy_version r) (ta_approver_hash t) w"
    using m lr(2) by (auto simp: policy_has_member_def list_ex_iff)
  show "ta_approver_hash t \<noteq> []" using rows m(1,3) unfolding rows_ok_def by metis
  show "pq_requester_prov r = ''request_authenticated''" "pq_requester_type r \<in> {''human'', ''service''}"
    using rows lr(1) unfolding rows_ok_def by blast+
  show "ta_approver_type t = ''human''" using rows at(1) unfolding rows_ok_def by blast
qed

text \<open>A binding can only be current when every source of it is there.\<close>

lemma binding_sources:
  assumes "expected_binding sha cs = Inr (Some b)" "binding_is_current cs (Some b) r"
  obtains candidate pack verdict parsed autonomy where "cs_candidate cs = Some candidate" "cs_core cs = Some pack"
    "cs_verdict cs = Some verdict" "cs_parsed_policy cs = Some parsed" "cs_autonomy_policy cs = Some autonomy"
    "pq_release_binding_digest r = b" "pq_release_candidate r = rl_id candidate" "pq_evidence_pack r = ep_id pack"
    "pq_verdict r = ve_id verdict" "pq_autonomy_policy r = pol_id autonomy"
  using assms by (auto simp: expected_binding_def binding_is_current_def split: option.splits)

lemma current_parsed_policy:
  assumes "current_sources_of sha reaudits ctx project w = Inr cs" "cs_parsed_policy cs = Some parsed"
  shows "cs_policy_category cs \<noteq> None" "cs_checklist_category cs \<noteq> None" "0 < approver_count parsed"
    "cs_core_reaudited cs \<Longrightarrow> cs_core cs \<noteq> None"
proof -
  have p: "parsed_policy sha (cs_policy_category cs) (cs_checklist_category cs) = Some parsed"
    and core: "cs_core_reaudited cs \<Longrightarrow> cs_core cs \<noteq> None"
    using assms by (auto simp: current_sources_of_def no_sources_def Let_def split: option.splits if_splits)
  then show "cs_core_reaudited cs \<Longrightarrow> cs_core cs \<noteq> None" by blast
  from p obtain pc cc where c: "cs_policy_category cs = Some pc" "cs_checklist_category cs = Some cc"
    "parse_recorded_policy sha (ic_data pc) (ic_data cc) = Inr parsed"
    by (auto simp: parsed_policy_def split: option.splits if_splits sum.splits)
  then show "cs_policy_category cs \<noteq> None" "cs_checklist_category cs \<noteq> None" by simp_all
  obtain names where "1 \<le> length names" "rp_approver_hashes parsed = map (\<lambda>n. ''sha256:'' @ sha
      (subject_text n)) names"
    using recorded_policy_facts [OF c(3)] by metis
  then have "length (rp_approver_hashes parsed) = length names" "0 < length names" by (simp, linarith)
  then show "0 < approver_count parsed" by (simp only: approver_count_def)
qed

section \<open>Properties\<close>

text \<open>C25: An accepted approval policy names between one and a hundred principals, each once, none of them a
    wildcard,
  role or group, and records exactly their digests; production waits for an approval without a deadline.\<close>

theorem recorded_policy_principals:
  assumes "parse_recorded_policy sha policy checklist = Inr r"
  shows "\<exists>names p. policy = PDict p \<and> dget p ''approvers'' = PList (map PStr names) \<and>
      1 \<le> length names \<and> length names \<le> 100 \<and> distinct names \<and>
      list_all (\<lambda>n. \<not> unsupported_approver n \<and> py_strip n \<noteq> [] \<and> utf8_len n \<le>
          255) names \<and>
      map Inr (rp_approver_hashes r) = map (subject_digest sha) names \<and> distinct (rp_approver_hashes r) \<and>
      dget p ''approval_channel'' = PStr ''dashboard'' \<and> equals_codes (dget p ''non_response_policy'')
          NON_RESPONSE"
proof -
  obtain names p where f: "policy = PDict p" "dget p ''approvers'' = PList (map PStr names)"
    "1 \<le> length names" "length names \<le> MAX_APPROVERS" "distinct names"
    "\<forall>n\<in>set names. \<not> unsupported_approver n \<and> py_strip n \<noteq> [] \<and> utf8_len n \<le>
        MAX_SUBJECT_BYTES"
    "rp_approver_hashes r = map (\<lambda>n. ''sha256:'' @ sha (subject_text n)) names" "distinct
        (rp_approver_hashes r)"
    "dget p ''approval_channel'' = PStr ''dashboard''" "equals_codes (dget p ''non_response_policy'') NON_RESPONSE"
    using recorded_policy_facts [OF assms] by metis
  have "subject_digest sha n = Inr (''sha256:'' @ sha (subject_text n))" if "n \<in> set names" for n
    using f(6) that by (simp only: subject_digest_iff simp_thms)
  then have "map Inr (rp_approver_hashes r) = map (subject_digest sha) names" unfolding f(7) by simp
  with f show ?thesis
    by (intro exI [of _ names] exI [of _ p]) (simp add: list_all_iff MAX_APPROVERS_def MAX_SUBJECT_BYTES_def)
qed

lemma recorded_policy_principals_witness:
  "\<exists>names. dget example_policy_items ''approvers'' = PList (map PStr names) \<and> distinct names \<and> 1
      \<le> length names"
  using recorded_policy_principals [OF example_parsed] by blast

text \<open>C20: In every reachable state each attestation is the outcome of an explicit production approval of the
  release it names, requested by someone else, granted by a human of the recorded policy, for at most 24
      hours.\<close>

theorem attestation_is_granted:
  assumes "preapproval_reach sha reaudits w" "t \<in> set (ls_attestations (w_loop w))"
  shows "\<exists>r a. r \<in> set (ls_requests (w_loop w)) \<and> pq_id r = ta_request t \<and> pq_tenant r =
      ta_tenant t \<and>
      pq_project r = ta_project t \<and> ta_release_candidate t = pq_release_candidate r \<and>
      ta_evidence_pack t = pq_evidence_pack r \<and> ta_verdict t = pq_verdict r \<and>
      List.find (\<lambda>a. ap_id a = pq_approval r) (approvals (w_db w)) = Some a \<and> ap_status a = APPROVED
          \<and>
      ap_action a = ''deploy_production'' \<and> ap_risk_tier a = PRODUCTION \<and> ap_explicit a \<and>
      ap_requested_by a = ta_requester_hash t \<and> ap_resolved_at a = Some (ta_approved_at t) \<and>
      ta_approver_type t = ''human'' \<and> ta_approver_hash t \<noteq> ta_requester_hash t \<and>
      member_of w (pq_policy_version r) (ta_approver_hash t) \<and>
      ta_approved_at t < ta_expires_at t \<and> ta_expires_at t \<le> ta_approved_at t + hours 24"
proof -
  have ok: "preapproval_ok w" using assms(1) by (rule preapproval_reach_ok)
  obtain r a where r: "r \<in> set (ls_requests (w_loop w))" "pq_id r = ta_request t" "pq_tenant r = ta_tenant t"
    "pq_project r = ta_project t" "List.find (\<lambda>a. ap_id a = pq_approval r) (approvals (w_db w)) = Some a"
    "approval_shape r a" "ap_status a = APPROVED" "attested r a t"
    "member_of w (pq_policy_version r) (ta_approver_hash t)"
    using attestation_request [OF ok assms(2)] by metis
  have "rows_ok w" using ok by (simp add: preapproval_ok_def)
  then have "ta_approver_type t = ''human''" "ta_expires_at t \<le> ta_approved_at t + hours 24"
    using assms(2) unfolding rows_ok_def by blast+
  with r show ?thesis
    by (intro exI [of _ r] exI [of _ a]) (auto simp: attested_def approval_shape_def gate_eligible_at_creation_def)
qed

lemma attestation_is_granted_witness:
  "ls_attestations (w_loop world_approved) = [example_attestation] \<and>
   (\<exists>r (a :: approval_row). r \<in> set (ls_requests (w_loop world_approved)) \<and> ap_status a =
       APPROVED \<and>
      ap_requested_by a = ta_requester_hash example_attestation \<and> ta_approver_hash example_attestation
          \<noteq> ta_requester_hash example_attestation)"
proof -
  have t: "ls_attestations (w_loop world_approved) = [example_attestation]" by (simp add: world_approved_def)
  have "example_attestation \<in> set (ls_attestations (w_loop world_approved))" by (simp add: t)
  from attestation_is_granted [OF example_reach_approved this] t show ?thesis by blast
qed

text \<open>C21: At most one preapproval of a project is in force: approving a newer release supersedes the older
    one.\<close>

theorem one_preapproval_in_force:
  assumes "preapproval_reach sha reaudits w" "t \<in> set (ls_attestations (w_loop w))" "u \<in> set
      (ls_attestations (w_loop w))"
    "ta_tenant t = ta_tenant u" "ta_project t = ta_project u" "live w t" "live w u"
  shows "t = u"
proof -
  have "one_live w" using preapproval_reach_ok [OF assms(1)] by (simp add: preapproval_ok_def)
  then have "sorted_wrt (<) (map ta_created_at (ls_attestations (w_loop w)))" "ta_created_at u \<le> ta_created_at
      t"
    "ta_created_at t \<le> ta_created_at u"
    using assms(2-7) unfolding one_live_def by metis+
  then show ?thesis using sorted_wrt_less_inj assms(2,3) by (metis order_antisym)
qed

lemma one_preapproval_in_force_witness:
  "live world_approved example_attestation \<and> example_attestation = hd (ls_attestations (w_loop
      world_approved))"
proof -
  have t: "ls_attestations (w_loop world_approved) = [example_attestation]" "ls_preapproval_events (w_loop
      world_approved) = [example_anchor]"
    by (simp_all add: world_approved_def)
  have l: "live world_approved example_attestation" by (simp add: live_def t) (simp add: example_anchor_def)
  show ?thesis
    using one_preapproval_in_force [OF example_reach_approved, of example_attestation "hd (ls_attestations (w_loop
        world_approved))"] t l by simp
qed

text \<open>C22: In every reachable state the coverage passes gate 12 exactly when it is eligible and the pack
    re-audits,
  the verdict opens the gate and the autonomy policy asks for approval: the other rungs of the gate follow.\<close>

theorem covered_gate_iff:
  assumes "preapproval_reach sha reaudits w" "coverage_for_project sha reaudits ctx project now w = Inr c"
  shows "gr_status (gate12 (gate_kwargs c)) = STATUS_PASSED \<longleftrightarrow>
    preapproval_gate_eligible c \<and> preapproval_core_reaudited c \<and> preapproval_verdict_gate_eligible c
        \<and>
    preapproval_autonomy_policy_eligible c"
proof -
  have ok: "preapproval_ok w" using assms(1) by (rule preapproval_reach_ok)
  have sound: "sound12 (gate_kwargs c)"
    if e: "preapproval_gate_eligible c" and i: "preapproval_core_reaudited c" "preapproval_verdict_gate_eligible c"
      "preapproval_autonomy_policy_eligible c"
  proof -
    obtain cs r b t h a where f: "current_sources_of sha reaudits ctx project w = Inr cs"
      "latest_request ctx project w = Some r" "expected_binding sha cs = Inr (Some b)"
      "c = request_coverage ctx now cs (Some b) r w" "binding_is_current cs (Some b) r"
      "attestation_for_request ctx (pq_id r) w = Some t" "latest_lifecycle ctx (ta_id t) w = Some h"
      "pv_type h = ''approved_anchor''" "\<not> preapproval_is_expired (ta_expires_at t) now"
      "approval_get ctx (pq_approval r) (w_db w) = Some a" "ap_status a = APPROVED"
      "evidence_is_consistent r (Some a) (notification_is_valid r (notification_of ctx r w)) (Some t) (Some h)"
      using eligible_coverage [OF assms(2) e] by metis
    note rows = covered_rows [OF ok f(2,6,10)]
    obtain candidate pack verdict parsed autonomy where s: "cs_candidate cs = Some candidate" "cs_core cs = Some
        pack"
      "cs_verdict cs = Some verdict" "cs_parsed_policy cs = Some parsed" "cs_autonomy_policy cs = Some autonomy"
      using binding_sources [OF f(3,5)] by metis
    note pol = current_parsed_policy [OF f(1) s(4)]
    have n: "notification_is_valid r (notification_of ctx r w)" "ta_requester_hash t = pq_requester_hash r"
      "ta_requester_hash t \<noteq> ta_approver_hash t" "ap_approver_prov a = ''request_authenticated''"
      using f(12) rows(1) by (simp_all add: evidence_is_consistent_def attested_def gate_eligible_at_creation_def)
    show ?thesis
      using e i rows(4-8) s pol(1-3) n f(5-12)
      unfolding f(4) sound12_def gate_kwargs_def request_coverage_def Let_def
      by (auto simp: preapproval_evidence.defs base_coverage_def approver_hash_of_def some_text_def
          gate12_contracts_ok_def POLICY_CONTRACT_VERSION_def CONDITIONS_CONTRACT_VERSION_def
          PREAPPROVAL_CONTRACT_VERSION_def)
  qed
  have "sound12 (gate_kwargs c) \<Longrightarrow> preapproval_gate_eligible c \<and> preapproval_core_reaudited c
      \<and>
      preapproval_verdict_gate_eligible c \<and> preapproval_autonomy_policy_eligible c"
    by (simp add: sound12_def gate_kwargs_def preapproval_evidence.defs)
  with sound show ?thesis unfolding gate12_iff by blast
qed

lemma world_approved_simps:
  "ls_requests (w_loop world_approved) = [example_row]" "ls_attestations (w_loop world_approved) =
      [example_attestation]"
  "ls_preapproval_events (w_loop world_approved) = [example_anchor]" "w_approvers world_approved = [example_member]"
  "w_releases world_approved = w_releases example_world" "w_packs world_approved = w_packs example_world"
  "w_pack_runs world_approved = w_pack_runs example_world" "w_verdict_runs world_approved = w_verdict_runs
      example_world"
  "w_verdicts world_approved = w_verdicts example_world" "w_categories world_approved = w_categories example_world"
  "approvals (w_db world_approved) = [example_granted]" "w_notifications world_approved = [example_notified]"
  "autonomy_policies (w_db world_approved) = autonomy_policies (w_db example_world)"
  "projects (w_db world_approved) = projects (w_db example_world)" "db_next_id (w_db world_approved) = 106"
  by (simp_all add: world_approved_def preapproval_audit_def set_db_def audit_record_def)

lemma example_coverage_approved:
  "coverage_for_project example_sha (\<lambda>_ _. True) example_approver 3 9 world_approved =
     Inr (request_coverage example_approver 9 (example_sources example_world) (Some example_binding) example_row
         world_approved)"
  by (rule example_coverage) (simp_all add: world_approved_simps example_approver_def)

lemma example_coverage_eligible:
  "preapproval_gate_eligible
     (request_coverage example_approver 9 (example_sources example_world) (Some example_binding) example_row
         world_approved)"
proof -
  have "approval_get example_approver 102 (w_db world_approved) = Some example_granted"
    by (simp add: approval_get_def world_approved_simps)
      (simp add: example_granted_def resolved_row_def example_asked_def example_approver_def)
  moreover have "notification_of example_approver example_row world_approved = Some example_notified"
    by (simp add: notification_of_def world_approved_simps)
      (simp add: example_notified_def example_row_def example_approver_def)
  moreover have "attestation_for_request example_approver 101 world_approved = Some example_attestation"
    by (simp add: attestation_for_request_def world_approved_simps)
      (simp add: example_attestation_def example_approver_def)
  moreover have "latest_lifecycle example_approver 104 world_approved = Some example_anchor"
    by (simp add: latest_lifecycle_def world_approved_simps) (simp add: example_anchor_def example_approver_def)
  moreover have "binding_is_current (example_sources example_world) (Some example_binding) example_row"
    by (simp add: binding_is_current_def) (simp add: example_sources_def example_row_def example_world_def
        empty_db_def)
  moreover have "evidence_is_consistent example_row (Some example_granted) True (Some example_attestation) (Some
      example_anchor)"
    by (simp add: evidence_is_consistent_def)
      (simp add: example_row_def example_attestation_def example_granted_def resolved_row_def example_asked_def
        identity_separation_ok_def gate_eligible_at_creation_def hours_def REQUEST_AUTHENTICATED_def)
  moreover have "notification_is_valid example_row (Some example_notified)"
    by (simp add: notification_is_valid_def) (simp add: example_row_def example_notified_def)
  moreover have "pq_approval example_row = 102" "pq_id example_row = 101" "ta_id example_attestation = 104"
    "pv_type example_anchor = ''approved_anchor''" "ap_status example_granted = APPROVED"
    "\<not> preapproval_is_expired (ta_expires_at example_attestation) 9"
    by (simp_all add: example_row_def example_attestation_def example_anchor_def example_granted_def
        resolved_row_def
        preapproval_is_expired_def hours_def)
  ultimately show ?thesis by (simp add: request_coverage_def Let_def)
qed

lemma covered_gate_iff_witness:
  "gr_status (gate12 (gate_kwargs (request_coverage example_approver 9 (example_sources example_world)
     (Some example_binding) example_row world_approved))) = STATUS_PASSED"
proof -
  let ?c = "request_coverage example_approver 9 (example_sources example_world) (Some example_binding) example_row
      world_approved"
  have "preapproval_core_reaudited ?c" "preapproval_verdict_gate_eligible ?c"
      "preapproval_autonomy_policy_eligible ?c"
    by (simp_all add: request_coverage_def Let_def base_coverage_def preapproval_evidence.defs example_sources_def
        example_world_def)
  with covered_gate_iff [OF example_reach_approved example_coverage_approved] example_coverage_eligible show
      ?thesis by blast
qed

text \<open>The rows behind an eligible coverage, and the columns of an evaluation recorded from its bindings.\<close>

lemma covered_evaluation_columns:
  assumes "preapproval_reach sha reaudits w" "coverage_for_project sha reaudits ctx project now w = Inr c"
    and "preapproval_gate_eligible c" "store_typed fi (w_loop w)"
    and "load_binding_snapshot ctx project (cov_request_id c) (cov_attestation_id c) eb ev (w_loop w) = (b, ex)"
    and "require_cycle ctx cycle (w_loop w) = Inr cyc" "cy_project cyc = project"
    and "record_evaluation sha fi ctx cycle report True pol latch b ex at clock (w_loop w) = Inr (e, s')"
  obtains r t where "r \<in> set (ls_requests s')" "pq_tenant r = ctx_tenant ctx" "pq_project r = project"
    "latest_request ctx project w = Some r" "t \<in> set (ls_attestations s')" "ta_request t = pq_id r"
    "ta_project t = project" "ta_tenant t = ctx_tenant ctx" "gate_eligible_at_creation t" "now < ta_expires_at t"
    "live w t" "cov_request_id c = Some (pq_id r)" "cov_attestation_id c = Some (ta_id t)"
    "ex = Some (ta_expires_at t)" "el_request e = Some (pq_id r)" "el_attestation e = Some (ta_id t)"
    "el_release_candidate e = Some (pq_release_candidate r)" "el_evidence_pack e = Some (pq_evidence_pack r)"
    "el_verdict e = Some (pq_verdict r)" "el_autonomy_policy e = Some (pq_autonomy_policy r)"
    "el_autonomy_digest e = Some (pq_autonomy_digest r)" "el_expires_at e = Some (ta_expires_at t)"
    "el_project e = project" "el_tenant e = ctx_tenant ctx" "ls_requests s' = ls_requests (w_loop w)"
    "ls_preapproval_events s' = ls_preapproval_events (w_loop w)"
proof -
  have ok: "preapproval_ok w" using assms(1) by (rule preapproval_reach_ok)
  obtain cs r bd t h a where f: "current_sources_of sha reaudits ctx project w = Inr cs"
    "latest_request ctx project w = Some r" "expected_binding sha cs = Inr (Some bd)"
    "c = request_coverage ctx now cs (Some bd) r w" "binding_is_current cs (Some bd) r"
    "attestation_for_request ctx (pq_id r) w = Some t" "latest_lifecycle ctx (ta_id t) w = Some h"
    "pv_type h = ''approved_anchor''" "\<not> preapproval_is_expired (ta_expires_at t) now"
    "approval_get ctx (pq_approval r) (w_db w) = Some a" "ap_status a = APPROVED"
    using eligible_coverage [OF assms(2,3)] by metis
  note lr = latest_request_row [OF f(2)] and at = attestation_for_request_row [OF f(6)] and rows = covered_rows
      [OF ok f(2,6,10)]
  have ids: "cov_request_id c = Some (pq_id r)" "cov_attestation_id c = Some (ta_id t)"
    by (simp_all add: f(4) request_coverage_def Let_def f(6))
  have tp: "ta_project t = project"
    using attestation_request [OF ok at(1)] request_unique [OF ok _ lr(1)] at(3) lr(3) by metis
  have dr: "distinct (map pq_id (ls_requests (w_loop w)))" and dt: "distinct (map ta_id (ls_attestations (w_loop
      w)))"
    using ok by (simp_all add: preapproval_ok_def ids_ok_def)
  have fr: "List.find (\<lambda>x. pq_id x = pq_id r \<and> pq_project x = project \<and> pq_tenant x = ctx_tenant
      ctx)
      (ls_requests (w_loop w)) = Some r"
    using find_by_id_and [OF dr lr(1)] lr(2,3) by simp
  have ft: "List.find (\<lambda>x. ta_id x = ta_id t \<and> ta_request x = pq_id r \<and> ta_project x = project
      \<and>
      ta_tenant x = ctx_tenant ctx) (ls_attestations (w_loop w)) = Some t"
    using find_by_id_and [OF dt at(1)] at(2,3) tp by simp
  obtain autonomy where au: "cs_autonomy_policy cs = Some autonomy" "pq_autonomy_policy r = pol_id autonomy"
    using binding_sources [OF f(3,5)] by metis
  then have "policy_get_for_project ctx project (w_db w) = Inr (Some autonomy)"
    using f(1) by (auto simp: current_sources_of_def no_sources_def Let_def split: option.splits)
  then have "autonomy \<in> set (autonomy_policies (w_db w))" "pol_project autonomy = project" "pol_tenant
      autonomy = ctx_tenant ctx"
    using policy_get_mem by blast+
  then have "List.find (\<lambda>p. pol_id p = pq_autonomy_policy r \<and> pol_project p = project \<and>
      pol_tenant p = ctx_tenant ctx) (autonomy_policies (w_db w)) \<noteq> None"
    using au(2) by (auto simp: find_None_iff)
  then obtain p where p: "List.find (\<lambda>p. pol_id p = pq_autonomy_policy r \<and> pol_project p = project
      \<and>
      pol_tenant p = ctx_tenant ctx) (autonomy_policies (w_db w)) = Some p" by blast
  have b: "map_of b ''preapproval_request_id'' = Some (uuid_str (pq_id r))"
    "map_of b ''preapproval_attestation_id'' = Some (uuid_str (ta_id t))"
    "map_of b ''release_candidate_id'' = Some (uuid_str (pq_release_candidate r))"
    "map_of b ''evidence_pack_id'' = Some (uuid_str (pq_evidence_pack r))"
    "map_of b ''release_verdict_id'' = Some (uuid_str (pq_verdict r))"
    "map_of b ''autonomy_policy_id'' = Some (uuid_str (pq_autonomy_policy r))"
    "map_of b ''autonomy_policy_digest'' = Some (pq_autonomy_digest r)" "ex = Some (ta_expires_at t)"
    using assms(5) by (auto simp: load_binding_snapshot_def ids fr ft p)
  have small: "list_all (\<lambda>i. i < 2 ^ 128)
      [pq_id r, ta_id t, pq_release_candidate r, pq_evidence_pack r, pq_verdict r, pq_autonomy_policy r]"
    using assms(4) lr(1) at(1) by (simp add: store_typed_def list_all_iff)
  obtain snaps where "evaluation_of sha fi (db_next_id (ls_db (w_loop w))) cyc snaps (el_gate_digest e) True pol
      latch b ex
      (case at of None \<Rightarrow> clock | Some t \<Rightarrow> t) = Inr e"
    using record_evaluation_stored [OF assms(8)] assms(6) by (metis sum.inject(2))
  note cols = evaluation_of_columns [OF this]
  have cyc: "cy_tenant cyc = ctx_tenant ctx" using assms(6) by (auto simp: require_cycle_def dest!: find_Some_mem
      split: option.splits)
  have el: "el_request e = Some (pq_id r)" "el_attestation e = Some (ta_id t)" "el_release_candidate e = Some
      (pq_release_candidate r)"
    "el_evidence_pack e = Some (pq_evidence_pack r)" "el_verdict e = Some (pq_verdict r)"
    "el_autonomy_policy e = Some (pq_autonomy_policy r)" "el_autonomy_digest e = Some (pq_autonomy_digest r)"
    "el_expires_at e = Some (ta_expires_at t)" "el_project e = project" "el_tenant e = ctx_tenant ctx"
    using cols(1-6) small unfolding uuid_or_none_def b option.case by (simp_all add: parse_uuid_str cols b cyc
        assms(7))
  have same: "ls_requests s' = ls_requests (w_loop w)" "ls_attestations s' = ls_attestations (w_loop w)"
    "ls_preapproval_events s' = ls_preapproval_events (w_loop w)"
    using assms(8) unfolding record_evaluation_def by (auto split: if_splits)
  have "live w t" by (rule anchor_head_is_live [OF ok at(1,2) f(7,8)])
  moreover have "gate_eligible_at_creation t" "now < ta_expires_at t"
    using rows(1) f(9) by (simp_all add: attested_def preapproval_is_expired_def)
  ultimately show thesis
    using that [of r t] lr at tp f(2) ids el b(8) same by simp
qed

text \<open>C23: When the coverage of a project is eligible and an evaluation of one of its cycles is recorded from its
  bindings, the database finds the preapproval current in the store of that transaction; and in any
  store and at any time it finalises later, with the requests and attestations of then still stored, it
  finds it current exactly when the attestation has not expired by the database's clock, the request is
  still the latest of the project and no event has revoked or superseded the attestation.\<close>

theorem covered_evaluation_is_current:
  assumes "preapproval_reach sha reaudits w" "coverage_for_project sha reaudits ctx project now w = Inr c"
    and "preapproval_gate_eligible c" "store_typed fi (w_loop w)"
    and "load_binding_snapshot ctx project (cov_request_id c) (cov_attestation_id c) eb ev (w_loop w) = (b, ex)"
    and "require_cycle ctx cycle (w_loop w) = Inr cyc" "cy_project cyc = project"
    and "record_evaluation sha fi ctx cycle report True pol latch b ex at clock (w_loop w) = Inr (e, s')"
    and "set (ls_requests s') \<subseteq> set (ls_requests (w_loop z))" "set (ls_attestations s') \<subseteq> set (ls_attestations (w_loop z))"
  shows "preapproval_current e now s' \<and>
    (\<exists>i x. cov_attestation_id c = Some i \<and> ex = Some x \<and>
      (preapproval_current e instant (w_loop z) \<longleftrightarrow>
         instant < x \<and> map_option pq_id (latest_request ctx project z) = cov_request_id c \<and>
         \<not> (\<exists>l\<in>set (ls_preapproval_events (w_loop z)).
              pv_attestation l = i \<and> pv_type l \<in> {''revoked'', ''superseded''})))"
proof -
  obtain r t where rt: "r \<in> set (ls_requests s')" "pq_tenant r = ctx_tenant ctx" "pq_project r = project"
    "latest_request ctx project w = Some r" "t \<in> set (ls_attestations s')" "ta_request t = pq_id r"
    "ta_project t = project" "ta_tenant t = ctx_tenant ctx" "gate_eligible_at_creation t" "now < ta_expires_at t"
    "live w t" "cov_request_id c = Some (pq_id r)" "cov_attestation_id c = Some (ta_id t)"
    "ex = Some (ta_expires_at t)" and el: "el_request e = Some (pq_id r)" "el_attestation e = Some (ta_id t)"
    "el_release_candidate e = Some (pq_release_candidate r)" "el_evidence_pack e = Some (pq_evidence_pack r)"
    "el_verdict e = Some (pq_verdict r)" "el_autonomy_policy e = Some (pq_autonomy_policy r)"
    "el_autonomy_digest e = Some (pq_autonomy_digest r)" "el_expires_at e = Some (ta_expires_at t)"
    "el_project e = project" "el_tenant e = ctx_tenant ctx" and same: "ls_requests s' = ls_requests (w_loop w)"
    "ls_preapproval_events s' = ls_preapproval_events (w_loop w)"
    by (rule covered_evaluation_columns [OF assms(1-8)])
  have current: "preapproval_current e u s2 \<longleftrightarrow> u < ta_expires_at t \<and>
      map_option pq_id (latest_by (\<lambda>lr. (pq_created_at lr, pq_id lr))
        (filter (\<lambda>lr. pq_tenant lr = ctx_tenant ctx \<and> pq_project lr = project) (ls_requests s2))) = Some (pq_id r) \<and>
      \<not> (\<exists>l\<in>set (ls_preapproval_events s2). pv_attestation l = ta_id t \<and> pv_type l \<in> {''revoked'', ''superseded''})"
    (is "_ \<longleftrightarrow> ?now u s2") if mem: "r \<in> set (ls_requests s2)" "t \<in> set (ls_attestations s2)" for u s2
  proof
    show "?now u s2" if "preapproval_current e u s2"
      using that unfolding preapproval_current_def list_ex_iff el option.inject
      by (elim bexE conjE) (simp add: conj_commute)
    show "preapproval_current e u s2" if "?now u s2"
      unfolding preapproval_current_def el list_ex_iff
      by (intro bexI [of _ r] conjI bexI [of _ t]) (use that rt(2,3,6-9) mem in \<open>simp_all add: conj_commute\<close>)
  qed
  have "preapproval_current e now s'"
    using current [OF rt(1,5)] rt(4,10,11) by (auto simp: live_def latest_request_def same)
  moreover have "r \<in> set (ls_requests (w_loop z))" "t \<in> set (ls_attestations (w_loop z))"
    using assms(9,10) rt(1,5) by blast+
  note current [OF this]
  ultimately show ?thesis using rt(12-14) by (simp add: latest_request_def)
qed

text \<open>The example world with a cycle of the control loop.\<close>

definition looped_world :: release_world where
  "looped_world = world_approved\<lparr>w_loop := (w_loop world_approved)\<lparr>ls_cycles :=
     [\<lparr>cy_id = 50, cy_tenant = 7, cy_project = 3, cy_run = 51, cy_key_digest = [],
       cy_contract_version = CONTROL_LOOP_CONTRACT_VERSION, cy_contract_hash = [], cy_created_at =
           0\<rparr>]\<rparr>\<rparr>"

lemma looped_world_simps:
  "ls_requests (w_loop looped_world) = [example_row]" "ls_attestations (w_loop looped_world) =
      [example_attestation]"
  "ls_preapproval_events (w_loop looped_world) = [example_anchor]" "w_db looped_world = w_db world_approved"
  "ls_isolation (w_loop looped_world) = ''serializable''"
  "w_approvers looped_world = w_approvers world_approved" "w_releases looped_world = w_releases example_world"
  "w_packs looped_world = w_packs example_world" "w_pack_runs looped_world = w_pack_runs example_world"
  "w_verdict_runs looped_world = w_verdict_runs example_world" "w_verdicts looped_world = w_verdicts example_world"
  "w_categories looped_world = w_categories example_world" "w_notifications looped_world = w_notifications
      world_approved"
  by (simp_all add: looped_world_def world_approved_simps)
    (simp add: world_approved_def world_anchored_def world_attested_def world_requested_def world_asked_def
      world_snapshot_def preapproval_audit_def set_db_def bump_def Let_def example_world_def)

lemma looped_reach: "preapproval_reach example_sha (\<lambda>_ _. True) looped_world"
  by (rule preapproval_reach.elsewhere [OF example_reach_approved]) (simp add: same_preapprovals_def
      looped_world_def)

lemma looped_coverage:
  "coverage_for_project example_sha (\<lambda>_ _. True) example_approver 3 9 looped_world =
     Inr (request_coverage example_approver 9 (example_sources example_world) (Some example_binding) example_row
         world_approved)"
proof -
  have "request_coverage ctx now cs b r looped_world = request_coverage ctx now cs b r world_approved" for ctx now
      cs b r
    by (simp add: request_coverage_def Let_def looped_world_simps world_approved_simps notification_of_def
        attestation_for_request_def latest_lifecycle_def policy_has_member_def)
  moreover have "coverage_for_project example_sha (\<lambda>_ _. True) example_approver 3 9 looped_world =
      Inr (request_coverage example_approver 9 (example_sources example_world) (Some example_binding) example_row
          looped_world)"
    by (rule example_coverage) (simp_all add: looped_world_simps world_approved_simps example_approver_def)
  ultimately show ?thesis by simp
qed

lemma example_digest_ok: "context_digest_ok (PStr (''sha256:'' @ example_sha b))"
proof -
  have "set (replicate 64 (CHR ''a'')) = {CHR ''a''}" "set (replicate 64 (CHR ''b'')) = {CHR ''b''}"
    "set (replicate 64 (CHR ''c'')) = {CHR ''c''}" by simp_all
  then show ?thesis
    by (simp add: context_digest_ok_def example_sha_def HASH_PREFIX_def CONDITION_HASH_def)
qed

lemma covered_evaluation_is_current_witness:
  "\<exists>e s'. ls_evaluations s' = [e] \<and> el_preapproval e \<and> preapproval_current e 9 s' \<and>
     \<not> preapproval_current e (hours 24) s'"
proof -
  let ?c = "request_coverage example_approver 9 (example_sources example_world) (Some example_binding) example_row
      world_approved"
  have ids: "cov_request_id ?c = Some 101" "cov_attestation_id ?c = Some 104"
  proof -
    have "attestation_for_request example_approver 101 world_approved = Some example_attestation"
      by (simp add: attestation_for_request_def world_approved_simps)
        (simp add: example_attestation_def example_approver_def)
    then show "cov_request_id ?c = Some 101" "cov_attestation_id ?c = Some 104"
      by (simp_all add: request_coverage_def Let_def) (simp_all add: example_row_def example_attestation_def)
  qed
  define b where "b = fst (load_binding_snapshot example_approver 3 (cov_request_id ?c) (cov_attestation_id ?c)
      None None (w_loop looped_world))"
  have b: "load_binding_snapshot example_approver 3 (cov_request_id ?c) (cov_attestation_id ?c) None None (w_loop
      looped_world) =
      (b, Some (hours 24))"
    "b = [(''release_candidate_id'', uuid_str 10), (''evidence_pack_id'', uuid_str 12), (''release_verdict_id'',
        uuid_str 14),
      (''preapproval_request_id'', uuid_str 101), (''preapproval_attestation_id'', uuid_str 104),
      (''autonomy_policy_id'', uuid_str 4), (''autonomy_policy_digest'', example_autonomy_digest),
      (''autonomy_policy_updated_at'', iso_utc 0)]"
    by (simp_all add: b_def load_binding_snapshot_def ids looped_world_simps world_approved_simps)
      (simp_all add: example_row_def example_attestation_def example_world_def empty_db_def example_approver_def)
  obtain snaps gd where sn: "snapshots_of example_sha (a5_gates full_evidence) = Inr snaps"
    "gate_result_digest example_sha snaps = Inr gd"
    using report_frozen [of example_sha, OF example_digest_ok] by blast
  obtain cyc where cyc: "require_cycle example_approver 50 (w_loop looped_world) = Inr cyc" "cy_project cyc = 3"
    by (simp add: require_cycle_def looped_world_def example_approver_def)
  have "iso_utc 0 \<noteq> []" by code_simp
  then have "updated_at_of (\<lambda>_. Some 0) b = Inr (Some 0)" by (simp add: updated_at_of_def b(2))
  moreover have "uuid_or_none b ''release_candidate_id'' = Inr (Some 10)" "uuid_or_none b ''evidence_pack_id'' =
      Inr (Some 12)"
    "uuid_or_none b ''release_verdict_id'' = Inr (Some 14)" "uuid_or_none b ''preapproval_request_id'' = Inr (Some
        101)"
    "uuid_or_none b ''preapproval_attestation_id'' = Inr (Some 104)" "uuid_or_none b ''autonomy_policy_id'' = Inr
        (Some 4)"
    "uuid_or_none b ''emergency_control_binding_id'' = Inr None" "uuid_or_none b ''emergency_stop_event_id'' = Inr
        None"
    by (rule sample_uuid; simp add: b(2))+ (simp_all add: uuid_or_none_def b(2))
  ultimately obtain e where e: "evaluation_of example_sha (\<lambda>_. Some 0) (db_next_id (w_db looped_world))
      cyc snaps gd True
      ''needs_approval'' False b (Some (hours 24)) 4 = Inr e"
    by (simp add: evaluation_of_def)
  have report: "rep_project (evaluate_production_autonomy (uuid_str 3) full_evidence) = uuid_str 3"
    "rep_gates (evaluate_production_autonomy (uuid_str 3) full_evidence) = a5_gates full_evidence"
    by (simp add: evaluate_production_autonomy_def) (rule a5_gates_sorted)
  have ev: "ls_evaluations (w_loop looped_world) = []"
    by (simp add: looped_world_def world_approved_def world_anchored_def world_attested_def world_requested_def
        world_asked_def
      world_snapshot_def preapproval_audit_def set_db_def bump_def Let_def example_world_def)
  obtain s' where rec: "record_evaluation example_sha (\<lambda>_. Some 0) example_approver 50
      (evaluate_production_autonomy (uuid_str 3) full_evidence) True ''needs_approval'' False b (Some (hours 24))
          (Some 4) 4
      (w_loop looped_world) = Inr (e, s')" "ls_evaluations s' = [e]"
    using sn e cyc report by (simp add: record_evaluation_def require_serializable_def looped_world_simps ev)
  have typed: "store_typed (\<lambda>_. Some 0) (w_loop looped_world)"
    by (simp add: store_typed_def looped_world_simps world_approved_simps)
      (simp add: example_row_def example_attestation_def example_world_def empty_db_def)
  have "preapproval_current e 9 s' \<and> \<not> preapproval_current e (hours 24) s'"
    using covered_evaluation_is_current [OF looped_reach looped_coverage example_coverage_eligible typed b(1)
        cyc rec(1), of "looped_world\<lparr>w_loop := s'\<rparr>" "hours 24"] by auto
  moreover have "el_preapproval e" using evaluation_of_columns(11) [OF e] by simp
  ultimately show ?thesis using rec(2) by blast
qed

section \<open>What the guard refuses\<close>

lemma validate_request_stale:
  assumes "r \<in> set (ls_requests (w_loop w))" "distinct (map pq_id (ls_requests (w_loop w)))"
    "List.find (\<lambda>c. rl_id c = pq_release_candidate r) (w_releases w) = Some c" "rl_status c \<noteq>
        ''frozen''"
  shows "validate_request sha (pq_id r) w \<noteq> Inr ()"
  using find_by_id [OF assms(2,1)] assms(3,4) by (auto simp: validate_request_def)

lemma revoke_releases:
  "preapproval_revoke sha ctx project i key clock w = Inr (res, w') \<Longrightarrow> w_releases w' = w_releases w"
  by (auto simp: preapproval_revoke_def append_lifecycle_event_def preapproval_audit_def set_db_def bump_def Let_def
      split: option.splits if_splits)

lemma approve_releases:
  assumes "preapproval_approve sha reaudits ctx project request key now clock w = Inr (res, w')"
  shows "w_releases w' = w_releases w"
proof -
  have "w_releases (set_db d x) = w_releases x" "w_releases (bump x) = w_releases x"
    "w_releases (preapproval_audit ctx a p t u st q x) = w_releases x" for d x a p t u st q
    by (simp_all add: set_db_def bump_def preapproval_audit_def)
  note frame = this
  have att: "append_attestation ctx r a h ty k e c x = Inr (y, x') \<Longrightarrow> w_releases x' = w_releases x"
      for r a h ty k e c x y x'
    by (auto simp: append_attestation_def Let_def frame split: option.splits)
  have ev: "append_lifecycle_event ctx t p ty h at k q c x = Inr (y, x') \<Longrightarrow> w_releases x' =
      w_releases x" for t p ty h at k q c x y x'
    by (auto simp: append_lifecycle_event_def Let_def frame)
  have sup: "supersede_prior sha ctx project t h ty k c x = Inr x' \<Longrightarrow> w_releases x' = w_releases x"
      for t h ty k c x x'
    by (auto simp: supersede_prior_def dest!: ev split: option.splits if_splits)
  have gen: "approve_generic ctx i h x = Inr (y, x') \<Longrightarrow> w_releases x' = w_releases x" for i h x y x'
    by (auto simp: approve_generic_def frame split: sum.splits approval_error.splits)
  show ?thesis
    using assms unfolding preapproval_approve_def
    by (auto simp: frame dest!: att ev sup gen split: option.splits bool.splits)
qed

text \<open>The request of an attestation is checked again whenever an event of it is inserted.\<close>

lemma event_rechecks:
  assumes ok: "preapproval_ok w" and g: "grows w w' [] ts vs []" and v: "v \<in> set vs" "pv_attestation v = ta_id
      t"
    and t: "t \<in> set (ls_attestations (w_loop w))" and r: "r \<in> set (ls_requests (w_loop w))" "pq_id r =
        ta_request t"
    and c: "List.find (\<lambda>c. rl_id c = pq_release_candidate r) (w_releases w') = Some c" "rl_status c
        \<noteq> ''frozen''"
  shows "commit sha w w' \<noteq> Inr ()"
proof
  assume "commit sha w w' = Inr ()"
  then have all: "\<forall>i\<in>set (guarded_requests w w'). validate_request sha i w' = Inr ()" by (simp add:
      commit_def)
  have "distinct (map ta_id (ls_attestations (w_loop w)))" using ok by (simp add: preapproval_ok_def ids_ok_def)
  then have "List.find (\<lambda>t. ta_id t = pv_attestation v) (ls_attestations (w_loop w)) = Some t"
    using t v(2) by (simp add: find_by_id_iff)
  then have "List.find (\<lambda>t. ta_id t = pv_attestation v) (ls_attestations (w_loop w')) = Some t"
    using g by (auto simp: grows_def intro: find_append_Some)
  then have "ta_request t \<in> set (guarded_requests w w')" by (rule guarded_intros(3) [OF g v(1)])
  then have "validate_request sha (pq_id r) w' = Inr ()" using all r(2) by simp
  moreover have "validate_request sha (pq_id r) w' \<noteq> Inr ()"
    by (rule validate_request_stale [OF _ _ c]) (use g r(1) ok in \<open>simp_all add: grows_def
        preapproval_ok_def ids_ok_def\<close>)
  ultimately show False by simp
qed

text \<open>C24: A preapproval in force whose candidate is no longer frozen can be neither revoked nor replaced: no
  transaction that revokes it, and none that approves another request of the project, commits.\<close>

theorem stale_preapproval_is_stuck:
  assumes "preapproval_reach sha reaudits w" "t \<in> set (ls_attestations (w_loop w))" "live w t"
    and "r \<in> set (ls_requests (w_loop w))" "pq_id r = ta_request t"
    and "List.find (\<lambda>c. rl_id c = pq_release_candidate r) (w_releases w) = Some c" "rl_status c \<noteq>
        ''frozen''"
    and "ctx_tenant ctx = ta_tenant t"
    and "committed sha w (preapproval_revoke sha ctx project (ta_id t) key clock w) = Inr (res, w') \<or>
         committed sha w (preapproval_approve sha reaudits ctx (ta_project t) request key now clock w) = Inr (res,
             w')"
  shows "w' = w"
proof -
  have ok: "preapproval_ok w" and wf: "approvals_wf (w_db w)"
    using preapproval_reach_ok [OF assms(1)] by (simp_all add: preapproval_ok_def ids_ok_def)
  note recheck = event_rechecks [OF ok _ _ _ assms(2,4,5)]
  show ?thesis
    using assms(9)
  proof
    assume "committed sha w (preapproval_revoke sha ctx project (ta_id t) key clock w) = Inr (res, w')"
    then have run: "preapproval_revoke sha ctx project (ta_id t) key clock w = Inr (res, w')" and com: "commit sha
        w w' = Inr ()"
      by simp_all
    from preapproval_revoke_effect [OF run wf] show ?thesis
    proof (elim disjE exE conjE)
      fix u v assume "grows w w' [] [] [v] []" "pv_attestation v = ta_id u" "ta_id u = ta_id t"
      then show ?thesis
        using recheck [of w' "[]" "[v]" v c] com assms(6,7) revoke_releases [OF run] by simp
    qed
  next
    assume "committed sha w (preapproval_approve sha reaudits ctx (ta_project t) request key now clock w) = Inr
        (res, w')"
    then have run: "preapproval_approve sha reaudits ctx (ta_project t) request key now clock w = Inr (res, w')"
      and com: "commit sha w w' = Inr ()" by simp_all
    from preapproval_approve_effect [OF run wf] show ?thesis
    proof (elim disjE exE conjE)
      fix q u anchor vs w3 assume g: "grows w w' [] [u] (anchor # vs) []"
        and u: "ta_id u = db_next_id (w_db w)" "pv_attestation anchor = ta_id u"
        and w3: "ls_attestations (w_loop w3) = ls_attestations (w_loop w) @ [u]"
          "ls_preapproval_events (w_loop w3) = ls_preapproval_events (w_loop w) @ [anchor]"
        and sup: "supersedes ctx (ta_project t) (ta_id u) w3 vs"
      obtain v where "v \<in> set vs" "pv_attestation v = ta_id t"
        using live_is_superseded [OF ok w3 u sup assms(2,3) assms(8) [symmetric] refl] by blast
      then show ?thesis
        using recheck [OF g, of v c] com assms(6,7) approve_releases [OF run] by simp
    qed
  qed
qed

text \<open>The example world after its candidate was superseded: the workflow revokes, and the commit is
    refused.\<close>

definition stale_world :: release_world where
  "stale_world = world_approved\<lparr>w_releases := [(hd (w_releases example_world))\<lparr>rl_status :=
      ''superseded''\<rparr>]\<rparr>"

lemma stale_reach: "preapproval_reach example_sha (\<lambda>_ _. True) stale_world"
  by (rule preapproval_reach.elsewhere [OF example_reach_approved]) (simp add: same_preapprovals_def
      stale_world_def)

lemma stale_world_simps:
  "w_db stale_world = w_db world_approved" "ls_requests (w_loop stale_world) = [example_row]"
  "ls_attestations (w_loop stale_world) = [example_attestation]" "ls_preapproval_events (w_loop stale_world) =
      [example_anchor]"
  "w_approvers stale_world = [example_member]"
  "w_releases stale_world = [\<lparr>rl_id = 10, rl_tenant = 7, rl_project = 3, rl_status = ''superseded'',
      rl_frozen_at = 1\<rparr>]"
  by (simp_all add: stale_world_def world_approved_simps) (simp add: example_world_def)

lemma revoke_key_fresh: "pv_key_hash example_anchor \<noteq> example_digest (PDict [(''idempotency_key'', PStr
    ''k3'')])"
proof
  let ?a = "PDict [(''event'', PStr ''approved_anchor''), (''resolution_key_hash'', PStr (example_digest (PDict
      [(''idempotency_key'', PStr ''k2'')])))]"
  assume "pv_key_hash example_anchor = example_digest (PDict [(''idempotency_key'', PStr ''k3'')])"
  then have "example_sha (utf8 (json_text False ?a)) = example_sha revoke_key"
    by (simp add: example_anchor_def example_digest_def revoke_key_def)
  moreover have "revoke_key \<noteq> utf8 (json_text False conditions_value)" "revoke_key \<noteq> subject_text
      ''owner''"
    unfolding revoke_key_def subject_text_def utf8_inj single_entry_inj
    by (rule conditions_not_single [symmetric]) simp
  then have "example_sha revoke_key = replicate 64 (CHR ''c'')" by (simp add: example_sha_def)
  moreover have "utf8 (json_text False ?a) \<noteq> revoke_key"
  proof
    assume "utf8 (json_text False ?a) = revoke_key"
    then have "json_text False ?a = json_text False (PDict [(''idempotency_key'', PStr ''k3'')])" by (simp only:
        revoke_key_def utf8_inj)
    from json_object_length [OF _ _ this] show False by simp
  qed
  moreover have "drop 7 CONDITION_HASH \<noteq> replicate 64 (CHR ''c'')" by code_simp
  ultimately show False unfolding example_sha_def [of "utf8 (json_text False ?a)"] by (auto split: if_splits simp
      del: json_text.simps)
qed

lemma stale_revocation:
  "\<exists>res w'. preapproval_revoke example_sha example_approver 3 104 ''k3'' 20 stale_world = Inr (res, w')
      \<and> w' \<noteq> stale_world"
proof -
  have t: "get_attestation example_approver 3 104 stale_world = Some example_attestation"
    by (simp add: get_attestation_def stale_world_simps) (simp add: example_attestation_def example_approver_def)
  have r: "get_request example_approver 3 101 stale_world = Some example_row"
    by (simp add: get_request_def stale_world_simps) (simp add: example_row_def example_approver_def)
  have l: "lock_project_row example_approver 3 (w_db stale_world) = Inr \<lparr>pr_id = 3, pr_tenant = 7\<rparr>"
    by (simp add: lock_project_row_def stale_world_simps world_approved_simps) (simp add: example_world_def
        example_approver_def)
  have a: "require_actor example_approver = Inr \<lparr>actor_subject = ''owner'', actor_type = ''human''\<rparr>"
    by (simp add: require_actor_def example_approver_def)
  have p: "require_policy_approver example_sha example_approver example_row False stale_world = Inr owner_hash"
    by (simp add: require_policy_approver_def require_actor_def example_approver_def example_subjects
        policy_has_member_def
        actor_evidence_of_def optional_digest_def stale_world_simps) (simp add: example_member_def example_row_def)
  have h: "latest_lifecycle example_approver 104 stale_world = Some example_anchor"
    by (simp add: latest_lifecycle_def stale_world_simps) (simp add: example_anchor_def example_approver_def)
  have f: "ta_request example_attestation = 101" "ta_id example_attestation = 104" "pv_type example_anchor =
      ''approved_anchor''"
    "pv_previous example_anchor = None"
    by (simp_all add: example_attestation_def example_anchor_def)
  obtain v w1 where v: "append_lifecycle_event example_approver example_attestation (Some (pv_id example_anchor))
      ''revoked'' owner_hash
      ''human'' ''request_authenticated_preapproval_revoked'' (example_digest (PDict [(''idempotency_key'', PStr
          ''k3'')])) 20 stale_world = Inr (v, w1)"
    by (simp add: append_lifecycle_event_def event_constraints_def stale_world_simps Let_def revoke_key_fresh f)
  then have "ls_preapproval_events (w_loop w1) \<noteq> ls_preapproval_events (w_loop stale_world)"
    by (auto simp: append_lifecycle_event_def Let_def)
  then have "preapproval_audit ctx x p i y z q w1 \<noteq> stale_world" for ctx x p i y z q
    using preapproval_audit_simps(3) by metis
  then show ?thesis
    by (simp add: preapproval_revoke_def l t r a p h f example_keys v)
qed

lemma stale_preapproval_is_stuck_witness:
  "(\<exists>res w'. preapproval_revoke example_sha example_approver 3 104 ''k3'' 20 stale_world = Inr (res, w')
      \<and> w' \<noteq> stale_world) \<and>
   \<not> (\<exists>res w'. committed example_sha stale_world (preapproval_revoke example_sha example_approver 3
       104 ''k3'' 20 stale_world) =
     Inr (res, w') \<and> w' \<noteq> stale_world)"
proof -
  have i: "example_attestation \<in> set (ls_attestations (w_loop stale_world))" "example_row \<in> set
      (ls_requests (w_loop stale_world))"
    "pq_id example_row = ta_request example_attestation" "ta_id example_attestation = 104"
    "ctx_tenant example_approver = ta_tenant example_attestation"
    by (simp_all add: stale_world_simps) (simp_all add: example_row_def example_attestation_def
        example_approver_def)
  have l: "live stale_world example_attestation"
    by (simp add: live_def stale_world_simps) (simp add: example_anchor_def)
  have c: "List.find (\<lambda>c. rl_id c = pq_release_candidate example_row) (w_releases stale_world) =
      Some \<lparr>rl_id = 10, rl_tenant = 7, rl_project = 3, rl_status = ''superseded'', rl_frozen_at = 1\<rparr>"
    by (simp add: stale_world_simps) (simp add: example_row_def)
  have n: "rl_status \<lparr>rl_id = 10, rl_tenant = 7, rl_project = 3, rl_status = ''superseded'', rl_frozen_at =
      1\<rparr> \<noteq> ''frozen''" by simp
  note stuck = stale_preapproval_is_stuck [OF stale_reach i(1) l i(2,3) c n i(5), unfolded i(4)]
  show ?thesis using stale_revocation stuck by blast
qed

end
