(* ===== verification/Spec2Isabelle.thy ===== *)
theory Spec2Isabelle
  imports Tools Cost Emergency Readiness Autonomy_Report Control_Loop Verdict Release_Issues Task_Invariant Decision_Chain
    Preapproval_Properties
begin

text \<open>
  \<^bold>\<open>A verification development for UAID OS\<close>

  UAID OS runs autonomous software projects under a policy: agents act through a tool broker, risky
  actions wait for a human approval, every cost is booked against a budget, intake must be complete
  before a release is considered, and a release goes live only after thirteen production-autonomy
  gates.  The Python packages under \<open>src/app\<close> are pure contracts (\<open>policy\<close>, \<open>tools\<close>, \<open>intake\<close>,
  \<open>release\<close>, \<open>cost.py\<close>, \<open>approvals\<close>) and repositories over PostgreSQL tables (\<open>repositories\<close>, rows in
  \<open>models\<close>).  The theories model the pure contracts function by function, and the repositories as
  functions on stores of rows.

  \<^bold>\<open>Foundations.\<close>
  \<^item> \<^theory_text>\<open>Prelude\<close>: errors as sums (\<open>bindE\<close>, \<open>check\<close>), Python values (\<open>pyval\<close>) and dictionaries, \<open>str.strip\<close>
    and \<open>str.lower\<close>, identifiers and their text, times in microseconds, latest-row and update helpers.
  \<^item> \<^theory_text>\<open>Interfaces\<close>: the locales shared by several components: \<open>one_way_lifecycle\<close> (a status machine with
    terminal states), \<open>grant_ledger\<close> (append-only grants whose latest event decides) and the laws proved once in them.
  \<^item> \<^theory_text>\<open>Store\<close>: the rows and tables of the runtime database, verified actors, the tenant context, \<open>audit.record\<close>.
  \<^item> \<^theory_text>\<open>Json\<close>, \<^theory_text>\<open>Canonical\<close>: the part of Python's \<open>json\<close>, \<open>Decimal\<close> text and \<open>uuid.UUID\<close> parsing the
    program relies on; canonical JSON is injective (locale \<open>prefix_code\<close>, interpreted on the escape and UTF-8 codes).

  \<^bold>\<open>Control of actions.\<close>
  \<^item> \<^theory_text>\<open>Policy\<close> (\<open>app/policy\<close>): autonomy levels, the rule matrix, tightening overrides and \<open>decision_for\<close>.
    The lemmas give the exact condition of ALLOW and show that no stored override relaxes the matrix.
  \<^item> \<^theory_text>\<open>Approvals\<close> (\<open>app/approvals\<close>, \<open>repositories/approvals.py\<close>): request, approve, reject, cancel and expire, the
    action gate, and the reachable databases under all of them.
  \<^item> \<^theory_text>\<open>Tools\<close> (\<open>app/tools\<close>): registry, redaction of parameters, allow-lists, and the broker with its record.
  \<^item> \<^theory_text>\<open>Cost\<close> (\<open>app/cost.py\<close>, \<open>repositories/cost.py\<close>): money validation, the idempotent ledger, budgets, stops.
  \<^item> \<^theory_text>\<open>Runs\<close>, \<^theory_text>\<open>Emergency\<close> (\<open>repositories/runs.py\<close>, \<open>emergency_controls.py\<close>): the run state machine and the
    emergency-stop latch over the same database, with the invariant that no run of a stopped project runs.

  \<^bold>\<open>Intake.\<close>
  \<^item> \<^theory_text>\<open>Intake\<close> (\<open>app/intake/categories.py\<close> and its repository): declarations and their validation.
  \<^item> \<^theory_text>\<open>Readiness\<close> (\<open>app/intake/readiness.py\<close>, \<open>findings.py\<close> and the repository): the ladder R0 to R5, the gap and
    contradiction detector, and the recorded report.

  \<^bold>\<open>Review.\<close>
  \<^item> \<^theory_text>\<open>Task_Contracts\<close>, \<^theory_text>\<open>Task_Workflow\<close>, \<^theory_text>\<open>Task_Invariant\<close> (\<open>app/review\<close>, \<open>repositories/task_contracts.py\<close>,
    \<open>review_reports.py\<close>, the guards of migration \<open>0041\<close>): validators, the status machine, links, reviewers and
    reports, and the invariant \<open>review_ok\<close>: a completed task was reviewed by all three layers.

  \<^bold>\<open>Release.\<close>
  \<^item> \<^theory_text>\<open>Gate_Evidence\<close>, \<^theory_text>\<open>Autonomy_Report\<close> (\<open>app/release/production_autonomy.py\<close>): the thirteen gate ladders in
    the order of their branches, and the report; \<open>sound2\<close> to \<open>sound13\<close> specify the evidence of a gate,
    and the report is proved to refine them.
  \<^item> \<^theory_text>\<open>Go_Live\<close> (\<open>go_live_decision.py\<close>, stages): the event contract of the control loop, proved equal to a machine
    with a position and a mode; \<^theory_text>\<open>Decision\<close>: gate snapshots, decision inputs, digests and eligibility;
    \<^theory_text>\<open>Snapshots\<close>, \<^theory_text>\<open>Control_Loop\<close> (\<open>repositories/go_live_decisions.py\<close>): cycles, events, evaluations, retries.
    A log holds at most 64 events, so a loop paused more than 56 times cannot be completed.
  \<^item> \<^theory_text>\<open>Finalization\<close>, \<^theory_text>\<open>Decision_Chain\<close> (the functions of migration \<open>0054\<close>): what the database itself checks
    of an event, an evaluation and a decision, proved to agree with the Python contracts; the invariant
    \<open>loop_ok\<close> of every reachable store, and what a finalised decision rests on.  A decision rests on an
    evaluation and its gates, not on the event log: \<open>slice55_finalize_decision\<close> reads no event, and the
    runtime appends the event of the last stage after the decision.  The order of the stages is a
    property of the stored events alone.
  \<^item> \<^theory_text>\<open>Notifications\<close> (\<open>app/approvals/channels\<close>): the notification a production approval goes out with;
    \<^theory_text>\<open>Preapproval_Contract\<close> (\<open>production_approval.py\<close>): the recorded policy and the digests that bind a release;
    \<^theory_text>\<open>Preapprovals\<close>, \<^theory_text>\<open>Preapproval_Service\<close> (\<open>production_preapprovals.py\<close>, \<open>production_approval_service.py\<close>): the rows,
    the coverage given to gate 12, and request, approve, reject, cancel and revoke as transactions;
    \<^theory_text>\<open>Preapproval_Guard\<close>: the checks migration \<open>0052\<close> defers to the commit.  \<^theory_text>\<open>Preapproval_Invariant\<close> proves
    \<open>preapproval_ok\<close> of every reachable state, \<^theory_text>\<open>Preapproval_Example\<close> runs the workflow once, and
    \<^theory_text>\<open>Preapproval_Properties\<close> draws the consequences up to the finalised decision.
  \<^item> \<^theory_text>\<open>Verdict\<close> (\<open>release_manager.py\<close>): the issue-disposition ladder of a release candidate.
  \<^item> \<^theory_text>\<open>Release_Records\<close>, \<^theory_text>\<open>Release_Issues\<close> (\<open>issues.py\<close>, \<open>risk_acceptance.py\<close>, their repositories, and the
    guards that migration \<open>0046\<close> installs in the database): issues, the bridge from trusted findings, risk
    acceptances; the invariant \<open>release_ok\<close> holds in every reachable store.

  \<^bold>\<open>How the state corresponds.\<close>  A table is a list of row records in insertion order; a repository method
  is a function from the tenant context, its arguments and the store to an error or a result with the
  new store, so that an exception leaves the store as it was, as the enclosing transaction does.  The
  database's fresh identifier and clock are the counter \<open>db_next_id\<close> and an argument.  A Python
  dictionary is an association list, \<open>None\<close> the constructor \<open>PNone\<close>, text a list of characters up
  to U+00FF.  Reachability is an inductive predicate over exactly the modelled operations.

  \<^bold>\<open>Parameters.\<close>  \<open>hashlib.sha256\<close> is an argument, and where a theorem needs it the hypothesis says that two
  named texts do not collide.  The parsing of dates by the database driver is an argument, and so is
  whether an evidence pack re-audits (\<open>reaudits\<close>), which gathers forty tables.

  \<^bold>\<open>Termination and bounds.\<close>  Loops of the code are structural recursions or folds; the search through chained
  exceptions (\<open>transaction_sqlstate\<close>) is a well-founded recursion on the unvisited objects; the retry loop
  makes five attempts.  No definition needs fuel.

  \<^bold>\<open>Not modelled.\<close>  Foreign keys, row-level security and the triggers of migrations other than \<open>0041\<close>, \<open>0046\<close>,
  \<open>0052\<close> and \<open>0054\<close> (the audit hash chain among them); concurrent transactions, so the branches that
  recover from a lost race on a unique index are not reached; PostgreSQL's refusal of NUL characters,
  except where \<open>Task_Workflow\<close> creates a contract; the engine that drives LangGraph; connectors,
  language-model clients and the HTTP layer, which are I/O; the repositories that only gather the
  arguments of the modelled evaluators.
\<close>

end
